(* ===== verification/Prelude.thy ===== *)
theory Prelude
  imports Complex_Main "HOL-Library.Char_ord" "HOL-Library.List_Lexorder"
begin

text \<open>
  Shared vocabulary of the development: JavaScript values, the results of functions that may
  throw, the string operations and regular expressions the sources use, and the lemma
  collections and rules that carry the proofs of the component theories.

  A JavaScript value is a \<open>js\<close>. A number is a finite double, an infinity or NaN; every finite
  double is a rational, so \<open>Fin\<close> carries a \<open>rat\<close>. A string is a list of code units, and the
  model covers the strings whose code units are below 256 (Latin-1), on which \<open>trim\<close>,
  \<open>toLowerCase\<close> and \<open>normalize("NFC")\<close> have the exact effect written here. An object is its
  list of own properties in creation order; reading a property that is missing gives
  \<open>undefined\<close>, or an inherited function for the names of \<open>Object.prototype\<close>. A \<open>Date\<close> carries
  its time value in milliseconds, \<open>None\<close> for an invalid date.
\<close>

section \<open>Collections\<close>

named_theorems res_simps \<open>how a successful run of a sequence decomposes\<close>
named_theorems js_simps \<open>evaluation of property reads and type tests\<close>

section \<open>JavaScript values\<close>

datatype jsnum = Fin rat | Infinity bool | NaN

datatype js =
    JUndef
  | JNull
  | JBool bool
  | JNum jsnum
  | JStr string
  | JArr "js list"
  | JObj "(string \<times> js) list"
  | JDate "int option"
  | JFun

abbreviation JInt :: "int \<Rightarrow> js" where
  "JInt n \<equiv> JNum (Fin (of_int n))"

text \<open>The properties every plain object inherits from \<open>Object.prototype\<close>.\<close>

definition proto_names :: "string list" where
  "proto_names =
     [''constructor'', ''hasOwnProperty'', ''isPrototypeOf'', ''propertyIsEnumerable'',
      ''toLocaleString'', ''toString'', ''valueOf'', ''__defineGetter__'', ''__defineSetter__'',
      ''__lookupGetter__'', ''__lookupSetter__'', ''__proto__'']"

text \<open>Property read; \<open>undefined\<close> on a value without properties, as with optional chaining.\<close>

fun get :: "js \<Rightarrow> string \<Rightarrow> js" where
  "get (JObj ps) k =
     (case map_of ps k of
        Some v \<Rightarrow> v
      | None \<Rightarrow> if k \<in> set proto_names then JFun else JUndef)"
| "get _ _ = JUndef"

fun keys :: "js \<Rightarrow> string list" where
  "keys (JObj ps) = map fst ps"
| "keys _ = []"

fun truthy :: "js \<Rightarrow> bool" where
  "truthy JUndef = False"
| "truthy JNull = False"
| "truthy (JBool b) = b"
| "truthy (JNum (Fin r)) = (r \<noteq> 0)"
| "truthy (JNum (Infinity _)) = True"
| "truthy (JNum NaN) = False"
| "truthy (JStr s) = (s \<noteq> [])"
| "truthy _ = True"

definition nullish :: "js \<Rightarrow> bool" where
  "nullish v = (v = JUndef \<or> v = JNull)"

text \<open>\<open>a ?? b\<close> and \<open>a || b\<close>.\<close>

definition coalesce :: "js \<Rightarrow> js \<Rightarrow> js" where
  "coalesce a b = (if nullish a then b else a)"

definition js_or :: "js \<Rightarrow> js \<Rightarrow> js" where
  "js_or a b = (if truthy a then a else b)"

text \<open>\<open>!value || Array.isArray(value) || typeof value !== "object"\<close> fails exactly here.\<close>

fun is_object :: "js \<Rightarrow> bool" where
  "is_object (JObj _) = True"
| "is_object (JDate _) = True"
| "is_object _ = False"

definition MAX_SAFE_INTEGER :: int where
  "MAX_SAFE_INTEGER = 9007199254740991"

text \<open>\<open>Number.isSafeInteger(v)\<close>, giving the integer.\<close>

fun safe_int :: "js \<Rightarrow> int option" where
  "safe_int (JNum (Fin r)) =
     (if of_int \<lfloor>r\<rfloor> = r \<and> \<bar>\<lfloor>r\<rfloor>\<bar> \<le> MAX_SAFE_INTEGER then Some \<lfloor>r\<rfloor> else None)"
| "safe_int _ = None"

text \<open>\<open>typeof v === "string"\<close> and \<open>Number.isFinite(v)\<close>, giving the value.\<close>

fun as_str :: "js \<Rightarrow> string option" where
  "as_str (JStr s) = Some s"
| "as_str _ = None"

fun as_arr :: "js \<Rightarrow> js list option" where
  "as_arr (JArr xs) = Some xs"
| "as_arr _ = None"

fun as_bool :: "js \<Rightarrow> bool option" where
  "as_bool (JBool b) = Some b"
| "as_bool _ = None"

fun finite_num :: "js \<Rightarrow> rat option" where
  "finite_num (JNum (Fin r)) = Some r"
| "finite_num _ = None"

text \<open>An optional field of a result object: \<open>undefined\<close> when absent.\<close>

fun opt_js :: "('a \<Rightarrow> js) \<Rightarrow> 'a option \<Rightarrow> js" where
  "opt_js f None = JUndef"
| "opt_js f (Some x) = f x"

section \<open>Thrown errors and results\<close>

datatype err_code =
    INVALID_WORKFLOW
  | INVALID_ACTIVITY_RESPONSE
  | INVALID_ACTIVITY_INTERACTION
  | INVALID_MEDIA_TELEMETRY
  | INVALID_LIFECYCLE
  | INVALID_PARTICIPANT_CONTEXT
  | INVALID_ARTIFACT
  | INVALID_NOTIFICATION_DELIVERY
  | INVALID_PRODUCT_CONFIGURATION
  | INVALID_INTEGRATION_DELIVERY
  | INVALID_ARTIFACT_SCAN
  | INVALID_JSON
  | BODY_LIMIT
  | AUTHORIZATION_FAILED
  | ERR_JWT bool
  | VASI_EVIDENCE_INVALID
  | VASI_BUNDLE_INVALID
  | PLAIN_ERROR
  | TYPE_ERROR
  | STORE_ERROR nat

text \<open>Why it was thrown: the family of the message with the names it interpolates.\<close>

datatype reason =
    NotObject string
  | UnknownField string string
  | NotString string
  | BadLength string nat nat
  | OutOfRange string int int
  | BadFormat string
  | Because string

datatype js_error = Thrown err_code reason

type_synonym 'a res = "js_error + 'a"

definition throw :: "err_code \<Rightarrow> reason \<Rightarrow> 'a res" where
  "throw c r = Inl (Thrown c r)"

fun bindE :: "'a res \<Rightarrow> ('a \<Rightarrow> 'b res) \<Rightarrow> 'b res" where
  "bindE (Inl e) f = Inl e"
| "bindE (Inr x) f = f x"

text \<open>\<open>if (!ok) throw ...\<close> followed by the rest.\<close>

definition guardE :: "bool \<Rightarrow> err_code \<Rightarrow> reason \<Rightarrow> 'a res \<Rightarrow> 'a res" where
  "guardE ok c r k = (if ok then k else throw c r)"

fun mapE :: "('a \<Rightarrow> 'b res) \<Rightarrow> 'a list \<Rightarrow> 'b list res" where
  "mapE f [] = Inr []"
| "mapE f (x # xs) = bindE (f x) (\<lambda>y. bindE (mapE f xs) (\<lambda>ys. Inr (y # ys)))"

text \<open>\<open>Array.prototype.map\<close> with the element's index.\<close>

fun imapE :: "(nat \<Rightarrow> 'a \<Rightarrow> 'b res) \<Rightarrow> nat \<Rightarrow> 'a list \<Rightarrow> 'b list res" where
  "imapE f i [] = Inr []"
| "imapE f i (x # xs) =
     bindE (f i x) (\<lambda>y. bindE (imapE f (Suc i) xs) (\<lambda>ys. Inr (y # ys)))"

definition succeeds :: "'a res \<Rightarrow> bool" where
  "succeeds m = (\<exists>x. m = Inr x)"

section \<open>Strings\<close>

definition code :: "char \<Rightarrow> nat" where
  "code c = of_char c"

definition between :: "char \<Rightarrow> char \<Rightarrow> char \<Rightarrow> bool" where
  "between lo hi c = (code lo \<le> code c \<and> code c \<le> code hi)"

text \<open>White space and line terminators of ECMAScript below U+0100.\<close>

definition is_ws :: "char \<Rightarrow> bool" where
  "is_ws c = ((9 \<le> code c \<and> code c \<le> 13) \<or> code c = 32 \<or> code c = 160)"

definition js_trim :: "string \<Rightarrow> string" where
  "js_trim s = rev (dropWhile is_ws (rev (dropWhile is_ws s)))"

definition lower_char :: "char \<Rightarrow> char" where
  "lower_char c =
     (if (65 \<le> code c \<and> code c \<le> 90) \<or> (192 \<le> code c \<and> code c \<le> 222 \<and> code c \<noteq> 215)
      then char_of (code c + 32) else c)"

definition js_lower :: "string \<Rightarrow> string" where
  "js_lower s = map lower_char s"

text \<open>The class \<open>[\u0000-\u001f\u007f]\<close>.\<close>

definition is_ctrl :: "char \<Rightarrow> bool" where
  "is_ctrl c = (code c \<le> 31 \<or> code c = 127)"

definition has_ctrl :: "string \<Rightarrow> bool" where
  "has_ctrl s = list_ex is_ctrl s"

definition is_lower :: "char \<Rightarrow> bool" where
  "is_lower c = (97 \<le> code c \<and> code c \<le> 122)"

definition is_upper :: "char \<Rightarrow> bool" where
  "is_upper c = (65 \<le> code c \<and> code c \<le> 90)"

definition is_digit :: "char \<Rightarrow> bool" where
  "is_digit c = (48 \<le> code c \<and> code c \<le> 57)"

definition is_alnum :: "char \<Rightarrow> bool" where
  "is_alnum c = (is_lower c \<or> is_upper c \<or> is_digit c)"

definition is_hex :: "char \<Rightarrow> bool" where
  "is_hex c = (is_digit c \<or> (97 \<le> code c \<and> code c \<le> 102))"

text \<open>\<open>/^[^@\s]+@[^@\s]+$/\<close>\<close>

definition email_shape :: "string \<Rightarrow> bool" where
  "email_shape s =
     (let a = takeWhile (\<lambda>c. c \<noteq> CHR ''@'') s; b = dropWhile (\<lambda>c. c \<noteq> CHR ''@'') s
      in a \<noteq> [] \<and> length b > 1 \<and> CHR ''@'' \<notin> set (tl b) \<and> list_all (\<lambda>c. \<not> is_ws c) s)"

text \<open>\<open>/^[a-z][a-z0-9_-]*$/\<close> and \<open>/^[A-Za-z0-9._:-]+$/\<close>\<close>

definition ident_shape :: "string \<Rightarrow> bool" where
  "ident_shape s =
     (s \<noteq> [] \<and> is_lower (hd s) \<and>
      list_all (\<lambda>c. is_lower c \<or> is_digit c \<or> c = CHR ''_'' \<or> c = CHR ''-'') (tl s))"

definition opaque_shape :: "string \<Rightarrow> bool" where
  "opaque_shape s =
     (s \<noteq> [] \<and>
      list_all (\<lambda>c. is_alnum c \<or> c = CHR ''.'' \<or> c = CHR ''_'' \<or> c = CHR '':'' \<or> c = CHR ''-'') s)"

text \<open>\<open>/^[a-f0-9]{64}$/\<close>\<close>

definition sha256_shape :: "string \<Rightarrow> bool" where
  "sha256_shape s = (length s = 64 \<and> list_all is_hex s)"

text \<open>\<open>/^[A-Za-z0-9_-]{lo,hi}$/\<close>\<close>

definition base64url_shape :: "nat \<Rightarrow> nat \<Rightarrow> string \<Rightarrow> bool" where
  "base64url_shape lo hi s =
     (lo \<le> length s \<and> length s \<le> hi \<and>
      list_all (\<lambda>c. is_alnum c \<or> c = CHR ''_'' \<or> c = CHR ''-'') s)"

section \<open>Validation steps the modules share\<close>

text \<open>
  The modules carry their own copies of these helpers; each copy is declared in its theory as
  one of these steps at the module's error code.
\<close>

named_theorems val_defs \<open>the modules' copies of the shared validation helpers\<close>

definition strict_object :: "err_code \<Rightarrow> js \<Rightarrow> string \<Rightarrow> string list \<Rightarrow> js res" where
  "strict_object c v name allowed =
     (if \<not> is_object v then throw c (NotObject name)
      else case find (\<lambda>k. k \<notin> set allowed) (keys v) of
             Some k \<Rightarrow> throw c (UnknownField name k)
           | None \<Rightarrow> Inr v)"

definition bounded_string :: "err_code \<Rightarrow> js \<Rightarrow> string \<Rightarrow> nat \<Rightarrow> nat \<Rightarrow> string res" where
  "bounded_string c v field lo hi =
     (case as_str v of
        None \<Rightarrow> throw c (NotString field)
      | Some s \<Rightarrow>
          let t = js_trim s
          in if length t < lo \<or> length t > hi then throw c (BadLength field lo hi) else Inr t)"

definition absent :: "js \<Rightarrow> bool" where
  "absent v = (v = JUndef \<or> v = JNull \<or> v = JStr [])"

definition optional_string :: "err_code \<Rightarrow> js \<Rightarrow> string \<Rightarrow> nat \<Rightarrow> string option res" where
  "optional_string c v field hi =
     (if absent v then Inr None else bindE (bounded_string c v field 1 hi) (\<lambda>s. Inr (Some s)))"

definition whole_number :: "err_code \<Rightarrow> js \<Rightarrow> string \<Rightarrow> int \<Rightarrow> int \<Rightarrow> int res" where
  "whole_number c v field lo hi =
     (case safe_int v of
        None \<Rightarrow> throw c (OutOfRange field lo hi)
      | Some n \<Rightarrow> if n < lo \<or> n > hi then throw c (OutOfRange field lo hi) else Inr n)"

definition or_default :: "'a \<Rightarrow> 'a option \<Rightarrow> 'a" where
  "or_default d x = (case x of None \<Rightarrow> d | Some y \<Rightarrow> y)"

text \<open>\<open>[...new Set(xs)]\<close>: the first occurrence of each element, in order.\<close>

definition uniq :: "'a list \<Rightarrow> 'a list" where
  "uniq xs = rev (remdups (rev xs))"

section \<open>Rules for results\<close>

lemma throw_not_Inr [simp]: "throw c r \<noteq> Inr x" "Inr x \<noteq> throw c r"
  by (simp_all add: throw_def)

lemma bindE_Inr [res_simps]: "bindE m f = Inr y \<longleftrightarrow> (\<exists>x. m = Inr x \<and> f x = Inr y)"
  by (cases m) auto

lemma guardE_Inr [res_simps]: "guardE ok c r k = Inr y \<longleftrightarrow> ok \<and> k = Inr y"
  by (simp add: guardE_def)

lemma bindE_E: "bindE m f = Inr y \<Longrightarrow> (\<And>x. m = Inr x \<Longrightarrow> f x = Inr y \<Longrightarrow> P) \<Longrightarrow> P"
  by (auto simp: bindE_Inr)

lemma guardE_E: "guardE ok c r k = Inr y \<Longrightarrow> (ok \<Longrightarrow> k = Inr y \<Longrightarrow> P) \<Longrightarrow> P"
  by (auto simp: guardE_Inr)

lemma case_option_throw_E:
  "(case m of None \<Rightarrow> throw c r | Some x \<Rightarrow> f x) = Inr y \<Longrightarrow> (\<And>x. m = Some x \<Longrightarrow> f x = Inr y \<Longrightarrow> P) \<Longrightarrow> P"
  by (cases m) auto

lemmas res_elims = bindE_E guardE_E case_option_throw_E

lemma guardE_True [simp]: "guardE True c r k = k"
  by (simp add: guardE_def)

lemma guardE_False [simp]: "guardE False c r k = throw c r"
  by (simp add: guardE_def)

lemma bindE_throw [simp]: "bindE (throw c r) f = throw c r"
  by (simp add: throw_def)

lemma bindE_cong [fundef_cong]:
  "m = m' \<Longrightarrow> (\<And>x. m' = Inr x \<Longrightarrow> f x = f' x) \<Longrightarrow> bindE m f = bindE m' f'"
  by (cases m') auto

lemma mapE_Inr: "mapE f xs = Inr ys \<longleftrightarrow> list_all2 (\<lambda>x y. f x = Inr y) xs ys"
  by (induction xs arbitrary: ys) (auto simp: res_simps list_all2_Cons1)

lemma imapE_Inr:
  "imapE f i xs = Inr ys \<longleftrightarrow>
     length xs = length ys \<and> (\<forall>j < length xs. f (i + j) (xs ! j) = Inr (ys ! j))"
proof (induction xs arbitrary: i ys)
  case Nil
  then show ?case by auto
next
  case (Cons x xs)
  show ?case
  proof (cases ys)
    case Nil
    then show ?thesis by (auto simp: res_simps)
  next
    case (Cons y ys')
    have "(\<forall>j < Suc (length xs). f (i + j) ((x # xs) ! j) = Inr ((y # ys') ! j)) \<longleftrightarrow>
            f i x = Inr y \<and> (\<forall>j < length xs. f (Suc i + j) (xs ! j) = Inr (ys' ! j))"
      by (auto simp: less_Suc_eq_0_disj)
    with Cons Cons.IH show ?thesis by (auto simp: res_simps)
  qed
qed

lemma imapE_memD: "imapE f i xs = Inr ys \<Longrightarrow> y \<in> set ys \<Longrightarrow> \<exists>j x. x \<in> set xs \<and> f j x = Inr y"
  unfolding imapE_Inr in_set_conv_nth by metis

lemma imapE_length: "imapE f i xs = Inr ys \<Longrightarrow> length ys = length xs"
  by (simp add: imapE_Inr)

lemma mapE_fails: "x \<in> set xs \<Longrightarrow> f x = Inl e \<Longrightarrow> \<exists>e. mapE f xs = Inl e"
  by (induction xs) (auto split: sum.split, metis bindE.simps obj_sumE)

lemma mapE_length: "mapE f xs = Inr ys \<Longrightarrow> length ys = length xs"
  by (simp add: mapE_Inr list_all2_lengthD)

lemma mapE_memD: "mapE f xs = Inr ys \<Longrightarrow> y \<in> set ys \<Longrightarrow> \<exists>x \<in> set xs. f x = Inr y"
  by (induction xs arbitrary: ys) (auto simp: res_simps)

lemma mapE_map_eq: "mapE f xs = mapE g ys" if "list_all2 (\<lambda>x y. f x = g y) xs ys"
  using that by (induction rule: list_all2_induct) auto

lemma mapE_idem:
  assumes "\<And>y. y \<in> set ys \<Longrightarrow> f (e y) = Inr y"
  shows "mapE f (map e ys) = Inr ys"
  using assms by (induction ys) auto

lemma mapE_all:
  assumes "mapE f xs = Inr ys" and "\<And>x y. f x = Inr y \<Longrightarrow> P y"
  shows "\<forall>y \<in> set ys. P y"
  using assms(1) unfolding mapE_Inr
  by (induction rule: list_all2_induct) (auto dest: assms(2))

section \<open>Rules for values\<close>

lemma of_int_floor_id [simp]: "of_int \<lfloor>of_int n :: rat\<rfloor> = (of_int n :: rat)"
  by simp

lemma safe_int_Some [js_simps]:
  "safe_int v = Some n \<longleftrightarrow> v = JInt n \<and> \<bar>n\<bar> \<le> MAX_SAFE_INTEGER"
  by (cases v rule: safe_int.cases) auto

lemma safe_int_JInt [simp]:
  "\<bar>n\<bar> \<le> MAX_SAFE_INTEGER \<Longrightarrow> safe_int (JInt n) = Some n"
  by simp

lemma as_str_Some [js_simps]: "as_str v = Some s \<longleftrightarrow> v = JStr s"
  by (cases v) auto

lemma as_arr_Some [js_simps]: "as_arr v = Some xs \<longleftrightarrow> v = JArr xs"
  by (cases v) auto

lemma as_bool_Some [js_simps]: "as_bool v = Some b \<longleftrightarrow> v = JBool b"
  by (cases v) auto

lemma finite_num_Some [js_simps]: "finite_num v = Some r \<longleftrightarrow> v = JNum (Fin r)"
  by (cases v rule: finite_num.cases) auto

lemma coalesce_simps [simp]:
  "coalesce JUndef b = b" "coalesce JNull b = b" "coalesce (JStr s) b = JStr s"
  "coalesce (JNum n) b = JNum n" "coalesce (JBool t) b = JBool t" "coalesce (JArr xs) b = JArr xs"
  by (simp_all add: coalesce_def nullish_def)

section \<open>Rules for strings\<close>

lemma js_trim_idem [simp]: "js_trim (js_trim s) = js_trim s"
proof -
  have a: "dropWhile P (rev (dropWhile P (rev xs))) = rev (dropWhile P (rev xs))"
    if "dropWhile P xs = xs" for P and xs :: "char list"
  proof (cases "rev (dropWhile P (rev xs))")
    case (Cons y ys)
    obtain zs where "xs = rev (dropWhile P (rev xs)) @ zs"
      by (metis rev_append rev_rev_ident takeWhile_dropWhile_id)
    with Cons have "hd xs = y" "xs \<noteq> []" by (auto simp: hd_append)
    with that have "\<not> P y" by (metis hd_dropWhile)
    with Cons show ?thesis by simp
  next
    case Nil
    show ?thesis by (simp only: Nil dropWhile.simps)
  qed
  show ?thesis
    unfolding js_trim_def by (subst a) (simp_all add: dropWhile_idem)
qed

lemma length_js_trim_le: "length (js_trim s) \<le> length s"
  unfolding js_trim_def by (metis length_dropWhile_le length_rev order_trans)

lemma code_bound: "code c < 256"
  by (simp add: code_def)

lemma code_char_of [simp]: "n < 256 \<Longrightarrow> code (char_of n) = n"
  by (simp add: code_def)

lemma lower_char_idem [simp]: "lower_char (lower_char c) = lower_char c"
  by (auto simp: lower_char_def)

lemma js_lower_idem [simp]: "js_lower (js_lower s) = js_lower s"
  by (simp add: js_lower_def)

lemma length_js_lower [simp]: "length (js_lower s) = length s"
  by (simp add: js_lower_def)

lemma is_ws_lower [simp]: "is_ws (lower_char c) = is_ws c"
  by (auto simp: is_ws_def lower_char_def)

lemma dropWhile_map_eq: "dropWhile P (map f xs) = map f (dropWhile (P \<circ> f) xs)"
  by (induction xs) auto

lemma js_trim_lower: "js_trim (js_lower s) = js_lower (js_trim s)"
proof -
  have c: "is_ws \<circ> lower_char = is_ws" by (rule ext) simp
  show ?thesis
    by (simp add: js_trim_def js_lower_def dropWhile_map_eq rev_map c)
qed

section \<open>Rules for the shared steps\<close>

lemma strict_object_Inr [res_simps]:
  "strict_object c v name ks = Inr w \<longleftrightarrow> w = v \<and> is_object v \<and> set (keys v) \<subseteq> set ks"
  by (auto simp: strict_object_def find_None_iff find_Some_iff split: option.splits dest: nth_mem)

lemma strict_object_JObj: "set (map fst ps) \<subseteq> set ks \<Longrightarrow> strict_object c (JObj ps) n ks = Inr (JObj ps)"
  by (simp add: strict_object_Inr)

lemma bounded_string_Inr [res_simps]:
  "bounded_string c v f lo hi = Inr t \<longleftrightarrow>
     (\<exists>s. v = JStr s \<and> t = js_trim s \<and> lo \<le> length t \<and> length t \<le> hi)"
  by (auto simp: bounded_string_def Let_def js_simps split: option.splits if_splits)

lemma optional_string_Inr [res_simps]:
  "optional_string c v f hi = Inr r \<longleftrightarrow>
     (absent v \<and> r = None) \<or>
     (\<not> absent v \<and> (\<exists>s. v = JStr s \<and> r = Some (js_trim s) \<and> js_trim s \<noteq> [] \<and> length (js_trim s) \<le> hi))"
  by (auto simp: optional_string_def res_simps Suc_le_eq)

lemma whole_number_Inr [res_simps]:
  "whole_number c v f lo hi = Inr n \<longleftrightarrow>
     v = JInt n \<and> \<bar>n\<bar> \<le> MAX_SAFE_INTEGER \<and> lo \<le> n \<and> n \<le> hi"
  by (auto simp: whole_number_def safe_int_Some split: option.splits if_splits)

lemma bounded_string_JStr:
  "js_trim s = s \<Longrightarrow> lo \<le> length s \<Longrightarrow> length s \<le> hi \<Longrightarrow> bounded_string c (JStr s) f lo hi = Inr s"
  by (simp add: bounded_string_Inr)

lemma whole_number_JInt:
  "\<bar>n\<bar> \<le> MAX_SAFE_INTEGER \<Longrightarrow> lo \<le> n \<Longrightarrow> n \<le> hi \<Longrightarrow> whole_number c (JInt n) f lo hi = Inr n"
  by (simp add: whole_number_Inr)

lemmas accept_simps = strict_object_JObj bounded_string_JStr whole_number_JInt

text \<open>A text that neither starts nor ends with white space is unchanged by \<open>trim\<close>.\<close>

lemma js_trim_id: "s = [] \<or> \<not> is_ws (hd s) \<and> \<not> is_ws (last s) \<Longrightarrow> js_trim s = s"
proof (cases s)
  case (Cons c cs)
  assume "s = [] \<or> \<not> is_ws (hd s) \<and> \<not> is_ws (last s)"
  then have "\<not> is_ws (hd s)" "\<not> is_ws (hd (rev s))" using Cons unfolding hd_rev by auto
  then have "dropWhile is_ws s = s" "dropWhile is_ws (rev s) = rev s"
    using Cons by (auto simp: dropWhile_eq_self_iff)
  then show ?thesis by (simp add: js_trim_def)
qed (simp add: js_trim_def)

lemma or_default_simps [simp]: "or_default d None = d" "or_default d (Some x) = x"
  by (simp_all add: or_default_def)

lemma absent_simps [simp]: "absent JUndef" "absent JNull" "absent (JStr s) \<longleftrightarrow> s = []"
  by (simp_all add: absent_def)

lemma js_trim_Nil [simp]: "js_trim [] = []"
  by (simp add: js_trim_def)

lemma set_uniq [simp]: "set (uniq xs) = set xs"
  by (simp add: uniq_def)

lemma distinct_uniq [simp]: "distinct (uniq xs)"
  by (simp add: uniq_def)

lemma uniq_Nil [simp]: "uniq [] = []"
  by (simp add: uniq_def)

lemma uniq_id: "distinct xs \<Longrightarrow> uniq xs = xs"
  by (metis distinct_remdups_id distinct_rev rev_rev_ident uniq_def)

lemma length_uniq_eq: "length (uniq xs) = length xs \<longleftrightarrow> distinct xs"
  using length_remdups_eq[of "rev xs"] by (simp add: uniq_def)

lemma get_JObj [js_simps]:
  "get (JObj ps) k =
     (case map_of ps k of Some v \<Rightarrow> v | None \<Rightarrow> if k \<in> set proto_names then JFun else JUndef)"
  by simp

end
