(* ===== verification/Crypto.thy ===== *)
theory Crypto
  imports Prelude "HOL-Library.Multiset"
begin

text \<open>
  The canonical JSON, hashing and sealing functions of \<^verbatim>\<open>src/packages/engine-crypto/index.mjs\<close>.

  The primitives of \<^verbatim>\<open>node:crypto\<close> are parameters: \<open>H\<close> is the SHA-256 hex digest of a text, and
  the record \<open>primitives\<close> holds the Ed25519 and HMAC operations. The theorems hold for every
  choice of them; the two that need a law of the primitives state it as a hypothesis.

  Shown here: canonicalisation depends only on the property set and is idempotent, the printed
  canonical form determines the canonical value, and so two values with one hash are canonically
  equal or exhibit a collision of \<open>H\<close>; seals verify what was sealed and nothing else.
\<close>

section \<open>Printing\<close>

definition digit_char :: "nat \<Rightarrow> char" where
  "digit_char d = char_of (48 + d)"

fun show_nat :: "nat \<Rightarrow> string" where
  "show_nat n = (if n < 10 then [digit_char n] else show_nat (n div 10) @ [digit_char (n mod 10)])"

declare show_nat.simps [simp del]

definition show_int :: "int \<Rightarrow> string" where
  "show_int n = (if n < 0 then CHR ''-'' # show_nat (nat (- n)) else show_nat (nat n))"

definition hex_char :: "nat \<Rightarrow> char" where
  "hex_char d = (if d < 10 then char_of (48 + d) else char_of (87 + d))"

text \<open>The character escapes of \<open>JSON.stringify\<close>.\<close>

definition quote_char :: "char \<Rightarrow> string" where
  "quote_char c =
     (let n = code c in
      if n = 34 then [CHR 0x5C, CHR 0x22]
      else if n = 92 then [CHR 0x5C, CHR 0x5C]
      else if n = 8 then [CHR 0x5C, CHR ''b'']
      else if n = 12 then [CHR 0x5C, CHR ''f'']
      else if n = 10 then [CHR 0x5C, CHR ''n'']
      else if n = 13 then [CHR 0x5C, CHR ''r'']
      else if n = 9 then [CHR 0x5C, CHR ''t'']
      else if n < 32 then
        [CHR 0x5C, CHR ''u'', CHR ''0'', CHR ''0'', hex_char (n div 16), hex_char (n mod 16)]
      else [c])"

definition quote :: "string \<Rightarrow> string" where
  "quote s = CHR 0x22 # concat (map quote_char s) @ [CHR 0x22]"

fun commas :: "string list \<Rightarrow> string" where
  "commas [] = []"
| "commas [x] = x"
| "commas (x # y # ys) = x @ CHR '','' # commas (y # ys)"

text \<open>\<open>JSON.stringify\<close> on a value without undefined members.\<close>

fun stringify :: "js \<Rightarrow> string" where
  "stringify JNull = ''null''"
| "stringify (JBool b) = (if b then ''true'' else ''false'')"
| "stringify (JNum (Fin r)) = show_int \<lfloor>r\<rfloor>"
| "stringify (JStr s) = quote s"
| "stringify (JArr xs) = CHR ''['' # commas (map stringify xs) @ '']''"
| "stringify (JObj ps) =
     CHR ''{'' # commas (map (\<lambda>p. quote (fst p) @ CHR '':'' # stringify (snd p)) ps) @ ''}''"
| "stringify _ = ''null''"

section \<open>Canonical values\<close>

text \<open>Array-index keys come first, in numeric order, when an object's own keys are listed.\<close>

definition read_nat :: "string \<Rightarrow> nat" where
  "read_nat s = foldl (\<lambda>a c. 10 * a + (code c - 48)) 0 s"

definition is_index_key :: "string \<Rightarrow> bool" where
  "is_index_key s =
     (s \<noteq> [] \<and> list_all is_digit s \<and> (hd s \<noteq> CHR ''0'' \<or> length s = 1) \<and>
      read_nat s < 4294967295)"

definition own_order :: "(string \<times> js) list \<Rightarrow> (string \<times> js) list" where
  "own_order ps =
     sort_key (\<lambda>p. read_nat (fst p)) (filter (\<lambda>p. is_index_key (fst p)) ps)
       @ filter (\<lambda>p. \<not> is_index_key (fst p)) ps"

text \<open>
  The loop over the sorted keys skips undefined members. Assigning to the key
  \<open>__proto__\<close> replaces the prototype of the new object instead of creating a property, so such a
  member is evaluated and then absent from the result.
\<close>

fun keep_member :: "string \<times> js \<Rightarrow> bool" where
  "keep_member (k, v) = (v \<noteq> JUndef)"

definition own_members :: "(string \<times> js) list \<Rightarrow> (string \<times> js) list" where
  "own_members ps = filter (\<lambda>p. fst p \<noteq> ''__proto__'') ps"

lemma mapE_cong [fundef_cong]:
  "xs = ys \<Longrightarrow> (\<And>x. x \<in> set ys \<Longrightarrow> f x = g x) \<Longrightarrow> mapE f xs = mapE g ys"
  by (induction ys arbitrary: xs) auto

lemma size_member [termination_simp]: "(k, v) \<in> set ps \<Longrightarrow> size v < Suc (size_list (size_prod (\<lambda>_. 0) size) ps)"
  by (induction ps) auto

function canonicalValue :: "js \<Rightarrow> js res" where
  "canonicalValue JNull = Inr JNull"
| "canonicalValue (JBool b) = Inr (JBool b)"
| "canonicalValue (JStr s) = Inr (JStr s)"
| "canonicalValue (JNum n) =
     (if safe_int (JNum n) \<noteq> None then Inr (JNum n)
      else throw PLAIN_ERROR (Because ''Canonical VASI JSON accepts only safe integers.''))"
| "canonicalValue (JArr xs) = bindE (mapE canonicalValue xs) (\<lambda>ys. Inr (JArr ys))"
| "canonicalValue (JObj ps) =
     bindE (mapE (\<lambda>p. bindE (canonicalValue (snd p)) (\<lambda>v. Inr (fst p, v)))
              (filter keep_member (sort_key fst ps)))
       (\<lambda>qs. Inr (JObj (own_order (own_members qs))))"
| "canonicalValue (JDate _) = Inr (JObj [])"
| "canonicalValue JUndef = throw PLAIN_ERROR (Because ''not canonical VASI JSON'')"
| "canonicalValue JFun = throw PLAIN_ERROR (Because ''not canonical VASI JSON'')"
  by pat_completeness auto
termination
  by (relation "measure size") (auto simp: size_list_estimation' termination_simp)

definition canonicalJSON :: "js \<Rightarrow> string res" where
  "canonicalJSON v = bindE (canonicalValue v) (\<lambda>w. Inr (stringify w))"

definition hashCanonicalJSON :: "(string \<Rightarrow> string) \<Rightarrow> js \<Rightarrow> string res" where
  "hashCanonicalJSON H v = bindE (canonicalJSON v) (\<lambda>s. Inr (H s))"

section \<open>Printing is injective\<close>

lemma code_digit_char [simp]: "d < 10 \<Longrightarrow> code (digit_char d) = 48 + d"
  by (simp add: digit_char_def)

lemma is_digit_digit_char [simp]: "d < 10 \<Longrightarrow> is_digit (digit_char d)"
  by (simp add: is_digit_def)

lemma digits_of_show_nat: "list_all is_digit (show_nat n)"
proof (induction n rule: show_nat.induct)
  case (1 n)
  then show ?case
    by (subst show_nat.simps) auto
qed

lemma show_nat_not_Nil [simp]: "show_nat n \<noteq> []"
  by (subst show_nat.simps) simp

lemma read_show_nat [simp]: "read_nat (show_nat n) = n"
proof (induction n rule: show_nat.induct)
  case (1 n)
  then show ?case
    by (subst show_nat.simps) (auto simp: read_nat_def)
qed

lemma show_nat_inj [simp]: "show_nat m = show_nat n \<longleftrightarrow> m = n"
  by (metis read_show_nat)

lemma is_digit_hd_show_nat: "is_digit (hd (show_nat n))"
  using digits_of_show_nat[of n] by (cases "show_nat n") auto

text \<open>A suffix that cannot continue a number: the characters that follow a value in an array or object.\<close>

definition delim :: "string \<Rightarrow> bool" where
  "delim s = (s = [] \<or> hd s \<in> {CHR '','', CHR '']'', CHR ''}''})"

lemma delim_not_digit: "delim s \<Longrightarrow> s \<noteq> [] \<Longrightarrow> \<not> is_digit (hd s)"
  by (auto simp: delim_def is_digit_def code_def)

lemma digits_prefix_unique:
  assumes "a @ r = b @ s" "list_all is_digit a" "list_all is_digit b"
    and "r \<noteq> [] \<Longrightarrow> \<not> is_digit (hd r)" "s \<noteq> [] \<Longrightarrow> \<not> is_digit (hd s)"
  shows "a = b \<and> r = s"
  using assms
proof (induction a arbitrary: b)
  case Nil
  then show ?case by (cases b) auto
next
  case (Cons x xs)
  then show ?case by (cases b) auto
qed

lemma show_int_prefix:
  assumes "show_int m @ r = show_int n @ s" "delim r" "delim s"
  shows "m = n \<and> r = s"
proof -
  have m: "\<not> is_digit (CHR ''-'')" by (simp add: is_digit_def code_def)
  have nd: "hd (show_nat k @ t) \<noteq> CHR ''-''" for k t
    using is_digit_hd_show_nat[of k] m by (metis hd_append2 show_nat_not_Nil)
  have key: "show_nat a @ r = show_nat b @ s \<Longrightarrow> a = b \<and> r = s" for a b
    using digits_prefix_unique[of "show_nat a" r "show_nat b" s]
      digits_of_show_nat delim_not_digit assms(2,3) by simp
  show ?thesis
  proof (cases "m < 0"; cases "n < 0")
    assume "m < 0" "n < 0"
    with assms(1) key[of "nat (- m)" "nat (- n)"] show ?thesis
      by (auto simp: show_int_def)
  next
    assume "m < 0" "\<not> n < 0"
    then show ?thesis
      using arg_cong[OF assms(1), of hd] nd[of "nat n" s] by (simp add: show_int_def)
  next
    assume "\<not> m < 0" "n < 0"
    then show ?thesis
      using arg_cong[OF assms(1), of hd] nd[of "nat m" r] by (simp add: show_int_def)
  next
    assume "\<not> m < 0" "\<not> n < 0"
    with assms(1) key[of "nat m" "nat n"] show ?thesis
      by (auto simp: show_int_def)
  qed
qed

lemma code_inj: "code c = code d \<longleftrightarrow> c = d"
  by (simp add: code_def)

text \<open>Reading back one printed character; it shows that the escapes are distinguishable.\<close>

definition hex_value :: "char \<Rightarrow> nat" where
  "hex_value c = (if code c < 58 then code c - 48 else code c - 87)"

lemma hex_value_char [simp]: "d < 16 \<Longrightarrow> hex_value (hex_char d) = d"
  by (auto simp: hex_value_def hex_char_def)

fun unquote1 :: "string \<Rightarrow> nat" where
  "unquote1 (x # xs) =
     (if x \<noteq> CHR 0x5C then code x
      else if hd xs = CHR ''b'' then 8 else if hd xs = CHR ''f'' then 12
      else if hd xs = CHR ''n'' then 10 else if hd xs = CHR ''r'' then 13
      else if hd xs = CHR ''t'' then 9
      else if hd xs = CHR ''u'' then 16 * hex_value (xs ! 3) + hex_value (xs ! 4)
      else code (hd xs))"
| "unquote1 [] = 0"

lemma unquote1_quote_char: "unquote1 (quote_char c @ r) = code c"
proof -
  have e: "c = CHR 0x5C \<longleftrightarrow> code c = 92"
    using code_inj[of c "CHR 0x5C"] by (simp add: code_def)
  have q: "code (CHR 0x22) = 34" "code (CHR 0x5C) = 92" by (simp_all add: code_def)
  show ?thesis
    unfolding quote_char_def Let_def by (simp add: e q)
qed

lemma quote_char_prefix:
  assumes "quote_char c @ r = quote_char d @ s"
  shows "c = d \<and> r = s"
proof -
  from arg_cong[OF assms, of unquote1] have "c = d"
    by (simp add: unquote1_quote_char code_inj)
  with assms show ?thesis by simp
qed

lemma quote_char_not_quote: "quote_char c @ r \<noteq> CHR 0x22 # s"
  by (auto simp: quote_char_def Let_def code_def)

lemma quote_body_prefix:
  "concat (map quote_char a) @ CHR 0x22 # r = concat (map quote_char b) @ CHR 0x22 # s \<Longrightarrow>
     a = b \<and> r = s"
proof (induction a arbitrary: b)
  case Nil
  then show ?case
    using quote_char_not_quote by (cases b) (auto dest: sym)
next
  case (Cons x xs)
  show ?case
  proof (cases b)
    case Nil
    with Cons.prems show ?thesis by (simp add: quote_char_not_quote)
  next
    case (Cons y ys)
    with Cons.prems have
      "quote_char x @ concat (map quote_char xs) @ CHR 0x22 # r =
       quote_char y @ concat (map quote_char ys) @ CHR 0x22 # s"
      by simp
    from quote_char_prefix[OF this] Cons.IH Cons show ?thesis by blast
  qed
qed

lemma quote_prefix: "quote a @ r = quote b @ s \<Longrightarrow> a = b \<and> r = s"
  using quote_body_prefix[of a r b s] by (simp add: quote_def)

lemma quote_hd [simp]: "quote a \<noteq> []" "hd (quote a @ r) = CHR 0x22" "hd (quote a) = CHR 0x22"
  by (simp_all add: quote_def)

lemma commas_Cons:
  "commas (x # xs) = x @ (if xs = [] then [] else CHR '','' # commas xs)"
  by (cases xs) auto

lemma commas_prefix:
  assumes "commas (map f xs) @ e # r = commas (map f ys) @ e # s"
    and "e \<in> {CHR '']'', CHR ''}''}"
    and "\<And>x y r s. x \<in> set xs \<Longrightarrow> y \<in> set ys \<Longrightarrow> f x @ r = f y @ s \<Longrightarrow> delim r \<Longrightarrow> delim s \<Longrightarrow>
           x = y \<and> r = s"
    and "\<And>x. x \<in> set xs \<union> set ys \<Longrightarrow> f x \<noteq> [] \<and> hd (f x) \<noteq> e"
  shows "xs = ys \<and> r = s"
  using assms
proof (induction xs arbitrary: ys)
  case Nil
  show ?case
  proof (cases ys)
    case (Cons y zs)
    with Nil.prems(4)[of y] Nil.prems(1) show ?thesis
      by (cases "f y") (auto simp: commas_Cons)
  qed (use Nil.prems in auto)
next
  case (Cons x xs)
  show ?case
  proof (cases ys)
    case Nil
    with Cons.prems(4)[of x] Cons.prems(1) show ?thesis
      by (cases "f x") (auto simp: commas_Cons)
  next
    case Y: (Cons y zs)
    let ?tail = "\<lambda>us t. (if us = [] then [] else CHR '','' # commas (map f us)) @ e # t"
    have d: "delim (?tail us t)" for us t
      using Cons.prems(2) by (auto simp: delim_def)
    from Cons.prems(1) Y have "f x @ ?tail xs r = f y @ ?tail zs s"
      by (simp add: commas_Cons)
    then have xy: "x = y" and tl: "?tail xs r = ?tail zs s"
      using Cons.prems(3)[of x y "?tail xs r" "?tail zs s"] d Y by auto
    from tl Cons.prems(2) have "commas (map f xs) @ e # r = commas (map f zs) @ e # s"
      by (auto split: if_splits)
    then have "xs = zs \<and> r = s"
      using Cons.prems(2-4) Y by (intro Cons.IH) auto
    with xy Y show ?thesis by simp
  qed
qed

text \<open>The values \<open>canonicalValue\<close> can return: nothing undefined, only safe integers.\<close>

fun jsonable :: "js \<Rightarrow> bool" where
  "jsonable JNull = True"
| "jsonable (JBool _) = True"
| "jsonable (JNum n) = (safe_int (JNum n) \<noteq> None)"
| "jsonable (JStr _) = True"
| "jsonable (JArr xs) = list_all jsonable xs"
| "jsonable (JObj ps) = list_all (\<lambda>p. jsonable (snd p)) ps"
| "jsonable _ = False"

lemma jsonable_num: "jsonable (JNum n) \<Longrightarrow> \<exists>i. n = Fin (of_int i)"
  by (cases "safe_int (JNum n)") (auto simp: safe_int_Some simp del: safe_int.simps)

lemma hd_show_int: "hd (show_int n @ r) = CHR ''-'' \<or> is_digit (hd (show_int n @ r))"
  using is_digit_hd_show_nat by (auto simp: show_int_def hd_append)

lemma show_int_not_Nil [simp]: "show_int n \<noteq> []"
  by (simp add: show_int_def)

text \<open>The first character tells the kind of value.\<close>

fun value_kind :: "js \<Rightarrow> nat" where
  "value_kind JNull = 0"
| "value_kind (JBool b) = (if b then 1 else 2)"
| "value_kind (JNum _) = 3"
| "value_kind (JStr _) = 4"
| "value_kind (JArr _) = 5"
| "value_kind (JObj _) = 6"
| "value_kind _ = 7"

definition kind_of_lead :: "char \<Rightarrow> nat" where
  "kind_of_lead c =
     (if c = CHR ''n'' then 0 else if c = CHR ''t'' then 1 else if c = CHR ''f'' then 2
      else if c = CHR ''-'' \<or> is_digit c then 3 else if c = CHR 0x22 then 4
      else if c = CHR ''['' then 5 else if c = CHR ''{'' then 6 else 7)"

lemma stringify_lead:
  "jsonable v \<Longrightarrow> stringify v \<noteq> [] \<and> kind_of_lead (hd (stringify v @ r)) = value_kind v \<and> value_kind v < 7"
proof (induction v rule: stringify.induct)
  case (3 q)
  have "is_digit c \<Longrightarrow> c \<noteq> CHR ''n'' \<and> c \<noteq> CHR ''t'' \<and> c \<noteq> CHR ''f''" for c
    by (auto simp: is_digit_def code_def)
  then show ?case
    using hd_show_int[of "\<lfloor>q\<rfloor>" r] by (auto simp: kind_of_lead_def)
qed (auto simp: kind_of_lead_def is_digit_def code_def)

lemma stringify_not_close:
  assumes "jsonable v"
  shows "hd (stringify v) \<notin> {CHR '']'', CHR ''}''}"
  using stringify_lead[OF assms, of "[]"]
  by (auto simp: kind_of_lead_def is_digit_def code_def)

lemma same_kind:
  assumes "jsonable v" "jsonable w" "stringify v @ r = stringify w @ s"
  shows "value_kind w = value_kind v"
  using stringify_lead[OF assms(1), of r] stringify_lead[OF assms(2), of s] unfolding assms(3)
  by metis

lemma kind_cases:
  "value_kind w = 0 \<Longrightarrow> w = JNull" "value_kind w = 1 \<Longrightarrow> w = JBool True" "value_kind w = 2 \<Longrightarrow> w = JBool False"
  "value_kind w = 3 \<Longrightarrow> \<exists>n. w = JNum n" "value_kind w = 4 \<Longrightarrow> \<exists>t. w = JStr t"
  "value_kind w = 5 \<Longrightarrow> \<exists>ys. w = JArr ys" "value_kind w = 6 \<Longrightarrow> \<exists>qs. w = JObj qs"
  by (cases w; simp split: if_splits)+

lemma stringify_prefix:
  "stringify v @ r = stringify w @ s \<Longrightarrow> jsonable v \<Longrightarrow> jsonable w \<Longrightarrow> delim r \<Longrightarrow> delim s \<Longrightarrow>
     v = w \<and> r = s"
proof (induction v arbitrary: w r s rule: stringify.induct)
  case (1)
  then show ?case
    using same_kind[OF "1.prems"(2,3,1)] kind_cases(1)[of w] by simp
next
  case (2 b)
  have "value_kind w = (if b then 1 else 2)"
    using same_kind[OF "2.prems"(2,3,1)] by simp
  then have "w = JBool b"
    using kind_cases(2,3)[of w] by (cases b) simp_all
  with "2.prems"(1) show ?case by simp
next
  case (3 q)
  obtain i where i: "Fin q = Fin (of_int i)"
    using jsonable_num[OF "3.prems"(2)] by blast
  obtain n where n: "w = JNum n"
    using same_kind[OF "3.prems"(2,3,1)] kind_cases(4)[of w] by auto
  then obtain j where "w = JNum (Fin (of_int j))"
    using jsonable_num "3.prems"(3) by blast
  with i "3.prems" show ?case
    by (auto dest: show_int_prefix)
next
  case (4 a)
  obtain t where "w = JStr t"
    using same_kind[OF "4.prems"(2,3,1)] kind_cases(5)[of w] by auto
  with "4.prems" show ?case by (auto dest: quote_prefix)
next
  case (5 xs)
  obtain ys where w: "w = JArr ys"
    using same_kind[OF "5.prems"(2,3,1)] kind_cases(6)[of w] by auto
  have "xs = ys \<and> r = s"
  proof (rule commas_prefix[where f = stringify and e = "CHR '']''"])
    show "commas (map stringify xs) @ CHR '']'' # r = commas (map stringify ys) @ CHR '']'' # s"
      using "5.prems"(1) w by simp
    show "x = y \<and> r = s"
      if "x \<in> set xs" "y \<in> set ys" "stringify x @ r = stringify y @ s" "delim r" "delim s" for x y r s
      using "5.IH"[OF that(1,3)] that "5.prems"(2,3) w by (simp add: list_all_iff)
    show "stringify x \<noteq> [] \<and> hd (stringify x) \<noteq> CHR '']''" if "x \<in> set xs \<union> set ys" for x
      using that "5.prems"(2,3) w stringify_lead[of x "[]"] stringify_not_close[of x]
      by (auto simp: list_all_iff)
  qed simp
  with w show ?case by simp
next
  case (6 ps)
  obtain qs where w: "w = JObj qs"
    using same_kind[OF "6.prems"(2,3,1)] kind_cases(7)[of w] by auto
  let ?f = "\<lambda>p. quote (fst p) @ CHR '':'' # stringify (snd p)"
  have "ps = qs \<and> r = s"
  proof (rule commas_prefix[where f = ?f and e = "CHR ''}''"])
    show "commas (map ?f ps) @ CHR ''}'' # r = commas (map ?f qs) @ CHR ''}'' # s"
      using "6.prems"(1) w by simp
    show "p = q \<and> r = s"
      if "p \<in> set ps" "q \<in> set qs" "?f p @ r = ?f q @ s" "delim r" "delim s" for p q r s
    proof -
      have k: "fst p = fst q" "stringify (snd p) @ r = stringify (snd q) @ s"
        using quote_prefix[of "fst p" _ "fst q"] that(3) by fastforce+
      from "6.IH"[OF that(1) k(2)] that "6.prems"(2,3) w have "snd p = snd q \<and> r = s"
        by (simp add: list_all_iff)
      with k show ?thesis by (simp add: prod_eq_iff)
    qed
    show "?f x \<noteq> [] \<and> hd (?f x) \<noteq> CHR ''}''" if "x \<in> set ps \<union> set qs" for x
      by simp
  qed simp
  with w show ?case by simp
qed simp_all

section \<open>Service requests and integrity seals\<close>

record service_request =
  rq_timestamp :: int
  rq_requestId :: string
  rq_serviceId :: string
  rq_method :: string
  rq_path :: string
  rq_body :: string

text \<open>The primitives of \<^verbatim>\<open>node:crypto\<close>: SHA-256 in hex, HMAC-SHA-256 in base64url, and Ed25519 keys.\<close>

record primitives =
  sha256Hex :: "string \<Rightarrow> string"
  hmac256 :: "string \<Rightarrow> string \<Rightarrow> string"
  private_key :: "js \<Rightarrow> js option"
  public_key :: "js \<Rightarrow> js option"
  public_of :: "js \<Rightarrow> js"
  ed_sign :: "js \<Rightarrow> string \<Rightarrow> string"
  ed_verify :: "js \<Rightarrow> string \<Rightarrow> string \<Rightarrow> bool"

definition upper_char :: "char \<Rightarrow> char" where
  "upper_char c = (if is_lower c then char_of (code c - 32) else c)"

definition newline :: string where
  "newline = [CHR 0x0A]"

fun join :: "string \<Rightarrow> string list \<Rightarrow> string" where
  "join sep [] = []"
| "join sep [x] = x"
| "join sep (x # y # ys) = x @ sep @ join sep (y # ys)"

definition bodyDigest :: "primitives \<Rightarrow> string \<Rightarrow> string" where
  "bodyDigest P body = sha256Hex P body"

definition canonicalServiceRequest :: "primitives \<Rightarrow> service_request \<Rightarrow> string" where
  "canonicalServiceRequest P r =
     join newline
       [show_int (rq_timestamp r), rq_requestId r, rq_serviceId r, map upper_char (rq_method r),
        rq_path r, bodyDigest P (rq_body r)]"

definition signServiceRequest :: "primitives \<Rightarrow> service_request \<Rightarrow> string \<Rightarrow> string" where
  "signServiceRequest P r secret = hmac256 P secret (canonicalServiceRequest P r)"

definition verifyServiceRequest :: "primitives \<Rightarrow> service_request \<Rightarrow> string \<Rightarrow> js \<Rightarrow> bool" where
  "verifyServiceRequest P r secret signature =
     (case as_str signature of
        None \<Rightarrow> False
      | Some sig \<Rightarrow> sig \<noteq> [] \<and> signServiceRequest P r secret = sig)"

text \<open>\<open>/^vasi-[a-z0-9-]+\/v[1-9][0-9]*$/\<close>\<close>

definition seal_profile_shape :: "string \<Rightarrow> bool" where
  "seal_profile_shape s =
     (take 5 s = ''vasi-'' \<and>
      (let a = takeWhile (\<lambda>c. c \<noteq> CHR ''/'') (drop 5 s); b = dropWhile (\<lambda>c. c \<noteq> CHR ''/'') (drop 5 s)
       in a \<noteq> [] \<and> list_all (\<lambda>c. is_lower c \<or> is_digit c \<or> c = CHR ''-'') a \<and>
          take 2 b = ''/v'' \<and> drop 2 b \<noteq> [] \<and> list_all is_digit (drop 2 b) \<and>
          hd (drop 2 b) \<noteq> CHR ''0''))"

definition sealProfile :: "js \<Rightarrow> string res" where
  "sealProfile v =
     (case as_str v of
        None \<Rightarrow> throw PLAIN_ERROR (Because ''seal profile'')
      | Some s \<Rightarrow> guardE (seal_profile_shape s) PLAIN_ERROR (Because ''seal profile'') (Inr s))"

definition createDetachedIntegritySeal ::
  "primitives \<Rightarrow> js \<Rightarrow> js \<Rightarrow> js \<Rightarrow> js \<Rightarrow> js res" where
  "createDetachedIntegritySeal P keyId payload privateJWK profile =
     bindE (canonicalJSON payload) (\<lambda>manifestBytes.
     case private_key P privateJWK of
       None \<Rightarrow> throw PLAIN_ERROR (Because ''createPrivateKey'')
     | Some privateKey \<Rightarrow>
         bindE (sealProfile profile) (\<lambda>prof.
         Inr (JObj [(''algorithm'', JStr ''Ed25519''), (''keyId'', keyId),
                    (''manifestHash'', JStr (sha256Hex P manifestBytes)), (''profile'', JStr prof),
                    (''publicJWK'', public_of P privateKey),
                    (''signature'', JStr (ed_sign P privateKey manifestBytes))])))"

definition createIntegritySeal :: "primitives \<Rightarrow> js \<Rightarrow> js \<Rightarrow> js \<Rightarrow> js res" where
  "createIntegritySeal P keyId manifest privateJWK =
     createDetachedIntegritySeal P keyId manifest privateJWK (JStr ''vasi-integrity-seal/v1'')"

text \<open>Every exception inside the \<open>try\<close> block counts as a failed verification.\<close>

definition verifyDetachedIntegritySeal :: "primitives \<Rightarrow> js \<Rightarrow> js \<Rightarrow> string list \<Rightarrow> bool" where
  "verifyDetachedIntegritySeal P payload seal allowedProfiles =
     (get seal ''algorithm'' = JStr ''Ed25519'' \<and>
      get seal ''profile'' \<in> JStr ` set allowedProfiles \<and>
      (case (as_str (get seal ''signature''), canonicalJSON payload) of
         (Some sig, Inr manifestBytes) \<Rightarrow>
           get seal ''manifestHash'' = JStr (sha256Hex P manifestBytes) \<and>
           (case public_key P (get seal ''publicJWK'') of
              None \<Rightarrow> False
            | Some key \<Rightarrow> ed_verify P key manifestBytes sig)
       | _ \<Rightarrow> False))"

definition verifyIntegritySeal :: "primitives \<Rightarrow> js \<Rightarrow> js \<Rightarrow> bool" where
  "verifyIntegritySeal P manifest seal =
     verifyDetachedIntegritySeal P manifest seal [''vasi-integrity-seal/v1'']"

section \<open>What canonicalisation keeps\<close>

lemma set_own_order [simp]: "set (own_order ps) = set ps"
  by (auto simp: own_order_def)

lemma mset_own_order [simp]: "mset (own_order ps) = mset ps"
  by (simp add: own_order_def)

lemma canonicalValue_jsonable: "canonicalValue v = Inr w \<Longrightarrow> jsonable w"
proof (induction v arbitrary: w rule: canonicalValue.induct)
  case (5 xs)
  then obtain ys where "mapE canonicalValue xs = Inr ys" "w = JArr ys"
    by (auto simp: res_simps)
  with "5.IH" show ?case
    by (auto simp: list_all_iff dest!: mapE_memD)
next
  case (6 ps)
  let ?f = "\<lambda>p. bindE (canonicalValue (snd p)) (\<lambda>v. Inr (fst p, v))"
  from 6 obtain qs where qs: "mapE ?f (filter keep_member (sort_key fst ps)) = Inr qs"
    and w: "w = JObj (own_order (own_members qs))"
    by (auto simp: res_simps)
  have "jsonable (snd q)" if "q \<in> set qs" for q
  proof -
    from mapE_memD[OF qs that] obtain p
      where "p \<in> set (filter keep_member (sort_key fst ps))" "?f p = Inr q" by blast
    with "6.IH" show ?thesis by (fastforce simp: res_simps)
  qed
  with w show ?case by (auto simp: list_all_iff own_members_def)
qed (auto split: if_splits)

lemma canonicalJSON_Inr:
  "canonicalJSON v = Inr s \<longleftrightarrow> (\<exists>w. canonicalValue v = Inr w \<and> s = stringify w)"
  by (auto simp: canonicalJSON_def res_simps)

lemma canonicalJSON_inject:
  assumes "canonicalJSON a = Inr s" "canonicalJSON b = Inr s"
  shows "canonicalValue a = canonicalValue b"
proof -
  obtain v w where "canonicalValue a = Inr v" "canonicalValue b = Inr w" "stringify v = stringify w"
    using assms by (auto simp: canonicalJSON_Inr)
  moreover from this have "v = w"
    using stringify_prefix[of v "[]" w "[]"] canonicalValue_jsonable by (auto simp: delim_def)
  ultimately show ?thesis by simp
qed

text \<open>Equality of values up to the order of properties, at every depth.\<close>

inductive same_json :: "js \<Rightarrow> js \<Rightarrow> bool" where
  sj_refl: "same_json v v"
| sj_trans: "same_json u v \<Longrightarrow> same_json v w \<Longrightarrow> same_json u w"
| sj_arr: "list_all2 same_json xs ys \<Longrightarrow> same_json (JArr xs) (JArr ys)"
| sj_members: "list_all2 (\<lambda>p q. fst p = fst q \<and> same_json (snd p) (snd q)) ps qs \<Longrightarrow>
     same_json (JObj ps) (JObj qs)"
| sj_order: "mset ps = mset qs \<Longrightarrow> distinct (map fst ps) \<Longrightarrow> same_json (JObj ps) (JObj qs)"

lemma sort_key_perm:
  assumes "mset ps = mset qs" "distinct (map fst ps)"
  shows "sort_key fst ps = sort_key fst qs"
proof (rule sort_key_inj_key_eq)
  show "inj_on fst (set ps)" using assms(2) by (simp add: distinct_map)
qed (use assms in simp_all)

lemma insort_key_list_all2:
  assumes "list_all2 R ps qs" "R p q" "\<And>p q. R p q \<Longrightarrow> f p = f q"
  shows "list_all2 R (insort_key f p ps) (insort_key f q qs)"
  using assms(1) by (induction rule: list_all2_induct) (auto simp: assms(2) assms(3)[OF assms(2)] dest: assms(3))

lemma sort_key_list_all2:
  assumes "list_all2 R ps qs" "\<And>p q. R p q \<Longrightarrow> f p = f q"
  shows "list_all2 R (sort_key f ps) (sort_key f qs)"
  using assms(1)
  by (induction rule: list_all2_induct) (auto simp: sort_key_def intro: insort_key_list_all2 assms(2))

lemma filter_list_all2:
  assumes "list_all2 R xs ys" "\<And>x y. R x y \<Longrightarrow> P x = Q y"
  shows "list_all2 R (filter P xs) (filter Q ys)"
  using assms(1) by (induction rule: list_all2_induct) (auto simp: assms(2))

lemma same_json_canonical:
  "same_json v w \<Longrightarrow> canonicalValue v = canonicalValue w \<and> (v = JUndef \<longleftrightarrow> w = JUndef)"
proof (induction rule: same_json.induct)
  case (sj_arr xs ys)
  then have "list_all2 (\<lambda>x y. canonicalValue x = canonicalValue y) xs ys"
    by (auto elim: list_all2_mono)
  then show ?case by (simp add: mapE_map_eq)
next
  case (sj_members ps qs)
  let ?R = "\<lambda>p q. fst p = fst q \<and> canonicalValue (snd p) = canonicalValue (snd q) \<and>
                  (snd p = JUndef \<longleftrightarrow> snd q = JUndef)"
  have "list_all2 ?R ps qs"
    using sj_members by (rule list_all2_mono) auto
  then have "list_all2 ?R (filter keep_member (sort_key fst ps)) (filter keep_member (sort_key fst qs))"
    by (intro filter_list_all2 sort_key_list_all2) (auto simp: keep_member.simps split_beta')
  then show ?case
    by (simp, subst mapE_map_eq) (auto elim!: list_all2_mono)
qed (auto dest: sort_key_perm)

text \<open>Distinct property names at every depth, as in every object of the language.\<close>

fun wf_js :: "js \<Rightarrow> bool" where
  "wf_js (JArr xs) = list_all wf_js xs"
| "wf_js (JObj ps) = (distinct (map fst ps) \<and> list_all (\<lambda>p. wf_js (snd p)) ps)"
| "wf_js _ = True"

lemma canonicalValue_idem_obj:
  assumes wf: "distinct (map fst ps)"
    and qs: "mapE (\<lambda>p. bindE (canonicalValue (snd p)) (\<lambda>v. Inr (fst p, v)))
               (filter keep_member (sort_key fst ps)) = Inr qs"
    and ih: "\<And>q. q \<in> set qs \<Longrightarrow> canonicalValue (snd q) = Inr (snd q)"
    and js: "\<And>q. q \<in> set qs \<Longrightarrow> snd q \<noteq> JUndef"
  shows "canonicalValue (JObj (own_order (own_members qs))) = Inr (JObj (own_order (own_members qs)))"
proof -
  let ?ms = "own_members qs"
  have fsts: "map fst qs = map fst (filter keep_member (sort_key fst ps))"
    using qs unfolding mapE_Inr
    by (induction rule: list_all2_induct) (auto simp: res_simps)
  have srt: "sorted (map fst (filter keep_member (sort_key fst ps)))"
    by (simp add: sorted_filter)
  have dst: "distinct (map fst (filter keep_member (sort_key fst ps)))"
    using wf by (auto simp: distinct_map intro: inj_on_subset)
  have s: "sorted (map fst ?ms)" and d: "distinct (map fst ?ms)"
    using srt dst unfolding fsts[symmetric] own_members_def
    by (auto simp: sorted_filter distinct_map_filter)
  have "sort_key fst (own_order ?ms) = ?ms"
  proof (rule sort_key_inj_key_eq)
    show "inj_on fst (set (own_order ?ms))" using d by (simp add: distinct_map)
  qed (use s in simp_all)
  moreover have "filter keep_member ?ms = ?ms"
    using js by (intro filter_True) (fastforce simp: own_members_def)
  moreover have "mapE (\<lambda>p. bindE (canonicalValue (snd p)) (\<lambda>v. Inr (fst p, v))) ?ms = Inr ?ms"
    using mapE_idem[of ?ms "\<lambda>p. bindE (canonicalValue (snd p)) (\<lambda>v. Inr (fst p, v))" id] ih
    by (auto simp: own_members_def)
  moreover have "own_members ?ms = ?ms" by (simp add: own_members_def)
  ultimately show ?thesis by simp
qed

lemma canonicalValue_idem:
  "wf_js v \<Longrightarrow> canonicalValue v = Inr w \<Longrightarrow> canonicalValue w = Inr w"
proof (induction v arbitrary: w rule: canonicalValue.induct)
  case (5 xs)
  then obtain ys where ys: "mapE canonicalValue xs = Inr ys" "w = JArr ys"
    by (auto simp: res_simps)
  have "mapE canonicalValue (map id ys) = Inr ys"
    using 5 ys by (intro mapE_idem) (auto dest!: mapE_memD simp: list_all_iff)
  with ys show ?case by simp
next
  case (6 ps)
  let ?f = "\<lambda>p. bindE (canonicalValue (snd p)) (\<lambda>v. Inr (fst p, v))"
  from 6 obtain qs where qs: "mapE ?f (filter keep_member (sort_key fst ps)) = Inr qs"
    and w: "w = JObj (own_order (own_members qs))"
    by (auto simp: res_simps)
  have "canonicalValue (snd q) = Inr (snd q) \<and> snd q \<noteq> JUndef" if "q \<in> set qs" for q
  proof -
    from mapE_memD[OF qs that] obtain p
      where p: "p \<in> set (filter keep_member (sort_key fst ps))" "?f p = Inr q" by blast
    then have c: "canonicalValue (snd p) = Inr (snd q)" by (auto simp: res_simps)
    with p "6.prems"(1) have "canonicalValue (snd q) = Inr (snd q)"
      by (intro "6.IH"[of p]) (auto simp: list_all_iff)
    then show ?thesis by auto
  qed
  with 6 qs show ?case unfolding w by (intro canonicalValue_idem_obj) auto
qed (auto split: if_splits simp: own_order_def own_members_def)

section \<open>Properties\<close>

text \<open>
  C15. The hash of the canonical JSON binds the value: if two values have printed canonical forms
  \<open>x\<close> and \<open>y\<close> with the same hash, then their canonical values are equal, or \<open>x\<close> and \<open>y\<close> are
  themselves a collision of the hash function.
\<close>
theorem hashCanonicalJSON_binding:
  assumes "canonicalJSON a = Inr x" and "canonicalJSON b = Inr y"
    and "hashCanonicalJSON H a = hashCanonicalJSON H b"
  shows "canonicalValue a = canonicalValue b \<or> (x \<noteq> y \<and> H x = H y)"
proof (cases "x = y")
  case True
  with canonicalJSON_inject[of a x b] assms(1,2) show ?thesis by simp
next
  case False
  with assms show ?thesis by (simp add: hashCanonicalJSON_def)
qed

theorem hashCanonicalJSON_binding_witness:
  "canonicalValue (JObj [(''b'', JNull), (''a'', JInt 7)]) =
     canonicalValue (JObj [(''a'', JInt 7), (''b'', JNull)])"
proof -
  have m: "MAX_SAFE_INTEGER = 9007199254740991" by (simp add: MAX_SAFE_INTEGER_def)
  have a: "canonicalJSON (JObj [(''b'', JNull), (''a'', JInt 7)]) =
      canonicalJSON (JObj [(''a'', JInt 7), (''b'', JNull)])"
    by (simp add: canonicalJSON_def same_json_canonical[OF sj_order] m)
  have s: "\<exists>x. canonicalJSON (JObj [(''a'', JInt 7), (''b'', JNull)]) = Inr x"
    by (simp add: canonicalJSON_def m)
  then obtain x where x: "canonicalJSON (JObj [(''a'', JInt 7), (''b'', JNull)]) = Inr x" ..
  show ?thesis
    using hashCanonicalJSON_binding[OF x[folded a] x, of id] a by (simp add: hashCanonicalJSON_def)
qed

text \<open>
  The canonical JSON of a value does not depend on the order in which properties were
  created, at any depth, and canonicalising a canonical value returns it unchanged.
\<close>
theorem canonicalJSON_order_free:
  "(same_json v w \<longrightarrow> canonicalJSON v = canonicalJSON w) \<and>
   (wf_js v \<longrightarrow> canonicalValue v = Inr u \<longrightarrow> canonicalJSON u = canonicalJSON v)"
  using same_json_canonical canonicalValue_idem by (auto simp: canonicalJSON_def)

theorem canonicalJSON_order_free_witness:
  "canonicalJSON (JArr [JObj [(''b'', JNull), (''a'', JInt 7)]]) =
     canonicalJSON (JArr [JObj [(''a'', JInt 7), (''b'', JNull)]])"
proof -
  have "same_json (JArr [JObj [(''b'', JNull), (''a'', JInt 7)]])
          (JArr [JObj [(''a'', JInt 7), (''b'', JNull)]])"
    by (auto intro!: sj_arr sj_order)
  then show ?thesis using canonicalJSON_order_free by blast
qed

text \<open>
  An own property named \<open>__proto__\<close> is lost by canonicalisation: adding one with any
  canonicalisable value leaves the hash of an object unchanged.
\<close>
theorem canonicalJSON_drops_proto:
  assumes "canonicalValue x = Inr y" and "x \<noteq> JUndef"
  shows "canonicalJSON (JObj [(''__proto__'', x)]) = canonicalJSON (JObj [])"
  using assms by (simp add: canonicalJSON_def own_members_def)

theorem canonicalJSON_drops_proto_witness:
  "canonicalJSON (JObj [(''__proto__'', JStr ''forged'')]) = canonicalJSON (JObj [])"
  by (rule canonicalJSON_drops_proto[of _ "JStr ''forged''"]) simp_all

text \<open>
  C16. A detached integrity seal verifies against the payload it was created for, and whatever
  other payload it verifies against has the same canonical value, or the two printed payloads
  are a collision of the digest. The hypothesis is the correctness of Ed25519: a key pair's
  public key verifies its signatures.
\<close>
theorem integrity_seal_roundtrip:
  assumes sound: "\<And>k sk m. public_key P (public_of P sk) = Some k \<Longrightarrow> ed_verify P k m (ed_sign P sk m)"
    and key: "private_key P jwk = Some sk" "public_key P (public_of P sk) = Some pk"
    and made: "createDetachedIntegritySeal P keyId payload jwk (JStr prof) = Inr seal"
    and allowed: "prof \<in> set profiles"
  shows "verifyDetachedIntegritySeal P payload seal profiles \<and>
    (verifyDetachedIntegritySeal P other seal profiles \<longrightarrow>
       (\<exists>x y. canonicalJSON payload = Inr x \<and> canonicalJSON other = Inr y \<and>
          (canonicalValue other = canonicalValue payload \<or>
             (x \<noteq> y \<and> sha256Hex P x = sha256Hex P y))))"
proof -
  obtain x where x: "canonicalJSON payload = Inr x"
    and seal: "seal = JObj [(''algorithm'', JStr ''Ed25519''), (''keyId'', keyId),
                    (''manifestHash'', JStr (sha256Hex P x)), (''profile'', JStr prof),
                    (''publicJWK'', public_of P sk), (''signature'', JStr (ed_sign P sk x))]"
    using made key by (auto simp: createDetachedIntegritySeal_def sealProfile_def res_simps)
  have "verifyDetachedIntegritySeal P payload seal profiles"
    using x allowed key sound[OF key(2)] by (simp add: verifyDetachedIntegritySeal_def seal)
  moreover have "\<exists>y. canonicalJSON other = Inr y \<and> sha256Hex P x = sha256Hex P y"
    if "verifyDetachedIntegritySeal P other seal profiles"
    using that by (auto simp: verifyDetachedIntegritySeal_def seal split: sum.splits)
  ultimately show ?thesis using x canonicalJSON_inject by metis
qed

definition demo_primitives :: primitives where
  "demo_primitives =
     \<lparr>sha256Hex = id, hmac256 = (@), private_key = Some, public_key = Some, public_of = id,
      ed_sign = (\<lambda>k m. m), ed_verify = (\<lambda>k m s. m = s)\<rparr>"

theorem integrity_seal_roundtrip_witness:
  "verifyDetachedIntegritySeal demo_primitives (JObj [])
     (JObj [(''algorithm'', JStr ''Ed25519''), (''keyId'', JStr ''k1''), (''manifestHash'', JStr ''{}''),
            (''profile'', JStr ''vasi-integrity-seal/v1''), (''publicJWK'', JNull),
            (''signature'', JStr ''{}'')]) [''vasi-integrity-seal/v1'']"
  by (rule integrity_seal_roundtrip[of demo_primitives JNull JNull JNull, THEN conjunct1])
    (simp_all add: demo_primitives_def createDetachedIntegritySeal_def sealProfile_def canonicalJSON_def
      own_members_def own_order_def seal_profile_shape_def is_lower_def is_digit_def code_def)

end
