(* ===== verification/Dates.thy ===== *)
theory Dates
  imports Crypto
begin

text \<open>
  Dates: the time value of a \<open>Date\<close> is a whole number of milliseconds from the epoch, at most
  8.64e15 away from it. \<open>toISOString\<close> is written out from the proleptic Gregorian calendar, and
  the canonical timestamps the modules accept are exactly its outputs. Parsing of any other date
  text is left to the runtime (its result is implementation-defined), so it is a parameter of the
  definitions that use it.
\<close>

text \<open>The parts of the runtime that are parameters: the URL parser and the free-form date parser.\<close>

record url =
  url_protocol :: string
  url_username :: string
  url_password :: string
  url_port :: string
  url_hostname :: string
  url_pathname :: string
  url_search :: string
  url_hash :: string
  url_origin :: string
  url_href :: string
  url_hrefNoHash :: string
  url_param :: "string \<Rightarrow> string option"

record runtime =
  new_URL :: "string \<Rightarrow> url option"
  parse_date :: "string \<Rightarrow> int option"

definition DAY_MS :: int where
  "DAY_MS = 86400000"

definition max_time :: int where
  "max_time = 8640000000000000"

definition valid_time :: "int \<Rightarrow> bool" where
  "valid_time t = (\<bar>t\<bar> \<le> max_time)"

section \<open>The calendar\<close>

definition civil_from_days :: "int \<Rightarrow> int \<times> int \<times> int" where
  "civil_from_days days =
     (let z = days + 719468; era = z div 146097; doe = z mod 146097;
          yoe = (doe - doe div 1460 + doe div 36524 - doe div 146096) div 365;
          doy = doe - (365 * yoe + yoe div 4 - yoe div 100);
          mp = (5 * doy + 2) div 153; d = doy - (153 * mp + 2) div 5 + 1;
          m = (if mp < 10 then mp + 3 else mp - 9)
      in (yoe + era * 400 + (if m \<le> 2 then 1 else 0), m, d))"

definition days_from_civil :: "int \<Rightarrow> int \<Rightarrow> int \<Rightarrow> int" where
  "days_from_civil y m d =
     (let y' = (if m \<le> 2 then y - 1 else y); era = y' div 400; yoe = y' mod 400;
          doy = (153 * (if m > 2 then m - 3 else m + 9) + 2) div 5 + d - 1;
          doe = yoe * 365 + yoe div 4 - yoe div 100 + doy
      in era * 146097 + doe - 719468)"

definition pad :: "nat \<Rightarrow> int \<Rightarrow> string" where
  "pad w n = (let s = show_nat (nat n) in replicate (w - length s) (CHR ''0'') @ s)"

definition iso_year :: "int \<Rightarrow> string" where
  "iso_year y =
     (if 0 \<le> y \<and> y \<le> 9999 then pad 4 y
      else if y < 0 then CHR ''-'' # pad 6 (- y) else CHR ''+'' # pad 6 y)"

definition toISOString :: "int \<Rightarrow> string" where
  "toISOString t =
     (let (y, m, d) = civil_from_days (t div DAY_MS); ms = t mod DAY_MS
      in iso_year y @ ''-'' @ pad 2 m @ ''-'' @ pad 2 d @ ''T'' @
         pad 2 (ms div 3600000) @ '':'' @ pad 2 (ms div 60000 mod 60) @ '':'' @
         pad 2 (ms div 1000 mod 60) @ ''.'' @ pad 3 (ms mod 1000) @ ''Z'')"

text \<open>Reading the fields of a text of that shape back into a time value.\<close>

definition field_at :: "string \<Rightarrow> nat \<Rightarrow> nat \<Rightarrow> int" where
  "field_at s i n = int (read_nat (take n (drop i s)))"

definition time_of_fields :: "int \<Rightarrow> string \<Rightarrow> int" where
  "time_of_fields y r =
     (days_from_civil y (field_at r 1 2) (field_at r 4 2)) * DAY_MS +
     field_at r 7 2 * 3600000 + field_at r 10 2 * 60000 + field_at r 13 2 * 1000 + field_at r 16 3"

definition iso_time :: "string \<Rightarrow> int" where
  "iso_time s =
     (if s \<noteq> [] \<and> hd s = CHR ''-'' then time_of_fields (- field_at s 1 6) (drop 7 s)
      else if s \<noteq> [] \<and> hd s = CHR ''+'' then time_of_fields (field_at s 1 6) (drop 7 s)
      else time_of_fields (field_at s 0 4) (drop 4 s))"

text \<open>\<open>Number.isFinite(date.getTime()) && date.toISOString() === value\<close>\<close>

definition canonical_iso :: "string \<Rightarrow> bool" where
  "canonical_iso s = (let t = iso_time s in valid_time t \<and> toISOString t = s)"

definition canonical_timestamp :: "err_code \<Rightarrow> js \<Rightarrow> string \<Rightarrow> string res" where
  "canonical_timestamp c v name =
     (case as_str v of
        None \<Rightarrow> throw c (BadFormat name)
      | Some s \<Rightarrow> guardE (canonical_iso s) c (BadFormat name) (Inr s))"

lemma canonical_timestamp_Inr [res_simps]:
  "canonical_timestamp c v n = Inr s \<longleftrightarrow> v = JStr s \<and> canonical_iso s"
  by (auto simp: canonical_timestamp_def res_simps js_simps split: option.splits)

lemma canonical_iso_time: "canonical_iso s \<Longrightarrow> toISOString (iso_time s) = s \<and> valid_time (iso_time s)"
  by (simp add: canonical_iso_def Let_def)

text \<open>\<open>new Date(value)\<close> for the kinds of value the modules pass.\<close>

fun new_Date :: "runtime \<Rightarrow> js \<Rightarrow> int option" where
  "new_Date R (JDate t) = t"
| "new_Date R (JStr s) = (case parse_date R s of Some t \<Rightarrow> if valid_time t then Some t else None | None \<Rightarrow> None)"
| "new_Date R (JNum (Fin r)) =
     (let t = (if r \<ge> 0 then \<lfloor>r\<rfloor> else \<lceil>r\<rceil>) in if \<bar>r\<bar> \<le> of_int max_time then Some t else None)"
| "new_Date R JNull = Some 0"
| "new_Date R (JBool b) = Some (if b then 1 else 0)"
| "new_Date R _ = None"

end
