(* ===== verification/Doubles.thy ===== *)
theory Doubles
  imports Prelude "HOL-Library.Log_Nat"
begin

text \<open>
  The double arithmetic the sources use: a product or quotient is the exact rational result
  rounded to the nearest double, ties to even, and \<open>Math.round\<close> is the floor of the value plus
  one half. \<open>fl\<close> is that rounding for results below the overflow threshold; every place where
  the sources compute with fractions bounds its operands far below it.

  Shown: rounding is monotone, leaves integers of at most 53 bits alone, and keeps signs.
\<close>

definition pow2 :: "int \<Rightarrow> rat" where
  "pow2 k = 2 powi k"

text \<open>The exponent of the leading bit of a positive rational.\<close>

definition lead_exp :: "rat \<Rightarrow> int" where
  "lead_exp x =
     (let (n, d) = quotient_of x; k = bitlen n - bitlen d
      in if pow2 k \<le> x then k else k - 1)"

definition ulp :: "rat \<Rightarrow> rat" where
  "ulp x = pow2 (max (lead_exp x - 52) (- 1074))"

text \<open>Nearest integer, ties to even.\<close>

definition rne :: "rat \<Rightarrow> int" where
  "rne y =
     (let f = \<lfloor>y\<rfloor>; r = y - of_int f
      in if r < 1 / 2 then f else if r > 1 / 2 then f + 1 else if even f then f else f + 1)"

definition fl_pos :: "rat \<Rightarrow> rat" where
  "fl_pos x = of_int (rne (x / ulp x)) * ulp x"

definition fl :: "rat \<Rightarrow> rat" where
  "fl x = (if x = 0 then 0 else if x > 0 then fl_pos x else - fl_pos (- x))"

definition js_mul :: "rat \<Rightarrow> rat \<Rightarrow> rat" where
  "js_mul x y = fl (x * y)"

definition js_div :: "rat \<Rightarrow> rat \<Rightarrow> rat" where
  "js_div x y = fl (x / y)"

definition js_round :: "rat \<Rightarrow> int" where
  "js_round x = \<lfloor>x + 1 / 2\<rfloor>"

lemma pow2_pos [simp]: "0 < pow2 k"
  by (simp add: pow2_def)

lemma pow2_nonneg [simp]: "0 \<le> pow2 k"
  using pow2_pos[of k] by linarith

lemma pow2_add: "pow2 (a + b) = pow2 a * pow2 b"
  by (simp add: pow2_def power_int_add)

lemma pow2_div: "pow2 a / pow2 b = pow2 (a - b)"
  by (simp add: pow2_def power_int_diff)

lemma pow2_mono: "a \<le> b \<Longrightarrow> pow2 a \<le> pow2 b"
  by (simp add: pow2_def power_int_increasing)

lemma pow2_strict: "a < b \<Longrightarrow> pow2 a < pow2 b"
  by (simp add: pow2_def power_int_strict_increasing)

lemma pow2_0 [simp]: "pow2 0 = 1"
  by (simp add: pow2_def)

lemma pow2_nat: "0 \<le> k \<Longrightarrow> pow2 k = of_int (2 ^ nat k)"
  by (simp add: pow2_def power_int_def)

lemma pow2_1: "pow2 1 = 2"
  by (simp add: pow2_def)

text \<open>The leading exponent brackets the value.\<close>

lemma bitlen_bounds_rat:
  assumes "0 < n"
  shows "pow2 (bitlen n - 1) \<le> of_int n" "of_int n < pow2 (bitlen n)"
proof -
  have p: "0 < bitlen n"
    using bitlen_eq_zero_iff[of n] bitlen_nonneg[of n] assms by linarith
  have b: "2 ^ nat (bitlen n - 1) \<le> n" "n < 2 ^ nat (bitlen n)"
    using bitlen_bounds[OF assms] by auto
  have "pow2 (bitlen n - 1) = of_int (2 ^ nat (bitlen n - 1))" "pow2 (bitlen n) = of_int (2 ^ nat (bitlen n))"
    using p by (simp_all add: pow2_nat)
  with b show "pow2 (bitlen n - 1) \<le> of_int n" "of_int n < pow2 (bitlen n)"
    by (metis of_int_le_iff, metis of_int_less_iff)
qed

lemma lead_exp_bounds:
  assumes "0 < x"
  shows "pow2 (lead_exp x) \<le> x" "x < pow2 (lead_exp x + 1)"
proof -
  obtain n d where q: "quotient_of x = (n, d)" by (cases "quotient_of x")
  have d: "0 < d" using quotient_of_denom_pos[OF q] .
  have x: "x = of_int n / of_int d" using quotient_of_div[OF q] .
  have n: "0 < n" using assms d by (simp add: x zero_less_divide_iff)
  let ?k = "bitlen n - bitlen d"
  have "of_int n < pow2 (bitlen n)" "pow2 (bitlen d - 1) \<le> of_int d"
    using bitlen_bounds_rat n d by auto
  then have "x < pow2 (bitlen n) / pow2 (bitlen d - 1)"
    unfolding x using d n by (intro frac_less) auto
  also have "\<dots> = pow2 (?k + 1)"
    by (simp add: pow2_div algebra_simps)
  finally have up: "x < pow2 (?k + 1)" .
  have "pow2 (bitlen n - 1) \<le> of_int n" "of_int d < pow2 (bitlen d)"
    using bitlen_bounds_rat n d by auto
  then have "pow2 (bitlen n - 1) / pow2 (bitlen d) \<le> x"
    unfolding x using d n by (intro frac_le) auto
  moreover have "pow2 (bitlen n - 1) / pow2 (bitlen d) = pow2 (?k - 1)"
    by (simp add: pow2_div algebra_simps)
  ultimately have lo: "pow2 (?k - 1) \<le> x" by simp
  show "pow2 (lead_exp x) \<le> x" "x < pow2 (lead_exp x + 1)"
    using up lo by (auto simp: lead_exp_def q Let_def)
qed

lemma ulp_pos [simp]: "0 < ulp x"
  by (simp add: ulp_def)

lemma of_ulp: "x / ulp y = of_int m \<Longrightarrow> x = of_int m * ulp y"
  using ulp_pos[of y] by (metis less_irrefl nonzero_eq_divide_eq)

lemma lead_exp_mono:
  assumes "0 < x" "x \<le> y"
  shows "lead_exp x \<le> lead_exp y"
proof (rule ccontr)
  assume "\<not> lead_exp x \<le> lead_exp y"
  then have "pow2 (lead_exp y + 1) \<le> pow2 (lead_exp x)" by (intro pow2_mono) simp
  with lead_exp_bounds[of x] lead_exp_bounds[of y] assms show False by linarith
qed

lemma rne_int [simp]: "rne (of_int n) = n"
  by (simp add: rne_def)

lemma rne_near: "of_int (rne y) \<le> y + 1 / 2" "y - 1 / 2 \<le> of_int (rne y)"
  by (auto simp: rne_def Let_def, linarith+)

lemma rne_mono:
  assumes "x \<le> y"
  shows "rne x \<le> rne y"
proof (cases "\<lfloor>x\<rfloor> = \<lfloor>y\<rfloor>")
  case True
  with assms show ?thesis by (auto simp: rne_def Let_def)
next
  case False
  with assms have "\<lfloor>x\<rfloor> + 1 \<le> \<lfloor>y\<rfloor>"
    using floor_mono[OF assms] by linarith
  then show ?thesis by (auto simp: rne_def Let_def)
qed

lemma pow2_multiple:
  assumes "b \<le> a"
  shows "\<exists>m. pow2 a / pow2 b = of_int m"
proof -
  have "pow2 a / pow2 b = pow2 (a - b)" by (simp add: pow2_def power_int_diff)
  with assms show ?thesis using pow2_nat[of "a - b"] by auto
qed

lemma fl_pos_mono:
  assumes x: "0 < x" and xy: "x \<le> y"
  shows "fl_pos x \<le> fl_pos y"
proof (cases "ulp x = ulp y")
  case True
  with xy have "rne (x / ulp x) \<le> rne (y / ulp x)"
    by (intro rne_mono divide_right_mono) (auto simp: less_imp_le)
  with True show ?thesis by (simp add: fl_pos_def)
next
  case False
  let ?p = "pow2 (lead_exp y)"
  have le: "lead_exp x \<le> lead_exp y" using lead_exp_mono[OF x xy] .
  with False have lt: "lead_exp x < lead_exp y" and big: "- 1074 < lead_exp y - 52"
    by (auto simp: ulp_def max_def le_less split: if_splits)
  have xp: "x \<le> ?p"
    using lead_exp_bounds(2)[OF x] pow2_mono[of "lead_exp x + 1" "lead_exp y"] lt by simp
  have py: "?p \<le> y" using lead_exp_bounds(1)[of y] x xy by simp
  have ex: "\<exists>m. ?p / ulp z = of_int m" if "z = x \<or> z = y" for z
    using that lt big unfolding ulp_def by (auto intro!: pow2_multiple)
  obtain m where m: "?p / ulp x = of_int m" using ex by blast
  obtain k where k: "?p / ulp y = of_int k" using ex by blast
  have "rne (x / ulp x) \<le> rne (?p / ulp x)"
    using xp by (intro rne_mono divide_right_mono) (auto simp: less_imp_le)
  then have "fl_pos x \<le> of_int m * ulp x"
    by (simp add: fl_pos_def m)
  also have "\<dots> = ?p" using of_ulp[OF m] by simp
  also have "\<dots> = of_int k * ulp y" using of_ulp[OF k] .
  also have "\<dots> \<le> fl_pos y"
  proof -
    have "rne (?p / ulp y) \<le> rne (y / ulp y)"
      using py by (intro rne_mono divide_right_mono) (auto simp: less_imp_le)
    then show ?thesis by (simp add: fl_pos_def k)
  qed
  finally show ?thesis .
qed

lemma fl_pos_nonneg: "0 < x \<Longrightarrow> 0 \<le> fl_pos x"
proof -
  assume "0 < x"
  then have "rne 0 \<le> rne (x / ulp x)" by (intro rne_mono) (simp add: less_imp_le)
  moreover have "rne 0 = 0" using rne_int[of 0] by simp
  ultimately show ?thesis
    using ulp_pos[of x] by (simp add: fl_pos_def less_imp_le)
qed

lemma fl_mono:
  assumes "x \<le> y"
  shows "fl x \<le> fl y"
proof -
  consider "0 < x" | "x \<le> 0" "0 \<le> y" | "y < 0" using assms by linarith
  then show ?thesis
  proof cases
    case 1
    with assms show ?thesis by (simp add: fl_def fl_pos_mono)
  next
    case 2
    then have "fl x \<le> 0" "0 \<le> fl y"
      using fl_pos_nonneg[of y] fl_pos_nonneg[of "- x"] by (auto simp: fl_def)
    then show ?thesis by linarith
  next
    case 3
    with assms show ?thesis by (simp add: fl_def fl_pos_mono)
  qed
qed

text \<open>An integer of at most 53 bits is a double.\<close>

lemma fl_of_int:
  assumes "\<bar>n\<bar> \<le> 2 ^ 53"
  shows "fl (of_int n) = of_int n"
proof -
  have key: "fl_pos (of_int k) = of_int k" if "0 < k" "k \<le> 2 ^ 53" for k :: int
  proof -
    let ?x = "of_int k :: rat"
    have "\<exists>m. ?x / ulp ?x = of_int m"
    proof (cases "lead_exp ?x \<le> 52")
      case True
      then have "\<exists>m. 1 / ulp ?x = of_int m"
        unfolding ulp_def using pow2_multiple[of "max (lead_exp ?x - 52) (- 1074)" 0] by simp
      then obtain m where "1 / ulp ?x = of_int m" ..
      then have "?x * (1 / ulp ?x) = of_int (k * m)" by simp
      then have "?x / ulp ?x = of_int (k * m)" by simp
      then show ?thesis ..
    next
      case False
      have "pow2 53 = 2 ^ 53" by (simp add: pow2_def)
      moreover have "pow2 53 \<le> pow2 (lead_exp ?x)" using False by (intro pow2_mono) simp
      moreover have "pow2 (lead_exp ?x) \<le> ?x" using that by (intro lead_exp_bounds) simp
      moreover have "?x \<le> 2 ^ 53" using that(2) by (metis of_int_le_iff of_int_numeral of_int_power)
      ultimately have "?x = pow2 (lead_exp ?x)" by simp
      then show ?thesis
        unfolding ulp_def
        using pow2_multiple[of "max (lead_exp ?x - 52) (- 1074)" "lead_exp ?x"] False by auto
    qed
    then obtain m where "?x / ulp ?x = of_int m" ..
    moreover from this have "of_int m * ulp ?x = ?x"
      by (simp flip: of_ulp)
    ultimately show ?thesis by (simp add: fl_pos_def)
  qed
  show ?thesis
    using key[of n] key[of "- n"] assms by (auto simp: fl_def)
qed

lemma fl_0 [simp]: "fl 0 = 0"
  by (simp add: fl_def)

lemma fl_between:
  assumes "of_int a \<le> x" "x \<le> of_int b" "\<bar>a\<bar> \<le> 2 ^ 53" "\<bar>b\<bar> \<le> 2 ^ 53"
  shows "of_int a \<le> fl x" "fl x \<le> of_int b"
  using fl_mono[OF assms(1)] fl_mono[OF assms(2)] fl_of_int[OF assms(3)] fl_of_int[OF assms(4)]
  by auto

lemma js_round_mono: "x \<le> y \<Longrightarrow> js_round x \<le> js_round y"
  by (simp add: js_round_def floor_mono)

lemma js_round_of_int [simp]: "js_round (of_int n) = n"
  by (simp add: js_round_def floor_eq_iff)

lemma js_round_between:
  assumes "of_int a \<le> x" "x \<le> of_int b"
  shows "a \<le> js_round x" "js_round x \<le> b"
  using js_round_mono[OF assms(1)] js_round_mono[OF assms(2)] by simp_all

end
