(* ===== verification/Telemetry.thy ===== *)
theory Telemetry
  imports Prelude "HOL-Library.Multiset"
begin

text \<open>
  What the two telemetry calculations share: events are grouped into sessions in the order the
  sessions first appear, each session is replayed in sequence order, and running totals cross
  session boundaries. The locale \<open>credited_clock\<close> is the contract both replays meet: engaged time
  never exceeds visible time, and visible time never exceeds open time.
\<close>

definition group_sessions :: "('e \<Rightarrow> 'k) \<Rightarrow> ('e \<Rightarrow> int) \<Rightarrow> 'e list \<Rightarrow> 'e list list" where
  "group_sessions key sequence events =
     map (\<lambda>k. sort_key sequence (filter (\<lambda>e. key e = k) events)) (uniq (map key events))"

definition run_session :: "('s \<Rightarrow> 's) \<Rightarrow> ('s \<Rightarrow> 'e \<Rightarrow> 's) \<Rightarrow> ('s \<Rightarrow> 's) \<Rightarrow> 's \<Rightarrow> 'e list \<Rightarrow> 's" where
  "run_session start step finish s es = finish (foldl step (start s) es)"

definition run_sessions ::
  "('s \<Rightarrow> 's) \<Rightarrow> ('s \<Rightarrow> 'e \<Rightarrow> 's) \<Rightarrow> ('s \<Rightarrow> 's) \<Rightarrow> 's \<Rightarrow> 'e list list \<Rightarrow> 's" where
  "run_sessions start step finish s groups = foldl (run_session start step finish) s groups"

text \<open>The check on consecutive events of a batch.\<close>

fun in_order :: "('e \<Rightarrow> int) \<Rightarrow> ('e \<Rightarrow> int) \<Rightarrow> 'e list \<Rightarrow> bool" where
  "in_order sequence clock (a # b # es) =
     (sequence a < sequence b \<and> clock a \<le> clock b \<and> in_order sequence clock (b # es))"
| "in_order sequence clock _ = True"

lemma in_order_sorted:
  "in_order q c es \<Longrightarrow> sorted_wrt (\<lambda>a b. q a < q b \<and> c a \<le> c b) es"
proof (induction q c es rule: in_order.induct)
  case (1 q c a b es)
  then have "sorted_wrt (\<lambda>a b. q a < q b \<and> c a \<le> c b) (b # es)" "q a < q b" "c a \<le> c b" by auto
  then show ?case by fastforce
qed auto

lemma filter_partition_mset:
  "distinct ks \<Longrightarrow> key ` set es \<subseteq> set ks \<Longrightarrow>
     (\<Sum>k\<leftarrow>ks. mset (filter (\<lambda>e. key e = k) es)) = mset es"
proof (induction es)
  case (Cons e es)
  have none: "(\<Sum>k\<leftarrow>us. if key e = k then {#e#} else {#}) = {#}" if "key e \<notin> set us" for us
    using that by (induction us) auto
  have "(\<Sum>k\<leftarrow>us. if key e = k then {#e#} else {#}) = {#e#}" if "distinct us" "key e \<in> set us" for us
    using that by (induction us) (auto simp: none)
  then have one: "(\<Sum>k\<leftarrow>ks. if key e = k then {#e#} else {#}) = {#e#}"
    using Cons.prems by simp
  have "(\<Sum>k\<leftarrow>ks. mset (filter (\<lambda>x. key x = k) (e # es))) =
      (\<Sum>k\<leftarrow>ks. (if key e = k then {#e#} else {#}) + mset (filter (\<lambda>x. key x = k) es))"
    by (intro arg_cong[where f = sum_list] map_cong) auto
  also have "\<dots> = {#e#} + mset es"
    using Cons by (simp add: sum_list_addf one)
  finally show ?case by simp
qed (simp add: sum_list_eq_0_iff)

text \<open>Grouping loses no event and invents none.\<close>

lemma mset_group_sessions: "mset (concat (group_sessions key q es)) = mset es"
proof -
  have "mset (concat (group_sessions key q es)) =
      (\<Sum>k\<leftarrow>uniq (map key es). mset (filter (\<lambda>e. key e = k) es))"
    by (simp add: group_sessions_def mset_concat comp_def)
  also have "\<dots> = mset es" by (intro filter_partition_mset) auto
  finally show ?thesis .
qed

lemma set_group_sessions: "(\<Union>g \<in> set (group_sessions key q es). set g) = set es"
  using arg_cong[OF mset_group_sessions[of key q es], of set_mset] by simp

lemma group_sessions_sorted:
  "g \<in> set (group_sessions key q es) \<Longrightarrow> sorted (map q g)"
  by (auto simp: group_sessions_def)

text \<open>An invariant of the parts of a replay is an invariant of the replay.\<close>

lemma run_sessions_inv:
  assumes "P s" "\<And>s. P s \<Longrightarrow> P (start s)" "\<And>s. P s \<Longrightarrow> P (finish s)"
    and "\<And>s g e. g \<in> set groups \<Longrightarrow> e \<in> set g \<Longrightarrow> P s \<Longrightarrow> P (step s e)"
  shows "P (run_sessions start step finish s groups)"
proof -
  have inner: "P (foldl step s g)" if "P s" "\<And>s e. e \<in> set g \<Longrightarrow> P s \<Longrightarrow> P (step s e)" for s g
    using that by (induction g arbitrary: s) auto
  show ?thesis
    using assms(1,4) unfolding run_sessions_def
  proof (induction groups arbitrary: s)
    case (Cons g gs)
    have "P (run_session start step finish s g)"
      unfolding run_session_def using Cons.prems by (intro assms(2,3) inner) auto
    then have "P (foldl (run_session start step finish) (run_session start step finish s g) gs)"
      by (rule Cons.IH) (rule Cons.prems(2), auto)
    then show ?case by simp
  qed simp
qed

locale credited_clock =
  fixes start :: "'s \<Rightarrow> 's" and step :: "'s \<Rightarrow> 'e \<Rightarrow> 's" and finish :: "'s \<Rightarrow> 's"
    and engaged :: "'s \<Rightarrow> int" and visible :: "'s \<Rightarrow> int" and opened :: "'s \<Rightarrow> int"
  assumes start_keeps: "engaged (start s) = engaged s" "visible (start s) = visible s" "opened (start s) = opened s"
    and finish_keeps: "engaged (finish s) = engaged s" "visible (finish s) = visible s" "opened (finish s) = opened s"
    and step_credit: "\<exists>a b c. engaged (step s e) = engaged s + a \<and> visible (step s e) = visible s + b \<and>
          opened (step s e) = opened s + c \<and> 0 \<le> a \<and> a \<le> b \<and> b \<le> c"
begin

definition ordered_clock :: "'s \<Rightarrow> bool" where
  "ordered_clock s = (0 \<le> engaged s \<and> engaged s \<le> visible s \<and> visible s \<le> opened s)"

lemma step_ordered: "ordered_clock s \<Longrightarrow> ordered_clock (step s e)"
  using step_credit[of s e] by (auto simp: ordered_clock_def)

lemma run_ordered: "ordered_clock s \<Longrightarrow> ordered_clock (run_sessions start step finish s groups)"
  by (rule run_sessions_inv) (auto simp: step_ordered, auto simp: ordered_clock_def start_keeps finish_keeps)

end

end
