(* ===== verification/Media.thy ===== *)
theory Media
  imports Dates Doubles Telemetry
begin

text \<open>
  External media activities: \<^verbatim>\<open>src/packages/engine-domain/media.mjs\<close>. The definition side
  normalises a media descriptor for seven providers and fixes what completion a descriptor may
  require; the telemetry side validates event batches and computes the summary that decides
  playback completion.

  URL parsing is the parameter \<open>new_URL\<close> of the runtime. Fractional seconds are doubles, turned
  into milliseconds by \<open>Math.round(value * 1000)\<close> as in the source.
\<close>

section \<open>Vocabulary\<close>

datatype media_provider = Youtube | Vimeo | Sharepoint | Google_drive | Dropbox | Generic | External_link

definition MEDIA_PROVIDERS :: "(string \<times> media_provider) list" where
  "MEDIA_PROVIDERS =
     [(''youtube'', Youtube), (''vimeo'', Vimeo), (''sharepoint'', Sharepoint),
      (''google_drive'', Google_drive), (''dropbox'', Dropbox), (''generic'', Generic),
      (''external_link'', External_link)]"

datatype media_capability =
  Instrumented_player | Version_aware_preview | Generic_embed | External_link_only

definition MEDIA_CAPABILITIES :: "(string \<times> media_capability) list" where
  "MEDIA_CAPABILITIES =
     [(''instrumented_player'', Instrumented_player), (''version_aware_preview'', Version_aware_preview),
      (''generic_embed'', Generic_embed), (''external_link'', External_link_only)]"

datatype media_event_type =
    Presented | Frame_loaded | Frame_error | Visible | Hidden | Focus | Blur | Heartbeat
  | Interaction | Ready | Play | Pause | Buffer_start | Buffer_end | Seek | Rate | Position
  | Ended | Provider_error | Departed | Returned | Disconnect | Accessibility_alternative

definition MEDIA_EVENT_TYPES :: "(string \<times> media_event_type) list" where
  "MEDIA_EVENT_TYPES =
     [(''presented'', Presented), (''frame_loaded'', Frame_loaded), (''frame_error'', Frame_error),
      (''visible'', Visible), (''hidden'', Hidden), (''focus'', Focus), (''blur'', Blur),
      (''heartbeat'', Heartbeat), (''interaction'', Interaction), (''ready'', Ready),
      (''play'', Play), (''pause'', Pause), (''buffer_start'', Buffer_start),
      (''buffer_end'', Buffer_end), (''seek'', Seek), (''rate'', Rate), (''position'', Position),
      (''ended'', Ended), (''provider_error'', Provider_error), (''departed'', Departed),
      (''returned'', Returned), (''disconnect'', Disconnect),
      (''accessibility_alternative'', Accessibility_alternative)]"

definition PLAYER_EVENTS :: "media_event_type list" where
  "PLAYER_EVENTS =
     [Ready, Play, Pause, Buffer_start, Buffer_end, Seek, Rate, Position, Ended, Provider_error]"

definition FRAME_EVENTS :: "media_event_type list" where
  "FRAME_EVENTS =
     [Presented, Frame_loaded, Frame_error, Visible, Hidden, Focus, Blur, Heartbeat, Interaction,
      Disconnect, Accessibility_alternative]"

definition LINK_EVENTS :: "media_event_type list" where
  "LINK_EVENTS =
     [Presented, Focus, Blur, Heartbeat, Interaction, Departed, Returned, Disconnect,
      Accessibility_alternative]"

text \<open>The limitation sentences a descriptor or a summary carries.\<close>

datatype limitation =
    Binds_change_token | No_stable_version | No_exact_bytes
  | Sharepoint_access | Sharepoint_presentation | Drive_access | Drive_presentation
  | Dropbox_departure | Generic_visibility | Link_departure
  | Not_instrumented | Duration_unavailable | Gaps_not_credited | Provider_errors
  | Incomplete_sessions | Supporting_evidence_only

record media_version =
  ver_cTag :: "string option"
  ver_checksum :: "string option"
  ver_eTag :: "string option"
  ver_id :: "string option"
  ver_lastModifiedAt :: "string option"

record media_adapter =
  ad_id :: string
  ad_version :: string

record media_descriptor =
  d_accessMode :: string
  d_adapter :: media_adapter
  d_allowedOrigins :: "string list"
  d_capability :: media_capability
  d_description :: "string option"
  d_dimensions :: "(int \<times> int) option"
  d_durationMilliseconds :: "int option"
  d_embedUrl :: "string option"
  d_itemId :: string
  d_kind :: string
  d_limitations :: "limitation list"
  d_metadataProvenance :: string
  d_owner :: "string option"
  d_provider :: media_provider
  d_sourceUrl :: string
  d_title :: string
  d_version :: media_version

record completion_policy =
  cp_minimumUniqueSeconds :: int
  cp_mode :: string
  cp_thresholdPercent :: int

record telemetry_policy =
  tp_heartbeatSeconds :: int
  tp_idleSeconds :: int
  tp_maxCreditedGapSeconds :: int

record accessibility_alternative =
  alt_label :: string
  alt_url :: "string option"

record media_content =
  mc_accessibilityAlternative :: "accessibility_alternative option"
  mc_acknowledgementLabel :: string
  mc_completionPolicy :: completion_policy
  mc_descriptor :: media_descriptor
  mc_prompt :: string
  mc_providerNotice :: string
  mc_telemetryPolicy :: telemetry_policy

section \<open>Helpers\<close>

abbreviation invalidDefinition :: "reason \<Rightarrow> 'a res" where
  "invalidDefinition r \<equiv> throw INVALID_WORKFLOW r"

abbreviation invalidTelemetry :: "reason \<Rightarrow> 'a res" where
  "invalidTelemetry r \<equiv> throw INVALID_MEDIA_TELEMETRY r"

abbreviation strictDefinitionObject :: "js \<Rightarrow> string \<Rightarrow> string list \<Rightarrow> js res" where
  "strictDefinitionObject v name allowedKeys \<equiv> strict_object INVALID_WORKFLOW v name allowedKeys"

abbreviation strictTelemetryObject :: "js \<Rightarrow> string \<Rightarrow> string list \<Rightarrow> js res" where
  "strictTelemetryObject v name allowedKeys \<equiv> strict_object INVALID_MEDIA_TELEMETRY v name allowedKeys"

abbreviation boundedDefinitionString :: "js \<Rightarrow> string \<Rightarrow> nat \<Rightarrow> nat \<Rightarrow> string res" where
  "boundedDefinitionString v field lo hi \<equiv> bounded_string INVALID_WORKFLOW v field lo hi"

abbreviation optionalDefinitionString :: "js \<Rightarrow> string \<Rightarrow> nat \<Rightarrow> string option res" where
  "optionalDefinitionString v field hi \<equiv> optional_string INVALID_WORKFLOW v field hi"

abbreviation safeInteger :: "js \<Rightarrow> string \<Rightarrow> int \<Rightarrow> int \<Rightarrow> int res" where
  "safeInteger v field lo hi \<equiv> whole_number INVALID_WORKFLOW v field lo hi"

abbreviation safeTelemetryInteger :: "js \<Rightarrow> string \<Rightarrow> int \<Rightarrow> int \<Rightarrow> int res" where
  "safeTelemetryInteger v field lo hi \<equiv> whole_number INVALID_MEDIA_TELEMETRY v field lo hi"

definition responseToken :: "js \<Rightarrow> string \<Rightarrow> nat \<Rightarrow> string res" where
  "responseToken v field maximum =
     (case as_str v of
        None \<Rightarrow> invalidTelemetry (BadFormat field)
      | Some s \<Rightarrow>
          guardE (js_trim s \<noteq> [] \<and> length s \<le> maximum \<and> list_all (\<lambda>c. code c > 31) s)
            INVALID_MEDIA_TELEMETRY (BadFormat field) (Inr s))"

definition optionalResponseString :: "js \<Rightarrow> nat \<Rightarrow> string option res" where
  "optionalResponseString v maximum =
     (if absent v then Inr None
      else case as_str v of
             None \<Rightarrow> invalidTelemetry (Because ''event detail'')
           | Some s \<Rightarrow>
               guardE (length s \<le> maximum \<and> list_all (\<lambda>c. code c \<noteq> 0) s)
                 INVALID_MEDIA_TELEMETRY (Because ''event detail'') (Inr (Some s)))"

text \<open>\<open>Number.isFinite(value) && minimum <= value && value <= maximum\<close>, then \<open>Math.round(value * 1000)\<close>.\<close>

definition milli :: "rat \<Rightarrow> int" where
  "milli r = js_round (js_mul r 1000)"

definition bounded_milli :: "err_code \<Rightarrow> js \<Rightarrow> string \<Rightarrow> rat \<Rightarrow> rat \<Rightarrow> int option res" where
  "bounded_milli c v field lo hi =
     (if nullish v then Inr None
      else case finite_num v of
             None \<Rightarrow> throw c (BadFormat field)
           | Some r \<Rightarrow> guardE (lo \<le> r \<and> r \<le> hi) c (BadFormat field) (Inr (Some (milli r))))"

definition optionalDurationMilliseconds :: "js \<Rightarrow> string \<Rightarrow> int option res" where
  "optionalDurationMilliseconds v field = bounded_milli INVALID_WORKFLOW v field (1 / 4) 604800"

definition optionalTelemetryMilliseconds :: "js \<Rightarrow> string \<Rightarrow> rat \<Rightarrow> rat \<Rightarrow> int option res" where
  "optionalTelemetryMilliseconds v field minimum maximum =
     bounded_milli INVALID_MEDIA_TELEMETRY v field minimum maximum"

definition optionalTelemetryRate :: "js \<Rightarrow> string \<Rightarrow> int option res" where
  "optionalTelemetryRate v field = bounded_milli INVALID_MEDIA_TELEMETRY v field (fl (1 / 10)) 16"

definition secondsToMilliseconds :: "rat option \<Rightarrow> int option" where
  "secondsToMilliseconds v = map_option milli v"

definition rateToMilli :: "rat option \<Rightarrow> int option" where
  "rateToMilli v = map_option milli v"

definition safeURL :: "runtime \<Rightarrow> js \<Rightarrow> string \<Rightarrow> url res" where
  "safeURL R v field =
     (case as_str v of
        None \<Rightarrow> invalidDefinition (BadFormat field)
      | Some s \<Rightarrow>
          guardE (length s \<le> 2048) INVALID_WORKFLOW (BadFormat field)
            (case new_URL R s of
               None \<Rightarrow> invalidDefinition (BadFormat field)
             | Some u \<Rightarrow>
                 guardE (url_protocol u = ''https:'' \<and> url_username u = [] \<and> url_password u = [] \<and>
                         (url_port u = [] \<or> url_port u = ''443''))
                   INVALID_WORKFLOW (Because ''credential-free HTTPS URL'')
                   (Inr (u\<lparr>url_hash := [], url_href := url_hrefNoHash u\<rparr>))))"

definition requireHost :: "url \<Rightarrow> (string \<Rightarrow> bool) \<Rightarrow> 'a res \<Rightarrow> 'a res" where
  "requireHost u predicate k =
     guardE (predicate (js_lower (url_hostname u))) INVALID_WORKFLOW (Because ''media source host'') k"

definition normalizeConfiguredOrigin :: "runtime \<Rightarrow> js \<Rightarrow> string res" where
  "normalizeConfiguredOrigin R v =
     bindE (safeURL R v ''configured media origin'') (\<lambda>u.
     guardE (url_pathname u = ''/'' \<and> url_search u = []) INVALID_WORKFLOW
       (Because ''configured media origin'') (Inr (url_origin u)))"

definition normalizeAccessMode :: "js \<Rightarrow> string res" where
  "normalizeAccessMode v =
     (let mode = js_or v (JStr ''provider_shared'')
      in case as_str mode of
           None \<Rightarrow> invalidDefinition (Because ''media access mode'')
         | Some m \<Rightarrow>
             guardE (m \<in> set [''public'', ''provider_shared'', ''provider_authenticated''])
               INVALID_WORKFLOW (Because ''media access mode'') (Inr m))"

definition normalizeDate :: "runtime \<Rightarrow> js \<Rightarrow> string \<Rightarrow> string option res" where
  "normalizeDate R v field =
     (if absent v then Inr None
      else case as_str v of
             None \<Rightarrow> invalidDefinition (BadFormat field)
           | Some s \<Rightarrow>
               (case new_Date R v of
                  None \<Rightarrow> invalidDefinition (BadFormat field)
                | Some t \<Rightarrow> Inr (Some (toISOString t))))"

definition normalizeVersion :: "runtime \<Rightarrow> js \<Rightarrow> media_version res" where
  "normalizeVersion R input =
     bindE (if get input ''version'' = JUndef then Inr (JObj [])
            else strictDefinitionObject (get input ''version'') ''media version''
                   [''cTag'', ''checksum'', ''eTag'', ''id'', ''lastModifiedAt'']) (\<lambda>nested.
     bindE (optionalDefinitionString (get nested ''cTag'') ''version.cTag'' 512) (\<lambda>cTag.
     bindE (optionalDefinitionString (js_or (get nested ''checksum'') (get input ''checksum''))
              ''version.checksum'' 512) (\<lambda>checksum.
     bindE (optionalDefinitionString (get nested ''eTag'') ''version.eTag'' 512) (\<lambda>eTag.
     bindE (optionalDefinitionString (get nested ''id'') ''version.id'' 512) (\<lambda>vid.
     bindE (normalizeDate R (js_or (get nested ''lastModifiedAt'') (get input ''lastModifiedAt''))
              ''version.lastModifiedAt'') (\<lambda>lm.
     Inr \<lparr>ver_cTag = cTag, ver_checksum = checksum, ver_eTag = eTag, ver_id = vid,
          ver_lastModifiedAt = lm\<rparr>))))))"

definition hasStableVersion :: "media_version \<Rightarrow> bool" where
  "hasStableVersion v =
     (ver_id v \<noteq> None \<or> ver_eTag v \<noteq> None \<or> ver_cTag v \<noteq> None \<or> ver_checksum v \<noteq> None)"

definition providerLimitations :: "media_version \<Rightarrow> limitation list" where
  "providerLimitations v = (if hasStableVersion v then [Binds_change_token] else [No_stable_version])"

definition normalizeDimensions :: "js \<Rightarrow> (int \<times> int) option res" where
  "normalizeDimensions v =
     (if v = JUndef then Inr None
      else bindE (strictDefinitionObject v ''media dimensions'' [''height'', ''width'']) (\<lambda>input.
           bindE (safeInteger (get input ''height'') ''dimensions.height'' 1 100000) (\<lambda>h.
           bindE (safeInteger (get input ''width'') ''dimensions.width'' 1 100000) (\<lambda>w.
           Inr (Some (h, w))))))"

definition normalizeAccessibilityAlternative :: "runtime \<Rightarrow> js \<Rightarrow> accessibility_alternative option res" where
  "normalizeAccessibilityAlternative R v =
     (if v = JUndef then Inr None
      else bindE (strictDefinitionObject v ''accessibility alternative'' [''label'', ''url'']) (\<lambda>input.
           bindE (boundedDefinitionString (get input ''label'') ''accessibilityAlternative.label'' 2 160)
             (\<lambda>label.
           bindE (if truthy (get input ''url'')
                  then bindE (safeURL R (get input ''url'') ''accessibilityAlternative.url'')
                         (\<lambda>u. Inr (Some (url_href u)))
                  else Inr None) (\<lambda>href.
           Inr (Some \<lparr>alt_label = label, alt_url = href\<rparr>)))))"

definition normalizeTelemetryPolicy :: "js \<Rightarrow> telemetry_policy res" where
  "normalizeTelemetryPolicy v =
     bindE (if v = JUndef then Inr (JObj [])
            else strictDefinitionObject v ''telemetry policy''
                   [''heartbeatSeconds'', ''idleSeconds'', ''maxCreditedGapSeconds'']) (\<lambda>input.
     bindE (safeInteger (coalesce (get input ''heartbeatSeconds'') (JInt 5)) ''heartbeatSeconds'' 2 60)
       (\<lambda>hb.
     bindE (safeInteger (coalesce (get input ''idleSeconds'') (JInt 30)) ''idleSeconds'' hb 900) (\<lambda>idle.
     bindE (safeInteger (coalesce (get input ''maxCreditedGapSeconds'') (JInt (max 10 (hb * 2))))
              ''maxCreditedGapSeconds'' hb 120) (\<lambda>gap.
     Inr \<lparr>tp_heartbeatSeconds = hb, tp_idleSeconds = idle, tp_maxCreditedGapSeconds = gap\<rparr>))))"

definition normalizeCompletionPolicy :: "js \<Rightarrow> media_descriptor \<Rightarrow> completion_policy res" where
  "normalizeCompletionPolicy v descriptor =
     bindE (if v = JUndef then Inr (JObj [])
            else strictDefinitionObject v ''completion policy''
                   [''minimumUniqueSeconds'', ''mode'', ''thresholdPercent'']) (\<lambda>input.
     let defaultMode = (if d_capability descriptor = Instrumented_player
                        then ''playback_or_acknowledgement'' else ''acknowledgement'')
     in case as_str (js_or (get input ''mode'') (JStr defaultMode)) of
          None \<Rightarrow> invalidDefinition (Because ''media completion mode'')
        | Some mode \<Rightarrow>
            guardE (mode \<in> set [''playback'', ''acknowledgement'', ''playback_or_acknowledgement''])
              INVALID_WORKFLOW (Because ''media completion mode'')
            (guardE (d_capability descriptor = Instrumented_player \<or> mode = ''acknowledgement'')
              INVALID_WORKFLOW (Because ''capability cannot require playback'')
            (bindE (safeInteger (coalesce (get input ''minimumUniqueSeconds'') (JInt 1))
                      ''minimumUniqueSeconds'' 0 604800) (\<lambda>mu.
             bindE (safeInteger (coalesce (get input ''thresholdPercent'') (JInt 90))
                      ''thresholdPercent'' 1 100) (\<lambda>th.
             Inr \<lparr>cp_minimumUniqueSeconds = mu, cp_mode = mode, cp_thresholdPercent = th\<rparr>)))))"

section \<open>Provider item identifiers\<close>

definition strip :: "string \<Rightarrow> string \<Rightarrow> string option" where
  "strip p s = (if take (length p) s = p then Some (drop (length p) s) else None)"

definition str_opt :: "string option \<Rightarrow> js" where
  "str_opt s = opt_js JStr s"

text \<open>\<open>pathname.split("/").filter(Boolean)[0]\<close>\<close>

definition first_segment :: "string \<Rightarrow> string option" where
  "first_segment path =
     (let t = takeWhile (\<lambda>c. c \<noteq> CHR ''/'') (dropWhile (\<lambda>c. c = CHR ''/'') path)
      in if t = [] then None else Some t)"

text \<open>The first match of \<open>/\/(?:embed|shorts|live)\/([^/?]+)/\<close>.\<close>

fun match_embed :: "string \<Rightarrow> string option" where
  "match_embed [] = None"
| "match_embed (c # cs) =
     (case find (\<lambda>p. case strip p (c # cs) of
                     Some r \<Rightarrow> takeWhile (\<lambda>d. d \<noteq> CHR ''/'' \<and> d \<noteq> CHR ''?'') r \<noteq> []
                   | None \<Rightarrow> False) [''/embed/'', ''/shorts/'', ''/live/''] of
        Some p \<Rightarrow> Some (takeWhile (\<lambda>d. d \<noteq> CHR ''/'' \<and> d \<noteq> CHR ''?'') (drop (length p) (c # cs)))
      | None \<Rightarrow> match_embed cs)"

text \<open>The first match of \<open>/(?:\/video)?\/(\d{6,12})(?:\/|$)/\<close>.\<close>

fun match_digits :: "string \<Rightarrow> string option" where
  "match_digits [] = None"
| "match_digits (c # cs) =
     (let d = takeWhile is_digit cs; r = dropWhile is_digit cs
      in if c = CHR ''/'' \<and> 6 \<le> length d \<and> length d \<le> 12 \<and> (r = [] \<or> hd r = CHR ''/'')
         then Some d else match_digits cs)"

text \<open>The first match of \<open>/\/d\/([A-Za-z0-9_-]{10,200})/\<close>.\<close>

definition drive_char :: "char \<Rightarrow> bool" where
  "drive_char c = (is_alnum c \<or> c = CHR ''_'' \<or> c = CHR ''-'')"

fun match_drive :: "string \<Rightarrow> string option" where
  "match_drive [] = None"
| "match_drive (c # cs) =
     (case strip ''/d/'' (c # cs) of
        Some r \<Rightarrow> if length (takeWhile drive_char r) \<ge> 10 then Some (take 200 (takeWhile drive_char r))
                  else match_drive cs
      | None \<Rightarrow> match_drive cs)"

definition drop_www :: "string \<Rightarrow> string" where
  "drop_www h = (case strip ''www.'' h of Some r \<Rightarrow> r | None \<Rightarrow> h)"

definition youtubeId :: "url \<Rightarrow> js \<Rightarrow> string res" where
  "youtubeId source supplied =
     (let host = drop_www (js_lower (url_hostname source));
          check = (\<lambda>candidate. case as_str candidate of
                     None \<Rightarrow> invalidDefinition (Because ''YouTube video ID'')
                   | Some c \<Rightarrow> guardE (base64url_shape 11 11 c) INVALID_WORKFLOW
                               (Because ''YouTube video ID'') (Inr c))
      in if host = ''youtu.be'' then check (js_or supplied (str_opt (first_segment (url_pathname source))))
         else if host \<in> set [''youtube.com'', ''m.youtube.com'', ''music.youtube.com'', ''youtube-nocookie.com'']
         then check (js_or supplied (js_or (str_opt (url_param source ''v''))
                (str_opt (match_embed (url_pathname source)))))
         else invalidDefinition (Because ''YouTube source host''))"

definition vimeoId :: "url \<Rightarrow> js \<Rightarrow> string res" where
  "vimeoId source supplied =
     requireHost source (\<lambda>h. h = ''vimeo.com'' \<or> h = ''www.vimeo.com'' \<or> h = ''player.vimeo.com'')
     (case as_str (js_or supplied (str_opt (match_digits (url_pathname source)))) of
        None \<Rightarrow> invalidDefinition (Because ''Vimeo video ID'')
      | Some c \<Rightarrow> guardE (6 \<le> length c \<and> length c \<le> 12 \<and> list_all is_digit c) INVALID_WORKFLOW
                  (Because ''Vimeo video ID'') (Inr c))"

definition googleDriveId :: "url \<Rightarrow> js \<Rightarrow> string res" where
  "googleDriveId source supplied =
     (case as_str (js_or supplied (js_or (str_opt (match_drive (url_pathname source)))
             (str_opt (url_param source ''id'')))) of
        None \<Rightarrow> invalidDefinition (Because ''Google Drive item ID'')
      | Some c \<Rightarrow> guardE (base64url_shape 10 200 c) INVALID_WORKFLOW
                  (Because ''Google Drive item ID'') (Inr c))"

definition requiredItemId :: "js \<Rightarrow> string res" where
  "requiredItemId v =
     bindE (optionalDefinitionString v ''descriptor.itemId'' 512) (\<lambda>i.
     case i of None \<Rightarrow> invalidDefinition (Because ''stable item ID'') | Some s \<Rightarrow> Inr s)"

section \<open>Descriptors\<close>

record provider_part =
  pp_adapter :: media_adapter
  pp_allowedOrigins :: "string list"
  pp_capability :: media_capability
  pp_embedUrl :: "string option"
  pp_itemId :: string
  pp_kind :: string
  pp_limitations :: "limitation list"

definition sharepoint_host :: "string \<Rightarrow> bool" where
  "sharepoint_host h =
     (let sfx = ''.sharepoint.com''
      in (length sfx \<le> length h \<and> drop (length h - length sfx) h = sfx) \<or> h = ''onedrive.live.com'')"

definition providerDescriptor ::
  "runtime \<Rightarrow> media_provider \<Rightarrow> url \<Rightarrow> js \<Rightarrow> media_version \<Rightarrow> string \<Rightarrow> provider_part res" where
  "providerDescriptor R provider source input version kind =
     (case provider of
        Youtube \<Rightarrow>
          bindE (youtubeId source (get input ''itemId'')) (\<lambda>itemId.
          Inr \<lparr>pp_adapter = \<lparr>ad_id = ''vasi-youtube-iframe'', ad_version = ''1''\<rparr>,
               pp_allowedOrigins = [''https://www.youtube-nocookie.com'', ''https://www.youtube.com''],
               pp_capability = Instrumented_player,
               pp_embedUrl = Some (''https://www.youtube-nocookie.com/embed/'' @ itemId @
                                   ''?enablejsapi=1&rel=0&playsinline=1''),
               pp_itemId = itemId, pp_kind = ''video'', pp_limitations = providerLimitations version\<rparr>)
      | Vimeo \<Rightarrow>
          bindE (vimeoId source (get input ''itemId'')) (\<lambda>itemId.
          Inr \<lparr>pp_adapter = \<lparr>ad_id = ''vasi-vimeo-player'', ad_version = ''1''\<rparr>,
               pp_allowedOrigins = [''https://player.vimeo.com''], pp_capability = Instrumented_player,
               pp_embedUrl = Some (''https://player.vimeo.com/video/'' @ itemId @ ''?dnt=1''),
               pp_itemId = itemId, pp_kind = ''video'', pp_limitations = providerLimitations version\<rparr>)
      | Sharepoint \<Rightarrow>
          requireHost source sharepoint_host
          (bindE (safeURL R (js_or (get input ''embedUrl'') (get input ''sourceUrl'')) ''descriptor.embedUrl'')
            (\<lambda>embed. requireHost embed sharepoint_host
          (let stable = hasStableVersion version in
           bindE (requiredItemId (get input ''itemId'')) (\<lambda>itemId.
           Inr \<lparr>pp_adapter = \<lparr>ad_id = ''vasi-microsoft-preview'', ad_version = ''1''\<rparr>,
               pp_allowedOrigins = [url_origin embed],
               pp_capability = (if stable then Version_aware_preview else Generic_embed),
               pp_embedUrl = Some (url_href embed), pp_itemId = itemId, pp_kind = kind,
               pp_limitations = (if stable then [] else [No_exact_bytes]) @
                                [Sharepoint_access, Sharepoint_presentation]\<rparr>))))
      | Google_drive \<Rightarrow>
          requireHost source (\<lambda>h. h = ''drive.google.com'' \<or> h = ''docs.google.com'')
          (bindE (googleDriveId source (get input ''itemId'')) (\<lambda>itemId.
           Inr \<lparr>pp_adapter = \<lparr>ad_id = ''vasi-google-drive-preview'', ad_version = ''1''\<rparr>,
               pp_allowedOrigins = [''https://drive.google.com'', ''https://docs.google.com''],
               pp_capability = Generic_embed,
               pp_embedUrl = Some (''https://drive.google.com/file/d/'' @ itemId @ ''/preview''),
               pp_itemId = itemId, pp_kind = kind,
               pp_limitations = providerLimitations version @ [Drive_access, Drive_presentation]\<rparr>))
      | Dropbox \<Rightarrow>
          requireHost source (\<lambda>h. h = ''www.dropbox.com'' \<or> h = ''dropbox.com'')
          (bindE (optionalDefinitionString (get input ''itemId'') ''descriptor.itemId'' 256) (\<lambda>itemId.
           Inr \<lparr>pp_adapter = \<lparr>ad_id = ''vasi-dropbox-external'', ad_version = ''1''\<rparr>,
               pp_allowedOrigins = [url_origin source], pp_capability = External_link_only,
               pp_embedUrl = None, pp_itemId = or_default (url_pathname source) itemId, pp_kind = kind,
               pp_limitations = providerLimitations version @ [Dropbox_departure]\<rparr>))
      | Generic \<Rightarrow>
          bindE (safeURL R (js_or (get input ''embedUrl'') (get input ''sourceUrl'')) ''descriptor.embedUrl'')
            (\<lambda>embed.
          guardE (url_origin embed = url_origin source) INVALID_WORKFLOW (Because ''generic origins'')
          (bindE (optionalDefinitionString (get input ''itemId'') ''descriptor.itemId'' 256) (\<lambda>itemId.
           Inr \<lparr>pp_adapter = \<lparr>ad_id = ''vasi-generic-embed'', ad_version = ''1''\<rparr>,
               pp_allowedOrigins = [url_origin source], pp_capability = Generic_embed,
               pp_embedUrl = Some (url_href embed), pp_itemId = or_default (url_href source) itemId,
               pp_kind = kind, pp_limitations = providerLimitations version @ [Generic_visibility]\<rparr>)))
      | External_link \<Rightarrow>
          bindE (optionalDefinitionString (get input ''itemId'') ''descriptor.itemId'' 256) (\<lambda>itemId.
          Inr \<lparr>pp_adapter = \<lparr>ad_id = ''vasi-external-link'', ad_version = ''1''\<rparr>,
               pp_allowedOrigins = [url_origin source], pp_capability = External_link_only,
               pp_embedUrl = None, pp_itemId = or_default (url_href source) itemId, pp_kind = kind,
               pp_limitations = providerLimitations version @ [Link_departure]\<rparr>))"

definition normalizeDescriptor :: "runtime \<Rightarrow> js \<Rightarrow> media_descriptor res" where
  "normalizeDescriptor R v =
     bindE (strictDefinitionObject v ''media descriptor''
       [''accessMode'', ''checksum'', ''description'', ''dimensions'', ''durationSeconds'', ''embedUrl'',
        ''itemId'', ''kind'', ''lastModifiedAt'', ''owner'', ''provider'', ''sourceUrl'', ''title'',
        ''version'']) (\<lambda>input.
     bindE (boundedDefinitionString (get input ''provider'') ''descriptor.provider'' 1 32) (\<lambda>pname.
     case map_of MEDIA_PROVIDERS pname of
       None \<Rightarrow> invalidDefinition (Because ''media provider'')
     | Some provider \<Rightarrow>
     bindE (safeURL R (get input ''sourceUrl'') ''descriptor.sourceUrl'') (\<lambda>source.
     case as_str (js_or (get input ''kind'') (JStr ''video'')) of
       None \<Rightarrow> invalidDefinition (Because ''media kind'')
     | Some kind \<Rightarrow>
     guardE (kind \<in> set [''image'', ''video'', ''audio'', ''presentation'', ''document''])
       INVALID_WORKFLOW (Because ''media kind'')
     (bindE (normalizeVersion R input) (\<lambda>version.
      bindE (providerDescriptor R provider source input version kind) (\<lambda>part.
      bindE (normalizeAccessMode (get input ''accessMode'')) (\<lambda>accessMode.
      bindE (optionalDefinitionString (get input ''description'') ''descriptor.description'' 2000) (\<lambda>description.
      bindE (normalizeDimensions (get input ''dimensions'')) (\<lambda>dimensions.
      bindE (optionalDurationMilliseconds (get input ''durationSeconds'') ''descriptor.durationSeconds'') (\<lambda>duration.
      bindE (optionalDefinitionString (get input ''owner'') ''descriptor.owner'' 320) (\<lambda>owner.
      bindE (boundedDefinitionString (get input ''title'') ''descriptor.title'' 2 200) (\<lambda>title.
      Inr \<lparr>d_accessMode = accessMode, d_adapter = pp_adapter part,
           d_allowedOrigins = pp_allowedOrigins part, d_capability = pp_capability part,
           d_description = description, d_dimensions = dimensions, d_durationMilliseconds = duration,
           d_embedUrl = pp_embedUrl part, d_itemId = pp_itemId part, d_kind = pp_kind part,
           d_limitations = pp_limitations part, d_metadataProvenance = ''tenant_supplied_unverified'',
           d_owner = owner, d_provider = provider, d_sourceUrl = url_href source, d_title = title,
           d_version = version\<rparr>))))))))))))"

definition normalizeExternalMediaContent :: "runtime \<Rightarrow> js \<Rightarrow> media_content res" where
  "normalizeExternalMediaContent R v =
     bindE (strictDefinitionObject v ''external media content''
       [''accessibilityAlternative'', ''acknowledgementLabel'', ''completionPolicy'', ''descriptor'',
        ''prompt'', ''providerNotice'', ''telemetryPolicy'']) (\<lambda>input.
     bindE (normalizeDescriptor R (get input ''descriptor'')) (\<lambda>descriptor.
     bindE (normalizeCompletionPolicy (get input ''completionPolicy'') descriptor) (\<lambda>completion.
     bindE (normalizeAccessibilityAlternative R (get input ''accessibilityAlternative'')) (\<lambda>alt.
     bindE (optionalDefinitionString (get input ''acknowledgementLabel'') ''acknowledgementLabel'' 160) (\<lambda>label.
     bindE (boundedDefinitionString (get input ''prompt'') ''activity.content.prompt'' 2 1000) (\<lambda>prompt.
     bindE (optionalDefinitionString (get input ''providerNotice'') ''providerNotice'' 1000) (\<lambda>notice.
     bindE (normalizeTelemetryPolicy (get input ''telemetryPolicy'')) (\<lambda>telemetry.
     Inr \<lparr>mc_accessibilityAlternative = alt,
          mc_acknowledgementLabel = or_default
            ''I confirm that I reviewed the available media or accessibility alternative.'' label,
          mc_completionPolicy = completion, mc_descriptor = descriptor, mc_prompt = prompt,
          mc_providerNotice = or_default
            ''This content is hosted by an external provider, which may receive normal network, browser, cookie, or account context.'' notice,
          mc_telemetryPolicy = telemetry\<rparr>))))))))"

definition validateMediaOriginPolicy :: "runtime \<Rightarrow> media_content \<Rightarrow> js list \<Rightarrow> media_content res" where
  "validateMediaOriginPolicy R content configuredOrigins =
     bindE (mapE (normalizeConfiguredOrigin R) configuredOrigins) (\<lambda>allowed.
     let d = mc_descriptor content in
     if d_provider d \<in> {Generic, External_link} then
       (case new_URL R (d_sourceUrl d) of
          None \<Rightarrow> throw TYPE_ERROR (Because ''Invalid URL'')
        | Some u \<Rightarrow> guardE (url_origin u \<in> set allowed) INVALID_WORKFLOW
                     (Because ''generic media origin'') (Inr content))
     else Inr content)"

section \<open>Event batches\<close>

record event_detail =
  ed_code :: "string option"
  ed_message :: "string option"
  ed_providerEvent :: "string option"

record media_event =
  me_detail :: "event_detail option"
  me_durationMilliseconds :: "int option"
  me_fromMilliseconds :: "int option"
  me_id :: string
  me_monotonicMs :: int
  me_playbackRateMilli :: "int option"
  me_positionMilliseconds :: "int option"
  me_sequence :: int
  me_toMilliseconds :: "int option"
  me_type :: media_event_type

record media_batch =
  mb_activityId :: string
  mb_batchId :: string
  mb_events :: "media_event list"
  mb_handle :: string
  mb_interactionId :: string
  mb_telemetrySessionId :: string

definition normalizeEventDetail :: "js \<Rightarrow> event_detail option res" where
  "normalizeEventDetail v =
     (if v = JUndef then Inr None
      else bindE (strictTelemetryObject v ''event detail'' [''code'', ''message'', ''providerEvent'']) (\<lambda>input.
           bindE (optionalResponseString (get input ''code'') 128) (\<lambda>c.
           bindE (optionalResponseString (get input ''message'') 500) (\<lambda>m.
           bindE (optionalResponseString (get input ''providerEvent'') 128) (\<lambda>p.
           Inr (Some \<lparr>ed_code = c, ed_message = m, ed_providerEvent = p\<rparr>))))))"

definition normalizeMediaEvent :: "nat \<Rightarrow> js \<Rightarrow> media_event res" where
  "normalizeMediaEvent index v =
     bindE (strictTelemetryObject v ''media event''
       [''detail'', ''durationSeconds'', ''fromSeconds'', ''id'', ''monotonicMs'', ''playbackRate'',
        ''positionSeconds'', ''sequence'', ''toSeconds'', ''type'']) (\<lambda>input.
     bindE (responseToken (get input ''type'') ''event.type'' 64) (\<lambda>tname.
     case map_of MEDIA_EVENT_TYPES tname of
       None \<Rightarrow> invalidTelemetry (Because ''media event type'')
     | Some etype \<Rightarrow>
     bindE (normalizeEventDetail (get input ''detail'')) (\<lambda>detail.
     bindE (optionalTelemetryMilliseconds (get input ''durationSeconds'') ''durationSeconds'' 0 604800) (\<lambda>dur.
     bindE (optionalTelemetryMilliseconds (get input ''fromSeconds'') ''fromSeconds'' 0 604800) (\<lambda>from.
     bindE (responseToken (get input ''id'') ''event.id'' 128) (\<lambda>eid.
     bindE (safeTelemetryInteger (get input ''monotonicMs'') ''monotonicMs'' 0 604800000) (\<lambda>mono.
     bindE (optionalTelemetryRate (get input ''playbackRate'') ''playbackRate'') (\<lambda>rate.
     bindE (optionalTelemetryMilliseconds (get input ''positionSeconds'') ''positionSeconds'' 0 604800) (\<lambda>pos.
     bindE (safeTelemetryInteger (get input ''sequence'') ''sequence'' 1 10000000) (\<lambda>seq.
     bindE (optionalTelemetryMilliseconds (get input ''toSeconds'') ''toSeconds'' 0 604800) (\<lambda>to.
     guardE (etype = Position \<longrightarrow> pos \<noteq> None) INVALID_MEDIA_TELEMETRY (Because ''positionSeconds'')
     (guardE (etype = Seek \<longrightarrow> from \<noteq> None \<and> to \<noteq> None) INVALID_MEDIA_TELEMETRY (Because ''fromSeconds'')
     (guardE (etype = Rate \<longrightarrow> rate \<noteq> None) INVALID_MEDIA_TELEMETRY (Because ''playbackRate'')
     (Inr \<lparr>me_detail = detail, me_durationMilliseconds = dur, me_fromMilliseconds = from, me_id = eid,
          me_monotonicMs = mono, me_playbackRateMilli = rate, me_positionMilliseconds = pos,
          me_sequence = seq, me_toMilliseconds = to, me_type = etype\<rparr>))))))))))))))"

definition allowedEventTypes :: "media_capability \<Rightarrow> media_event_type list" where
  "allowedEventTypes capability =
     (case capability of
        Instrumented_player \<Rightarrow> FRAME_EVENTS @ PLAYER_EVENTS
      | Version_aware_preview \<Rightarrow> FRAME_EVENTS
      | Generic_embed \<Rightarrow> FRAME_EVENTS
      | External_link_only \<Rightarrow> LINK_EVENTS)"

definition validateMediaEventBatch :: "js \<Rightarrow> media_content \<Rightarrow> media_batch res" where
  "validateMediaEventBatch v content =
     bindE (strictTelemetryObject v ''media event batch''
       [''activityId'', ''batchId'', ''events'', ''handle'', ''interactionId'', ''telemetrySessionId'']) (\<lambda>input.
     case as_arr (get input ''events'') of
       None \<Rightarrow> invalidTelemetry (Because ''1 to 100 events'')
     | Some evs \<Rightarrow>
     guardE (evs \<noteq> [] \<and> length evs \<le> 100) INVALID_MEDIA_TELEMETRY (Because ''1 to 100 events'')
     (bindE (imapE normalizeMediaEvent 0 evs) (\<lambda>events.
      guardE (in_order me_sequence me_monotonicMs events) INVALID_MEDIA_TELEMETRY (Because ''sequence'')
      (guardE (distinct (map me_id events)) INVALID_MEDIA_TELEMETRY (Because ''event ID'')
      (guardE (list_all (\<lambda>e. me_type e \<in> set (allowedEventTypes (d_capability (mc_descriptor content)))) events)
         INVALID_MEDIA_TELEMETRY (Because ''capability'')
      (bindE (responseToken (get input ''activityId'') ''activityId'' 64) (\<lambda>activityId.
       bindE (responseToken (get input ''batchId'') ''batchId'' 128) (\<lambda>batchId.
       bindE (responseToken (get input ''handle'') ''handle'' 64) (\<lambda>handle.
       bindE (responseToken (get input ''interactionId'') ''interactionId'' 128) (\<lambda>interactionId.
       bindE (responseToken (get input ''telemetrySessionId'') ''telemetrySessionId'' 128) (\<lambda>sid.
       Inr \<lparr>mb_activityId = activityId, mb_batchId = batchId, mb_events = events, mb_handle = handle,
            mb_interactionId = interactionId, mb_telemetrySessionId = sid\<rparr>)))))))))))"

section \<open>The summary\<close>

text \<open>
  A stored row: the normalised event, in milliseconds or (older rows) in seconds, with the
  session identifiers on the row or on the event.
\<close>

record stored_media_event =
  se_type :: media_event_type
  se_sequence :: int
  se_monotonicMs :: int
  se_durationMilliseconds :: "int option"
  se_durationSeconds :: "rat option"
  se_fromMilliseconds :: "int option"
  se_fromSeconds :: "rat option"
  se_toMilliseconds :: "int option"
  se_toSeconds :: "rat option"
  se_positionMilliseconds :: "int option"
  se_positionSeconds :: "rat option"
  se_playbackRateMilli :: "int option"
  se_playbackRate :: "rat option"
  se_interactionId :: "string option"
  se_telemetrySessionId :: "string option"

record media_row =
  mr_event :: stored_media_event
  mr_interactionId :: "string option"
  mr_telemetrySessionId :: "string option"

record replay_event =
  re_type :: media_event_type
  re_sequence :: int
  re_monotonicMs :: int
  re_duration :: "int option"
  re_from :: "int option"
  re_to :: "int option"
  re_position :: "int option"
  re_rate :: "int option"
  re_interactionId :: "string option"
  re_telemetrySessionId :: "string option"

definition opt_else :: "'a option \<Rightarrow> 'a option \<Rightarrow> 'a option" where
  "opt_else a b = (case a of None \<Rightarrow> b | Some x \<Rightarrow> Some x)"

definition nonempty_else :: "string option \<Rightarrow> string option \<Rightarrow> string option" where
  "nonempty_else a b = (case a of Some s \<Rightarrow> if s = [] then b else Some s | None \<Rightarrow> b)"

definition normalizeStoredEvent :: "media_row \<Rightarrow> replay_event" where
  "normalizeStoredEvent row =
     (let e = mr_event row in
      \<lparr>re_type = se_type e, re_sequence = se_sequence e, re_monotonicMs = se_monotonicMs e,
       re_duration = opt_else (se_durationMilliseconds e) (secondsToMilliseconds (se_durationSeconds e)),
       re_from = opt_else (se_fromMilliseconds e) (secondsToMilliseconds (se_fromSeconds e)),
       re_to = opt_else (se_toMilliseconds e) (secondsToMilliseconds (se_toSeconds e)),
       re_position = opt_else (se_positionMilliseconds e) (secondsToMilliseconds (se_positionSeconds e)),
       re_rate = opt_else (se_playbackRateMilli e) (rateToMilli (se_playbackRate e)),
       re_interactionId = nonempty_else (mr_interactionId row) (se_interactionId e),
       re_telemetrySessionId = nonempty_else (mr_telemetrySessionId row) (se_telemetrySessionId e)\<rparr>)"

definition session_key :: "replay_event \<Rightarrow> string" where
  "session_key e =
     or_default ''unknown'' (nonempty_else (re_telemetrySessionId e)
       (nonempty_else (re_interactionId e) None))"

record media_sample =
  sm_monotonicMs :: int
  sm_rate :: "int option"
  sm_position :: int

text \<open>
  The loop's variables: those reset for each session, then the totals. A skipped distance that
  involves a missing position is NaN in the source, here \<open>None\<close>.
\<close>

record media_replay =
  rp_previous :: "int option"
  rp_opened :: bool
  rp_visible :: bool
  rp_focused :: bool
  rp_playing :: bool
  rp_buffering :: bool
  rp_rate :: "int option"
  rp_lastInteraction :: "int option"
  rp_sample :: "media_sample option"
  rp_sawDisconnect :: bool
  rp_sawPresented :: bool
  rp_openMs :: int
  rp_visibleMs :: int
  rp_engagedMs :: int
  rp_gapCount :: int
  rp_uncreditedMs :: int
  rp_seekCount :: int
  rp_skippedMs :: "int option"
  rp_endedObserved :: bool
  rp_providerErrors :: int
  rp_disconnects :: int
  rp_incomplete :: int
  rp_intervals :: "(int \<times> int) list"
  rp_durations :: "int list"

definition media_replay_start :: media_replay where
  "media_replay_start =
     \<lparr>rp_previous = None, rp_opened = False, rp_visible = False, rp_focused = False, rp_playing = False,
      rp_buffering = False, rp_rate = Some 1000, rp_lastInteraction = None, rp_sample = None,
      rp_sawDisconnect = False, rp_sawPresented = False, rp_openMs = 0, rp_visibleMs = 0,
      rp_engagedMs = 0, rp_gapCount = 0, rp_uncreditedMs = 0, rp_seekCount = 0, rp_skippedMs = Some 0,
      rp_endedObserved = False, rp_providerErrors = 0, rp_disconnects = 0, rp_incomplete = 0,
      rp_intervals = [], rp_durations = []\<rparr>"

definition begin_session :: "media_replay \<Rightarrow> media_replay" where
  "begin_session s =
     s\<lparr>rp_previous := None, rp_opened := False, rp_visible := False, rp_focused := False,
       rp_playing := False, rp_buffering := False, rp_rate := Some 1000, rp_lastInteraction := None,
       rp_sample := None, rp_sawDisconnect := False, rp_sawPresented := False\<rparr>"

definition end_session :: "media_replay \<Rightarrow> media_replay" where
  "end_session s =
     (if rp_sawPresented s \<and> \<not> rp_sawDisconnect s then s\<lparr>rp_incomplete := rp_incomplete s + 1\<rparr> else s)"

text \<open>Crediting the time since the previous event.\<close>

definition credit_time :: "telemetry_policy \<Rightarrow> media_replay \<Rightarrow> replay_event \<Rightarrow> media_replay" where
  "credit_time P s e =
     (case rp_previous s of
        None \<Rightarrow> s
      | Some prev \<Rightarrow>
          let delta = re_monotonicMs e - prev in
          if delta < 0 then s\<lparr>rp_gapCount := rp_gapCount s + 1\<rparr>
          else if delta > tp_maxCreditedGapSeconds P * 1000 then
            s\<lparr>rp_gapCount := rp_gapCount s + 1, rp_uncreditedMs := rp_uncreditedMs s + delta,
              rp_sample := None\<rparr>
          else
            s\<lparr>rp_openMs := rp_openMs s + (if rp_opened s then delta else 0),
              rp_visibleMs := rp_visibleMs s +
                (if rp_opened s \<and> rp_visible s \<and> rp_focused s then delta else 0),
              rp_engagedMs := rp_engagedMs s +
                (if rp_opened s \<and> rp_visible s \<and> rp_focused s \<and>
                    (case rp_lastInteraction s of
                       None \<Rightarrow> False
                     | Some li \<Rightarrow> prev - li \<le> tp_idleSeconds P * 1000) then delta else 0)\<rparr>)"

text \<open>The largest position advance that the elapsed time and rate make plausible.\<close>

definition maximumPlausibleAdvance :: "int \<Rightarrow> int \<Rightarrow> rat" where
  "maximumPlausibleAdvance elapsed rate =
     fl (js_mul (js_mul (of_int (max 0 elapsed)) (js_div (of_int (max 1000 rate)) 1000)) (3 / 2) + 1500)"

definition creditable :: "telemetry_policy \<Rightarrow> media_sample \<Rightarrow> int \<Rightarrow> int \<Rightarrow> bool" where
  "creditable P sample now here =
     (let elapsed = now - sm_monotonicMs sample; advance = here - sm_position sample
      in 0 \<le> elapsed \<and> elapsed \<le> tp_maxCreditedGapSeconds P * 1000 \<and> 0 \<le> advance \<and>
         (case sm_rate sample of
            None \<Rightarrow> False
          | Some r \<Rightarrow> of_int advance \<le> maximumPlausibleAdvance elapsed r))"

definition add_skipped :: "int option \<Rightarrow> int option \<Rightarrow> int option" where
  "add_skipped a b = (case (a, b) of (Some x, Some y) \<Rightarrow> Some (x + y) | _ \<Rightarrow> None)"

definition observe_position :: "telemetry_policy \<Rightarrow> bool \<Rightarrow> media_replay \<Rightarrow> replay_event \<Rightarrow> media_replay" where
  "observe_position P playbackWasCreditable s e =
     (if re_type e \<in> {Position, Heartbeat, Pause, Ended} then
        (case re_position e of
           None \<Rightarrow> s
         | Some here \<Rightarrow>
             let s' = (case rp_sample s of
                  None \<Rightarrow> s
                | Some sample \<Rightarrow>
                    if \<not> playbackWasCreditable then s
                    else if creditable P sample (re_monotonicMs e) here then
                      (if here - sm_position sample > 0
                       then s\<lparr>rp_intervals := rp_intervals s @ [(sm_position sample, here)]\<rparr> else s)
                    else if \<bar>here - sm_position sample\<bar> > 250 then
                      s\<lparr>rp_gapCount := rp_gapCount s + 1,
                        rp_skippedMs := add_skipped (rp_skippedMs s) (Some \<bar>here - sm_position sample\<bar>)\<rparr>
                    else s)
             in s'\<lparr>rp_sample := Some \<lparr>sm_monotonicMs = re_monotonicMs e, sm_rate = rp_rate s',
                                      sm_position = here\<rparr>\<rparr>)
      else s)"

definition apply_event :: "media_replay \<Rightarrow> replay_event \<Rightarrow> media_replay" where
  "apply_event s e =
     (case re_type e of
        Presented \<Rightarrow> s\<lparr>rp_opened := True, rp_sawPresented := True\<rparr>
      | Visible \<Rightarrow> s\<lparr>rp_visible := True\<rparr>
      | Hidden \<Rightarrow> s\<lparr>rp_visible := False\<rparr>
      | Focus \<Rightarrow> s\<lparr>rp_focused := True\<rparr>
      | Blur \<Rightarrow> s\<lparr>rp_focused := False\<rparr>
      | Interaction \<Rightarrow> s\<lparr>rp_lastInteraction := Some (re_monotonicMs e)\<rparr>
      | Play \<Rightarrow> s\<lparr>rp_playing := True, rp_buffering := False\<rparr>
      | Pause \<Rightarrow> s\<lparr>rp_playing := False\<rparr>
      | Buffer_start \<Rightarrow> s\<lparr>rp_buffering := True\<rparr>
      | Buffer_end \<Rightarrow> s\<lparr>rp_buffering := False\<rparr>
      | Rate \<Rightarrow> s\<lparr>rp_rate := re_rate e\<rparr>
      | Seek \<Rightarrow> s\<lparr>rp_seekCount := rp_seekCount s + 1,
                  rp_skippedMs := add_skipped (rp_skippedMs s)
                    (case (re_to e, re_from e) of (Some t, Some f) \<Rightarrow> Some \<bar>t - f\<bar> | _ \<Rightarrow> None),
                  rp_sample := None\<rparr>
      | Ended \<Rightarrow> s\<lparr>rp_endedObserved := True, rp_playing := False\<rparr>
      | Provider_error \<Rightarrow> s\<lparr>rp_providerErrors := rp_providerErrors s + 1\<rparr>
      | Frame_error \<Rightarrow> s\<lparr>rp_providerErrors := rp_providerErrors s + 1\<rparr>
      | Disconnect \<Rightarrow> s\<lparr>rp_opened := False, rp_sawDisconnect := True,
                        rp_disconnects := rp_disconnects s + 1\<rparr>
      | _ \<Rightarrow> s)"

definition note_duration :: "media_replay \<Rightarrow> replay_event \<Rightarrow> media_replay" where
  "note_duration s e =
     (case re_duration e of None \<Rightarrow> s | Some d \<Rightarrow> s\<lparr>rp_durations := rp_durations s @ [d]\<rparr>)"

definition replay_step :: "telemetry_policy \<Rightarrow> media_replay \<Rightarrow> replay_event \<Rightarrow> media_replay" where
  "replay_step P s e =
     (let playbackWasCreditable = (rp_playing s \<and> \<not> rp_buffering s \<and> rp_visible s);
          s1 = note_duration (credit_time P s e) e;
          s2 = observe_position P playbackWasCreditable s1 e;
          s3 = apply_event s2 e
      in s3\<lparr>rp_previous := Some (re_monotonicMs e)\<rparr>)"

fun union_loop :: "(int \<times> int) option \<Rightarrow> int \<Rightarrow> (int \<times> int) list \<Rightarrow> int" where
  "union_loop None acc [] = acc"
| "union_loop (Some (a, b)) acc [] = acc + (b - a)"
| "union_loop None acc (i # rest) = union_loop (Some i) acc rest"
| "union_loop (Some (a, b)) acc ((c, d) # rest) =
     (if c \<le> b then union_loop (Some (a, max b d)) acc rest
      else union_loop (Some (c, d)) (acc + (b - a)) rest)"

definition intervalUnionMilliseconds :: "(int \<times> int) list \<Rightarrow> int" where
  "intervalUnionMilliseconds intervals =
     union_loop None 0
       (sort_key fst (filter (\<lambda>(a, b). b > a) (map (\<lambda>(a, b). (max 0 a, max 0 b)) intervals)))"

definition consistentDuration :: "int list \<Rightarrow> int option" where
  "consistentDuration values =
     (let valid = filter (\<lambda>v. v > 0) values
      in if valid = [] then None
         else let candidate = last valid;
                  tolerance = max 1 (js_mul (of_int candidate) (fl (1 / 100)))
              in if list_all (\<lambda>v. of_int \<bar>v - candidate\<bar> \<le> tolerance) valid
                 then Some candidate else None)"

datatype duration_source = Workflow_descriptor | Provider_player_reported | Unavailable

datatype confidence = Confidence_none | Confidence_low | Confidence_medium

record media_summary =
  su_telemetryPolicy :: telemetry_policy
  su_capability :: media_capability
  su_confidence :: confidence
  su_limitations :: "limitation list"
  su_engagedMilliseconds :: int
  su_openMilliseconds :: int
  su_visibleMilliseconds :: int
  su_eventCount :: nat
  su_gapCount :: int
  su_uncreditedMilliseconds :: int
  su_completionMet :: bool
  su_durationMilliseconds :: "int option"
  su_durationSource :: duration_source
  su_endedObserved :: bool
  su_percentBasisPoints :: int
  su_providerErrorCount :: int
  su_seekCount :: int
  su_skippedMilliseconds :: "int option"
  su_thresholdPercent :: int
  su_uniqueMilliseconds :: int
  su_sessionCount :: nat
  su_disconnectCount :: int
  su_incompleteSessionCount :: int

definition nonzero_else :: "int option \<Rightarrow> int option \<Rightarrow> int option" where
  "nonzero_else a b = (case a of Some n \<Rightarrow> if n = 0 then b else Some n | None \<Rightarrow> b)"

definition percent_basis_points :: "int \<Rightarrow> int option \<Rightarrow> int" where
  "percent_basis_points unique duration =
     (case nonzero_else duration None of
        None \<Rightarrow> 0
      | Some d \<Rightarrow> min 10000 (js_round (js_mul (js_div (of_int unique) (of_int d)) 10000)))"

definition replay_media :: "telemetry_policy \<Rightarrow> replay_event list \<Rightarrow> media_replay" where
  "replay_media P events =
     run_sessions begin_session (replay_step P) end_session media_replay_start
       (group_sessions session_key re_sequence events)"

definition calculateMediaSummary :: "media_content \<Rightarrow> media_row list \<Rightarrow> media_summary" where
  "calculateMediaSummary content rows =
     (let events = map normalizeStoredEvent rows;
          d = mc_descriptor content; cp = mc_completionPolicy content;
          r = replay_media (mc_telemetryPolicy content) events;
          unique = intervalUnionMilliseconds (rp_intervals r);
          observed = consistentDuration (rp_durations r);
          duration = nonzero_else (d_durationMilliseconds d) observed;
          source = (if nonzero_else (d_durationMilliseconds d) None \<noteq> None then Workflow_descriptor
                    else if observed \<noteq> None then Provider_player_reported else Unavailable);
          bp = percent_basis_points unique duration;
          instrumented = (d_capability d = Instrumented_player);
          completionMet = (instrumented \<and> duration \<noteq> None \<and> bp \<ge> cp_thresholdPercent cp * 100 \<and>
                           unique \<ge> cp_minimumUniqueSeconds cp * 1000);
          limitations = d_limitations d
            @ (if instrumented then [] else [Not_instrumented])
            @ (if duration \<noteq> None then [] else [Duration_unavailable])
            @ (if rp_gapCount r \<noteq> 0 then [Gaps_not_credited] else [])
            @ (if rp_providerErrors r \<noteq> 0 then [Provider_errors] else [])
            @ (if rp_incomplete r \<noteq> 0 then [Incomplete_sessions] else [])
            @ [Supporting_evidence_only];
          confidence = (if \<not> instrumented \<or> events = [] then Confidence_none
                        else if rp_providerErrors r \<noteq> 0 \<or> rp_gapCount r \<noteq> 0 \<or> duration = None
                        then Confidence_low else Confidence_medium)
      in \<lparr>su_telemetryPolicy = mc_telemetryPolicy content, su_capability = d_capability d,
          su_confidence = confidence, su_limitations = uniq limitations,
          su_engagedMilliseconds = rp_engagedMs r, su_openMilliseconds = rp_openMs r,
          su_visibleMilliseconds = rp_visibleMs r, su_eventCount = length events,
          su_gapCount = rp_gapCount r, su_uncreditedMilliseconds = rp_uncreditedMs r,
          su_completionMet = completionMet, su_durationMilliseconds = duration,
          su_durationSource = source, su_endedObserved = rp_endedObserved r,
          su_percentBasisPoints = bp, su_providerErrorCount = rp_providerErrors r,
          su_seekCount = rp_seekCount r, su_skippedMilliseconds = rp_skippedMs r,
          su_thresholdPercent = cp_thresholdPercent cp, su_uniqueMilliseconds = unique,
          su_sessionCount = length (group_sessions session_key re_sequence events),
          su_disconnectCount = rp_disconnects r, su_incompleteSessionCount = rp_incomplete r\<rparr>)"

section \<open>Replay invariants\<close>

lemmas replay_defs =
  credit_time_def note_duration_def observe_position_def apply_event_def begin_session_def end_session_def

lemma clock_note_duration [simp]:
  "rp_engagedMs (note_duration s e) = rp_engagedMs s"
  "rp_visibleMs (note_duration s e) = rp_visibleMs s"
  "rp_openMs (note_duration s e) = rp_openMs s"
  "rp_intervals (note_duration s e) = rp_intervals s"
  by (simp_all add: note_duration_def split: option.split)

lemma clock_apply_event [simp]:
  "rp_engagedMs (apply_event s e) = rp_engagedMs s"
  "rp_visibleMs (apply_event s e) = rp_visibleMs s"
  "rp_openMs (apply_event s e) = rp_openMs s"
  "rp_intervals (apply_event s e) = rp_intervals s"
  by (simp_all add: apply_event_def split: media_event_type.split)

lemma clock_observe_position [simp]:
  "rp_engagedMs (observe_position P c s e) = rp_engagedMs s"
  "rp_visibleMs (observe_position P c s e) = rp_visibleMs s"
  "rp_openMs (observe_position P c s e) = rp_openMs s"
  by (simp_all add: observe_position_def Let_def split: option.split)

lemma credit_time_credit:
  "\<exists>a b c. rp_engagedMs (credit_time P s e) = rp_engagedMs s + a \<and>
     rp_visibleMs (credit_time P s e) = rp_visibleMs s + b \<and>
     rp_openMs (credit_time P s e) = rp_openMs s + c \<and> 0 \<le> a \<and> a \<le> b \<and> b \<le> c"
proof (cases "rp_previous s")
  case None
  then show ?thesis by (auto simp: credit_time_def intro!: exI[of _ 0])
next
  case (Some prev)
  let ?d = "re_monotonicMs e - prev"
  show ?thesis
  proof (cases "0 \<le> ?d \<and> ?d \<le> tp_maxCreditedGapSeconds P * 1000")
    case True
    let ?v = "rp_opened s \<and> rp_visible s \<and> rp_focused s"
    let ?g = "?v \<and> (case rp_lastInteraction s of None \<Rightarrow> False
                     | Some li \<Rightarrow> prev - li \<le> tp_idleSeconds P * 1000)"
    show ?thesis
      using Some True
      by (intro exI[of _ "if ?g then ?d else 0"] exI[of _ "if ?v then ?d else 0"]
          exI[of _ "if rp_opened s then ?d else 0"]) (auto simp: credit_time_def Let_def)
  next
    case False
    then show ?thesis using Some by (auto simp: credit_time_def Let_def intro!: exI[of _ 0])
  qed
qed

interpretation media_clock: credited_clock begin_session "replay_step P" end_session
    rp_engagedMs rp_visibleMs rp_openMs for P
proof unfold_locales
  fix s e
  show "\<exists>a b c. rp_engagedMs (replay_step P s e) = rp_engagedMs s + a \<and>
     rp_visibleMs (replay_step P s e) = rp_visibleMs s + b \<and>
     rp_openMs (replay_step P s e) = rp_openMs s + c \<and> 0 \<le> a \<and> a \<le> b \<and> b \<le> c"
    using credit_time_credit[of P s e] by (simp add: replay_step_def Let_def)
qed (simp_all add: begin_session_def end_session_def)

text \<open>
  An interval is justified by the evidence \<open>E\<close> when two of its events report the interval's end
  points, the time between them is within the credited gap, and the advance is plausible at a
  playback rate the evidence reports (or the default rate).
\<close>

definition justified_interval :: "telemetry_policy \<Rightarrow> replay_event set \<Rightarrow> int \<times> int \<Rightarrow> bool" where
  "justified_interval P E i =
     (\<exists>e1 \<in> E. \<exists>e2 \<in> E. \<exists>rate. re_position e1 = Some (fst i) \<and> re_position e2 = Some (snd i) \<and>
        fst i < snd i \<and> re_monotonicMs e1 \<le> re_monotonicMs e2 \<and>
        re_monotonicMs e2 - re_monotonicMs e1 \<le> tp_maxCreditedGapSeconds P * 1000 \<and>
        (rate = 1000 \<or> (\<exists>e \<in> E. re_rate e = Some rate)) \<and>
        of_int (snd i - fst i) \<le> maximumPlausibleAdvance (re_monotonicMs e2 - re_monotonicMs e1) rate)"

definition replay_inv :: "telemetry_policy \<Rightarrow> replay_event set \<Rightarrow> media_replay \<Rightarrow> bool" where
  "replay_inv P E s =
     ((\<forall>r. rp_rate s = Some r \<longrightarrow> r = 1000 \<or> (\<exists>e \<in> E. re_rate e = Some r)) \<and>
      (\<forall>sm. rp_sample s = Some sm \<longrightarrow>
         (\<exists>e \<in> E. re_position e = Some (sm_position sm) \<and> re_monotonicMs e = sm_monotonicMs sm) \<and>
         (\<forall>r. sm_rate sm = Some r \<longrightarrow> r = 1000 \<or> (\<exists>e \<in> E. re_rate e = Some r))) \<and>
      list_all (justified_interval P E) (rp_intervals s))"

lemma creditable_justified:
  assumes "replay_inv P E s" "rp_sample s = Some sm" "creditable P sm (re_monotonicMs e) p"
    and "re_position e = Some p" "e \<in> E" "p - sm_position sm > 0"
  shows "justified_interval P E (sm_position sm, p)"
proof -
  from assms(1,2) obtain e1 where e1: "e1 \<in> E" "re_position e1 = Some (sm_position sm)"
      "re_monotonicMs e1 = sm_monotonicMs sm"
    by (auto simp: replay_inv_def)
  from assms(3) obtain r where "sm_rate sm = Some r"
    by (auto simp: creditable_def Let_def split: option.splits)
  with assms(1,2) have "r = 1000 \<or> (\<exists>e \<in> E. re_rate e = Some r)" by (auto simp: replay_inv_def)
  then show ?thesis
    unfolding justified_interval_def
    using assms(3-6) e1 \<open>sm_rate sm = Some r\<close>
    by (intro bexI[of _ e1] bexI[of _ e] exI[of _ r]) (auto simp: creditable_def Let_def)
qed

lemma observe_position_inv:
  assumes "replay_inv P E s" "e \<in> E"
  shows "replay_inv P E (observe_position P c s e)"
proof -
  have "list_all (justified_interval P E) (rp_intervals (observe_position P c s e))"
    using assms creditable_justified[OF assms(1) _ _ _ assms(2)]
    by (auto simp: observe_position_def Let_def replay_inv_def split: option.split)
  then show ?thesis
    using assms by (auto simp: observe_position_def Let_def replay_inv_def split: option.split)
qed

lemma replay_step_inv: "replay_inv P E s \<Longrightarrow> e \<in> E \<Longrightarrow> replay_inv P E (replay_step P s e)"
proof -
  assume s: "replay_inv P E s" and e: "e \<in> E"
  have "replay_inv P E (note_duration (credit_time P s e) e)"
    using s by (auto simp: replay_inv_def credit_time_def note_duration_def Let_def split: option.split)
  from observe_position_inv[OF this e]
  have "replay_inv P E (apply_event (observe_position P c (note_duration (credit_time P s e) e) e) e)" for c
    using e by (auto simp: replay_inv_def apply_event_def split: media_event_type.split)
  then show ?thesis by (simp add: replay_step_def Let_def replay_inv_def)
qed

lemma replay_media_justified:
  "list_all (justified_interval P (set es)) (rp_intervals (replay_media P es))"
proof -
  have "replay_inv P (set es) (replay_media P es)"
    unfolding replay_media_def
  proof (rule run_sessions_inv)
    fix s g e
    assume "g \<in> set (group_sessions session_key re_sequence es)" "e \<in> set g" "replay_inv P (set es) s"
    then show "replay_inv P (set es) (replay_step P s e)"
      using set_group_sessions[of session_key re_sequence es] by (intro replay_step_inv) auto
  qed (auto simp: replay_inv_def media_replay_start_def begin_session_def end_session_def)
  then show ?thesis by (simp add: replay_inv_def)
qed

section \<open>Interval unions\<close>

definition covered :: "(int \<times> int) list \<Rightarrow> int set" where
  "covered ivs = (\<Union>(a, b) \<in> set ivs. {max 0 a..<b})"

lemma union_loop_card:
  assumes "sorted (map fst ((a, b) # ivs))" "a \<le> b" "\<forall>(c, d) \<in> set ivs. c \<le> d"
  shows "union_loop (Some (a, b)) acc ivs =
    acc + int (card ({a..<b} \<union> (\<Union>(c, d) \<in> set ivs. {c..<d})))"
  using assms
proof (induction ivs arbitrary: a b acc)
  case (Cons i rest)
  obtain c d where i: "i = (c, d)" by (cases i)
  let ?R = "\<Union>(c, d) \<in> set rest. {c..<d}"
  show ?case
  proof (cases "c \<le> b")
    case True
    have "{a..<b} \<union> {c..<d} = {a..<max b d}" using Cons.prems True by (auto simp: i)
    then have "{a..<b} \<union> (\<Union>(c, d) \<in> set (i # rest). {c..<d}) = {a..<max b d} \<union> ?R"
      by (auto simp: i)
    then show ?thesis using Cons.IH[of a "max b d" acc] Cons.prems True
      by (simp add: i le_max_iff_disj)
  next
    case False
    have "x \<ge> c" if "x \<in> {c..<d} \<union> ?R" for x using that Cons.prems by (fastforce simp: i)
    then have "{a..<b} \<inter> ({c..<d} \<union> ?R) = {}" using False by fastforce
    then have "card ({a..<b} \<union> ({c..<d} \<union> ?R)) = card {a..<b} + card ({c..<d} \<union> ?R)"
      by (intro card_Un_disjoint) auto
    then show ?thesis using Cons.IH[of c d "acc + (b - a)"] Cons.prems False
      by (simp add: i Un_assoc)
  qed
qed simp

lemma interval_union_card:
  "intervalUnionMilliseconds ivs = int (card (covered ivs))"
proof -
  let ?f = "filter (\<lambda>(a, b). b > a) (map (\<lambda>(a, b). (max 0 a, max 0 b)) ivs)"
  have set_f: "(\<Union>(a, b) \<in> set ?f. {a..<b}) = covered ivs"
    by (force simp: covered_def)
  show ?thesis
  proof (cases "sort_key fst ?f")
    case Nil
    then have "?f = []" by (metis length_0_conv length_sort)
    then have "covered ivs = {}" using set_f by (metis (no_types) UN_empty list.set(1))
    then show ?thesis using Nil by (simp add: intervalUnionMilliseconds_def)
  next
    case (Cons i rest)
    obtain a b where i: "i = (a, b)" by (cases i)
    have srt: "sorted (map fst (i # rest))" using sorted_sort_key[of fst ?f] Cons by simp
    have st: "set (i # rest) = set ?f" using set_sort[of fst ?f] Cons by metis
    then have ord: "\<forall>(c, d) \<in> set (i # rest). c \<le> d" by auto
    have "(\<Union>(c, d) \<in> set (i # rest). {c..<d}) = covered ivs" using st set_f by metis
    then show ?thesis
      using union_loop_card[of a b rest 0] srt ord
      by (simp add: intervalUnionMilliseconds_def Cons i)
  qed
qed

text \<open>
  C18. The interval merge of the summary computes exactly the number of distinct milliseconds of
  the timeline that the credited intervals cover: overlaps are counted once, and the order in
  which playback was observed does not matter.
\<close>

theorem interval_union_counts_once:
  "intervalUnionMilliseconds ivs = int (card (covered ivs))"
  by (rule interval_union_card)

section \<open>What the summary and the validators guarantee\<close>

text \<open>
  The credited times of a media summary are ordered: engaged time is non-negative and at most
  the visible time, which is at most the open time, whatever events were recorded.
\<close>

theorem media_summary_times_ordered:
  "0 \<le> su_engagedMilliseconds (calculateMediaSummary content rows) \<and>
   su_engagedMilliseconds (calculateMediaSummary content rows)
     \<le> su_visibleMilliseconds (calculateMediaSummary content rows) \<and>
   su_visibleMilliseconds (calculateMediaSummary content rows)
     \<le> su_openMilliseconds (calculateMediaSummary content rows)"
  using media_clock.run_ordered[of media_replay_start "mc_telemetryPolicy content"
      "group_sessions session_key re_sequence (map normalizeStoredEvent rows)"]
  by (simp add: calculateMediaSummary_def Let_def replay_media_def media_clock.ordered_clock_def
      media_replay_start_def)


lemma percent_basis_points_bounds:
  assumes "0 \<le> u" "\<forall>d. duration = Some d \<longrightarrow> 0 \<le> d"
  shows "0 \<le> percent_basis_points u duration" "percent_basis_points u duration \<le> 10000"
proof -
  have "0 \<le> fl (of_int u / of_int d)" if "0 \<le> d" for d
    using fl_mono[of 0 "of_int u / of_int d"] assms(1) that by simp
  then have "0 \<le> fl (fl (of_int u / of_int d) * 10000)" if "0 \<le> d" for d
    using fl_mono[of 0 "fl (of_int u / of_int d) * 10000"] that by simp
  then have "0 \<le> js_round (fl (fl (of_int u / of_int d) * 10000))" if "0 \<le> d" for d
    using js_round_mono[of 0 "fl (fl (of_int u / of_int d) * 10000)"] that js_round_of_int[of 0] by simp
  then show "0 \<le> percent_basis_points u duration" "percent_basis_points u duration \<le> 10000"
    using assms(2) by (auto simp: percent_basis_points_def nonzero_else_def js_mul_def js_div_def split: option.split)
qed

lemmas content_defs =
  normalizeExternalMediaContent_def normalizeDescriptor_def normalizeCompletionPolicy_def
  normalizeTelemetryPolicy_def

lemma bounded_milli_nonneg:
  assumes "bounded_milli c v field lo hi = Inr (Some n)" "0 \<le> lo"
  shows "0 \<le> n"
proof -
  from assms(1) obtain r where "lo \<le> r" "n = js_round (fl (r * 1000))"
    by (auto simp: bounded_milli_def milli_def js_mul_def guardE_Inr split: if_splits option.splits)
  moreover from this assms(2) have "0 \<le> fl (r * 1000)" using fl_mono[of 0 "r * 1000"] by simp
  ultimately show ?thesis using js_round_mono[of 0 "fl (r * 1000)"] js_round_of_int[of 0] by simp
qed

lemma descriptor_duration_nonneg:
  "normalizeDescriptor R v = Inr d \<Longrightarrow> d_durationMilliseconds d = Some n \<Longrightarrow> 0 \<le> n"
  unfolding normalizeDescriptor_def optionalDurationMilliseconds_def
  by (auto simp: bindE_Inr guardE_Inr split: option.splits dest!: bounded_milli_nonneg)

lemma consistentDuration_pos: "consistentDuration vs = Some d \<Longrightarrow> 0 < d"
proof -
  assume "consistentDuration vs = Some d"
  then have "d \<in> set (filter (\<lambda>v. v > 0) vs)"
    by (auto simp: consistentDuration_def Let_def split: if_splits intro!: last_in_set
        simp del: set_filter)
  then show ?thesis by simp
qed

text \<open>
  The reported percentage is always between 0 and 10000 basis points for a normalised content,
  so the completion threshold is compared with a percentage that means what it says.
\<close>

theorem media_percent_in_range:
  assumes "normalizeExternalMediaContent R v = Inr content"
  shows "0 \<le> su_percentBasisPoints (calculateMediaSummary content rows) \<and>
    su_percentBasisPoints (calculateMediaSummary content rows) \<le> 10000"
proof -
  from assms have d: "\<exists>w. normalizeDescriptor R w = Inr (mc_descriptor content)"
    by (auto simp: normalizeExternalMediaContent_def bindE_Inr)
  have nn: "0 \<le> n" if "nonzero_else (d_durationMilliseconds (mc_descriptor content)) (consistentDuration ds) = Some n" for ds n
    using that d descriptor_duration_nonneg[of R _ "mc_descriptor content"] consistentDuration_pos[of ds]
    by (fastforce simp: nonzero_else_def split: option.splits if_splits)
  have "0 \<le> intervalUnionMilliseconds ivs" for ivs by (simp add: interval_union_card)
  from percent_basis_points_bounds[OF this] show ?thesis
    using nn by (simp add: calculateMediaSummary_def Let_def)
qed

lemma completion_policy_bounds:
  assumes "normalizeCompletionPolicy w d = Inr cp"
  shows "(d_capability d \<noteq> Instrumented_player \<longrightarrow> cp_mode cp = ''acknowledgement'') \<and>
    1 \<le> cp_thresholdPercent cp \<and> cp_thresholdPercent cp \<le> 100 \<and> 0 \<le> cp_minimumUniqueSeconds cp"
  using assms unfolding normalizeCompletionPolicy_def Let_def
  by (elim res_elims) (simp only: whole_number_Inr sum.inject; force)

lemma telemetry_policy_bounds:
  assumes "normalizeTelemetryPolicy u = Inr tp"
  shows "2 \<le> tp_heartbeatSeconds tp \<and> tp_heartbeatSeconds tp \<le> tp_idleSeconds tp \<and>
    tp_heartbeatSeconds tp \<le> tp_maxCreditedGapSeconds tp \<and> tp_maxCreditedGapSeconds tp \<le> 120"
  using assms by (auto simp: normalizeTelemetryPolicy_def bindE_Inr whole_number_Inr)

text \<open>
  A normalised media content asks for playback only of an instrumented player, with a
  threshold of 1 to 100 percent, and its telemetry policy credits gaps of at least a heartbeat
  and at most two minutes.
\<close>

theorem media_content_policy:
  assumes "normalizeExternalMediaContent R v = Inr content"
  shows "(d_capability (mc_descriptor content) \<noteq> Instrumented_player \<longrightarrow>
       cp_mode (mc_completionPolicy content) = ''acknowledgement'') \<and>
    1 \<le> cp_thresholdPercent (mc_completionPolicy content) \<and>
    cp_thresholdPercent (mc_completionPolicy content) \<le> 100 \<and>
    0 \<le> cp_minimumUniqueSeconds (mc_completionPolicy content) \<and>
    2 \<le> tp_heartbeatSeconds (mc_telemetryPolicy content) \<and>
    tp_heartbeatSeconds (mc_telemetryPolicy content) \<le> tp_idleSeconds (mc_telemetryPolicy content) \<and>
    tp_heartbeatSeconds (mc_telemetryPolicy content) \<le> tp_maxCreditedGapSeconds (mc_telemetryPolicy content) \<and>
    tp_maxCreditedGapSeconds (mc_telemetryPolicy content) \<le> 120"
proof -
  from assms obtain w u where
      c: "normalizeCompletionPolicy w (mc_descriptor content) = Inr (mc_completionPolicy content)" and
      t: "normalizeTelemetryPolicy u = Inr (mc_telemetryPolicy content)"
    by (auto simp: normalizeExternalMediaContent_def bindE_Inr)
  from completion_policy_bounds[OF c] telemetry_policy_bounds[OF t] show ?thesis by blast
qed

text \<open>
  An accepted media event batch has 1 to 100 events with strictly increasing sequence numbers,
  non-decreasing clocks within a week, distinct identifiers, and only event types that the
  media's capability can report: an embed that is not instrumented cannot report playback.
\<close>

theorem media_batch_accepted:
  assumes "validateMediaEventBatch v content = Inr b"
  shows "mb_events b \<noteq> [] \<and> length (mb_events b) \<le> 100 \<and>
    sorted_wrt (\<lambda>e f. me_sequence e < me_sequence f \<and> me_monotonicMs e \<le> me_monotonicMs f) (mb_events b) \<and>
    distinct (map me_id (mb_events b)) \<and>
    list_all (\<lambda>e. me_type e \<in> set (allowedEventTypes (d_capability (mc_descriptor content))) \<and>
      1 \<le> me_sequence e \<and> 0 \<le> me_monotonicMs e \<and> me_monotonicMs e \<le> 604800000) (mb_events b) \<and>
    (d_capability (mc_descriptor content) \<noteq> Instrumented_player \<longrightarrow>
       list_all (\<lambda>e. me_type e \<notin> {Play, Position, Ended, Seek, Rate}) (mb_events b))"
proof -
  let ?allowed = "set (allowedEventTypes (d_capability (mc_descriptor content)))"
  from assms obtain evs where evs: "evs \<noteq> []" "length evs \<le> 100"
      and im: "imapE normalizeMediaEvent 0 evs = Inr (mb_events b)"
      and ord: "in_order me_sequence me_monotonicMs (mb_events b)"
      and dis: "distinct (map me_id (mb_events b))"
      and alw: "list_all (\<lambda>e. me_type e \<in> ?allowed) (mb_events b)"
    by (auto simp: validateMediaEventBatch_def bindE_Inr guardE_Inr split: option.splits)
  have ev: "1 \<le> me_sequence e \<and> 0 \<le> me_monotonicMs e \<and> me_monotonicMs e \<le> 604800000"
    if "normalizeMediaEvent i w = Inr e" for i w e
    using that by (auto simp: normalizeMediaEvent_def bindE_Inr guardE_Inr whole_number_Inr split: option.splits)
  have len: "length (mb_events b) = length evs"
    and each: "\<forall>i < length evs. \<exists>j. normalizeMediaEvent j (evs ! i) = Inr (mb_events b ! i)"
    using im by (auto simp: imapE_Inr)
  have bnd: "1 \<le> me_sequence e \<and> 0 \<le> me_monotonicMs e \<and> me_monotonicMs e \<le> 604800000"
    if "e \<in> set (mb_events b)" for e
    using that each len ev by (metis in_set_conv_nth)
  have none: "me_type e \<notin> {Play, Position, Ended, Seek, Rate}"
    if "d_capability (mc_descriptor content) \<noteq> Instrumented_player" "me_type e \<in> ?allowed" for e
    using that by (auto simp: allowedEventTypes_def FRAME_EVENTS_def LINK_EVENTS_def split: media_capability.splits)
  show ?thesis
    using evs len in_order_sorted[OF ord] dis alw bnd none by (auto simp: list_all_iff)
qed

section \<open>Witnesses\<close>

definition demo_url :: url where
  "demo_url = \<lparr>url_protocol = ''https:'', url_username = [], url_password = [], url_port = [],
     url_hostname = ''youtu.be'', url_pathname = ''/dQw4w9WgXcQ'', url_search = [], url_hash = [],
     url_origin = ''https://youtu.be'', url_href = ''https://youtu.be/dQw4w9WgXcQ'',
     url_hrefNoHash = ''https://youtu.be/dQw4w9WgXcQ'', url_param = (\<lambda>_. None)\<rparr>"

definition demo_runtime :: runtime where
  "demo_runtime = \<lparr>new_URL = (\<lambda>s. if s = ''https://youtu.be/dQw4w9WgXcQ'' then Some demo_url else None),
     parse_date = (\<lambda>_. None)\<rparr>"

definition demo_media_input :: js where
  "demo_media_input = JObj
     [(''descriptor'', JObj [(''provider'', JStr ''youtube''), (''title'', JStr ''Safety briefing''),
        (''sourceUrl'', JStr ''https://youtu.be/dQw4w9WgXcQ''), (''durationSeconds'', JInt 2)]),
      (''prompt'', JStr ''Watch the briefing'')]"

definition demo_media :: media_content where
  "demo_media =
     (case normalizeExternalMediaContent demo_runtime demo_media_input of
        Inr c \<Rightarrow> c | Inl _ \<Rightarrow> undefined)"

definition demo_row :: "int \<Rightarrow> int \<Rightarrow> media_event_type \<Rightarrow> int option \<Rightarrow> media_row" where
  "demo_row q t ty p =
     \<lparr>mr_event = \<lparr>se_type = ty, se_sequence = q, se_monotonicMs = t, se_durationMilliseconds = None,
        se_durationSeconds = None, se_fromMilliseconds = None, se_fromSeconds = None,
        se_toMilliseconds = None, se_toSeconds = None, se_positionMilliseconds = p,
        se_positionSeconds = None, se_playbackRateMilli = None, se_playbackRate = None,
        se_interactionId = None, se_telemetrySessionId = Some ''s1''\<rparr>,
      mr_interactionId = None, mr_telemetrySessionId = None\<rparr>"

definition demo_rows :: "media_row list" where
  "demo_rows = [demo_row 1 0 Presented None, demo_row 2 10 Visible None, demo_row 3 20 Play None,
     demo_row 4 100 Position (Some 0), demo_row 5 2100 Position (Some 2000)]"

lemma demo_media_normalized: "normalizeExternalMediaContent demo_runtime demo_media_input = Inr demo_media"
  by code_simp

lemma demo_media_complete: "su_completionMet (calculateMediaSummary demo_media demo_rows)"
  by code_simp


theorem media_percent_in_range_witness:
  "su_percentBasisPoints (calculateMediaSummary demo_media demo_rows) \<le> 10000"
  using media_percent_in_range[OF demo_media_normalized, of demo_rows] by simp

theorem media_content_policy_witness:
  "cp_thresholdPercent (mc_completionPolicy demo_media) \<le> 100 \<and>
   tp_maxCreditedGapSeconds (mc_telemetryPolicy demo_media) \<le> 120"
  using media_content_policy[OF demo_media_normalized] by simp

definition demo_event :: "int \<Rightarrow> int \<Rightarrow> string \<Rightarrow> js" where
  "demo_event q t ty = JObj [(''id'', JStr (show_int q)), (''type'', JStr ty), (''sequence'', JInt q),
     (''monotonicMs'', JInt t), (''positionSeconds'', JInt 1)]"

definition demo_batch_input :: js where
  "demo_batch_input = JObj
     [(''activityId'', JStr ''a1''), (''batchId'', JStr ''b1''), (''handle'', JStr ''h1''),
      (''interactionId'', JStr ''i1''), (''telemetrySessionId'', JStr ''s1''),
      (''events'', JArr [demo_event 1 0 ''presented'', demo_event 2 40 ''play'', demo_event 3 40 ''position''])]"

definition demo_batch :: media_batch where
  "demo_batch = (case validateMediaEventBatch demo_batch_input demo_media of Inr b \<Rightarrow> b | Inl _ \<Rightarrow> undefined)"

lemma demo_batch_accepted: "validateMediaEventBatch demo_batch_input demo_media = Inr demo_batch"
  by code_simp

theorem media_batch_accepted_witness:
  "mb_events demo_batch \<noteq> [] \<and> distinct (map me_id (mb_events demo_batch))"
  using media_batch_accepted[OF demo_batch_accepted] by simp

end
