(* ===== verification/Normalizer.thy ===== *)
theory Normalizer
  imports Dates
begin

text \<open>
  The contract of a validator whose result is stored: \<open>validate\<close> turns an untrusted value into a
  typed one, \<open>encode\<close> is the stored object. A stored object passes the same validator unchanged,
  so that re-validation on read, and the hash computed over the normalised object, are stable.
\<close>

locale normalizer =
  fixes validate :: "js \<Rightarrow> 'a res" and encode :: "'a \<Rightarrow> js"
  assumes stored_accepted: "validate v = Inr x \<Longrightarrow> validate (encode x) = Inr x"
begin

definition normalized :: "js \<Rightarrow> js res" where
  "normalized v = bindE (validate v) (\<lambda>x. Inr (encode x))"

definition hashed :: "(string \<Rightarrow> string) \<Rightarrow> js \<Rightarrow> string res" where
  "hashed H v = bindE (normalized v) (hashCanonicalJSON H)"

lemma normalized_idem: "normalized v = Inr w \<Longrightarrow> normalized w = Inr w"
  by (auto simp: normalized_def res_simps stored_accepted)

lemma normalized_stable: "normalized v = Inr w \<Longrightarrow> hashed H w = hashed H v"
  using normalized_idem by (auto simp: hashed_def)

lemma encode_inject: "validate v = Inr x \<Longrightarrow> validate v' = Inr y \<Longrightarrow> encode x = encode y \<Longrightarrow> x = y"
  using stored_accepted by (metis sum.inject(2))

lemma hash_binds:
  assumes "validate v = Inr x" "validate v' = Inr y"
    and "hashed H v = Inr h" "hashed H v' = Inr h"
  shows "\<exists>s t. canonicalJSON (encode x) = Inr s \<and> canonicalJSON (encode y) = Inr t \<and>
    (s = t \<or> (s \<noteq> t \<and> H s = H t))"
  using assms by (auto simp: hashed_def normalized_def hashCanonicalJSON_def res_simps)

end

end
