(* ===== verification/Lifecycle.thy ===== *)
theory Lifecycle
  imports Normalizer
begin

text \<open>
  Retention policies, legal holds and participant data requests:
  \<^verbatim>\<open>src/packages/engine-domain/lifecycle.mjs\<close>.
\<close>

section \<open>Helpers\<close>

abbreviation invalid :: "reason \<Rightarrow> 'a res" where
  "invalid r \<equiv> throw INVALID_LIFECYCLE r"

abbreviation strictObject :: "js \<Rightarrow> string \<Rightarrow> string list \<Rightarrow> js res" where
  "strictObject v name ks \<equiv> strict_object INVALID_LIFECYCLE v name ks"

abbreviation boundedString :: "js \<Rightarrow> string \<Rightarrow> nat \<Rightarrow> nat \<Rightarrow> string res" where
  "boundedString v name lo hi \<equiv> bounded_string INVALID_LIFECYCLE v name lo hi"

abbreviation optionalString :: "js \<Rightarrow> string \<Rightarrow> nat \<Rightarrow> string option res" where
  "optionalString v name hi \<equiv> optional_string INVALID_LIFECYCLE v name hi"

abbreviation boundedDays :: "js \<Rightarrow> string \<Rightarrow> int res" where
  "boundedDays v name \<equiv> whole_number INVALID_LIFECYCLE v name 0 36500"

definition nullableDays :: "js \<Rightarrow> string \<Rightarrow> int option res" where
  "nullableDays v name =
     (if v = JNull then Inr None else bindE (boundedDays v name) (\<lambda>n. Inr (Some n)))"

definition optionalInteger :: "js \<Rightarrow> string \<Rightarrow> int \<Rightarrow> int \<Rightarrow> int option res" where
  "optionalInteger v name minimum maximum =
     (if v = JUndef then Inr None
      else bindE (whole_number INVALID_LIFECYCLE v name minimum maximum) (\<lambda>n. Inr (Some n)))"

definition null_or :: "int option \<Rightarrow> js" where
  "null_or n = (case n of None \<Rightarrow> JNull | Some i \<Rightarrow> JInt i)"

lemma nullableDays_Inr [res_simps]:
  "nullableDays v name = Inr r \<longleftrightarrow> v = null_or r \<and> (\<forall>n. r = Some n \<longrightarrow> 0 \<le> n \<and> n \<le> 36500)"
  by (cases r) (auto simp: nullableDays_def null_or_def res_simps MAX_SAFE_INTEGER_def)

section \<open>Retention policies\<close>

datatype content_access = Days_after_terminal int | Indefinite | Request_expiration

record retention_policy =
  po_contentAccess :: content_access
  po_archiveAfterDays :: "int option"
  po_deleteAfterDays :: "int option"
  po_historyDays :: "int option"

definition RETENTION_POLICY_SCHEMA :: string where
  "RETENTION_POLICY_SCHEMA = ''vasi-retention-policy/v1''"

definition SYSTEM_RETENTION_POLICY :: js where
  "SYSTEM_RETENTION_POLICY = JObj
     [(''contentAccess'', JObj [(''mode'', JStr ''request_expiration'')]),
      (''evidence'', JObj [(''archiveAfterDays'', JInt 365), (''deleteAfterDays'', JNull)]),
      (''participantHistory'', JObj [(''daysAfterTerminal'', JNull)]),
      (''schema'', JStr RETENTION_POLICY_SCHEMA)]"

text \<open>The content access the mode selects.\<close>

definition content_access_of :: "js \<Rightarrow> string \<Rightarrow> content_access res" where
  "content_access_of content mode =
     (if mode = ''days_after_terminal''
      then bindE (boundedDays (get content ''daysAfterTerminal'') ''contentAccess.daysAfterTerminal'')
             (\<lambda>n. Inr (Days_after_terminal n))
      else Inr (if mode = ''indefinite'' then Indefinite else Request_expiration))"

definition normalizeRetentionPolicy :: "js \<Rightarrow> retention_policy res" where
  "normalizeRetentionPolicy v =
     bindE (strictObject (if v = JUndef then SYSTEM_RETENTION_POLICY else v) ''retention policy''
       [''contentAccess'', ''evidence'', ''participantHistory'', ''schema'']) (\<lambda>input.
     guardE (get input ''schema'' = JUndef \<or> get input ''schema'' = JStr RETENTION_POLICY_SCHEMA)
       INVALID_LIFECYCLE (Because ''retention policy schema'')
     (bindE (strictObject (get input ''contentAccess'') ''content access policy''
       [''daysAfterTerminal'', ''mode'']) (\<lambda>content.
      bindE (boundedString (get content ''mode'') ''contentAccess.mode'' 1 64) (\<lambda>mode.
      guardE (mode \<in> set [''days_after_terminal'', ''indefinite'', ''request_expiration''])
        INVALID_LIFECYCLE (Because ''content access mode'')
      (bindE (content_access_of content mode) (\<lambda>contentAccess.
       guardE (mode = ''days_after_terminal'' \<or> get content ''daysAfterTerminal'' = JUndef)
         INVALID_LIFECYCLE (Because ''content access days'')
       (bindE (strictObject (get input ''participantHistory'') ''participant history policy''
          [''daysAfterTerminal'']) (\<lambda>history.
        bindE (nullableDays (get history ''daysAfterTerminal'') ''participantHistory.daysAfterTerminal'') (\<lambda>hd.
        bindE (strictObject (get input ''evidence'') ''evidence retention policy''
          [''archiveAfterDays'', ''deleteAfterDays'']) (\<lambda>evidence.
        bindE (nullableDays (get evidence ''archiveAfterDays'') ''evidence.archiveAfterDays'') (\<lambda>ad.
        bindE (nullableDays (get evidence ''deleteAfterDays'') ''evidence.deleteAfterDays'') (\<lambda>dd.
        guardE (case (ad, dd) of (Some a, Some d) \<Rightarrow> a \<le> d | _ \<Rightarrow> True)
          INVALID_LIFECYCLE (Because ''deletion cannot precede archival'')
        (Inr \<lparr>po_contentAccess = contentAccess, po_archiveAfterDays = ad, po_deleteAfterDays = dd,
              po_historyDays = hd\<rparr>)))))))))))))"

text \<open>The frozen object it returns.\<close>

fun content_access_js :: "content_access \<Rightarrow> js" where
  "content_access_js (Days_after_terminal n) =
     JObj [(''daysAfterTerminal'', JInt n), (''mode'', JStr ''days_after_terminal'')]"
| "content_access_js Indefinite = JObj [(''mode'', JStr ''indefinite'')]"
| "content_access_js Request_expiration = JObj [(''mode'', JStr ''request_expiration'')]"

definition retention_policy_js :: "retention_policy \<Rightarrow> js" where
  "retention_policy_js p = JObj
     [(''contentAccess'', content_access_js (po_contentAccess p)),
      (''evidence'', JObj [(''archiveAfterDays'', null_or (po_archiveAfterDays p)),
                          (''deleteAfterDays'', null_or (po_deleteAfterDays p))]),
      (''participantHistory'', JObj [(''daysAfterTerminal'', null_or (po_historyDays p))]),
      (''schema'', JStr RETENTION_POLICY_SCHEMA)]"

definition retentionPolicyHash :: "(string \<Rightarrow> string) \<Rightarrow> js \<Rightarrow> string res" where
  "retentionPolicyHash H policy =
     bindE (normalizeRetentionPolicy policy) (\<lambda>p. hashCanonicalJSON H (retention_policy_js p))"

section \<open>Deadlines\<close>

datatype deadline = No_deadline | At int | Invalid_date

record deadlines =
  dl_archiveAt :: deadline
  dl_contentExpiresAt :: deadline
  dl_deleteAt :: deadline
  dl_historyExpiresAt :: deadline
  dl_terminalAt :: int

definition plusDays :: "int \<Rightarrow> int \<Rightarrow> deadline" where
  "plusDays t days = (let u = t + days * DAY_MS in if valid_time u then At u else Invalid_date)"

definition plus_opt :: "int \<Rightarrow> int option \<Rightarrow> deadline" where
  "plus_opt t days = (case days of None \<Rightarrow> No_deadline | Some n \<Rightarrow> plusDays t n)"

definition validDate :: "runtime \<Rightarrow> js \<Rightarrow> string \<Rightarrow> int res" where
  "validDate R v name =
     (case new_Date R v of None \<Rightarrow> invalid (BadFormat name) | Some t \<Rightarrow> Inr t)"

definition deadlines_of :: "retention_policy \<Rightarrow> int \<Rightarrow> int \<Rightarrow> deadlines" where
  "deadlines_of p expiresAt terminalAt =
     \<lparr>dl_archiveAt = plus_opt terminalAt (po_archiveAfterDays p),
      dl_contentExpiresAt = (case po_contentAccess p of
          Indefinite \<Rightarrow> No_deadline
        | Request_expiration \<Rightarrow> At expiresAt
        | Days_after_terminal n \<Rightarrow> plusDays terminalAt n),
      dl_deleteAt = plus_opt terminalAt (po_deleteAfterDays p),
      dl_historyExpiresAt = plus_opt terminalAt (po_historyDays p),
      dl_terminalAt = terminalAt\<rparr>"

definition calculateRetentionDeadlines :: "runtime \<Rightarrow> js \<Rightarrow> js \<Rightarrow> deadlines res" where
  "calculateRetentionDeadlines R policyValue dates =
     bindE (normalizeRetentionPolicy policyValue) (\<lambda>policy.
     bindE (validDate R (get dates ''expiresAt'') ''expiresAt'') (\<lambda>expiresAt.
     bindE (if nullish (get dates ''terminalAt'') then Inr expiresAt
            else validDate R (get dates ''terminalAt'') ''terminalAt'') (\<lambda>terminalAt.
     Inr (deadlines_of policy expiresAt terminalAt))))"

section \<open>Commands\<close>

record policy_mutation =
  pm_expectedRevision :: "int option"
  pm_name :: string
  pm_policy :: retention_policy
  pm_tenantId :: string

definition validateRetentionPolicyMutation :: "js \<Rightarrow> policy_mutation res" where
  "validateRetentionPolicyMutation v =
     bindE (strictObject v ''retention policy command''
       [''expectedRevision'', ''name'', ''policy'', ''tenantId'']) (\<lambda>input.
     bindE (boundedString (get input ''name'') ''name'' 1 64) (\<lambda>raw.
     let name = js_lower raw in
     guardE (ident_shape name) INVALID_LIFECYCLE (Because ''retention profile name'')
     (bindE (optionalInteger (get input ''expectedRevision'') ''expectedRevision'' 0 1000000) (\<lambda>rev.
      bindE (normalizeRetentionPolicy (get input ''policy'')) (\<lambda>policy.
      bindE (boundedString (get input ''tenantId'') ''tenantId'' 1 128) (\<lambda>tenantId.
      Inr \<lparr>pm_expectedRevision = rev, pm_name = name, pm_policy = policy, pm_tenantId = tenantId\<rparr>))))))"

record lifecycle_list =
  ll_limit :: int
  ll_tenantId :: string

definition validateLifecycleListInput :: "js \<Rightarrow> lifecycle_list res" where
  "validateLifecycleListInput v =
     bindE (strictObject v ''lifecycle list'' [''limit'', ''tenantId'']) (\<lambda>input.
     bindE (optionalInteger (get input ''limit'') ''limit'' 1 250) (\<lambda>limit.
     bindE (boundedString (get input ''tenantId'') ''tenantId'' 1 128) (\<lambda>tenantId.
     Inr \<lparr>ll_limit = or_default 100 limit, ll_tenantId = tenantId\<rparr>)))"

datatype hold_action =
    Place (hold_assignmentId: string) (hold_caseReference: string)
  | Release (hold_holdId: string)

record hold_command =
  hc_action :: hold_action
  hc_commandId :: string
  hc_reason :: string
  hc_tenantId :: string

definition validateLegalHoldCommand :: "js \<Rightarrow> hold_command res" where
  "validateLegalHoldCommand v =
     bindE (strictObject v ''legal hold command''
       [''action'', ''assignmentId'', ''caseReference'', ''commandId'', ''holdId'', ''reason'', ''tenantId'']) (\<lambda>input.
     bindE (boundedString (get input ''action'') ''action'' 1 32) (\<lambda>action.
     guardE (action \<in> set [''place'', ''release'']) INVALID_LIFECYCLE (Because ''legal hold action'')
     (bindE (boundedString (get input ''commandId'') ''commandId'' 1 128) (\<lambda>commandId.
      bindE (boundedString (get input ''reason'') ''reason'' 2 1000) (\<lambda>reason.
      bindE (boundedString (get input ''tenantId'') ''tenantId'' 1 128) (\<lambda>tenantId.
      if action = ''place'' then
        bindE (boundedString (get input ''assignmentId'') ''assignmentId'' 1 128) (\<lambda>assignmentId.
        bindE (boundedString (get input ''caseReference'') ''caseReference'' 1 160) (\<lambda>caseReference.
        Inr \<lparr>hc_action = Place assignmentId caseReference, hc_commandId = commandId,
             hc_reason = reason, hc_tenantId = tenantId\<rparr>))
      else
        bindE (boundedString (get input ''holdId'') ''holdId'' 1 128) (\<lambda>holdId.
        Inr \<lparr>hc_action = Release holdId, hc_commandId = commandId, hc_reason = reason,
             hc_tenantId = tenantId\<rparr>)))))))"

definition validateParticipantDataRequestCreate :: "js \<Rightarrow> string res" where
  "validateParticipantDataRequestCreate v =
     bindE (strictObject v ''participant data request'' [''commandId'']) (\<lambda>input.
     boundedString (get input ''commandId'') ''commandId'' 1 128)"

record data_request_review =
  rv_commandId :: string
  rv_approve :: bool
  rv_includeTechnicalTelemetry :: bool
  rv_reason :: "string option"
  rv_requestId :: string
  rv_tenantId :: string

definition validateParticipantDataRequestReview :: "js \<Rightarrow> data_request_review res" where
  "validateParticipantDataRequestReview v =
     bindE (strictObject v ''participant data request review''
       [''commandId'', ''decision'', ''includeTechnicalTelemetry'', ''reason'', ''requestId'', ''tenantId'']) (\<lambda>input.
     bindE (boundedString (get input ''decision'') ''decision'' 1 32) (\<lambda>decision.
     guardE (decision \<in> set [''approve'', ''deny'']) INVALID_LIFECYCLE (Because ''review decision'')
     (bindE (optionalString (get input ''reason'') ''reason'' 1000) (\<lambda>reason.
      guardE (decision = ''deny'' \<longrightarrow> reason \<noteq> None) INVALID_LIFECYCLE (Because ''denial reason'')
      (guardE (get input ''includeTechnicalTelemetry'' = JUndef \<or>
               as_bool (get input ''includeTechnicalTelemetry'') \<noteq> None)
         INVALID_LIFECYCLE (Because ''includeTechnicalTelemetry'')
       (bindE (boundedString (get input ''commandId'') ''commandId'' 1 128) (\<lambda>commandId.
        bindE (boundedString (get input ''requestId'') ''requestId'' 1 128) (\<lambda>requestId.
        bindE (boundedString (get input ''tenantId'') ''tenantId'' 1 128) (\<lambda>tenantId.
        Inr \<lparr>rv_commandId = commandId, rv_approve = (decision = ''approve''),
             rv_includeTechnicalTelemetry = (get input ''includeTechnicalTelemetry'' \<noteq> JBool False),
             rv_reason = reason, rv_requestId = requestId, rv_tenantId = tenantId\<rparr>)))))))))"

definition validateParticipantDataExportOpen :: "js \<Rightarrow> string res" where
  "validateParticipantDataExportOpen v =
     bindE (strictObject v ''participant data export'' [''requestId'']) (\<lambda>input.
     boundedString (get input ''requestId'') ''requestId'' 1 128)"

text \<open>\<open>actor\<close> may be missing, as may its fields.\<close>

record actor_ref =
  ar_principalId :: "string option"
  ar_email :: "string option"

definition participantMatches :: "actor_ref option \<Rightarrow> string option \<Rightarrow> string option \<Rightarrow> bool" where
  "participantMatches actor principalId email =
     (case actor of
        None \<Rightarrow> False
      | Some a \<Rightarrow>
          (case ar_principalId a of
             None \<Rightarrow> False
           | Some p \<Rightarrow> p \<noteq> [] \<and>
               (Some p = principalId \<or> map_option js_lower (ar_email a) = Some (js_lower (or_default [] email)))))"

section \<open>Lemmas\<close>

definition policy_ok :: "retention_policy \<Rightarrow> bool" where
  "policy_ok p =
     ((case po_contentAccess p of Days_after_terminal n \<Rightarrow> 0 \<le> n \<and> n \<le> 36500 | _ \<Rightarrow> True) \<and>
      (\<forall>n \<in> set_option (po_archiveAfterDays p) \<union> set_option (po_deleteAfterDays p) \<union>
         set_option (po_historyDays p). 0 \<le> n \<and> n \<le> 36500) \<and>
      (\<forall>a d. po_archiveAfterDays p = Some a \<longrightarrow> po_deleteAfterDays p = Some d \<longrightarrow> a \<le> d))"

lemma content_access_of_days:
  "content_access_of content mode = Inr (Days_after_terminal n) \<Longrightarrow> 0 \<le> n \<and> n \<le> 36500"
  by (auto simp: content_access_of_def res_simps split: if_splits)

lemma normalizeRetentionPolicy_ok:
  assumes "normalizeRetentionPolicy v = Inr p"
  shows "policy_ok p"
proof -
  from assms obtain content mode h e1 e2 where
    ca: "content_access_of content mode = Inr (po_contentAccess p)" and
    d: "nullableDays h ''participantHistory.daysAfterTerminal'' = Inr (po_historyDays p)"
      "nullableDays e1 ''evidence.archiveAfterDays'' = Inr (po_archiveAfterDays p)"
      "nullableDays e2 ''evidence.deleteAfterDays'' = Inr (po_deleteAfterDays p)" and
    g: "case (po_archiveAfterDays p, po_deleteAfterDays p) of (Some a, Some d) \<Rightarrow> a \<le> d | _ \<Rightarrow> True"
    unfolding normalizeRetentionPolicy_def
    by (elim res_elims) (auto simp only: sum.inject retention_policy.simps)
  show ?thesis
    using d g content_access_of_days[of content mode] ca
    by (auto simp: policy_ok_def nullableDays_Inr split: content_access.split)
qed

lemma trimmed_modes [simp]:
  "js_trim ''days_after_terminal'' = ''days_after_terminal''"
  "js_trim ''indefinite'' = ''indefinite''"
  "js_trim ''request_expiration'' = ''request_expiration''"
  by (rule js_trim_id, simp add: is_ws_def code_def)+

lemma content_access_js_accepted:
  assumes "\<And>n. a = Days_after_terminal n \<Longrightarrow> 0 \<le> n \<and> n \<le> 36500"
  obtains mode where "strictObject (content_access_js a) name [''daysAfterTerminal'', ''mode''] = Inr (content_access_js a)"
    "boundedString (get (content_access_js a) ''mode'') ''contentAccess.mode'' 1 64 = Inr mode"
    "mode \<in> set [''days_after_terminal'', ''indefinite'', ''request_expiration'']"
    "content_access_of (content_access_js a) mode = Inr a"
    "mode = ''days_after_terminal'' \<or> get (content_access_js a) ''daysAfterTerminal'' = JUndef"
proof (cases a)
  case (Days_after_terminal n)
  with assms[of n] that[of "''days_after_terminal''"] show ?thesis
    by (simp add: content_access_of_def accept_simps MAX_SAFE_INTEGER_def)
next
  case Indefinite
  with that[of "''indefinite''"] show ?thesis
    by (simp add: content_access_of_def proto_names_def accept_simps)
next
  case Request_expiration
  with that[of "''request_expiration''"] show ?thesis
    by (simp add: content_access_of_def proto_names_def accept_simps)
qed

lemma nullableDays_null_or:
  "(\<And>n. r = Some n \<Longrightarrow> 0 \<le> n \<and> n \<le> 36500) \<Longrightarrow> nullableDays (null_or r) name = Inr r"
  by (simp add: nullableDays_Inr)

lemma normalizeRetentionPolicy_encode:
  assumes "policy_ok p"
  shows "normalizeRetentionPolicy (retention_policy_js p) = Inr p"
proof -
  have "\<And>n. po_contentAccess p = Days_after_terminal n \<Longrightarrow> 0 \<le> n \<and> n \<le> 36500"
    using assms by (simp add: policy_ok_def)
  then obtain mode where c: "\<And>name. strictObject (content_access_js (po_contentAccess p)) name [''daysAfterTerminal'', ''mode''] =
        Inr (content_access_js (po_contentAccess p))"
      "boundedString (get (content_access_js (po_contentAccess p)) ''mode'') ''contentAccess.mode'' 1 64 = Inr mode"
      "mode \<in> set [''days_after_terminal'', ''indefinite'', ''request_expiration'']"
      "content_access_of (content_access_js (po_contentAccess p)) mode = Inr (po_contentAccess p)"
      "mode = ''days_after_terminal'' \<or> get (content_access_js (po_contentAccess p)) ''daysAfterTerminal'' = JUndef"
    by (metis content_access_js_accepted strict_object_Inr)
  have d: "nullableDays (null_or (po_archiveAfterDays p)) name = Inr (po_archiveAfterDays p)"
     "nullableDays (null_or (po_deleteAfterDays p)) name = Inr (po_deleteAfterDays p)"
     "nullableDays (null_or (po_historyDays p)) name = Inr (po_historyDays p)" for name
    using assms by (auto simp: policy_ok_def intro!: nullableDays_null_or)
  have g: "case (po_archiveAfterDays p, po_deleteAfterDays p) of (Some a, Some d) \<Rightarrow> a \<le> d | _ \<Rightarrow> True"
    using assms by (auto simp: policy_ok_def split: option.split)
  show ?thesis
    using c(3,5) g
    by (simp add: normalizeRetentionPolicy_def retention_policy_js_def c(1,4) c(2)[unfolded One_nat_def] d strict_object_JObj
        guardE_def)
qed

interpretation retention: normalizer normalizeRetentionPolicy retention_policy_js
  by unfold_locales (blast intro: normalizeRetentionPolicy_encode normalizeRetentionPolicy_ok)

section \<open>Properties\<close>

text \<open>
  A normalised retention policy is accepted unchanged when it is read back, and its hash is
  the hash of the policy it was normalised from: a stored policy revision keeps its digest.
\<close>

theorem retention_policy_stable:
  assumes "normalizeRetentionPolicy v = Inr p"
  shows "normalizeRetentionPolicy (retention_policy_js p) = Inr p \<and>
    retentionPolicyHash H (retention_policy_js p) = retentionPolicyHash H v \<and>
    (\<forall>q w. normalizeRetentionPolicy w = Inr q \<longrightarrow> retention_policy_js q = retention_policy_js p \<longrightarrow> q = p)"
  using retention.stored_accepted[OF assms] assms retention.encode_inject
  by (auto simp: retentionPolicyHash_def)

lemma system_policy: "normalizeRetentionPolicy JUndef =
    Inr \<lparr>po_contentAccess = Request_expiration, po_archiveAfterDays = Some 365,
         po_deleteAfterDays = None, po_historyDays = None\<rparr>"
  by code_simp

theorem retention_policy_stable_witness:
  "retentionPolicyHash id (retention_policy_js \<lparr>po_contentAccess = Request_expiration,
      po_archiveAfterDays = Some 365, po_deleteAfterDays = None, po_historyDays = None\<rparr>) =
    retentionPolicyHash id JUndef"
  using retention_policy_stable[OF system_policy, of id] by simp

text \<open>
  The deadlines of a request never run backwards: archival, deletion and the end of
  participant history lie at or after the terminal date and at most 36500 days later, and
  evidence is never due for deletion before it is due for archival.
\<close>

theorem retention_deadlines_ordered:
  assumes "calculateRetentionDeadlines R pv dates = Inr d"
  shows "(\<forall>a b. dl_archiveAt d = At a \<longrightarrow> dl_deleteAt d = At b \<longrightarrow> a \<le> b) \<and>
    (\<forall>t. At t \<in> {dl_archiveAt d, dl_deleteAt d, dl_historyExpiresAt d} \<longrightarrow>
       dl_terminalAt d \<le> t \<and> t \<le> dl_terminalAt d + 36500 * DAY_MS)"
proof -
  from assms obtain p e t where n: "normalizeRetentionPolicy pv = Inr p" and d: "d = deadlines_of p e t"
    unfolding calculateRetentionDeadlines_def by (elim res_elims) auto
  have plus: "t \<le> u \<and> u \<le> t + 36500 * DAY_MS" if "plusDays t n = At u" "0 \<le> n" "n \<le> 36500" for n u
    using that by (auto simp: plusDays_def Let_def DAY_MS_def split: if_splits)
  have mono: "u \<le> w" if "plusDays t n = At u" "plusDays t m = At w" "n \<le> m" for n m u w
    using that by (auto simp: plusDays_def Let_def DAY_MS_def split: if_splits)
  have ok: "policy_ok p" by (rule normalizeRetentionPolicy_ok[OF n])
  have "a \<le> b" if "dl_archiveAt d = At a" "dl_deleteAt d = At b" for a b
    using that ok
    by (auto simp: d deadlines_of_def plus_opt_def policy_ok_def split: option.splits intro: mono)
  moreover have "dl_terminalAt d \<le> u \<and> u \<le> dl_terminalAt d + 36500 * DAY_MS"
    if "At u \<in> {dl_archiveAt d, dl_deleteAt d, dl_historyExpiresAt d}" for u
  proof -
    from that obtain m where m: "plus_opt t m = At u"
        "m \<in> {po_archiveAfterDays p, po_deleteAfterDays p, po_historyDays p}"
      by (auto simp: d deadlines_of_def)
    then obtain n where "m = Some n" "plusDays t n = At u" by (auto simp: plus_opt_def split: option.splits)
    then show ?thesis using plus m(2) ok by (auto simp: d deadlines_of_def policy_ok_def)
  qed
  ultimately show ?thesis by blast
qed

theorem retention_deadlines_ordered_witness:
  "dl_archiveAt (deadlines_of \<lparr>po_contentAccess = Request_expiration, po_archiveAfterDays = Some 365,
      po_deleteAfterDays = None, po_historyDays = None\<rparr> 1000 1000) = At (1000 + 365 * DAY_MS) \<and>
    1000 \<le> 1000 + 365 * DAY_MS"
proof -
  let ?R = "\<lparr>new_URL = (\<lambda>_. None), parse_date = (\<lambda>_. None)\<rparr>"
  let ?d = "deadlines_of \<lparr>po_contentAccess = Request_expiration, po_archiveAfterDays = Some 365,
      po_deleteAfterDays = None, po_historyDays = None\<rparr> 1000 1000"
  have c: "calculateRetentionDeadlines ?R JUndef (JObj [(''expiresAt'', JDate (Some 1000))]) = Inr ?d"
    by (simp add: calculateRetentionDeadlines_def system_policy validDate_def nullish_def proto_names_def)
  have a: "dl_archiveAt ?d = At (1000 + 365 * DAY_MS)" "dl_terminalAt ?d = 1000"
    by (simp_all add: deadlines_of_def plus_opt_def plusDays_def DAY_MS_def valid_time_def max_time_def)
  show ?thesis using retention_deadlines_ordered[OF c] a by simp
qed

end
