(* ===== verification/Activities.thy ===== *)
theory Activities
  imports Media
begin

text \<open>
  The nine activity types: \<^verbatim>\<open>src/packages/engine-domain/activities.mjs\<close>. Definitions are normalised
  when a workflow is drafted; responses are validated against the normalised definition when a
  participant saves or submits.
\<close>

section \<open>Data\<close>

record choice =
  ch_description :: "string option"
  ch_id :: string
  ch_label :: string

datatype question_type = Single_choice_question | Multiple_choice_question

record question =
  q_choices :: "choice list"
  q_correctChoiceIds :: "string list"
  q_id :: string
  q_points :: int
  q_prompt :: string
  q_required :: bool
  q_type :: question_type

record terms_content =
  tc_acknowledgementLabel :: string
  tc_noLabel :: string
  tc_prompt :: string
  tc_terms :: string
  tc_yesLabel :: string

record approval_content =
  ap_approved :: string
  ap_declined :: string
  ap_disapproved :: string
  ap_prompt :: string
  ap_statement :: string

record single_choice_content =
  sc_choices :: "choice list"
  sc_prompt :: string

record multiple_choice_content =
  mu_choices :: "choice list"
  mu_maxSelections :: int
  mu_minSelections :: int
  mu_prompt :: string

record free_form_content =
  ff_maxLength :: int
  ff_minLength :: int
  ff_multiline :: bool
  ff_prompt :: string

datatype signature_method = Typed | Drawn

record signature_content =
  sg_consentText :: string
  sg_drawnSignatureLabel :: string
  sg_methods :: "signature_method list"
  sg_prompt :: string
  sg_statement :: string
  sg_typedNameLabel :: string

record document_content =
  do_artifactId :: string
  do_displayName :: string
  do_prompt :: string
  do_responseLabel :: string

record questionnaire_content =
  qu_instructions :: "string option"
  qu_passingPercent :: int
  qu_questions :: "question list"
  qu_resultDisclosure :: string

datatype content =
    Terms terms_content
  | Approval approval_content
  | Single_choice single_choice_content
  | Multiple_choice multiple_choice_content
  | Free_form free_form_content
  | Electronic_signature signature_content
  | Document_review document_content
  | Questionnaire questionnaire_content
  | External_media media_content

text \<open>The type of an activity is the constructor of its content.\<close>

fun activity_type :: "content \<Rightarrow> string" where
  "activity_type (Terms _) = ''terms_response''"
| "activity_type (Approval _) = ''approval''"
| "activity_type (Single_choice _) = ''single_choice''"
| "activity_type (Multiple_choice _) = ''multiple_choice''"
| "activity_type (Free_form _) = ''free_form''"
| "activity_type (Electronic_signature _) = ''electronic_signature''"
| "activity_type (Document_review _) = ''document_review''"
| "activity_type (Questionnaire _) = ''questionnaire''"
| "activity_type (External_media _) = ''external_media''"

text \<open>A destination is an activity or the end of the workflow (\<open>null\<close>, here \<open>None\<close>).\<close>

type_synonym destination = "string option"

record branch =
  br_to :: destination
  br_equals :: string

record activity =
  a_content :: content
  a_contractVersion :: int
  a_id :: string
  a_instructions :: "string option"
  a_responseMode :: string
  a_title :: string
  a_cases :: "branch list"
  a_defaultTo :: "destination option"

definition ACTIVITY_TYPES :: "string list" where
  "ACTIVITY_TYPES =
     [''terms_response'', ''approval'', ''single_choice'', ''multiple_choice'', ''free_form'',
      ''electronic_signature'', ''document_review'', ''questionnaire'', ''external_media'']"

section \<open>Helpers\<close>

abbreviation invalidResponse :: "reason \<Rightarrow> 'a res" where
  "invalidResponse r \<equiv> throw INVALID_ACTIVITY_RESPONSE r"

abbreviation strictObject :: "js \<Rightarrow> string \<Rightarrow> string list \<Rightarrow> js res" where
  "strictObject v name allowedKeys \<equiv> strict_object INVALID_WORKFLOW v name allowedKeys"

abbreviation strictResponseObject :: "js \<Rightarrow> string \<Rightarrow> string list \<Rightarrow> js res" where
  "strictResponseObject v name allowedKeys \<equiv> strict_object INVALID_ACTIVITY_RESPONSE v name allowedKeys"

abbreviation boundedString :: "js \<Rightarrow> string \<Rightarrow> nat \<Rightarrow> nat \<Rightarrow> string res" where
  "boundedString v field lo hi \<equiv> bounded_string INVALID_WORKFLOW v field lo hi"

abbreviation optionalString :: "js \<Rightarrow> string \<Rightarrow> nat \<Rightarrow> string option res" where
  "optionalString v field hi \<equiv> optional_string INVALID_WORKFLOW v field hi"

definition identifierOf :: "js \<Rightarrow> string \<Rightarrow> string res" where
  "identifierOf v field =
     bindE (boundedString v field 1 64) (\<lambda>s.
     guardE (ident_shape s) INVALID_WORKFLOW (BadFormat field) (Inr s))"

definition normalizeDestination :: "js \<Rightarrow> bool \<Rightarrow> destination option res" where
  "normalizeDestination v required =
     (if v = JNull then Inr (Some None)
      else if v = JUndef \<and> \<not> required then Inr None
      else bindE (identifierOf v ''transition destination'') (\<lambda>s. Inr (Some (Some s))))"

definition boundedResponseString :: "js \<Rightarrow> nat \<Rightarrow> nat \<Rightarrow> string res" where
  "boundedResponseString v maximum minimum =
     (case as_str v of
        None \<Rightarrow> invalidResponse (Because ''response value length'')
      | Some s \<Rightarrow> guardE (length s \<le> maximum \<and> minimum \<le> length (js_trim s)) INVALID_ACTIVITY_RESPONSE
                  (Because ''response value length'') (Inr s))"

definition oneOf :: "js \<Rightarrow> string list \<Rightarrow> string \<Rightarrow> string res" where
  "oneOf v allowed field =
     (case as_str v of
        None \<Rightarrow> invalidResponse (BadFormat field)
      | Some s \<Rightarrow> guardE (s \<in> set allowed) INVALID_ACTIVITY_RESPONSE (BadFormat field) (Inr s))"

definition sameSet :: "string list \<Rightarrow> string list \<Rightarrow> bool" where
  "sameSet left right = (length left = length right \<and> list_all (\<lambda>e. e \<in> set right) left)"

definition roundCoordinate :: "rat \<Rightarrow> rat" where
  "roundCoordinate r = js_div (of_int (js_round (js_mul r 1000000))) 1000000"

section \<open>Normalising definitions\<close>

definition responseModeForType :: "string \<Rightarrow> js \<Rightarrow> string res" where
  "responseModeForType type supplied =
     (if type = ''terms_response'' then
        bindE (boundedString supplied ''activity.responseMode'' 1 32) (\<lambda>mode.
        guardE (mode \<in> set [''acknowledgement'', ''yes_no'']) INVALID_WORKFLOW (Because ''response mode'') (Inr mode))
      else guardE (supplied = JUndef \<or> supplied = JStr type) INVALID_WORKFLOW (Because ''response mode'') (Inr type))"

definition normalizeBranch :: "nat \<Rightarrow> js \<Rightarrow> branch res" where
  "normalizeBranch index v =
     bindE (strictObject v ''branch'' [''to'', ''when'']) (\<lambda>input.
     bindE (strictObject (get input ''when'') ''branch.when'' [''equals'']) (\<lambda>cond.
     bindE (normalizeDestination (get input ''to'') True) (\<lambda>dest.
     bindE (boundedString (get cond ''equals'') ''branch.when.equals'' 1 64) (\<lambda>eq.
     Inr \<lparr>br_to = or_default None dest, br_equals = eq\<rparr>))))"

definition normalizeChoice :: "nat \<Rightarrow> js \<Rightarrow> choice res" where
  "normalizeChoice index entry =
     bindE (strictObject entry ''choice'' [''description'', ''id'', ''label'']) (\<lambda>input.
     bindE (optionalString (get input ''description'') ''choice.description'' 1000) (\<lambda>description.
     bindE (identifierOf (get input ''id'') ''choice.id'') (\<lambda>cid.
     bindE (boundedString (get input ''label'') ''choice.label'' 1 500) (\<lambda>label.
     Inr \<lparr>ch_description = description, ch_id = cid, ch_label = label\<rparr>))))"

definition normalizeChoices :: "js \<Rightarrow> string \<Rightarrow> choice list res" where
  "normalizeChoices v name =
     (case as_arr v of
        None \<Rightarrow> invalidDefinition (Because ''2 to 50 choices'')
      | Some xs \<Rightarrow>
          guardE (2 \<le> length xs \<and> length xs \<le> 50) INVALID_WORKFLOW (Because ''2 to 50 choices'')
          (bindE (imapE normalizeChoice 0 xs) (\<lambda>choices.
           guardE (length (uniq (map ch_id choices)) = length choices) INVALID_WORKFLOW
             (Because ''choice IDs unique'') (Inr choices))))"

definition normalizeTerms :: "js \<Rightarrow> terms_content res" where
  "normalizeTerms v =
     bindE (strictObject v ''activity.content''
       [''acknowledgementLabel'', ''noLabel'', ''prompt'', ''terms'', ''yesLabel'']) (\<lambda>input.
     bindE (optionalString (get input ''acknowledgementLabel'') ''acknowledgementLabel'' 160) (\<lambda>ack.
     bindE (optionalString (get input ''noLabel'') ''noLabel'' 160) (\<lambda>no.
     bindE (boundedString (get input ''prompt'') ''activity.content.prompt'' 2 1000) (\<lambda>prompt.
     bindE (boundedString (get input ''terms'') ''activity.content.terms'' 2 50000) (\<lambda>terms.
     bindE (optionalString (get input ''yesLabel'') ''yesLabel'' 160) (\<lambda>yes.
     Inr \<lparr>tc_acknowledgementLabel = or_default ''I acknowledge these terms.'' ack,
          tc_noLabel = or_default ''No'' no, tc_prompt = prompt, tc_terms = terms,
          tc_yesLabel = or_default ''Yes'' yes\<rparr>))))))"

definition normalizeApproval :: "js \<Rightarrow> approval_content res" where
  "normalizeApproval v =
     bindE (strictObject v ''activity.content'' [''labels'', ''prompt'', ''statement'']) (\<lambda>input.
     bindE (if get input ''labels'' = JUndef then Inr (JObj [])
            else strictObject (get input ''labels'') ''approval labels''
                   [''approved'', ''declined'', ''disapproved'']) (\<lambda>labels.
     bindE (optionalString (get labels ''approved'') ''labels.approved'' 160) (\<lambda>approved.
     bindE (optionalString (get labels ''declined'') ''labels.declined'' 160) (\<lambda>declined.
     bindE (optionalString (get labels ''disapproved'') ''labels.disapproved'' 160) (\<lambda>disapproved.
     bindE (boundedString (get input ''prompt'') ''activity.content.prompt'' 2 1000) (\<lambda>prompt.
     bindE (boundedString (get input ''statement'') ''activity.content.statement'' 2 50000) (\<lambda>statement.
     Inr \<lparr>ap_approved = or_default ''Approve'' approved, ap_declined = or_default ''Decline to decide'' declined,
          ap_disapproved = or_default ''Disapprove'' disapproved, ap_prompt = prompt,
          ap_statement = statement\<rparr>)))))))"

definition normalizeSingleChoice :: "js \<Rightarrow> single_choice_content res" where
  "normalizeSingleChoice v =
     bindE (strictObject v ''activity.content'' [''choices'', ''prompt'']) (\<lambda>input.
     bindE (normalizeChoices (get input ''choices'') ''activity'') (\<lambda>choices.
     bindE (boundedString (get input ''prompt'') ''activity.content.prompt'' 2 2000) (\<lambda>prompt.
     Inr \<lparr>sc_choices = choices, sc_prompt = prompt\<rparr>)))"

definition normalizeMultipleChoice :: "js \<Rightarrow> multiple_choice_content res" where
  "normalizeMultipleChoice v =
     bindE (strictObject v ''activity.content'' [''choices'', ''maxSelections'', ''minSelections'', ''prompt'']) (\<lambda>input.
     bindE (normalizeChoices (get input ''choices'') ''activity'') (\<lambda>choices.
     bindE (safeInteger (coalesce (get input ''minSelections'') (JInt 1)) ''minSelections'' 0 (int (length choices))) (\<lambda>lo.
     bindE (safeInteger (coalesce (get input ''maxSelections'') (JInt (int (length choices)))) ''maxSelections''
              (max 1 lo) (int (length choices))) (\<lambda>hi.
     bindE (boundedString (get input ''prompt'') ''activity.content.prompt'' 2 2000) (\<lambda>prompt.
     Inr \<lparr>mu_choices = choices, mu_maxSelections = hi, mu_minSelections = lo, mu_prompt = prompt\<rparr>)))))"

definition normalizeFreeForm :: "js \<Rightarrow> free_form_content res" where
  "normalizeFreeForm v =
     bindE (strictObject v ''activity.content'' [''maxLength'', ''minLength'', ''multiline'', ''prompt'']) (\<lambda>input.
     bindE (safeInteger (coalesce (get input ''minLength'') (JInt 1)) ''minLength'' 0 10000) (\<lambda>lo.
     bindE (safeInteger (coalesce (get input ''maxLength'') (JInt 2000)) ''maxLength'' (max 1 lo) 10000) (\<lambda>hi.
     bindE (boundedString (get input ''prompt'') ''activity.content.prompt'' 2 2000) (\<lambda>prompt.
     Inr \<lparr>ff_maxLength = hi, ff_minLength = lo, ff_multiline = (get input ''multiline'' \<noteq> JBool False),
          ff_prompt = prompt\<rparr>))))"

definition signature_methods :: "(string \<times> signature_method) list" where
  "signature_methods = [(''typed'', Typed), (''drawn'', Drawn)]"

definition method_of :: "js \<Rightarrow> signature_method option" where
  "method_of v = (case as_str v of None \<Rightarrow> None | Some s \<Rightarrow> map_of signature_methods s)"

definition normalizeMethods :: "js \<Rightarrow> signature_method list res" where
  "normalizeMethods v =
     (case as_arr (coalesce v (JArr [JStr ''typed'', JStr ''drawn''])) of
        None \<Rightarrow> invalidDefinition (Because ''signature methods'')
      | Some xs \<Rightarrow>
          guardE (xs \<noteq> [] \<and> length xs \<le> 2 \<and> distinct xs \<and> list_all (\<lambda>m. method_of m \<noteq> None) xs)
            INVALID_WORKFLOW (Because ''signature methods'') (Inr (List.map_filter method_of xs)))"

definition normalizeSignature :: "js \<Rightarrow> signature_content res" where
  "normalizeSignature v =
     bindE (strictObject v ''activity.content''
       [''consentText'', ''drawnSignatureLabel'', ''methods'', ''prompt'', ''statement'', ''typedNameLabel'']) (\<lambda>input.
     bindE (normalizeMethods (get input ''methods'')) (\<lambda>methods.
     bindE (boundedString (get input ''consentText'') ''activity.content.consentText'' 10 4000) (\<lambda>consentText.
     bindE (optionalString (get input ''drawnSignatureLabel'') ''drawnSignatureLabel'' 160) (\<lambda>drawn.
     bindE (boundedString (get input ''prompt'') ''activity.content.prompt'' 2 1000) (\<lambda>prompt.
     bindE (boundedString (get input ''statement'') ''activity.content.statement'' 2 50000) (\<lambda>statement.
     bindE (optionalString (get input ''typedNameLabel'') ''typedNameLabel'' 160) (\<lambda>typed.
     Inr \<lparr>sg_consentText = consentText, sg_drawnSignatureLabel = or_default ''Draw your signature'' drawn,
          sg_methods = methods, sg_prompt = prompt, sg_statement = statement,
          sg_typedNameLabel = or_default ''Type your full legal name'' typed\<rparr>)))))))"

definition normalizeDocument :: "js \<Rightarrow> document_content res" where
  "normalizeDocument v =
     bindE (strictObject v ''activity.content''
       [''artifact'', ''artifactId'', ''displayName'', ''prompt'', ''responseLabel'']) (\<lambda>input.
     bindE (boundedString (get input ''artifactId'') ''activity.content.artifactId'' 1 128) (\<lambda>artifactId.
     bindE (boundedString (get input ''displayName'') ''activity.content.displayName'' 1 255) (\<lambda>displayName.
     bindE (boundedString (get input ''prompt'') ''activity.content.prompt'' 2 1000) (\<lambda>prompt.
     bindE (optionalString (get input ''responseLabel'') ''responseLabel'' 160) (\<lambda>label.
     Inr \<lparr>do_artifactId = artifactId, do_displayName = displayName, do_prompt = prompt,
          do_responseLabel = or_default ''I reviewed this document.'' label\<rparr>)))))"

text \<open>The check of the correct answers: a non-empty list of distinct choice identifiers.\<close>

definition correct_ids :: "js \<Rightarrow> choice list \<Rightarrow> string list option" where
  "correct_ids v choices =
     (case as_arr v of
        None \<Rightarrow> None
      | Some xs \<Rightarrow>
          (let ids = List.map_filter as_str xs
           in if xs \<noteq> [] \<and> length ids = length xs \<and> distinct ids \<and> set ids \<subseteq> set (map ch_id choices)
              then Some ids else None))"

definition normalizeQuestion :: "nat \<Rightarrow> js \<Rightarrow> question res" where
  "normalizeQuestion index v =
     bindE (strictObject v ''question''
       [''choices'', ''correctChoiceIds'', ''id'', ''points'', ''prompt'', ''required'', ''type'']) (\<lambda>input.
     let type = coalesce (get input ''type'') (JStr ''single_choice'') in
     guardE (type = JStr ''single_choice'' \<or> type = JStr ''multiple_choice'') INVALID_WORKFLOW (Because ''question type'')
     (bindE (normalizeChoices (get input ''choices'') ''question'') (\<lambda>choices.
      case correct_ids (get input ''correctChoiceIds'') choices of
        None \<Rightarrow> invalidDefinition (Because ''correct choice IDs'')
      | Some correct \<Rightarrow>
          guardE (type = JStr ''single_choice'' \<longrightarrow> length correct = 1) INVALID_WORKFLOW (Because ''correct choice IDs'')
          (bindE (identifierOf (get input ''id'') ''question.id'') (\<lambda>qid.
           bindE (safeInteger (coalesce (get input ''points'') (JInt 1)) ''question.points'' 1 1000) (\<lambda>points.
           bindE (boundedString (get input ''prompt'') ''question.prompt'' 2 2000) (\<lambda>prompt.
           Inr \<lparr>q_choices = choices, q_correctChoiceIds = correct, q_id = qid, q_points = points,
                q_prompt = prompt, q_required = (get input ''required'' \<noteq> JBool False),
                q_type = (if type = JStr ''single_choice'' then Single_choice_question
                          else Multiple_choice_question)\<rparr>)))))))"

definition normalizeQuestionnaire :: "js \<Rightarrow> questionnaire_content res" where
  "normalizeQuestionnaire v =
     bindE (strictObject v ''activity.content''
       [''instructions'', ''passingPercent'', ''questions'', ''resultDisclosure'']) (\<lambda>input.
     case as_arr (get input ''questions'') of
       None \<Rightarrow> invalidDefinition (Because ''1 to 50 questions'')
     | Some qs \<Rightarrow>
         guardE (qs \<noteq> [] \<and> length qs \<le> 50) INVALID_WORKFLOW (Because ''1 to 50 questions'')
         (bindE (imapE normalizeQuestion 0 qs) (\<lambda>questions.
          guardE (length (uniq (map q_id questions)) = length questions) INVALID_WORKFLOW (Because ''question IDs unique'')
          (case as_str (coalesce (get input ''resultDisclosure'') (JStr ''pass_fail_and_score'')) of
             None \<Rightarrow> invalidDefinition (Because ''result disclosure'')
           | Some disclosure \<Rightarrow>
               guardE (disclosure \<in> set [''pass_fail'', ''pass_fail_and_score'']) INVALID_WORKFLOW (Because ''result disclosure'')
               (bindE (optionalString (get input ''instructions'') ''questionnaire.instructions'' 4000) (\<lambda>instructions.
                bindE (safeInteger (coalesce (get input ''passingPercent'') (JInt 70)) ''passingPercent'' 0 100) (\<lambda>passing.
                Inr \<lparr>qu_instructions = instructions, qu_passingPercent = passing, qu_questions = questions,
                     qu_resultDisclosure = disclosure\<rparr>)))))))"

definition normalizeContent :: "runtime \<Rightarrow> string \<Rightarrow> js \<Rightarrow> content res" where
  "normalizeContent R type v =
     (if type = ''terms_response'' then bindE (normalizeTerms v) (\<lambda>c. Inr (Terms c))
      else if type = ''approval'' then bindE (normalizeApproval v) (\<lambda>c. Inr (Approval c))
      else if type = ''single_choice'' then bindE (normalizeSingleChoice v) (\<lambda>c. Inr (Single_choice c))
      else if type = ''multiple_choice'' then bindE (normalizeMultipleChoice v) (\<lambda>c. Inr (Multiple_choice c))
      else if type = ''free_form'' then bindE (normalizeFreeForm v) (\<lambda>c. Inr (Free_form c))
      else if type = ''electronic_signature'' then bindE (normalizeSignature v) (\<lambda>c. Inr (Electronic_signature c))
      else if type = ''document_review'' then bindE (normalizeDocument v) (\<lambda>c. Inr (Document_review c))
      else if type = ''questionnaire'' then bindE (normalizeQuestionnaire v) (\<lambda>c. Inr (Questionnaire c))
      else if type = ''external_media'' then bindE (normalizeExternalMediaContent R v) (\<lambda>c. Inr (External_media c))
      else invalidDefinition (Because ''activity content contract''))"

definition normalizeActivityDefinition :: "runtime \<Rightarrow> nat \<Rightarrow> js \<Rightarrow> activity res" where
  "normalizeActivityDefinition R index v =
     bindE (strictObject v ''activity''
       [''content'', ''contractVersion'', ''id'', ''instructions'', ''responseMode'', ''title'', ''transition'', ''type'']) (\<lambda>input.
     bindE (boundedString (get input ''type'') ''activity.type'' 1 64) (\<lambda>type.
     guardE (type \<in> set ACTIVITY_TYPES) INVALID_WORKFLOW (Because ''activity type'')
     (guardE (coalesce (get input ''contractVersion'') (JInt 1) = JInt 1) INVALID_WORKFLOW (Because ''contract version'')
      (bindE (responseModeForType type (get input ''responseMode'')) (\<lambda>mode.
       bindE (if get input ''transition'' = JUndef then Inr (JObj [(''cases'', JArr [])])
              else strictObject (get input ''transition'') ''activity.transition'' [''cases'', ''defaultTo'']) (\<lambda>transition.
       case as_arr (coalesce (get transition ''cases'') (JArr [])) of
         None \<Rightarrow> invalidDefinition (Because ''sixteen branches'')
       | Some cases \<Rightarrow>
           guardE (length cases \<le> 16) INVALID_WORKFLOW (Because ''sixteen branches'')
           (bindE (normalizeContent R type (get input ''content'')) (\<lambda>content.
            bindE (identifierOf (get input ''id'') ''activity.id'') (\<lambda>aid.
            bindE (optionalString (get input ''instructions'') ''activity.instructions'' 2000) (\<lambda>instructions.
            bindE (boundedString (get input ''title'') ''activity.title'' 2 160) (\<lambda>title.
            bindE (imapE normalizeBranch 0 cases) (\<lambda>branches.
            bindE (normalizeDestination (get transition ''defaultTo'') False) (\<lambda>defaultTo.
            Inr \<lparr>a_content = content, a_contractVersion = 1, a_id = aid, a_instructions = instructions,
                 a_responseMode = mode, a_title = title, a_cases = branches, a_defaultTo = defaultTo\<rparr>)))))))))))))"

definition branchValuesForActivity :: "activity \<Rightarrow> string list" where
  "branchValuesForActivity a =
     (case a_content a of
        Terms _ \<Rightarrow> if a_responseMode a = ''acknowledgement'' then [''acknowledged''] else [''yes'', ''no'']
      | Approval _ \<Rightarrow> [''approved'', ''disapproved'', ''declined'']
      | Single_choice c \<Rightarrow> map ch_id (sc_choices c)
      | Electronic_signature _ \<Rightarrow> [''signed'']
      | Document_review _ \<Rightarrow> [''reviewed'']
      | Questionnaire _ \<Rightarrow> [''passed'', ''failed'']
      | External_media _ \<Rightarrow> [''completed'']
      | _ \<Rightarrow> [])"

section \<open>Responses\<close>

record point =
  pt_t :: "int option"
  pt_x :: rat
  pt_y :: rat

datatype answer = One_answer string | Answer_list "string list"

datatype media_method = Playback | Acknowledgement

datatype response_value =
    V_text string
  | V_choices "string list"
  | V_typed string
  | V_drawn "point list list"
  | V_answers "(string \<times> answer) list"
  | V_media media_method

datatype display =
    Text string
  | Score (sc_earned: int) (sc_total: int) (sc_percent: rat) (sc_passed: bool)

record question_result =
  qr_correct :: bool
  qr_id :: string
  qr_pointsEarned :: int

record score_result =
  sr_earnedPoints :: int
  sr_passed :: bool
  sr_passingPercent :: int
  sr_percent :: rat
  sr_questionResults :: "question_result list"
  sr_totalPoints :: int

datatype response_result =
    R_signature (rs_consentText: string) (rs_method: signature_method)
  | R_score score_result
  | R_media (rm_capability: media_capability) (rm_method: media_method) (rm_policy: completion_policy)

record response =
  r_display :: display
  r_outcome :: string
  r_result :: "response_result option"
  r_value :: response_value

definition normalizePoint :: "js \<Rightarrow> point res" where
  "normalizePoint v =
     bindE (strictResponseObject v ''signature point'' [''t'', ''x'', ''y'']) (\<lambda>input.
     case (finite_num (get input ''x''), finite_num (get input ''y'')) of
       (Some x, Some y) \<Rightarrow>
         guardE (0 \<le> x \<and> x \<le> 1 \<and> 0 \<le> y \<and> y \<le> 1 \<and>
                 (get input ''t'' = JUndef \<or>
                  (case safe_int (get input ''t'') of None \<Rightarrow> False | Some t \<Rightarrow> 0 \<le> t \<and> t \<le> 86400000)))
           INVALID_ACTIVITY_RESPONSE (Because ''drawing bounds'')
           (Inr \<lparr>pt_t = safe_int (get input ''t''), pt_x = roundCoordinate x, pt_y = roundCoordinate y\<rparr>)
     | _ \<Rightarrow> invalidResponse (Because ''drawing bounds''))"

text \<open>The strokes from one on, with the running point count.\<close>

fun strokes_from :: "nat \<Rightarrow> js list \<Rightarrow> point list list res" where
  "strokes_from n [] = Inr []"
| "strokes_from n (s # ss) =
     (case as_arr s of
        None \<Rightarrow> invalidResponse (Because ''2 to 1000 points'')
      | Some ps \<Rightarrow>
          guardE (2 \<le> length ps \<and> length ps \<le> 1000) INVALID_ACTIVITY_RESPONSE (Because ''2 to 1000 points'')
          (guardE (n + length ps \<le> 5000) INVALID_ACTIVITY_RESPONSE (Because ''too many points'')
           (bindE (mapE normalizePoint ps) (\<lambda>points.
            bindE (strokes_from (n + length ps) ss) (\<lambda>rest. Inr (points # rest))))))"

definition normalizeStrokes :: "js \<Rightarrow> point list list res" where
  "normalizeStrokes v =
     (case as_arr v of
        None \<Rightarrow> invalidResponse (Because ''1 to 50 strokes'')
      | Some ss \<Rightarrow>
          guardE (ss \<noteq> [] \<and> length ss \<le> 50) INVALID_ACTIVITY_RESPONSE (Because ''1 to 50 strokes'')
            (strokes_from 0 ss))"

definition or_text :: "string \<Rightarrow> string \<Rightarrow> string" where
  "or_text s d = (if s = [] then d else s)"

definition respond_terms :: "activity \<Rightarrow> terms_content \<Rightarrow> js \<Rightarrow> response res" where
  "respond_terms a c resp =
     (let ack = (a_responseMode a = ''acknowledgement'') in
      bindE (oneOf resp (if ack then [''acknowledged''] else [''yes'', ''no'']) ''response'') (\<lambda>value.
      Inr \<lparr>r_display = Text (if ack then or_text (tc_acknowledgementLabel c) ''I acknowledge these terms.''
              else if value = ''yes'' then or_text (tc_yesLabel c) ''Yes'' else or_text (tc_noLabel c) ''No''),
           r_outcome = value, r_result = None, r_value = V_text value\<rparr>))"

definition respond_approval :: "approval_content \<Rightarrow> js \<Rightarrow> response res" where
  "respond_approval c resp =
     bindE (oneOf resp [''approved'', ''disapproved'', ''declined''] ''response'') (\<lambda>value.
     Inr \<lparr>r_display = Text (if value = ''approved'' then ap_approved c
             else if value = ''disapproved'' then ap_disapproved c else ap_declined c),
          r_outcome = value, r_result = None, r_value = V_text value\<rparr>)"

definition find_choice :: "choice list \<Rightarrow> string \<Rightarrow> choice option" where
  "find_choice choices i = find (\<lambda>ch. ch_id ch = i) choices"

definition respond_single_choice :: "single_choice_content \<Rightarrow> js \<Rightarrow> response res" where
  "respond_single_choice c resp =
     (case find (\<lambda>ch. JStr (ch_id ch) = resp) (sc_choices c) of
        None \<Rightarrow> invalidResponse (Because ''presented choices'')
      | Some ch \<Rightarrow> Inr \<lparr>r_display = Text (ch_label ch), r_outcome = ch_id ch, r_result = None,
                       r_value = V_text (ch_id ch)\<rparr>)"

definition joined :: "string list \<Rightarrow> string" where
  "joined xs = (case xs of [] \<Rightarrow> [] | y # ys \<Rightarrow> y @ concat (map (\<lambda>z. ''; '' @ z) ys))"

definition respond_multiple_choice :: "multiple_choice_content \<Rightarrow> js \<Rightarrow> response res" where
  "respond_multiple_choice c resp =
     (case as_arr resp of
        None \<Rightarrow> invalidResponse (Because ''list of choices'')
      | Some xs \<Rightarrow>
          bindE (mapE (\<lambda>e. boundedResponseString e 64 1) xs) (\<lambda>values.
          guardE (length (uniq values) = length values) INVALID_ACTIVITY_RESPONSE (Because ''selected more than once'')
          (guardE (mu_minSelections c \<le> int (length values) \<and> int (length values) \<le> mu_maxSelections c)
             INVALID_ACTIVITY_RESPONSE (Because ''number of selected choices'')
          (guardE (list_all (\<lambda>v. find_choice (mu_choices c) v \<noteq> None) values)
             INVALID_ACTIVITY_RESPONSE (Because ''presented choices'')
          (Inr \<lparr>r_display = Text (joined (map ch_label (List.map_filter (find_choice (mu_choices c)) values))),
                r_outcome = ''submitted'', r_result = None, r_value = V_choices values\<rparr>)))))"

definition respond_free_form :: "free_form_content \<Rightarrow> js \<Rightarrow> response res" where
  "respond_free_form c resp =
     (case as_str resp of
        None \<Rightarrow> invalidResponse (Because ''response must be text'')
      | Some s \<Rightarrow>
          guardE (int (length s) \<le> ff_maxLength c \<and> ff_minLength c \<le> int (length (js_trim s)))
            INVALID_ACTIVITY_RESPONSE (Because ''text length'')
          (guardE (list_all (\<lambda>ch. code ch \<noteq> 0) s) INVALID_ACTIVITY_RESPONSE (Because ''unsupported character'')
          (Inr \<lparr>r_display = Text s, r_outcome = ''submitted'', r_result = None, r_value = V_text s\<rparr>)))"

definition respond_signature :: "signature_content \<Rightarrow> js \<Rightarrow> response res" where
  "respond_signature c resp =
     bindE (strictResponseObject resp ''electronic signature'' [''consent'', ''method'', ''name'', ''strokes'']) (\<lambda>signature.
     guardE (get signature ''consent'' = JBool True) INVALID_ACTIVITY_RESPONSE (Because ''consent'')
     (case method_of (get signature ''method'') of
        None \<Rightarrow> invalidResponse (Because ''signature method'')
      | Some method \<Rightarrow>
          guardE (method \<in> set (sg_methods c)) INVALID_ACTIVITY_RESPONSE (Because ''signature method'')
          (bindE (case method of
                    Typed \<Rightarrow> bindE (boundedResponseString (get signature ''name'') 160 2) (\<lambda>name.
                              Inr (V_typed name, Text (''Typed electronic signature: '' @ name)))
                  | Drawn \<Rightarrow> bindE (normalizeStrokes (get signature ''strokes'')) (\<lambda>strokes.
                              Inr (V_drawn strokes, Text ''Drawn electronic signature''))) (\<lambda>vd.
           Inr \<lparr>r_display = snd vd, r_outcome = ''signed'',
                r_result = Some (R_signature (sg_consentText c) method), r_value = fst vd\<rparr>))))"

definition respond_document :: "document_content \<Rightarrow> js \<Rightarrow> response res" where
  "respond_document c resp =
     bindE (oneOf resp [''reviewed''] ''response'') (\<lambda>value.
     Inr \<lparr>r_display = Text (do_responseLabel c), r_outcome = ''reviewed'', r_result = None,
          r_value = V_text value\<rparr>)"

text \<open>One question: the normalised answer, if any, and whether it is correct.\<close>

definition answer_question :: "js \<Rightarrow> question \<Rightarrow> (answer option \<times> bool) res" where
  "answer_question answers q =
     (let answer = get answers (q_id q); known = (\<lambda>e. list_ex (\<lambda>ch. ch_id ch = e) (q_choices q)) in
      guardE (\<not> (answer = JUndef \<and> q_required q)) INVALID_ACTIVITY_RESPONSE (Because ''answer required'')
      (if answer = JUndef then Inr (None, False)
       else case q_type q of
         Single_choice_question \<Rightarrow>
           bindE (boundedResponseString answer 64 1) (\<lambda>e.
           guardE (known e) INVALID_ACTIVITY_RESPONSE (Because ''answer unsupported'')
             (Inr (Some (One_answer e), e \<in> set (q_correctChoiceIds q))))
       | Multiple_choice_question \<Rightarrow>
           (case as_arr answer of
              None \<Rightarrow> invalidResponse (Because ''answer must be a list'')
            | Some xs \<Rightarrow>
                bindE (mapE (\<lambda>e. boundedResponseString e 64 1) xs) (\<lambda>es.
                guardE (length (uniq es) = length es \<and> list_all known es)
                  INVALID_ACTIVITY_RESPONSE (Because ''answer unsupported'')
                  (Inr (Some (Answer_list es), sameSet es (q_correctChoiceIds q)))))))"

definition score_percent :: "int \<Rightarrow> int \<Rightarrow> rat" where
  "score_percent earned points =
     (if points \<noteq> 0 then js_div (of_int (js_round (js_mul (js_div (of_int earned) (of_int points)) 10000))) 100
      else 100)"

definition score_response :: "questionnaire_content \<Rightarrow> (question \<times> answer option \<times> bool) list \<Rightarrow> response" where
  "score_response c rows =
     (let normalized = List.map_filter (\<lambda>(q, a, _). map_option (\<lambda>x. (q_id q, x)) a) rows;
          points = sum_list (map (\<lambda>(q, _). q_points q) rows);
          earned = sum_list (map (\<lambda>(q, _, ok). if ok then q_points q else 0) rows);
          results = map (\<lambda>(q, _, ok). \<lparr>qr_correct = ok, qr_id = q_id q,
                       qr_pointsEarned = (if ok then q_points q else 0)\<rparr>) rows;
          percent = score_percent earned points;
          passed = (percent \<ge> of_int (qu_passingPercent c))
      in \<lparr>r_display = Score earned points percent passed,
          r_outcome = (if passed then ''passed'' else ''failed''),
          r_result = Some (R_score \<lparr>sr_earnedPoints = earned, sr_passed = passed,
            sr_passingPercent = qu_passingPercent c, sr_percent = percent, sr_questionResults = results,
            sr_totalPoints = points\<rparr>),
          r_value = V_answers normalized\<rparr>)"

definition respond_questionnaire :: "questionnaire_content \<Rightarrow> js \<Rightarrow> response res" where
  "respond_questionnaire c resp =
     bindE (strictResponseObject resp ''questionnaire response'' (map q_id (qu_questions c))) (\<lambda>answers.
     bindE (mapE (\<lambda>q. bindE (answer_question answers q) (\<lambda>r. Inr (q, r))) (qu_questions c)) (\<lambda>rows.
     Inr (score_response c rows)))"

definition respond_media :: "media_content \<Rightarrow> js \<Rightarrow> response res" where
  "respond_media c resp =
     bindE (strictResponseObject resp ''external media response'' [''acknowledged'', ''method'']) (\<lambda>input.
     bindE (oneOf (get input ''method'') [''playback'', ''acknowledgement''] ''media completion method'') (\<lambda>method.
     let mode = cp_mode (mc_completionPolicy c) in
     guardE (\<not> (method = ''playback'' \<and> mode = ''acknowledgement'')) INVALID_ACTIVITY_RESPONSE (Because ''playback not allowed'')
     (guardE (\<not> (method = ''acknowledgement'' \<and> mode = ''playback'')) INVALID_ACTIVITY_RESPONSE (Because ''playback required'')
      (guardE (\<not> (method = ''acknowledgement'' \<and> get input ''acknowledged'' \<noteq> JBool True))
         INVALID_ACTIVITY_RESPONSE (Because ''acknowledgement required'')
       (let m = (if method = ''playback'' then Playback else Acknowledgement) in
        Inr \<lparr>r_display = Text (if method = ''playback''
               then ''Playback met the configured '' @ show_int (cp_thresholdPercent (mc_completionPolicy c)) @ ''% threshold.''
               else mc_acknowledgementLabel c),
             r_outcome = ''completed'',
             r_result = Some (R_media (d_capability (mc_descriptor c)) m (mc_completionPolicy c)),
             r_value = V_media m\<rparr>)))))"

definition validateActivityResponse :: "activity \<Rightarrow> js \<Rightarrow> response res" where
  "validateActivityResponse a resp =
     (case a_content a of
        Terms c \<Rightarrow> respond_terms a c resp
      | Approval c \<Rightarrow> respond_approval c resp
      | Single_choice c \<Rightarrow> respond_single_choice c resp
      | Multiple_choice c \<Rightarrow> respond_multiple_choice c resp
      | Free_form c \<Rightarrow> respond_free_form c resp
      | Electronic_signature c \<Rightarrow> respond_signature c resp
      | Document_review c \<Rightarrow> respond_document c resp
      | Questionnaire c \<Rightarrow> respond_questionnaire c resp
      | External_media c \<Rightarrow> respond_media c resp)"

section \<open>The participant's view\<close>

record shown_question =
  sq_choices :: "choice list"
  sq_id :: string
  sq_prompt :: string
  sq_required :: bool
  sq_type :: question_type

datatype shown_content =
    Shown content
  | Shown_questionnaire (sh_instructions: "string option") (sh_passingPercent: int)
      (sh_questions: "shown_question list") (sh_resultDisclosure: string)

record shown_activity =
  sa_content :: shown_content
  sa_contentHash :: "string option"
  sa_contractVersion :: int
  sa_id :: string
  sa_instructions :: "string option"
  sa_responseMode :: string
  sa_title :: string
  sa_type :: string

definition show_question :: "question \<Rightarrow> shown_question" where
  "show_question q = \<lparr>sq_choices = q_choices q, sq_id = q_id q, sq_prompt = q_prompt q,
     sq_required = q_required q, sq_type = q_type q\<rparr>"

definition participantActivityProjection :: "string option \<Rightarrow> activity \<Rightarrow> shown_activity" where
  "participantActivityProjection contentHash a =
     \<lparr>sa_content = (case a_content a of
          Questionnaire c \<Rightarrow> Shown_questionnaire (qu_instructions c) (qu_passingPercent c)
             (map show_question (qu_questions c)) (qu_resultDisclosure c)
        | c \<Rightarrow> Shown c),
      sa_contentHash = contentHash, sa_contractVersion = a_contractVersion a, sa_id = a_id a,
      sa_instructions = a_instructions a, sa_responseMode = a_responseMode a, sa_title = a_title a,
      sa_type = activity_type (a_content a)\<rparr>"

section \<open>What is recorded\<close>

text \<open>The response value and result as the JSON that the evidence event carries.\<close>

definition point_js :: "point \<Rightarrow> js" where
  "point_js p = JObj [(''t'', opt_js JInt (pt_t p)), (''x'', JNum (Fin (pt_x p))), (''y'', JNum (Fin (pt_y p)))]"

fun answer_js :: "answer \<Rightarrow> js" where
  "answer_js (One_answer s) = JStr s"
| "answer_js (Answer_list xs) = JArr (map JStr xs)"

fun method_js :: "media_method \<Rightarrow> js" where
  "method_js Playback = JStr ''playback''"
| "method_js Acknowledgement = JStr ''acknowledgement''"

fun response_value_js :: "response_value \<Rightarrow> js" where
  "response_value_js (V_text s) = JStr s"
| "response_value_js (V_choices xs) = JArr (map JStr xs)"
| "response_value_js (V_typed name) =
     JObj [(''consent'', JBool True), (''method'', JStr ''typed''), (''name'', JStr name)]"
| "response_value_js (V_drawn strokes) =
     JObj [(''consent'', JBool True), (''method'', JStr ''drawn''),
           (''strokes'', JArr (map (\<lambda>s. JArr (map point_js s)) strokes))]"
| "response_value_js (V_answers as) = JObj (map (\<lambda>(k, a). (k, answer_js a)) as)"
| "response_value_js (V_media m) =
     JObj [(''acknowledged'', if m = Acknowledgement then JBool True else JUndef), (''method'', method_js m)]"

definition question_result_js :: "question_result \<Rightarrow> js" where
  "question_result_js q = JObj [(''correct'', JBool (qr_correct q)), (''id'', JStr (qr_id q)),
     (''pointsEarned'', JInt (qr_pointsEarned q))]"

definition completion_policy_js :: "completion_policy \<Rightarrow> js" where
  "completion_policy_js p = JObj [(''minimumUniqueSeconds'', JInt (cp_minimumUniqueSeconds p)),
     (''mode'', JStr (cp_mode p)), (''thresholdPercent'', JInt (cp_thresholdPercent p))]"

fun capability_name :: "media_capability \<Rightarrow> string" where
  "capability_name Instrumented_player = ''instrumented_player''"
| "capability_name Version_aware_preview = ''version_aware_preview''"
| "capability_name Generic_embed = ''generic_embed''"
| "capability_name External_link_only = ''external_link''"

fun response_result_js :: "response_result \<Rightarrow> js" where
  "response_result_js (R_signature consentText m) = JObj
     [(''consentText'', JStr consentText), (''method'', JStr (if m = Typed then ''typed'' else ''drawn'')),
      (''representation'', JStr (if m = Drawn then ''normalized-vector-strokes/v1'' else ''typed-name/v1''))]"
| "response_result_js (R_score r) = JObj
     [(''earnedPoints'', JInt (sr_earnedPoints r)), (''passed'', JBool (sr_passed r)),
      (''passingPercent'', JInt (sr_passingPercent r)), (''percent'', JNum (Fin (sr_percent r))),
      (''questionResults'', JArr (map question_result_js (sr_questionResults r))),
      (''totalPoints'', JInt (sr_totalPoints r))]"
| "response_result_js (R_media c m p) = JObj
     [(''capability'', JStr (capability_name c)), (''completionMethod'', method_js m),
      (''completionPolicy'', completion_policy_js p)]"

text \<open>A value that holds, at any depth, a number that is not a safe integer.\<close>

fun has_fraction :: "js \<Rightarrow> bool" where
  "has_fraction (JNum n) = (safe_int (JNum n) = None)"
| "has_fraction (JArr xs) = list_ex has_fraction xs"
| "has_fraction (JObj ps) = list_ex (\<lambda>p. has_fraction (snd p)) ps"
| "has_fraction _ = False"

lemma fraction_not_canonical: "has_fraction v \<Longrightarrow> \<exists>e. canonicalValue v = Inl e"
proof (induction v rule: canonicalValue.induct)
  case (5 xs)
  then obtain x e where "x \<in> set xs" "canonicalValue x = Inl e" by (fastforce simp: list_ex_iff)
  then obtain e' where "mapE canonicalValue xs = Inl e'" using mapE_fails by metis
  then show ?case by simp
next
  case (6 ps)
  then obtain p where p: "p \<in> set ps" "has_fraction (snd p)" by (auto simp: list_ex_iff)
  then have "keep_member p" using keep_member.simps[of "fst p" "snd p"] by auto
  then have k: "p \<in> set (filter keep_member (sort_key fst ps))" using p by simp
  with 6 p obtain e where "canonicalValue (snd p) = Inl e" by blast
  then have "\<exists>e'. mapE (\<lambda>p. bindE (canonicalValue (snd p)) (\<lambda>v. Inr (fst p, v)))
      (filter keep_member (sort_key fst ps)) = Inl e'"
    by (intro mapE_fails[OF k]) simp
  then show ?case by auto
qed (auto simp: throw_def)

section \<open>Properties\<close>

lemma score_percent_bounds:
  assumes "0 \<le> e" "e \<le> n" "n \<le> 50000"
  shows "0 \<le> score_percent e n \<and> score_percent e n \<le> 100"
proof (cases "n = 0")
  case False
  let ?q = "fl (of_int e / of_int n)"
  have "of_int 0 \<le> (of_int e / of_int n :: rat)" "(of_int e / of_int n :: rat) \<le> of_int 1"
    using assms False by (auto simp: divide_le_eq_1)
  from fl_between[OF this] have q: "0 \<le> ?q" "?q \<le> 1" by simp_all
  then have "of_int 0 \<le> ?q * 10000" "?q * 10000 \<le> of_int 10000" by simp_all
  from fl_between[OF this] have "of_int 0 \<le> fl (?q * 10000)" "fl (?q * 10000) \<le> of_int 10000" by simp_all
  from js_round_between[OF this]
  have r: "0 \<le> js_round (fl (?q * 10000))" "js_round (fl (?q * 10000)) \<le> 10000" .
  then have "of_int 0 \<le> (of_int (js_round (fl (?q * 10000))) / 100 :: rat)"
      "(of_int (js_round (fl (?q * 10000))) / 100 :: rat) \<le> of_int 100"
    using of_int_le_iff[where 'a = rat, of _ 10000] by (simp_all add: divide_le_eq)
  from fl_between[OF this] show ?thesis
    using False by (simp add: score_percent_def js_div_def js_mul_def)
qed (simp add: score_percent_def)

lemma fl_numerals [simp]: "fl 1 = 1" "fl 100 = 100" "fl 10000 = 10000"
  using fl_of_int[of 1] fl_of_int[of 100] fl_of_int[of 10000] by simp_all

lemma score_percent_full: "score_percent n n = 100"
proof (cases "n = 0")
  case False
  have "js_round 10000 = 10000" using js_round_of_int[of 10000] by simp
  then show ?thesis using False by (simp add: score_percent_def js_div_def js_mul_def)
qed (simp add: score_percent_def)

lemma sum_points_bounds:
  assumes "\<forall>q \<in> fst ` set rows. 1 \<le> q_points q \<and> q_points q \<le> 1000"
  shows "0 \<le> sum_list (map (\<lambda>(q, _, ok). if ok then q_points q else 0) rows) \<and>
    sum_list (map (\<lambda>(q, _, ok). if ok then q_points q else 0) rows)
      \<le> sum_list (map (\<lambda>(q, _). q_points q) rows) \<and>
    sum_list (map (\<lambda>(q, _). q_points q) rows) \<le> 1000 * int (length rows)"
  using assms by (induction rows) (auto split: prod.splits)

lemma normalized_questions:
  assumes "normalizeActivityDefinition R i v = Inr a" "a_content a = Questionnaire c"
  shows "length (qu_questions c) \<le> 50 \<and> distinct (map q_id (qu_questions c)) \<and>
    (\<forall>q \<in> set (qu_questions c). 1 \<le> q_points q \<and> q_points q \<le> 1000)"
proof -
  from assms obtain w where n: "normalizeQuestionnaire w = Inr c"
    unfolding normalizeActivityDefinition_def
    by (elim res_elims) (auto simp: normalizeContent_def res_simps split: if_splits)
  then obtain qs where qs: "length qs \<le> 50" "imapE normalizeQuestion 0 qs = Inr (qu_questions c)"
      "length (uniq (map q_id (qu_questions c))) = length (qu_questions c)"
    unfolding normalizeQuestionnaire_def by (elim res_elims) auto
  have pts: "1 \<le> q_points q \<and> q_points q \<le> 1000" if "normalizeQuestion j u = Inr q" for j u q
    using that unfolding normalizeQuestion_def Let_def
    by (elim res_elims) (auto simp: whole_number_Inr)
  from qs(2) have "length (qu_questions c) = length qs"
      "\<forall>q \<in> set (qu_questions c). \<exists>j u. normalizeQuestion j u = Inr q"
    using imapE_length imapE_memD[OF qs(2)] by blast+
  then show ?thesis using qs(1,3) pts length_uniq_eq[of "map q_id (qu_questions c)"] by fastforce
qed



definition rekey_question :: "(string \<Rightarrow> string list \<times> int) \<Rightarrow> question \<Rightarrow> question" where
  "rekey_question k q = q\<lparr>q_correctChoiceIds := fst (k (q_id q)), q_points := snd (k (q_id q))\<rparr>"

definition rekey :: "(string \<Rightarrow> string list \<times> int) \<Rightarrow> activity \<Rightarrow> activity" where
  "rekey k a = (case a_content a of
      Questionnaire c \<Rightarrow> a\<lparr>a_content := Questionnaire (c\<lparr>qu_questions := map (rekey_question k) (qu_questions c)\<rparr>)\<rparr>
    | _ \<Rightarrow> a)"

text \<open>
  C22. The participant's view of a questionnaire does not depend on its answer key: changing the
  correct choices and the points of any question leaves the projection unchanged.
\<close>

theorem projection_hides_answer_key:
  "participantActivityProjection h (rekey k a) = participantActivityProjection h a"
  by (cases "a_content a")
    (simp_all add: participantActivityProjection_def rekey_def rekey_question_def show_question_def comp_def)

text \<open>
  A drawn signature whose rounded coordinates are not all whole numbers, and a questionnaire
  whose percentage is not a whole number, are accepted as responses but have no canonical JSON:
  hashing any evidence value that carries them fails.
\<close>

theorem fractional_response_not_hashable:
  assumes "validateActivityResponse a resp = Inr r"
    and "(\<exists>strokes s p. r_value r = V_drawn strokes \<and> s \<in> set strokes \<and> p \<in> set s \<and>
           (pt_x p \<notin> \<int> \<or> pt_y p \<notin> \<int>)) \<or>
         (\<exists>s. r_result r = Some (R_score s) \<and> sr_percent s \<notin> \<int>)"
  shows "\<exists>e. hashCanonicalJSON H (JObj (before @
     [(''response'', JObj [(''display'', d), (''outcome'', JStr (r_outcome r)),
        (''result'', opt_js response_result_js (r_result r)), (''value'', response_value_js (r_value r))])]
     @ after)) = Inl e"
proof -
  have frac: "safe_int (JNum (Fin x)) = None" if "x \<notin> \<int>" for x :: rat
  proof (rule ccontr)
    assume "safe_int (JNum (Fin x)) \<noteq> None"
    then obtain n where "JNum (Fin x) = JInt n" using safe_int_Some by blast
    then show False using that by simp
  qed
  have "has_fraction (response_value_js (r_value r)) \<or> has_fraction (opt_js response_result_js (r_result r))"
    using assms(2)
  proof (elim disjE exE conjE)
    fix strokes s p
    assume "r_value r = V_drawn strokes" "s \<in> set strokes" "p \<in> set s" "pt_x p \<notin> \<int>"
    then show ?thesis using frac[of "pt_x p"] by (auto simp: list_ex_iff point_js_def intro!: bexI[of _ s] bexI[of _ p])
  next
    fix strokes s p
    assume "r_value r = V_drawn strokes" "s \<in> set strokes" "p \<in> set s" "pt_y p \<notin> \<int>"
    then show ?thesis using frac[of "pt_y p"] by (auto simp: list_ex_iff point_js_def intro!: bexI[of _ s] bexI[of _ p])
  next
    fix s
    assume "r_result r = Some (R_score s)" "sr_percent s \<notin> \<int>"
    then show ?thesis using frac[of "sr_percent s"] by auto
  qed
  then have "has_fraction (JObj (before @
     [(''response'', JObj [(''display'', d), (''outcome'', JStr (r_outcome r)),
        (''result'', opt_js response_result_js (r_result r)), (''value'', response_value_js (r_value r))])]
     @ after))" by auto
  from fraction_not_canonical[OF this] show ?thesis
    by (auto simp: hashCanonicalJSON_def canonicalJSON_def)
qed

section \<open>Witnesses\<close>

definition demo_choice :: "string \<Rightarrow> js" where
  "demo_choice i = JObj [(''id'', JStr i), (''label'', JStr i)]"

definition demo_question :: "string \<Rightarrow> js" where
  "demo_question i = JObj [(''id'', JStr i), (''prompt'', JStr ''Which one?''),
     (''choices'', JArr [demo_choice ''a'', demo_choice ''b'']), (''correctChoiceIds'', JArr [JStr ''a''])]"

definition demo_activity_input :: js where
  "demo_activity_input = JObj [(''type'', JStr ''questionnaire''), (''id'', JStr ''quiz''), (''title'', JStr ''Quiz''),
     (''content'', JObj [(''questions'', JArr [demo_question ''q1'', demo_question ''q2''])])]"

definition demo_choices :: "choice list" where
  "demo_choices = [\<lparr>ch_description = None, ch_id = ''a'', ch_label = ''a''\<rparr>,
     \<lparr>ch_description = None, ch_id = ''b'', ch_label = ''b''\<rparr>]"

definition demo_questionnaire :: questionnaire_content where
  "demo_questionnaire = \<lparr>qu_instructions = None, qu_passingPercent = 70,
     qu_questions = map (\<lambda>i. \<lparr>q_choices = demo_choices, q_correctChoiceIds = [''a''], q_id = i, q_points = 1,
       q_prompt = ''Which one?'', q_required = True, q_type = Single_choice_question\<rparr>) [''q1'', ''q2''],
     qu_resultDisclosure = ''pass_fail_and_score''\<rparr>"

definition demo_activity :: activity where
  "demo_activity = \<lparr>a_content = Questionnaire demo_questionnaire, a_contractVersion = 1, a_id = ''quiz'',
     a_instructions = None, a_responseMode = ''questionnaire'', a_title = ''Quiz'', a_cases = [], a_defaultTo = None\<rparr>"

definition demo_answers :: js where
  "demo_answers = JObj [(''q1'', JStr ''a''), (''q2'', JStr ''b'')]"

definition demo_response :: response where
  "demo_response = score_response demo_questionnaire
     (zip (qu_questions demo_questionnaire)
        [(Some (One_answer ''a''), True), (Some (One_answer ''b''), False)])"

lemma demo_activity_normalized:
  "normalizeActivityDefinition demo_runtime 0 demo_activity_input = Inr demo_activity"
  by code_simp

lemma demo_activity_content: "a_content demo_activity = Questionnaire demo_questionnaire"
  by (simp add: demo_activity_def)

lemma demo_response_accepted: "validateActivityResponse demo_activity demo_answers = Inr demo_response"
  by (simp add: validateActivityResponse_def demo_activity_def respond_questionnaire_def demo_response_def)
    (simp add: demo_questionnaire_def demo_answers_def demo_choices_def answer_question_def Let_def strict_object_def
      boundedResponseString_def js_trim_def is_ws_def code_def)

lemmas demo_activity_facts = demo_activity_normalized demo_activity_content demo_response_accepted



definition demo_drawn :: response where
  "demo_drawn = \<lparr>r_display = Text ''Drawn electronic signature'', r_outcome = ''signed'',
     r_result = Some (R_signature ''I consent to sign.'' Drawn),
     r_value = V_drawn [[\<lparr>pt_t = None, pt_x = 1 / 2, pt_y = 0\<rparr>, \<lparr>pt_t = None, pt_x = 1, pt_y = 1\<rparr>]]\<rparr>"

definition demo_signature_activity :: activity where
  "demo_signature_activity = \<lparr>a_content = Electronic_signature \<lparr>sg_consentText = ''I consent to sign.'',
       sg_drawnSignatureLabel = ''Draw'', sg_methods = [Typed, Drawn], sg_prompt = ''Sign'',
       sg_statement = ''Statement'', sg_typedNameLabel = ''Name''\<rparr>,
     a_contractVersion = 1, a_id = ''sign'', a_instructions = None, a_responseMode = ''electronic_signature'',
     a_title = ''Sign'', a_cases = [], a_defaultTo = None\<rparr>"

lemma demo_drawn_accepted:
  "validateActivityResponse demo_signature_activity
     (JObj [(''consent'', JBool True), (''method'', JStr ''drawn''),
        (''strokes'', JArr [JArr [JObj [(''x'', JNum (Fin (1 / 2))), (''y'', JInt 0)],
                                  JObj [(''x'', JInt 1), (''y'', JInt 1)]]])]) = Inr demo_drawn"
  by code_simp

lemma half_not_int: "(1 / 2 :: rat) \<notin> \<int>"
proof
  assume "(1 / 2 :: rat) \<in> \<int>"
  then obtain z where "(1 / 2 :: rat) = of_int z" by (rule Ints_cases)
  then have "(of_int (2 * z) :: rat) = of_int 1" by simp
  then have "2 * z = 1" by (simp only: of_int_eq_iff)
  then show False by presburger
qed

theorem fractional_response_not_hashable_witness:
  "\<exists>e. hashCanonicalJSON id (JObj [(''response'', JObj [(''display'', JStr []), (''outcome'', JStr (r_outcome demo_drawn)),
        (''result'', opt_js response_result_js (r_result demo_drawn)), (''value'', response_value_js (r_value demo_drawn))])]) = Inl e"
proof -
  have "(\<exists>strokes s p. r_value demo_drawn = V_drawn strokes \<and> s \<in> set strokes \<and> p \<in> set s \<and>
           (pt_x p \<notin> \<int> \<or> pt_y p \<notin> \<int>)) \<or>
         (\<exists>s. r_result demo_drawn = Some (R_score s) \<and> sr_percent s \<notin> \<int>)"
    using half_not_int by (auto simp: demo_drawn_def intro!: exI[of _ "\<lparr>pt_t = None, pt_x = 1 / 2, pt_y = 0\<rparr>"])
  from fractional_response_not_hashable[OF demo_drawn_accepted this, of id "[]" _ "[]"] show ?thesis by simp
qed

end
