(* ===== verification/Documents.thy ===== *)
theory Documents
  imports Activities
begin

text \<open>
  The frozen objects that the workflow normalisers return, as JSON values: what the document hash
  of a workflow and the definition hash of an activity are computed over. Members that the source
  sets to \<open>undefined\<close> are \<open>JUndef\<close> here and disappear in the canonical form.
\<close>

definition choice_js :: "choice \<Rightarrow> js" where
  "choice_js c = JObj [(''description'', opt_js JStr (ch_description c)), (''id'', JStr (ch_id c)),
     (''label'', JStr (ch_label c))]"

definition question_js :: "question \<Rightarrow> js" where
  "question_js q = JObj [(''choices'', JArr (map choice_js (q_choices q))),
     (''correctChoiceIds'', JArr (map JStr (q_correctChoiceIds q))), (''id'', JStr (q_id q)),
     (''points'', JInt (q_points q)), (''prompt'', JStr (q_prompt q)), (''required'', JBool (q_required q)),
     (''type'', JStr (case q_type q of Single_choice_question \<Rightarrow> ''single_choice''
                                     | Multiple_choice_question \<Rightarrow> ''multiple_choice''))]"

fun limitation_text :: "limitation \<Rightarrow> string" where
  "limitation_text Binds_change_token = ''VASI binds the supplied provider change token but does not possess or hash the external media bytes.''"
| "limitation_text No_stable_version = ''The provider supplied no stable version or content digest; VASI cannot prove the exact media bytes shown.''"
| "limitation_text No_exact_bytes = ''No stable version/eTag/checksum was supplied; the referenced bytes cannot be identified exactly.''"
| "limitation_text Sharepoint_access = ''SharePoint preview access can expire, be revoked, or require a separate provider session.''"
| "limitation_text Sharepoint_presentation = ''SharePoint preview presentation is observable, but in-frame playback is not claimed.''"
| "limitation_text Drive_access = ''Google Drive access can be revoked or require a separate provider session.''"
| "limitation_text Drive_presentation = ''Google Drive preview visibility is observable, but in-frame playback is not claimed.''"
| "limitation_text Dropbox_departure = ''Dropbox Embedder does not support audio or video; VASI records external-link departure and return only.''"
| "limitation_text Generic_visibility = ''Generic iframe visibility is observable, but in-frame interaction or playback is not claimed.''"
| "limitation_text Link_departure = ''The provider is opened outside VASI; only departure, return, and acknowledgement are observable.''"
| "limitation_text Not_instrumented = ''This capability does not provide validated playback events.''"
| "limitation_text Duration_unavailable = ''Media duration was unavailable, so playback completion cannot be calculated.''"
| "limitation_text Gaps_not_credited = ''One or more telemetry gaps or implausible position changes were not credited.''"
| "limitation_text Provider_errors = ''The provider or embed reported one or more errors.''"
| "limitation_text Incomplete_sessions = ''One or more telemetry sessions had no disconnect event at the time of calculation; no time after the last event was credited.''"
| "limitation_text Supporting_evidence_only = ''Browser telemetry is supporting evidence and does not prove attention or comprehension.''"

fun provider_name :: "media_provider \<Rightarrow> string" where
  "provider_name Youtube = ''youtube''"
| "provider_name Vimeo = ''vimeo''"
| "provider_name Sharepoint = ''sharepoint''"
| "provider_name Google_drive = ''google_drive''"
| "provider_name Dropbox = ''dropbox''"
| "provider_name Generic = ''generic''"
| "provider_name External_link = ''external_link''"

definition version_js :: "media_version \<Rightarrow> js" where
  "version_js v = JObj [(''cTag'', opt_js JStr (ver_cTag v)), (''checksum'', opt_js JStr (ver_checksum v)),
     (''eTag'', opt_js JStr (ver_eTag v)), (''id'', opt_js JStr (ver_id v)),
     (''lastModifiedAt'', opt_js JStr (ver_lastModifiedAt v))]"

definition descriptor_js :: "media_descriptor \<Rightarrow> js" where
  "descriptor_js d = JObj
     [(''accessMode'', JStr (d_accessMode d)),
      (''adapter'', JObj [(''id'', JStr (ad_id (d_adapter d))), (''version'', JStr (ad_version (d_adapter d)))]),
      (''allowedOrigins'', JArr (map JStr (d_allowedOrigins d))),
      (''capability'', JStr (capability_name (d_capability d))),
      (''description'', opt_js JStr (d_description d)),
      (''dimensions'', opt_js (\<lambda>(h, w). JObj [(''height'', JInt h), (''width'', JInt w)]) (d_dimensions d)),
      (''durationMilliseconds'', opt_js JInt (d_durationMilliseconds d)),
      (''embedUrl'', opt_js JStr (d_embedUrl d)), (''itemId'', JStr (d_itemId d)), (''kind'', JStr (d_kind d)),
      (''limitations'', JArr (map (\<lambda>l. JStr (limitation_text l)) (d_limitations d))),
      (''metadataProvenance'', JStr (d_metadataProvenance d)), (''owner'', opt_js JStr (d_owner d)),
      (''provider'', JStr (provider_name (d_provider d))), (''sourceUrl'', JStr (d_sourceUrl d)),
      (''title'', JStr (d_title d)), (''version'', version_js (d_version d))]"

definition telemetry_policy_js :: "telemetry_policy \<Rightarrow> js" where
  "telemetry_policy_js t = JObj [(''heartbeatSeconds'', JInt (tp_heartbeatSeconds t)),
     (''idleSeconds'', JInt (tp_idleSeconds t)), (''maxCreditedGapSeconds'', JInt (tp_maxCreditedGapSeconds t))]"

definition media_content_js :: "media_content \<Rightarrow> js" where
  "media_content_js c = JObj
     [(''accessibilityAlternative'', opt_js (\<lambda>a. JObj [(''label'', JStr (alt_label a)), (''url'', opt_js JStr (alt_url a))])
         (mc_accessibilityAlternative c)),
      (''acknowledgementLabel'', JStr (mc_acknowledgementLabel c)),
      (''completionPolicy'', completion_policy_js (mc_completionPolicy c)),
      (''descriptor'', descriptor_js (mc_descriptor c)), (''prompt'', JStr (mc_prompt c)),
      (''providerNotice'', JStr (mc_providerNotice c)),
      (''telemetryPolicy'', telemetry_policy_js (mc_telemetryPolicy c))]"

fun content_js :: "content \<Rightarrow> js" where
  "content_js (Terms c) = JObj
     [(''acknowledgementLabel'', JStr (tc_acknowledgementLabel c)), (''noLabel'', JStr (tc_noLabel c)),
      (''prompt'', JStr (tc_prompt c)), (''terms'', JStr (tc_terms c)), (''yesLabel'', JStr (tc_yesLabel c))]"
| "content_js (Approval c) = JObj
     [(''labels'', JObj [(''approved'', JStr (ap_approved c)), (''declined'', JStr (ap_declined c)),
                        (''disapproved'', JStr (ap_disapproved c))]),
      (''prompt'', JStr (ap_prompt c)), (''statement'', JStr (ap_statement c))]"
| "content_js (Single_choice c) = JObj
     [(''choices'', JArr (map choice_js (sc_choices c))), (''prompt'', JStr (sc_prompt c))]"
| "content_js (Multiple_choice c) = JObj
     [(''choices'', JArr (map choice_js (mu_choices c))), (''maxSelections'', JInt (mu_maxSelections c)),
      (''minSelections'', JInt (mu_minSelections c)), (''prompt'', JStr (mu_prompt c))]"
| "content_js (Free_form c) = JObj
     [(''maxLength'', JInt (ff_maxLength c)), (''minLength'', JInt (ff_minLength c)),
      (''multiline'', JBool (ff_multiline c)), (''prompt'', JStr (ff_prompt c))]"
| "content_js (Electronic_signature c) = JObj
     [(''consentText'', JStr (sg_consentText c)), (''drawnSignatureLabel'', JStr (sg_drawnSignatureLabel c)),
      (''methods'', JArr (map (\<lambda>m. JStr (if m = Typed then ''typed'' else ''drawn'')) (sg_methods c))),
      (''prompt'', JStr (sg_prompt c)), (''statement'', JStr (sg_statement c)),
      (''typedNameLabel'', JStr (sg_typedNameLabel c))]"
| "content_js (Document_review c) = JObj
     [(''artifactId'', JStr (do_artifactId c)), (''displayName'', JStr (do_displayName c)),
      (''prompt'', JStr (do_prompt c)), (''responseLabel'', JStr (do_responseLabel c))]"
| "content_js (Questionnaire c) = JObj
     [(''instructions'', opt_js JStr (qu_instructions c)), (''passingPercent'', JInt (qu_passingPercent c)),
      (''questions'', JArr (map question_js (qu_questions c))),
      (''resultDisclosure'', JStr (qu_resultDisclosure c))]"
| "content_js (External_media c) = media_content_js c"

fun destination_js :: "destination \<Rightarrow> js" where
  "destination_js None = JNull"
| "destination_js (Some i) = JStr i"

definition branch_js :: "branch \<Rightarrow> js" where
  "branch_js b = JObj [(''to'', destination_js (br_to b)), (''when'', JObj [(''equals'', JStr (br_equals b))])]"

definition activity_js :: "activity \<Rightarrow> js" where
  "activity_js a = JObj
     [(''content'', content_js (a_content a)), (''contractVersion'', JInt (a_contractVersion a)),
      (''id'', JStr (a_id a)), (''instructions'', opt_js JStr (a_instructions a)),
      (''responseMode'', JStr (a_responseMode a)), (''title'', JStr (a_title a)),
      (''transition'', JObj [(''cases'', JArr (map branch_js (a_cases a))),
                             (''defaultTo'', opt_js destination_js (a_defaultTo a))]),
      (''type'', JStr (activity_type (a_content a)))]"

end
