(* ===== verification/Workflow.thy ===== *)
theory Workflow
  imports Documents Normalizer
begin

text \<open>
  Workflow drafts, routing, roles and authentication assurance:
  \<^verbatim>\<open>src/packages/engine-domain/workflow.mjs\<close>. Branches may only move forward, so that
  \<open>evaluateNextActivity\<close> walks a validated workflow to its end.
\<close>

section \<open>Roles\<close>

definition TENANT_ROLES :: "string list" where
  "TENANT_ROLES = [''owner'', ''manager'', ''author'', ''auditor'']"

definition ROLE_PERMISSIONS :: "(string \<times> string list) list" where
  "ROLE_PERMISSIONS =
     [(''owner'', [''artifact.manage'', ''artifact.read'', ''data_request.review'', ''integration.manage'',
        ''lifecycle.manage'', ''lifecycle.read'', ''member.manage'', ''quota.read'', ''record.read'',
        ''request.manage'', ''tenant.configure'', ''workflow.manage'']),
      (''manager'', [''artifact.manage'', ''artifact.read'', ''data_request.review'', ''lifecycle.manage'',
        ''lifecycle.read'', ''quota.read'', ''record.read'', ''request.manage'', ''workflow.manage'']),
      (''author'', [''artifact.manage'', ''artifact.read'', ''quota.read'', ''workflow.manage'']),
      (''auditor'', [''artifact.read'', ''lifecycle.read'', ''quota.read'', ''record.read''])]"

definition role_permissions :: "string \<Rightarrow> string list" where
  "role_permissions role = (case map_of ROLE_PERMISSIONS role of Some ps \<Rightarrow> ps | None \<Rightarrow> [])"

definition permissionsForRoles :: "string list \<Rightarrow> string list" where
  "permissionsForRoles roles = sort (uniq (concat (map role_permissions roles)))"

definition hasTenantPermission :: "string list \<Rightarrow> string \<Rightarrow> bool" where
  "hasTenantPermission roles permission = (permission \<in> set (permissionsForRoles roles))"

section \<open>Helpers\<close>

abbreviation invalid :: "reason \<Rightarrow> 'a res" where
  "invalid r \<equiv> throw INVALID_WORKFLOW r"

abbreviation strictObject :: "js \<Rightarrow> string \<Rightarrow> string list \<Rightarrow> js res" where
  "strictObject v name allowedKeys \<equiv> strict_object INVALID_WORKFLOW v name allowedKeys"

abbreviation boundedString :: "js \<Rightarrow> string \<Rightarrow> nat \<Rightarrow> nat \<Rightarrow> string res" where
  "boundedString v field lo hi \<equiv> bounded_string INVALID_WORKFLOW v field lo hi"

abbreviation optionalString :: "js \<Rightarrow> string \<Rightarrow> nat \<Rightarrow> string option res" where
  "optionalString v field hi \<equiv> optional_string INVALID_WORKFLOW v field hi"

definition optionalSafeInteger :: "js \<Rightarrow> string \<Rightarrow> int \<Rightarrow> int \<Rightarrow> int option res" where
  "optionalSafeInteger v field minimum maximum =
     (if nullish v then Inr None
      else bindE (whole_number INVALID_WORKFLOW v field minimum maximum) (\<lambda>n. Inr (Some n)))"

definition email :: "js \<Rightarrow> string res" where
  "email v =
     bindE (boundedString v ''email'' 3 320) (\<lambda>raw.
     let result = js_lower raw in
     guardE (email_shape result) INVALID_WORKFLOW (Because ''email address'') (Inr result))"

definition optionalDate :: "runtime \<Rightarrow> js \<Rightarrow> string \<Rightarrow> int option res" where
  "optionalDate R v field =
     (if absent v then Inr None
      else case new_Date R v of None \<Rightarrow> invalid (BadFormat field) | Some t \<Rightarrow> Inr (Some t))"

definition dateOrDefault :: "runtime \<Rightarrow> js \<Rightarrow> int \<Rightarrow> string \<Rightarrow> int res" where
  "dateOrDefault R v fallback field = bindE (optionalDate R v field) (\<lambda>d. Inr (or_default fallback d))"

section \<open>Authentication assurance\<close>

definition AUTHENTICATION_ASSURANCE_METHODS :: "string list" where
  "AUTHENTICATION_ASSURANCE_METHODS = [''any_verified'', ''federated'', ''password'', ''email_verification'']"

record auth_policy =
  au_acceptedMethods :: "string list"
  au_maximumAgeSeconds :: "int option"

definition DEFAULT_AUTHENTICATION_ASSURANCE :: auth_policy where
  "DEFAULT_AUTHENTICATION_ASSURANCE = \<lparr>au_acceptedMethods = [''any_verified''], au_maximumAgeSeconds = None\<rparr>"

definition normalizeAuthenticationAssurance :: "js \<Rightarrow> auth_policy res" where
  "normalizeAuthenticationAssurance v =
     (if nullish v then Inr DEFAULT_AUTHENTICATION_ASSURANCE
      else bindE (strictObject v ''authentication assurance'' [''acceptedMethods'', ''maximumAgeSeconds'']) (\<lambda>input.
        case as_arr (coalesce (get input ''acceptedMethods'') (JArr [JStr ''any_verified''])) of
          None \<Rightarrow> invalid (Because ''accepted methods'')
        | Some supplied \<Rightarrow>
            guardE (supplied \<noteq> [] \<and> length supplied \<le> length AUTHENTICATION_ASSURANCE_METHODS)
              INVALID_WORKFLOW (Because ''accepted methods'')
            (guardE (distinct supplied \<and> list_all (\<lambda>m. m \<in> JStr ` set AUTHENTICATION_ASSURANCE_METHODS) supplied \<and>
                     (JStr ''any_verified'' \<in> set supplied \<longrightarrow> length supplied = 1))
               INVALID_WORKFLOW (Because ''authentication-assurance methods'')
             (bindE (optionalSafeInteger (get input ''maximumAgeSeconds'') ''maximumAgeSeconds'' 300 2592000) (\<lambda>age.
              Inr \<lparr>au_acceptedMethods = filter (\<lambda>m. JStr m \<in> set supplied) AUTHENTICATION_ASSURANCE_METHODS,
                   au_maximumAgeSeconds = age\<rparr>)))))"

definition auth_policy_js :: "auth_policy \<Rightarrow> js" where
  "auth_policy_js p = JObj [(''acceptedMethods'', JArr (map JStr (au_acceptedMethods p))),
     (''maximumAgeSeconds'', case au_maximumAgeSeconds p of None \<Rightarrow> JNull | Some n \<Rightarrow> JInt n)]"

definition authenticationAssurancePolicy :: "js \<Rightarrow> auth_policy res" where
  "authenticationAssurancePolicy access =
     (if nullish access then Inr DEFAULT_AUTHENTICATION_ASSURANCE
      else guardE (is_object access) INVALID_WORKFLOW (Because ''stored workflow access policy'')
             (normalizeAuthenticationAssurance (get access ''authenticationAssurance'')))"

definition boundedObservation :: "js \<Rightarrow> string option" where
  "boundedObservation v =
     (case as_str v of
        None \<Rightarrow> None
      | Some s \<Rightarrow> let t = js_trim s in if t \<noteq> [] \<and> length t \<le> 128 \<and> \<not> has_ctrl t then Some t else None)"

record observation =
  ob_authenticatedAt :: "string option"
  ob_method :: string
  ob_provenance :: "string option"
  ob_provider :: "string option"

record evaluation =
  ev_ageSeconds :: "int option"
  ev_evaluatedAt :: string
  ev_observation :: observation
  ev_policy :: auth_policy
  ev_reason :: "string option"
  ev_satisfied :: bool

text \<open>\<open>authenticatedAt\<close> counts when it is a whole number of seconds inside the range of dates.\<close>

definition authenticated_at :: "js \<Rightarrow> int option" where
  "authenticated_at actor =
     (case safe_int (get actor ''authenticatedAt'') of
        None \<Rightarrow> None
      | Some n \<Rightarrow> if valid_time (n * 1000) then Some n else None)"

definition evaluateAuthenticationAssurance :: "runtime \<Rightarrow> js \<Rightarrow> js \<Rightarrow> js \<Rightarrow> evaluation res" where
  "evaluateAuthenticationAssurance R policyValue actor evaluatedAt =
     bindE (normalizeAuthenticationAssurance policyValue) (\<lambda>policy.
     case new_Date R evaluatedAt of
       None \<Rightarrow> invalid (Because ''evaluation time'')
     | Some atMs \<Rightarrow>
         let auth = get actor ''authentication'';
             method = or_default ''session_unspecified'' (boundedObservation (get auth ''method''));
             authenticatedAt = authenticated_at actor;
             obs = \<lparr>ob_authenticatedAt = map_option (\<lambda>n. toISOString (n * 1000)) authenticatedAt,
                    ob_method = method, ob_provenance = boundedObservation (get auth ''provenance''),
                    ob_provider = boundedObservation (get auth ''provider'')\<rparr>;
             verdict = (\<lambda>age reason ok. \<lparr>ev_ageSeconds = age, ev_evaluatedAt = toISOString atMs, ev_observation = obs,
                          ev_policy = policy, ev_reason = reason, ev_satisfied = ok\<rparr>)
         in if \<not> (''any_verified'' \<in> set (au_acceptedMethods policy) \<or> method \<in> set (au_acceptedMethods policy))
            then Inr (verdict None (Some ''authentication_method_not_allowed'') False)
            else case au_maximumAgeSeconds policy of
              None \<Rightarrow> Inr (verdict None None True)
            | Some maximum \<Rightarrow>
                (case authenticatedAt of
                   None \<Rightarrow> Inr (verdict None (Some ''reauthentication_required'') False)
                 | Some t \<Rightarrow>
                     let age = atMs div 1000 - t
                     in if age < -60 \<or> age > maximum
                        then Inr (verdict (if age \<ge> 0 then Some age else None) (Some ''reauthentication_required'') False)
                        else Inr (verdict (Some (max 0 age)) None True)))"

section \<open>Workflow documents\<close>

definition POST_COMPLETION_ACCESS :: "string list" where
  "POST_COMPLETION_ACCESS = [''receipt_only'', ''content_until_expiration'', ''content_always'']"

record access_policy =
  ac_authentication :: string
  ac_assurance :: auth_policy
  ac_postCompletion :: string

record schedule_policy =
  sd_defaultDueDays :: int
  sd_defaultExpirationDays :: int

record notification_policy =
  np_onCompletion :: bool
  np_onIssue :: bool
  np_reminderHoursBeforeDue :: "int list"

record workflow_document =
  wd_access :: access_policy
  wd_activities :: "activity list"
  wd_assurance :: string
  wd_completion :: string
  wd_instructions :: "string option"
  wd_notifications :: notification_policy
  wd_purpose :: string
  wd_retention :: string
  wd_schedule :: schedule_policy
  wd_title :: string

definition normalizeAccess :: "js \<Rightarrow> access_policy res" where
  "normalizeAccess v =
     bindE (if v = JUndef then Inr (JObj [])
            else strictObject v ''access'' [''authentication'', ''authenticationAssurance'', ''postCompletion'']) (\<lambda>input.
     guardE (coalesce (get input ''authentication'') (JStr ''verified_email'') = JStr ''verified_email'')
       INVALID_WORKFLOW (Because ''verified-email participant access'')
     (case as_str (coalesce (get input ''postCompletion'') (JStr ''receipt_only'')) of
        None \<Rightarrow> invalid (Because ''post-completion access'')
      | Some pc \<Rightarrow>
          guardE (pc \<in> set POST_COMPLETION_ACCESS) INVALID_WORKFLOW (Because ''post-completion access'')
          (bindE (normalizeAuthenticationAssurance (get input ''authenticationAssurance'')) (\<lambda>assurance.
           Inr \<lparr>ac_authentication = ''verified_email'', ac_assurance = assurance, ac_postCompletion = pc\<rparr>))))"

definition normalizeCompletion :: "js \<Rightarrow> string res" where
  "normalizeCompletion v =
     bindE (if v = JUndef then Inr (JObj []) else strictObject v ''completion'' [''mode'']) (\<lambda>input.
     guardE (coalesce (get input ''mode'') (JStr ''terminal_activity'') = JStr ''terminal_activity'')
       INVALID_WORKFLOW (Because ''completion mode'') (Inr ''terminal_activity''))"

definition normalizeSchedule :: "js \<Rightarrow> schedule_policy res" where
  "normalizeSchedule v =
     bindE (if v = JUndef then Inr (JObj [])
            else strictObject v ''schedule'' [''defaultDueDays'', ''defaultExpirationDays'']) (\<lambda>input.
     bindE (optionalSafeInteger (get input ''defaultDueDays'') ''defaultDueDays'' 1 365) (\<lambda>due.
     let d = or_default 7 due in
     bindE (optionalSafeInteger (get input ''defaultExpirationDays'') ''defaultExpirationDays'' d 365) (\<lambda>expiry.
     Inr \<lparr>sd_defaultDueDays = d, sd_defaultExpirationDays = or_default (max d 14) expiry\<rparr>)))"

definition normalizeNotifications :: "js \<Rightarrow> notification_policy res" where
  "normalizeNotifications v =
     bindE (if v = JUndef then Inr (JObj [])
            else strictObject v ''notifications'' [''onCompletion'', ''onIssue'', ''reminderHoursBeforeDue'']) (\<lambda>input.
     case as_arr (coalesce (get input ''reminderHoursBeforeDue'') (JArr [JInt 24])) of
       None \<Rightarrow> invalid (Because ''reminder offsets'')
     | Some offsets \<Rightarrow>
         guardE (length offsets \<le> 8) INVALID_WORKFLOW (Because ''reminder offsets'')
         (bindE (mapE (\<lambda>x. whole_number INVALID_WORKFLOW x ''reminder'' 1 8760) offsets) (\<lambda>hours.
          Inr \<lparr>np_onCompletion = (get input ''onCompletion'' \<noteq> JBool False),
               np_onIssue = (get input ''onIssue'' \<noteq> JBool False),
               np_reminderHoursBeforeDue = rev (sort (uniq hours))\<rparr>)))"

definition normalizeNamedProfile :: "js \<Rightarrow> string \<Rightarrow> string \<Rightarrow> string res" where
  "normalizeNamedProfile v name fallback =
     bindE (if v = JUndef then Inr (JObj []) else strictObject v name [''profile'']) (\<lambda>input.
     bindE (optionalString (get input ''profile'') name 128) (\<lambda>p. Inr (or_default fallback p)))"

fun index_of :: "string \<Rightarrow> activity list \<Rightarrow> nat option" where
  "index_of i [] = None"
| "index_of i (a # as) = (if a_id a = i then Some 0 else map_option Suc (index_of i as))"

definition validateForwardDestination :: "destination \<Rightarrow> nat \<Rightarrow> activity list \<Rightarrow> unit res" where
  "validateForwardDestination dest index activities =
     (case dest of
        None \<Rightarrow> Inr ()
      | Some d \<Rightarrow>
          (case index_of d activities of
             None \<Rightarrow> invalid (Because ''unknown workflow destination'')
           | Some j \<Rightarrow> guardE (index < j) INVALID_WORKFLOW (Because ''branches must move forward'') (Inr ())))"

fun check_cases :: "string list \<Rightarrow> string list \<Rightarrow> nat \<Rightarrow> activity list \<Rightarrow> branch list \<Rightarrow> unit res" where
  "check_cases allowed seen index activities [] = Inr ()"
| "check_cases allowed seen index activities (b # bs) =
     guardE (br_equals b \<in> set allowed \<and> br_equals b \<notin> set seen) INVALID_WORKFLOW (Because ''branch response'')
     (bindE (validateForwardDestination (br_to b) index activities) (\<lambda>_.
      check_cases allowed (br_equals b # seen) index activities bs))"

definition validateTransition :: "activity list \<Rightarrow> nat \<Rightarrow> activity \<Rightarrow> unit res" where
  "validateTransition activities index a =
     bindE (check_cases (branchValuesForActivity a) [] index activities (a_cases a)) (\<lambda>_.
     case a_defaultTo a of
       Some (Some d) \<Rightarrow> validateForwardDestination (Some d) index activities
     | _ \<Rightarrow> Inr ())"

definition workflow_js :: "workflow_document \<Rightarrow> js" where
  "workflow_js d = JObj
     [(''access'', JObj [(''authentication'', JStr (ac_authentication (wd_access d))),
         (''authenticationAssurance'', auth_policy_js (ac_assurance (wd_access d))),
         (''postCompletion'', JStr (ac_postCompletion (wd_access d)))]),
      (''activities'', JArr (map activity_js (wd_activities d))),
      (''assurance'', JObj [(''profile'', JStr (wd_assurance d))]),
      (''completion'', JObj [(''mode'', JStr (wd_completion d))]),
      (''instructions'', opt_js JStr (wd_instructions d)),
      (''notifications'', JObj [(''onCompletion'', JBool (np_onCompletion (wd_notifications d))),
         (''onIssue'', JBool (np_onIssue (wd_notifications d))),
         (''reminderHoursBeforeDue'', JArr (map JInt (np_reminderHoursBeforeDue (wd_notifications d))))]),
      (''purpose'', JStr (wd_purpose d)), (''retention'', JObj [(''profile'', JStr (wd_retention d))]),
      (''schedule'', JObj [(''defaultDueDays'', JInt (sd_defaultDueDays (wd_schedule d))),
         (''defaultExpirationDays'', JInt (sd_defaultExpirationDays (wd_schedule d)))]),
      (''schema'', JStr ''vasi-workflow/v1''), (''title'', JStr (wd_title d))]"

definition validateWorkflowDraft :: "runtime \<Rightarrow> (string \<Rightarrow> string) \<Rightarrow> js \<Rightarrow> (workflow_document \<times> string) res" where
  "validateWorkflowDraft R H v =
     bindE (strictObject v ''workflow''
       [''access'', ''activities'', ''assurance'', ''completion'', ''instructions'', ''notifications'',
        ''purpose'', ''retention'', ''schedule'', ''schema'', ''title'']) (\<lambda>input.
     guardE (get input ''schema'' = JUndef \<or> get input ''schema'' = JStr ''vasi-workflow/v1'')
       INVALID_WORKFLOW (Because ''workflow schema'')
     (case as_arr (get input ''activities'') of
        None \<Rightarrow> invalid (Because ''1 to 50 activities'')
      | Some acts \<Rightarrow>
          guardE (1 \<le> length acts \<and> length acts \<le> 50) INVALID_WORKFLOW (Because ''1 to 50 activities'')
          (bindE (imapE (normalizeActivityDefinition R) 0 acts) (\<lambda>activities.
           guardE (length (uniq (map a_id activities)) = length activities) INVALID_WORKFLOW (Because ''activity IDs unique'')
           (bindE (imapE (validateTransition activities) 0 activities) (\<lambda>_.
            bindE (normalizeAccess (get input ''access'')) (\<lambda>access.
            bindE (normalizeNamedProfile (get input ''assurance'') ''assurance'' ''vasi-integrity-seal/v1'') (\<lambda>assurance.
            bindE (normalizeCompletion (get input ''completion'')) (\<lambda>completion.
            bindE (optionalString (get input ''instructions'') ''instructions'' 4000) (\<lambda>instructions.
            bindE (normalizeNotifications (get input ''notifications'')) (\<lambda>notifications.
            bindE (boundedString (get input ''purpose'') ''purpose'' 2 1000) (\<lambda>purpose.
            bindE (normalizeNamedProfile (get input ''retention'') ''retention'' ''tenant_default'') (\<lambda>retention.
            bindE (normalizeSchedule (get input ''schedule'')) (\<lambda>schedule.
            bindE (boundedString (get input ''title'') ''title'' 2 160) (\<lambda>title.
            let document = \<lparr>wd_access = access, wd_activities = activities, wd_assurance = assurance,
                  wd_completion = completion, wd_instructions = instructions, wd_notifications = notifications,
                  wd_purpose = purpose, wd_retention = retention, wd_schedule = schedule, wd_title = title\<rparr>
            in bindE (hashCanonicalJSON H (workflow_js document)) (\<lambda>h. Inr (document, h)))))))))))))))))"

section \<open>Routing\<close>

definition branch_value :: "js \<Rightarrow> js" where
  "branch_value response = (if is_object response then get response ''outcome'' else response)"

definition evaluateNextActivity :: "activity list \<Rightarrow> string \<Rightarrow> js \<Rightarrow> destination res" where
  "evaluateNextActivity activities currentActivityId response =
     (case index_of currentActivityId activities of
        None \<Rightarrow> invalid (Because ''current workflow activity'')
      | Some index \<Rightarrow>
          let a = activities ! index in
          (case find (\<lambda>b. JStr (br_equals b) = branch_value response) (a_cases a) of
             Some b \<Rightarrow> Inr (br_to b)
           | None \<Rightarrow>
               (case a_defaultTo a of
                  Some d \<Rightarrow> Inr d
                | None \<Rightarrow> Inr (if Suc index < length activities then Some (a_id (activities ! Suc index)) else None))))"

section \<open>Commands\<close>

record membership =
  mb_email :: string
  mb_roles :: "string list"
  mb_status :: string
  mb_tenantId :: string

definition validateMembershipInput :: "js \<Rightarrow> membership res" where
  "validateMembershipInput v =
     bindE (strictObject v ''membership'' [''email'', ''roles'', ''status'', ''tenantId'']) (\<lambda>input.
     case as_arr (get input ''roles'') of
       None \<Rightarrow> invalid (Because ''company role required'')
     | Some rs \<Rightarrow>
         guardE (rs \<noteq> [] \<and> length rs \<le> length TENANT_ROLES) INVALID_WORKFLOW (Because ''company role required'')
         (bindE (mapE (\<lambda>r. boundedString r ''role'' 1 32) rs) (\<lambda>names.
          let roles = sort (uniq names) in
          guardE (list_all (\<lambda>r. r \<in> set TENANT_ROLES) roles) INVALID_WORKFLOW (Because ''company role'')
          (case as_str (coalesce (get input ''status'') (JStr ''active'')) of
             None \<Rightarrow> invalid (Because ''membership status'')
           | Some status \<Rightarrow>
               guardE (status \<in> set [''active'', ''disabled'']) INVALID_WORKFLOW (Because ''membership status'')
               (bindE (email (get input ''email'')) (\<lambda>address.
                bindE (boundedString (get input ''tenantId'') ''tenantId'' 1 128) (\<lambda>tenantId.
                Inr \<lparr>mb_email = address, mb_roles = roles, mb_status = status, mb_tenantId = tenantId\<rparr>)))))))"

record workflow_mutation =
  wm_definitionId :: "string option"
  wm_document :: "(workflow_document \<times> string) option"
  wm_expectedDraftVersion :: "int option"
  wm_name :: "string option"
  wm_tenantId :: string

definition validateWorkflowMutation :: "runtime \<Rightarrow> (string \<Rightarrow> string) \<Rightarrow> js \<Rightarrow> workflow_mutation res" where
  "validateWorkflowMutation R H v =
     bindE (strictObject v ''workflow command''
       [''definitionId'', ''document'', ''expectedDraftVersion'', ''name'', ''tenantId'']) (\<lambda>input.
     bindE (optionalString (get input ''definitionId'') ''definitionId'' 128) (\<lambda>definitionId.
     bindE (if get input ''document'' = JUndef then Inr None
            else bindE (validateWorkflowDraft R H (get input ''document'')) (\<lambda>d. Inr (Some d))) (\<lambda>document.
     bindE (optionalSafeInteger (get input ''expectedDraftVersion'') ''expectedDraftVersion'' 1 MAX_SAFE_INTEGER) (\<lambda>ver.
     bindE (optionalString (get input ''name'') ''name'' 160) (\<lambda>name.
     bindE (boundedString (get input ''tenantId'') ''tenantId'' 1 128) (\<lambda>tenantId.
     Inr \<lparr>wm_definitionId = definitionId, wm_document = document, wm_expectedDraftVersion = ver,
          wm_name = name, wm_tenantId = tenantId\<rparr>))))))"

record published_issue =
  pi_dueAt :: "int option"
  pi_expiresAt :: "int option"
  pi_intendedEmail :: string
  pi_scheduledFor :: int
  pi_tenantId :: string
  pi_workflowRevisionId :: string

definition validatePublishedIssueInput :: "runtime \<Rightarrow> js \<Rightarrow> int \<Rightarrow> published_issue res" where
  "validatePublishedIssueInput R v now =
     bindE (strictObject v ''published request''
       [''dueAt'', ''expiresAt'', ''intendedEmail'', ''scheduledFor'', ''tenantId'', ''workflowRevisionId'']) (\<lambda>input.
     bindE (dateOrDefault R (get input ''scheduledFor'') now ''scheduledFor'') (\<lambda>scheduledFor.
     bindE (optionalDate R (get input ''dueAt'') ''dueAt'') (\<lambda>dueAt.
     bindE (optionalDate R (get input ''expiresAt'') ''expiresAt'') (\<lambda>expiresAt.
     guardE (\<not> (case dueAt of Some d \<Rightarrow> d \<le> scheduledFor | None \<Rightarrow> False)) INVALID_WORKFLOW (Because ''due date'')
     (guardE (\<not> (case expiresAt of Some e \<Rightarrow> e \<le> scheduledFor | None \<Rightarrow> False)) INVALID_WORKFLOW (Because ''expiration'')
      (guardE (\<not> (case (dueAt, expiresAt) of (Some d, Some e) \<Rightarrow> e < d | _ \<Rightarrow> False)) INVALID_WORKFLOW (Because ''expiration before due'')
       (guardE (scheduledFor \<le> now + 365 * DAY_MS) INVALID_WORKFLOW (Because ''one year ahead'')
        (bindE (email (get input ''intendedEmail'')) (\<lambda>intendedEmail.
         bindE (boundedString (get input ''tenantId'') ''tenantId'' 1 128) (\<lambda>tenantId.
         bindE (boundedString (get input ''workflowRevisionId'') ''workflowRevisionId'' 1 128) (\<lambda>revisionId.
         Inr \<lparr>pi_dueAt = dueAt, pi_expiresAt = expiresAt, pi_intendedEmail = intendedEmail,
              pi_scheduledFor = scheduledFor, pi_tenantId = tenantId, pi_workflowRevisionId = revisionId\<rparr>)))))))))))"

record request_action =
  ra_action :: string
  ra_commandId :: string
  ra_requestId :: string
  ra_tenantId :: string

definition validateRequestAction :: "js \<Rightarrow> request_action res" where
  "validateRequestAction v =
     bindE (strictObject v ''request action'' [''action'', ''commandId'', ''requestId'', ''tenantId'']) (\<lambda>input.
     bindE (boundedString (get input ''action'') ''action'' 1 32) (\<lambda>action.
     guardE (action \<in> set [''remind'', ''reissue'', ''revoke'']) INVALID_WORKFLOW (Because ''request action'')
     (bindE (boundedString (get input ''commandId'') ''commandId'' 1 128) (\<lambda>commandId.
      bindE (boundedString (get input ''requestId'') ''requestId'' 1 128) (\<lambda>requestId.
      bindE (boundedString (get input ''tenantId'') ''tenantId'' 1 128) (\<lambda>tenantId.
      Inr \<lparr>ra_action = action, ra_commandId = commandId, ra_requestId = requestId, ra_tenantId = tenantId\<rparr>))))))"

section \<open>Routing moves forward\<close>

definition forward :: "nat \<Rightarrow> activity list \<Rightarrow> destination \<Rightarrow> bool" where
  "forward i acts d = (case d of None \<Rightarrow> True | Some x \<Rightarrow> \<exists>j. index_of x acts = Some j \<and> i < j)"

definition well_routed :: "activity list \<Rightarrow> bool" where
  "well_routed acts =
     (distinct (map a_id acts) \<and>
      (\<forall>i < length acts. distinct (map br_equals (a_cases (acts ! i))) \<and>
         (\<forall>b \<in> set (a_cases (acts ! i)). br_equals b \<in> set (branchValuesForActivity (acts ! i)) \<and> forward i acts (br_to b)) \<and>
         (\<forall>d. a_defaultTo (acts ! i) = Some d \<longrightarrow> forward i acts d)))"

lemma index_of_Some: "index_of i acts = Some j \<Longrightarrow> j < length acts \<and> a_id (acts ! j) = i"
  by (induction acts arbitrary: j) (auto split: if_splits)

lemma index_of_nth: "distinct (map a_id acts) \<Longrightarrow> j < length acts \<Longrightarrow> index_of (a_id (acts ! j)) acts = Some j"
  by (induction acts arbitrary: j) (auto simp: nth_Cons split: nat.splits)

lemma validateForwardDestination_ok: "validateForwardDestination d i acts = Inr u \<longleftrightarrow> forward i acts d"
  by (auto simp: validateForwardDestination_def forward_def res_simps split: option.splits)

lemma check_cases_ok:
  "check_cases allowed seen i acts bs = Inr u \<Longrightarrow>
     distinct (map br_equals bs) \<and> set (map br_equals bs) \<inter> set seen = {} \<and>
     (\<forall>b \<in> set bs. br_equals b \<in> set allowed \<and> forward i acts (br_to b))"
proof (induction bs arbitrary: seen)
  case (Cons b bs)
  from Cons.prems have "br_equals b \<in> set allowed" "br_equals b \<notin> set seen" "forward i acts (br_to b)"
      "check_cases allowed (br_equals b # seen) i acts bs = Inr u"
    by (auto simp: res_simps validateForwardDestination_ok)
  with Cons.IH[of "br_equals b # seen"] show ?case by auto
qed simp

lemma validateTransition_ok:
  assumes "validateTransition acts i a = Inr u"
  shows "distinct (map br_equals (a_cases a)) \<and>
    (\<forall>b \<in> set (a_cases a). br_equals b \<in> set (branchValuesForActivity a) \<and> forward i acts (br_to b)) \<and>
    (\<forall>d. a_defaultTo a = Some d \<longrightarrow> forward i acts d)"
  using assms check_cases_ok[of "branchValuesForActivity a" "[]" i acts "a_cases a" "()"]
  by (auto simp: validateTransition_def res_simps validateForwardDestination_ok forward_def split: option.splits)

lemma validateWorkflowDraft_parts:
  assumes "validateWorkflowDraft R H v = Inr (doc, h)"
  shows "\<exists>xs us. 1 \<le> length xs \<and> length xs \<le> 50 \<and>
    imapE (normalizeActivityDefinition R) 0 xs = Inr (wd_activities doc) \<and>
    length (uniq (map a_id (wd_activities doc))) = length (wd_activities doc) \<and>
    imapE (validateTransition (wd_activities doc)) 0 (wd_activities doc) = Inr us \<and>
    (\<exists>w. normalizeSchedule w = Inr (wd_schedule doc)) \<and>
    hashCanonicalJSON H (workflow_js doc) = Inr h"
  using assms unfolding validateWorkflowDraft_def Let_def
  by (elim res_elims, simp only: sum.inject prod.inject, elim conjE, hypsubst, simp only: workflow_document.simps, blast)

lemma draft_well_routed: "validateWorkflowDraft R H v = Inr (doc, h) \<Longrightarrow> well_routed (wd_activities doc) \<and> wd_activities doc \<noteq> []"
proof -
  assume "validateWorkflowDraft R H v = Inr (doc, h)"
  from validateWorkflowDraft_parts[OF this] obtain xs us where *: "1 \<le> length xs" "length (uniq (map a_id (wd_activities doc))) = length (wd_activities doc)"
    "imapE (normalizeActivityDefinition R) 0 xs = Inr (wd_activities doc)"
    "imapE (validateTransition (wd_activities doc)) 0 (wd_activities doc) = Inr us" by blast
  have "distinct (map a_id (wd_activities doc))" using *(2) length_uniq_eq by fastforce
  moreover have "\<forall>i < length (wd_activities doc). validateTransition (wd_activities doc) i (wd_activities doc ! i) = Inr (us ! i)"
    using *(4) by (simp add: imapE_Inr)
  ultimately show ?thesis
    using validateTransition_ok imapE_length[OF *(3)] *(1) by (fastforce simp: well_routed_def)
qed

lemma next_forward:
  assumes "well_routed acts" "i < length acts"
    and "evaluateNextActivity acts (a_id (acts ! i)) resp = Inr d"
  shows "forward i acts d"
proof -
  let ?a = "acts ! i"
  have idx: "index_of (a_id ?a) acts = Some i" using assms index_of_nth by (auto simp: well_routed_def)
  show ?thesis
  proof (cases "find (\<lambda>b. JStr (br_equals b) = branch_value resp) (a_cases ?a)")
    case (Some b)
    then have "b \<in> set (a_cases ?a)" by (auto simp: find_Some_iff)
    then show ?thesis using assms Some idx by (auto simp: evaluateNextActivity_def well_routed_def)
  next
    case None
    have "index_of (a_id (acts ! Suc i)) acts = Some (Suc i)" if "Suc i < length acts"
      using assms(1) that index_of_nth by (auto simp: well_routed_def)
    then show ?thesis
      using assms None idx
      by (auto simp: evaluateNextActivity_def well_routed_def forward_def split: option.splits if_splits)
  qed
qed

lemma next_defined:
  "distinct (map a_id acts) \<Longrightarrow> i < length acts \<Longrightarrow> \<exists>d. evaluateNextActivity acts (a_id (acts ! i)) resp = Inr d"
  by (auto simp: evaluateNextActivity_def index_of_nth Let_def split: option.split)

text \<open>A participant's path: from an activity, the activities reached by the responses given.\<close>

fun walk :: "nat \<Rightarrow> activity list \<Rightarrow> (string \<Rightarrow> js) \<Rightarrow> string \<Rightarrow> string list option" where
  "walk 0 acts resp cur = None"
| "walk (Suc n) acts resp cur =
     (case evaluateNextActivity acts cur (resp cur) of
        Inl _ \<Rightarrow> None
      | Inr None \<Rightarrow> Some [cur]
      | Inr (Some nx) \<Rightarrow> map_option (Cons cur) (walk n acts resp nx))"

definition position :: "activity list \<Rightarrow> string \<Rightarrow> nat" where
  "position acts x = (case index_of x acts of Some j \<Rightarrow> j | None \<Rightarrow> length acts)"

lemma walk_ends:
  assumes "well_routed acts" "i < length acts" "length acts - i \<le> n"
  shows "\<exists>path. walk n acts resp (a_id (acts ! i)) = Some path \<and> path \<noteq> [] \<and> hd path = a_id (acts ! i) \<and>
    sorted_wrt (\<lambda>x y. position acts x < position acts y) path \<and> set path \<subseteq> set (map a_id acts) \<and>
    (\<forall>x \<in> set path. i \<le> position acts x)"
  using assms(2,3)
proof (induction n arbitrary: i)
  case (Suc n)
  have dis: "distinct (map a_id acts)" using assms(1) by (simp add: well_routed_def)
  have pos: "position acts (a_id (acts ! i)) = i" using dis Suc.prems by (simp add: position_def index_of_nth)
  obtain d where d: "evaluateNextActivity acts (a_id (acts ! i)) (resp (a_id (acts ! i))) = Inr d"
    using next_defined[OF dis Suc.prems(1)] by blast
  show ?case
  proof (cases d)
    case None
    then show ?thesis using d pos Suc.prems by auto
  next
    case (Some nx)
    with next_forward[OF assms(1) Suc.prems(1) d] obtain j where j: "index_of nx acts = Some j" "i < j"
      by (auto simp: forward_def)
    then have j': "j < length acts" "a_id (acts ! j) = nx" using index_of_Some by auto
    have "length acts - j \<le> n" using j(2) j'(1) Suc.prems by linarith
    then obtain path where p: "walk n acts resp nx = Some path" "path \<noteq> []" "hd path = nx"
        "sorted_wrt (\<lambda>x y. position acts x < position acts y) path" "set path \<subseteq> set (map a_id acts)"
        "\<forall>x \<in> set path. j \<le> position acts x"
      using Suc.IH[of j] j' by auto
    then show ?thesis using d Some pos Suc.prems j(2) by (fastforce intro!: exI[of _ "a_id (acts ! i) # path"])
  qed
qed simp

section \<open>Stored assurance policies\<close>

definition auth_policy_ok :: "auth_policy \<Rightarrow> bool" where
  "auth_policy_ok p =
     (au_acceptedMethods p \<noteq> [] \<and>
      au_acceptedMethods p = filter (\<lambda>m. m \<in> set (au_acceptedMethods p)) AUTHENTICATION_ASSURANCE_METHODS \<and>
      (''any_verified'' \<in> set (au_acceptedMethods p) \<longrightarrow> length (au_acceptedMethods p) = 1) \<and>
      (\<forall>n. au_maximumAgeSeconds p = Some n \<longrightarrow> 300 \<le> n \<and> n \<le> 2592000))"

lemma methods_distinct: "distinct AUTHENTICATION_ASSURANCE_METHODS"
  by (simp add: AUTHENTICATION_ASSURANCE_METHODS_def)

lemma optionalSafeInteger_Inr [res_simps]:
  "optionalSafeInteger v f lo hi = Inr r \<longleftrightarrow>
     (nullish v \<and> r = None) \<or> (\<exists>n. r = Some n \<and> v = JInt n \<and> \<bar>n\<bar> \<le> MAX_SAFE_INTEGER \<and> lo \<le> n \<and> n \<le> hi)"
  by (auto simp: optionalSafeInteger_def res_simps nullish_def)

lemma filtered_length:
  assumes "distinct xs" "set xs \<subseteq> JStr ` set ms" "distinct ms"
  shows "length (filter (\<lambda>m. JStr m \<in> set xs) ms) = length xs"
proof -
  have "length (filter (\<lambda>m. JStr m \<in> set xs) ms) = card (set (filter (\<lambda>m. JStr m \<in> set xs) ms))"
    using assms(3) by (metis distinct_card distinct_filter)
  also have "\<dots> = card (JStr ` set (filter (\<lambda>m. JStr m \<in> set xs) ms))"
    by (intro card_image[symmetric]) (simp add: inj_on_def)
  also have "JStr ` set (filter (\<lambda>m. JStr m \<in> set xs) ms) = set xs" using assms(2) by auto
  finally show ?thesis using assms(1) by (simp add: distinct_card)
qed

lemma normalizeAuthenticationAssurance_ok:
  assumes "normalizeAuthenticationAssurance v = Inr p"
  shows "auth_policy_ok p"
proof (cases "nullish v")
  case True
  then show ?thesis
    using assms by (auto simp: normalizeAuthenticationAssurance_def DEFAULT_AUTHENTICATION_ASSURANCE_def
        auth_policy_ok_def AUTHENTICATION_ASSURANCE_METHODS_def)
next
  case False
  let ?ms = AUTHENTICATION_ASSURANCE_METHODS
  from assms False obtain xs a age where x: "xs \<noteq> []" "distinct xs" "list_all (\<lambda>m. m \<in> JStr ` set ?ms) xs"
      "JStr ''any_verified'' \<in> set xs \<longrightarrow> length xs = 1"
      "optionalSafeInteger a ''maximumAgeSeconds'' 300 2592000 = Inr age"
    and p: "p = \<lparr>au_acceptedMethods = filter (\<lambda>m. JStr m \<in> set xs) ?ms, au_maximumAgeSeconds = age\<rparr>"
    unfolding normalizeAuthenticationAssurance_def by (simp only: if_False) (elim res_elims, blast)
  have sub: "set xs \<subseteq> JStr ` set ?ms" using x(3) by (auto simp: list_all_iff)
  have len: "length (filter (\<lambda>m. JStr m \<in> set xs) ?ms) = length xs"
    by (rule filtered_length[OF x(2) sub methods_distinct])
  have "filter (\<lambda>m. JStr m \<in> set xs) ?ms =
      filter (\<lambda>m. m \<in> set (filter (\<lambda>m. JStr m \<in> set xs) ?ms)) ?ms"
    by (rule filter_cong) auto
  moreover have "length xs > 0" using x(1) by simp
  then have "filter (\<lambda>m. JStr m \<in> set xs) ?ms \<noteq> []" using len by (metis length_greater_0_conv)
  moreover have "''any_verified'' \<in> set (filter (\<lambda>m. JStr m \<in> set xs) ?ms) \<longrightarrow>
      length (filter (\<lambda>m. JStr m \<in> set xs) ?ms) = 1"
    using x(4) len by simp
  ultimately show ?thesis
    using x(5) unfolding auth_policy_ok_def p by (auto simp: res_simps nullish_def simp del: set_filter filter_empty_conv filter.simps)
qed

lemma normalizeAuthenticationAssurance_encode:
  assumes "auth_policy_ok p"
  shows "normalizeAuthenticationAssurance (auth_policy_js p) = Inr p"
proof -
  let ?ms = AUTHENTICATION_ASSURANCE_METHODS and ?a = "au_acceptedMethods p"
  have eq: "filter (\<lambda>m. m \<in> set ?a) ?ms = ?a" using assms by (simp add: auth_policy_ok_def)
  have "distinct ?a" by (metis eq distinct_filter methods_distinct)
  moreover have "set ?a \<subseteq> set ?ms" by (metis eq filter_is_subset)
  moreover have "length ?a \<le> length ?ms" by (metis eq length_filter_le)
  moreover have "filter (\<lambda>m. JStr m \<in> JStr ` set ?a) ?ms = ?a"
    using eq by (simp add: image_iff)
  moreover have "optionalSafeInteger (case au_maximumAgeSeconds p of None \<Rightarrow> JNull | Some n \<Rightarrow> JInt n)
      ''maximumAgeSeconds'' 300 2592000 = Inr (au_maximumAgeSeconds p)"
    using assms by (auto simp: auth_policy_ok_def res_simps nullish_def MAX_SAFE_INTEGER_def split: option.split)
  ultimately show ?thesis
    using assms
    by (simp add: normalizeAuthenticationAssurance_def auth_policy_js_def nullish_def strict_object_JObj
        guardE_def distinct_map inj_on_def list_all_iff image_iff subset_iff auth_policy_ok_def)
qed

interpretation assurance: normalizer normalizeAuthenticationAssurance auth_policy_js
  by unfold_locales (blast intro: normalizeAuthenticationAssurance_encode normalizeAuthenticationAssurance_ok)

section \<open>Properties\<close>

text \<open>
  In a validated workflow every response leads forward: the next activity, if there is one,
  is an activity of the workflow placed strictly after the current one.
\<close>

theorem workflow_moves_forward:
  assumes "validateWorkflowDraft R H v = Inr (doc, h)" "i < length (wd_activities doc)"
  shows "\<exists>d. evaluateNextActivity (wd_activities doc) (a_id (wd_activities doc ! i)) resp = Inr d \<and>
    (\<forall>x. d = Some x \<longrightarrow> (\<exists>j. i < j \<and> j < length (wd_activities doc) \<and> a_id (wd_activities doc ! j) = x))"
proof -
  note w = draft_well_routed[OF assms(1)]
  then obtain d where d: "evaluateNextActivity (wd_activities doc) (a_id (wd_activities doc ! i)) resp = Inr d"
    using next_defined[OF _ assms(2)] unfolding well_routed_def by blast
  from next_forward[OF _ assms(2) d] w show ?thesis
    using d by (auto simp: forward_def dest!: index_of_Some)
qed

text \<open>
  C19. Whatever a participant answers, a validated workflow is finished after at most as many
  activities as it has, and no activity is visited twice.
\<close>

theorem workflow_terminates:
  assumes "validateWorkflowDraft R H v = Inr (doc, h)"
  shows "\<exists>path. walk (length (wd_activities doc)) (wd_activities doc) resp (a_id (wd_activities doc ! 0)) = Some path \<and>
    distinct path \<and> set path \<subseteq> set (map a_id (wd_activities doc))"
proof -
  from walk_ends[of "wd_activities doc" 0] draft_well_routed[OF assms] obtain path where
    p: "walk (length (wd_activities doc)) (wd_activities doc) resp (a_id (wd_activities doc ! 0)) = Some path"
      "sorted_wrt (\<lambda>x y. position (wd_activities doc) x < position (wd_activities doc) y) path"
      "set path \<subseteq> set (map a_id (wd_activities doc))" by fastforce
  have "distinct path" if "sorted_wrt (\<lambda>x y. f x < f y) path" for f :: "string \<Rightarrow> nat" and path
    using that by (induction path) auto
  then show ?thesis using p by blast
qed

text \<open>
  Authentication assurance is satisfied exactly when the observed method is accepted and,
  where the policy limits its age, a known sign-in happened at most that long ago (with at most a
  minute of clock skew into the future).
\<close>

theorem assurance_satisfied_iff:
  assumes "normalizeAuthenticationAssurance pv = Inr p" "new_Date R evaluatedAt = Some t"
    and "m = or_default ''session_unspecified'' (boundedObservation (get (get actor ''authentication'') ''method''))"
  shows "\<exists>e. evaluateAuthenticationAssurance R pv actor evaluatedAt = Inr e \<and> ev_policy e = p \<and>
    (ev_satisfied e \<longleftrightarrow>
       (''any_verified'' \<in> set (au_acceptedMethods p) \<or> m \<in> set (au_acceptedMethods p)) \<and>
       (\<forall>limit. au_maximumAgeSeconds p = Some limit \<longrightarrow>
          (\<exists>s. authenticated_at actor = Some s \<and> -60 \<le> t div 1000 - s \<and> t div 1000 - s \<le> limit))) \<and>
    (ev_reason e = None \<longleftrightarrow> ev_satisfied e)"
  using assms
  by (auto simp: evaluateAuthenticationAssurance_def Let_def split: option.splits)

text \<open>
  A stored assurance policy re-normalises to itself, lists at least one known method in the
  fixed order, and never combines \<open>any_verified\<close> with another method.
\<close>

theorem assurance_policy_stable:
  assumes "normalizeAuthenticationAssurance v = Inr p"
  shows "normalizeAuthenticationAssurance (auth_policy_js p) = Inr p \<and> au_acceptedMethods p \<noteq> [] \<and>
    set (au_acceptedMethods p) \<subseteq> set AUTHENTICATION_ASSURANCE_METHODS \<and>
    (''any_verified'' \<in> set (au_acceptedMethods p) \<longrightarrow> au_acceptedMethods p = [''any_verified''])"
proof -
  have ok: "auth_policy_ok p" by (rule normalizeAuthenticationAssurance_ok[OF assms])
  then have "set (au_acceptedMethods p) \<subseteq> set AUTHENTICATION_ASSURANCE_METHODS"
    unfolding auth_policy_ok_def by (metis filter_is_subset)
  moreover have "au_acceptedMethods p = [''any_verified'']" if "''any_verified'' \<in> set (au_acceptedMethods p)"
    using ok that by (cases "au_acceptedMethods p") (auto simp: auth_policy_ok_def)
  ultimately show ?thesis using assurance.stored_accepted[OF assms] ok by (simp add: auth_policy_ok_def)
qed

text \<open>
  The dates of an accepted request are ordered: it is due, and expires, after it is
  scheduled, never expires before it is due, and is scheduled at most a year ahead.
\<close>

theorem issue_dates_ordered:
  assumes "validatePublishedIssueInput R v now = Inr i"
  shows "(\<forall>d. pi_dueAt i = Some d \<longrightarrow> pi_scheduledFor i < d) \<and>
    (\<forall>e. pi_expiresAt i = Some e \<longrightarrow> pi_scheduledFor i < e) \<and>
    (\<forall>d e. pi_dueAt i = Some d \<longrightarrow> pi_expiresAt i = Some e \<longrightarrow> d \<le> e) \<and>
    pi_scheduledFor i \<le> now + 365 * DAY_MS"
  using assms unfolding validatePublishedIssueInput_def
  by (elim res_elims) (auto split: option.splits)

definition roles_with :: "string \<Rightarrow> string list" where
  "roles_with q = map fst (filter (\<lambda>rp. q \<in> set (snd rp)) ROLE_PERMISSIONS)"

lemma role_permissions_iff: "q \<in> set (role_permissions r) \<longleftrightarrow> r \<in> set (roles_with q)"
proof -
  have "distinct (map fst ROLE_PERMISSIONS)" by code_simp
  then have "map_of ROLE_PERMISSIONS r = Some ps \<longleftrightarrow> (r, ps) \<in> set ROLE_PERMISSIONS" for ps
    by (metis map_of_eq_Some_iff)
  then show ?thesis
    by (force simp: role_permissions_def roles_with_def split: option.split)
qed

lemma administrative_roles:
  "roles_with ''tenant.configure'' = [''owner'']" "roles_with ''member.manage'' = [''owner'']"
  "roles_with ''integration.manage'' = [''owner'']"
  by code_simp+

lemma auditor_permissions:
  "''auditor'' \<notin> set (roles_with ''artifact.manage'')" "''auditor'' \<notin> set (roles_with ''data_request.review'')"
  "''auditor'' \<notin> set (roles_with ''lifecycle.manage'')" "''auditor'' \<notin> set (roles_with ''request.manage'')"
  "''auditor'' \<notin> set (roles_with ''workflow.manage'')"
  by code_simp+

text \<open>
  A permission is held exactly through some role, the administrative permissions
  (\<open>tenant.configure\<close>, \<open>member.manage\<close>, \<open>integration.manage\<close>) only through \<open>owner\<close>, and an auditor
  holds no permission that manages anything.
\<close>

theorem permissions_by_role:
  "(hasTenantPermission roles p \<longleftrightarrow> (\<exists>r \<in> set roles. p \<in> set (role_permissions r))) \<and>
   (p \<in> {''tenant.configure'', ''member.manage'', ''integration.manage''} \<longrightarrow>
      hasTenantPermission roles p = (''owner'' \<in> set roles)) \<and>
   (p \<in> {''artifact.manage'', ''data_request.review'', ''lifecycle.manage'', ''request.manage'', ''workflow.manage''} \<longrightarrow>
      \<not> hasTenantPermission [''auditor''] p)"
proof -
  have all: "hasTenantPermission rs q \<longleftrightarrow> (\<exists>r \<in> set rs. r \<in> set (roles_with q))" for rs q
    by (simp add: hasTenantPermission_def permissionsForRoles_def role_permissions_iff)
  then show ?thesis
    unfolding role_permissions_iff all using administrative_roles auditor_permissions by auto
qed

theorem permissions_by_role_witness:
  "hasTenantPermission [''author'', ''owner''] ''member.manage'' \<and> \<not> hasTenantPermission [''auditor''] ''request.manage''"
  using permissions_by_role[of "[''author'', ''owner'']" "''member.manage''"]
    permissions_by_role[of "[]" "''request.manage''"] by auto

definition demo_free_form :: "string \<Rightarrow> js" where
  "demo_free_form i = JObj [(''type'', JStr ''free_form''), (''id'', JStr i), (''title'', JStr ''Text''),
     (''content'', JObj [(''prompt'', JStr ''Why?'')])]"

definition demo_draft :: js where
  "demo_draft = JObj [(''title'', JStr ''Training''), (''purpose'', JStr ''Yearly''),
     (''activities'', JArr [demo_free_form ''one'', demo_free_form ''two''])]"

definition demo_document :: workflow_document where
  "demo_document = (case validateWorkflowDraft demo_runtime id demo_draft of Inr (d, h) \<Rightarrow> d | Inl _ \<Rightarrow> undefined)"

lemma demo_draft_valid: "succeeds (validateWorkflowDraft demo_runtime id demo_draft)"
proof -
  have "(case validateWorkflowDraft demo_runtime id demo_draft of Inr _ \<Rightarrow> True | Inl _ \<Rightarrow> False)"
    by code_simp
  then show ?thesis by (auto simp: succeeds_def split: sum.splits)
qed

lemma demo_document_eq: "\<exists>h. validateWorkflowDraft demo_runtime id demo_draft = Inr (demo_document, h)"
  using demo_draft_valid by (auto simp: succeeds_def demo_document_def)

theorem workflow_terminates_witness:
  "\<exists>path. walk (length (wd_activities demo_document)) (wd_activities demo_document) (\<lambda>_. JStr ''x'')
     (a_id (wd_activities demo_document ! 0)) = Some path \<and> distinct path"
  using demo_document_eq workflow_terminates[of demo_runtime id demo_draft demo_document _ "\<lambda>_. JStr ''x''"] by blast

theorem workflow_moves_forward_witness:
  "\<exists>d. evaluateNextActivity (wd_activities demo_document) (a_id (wd_activities demo_document ! 0)) (JStr ''x'') = Inr d"
proof -
  obtain h where h: "validateWorkflowDraft demo_runtime id demo_draft = Inr (demo_document, h)"
    using demo_document_eq by blast
  have "0 < length (wd_activities demo_document)" using draft_well_routed[OF h] by simp
  from workflow_moves_forward[OF h this, of "JStr ''x''"] show ?thesis by blast
qed

theorem assurance_satisfied_iff_witness:
  "\<exists>e. evaluateAuthenticationAssurance demo_runtime JNull JNull (JDate (Some 0)) = Inr e \<and> ev_satisfied e"
proof -
  have n: "normalizeAuthenticationAssurance JNull = Inr DEFAULT_AUTHENTICATION_ASSURANCE"
    by (simp add: normalizeAuthenticationAssurance_def nullish_def)
  show ?thesis
    using assurance_satisfied_iff[OF n, of demo_runtime "JDate (Some 0)" 0, OF _ refl, of JNull]
    by (auto simp: DEFAULT_AUTHENTICATION_ASSURANCE_def)
qed

theorem assurance_policy_stable_witness:
  "normalizeAuthenticationAssurance (auth_policy_js DEFAULT_AUTHENTICATION_ASSURANCE) =
     Inr DEFAULT_AUTHENTICATION_ASSURANCE"
  using assurance_policy_stable[of JNull DEFAULT_AUTHENTICATION_ASSURANCE]
  by (simp add: normalizeAuthenticationAssurance_def nullish_def)

definition demo_issue :: js where
  "demo_issue = JObj [(''dueAt'', JDate (Some 2000)), (''expiresAt'', JDate (Some 3000)),
     (''intendedEmail'', JStr ''a@b.example''), (''tenantId'', JStr ''t''), (''workflowRevisionId'', JStr ''r'')]"

theorem issue_dates_ordered_witness:
  "\<exists>i. validatePublishedIssueInput demo_runtime demo_issue 1000 = Inr i \<and> pi_scheduledFor i \<le> 1000 + 365 * DAY_MS"
proof -
  have "(case validatePublishedIssueInput demo_runtime demo_issue 1000 of Inr _ \<Rightarrow> True | Inl _ \<Rightarrow> False)"
    by code_simp
  then obtain i where i: "validatePublishedIssueInput demo_runtime demo_issue 1000 = Inr i"
    by (auto split: sum.splits)
  from issue_dates_ordered[OF i] i show ?thesis by blast
qed

end
