(* ===== verification/Interaction.thy ===== *)
theory Interaction
  imports Normalizer Telemetry
begin

text \<open>
  Activity presence telemetry: \<^verbatim>\<open>src/packages/engine-domain/interaction.mjs\<close>. Batches of browser
  events are validated, stored, and replayed into a timing summary that is part of the evidence.
\<close>

section \<open>Vocabulary and policy\<close>

datatype event_type = Presented | Visible | Hidden | Focus | Blur | Heartbeat | Interacted | Disconnect

definition ACTIVITY_INTERACTION_EVENT_TYPES :: "(string \<times> event_type) list" where
  "ACTIVITY_INTERACTION_EVENT_TYPES =
     [(''presented'', Presented), (''visible'', Visible), (''hidden'', Hidden), (''focus'', Focus),
      (''blur'', Blur), (''heartbeat'', Heartbeat), (''interaction'', Interacted), (''disconnect'', Disconnect)]"

definition ACTIVITY_INTERACTION_POLICY_VERSION :: string where
  "ACTIVITY_INTERACTION_POLICY_VERSION = ''vasi-activity-interaction-policy/v1''"

record interaction_policy =
  ip_heartbeatSeconds :: int
  ip_idleSeconds :: int
  ip_maxCreditedGapSeconds :: int

abbreviation invalid :: "reason \<Rightarrow> 'a res" where
  "invalid r \<equiv> throw INVALID_ACTIVITY_INTERACTION r"

abbreviation strictObject :: "js \<Rightarrow> string \<Rightarrow> string list \<Rightarrow> js res" where
  "strictObject v name allowed \<equiv> strict_object INVALID_ACTIVITY_INTERACTION v name allowed"

abbreviation integer_in :: "js \<Rightarrow> string \<Rightarrow> int \<Rightarrow> int \<Rightarrow> int res" where
  "integer_in v name lo hi \<equiv> whole_number INVALID_ACTIVITY_INTERACTION v name lo hi"

abbreviation canonicalTimestamp :: "js \<Rightarrow> string \<Rightarrow> string res" where
  "canonicalTimestamp v name \<equiv> canonical_timestamp INVALID_ACTIVITY_INTERACTION v name"

definition token :: "js \<Rightarrow> string \<Rightarrow> nat \<Rightarrow> string res" where
  "token v name maximum =
     (case as_str v of
        None \<Rightarrow> invalid (BadFormat name)
      | Some s \<Rightarrow> guardE (s \<noteq> [] \<and> length s \<le> maximum \<and> \<not> has_ctrl s) INVALID_ACTIVITY_INTERACTION
                  (BadFormat name) (Inr s))"

definition optionalCanonicalTimestamp :: "js \<Rightarrow> string option res" where
  "optionalCanonicalTimestamp v =
     (if nullish v then Inr None
      else bindE (canonicalTimestamp v ''event.clientOccurredAt'') (\<lambda>s. Inr (Some s)))"

definition storedTimestamp :: "js \<Rightarrow> string \<Rightarrow> string res" where
  "storedTimestamp v name =
     (case v of JDate (Some t) \<Rightarrow> Inr (toISOString t) | _ \<Rightarrow> canonicalTimestamp v name)"

text \<open>
  \<open>Number(value)\<close>: the text of a decimal integer, as the database driver returns it, is written
  out; other texts are converted by \<open>N\<close>.
\<close>

fun js_Number :: "(string \<Rightarrow> jsnum) \<Rightarrow> js \<Rightarrow> js" where
  "js_Number N (JNum n) = JNum n"
| "js_Number N (JStr s) =
     (if s \<noteq> [] \<and> list_all is_digit s \<and> length s \<le> 15 then JInt (int (read_nat s)) else JNum (N s))"
| "js_Number N JNull = JInt 0"
| "js_Number N (JBool b) = JInt (if b then 1 else 0)"
| "js_Number N _ = JNum NaN"

definition settingInteger :: "(string \<Rightarrow> jsnum) \<Rightarrow> js \<Rightarrow> int \<Rightarrow> int \<Rightarrow> int \<Rightarrow> string \<Rightarrow> int res" where
  "settingInteger N v fallback minimum maximum name =
     (case (if absent v then JInt fallback else js_Number N v) of
        JNum (Fin r) \<Rightarrow>
          guardE (r = of_int \<lfloor>r\<rfloor> \<and> minimum \<le> \<lfloor>r\<rfloor> \<and> \<lfloor>r\<rfloor> \<le> maximum) PLAIN_ERROR (OutOfRange name minimum maximum)
            (Inr \<lfloor>r\<rfloor>)
      | _ \<Rightarrow> throw PLAIN_ERROR (OutOfRange name minimum maximum))"

definition activityInteractionPolicy :: "(string \<Rightarrow> jsnum) \<Rightarrow> js \<Rightarrow> interaction_policy res" where
  "activityInteractionPolicy N settings =
     bindE (settingInteger N (get settings ''ENGINE_ACTIVITY_HEARTBEAT_SECONDS'') 10 2 60
       ''ENGINE_ACTIVITY_HEARTBEAT_SECONDS'') (\<lambda>hb.
     bindE (settingInteger N (get settings ''ENGINE_ACTIVITY_IDLE_SECONDS'') 60 hb 900
       ''ENGINE_ACTIVITY_IDLE_SECONDS'') (\<lambda>idle.
     bindE (settingInteger N (get settings ''ENGINE_ACTIVITY_MAX_CREDITED_GAP_SECONDS'') 20 hb 120
       ''ENGINE_ACTIVITY_MAX_CREDITED_GAP_SECONDS'') (\<lambda>gap.
     Inr \<lparr>ip_heartbeatSeconds = hb, ip_idleSeconds = idle, ip_maxCreditedGapSeconds = gap\<rparr>)))"

definition policy_js :: "interaction_policy \<Rightarrow> js" where
  "policy_js p = JObj [(''heartbeatSeconds'', JInt (ip_heartbeatSeconds p)), (''idleSeconds'', JInt (ip_idleSeconds p)),
     (''maxCreditedGapSeconds'', JInt (ip_maxCreditedGapSeconds p)),
     (''version'', JStr ACTIVITY_INTERACTION_POLICY_VERSION)]"

definition normalizedPolicy :: "js \<Rightarrow> interaction_policy res" where
  "normalizedPolicy v =
     (if \<not> is_object v then invalid (Because ''activity interaction policy'')
      else bindE (integer_in (get v ''heartbeatSeconds'') ''policy.heartbeatSeconds'' 2 60) (\<lambda>hb.
           bindE (integer_in (get v ''idleSeconds'') ''policy.idleSeconds'' hb 900) (\<lambda>idle.
           bindE (integer_in (get v ''maxCreditedGapSeconds'') ''policy.maxCreditedGapSeconds'' hb 120) (\<lambda>gap.
           guardE (get v ''version'' = JStr ACTIVITY_INTERACTION_POLICY_VERSION) INVALID_ACTIVITY_INTERACTION
             (Because ''policy version'')
           (Inr \<lparr>ip_heartbeatSeconds = hb, ip_idleSeconds = idle, ip_maxCreditedGapSeconds = gap\<rparr>)))))"

section \<open>Batches\<close>

record interaction_event =
  ie_clientOccurredAt :: "string option"
  ie_id :: string
  ie_monotonicMs :: int
  ie_sequence :: int
  ie_type :: event_type

record interaction_batch =
  ib_activityId :: string
  ib_batchId :: string
  ib_events :: "interaction_event list"
  ib_handle :: string
  ib_interactionId :: string
  ib_telemetrySessionId :: string

definition type_of :: "js \<Rightarrow> event_type option" where
  "type_of v = (case as_str v of None \<Rightarrow> None | Some s \<Rightarrow> map_of ACTIVITY_INTERACTION_EVENT_TYPES s)"

definition normalizeEvent :: "nat \<Rightarrow> js \<Rightarrow> interaction_event res" where
  "normalizeEvent index v =
     bindE (strictObject v ''activity interaction event''
       [''clientOccurredAt'', ''id'', ''monotonicMs'', ''sequence'', ''type'']) (\<lambda>input.
     case type_of (get input ''type'') of
       None \<Rightarrow> invalid (Because ''event type'')
     | Some etype \<Rightarrow>
         bindE (optionalCanonicalTimestamp (get input ''clientOccurredAt'')) (\<lambda>occurred.
         bindE (token (get input ''id'') ''event.id'' 128) (\<lambda>eid.
         bindE (integer_in (get input ''monotonicMs'') ''event.monotonicMs'' 0 (7 * DAY_MS)) (\<lambda>clock.
         bindE (integer_in (get input ''sequence'') ''event.sequence'' 1 100000) (\<lambda>q.
         Inr \<lparr>ie_clientOccurredAt = occurred, ie_id = eid, ie_monotonicMs = clock, ie_sequence = q,
              ie_type = etype\<rparr>)))))"

definition validateActivityInteractionBatch :: "js \<Rightarrow> interaction_batch res" where
  "validateActivityInteractionBatch v =
     bindE (strictObject v ''activity interaction batch''
       [''activityId'', ''batchId'', ''events'', ''handle'', ''interactionId'', ''telemetrySessionId'']) (\<lambda>input.
     case as_arr (get input ''events'') of
       None \<Rightarrow> invalid (Because ''1 to 100 events'')
     | Some evs \<Rightarrow>
         guardE (evs \<noteq> [] \<and> length evs \<le> 100) INVALID_ACTIVITY_INTERACTION (Because ''1 to 100 events'')
         (bindE (imapE normalizeEvent 0 evs) (\<lambda>events.
          guardE (in_order ie_sequence ie_monotonicMs events) INVALID_ACTIVITY_INTERACTION (Because ''sequence'')
          (guardE (length (uniq (map ie_id events)) = length events) INVALID_ACTIVITY_INTERACTION (Because ''event ID'')
           (bindE (token (get input ''activityId'') ''activityId'' 64) (\<lambda>activityId.
            bindE (token (get input ''batchId'') ''batchId'' 128) (\<lambda>batchId.
            bindE (token (get input ''handle'') ''handle'' 64) (\<lambda>handle.
            bindE (token (get input ''interactionId'') ''interactionId'' 128) (\<lambda>interactionId.
            bindE (token (get input ''telemetrySessionId'') ''telemetrySessionId'' 128) (\<lambda>sid.
            Inr \<lparr>ib_activityId = activityId, ib_batchId = batchId, ib_events = events, ib_handle = handle,
                 ib_interactionId = interactionId, ib_telemetrySessionId = sid\<rparr>))))))))))"

section \<open>The summary\<close>

record stored_event =
  st_clientOccurredAt :: "string option"
  st_monotonicMs :: int
  st_receivedAt :: string
  st_sequence :: int
  st_telemetrySessionId :: string
  st_type :: event_type

definition normalizeStoredEvent :: "(string \<Rightarrow> jsnum) \<Rightarrow> js \<Rightarrow> stored_event res" where
  "normalizeStoredEvent N v =
     (if \<not> is_object v then invalid (Because ''stored event'')
      else case type_of (js_or (js_or (js_or (get v ''eventType'') (get v ''type''))
                 (get (get v ''eventData'') ''type'')) (get (get v ''event'') ''type'')) of
        None \<Rightarrow> invalid (Because ''stored event type'')
      | Some etype \<Rightarrow>
          bindE (optionalCanonicalTimestamp (js_or (js_or (get (get v ''eventData'') ''clientOccurredAt'')
                   (get (get v ''event'') ''clientOccurredAt'')) (get v ''clientOccurredAt''))) (\<lambda>occurred.
          bindE (integer_in (js_Number N (coalesce (coalesce (get v ''monotonicMs'')
                   (get (get v ''eventData'') ''monotonicMs'')) (get (get v ''event'') ''monotonicMs'')))
                   ''stored.monotonicMs'' 0 (7 * DAY_MS)) (\<lambda>clock.
          bindE (storedTimestamp (get v ''receivedAt'') ''stored.receivedAt'') (\<lambda>received.
          bindE (integer_in (js_Number N (get v ''sequence'')) ''stored.sequence'' 1 100000) (\<lambda>q.
          bindE (token (get v ''telemetrySessionId'') ''stored.telemetrySessionId'' 128) (\<lambda>sid.
          Inr \<lparr>st_clientOccurredAt = occurred, st_monotonicMs = clock, st_receivedAt = received,
               st_sequence = q, st_telemetrySessionId = sid, st_type = etype\<rparr>))))))"

record replay =
  rs_previous :: "int option"
  rs_opened :: bool
  rs_visible :: bool
  rs_focused :: bool
  rs_lastInteraction :: "int option"
  rs_sawPresented :: bool
  rs_openMs :: int
  rs_foregroundMs :: int
  rs_engagedMs :: int
  rs_uncreditedMs :: int
  rs_gapCount :: nat
  rs_disconnects :: nat
  rs_incomplete :: nat
  rs_presented :: nat
  rs_heartbeats :: nat
  rs_visibles :: nat
  rs_focuses :: nat
  rs_interactions :: nat
  rs_receivedTimes :: "string list"
  rs_clientTimes :: "string list"

definition replay_start :: replay where
  "replay_start = \<lparr>rs_previous = None, rs_opened = False, rs_visible = False, rs_focused = False,
     rs_lastInteraction = None, rs_sawPresented = False, rs_openMs = 0, rs_foregroundMs = 0, rs_engagedMs = 0,
     rs_uncreditedMs = 0, rs_gapCount = 0, rs_disconnects = 0, rs_incomplete = 0, rs_presented = 0,
     rs_heartbeats = 0, rs_visibles = 0, rs_focuses = 0, rs_interactions = 0, rs_receivedTimes = [],
     rs_clientTimes = []\<rparr>"

definition begin_session :: "replay \<Rightarrow> replay" where
  "begin_session s = s\<lparr>rs_previous := None, rs_opened := False, rs_visible := False, rs_focused := False,
     rs_lastInteraction := None, rs_sawPresented := False\<rparr>"

definition end_session :: "replay \<Rightarrow> replay" where
  "end_session s = (if rs_sawPresented s \<and> rs_opened s then s\<lparr>rs_incomplete := rs_incomplete s + 1\<rparr> else s)"

definition credit_time :: "interaction_policy \<Rightarrow> replay \<Rightarrow> stored_event \<Rightarrow> replay" where
  "credit_time P s e =
     (case rs_previous s of
        None \<Rightarrow> s
      | Some prev \<Rightarrow>
          let delta = st_monotonicMs e - prev in
          if rs_opened s \<and> (delta < 0 \<or> delta > ip_maxCreditedGapSeconds P * 1000) then
            s\<lparr>rs_gapCount := rs_gapCount s + 1, rs_uncreditedMs := rs_uncreditedMs s + max 0 delta\<rparr>
          else if rs_opened s then
            s\<lparr>rs_openMs := rs_openMs s + delta,
              rs_foregroundMs := rs_foregroundMs s + (if rs_visible s \<and> rs_focused s then delta else 0),
              rs_engagedMs := rs_engagedMs s +
                (if rs_visible s \<and> rs_focused s \<and>
                    (case rs_lastInteraction s of None \<Rightarrow> False | Some li \<Rightarrow> prev - li \<le> ip_idleSeconds P * 1000)
                 then delta else 0)\<rparr>
          else s)"

definition apply_event :: "replay \<Rightarrow> stored_event \<Rightarrow> replay" where
  "apply_event s e =
     (case st_type e of
        Presented \<Rightarrow> s\<lparr>rs_opened := True, rs_sawPresented := True, rs_presented := rs_presented s + 1\<rparr>
      | Visible \<Rightarrow> s\<lparr>rs_visible := True, rs_visibles := rs_visibles s + 1\<rparr>
      | Hidden \<Rightarrow> s\<lparr>rs_visible := False\<rparr>
      | Focus \<Rightarrow> s\<lparr>rs_focused := True, rs_focuses := rs_focuses s + 1\<rparr>
      | Blur \<Rightarrow> s\<lparr>rs_focused := False\<rparr>
      | Heartbeat \<Rightarrow> s\<lparr>rs_heartbeats := rs_heartbeats s + 1\<rparr>
      | Interacted \<Rightarrow> s\<lparr>rs_lastInteraction := Some (st_monotonicMs e), rs_interactions := rs_interactions s + 1\<rparr>
      | Disconnect \<Rightarrow> s\<lparr>rs_opened := False, rs_visible := False, rs_focused := False,
                        rs_disconnects := rs_disconnects s + 1\<rparr>)"

definition note_times :: "replay \<Rightarrow> stored_event \<Rightarrow> replay" where
  "note_times s e =
     s\<lparr>rs_receivedTimes := rs_receivedTimes s @ [st_receivedAt e],
       rs_clientTimes := rs_clientTimes s @ (case st_clientOccurredAt e of None \<Rightarrow> [] | Some t \<Rightarrow> [t])\<rparr>"

definition replay_step :: "interaction_policy \<Rightarrow> replay \<Rightarrow> stored_event \<Rightarrow> replay" where
  "replay_step P s e =
     (apply_event (credit_time P (note_times s e) e) e)\<lparr>rs_previous := Some (st_monotonicMs e)\<rparr>"

definition earliest :: "string list \<Rightarrow> string option" where
  "earliest xs = (if xs = [] then None else Some (hd (sort xs)))"

definition latest :: "string list \<Rightarrow> string option" where
  "latest xs = (if xs = [] then None else Some (last (sort xs)))"

datatype summary_note = No_presentation | No_heartbeat | No_visible | No_focus | Incomplete_sessions | Gaps

record interaction_summary =
  is_policy :: interaction_policy
  is_mediumConfidence :: bool
  is_limitations :: "summary_note list"
  is_count :: nat
  is_firstClientOccurredAt :: "string option"
  is_firstReceivedAt :: "string option"
  is_lastClientOccurredAt :: "string option"
  is_lastReceivedAt :: "string option"
  is_heartbeatCount :: nat
  is_focusCount :: nat
  is_interactionCount :: nat
  is_presentedCount :: nat
  is_visibleCount :: nat
  is_sessionCount :: nat
  is_disconnectCount :: nat
  is_incompleteCount :: nat
  is_backgroundOrHiddenMilliseconds :: int
  is_engagedMilliseconds :: int
  is_foregroundVisibleMilliseconds :: int
  is_idleForegroundMilliseconds :: int
  is_openMilliseconds :: int
  is_uncreditedGapMilliseconds :: int

text \<open>The limitations after the four fixed sentences every summary carries.\<close>

definition summary_notes :: "replay \<Rightarrow> summary_note list" where
  "summary_notes r =
     (if rs_presented r = 0 then [No_presentation] else []) @
     (if rs_heartbeats r = 0 then [No_heartbeat] else []) @
     (if rs_visibles r = 0 then [No_visible] else []) @
     (if rs_focuses r = 0 then [No_focus] else []) @
     (if rs_incomplete r \<noteq> 0 then [Incomplete_sessions] else []) @
     (if rs_gapCount r \<noteq> 0 then [Gaps] else [])"

definition replay_events :: "interaction_policy \<Rightarrow> stored_event list \<Rightarrow> replay" where
  "replay_events P events =
     run_sessions begin_session (replay_step P) end_session replay_start
       (group_sessions st_telemetrySessionId st_sequence events)"

definition summarize :: "interaction_policy \<Rightarrow> stored_event list \<Rightarrow> interaction_summary" where
  "summarize P events =
     (let r = replay_events P events in
      \<lparr>is_policy = P,
       is_mediumConfidence = (rs_presented r > 0 \<and> rs_heartbeats r > 0 \<and> rs_visibles r > 0 \<and> rs_focuses r > 0 \<and>
         rs_gapCount r = 0 \<and> rs_incomplete r = 0),
       is_limitations = summary_notes r, is_count = length events,
       is_firstClientOccurredAt = earliest (rs_clientTimes r), is_firstReceivedAt = earliest (rs_receivedTimes r),
       is_lastClientOccurredAt = latest (rs_clientTimes r), is_lastReceivedAt = latest (rs_receivedTimes r),
       is_heartbeatCount = rs_heartbeats r, is_focusCount = rs_focuses r,
       is_interactionCount = rs_interactions r, is_presentedCount = rs_presented r, is_visibleCount = rs_visibles r,
       is_sessionCount = length (group_sessions st_telemetrySessionId st_sequence events),
       is_disconnectCount = rs_disconnects r, is_incompleteCount = rs_incomplete r,
       is_backgroundOrHiddenMilliseconds = max 0 (rs_openMs r - rs_foregroundMs r),
       is_engagedMilliseconds = rs_engagedMs r, is_foregroundVisibleMilliseconds = rs_foregroundMs r,
       is_idleForegroundMilliseconds = max 0 (rs_foregroundMs r - rs_engagedMs r),
       is_openMilliseconds = rs_openMs r, is_uncreditedGapMilliseconds = rs_uncreditedMs r\<rparr>)"

definition calculateActivityInteractionSummary ::
  "(string \<Rightarrow> jsnum) \<Rightarrow> js \<Rightarrow> js \<Rightarrow> interaction_summary res" where
  "calculateActivityInteractionSummary N policyValue rows =
     bindE (normalizedPolicy policyValue) (\<lambda>policy.
     case as_arr rows of
       None \<Rightarrow> invalid (Because ''stored events unbounded'')
     | Some rs \<Rightarrow>
         guardE (int (length rs) \<le> 100000) INVALID_ACTIVITY_INTERACTION (Because ''stored events unbounded'')
         (bindE (mapE (normalizeStoredEvent N) rs) (\<lambda>events. Inr (summarize policy events))))"

section \<open>Replay invariants\<close>

lemma presence_credit:
  "\<exists>a b c. rs_engagedMs (credit_time P s e) = rs_engagedMs s + a \<and>
     rs_foregroundMs (credit_time P s e) = rs_foregroundMs s + b \<and>
     rs_openMs (credit_time P s e) = rs_openMs s + c \<and> 0 \<le> a \<and> a \<le> b \<and> b \<le> c"
proof (cases "rs_previous s")
  case None
  then show ?thesis by (auto simp: credit_time_def intro!: exI[of _ 0])
next
  case (Some prev)
  let ?d = "st_monotonicMs e - prev"
  show ?thesis
  proof (cases "rs_opened s \<and> 0 \<le> ?d \<and> ?d \<le> ip_maxCreditedGapSeconds P * 1000")
    case True
    let ?v = "rs_visible s \<and> rs_focused s"
    let ?g = "?v \<and> (case rs_lastInteraction s of None \<Rightarrow> False
                     | Some li \<Rightarrow> prev - li \<le> ip_idleSeconds P * 1000)"
    show ?thesis
      using Some True
      by (intro exI[of _ "if ?g then ?d else 0"] exI[of _ "if ?v then ?d else 0"] exI[of _ ?d])
        (auto simp: credit_time_def Let_def)
  next
    case False
    then show ?thesis using Some by (auto simp: credit_time_def Let_def intro!: exI[of _ 0])
  qed
qed

lemma clock_frame [simp]:
  "rs_engagedMs (apply_event s e) = rs_engagedMs s" "rs_foregroundMs (apply_event s e) = rs_foregroundMs s"
  "rs_openMs (apply_event s e) = rs_openMs s"
  "rs_engagedMs (note_times s e) = rs_engagedMs s" "rs_foregroundMs (note_times s e) = rs_foregroundMs s"
  "rs_openMs (note_times s e) = rs_openMs s"
  by (simp_all add: apply_event_def note_times_def split: event_type.split)

interpretation presence_clock: credited_clock begin_session "replay_step P" end_session
    rs_engagedMs rs_foregroundMs rs_openMs for P
proof unfold_locales
  fix s e
  show "\<exists>a b c. rs_engagedMs (replay_step P s e) = rs_engagedMs s + a \<and>
     rs_foregroundMs (replay_step P s e) = rs_foregroundMs s + b \<and>
     rs_openMs (replay_step P s e) = rs_openMs s + c \<and> 0 \<le> a \<and> a \<le> b \<and> b \<le> c"
    using presence_credit[of P "note_times s e" e] by (simp add: replay_step_def)
qed (simp_all add: begin_session_def end_session_def)

section \<open>Properties\<close>

text \<open>
  The timing of an activity summary is a partition: open time is the sum of hidden and
  foreground time, foreground time the sum of idle and engaged time, and none is negative.
\<close>

theorem interaction_timing_partition:
  assumes "calculateActivityInteractionSummary N pv rows = Inr s"
  shows "is_backgroundOrHiddenMilliseconds s + is_foregroundVisibleMilliseconds s = is_openMilliseconds s \<and>
    is_idleForegroundMilliseconds s + is_engagedMilliseconds s = is_foregroundVisibleMilliseconds s \<and>
    0 \<le> is_engagedMilliseconds s \<and> 0 \<le> is_idleForegroundMilliseconds s \<and> 0 \<le> is_backgroundOrHiddenMilliseconds s"
proof -
  from assms obtain P events where s: "s = summarize P events"
    unfolding calculateActivityInteractionSummary_def by (elim res_elims) auto
  show ?thesis
    using presence_clock.run_ordered[of replay_start P "group_sessions st_telemetrySessionId st_sequence events"]
    by (auto simp: s summarize_def replay_events_def Let_def presence_clock.ordered_clock_def replay_start_def)
qed

lemma settingInteger_range: "settingInteger N v d lo hi name = Inr n \<Longrightarrow> lo \<le> n \<and> n \<le> hi"
  by (auto simp: settingInteger_def guardE_Inr split: js.splits jsnum.splits)

lemma normalizedPolicy_encode:
  assumes "2 \<le> ip_heartbeatSeconds p" "ip_heartbeatSeconds p \<le> 60"
    "ip_heartbeatSeconds p \<le> ip_idleSeconds p" "ip_idleSeconds p \<le> 900"
    "ip_heartbeatSeconds p \<le> ip_maxCreditedGapSeconds p" "ip_maxCreditedGapSeconds p \<le> 120"
  shows "normalizedPolicy (policy_js p) = Inr p"
  using assms by (simp add: normalizedPolicy_def policy_js_def whole_number_JInt MAX_SAFE_INTEGER_def)

lemma normalizedPolicy_range:
  assumes "normalizedPolicy v = Inr p"
  shows "2 \<le> ip_heartbeatSeconds p \<and> ip_heartbeatSeconds p \<le> 60 \<and>
    ip_heartbeatSeconds p \<le> ip_idleSeconds p \<and> ip_idleSeconds p \<le> 900 \<and>
    ip_heartbeatSeconds p \<le> ip_maxCreditedGapSeconds p \<and> ip_maxCreditedGapSeconds p \<le> 120"
  using assms by (auto simp: normalizedPolicy_def res_simps split: if_splits)

text \<open>
  The engine's interaction policy, whatever its settings, is accepted when it is read back
  for a calculation, so a configured engine can always compute the summary of its own policy.
\<close>

theorem configured_policy_accepted:
  assumes "activityInteractionPolicy N settings = Inr p"
  shows "normalizedPolicy (policy_js p) = Inr p"
proof -
  from assms have "2 \<le> ip_heartbeatSeconds p \<and> ip_heartbeatSeconds p \<le> 60"
    "ip_heartbeatSeconds p \<le> ip_idleSeconds p \<and> ip_idleSeconds p \<le> 900"
    "ip_heartbeatSeconds p \<le> ip_maxCreditedGapSeconds p \<and> ip_maxCreditedGapSeconds p \<le> 120"
    unfolding activityInteractionPolicy_def by (auto elim!: res_elims dest!: settingInteger_range)
  then show ?thesis by (intro normalizedPolicy_encode) auto
qed

interpretation interaction_policy: normalizer normalizedPolicy policy_js
  by unfold_locales (use normalizedPolicy_range normalizedPolicy_encode in blast)

text \<open>
  An accepted presence batch is ordered, bounded and free of repeated identifiers, and
  contains nothing about the participant's input: an event is a type, two clocks, a sequence
  number and an identifier.
\<close>

theorem interaction_batch_accepted:
  assumes "validateActivityInteractionBatch v = Inr b"
  shows "ib_events b \<noteq> [] \<and> length (ib_events b) \<le> 100 \<and> distinct (map ie_id (ib_events b)) \<and>
    sorted_wrt (\<lambda>e f. ie_sequence e < ie_sequence f \<and> ie_monotonicMs e \<le> ie_monotonicMs f) (ib_events b) \<and>
    (\<forall>e \<in> set (ib_events b). 0 \<le> ie_monotonicMs e \<and> ie_monotonicMs e \<le> 7 * DAY_MS \<and>
       1 \<le> ie_sequence e \<and> ie_sequence e \<le> 100000)"
proof -
  from assms obtain evs where evs: "evs \<noteq> []" "length evs \<le> 100"
      and im: "imapE normalizeEvent 0 evs = Inr (ib_events b)"
      and ord: "in_order ie_sequence ie_monotonicMs (ib_events b)"
      and dis: "length (uniq (map ie_id (ib_events b))) = length (ib_events b)"
    unfolding validateActivityInteractionBatch_def
    by (elim res_elims) (auto simp only: sum.inject interaction_batch.simps)
  have ev: "0 \<le> ie_monotonicMs e \<and> ie_monotonicMs e \<le> 7 * DAY_MS \<and> 1 \<le> ie_sequence e \<and> ie_sequence e \<le> 100000"
    if "normalizeEvent i w = Inr e" for i w e
    using that unfolding normalizeEvent_def by (elim res_elims) (auto simp: whole_number_Inr)
  have "distinct (map ie_id (ib_events b))" using dis length_uniq_eq[of "map ie_id (ib_events b)"] by simp
  then show ?thesis
    using evs imapE_length[OF im] in_order_sorted[OF ord] ev imapE_memD[OF im] by fastforce
qed

section \<open>Witnesses\<close>

definition demo_row :: "int \<Rightarrow> int \<Rightarrow> string \<Rightarrow> js" where
  "demo_row q t ty = JObj [(''eventType'', JStr ty), (''monotonicMs'', JInt t), (''sequence'', JInt q),
     (''receivedAt'', JDate (Some 0)), (''telemetrySessionId'', JStr ''s1'')]"

definition demo_rows :: js where
  "demo_rows = JArr [demo_row 1 0 ''presented'']"

definition demo_policy :: interaction_policy where
  "demo_policy = \<lparr>ip_heartbeatSeconds = 10, ip_idleSeconds = 60, ip_maxCreditedGapSeconds = 20\<rparr>"

lemma demo_summary: "\<exists>s. calculateActivityInteractionSummary (\<lambda>_. NaN) (policy_js demo_policy) demo_rows = Inr s"
proof -
  have "(case calculateActivityInteractionSummary (\<lambda>_. NaN) (policy_js demo_policy) demo_rows of
      Inr _ \<Rightarrow> True | Inl _ \<Rightarrow> False)" by code_simp
  then show ?thesis by (auto split: sum.splits)
qed

theorem interaction_timing_partition_witness:
  "\<exists>s. calculateActivityInteractionSummary (\<lambda>_. NaN) (policy_js demo_policy) demo_rows = Inr s \<and>
     is_backgroundOrHiddenMilliseconds s + is_foregroundVisibleMilliseconds s = is_openMilliseconds s"
  using demo_summary interaction_timing_partition by blast

lemma demo_policy_configured: "activityInteractionPolicy (\<lambda>_. NaN) (JObj []) = Inr demo_policy"
  by code_simp

theorem configured_policy_accepted_witness: "normalizedPolicy (policy_js demo_policy) = Inr demo_policy"
  using configured_policy_accepted[OF demo_policy_configured] .

definition demo_batch_input :: js where
  "demo_batch_input = JObj
     [(''activityId'', JStr ''a1''), (''batchId'', JStr ''b1''), (''handle'', JStr ''h1''),
      (''interactionId'', JStr ''i1''), (''telemetrySessionId'', JStr ''s1''),
      (''events'', JArr [JObj [(''id'', JStr ''e1''), (''monotonicMs'', JInt 5), (''sequence'', JInt 1), (''type'', JStr ''presented'')]])]"

theorem interaction_batch_accepted_witness:
  "\<exists>b. validateActivityInteractionBatch demo_batch_input = Inr b \<and> ib_events b \<noteq> []"
proof -
  have "(case validateActivityInteractionBatch demo_batch_input of Inr _ \<Rightarrow> True | Inl _ \<Rightarrow> False)" by code_simp
  then obtain b where b: "validateActivityInteractionBatch demo_batch_input = Inr b" by (auto split: sum.splits)
  with interaction_batch_accepted[OF b] show ?thesis by blast
qed

end
