(* ===== verification/Calendar.thy ===== *)
theory Calendar
  imports Dates
begin

text \<open>
  \<open>toISOString\<close> is inverted by \<open>iso_time\<close> on every valid time value, so that the canonical
  timestamps are exactly the outputs of \<open>toISOString\<close>.
\<close>

section \<open>The civil calendar\<close>

lemma year_of_era:
  fixes doe :: int
  assumes "0 \<le> doe" "doe < 146097"
    and y: "y = (doe - doe div 1460 + doe div 36524 - doe div 146096) div 365"
  shows "0 \<le> y \<and> y < 400"
proof -
  define a b c where "a = doe div 1460" and "b = doe div 36524" and "c = doe div 146096"
  have ab: "1460 * a \<le> doe" "doe < 1460 * a + 1460" "36524 * b \<le> doe" "doe < 36524 * b + 36524"
      "146096 * c \<le> doe" "doe < 146096 * c + 146096"
    unfolding a_def b_def c_def using assms by linarith+
  have "0 \<le> a" "0 \<le> b" "0 \<le> c" unfolding a_def b_def c_def using assms(1) by (simp_all add: pos_imp_zdiv_nonneg_iff)
  have lower: "0 \<le> doe - a + b - c"
    using ab \<open>0 \<le> a\<close> \<open>0 \<le> b\<close> assms by linarith
  have upper: "doe - a + b - c < 146000"
  proof (cases "c = 0")
    case True
    then have "b \<le> 3" using ab by linarith
    show ?thesis
    proof (rule ccontr)
      assume "\<not> ?thesis"
      then have "doe \<ge> 145997 + a" using True \<open>b \<le> 3\<close> by linarith
      then have "a \<ge> 100" using ab by linarith
      then show False using \<open>doe \<ge> 145997 + a\<close> assms by linarith
    qed
  next
    case False
    then have "doe = 146096" using ab \<open>0 \<le> c\<close> assms by linarith
    then show ?thesis by (simp add: a_def b_def c_def)
  qed
  show ?thesis using lower upper unfolding y a_def b_def c_def by linarith
qed

lemma day_of_year:
  fixes doe :: int
  assumes "0 \<le> doe" "doe < 146097"
    and y: "y = (doe - doe div 1460 + doe div 36524 - doe div 146096) div 365"
  shows "0 \<le> doe - (365 * y + y div 4 - y div 100) \<and> doe - (365 * y + y div 4 - y div 100) \<le> 365"
proof -
  define a b c where "a = doe div 1460" and "b = doe div 36524" and "c = doe div 146096"
  define u w where "u = y div 4" and "w = y div 100"
  have ab: "1460 * a \<le> doe" "doe < 1460 * a + 1460" "36524 * b \<le> doe" "doe < 36524 * b + 36524"
      "146096 * c \<le> doe" "doe < 146096 * c + 146096"
    unfolding a_def b_def c_def using assms by linarith+
  have yb: "365 * y \<le> doe - a + b - c" "doe - a + b - c < 365 * y + 365"
    unfolding y a_def b_def c_def by linarith+
  have uw: "4 * u \<le> y" "y < 4 * u + 4" "100 * w \<le> y" "y < 100 * w + 100"
    unfolding u_def w_def by linarith+
  show ?thesis
  proof (cases "doe = 146096")
    case True
    then show ?thesis unfolding y by simp
  next
    case False
    then have c: "c = 0" and "b \<le> 3" "0 \<le> b" "0 \<le> a" using ab assms by linarith+
    have lo: "100 * b \<le> y"
    proof (rule ccontr)
      assume "\<not> ?thesis"
      then have "doe - a + b < 36500 * b" using yb c by linarith
      then show False using ab \<open>b \<le> 3\<close> by linarith
    qed
    have hi: "y < 100 * b + 100"
    proof (rule ccontr)
      assume "\<not> ?thesis"
      then have "36500 * b + 36500 \<le> doe - a + b" using yb c by linarith
      then show False using ab \<open>0 \<le> b\<close> by linarith
    qed
    have "w \<le> b" using uw hi by linarith
    moreover have "b \<le> w" using uw lo by linarith
    ultimately have w: "w = b" by simp
    have "u \<le> a"
    proof (rule ccontr)
      assume "\<not> ?thesis"
      then have "1460 * a + 1460 \<le> doe - a + b" using yb uw c by linarith
      then show False using ab \<open>0 \<le> a\<close> by linarith
    qed
    moreover have "a \<le> u + 1"
    proof (rule ccontr)
      assume "\<not> ?thesis"
      then have "1459 * a + b < 1460 * u + 1460" using yb uw c ab by linarith
      then show False using \<open>\<not> a \<le> u + 1\<close> uw hi \<open>b \<le> 3\<close> \<open>0 \<le> b\<close> by linarith
    qed
    ultimately have "0 \<le> doe - (365 * y + u - w) \<and> doe - (365 * y + u - w) \<le> 365"
      using yb w c by linarith
    then show ?thesis unfolding u_def w_def .
  qed
qed

lemma civil_fields:
  fixes doy :: int
  assumes "0 \<le> doy" "doy \<le> 365" and mp: "mp = (5 * doy + 2) div 153"
  shows "0 \<le> mp \<and> mp \<le> 11 \<and> 1 \<le> doy - (153 * mp + 2) div 5 + 1 \<and> doy - (153 * mp + 2) div 5 + 1 \<le> 31"
proof -
  define q where "q = (153 * mp + 2) div 5"
  have "5 * q \<le> 153 * mp + 2" "153 * mp + 2 < 5 * q + 5" unfolding q_def by linarith+
  moreover have "153 * mp \<le> 5 * doy + 2" "5 * doy + 2 < 153 * mp + 153" unfolding mp by linarith+
  ultimately show ?thesis unfolding q_def[symmetric] using assms(1,2) by linarith
qed

lemma civil_from_days_eq:
  "\<exists>era yoe mp doy. 0 \<le> yoe \<and> yoe < 400 \<and> 0 \<le> mp \<and> mp \<le> 11 \<and>
     1 \<le> doy - (153 * mp + 2) div 5 + 1 \<and> doy - (153 * mp + 2) div 5 + 1 \<le> 31 \<and>
     civil_from_days z = (yoe + era * 400 + (if mp < 10 then 0 else 1), if mp < 10 then mp + 3 else mp - 9,
       doy - (153 * mp + 2) div 5 + 1) \<and>
     z + 719468 = era * 146097 + (yoe * 365 + yoe div 4 - yoe div 100 + doy)"
proof -
  define era doe where "era = (z + 719468) div 146097" and "doe = (z + 719468) mod 146097"
  define yoe where "yoe = (doe - doe div 1460 + doe div 36524 - doe div 146096) div 365"
  define doy where "doy = doe - (365 * yoe + yoe div 4 - yoe div 100)"
  define mp where "mp = (5 * doy + 2) div 153"
  have doe: "0 \<le> doe" "doe < 146097" unfolding doe_def by simp_all
  have y: "0 \<le> yoe \<and> yoe < 400" by (rule year_of_era[OF doe yoe_def])
  have d: "0 \<le> doy" "doy \<le> 365" using day_of_year[OF doe yoe_def] unfolding doy_def by auto
  note f = civil_fields[OF d mp_def]
  have "civil_from_days z = (yoe + era * 400 + (if mp < 10 then 0 else 1), if mp < 10 then mp + 3 else mp - 9,
       doy - (153 * mp + 2) div 5 + 1)"
    using f unfolding civil_from_days_def Let_def
    unfolding era_def[symmetric] doe_def[symmetric]
    unfolding yoe_def[symmetric]
    unfolding doy_def[symmetric]
    unfolding mp_def[symmetric] by simp
  moreover have "z + 719468 = era * 146097 + (yoe * 365 + yoe div 4 - yoe div 100 + doy)"
    by (simp add: doy_def era_def doe_def)
  ultimately show ?thesis using y f by blast
qed

lemma civil_range: "civil_from_days z = (y, m, d) \<Longrightarrow> 1 \<le> m \<and> m \<le> 12 \<and> 1 \<le> d \<and> d \<le> 31"
  using civil_from_days_eq[of z] by (auto split: if_splits)

lemma days_civil:
  assumes "civil_from_days z = (y, m, d)"
  shows "days_from_civil y m d = z"
proof -
  from civil_from_days_eq[of z] assms obtain era yoe mp doy where
    r: "0 \<le> yoe" "yoe < 400" "0 \<le> mp" "mp \<le> 11" and
    e: "y = yoe + era * 400 + (if mp < 10 then 0 else 1)" "m = (if mp < 10 then mp + 3 else mp - 9)"
      "d = doy - (153 * mp + 2) div 5 + 1" and
    z: "z + 719468 = era * 146097 + (yoe * 365 + yoe div 4 - yoe div 100 + doy)" by auto
  have y': "(if m \<le> 2 then y - 1 else y) = yoe + era * 400" using e r by auto
  have mp: "(if m > 2 then m - 3 else m + 9) = mp" using e r by auto
  have "(yoe + era * 400) div 400 = era" "(yoe + era * 400) mod 400 = yoe" using r by simp_all
  then show ?thesis using z unfolding days_from_civil_def y' mp by (simp add: Let_def e)
qed

section \<open>Reading the fields back\<close>

lemma length_show_nat: "n < 10 ^ k \<Longrightarrow> 0 < k \<Longrightarrow> length (show_nat n) \<le> k"
proof (induction k arbitrary: n)
  case (Suc k)
  show ?case
  proof (cases "n < 10")
    case True
    then show ?thesis by (simp add: show_nat.simps)
  next
    case False
    then have "0 < k" using Suc.prems by (cases k) auto
    then have "length (show_nat (n div 10)) \<le> k" using Suc.IH[of "n div 10"] Suc.prems(1) by (simp add: less_mult_imp_div_less mult.commute)
    then show ?thesis using False by (subst show_nat.simps) simp
  qed
qed simp

lemma read_nat_zeros: "read_nat (replicate k (CHR ''0'') @ s) = read_nat s"
proof (induction k)
  case (Suc k)
  have "code CHR ''0'' = 48" by (simp add: code_def)
  then show ?case using Suc by (simp add: read_nat_def)
qed simp

lemma read_pad: "0 \<le> n \<Longrightarrow> int (read_nat (pad w n)) = n"
  by (simp add: pad_def Let_def read_nat_zeros)

lemma length_pad: "0 \<le> n \<Longrightarrow> n < 10 ^ w \<Longrightarrow> 0 < w \<Longrightarrow> length (pad w n) = w"
proof -
  assume "0 \<le> n" "n < 10 ^ w" "0 < w"
  then have "nat n < 10 ^ w" by (simp add: nat_less_iff)
  from length_show_nat[OF this \<open>0 < w\<close>] show ?thesis by (simp add: pad_def Let_def)
qed

lemma length_2: "length s = 2 \<Longrightarrow> \<exists>a b. s = [a, b]"
  by (auto simp: numeral_2_eq_2 length_Suc_conv)

lemma length_3: "length s = 3 \<Longrightarrow> \<exists>a b c. s = [a, b, c]"
  by (auto simp: numeral_3_eq_3 length_Suc_conv)

lemma tail_fields:
  assumes "length mo = 2" "length da = 2" "length ho = 2" "length mi = 2" "length se = 2" "length x = 3"
    and r: "r = ''-'' @ mo @ ''-'' @ da @ ''T'' @ ho @ '':'' @ mi @ '':'' @ se @ ''.'' @ x @ ''Z''"
  shows "field_at r 1 2 = int (read_nat mo)" "field_at r 4 2 = int (read_nat da)" "field_at r 7 2 = int (read_nat ho)"
    "field_at r 10 2 = int (read_nat mi)" "field_at r 13 2 = int (read_nat se)" "field_at r 16 3 = int (read_nat x)"
  using assms(1-5)[THEN length_2] length_3[OF assms(6)] unfolding r field_at_def by auto

lemma split_day:
  fixes ms :: int
  shows "ms = ms div 3600000 * 3600000 + ms div 60000 mod 60 * 60000 + ms div 1000 mod 60 * 1000 + ms mod 1000"
proof -
  have b: "ms div 60000 = ms div 1000 div 60" and c: "ms div 3600000 = ms div 60000 div 60"
    by (simp_all add: div_mult2_eq[symmetric] zdiv_zmult2_eq[symmetric])
  have "ms div 60000 = ms div 60000 div 60 * 60 + ms div 60000 mod 60"
    "ms div 1000 = ms div 1000 div 60 * 60 + ms div 1000 mod 60" "ms = ms div 1000 * 1000 + ms mod 1000"
    by simp_all
  then show ?thesis unfolding c using b by linarith
qed

lemma iso_tail_fields:
  assumes "1 \<le> m" "m \<le> 12" "1 \<le> d" "d \<le> 31" "0 \<le> ms" "ms < DAY_MS"
    and r: "r = ''-'' @ pad 2 m @ ''-'' @ pad 2 d @ ''T'' @ pad 2 (ms div 3600000) @ '':'' @
      pad 2 (ms div 60000 mod 60) @ '':'' @ pad 2 (ms div 1000 mod 60) @ ''.'' @ pad 3 (ms mod 1000) @ ''Z''"
  shows "time_of_fields y r = days_from_civil y m d * DAY_MS + ms"
proof -
  let ?h = "ms div 3600000" and ?mi = "ms div 60000 mod 60" and ?s = "ms div 1000 mod 60" and ?x = "ms mod 1000"
  have h: "0 \<le> ?h" "?h < 24" using assms(5,6) by (simp_all add: DAY_MS_def)
  have L: "length (pad 2 m) = 2" "length (pad 2 d) = 2" "length (pad 2 ?h) = 2" "length (pad 2 ?mi) = 2"
      "length (pad 2 ?s) = 2" "length (pad 3 ?x) = 3"
    using assms h by (auto intro!: length_pad intro: less_trans[OF pos_mod_bound])
  have rd: "int (read_nat (pad 2 m)) = m" "int (read_nat (pad 2 d)) = d" "int (read_nat (pad 2 ?h)) = ?h"
      "int (read_nat (pad 2 ?mi)) = ?mi" "int (read_nat (pad 2 ?s)) = ?s" "int (read_nat (pad 3 ?x)) = ?x"
    using assms h by (auto intro!: read_pad)
  have f: "field_at r 1 2 = m" "field_at r 4 2 = d" "field_at r 7 2 = ?h" "field_at r 10 2 = ?mi"
      "field_at r 13 2 = ?s" "field_at r 16 3 = ?x"
    by (simp_all only: tail_fields[OF L r] rd)
  show ?thesis unfolding time_of_fields_def f using split_day[of ms] by linarith
qed

lemma iso_year_cases:
  assumes "valid_time t"
  obtains (short) y m d where "civil_from_days (t div DAY_MS) = (y, m, d)" "0 \<le> y" "y \<le> 9999" "iso_year y = pad 4 y"
  | (minus) y m d where "civil_from_days (t div DAY_MS) = (y, m, d)" "y < 0" "- y < 1000000" "iso_year y = CHR ''-'' # pad 6 (- y)"
  | (plus) y m d where "civil_from_days (t div DAY_MS) = (y, m, d)" "9999 < y" "y < 1000000" "iso_year y = CHR ''+'' # pad 6 y"
proof -
  obtain y m d where c: "civil_from_days (t div DAY_MS) = (y, m, d)" by (metis prod_cases3)
  from civil_from_days_eq[of "t div DAY_MS"] c obtain era yoe mp doy where
    e: "0 \<le> yoe" "yoe < 400" "0 \<le> mp" "mp \<le> 11" "1 \<le> doy - (153 * mp + 2) div 5 + 1" "doy - (153 * mp + 2) div 5 + 1 \<le> 31"
      "y = yoe + era * 400 + (if mp < 10 then 0 else 1)"
      "t div DAY_MS + 719468 = era * 146097 + (yoe * 365 + yoe div 4 - yoe div 100 + doy)" by auto
  have q: "153 * mp + 2 < 5 * ((153 * mp + 2) div 5) + 5" "5 * ((153 * mp + 2) div 5) \<le> 153 * mp + 2" by linarith+
  have "0 \<le> doy" "doy \<le> 400" using e q by linarith+
  moreover have "0 \<le> yoe div 4" "yoe div 4 \<le> 100" "0 \<le> yoe div 100" "yoe div 100 \<le> 4" using e by linarith+
  moreover have "\<bar>t div DAY_MS\<bar> \<le> 100000001"
    using assms unfolding valid_time_def max_time_def DAY_MS_def by linarith
  ultimately have "\<bar>era\<bar> \<le> 700" using e by linarith
  then have "y < 1000000" "- y < 1000000" using e(1,2,7) by (auto split: if_splits)
  then show ?thesis
    using c short[of y m d] minus[of y m d] plus[of y m d]
    by (cases "y < 0"; cases "y \<le> 9999") (simp_all add: iso_year_def)
qed

text \<open>Every time value is read back from its text.\<close>

theorem iso_time_toISOString: "valid_time t \<Longrightarrow> iso_time (toISOString t) = t"
proof -
  assume v: "valid_time t"
  let ?ms = "t mod DAY_MS"
  have ms: "0 \<le> ?ms" "?ms < DAY_MS" by (simp_all add: DAY_MS_def)
  define tail where "tail m d = ''-'' @ pad 2 m @ ''-'' @ pad 2 d @ ''T'' @ pad 2 (?ms div 3600000) @ '':'' @
      pad 2 (?ms div 60000 mod 60) @ '':'' @ pad 2 (?ms div 1000 mod 60) @ ''.'' @ pad 3 (?ms mod 1000) @ ''Z''" for m d
  have shape: "toISOString t = iso_year y @ tail m d" if "civil_from_days (t div DAY_MS) = (y, m, d)" for y m d
    using that by (simp add: toISOString_def Let_def tail_def)
  have time: "time_of_fields y (tail m d) = t" if c: "civil_from_days (t div DAY_MS) = (y, m, d)" for y m d
    using iso_tail_fields[OF _ _ _ _ ms tail_def, of m d] civil_range[OF c] days_civil[OF c] by simp
  from v show ?thesis
  proof (cases rule: iso_year_cases)
    case (short y m d)
    have len: "length (pad 4 y) = 4" using short by (intro length_pad) auto
    have "list_all is_digit (pad 4 y)" using digits_of_show_nat by (auto simp: pad_def Let_def list_all_iff is_digit_def code_def)
    moreover have "pad 4 y \<noteq> []" using len by auto
    ultimately have "is_digit (hd (pad 4 y))" by (cases "pad 4 y") auto
    then have hd: "hd (pad 4 y @ tail m d) \<noteq> CHR ''-''" "hd (pad 4 y @ tail m d) \<noteq> CHR ''+''"
      using \<open>pad 4 y \<noteq> []\<close> by (auto simp: is_digit_def code_def)
    have "field_at (pad 4 y @ tail m d) 0 4 = y" "drop 4 (pad 4 y @ tail m d) = tail m d"
      using len short read_pad[of y 4] by (simp_all add: field_at_def)
    then show ?thesis
      using shape[OF short(1)] short(4) hd time[OF short(1)] \<open>pad 4 y \<noteq> []\<close> by (simp add: iso_time_def)
  next
    case (minus y m d)
    have len: "length (pad 6 (- y)) = 6" using minus by (intro length_pad) auto
    have "field_at (CHR ''-'' # pad 6 (- y) @ tail m d) 1 6 = - y" "drop 7 (CHR ''-'' # pad 6 (- y) @ tail m d) = tail m d"
      using len minus read_pad[of "- y" 6] by (simp_all add: field_at_def)
    then show ?thesis using shape[OF minus(1)] minus(4) time[OF minus(1)] by (simp add: iso_time_def)
  next
    case (plus y m d)
    have len: "length (pad 6 y) = 6" using plus by (intro length_pad) auto
    have "field_at (CHR ''+'' # pad 6 y @ tail m d) 1 6 = y" "drop 7 (CHR ''+'' # pad 6 y @ tail m d) = tail m d"
      using len plus read_pad[of y 6] by (simp_all add: field_at_def)
    then show ?thesis using shape[OF plus(1)] plus(4) time[OF plus(1)] by (simp add: iso_time_def)
  qed
qed

lemma canonical_toISOString: "valid_time t \<Longrightarrow> canonical_iso (toISOString t)"
  by (simp add: canonical_iso_def iso_time_toISOString)

lemma canonical_iso_iff: "canonical_iso s \<longleftrightarrow> (\<exists>t. valid_time t \<and> s = toISOString t)"
  using canonical_toISOString canonical_iso_time by metis

lemma toISOString_inject: "valid_time t \<Longrightarrow> valid_time u \<Longrightarrow> toISOString t = toISOString u \<longleftrightarrow> t = u"
  by (metis iso_time_toISOString)

end
