(* ===== verification/Admission.thy ===== *)
theory Admission
  imports Normalizer Calendar
begin

text \<open>
  Tenant admission: the eight gates of \<^verbatim>\<open>src/packages/engine-domain/productization.mjs\<close> and the
  check of a stored admission in \<^verbatim>\<open>src/services/engine/tenant-admission.mjs\<close>. A tenant is admitted to
  production exactly while all gates are approved, each with its evidence.
\<close>

section \<open>Helpers\<close>

abbreviation invalid :: "reason \<Rightarrow> 'a res" where
  "invalid r \<equiv> throw INVALID_PRODUCT_CONFIGURATION r"

abbreviation strictObject :: "js \<Rightarrow> string \<Rightarrow> string list \<Rightarrow> js res" where
  "strictObject v name allowedKeys \<equiv> strict_object INVALID_PRODUCT_CONFIGURATION v name allowedKeys"

abbreviation safeInteger :: "js \<Rightarrow> string \<Rightarrow> int \<Rightarrow> int \<Rightarrow> int res" where
  "safeInteger v field lo hi \<equiv> whole_number INVALID_PRODUCT_CONFIGURATION v field lo hi"

text \<open>Texts below U+0100 are in normal form C already, so \<open>normalize("NFC")\<close> is the identity on them.\<close>

definition boundedString :: "js \<Rightarrow> string \<Rightarrow> nat \<Rightarrow> nat \<Rightarrow> string res" where
  "boundedString v field lo hi =
     bindE (bounded_string INVALID_PRODUCT_CONFIGURATION v field lo hi) (\<lambda>s.
     guardE (\<not> has_ctrl s) INVALID_PRODUCT_CONFIGURATION (BadLength field lo hi) (Inr s))"

definition optionalString :: "js \<Rightarrow> string \<Rightarrow> nat \<Rightarrow> string option res" where
  "optionalString v field hi =
     (if absent v then Inr None else bindE (boundedString v field 1 hi) (\<lambda>s. Inr (Some s)))"

definition token :: "js \<Rightarrow> string \<Rightarrow> string res" where
  "token v field =
     bindE (boundedString v field 1 128) (\<lambda>s.
     guardE (opaque_shape s) INVALID_PRODUCT_CONFIGURATION (BadFormat field) (Inr s))"

definition admissionReference :: "js \<Rightarrow> string \<Rightarrow> string res" where
  "admissionReference v field =
     bindE (boundedString v field 1 160) (\<lambda>s.
     guardE (opaque_shape s) INVALID_PRODUCT_CONFIGURATION (BadFormat field) (Inr s))"

definition sha256 :: "js \<Rightarrow> string \<Rightarrow> string res" where
  "sha256 v field =
     (case as_str v of
        None \<Rightarrow> invalid (BadFormat field)
      | Some s \<Rightarrow> guardE (sha256_shape s) INVALID_PRODUCT_CONFIGURATION (BadFormat field) (Inr s))"

text \<open>The time value of a \<open>Date\<close> is in range or missing.\<close>

definition canonicalTimestamp :: "js \<Rightarrow> string \<Rightarrow> string res" where
  "canonicalTimestamp v field =
     (case v of
        JDate d \<Rightarrow> (case d of None \<Rightarrow> invalid (BadFormat field)
                  | Some t \<Rightarrow> guardE (valid_time t) INVALID_PRODUCT_CONFIGURATION (BadFormat field) (Inr (toISOString t)))
      | _ \<Rightarrow> canonical_timestamp INVALID_PRODUCT_CONFIGURATION v field)"

section \<open>Gates\<close>

definition TENANT_ADMISSION_SCHEMA :: string where
  "TENANT_ADMISSION_SCHEMA = ''vasi-tenant-admission/v1''"

definition TENANT_ADMISSION_GATES :: "string list" where
  "TENANT_ADMISSION_GATES =
     [''exact_release'', ''isolation_integrity'', ''identity_delivery'', ''privacy_legal'', ''accessibility'',
      ''malware_content'', ''recovery_custody'', ''capacity_support'']"

definition TENANT_PRODUCTION_STOP_REASONS :: "string list" where
  "TENANT_PRODUCTION_STOP_REASONS =
     [''security_incident'', ''privacy_or_legal'', ''identity_or_delivery'', ''content_safety'',
      ''recovery_or_capacity'', ''operator_decision'']"

datatype gate_state =
    Pending
  | Approved (gs_decidedAt: string) (gs_evidenceDigest: string) (gs_evidenceReference: string)
      (gs_reviewerReference: string)

record gate =
  g_id :: string
  g_state :: gate_state

record admission =
  am_gates :: "gate list"
  am_status :: string

definition derivedAdmissionStatus :: "gate list \<Rightarrow> string" where
  "derivedAdmissionStatus gates =
     (if list_all (\<lambda>g. g_state g \<noteq> Pending) gates then ''admitted'' else ''pending'')"

definition admissionFromGates :: "gate list \<Rightarrow> admission" where
  "admissionFromGates gates = \<lparr>am_gates = gates, am_status = derivedAdmissionStatus gates\<rparr>"

definition defaultTenantAdmission :: admission where
  "defaultTenantAdmission = admissionFromGates (map (\<lambda>i. \<lparr>g_id = i, g_state = Pending\<rparr>) TENANT_ADMISSION_GATES)"

definition validateAdmissionGate :: "js \<Rightarrow> gate res" where
  "validateAdmissionGate v =
     bindE (strictObject v ''tenant admission gate''
       [''decidedAt'', ''evidenceDigest'', ''evidenceReference'', ''id'', ''reviewerReference'', ''state'']) (\<lambda>input.
     bindE (token (get input ''id'') ''gateId'') (\<lambda>gid.
     guardE (gid \<in> set TENANT_ADMISSION_GATES) INVALID_PRODUCT_CONFIGURATION (Because ''admission gate'')
     (bindE (token (get input ''state'') ''state'') (\<lambda>state.
      if state = ''pending'' then
        guardE (get input ''decidedAt'' = JUndef \<and> get input ''evidenceDigest'' = JUndef \<and>
                get input ''evidenceReference'' = JUndef \<and> get input ''reviewerReference'' = JUndef)
          INVALID_PRODUCT_CONFIGURATION (Because ''pending gate with evidence'')
          (Inr \<lparr>g_id = gid, g_state = Pending\<rparr>)
      else
        guardE (state = ''approved'') INVALID_PRODUCT_CONFIGURATION (Because ''admission gate state'')
        (bindE (canonicalTimestamp (get input ''decidedAt'') ''decidedAt'') (\<lambda>decidedAt.
         bindE (sha256 (get input ''evidenceDigest'') ''evidenceDigest'') (\<lambda>digest.
         bindE (admissionReference (get input ''evidenceReference'') ''evidenceReference'') (\<lambda>evidence.
         bindE (admissionReference (get input ''reviewerReference'') ''reviewerReference'') (\<lambda>reviewer.
         Inr \<lparr>g_id = gid, g_state = Approved decidedAt digest evidence reviewer\<rparr>)))))))))"

text \<open>\<open>new Map(...)\<close> keeps the last gate of an identifier.\<close>

definition by_id :: "gate list \<Rightarrow> string \<Rightarrow> gate option" where
  "by_id gates = map_of (rev (map (\<lambda>g. (g_id g, g)) gates))"

definition validateTenantAdmission :: "js \<Rightarrow> admission res" where
  "validateTenantAdmission v =
     bindE (strictObject v ''tenant admission'' [''gates'', ''schema'', ''status'']) (\<lambda>input.
     guardE (get input ''schema'' = JStr TENANT_ADMISSION_SCHEMA) INVALID_PRODUCT_CONFIGURATION
       (Because ''tenant admission schema'')
     (case as_arr (get input ''gates'') of
        None \<Rightarrow> invalid (Because ''gate set incomplete'')
      | Some entries \<Rightarrow>
          guardE (length entries = length TENANT_ADMISSION_GATES) INVALID_PRODUCT_CONFIGURATION (Because ''gate set incomplete'')
          (bindE (mapE validateAdmissionGate entries) (\<lambda>gates.
           guardE (length (uniq (map g_id gates)) = length TENANT_ADMISSION_GATES \<and>
                   list_all (\<lambda>i. by_id gates i \<noteq> None) TENANT_ADMISSION_GATES)
             INVALID_PRODUCT_CONFIGURATION (Because ''gate set invalid'')
           (let ordered = List.map_filter (by_id gates) TENANT_ADMISSION_GATES;
                status = derivedAdmissionStatus ordered
            in guardE (get input ''status'' = JStr status) INVALID_PRODUCT_CONFIGURATION (Because ''status inconsistent'')
                 (Inr \<lparr>am_gates = ordered, am_status = status\<rparr>))))))"

definition gate_js :: "gate \<Rightarrow> js" where
  "gate_js g = (case g_state g of
      Pending \<Rightarrow> JObj [(''id'', JStr (g_id g)), (''state'', JStr ''pending'')]
    | Approved t d e r \<Rightarrow> JObj [(''decidedAt'', JStr t), (''evidenceDigest'', JStr d), (''evidenceReference'', JStr e),
        (''id'', JStr (g_id g)), (''reviewerReference'', JStr r), (''state'', JStr ''approved'')])"

definition admission_js :: "admission \<Rightarrow> js" where
  "admission_js a = JObj [(''gates'', JArr (map gate_js (am_gates a))),
     (''schema'', JStr TENANT_ADMISSION_SCHEMA), (''status'', JStr (am_status a))]"

definition tenantAdmissionStatus :: "js \<Rightarrow> string res" where
  "tenantAdmissionStatus v = bindE (validateTenantAdmission v) (\<lambda>a. Inr (am_status a))"

section \<open>Decisions\<close>

datatype decision = Decide_pending | Decide_approved (dc_digest: string) (dc_evidence: string) (dc_reviewer: string)

record decision_command =
  dcm_decision :: decision
  dcm_expectedRevision :: int
  dcm_gateId :: string
  dcm_tenantId :: string

definition validateTenantAdmissionDecisionCommand :: "js \<Rightarrow> decision_command res" where
  "validateTenantAdmissionDecisionCommand v =
     bindE (strictObject v ''tenant admission decision''
       [''decision'', ''evidenceDigest'', ''evidenceReference'', ''expectedRevision'', ''gateId'',
        ''reviewerReference'', ''tenantId'']) (\<lambda>input.
     bindE (token (get input ''decision'') ''decision'') (\<lambda>decision.
     guardE (decision \<in> set [''approved'', ''pending'']) INVALID_PRODUCT_CONFIGURATION (Because ''admission decision'')
     (bindE (token (get input ''gateId'') ''gateId'') (\<lambda>gateId.
      guardE (gateId \<in> set TENANT_ADMISSION_GATES) INVALID_PRODUCT_CONFIGURATION (Because ''admission gate'')
      (bindE (safeInteger (get input ''expectedRevision'') ''expectedRevision'' 1 MAX_SAFE_INTEGER) (\<lambda>rev.
       bindE (token (get input ''tenantId'') ''tenantId'') (\<lambda>tenantId.
       bindE (if decision = ''approved'' then
                bindE (sha256 (get input ''evidenceDigest'') ''evidenceDigest'') (\<lambda>digest.
                bindE (admissionReference (get input ''evidenceReference'') ''evidenceReference'') (\<lambda>evidence.
                bindE (admissionReference (get input ''reviewerReference'') ''reviewerReference'') (\<lambda>reviewer.
                Inr (Decide_approved digest evidence reviewer))))
              else guardE (get input ''evidenceDigest'' = JUndef \<and> get input ''evidenceReference'' = JUndef \<and>
                           get input ''reviewerReference'' = JUndef)
                     INVALID_PRODUCT_CONFIGURATION (Because ''pending decision with evidence'') (Inr Decide_pending)) (\<lambda>d.
       Inr \<lparr>dcm_decision = d, dcm_expectedRevision = rev, dcm_gateId = gateId, dcm_tenantId = tenantId\<rparr>))))))))"

record production_stop =
  ps_commandId :: string
  ps_expectedRevision :: int
  ps_gateId :: string
  ps_incidentReference :: string
  ps_reasonCode :: string
  ps_tenantId :: string

definition validateTenantProductionStopCommand :: "js \<Rightarrow> production_stop res" where
  "validateTenantProductionStopCommand v =
     bindE (strictObject v ''tenant production stop''
       [''commandId'', ''expectedRevision'', ''gateId'', ''incidentReference'', ''reasonCode'', ''tenantId'']) (\<lambda>input.
     bindE (token (get input ''gateId'') ''gateId'') (\<lambda>gateId.
     guardE (gateId \<in> set TENANT_ADMISSION_GATES) INVALID_PRODUCT_CONFIGURATION (Because ''admission gate'')
     (bindE (token (get input ''reasonCode'') ''reasonCode'') (\<lambda>reasonCode.
      guardE (reasonCode \<in> set TENANT_PRODUCTION_STOP_REASONS) INVALID_PRODUCT_CONFIGURATION (Because ''stop reason'')
      (bindE (token (get input ''commandId'') ''commandId'') (\<lambda>commandId.
       bindE (safeInteger (get input ''expectedRevision'') ''expectedRevision'' 1 MAX_SAFE_INTEGER) (\<lambda>rev.
       bindE (admissionReference (get input ''incidentReference'') ''incidentReference'') (\<lambda>incident.
       bindE (token (get input ''tenantId'') ''tenantId'') (\<lambda>tenantId.
       Inr \<lparr>ps_commandId = commandId, ps_expectedRevision = rev, ps_gateId = gateId,
            ps_incidentReference = incident, ps_reasonCode = reasonCode, ps_tenantId = tenantId\<rparr>)))))))))"

definition decide_gate :: "decision_command \<Rightarrow> string \<Rightarrow> gate \<Rightarrow> gate" where
  "decide_gate c timestamp g =
     (if g_id g \<noteq> dcm_gateId c then g
      else case dcm_decision c of
        Decide_pending \<Rightarrow> \<lparr>g_id = g_id g, g_state = Pending\<rparr>
      | Decide_approved d e r \<Rightarrow> \<lparr>g_id = g_id g, g_state = Approved timestamp d e r\<rparr>)"

definition applyTenantAdmissionDecision :: "js \<Rightarrow> js \<Rightarrow> js \<Rightarrow> admission res" where
  "applyTenantAdmissionDecision v commandValue decidedAt =
     bindE (validateTenantAdmission v) (\<lambda>admission.
     bindE (validateTenantAdmissionDecisionCommand commandValue) (\<lambda>command.
     bindE (canonicalTimestamp decidedAt ''decidedAt'') (\<lambda>timestamp.
     Inr (admissionFromGates (map (decide_gate command timestamp) (am_gates admission))))))"

section \<open>The stored admission\<close>

record admission_row =
  rw_admission :: js
  rw_admissionHash :: string
  rw_createdAt :: js
  rw_createdByPrincipalId :: string
  rw_id :: string
  rw_revision :: int

record admission_projection =
  apj_admission :: admission
  apj_admissionHash :: string
  apj_createdAt :: string
  apj_createdByPrincipalId :: string
  apj_id :: string
  apj_revision :: int
  apj_status :: string

abbreviation integrity_failure :: "'a res" where
  "integrity_failure \<equiv> throw (STORE_ERROR 500) (Because ''tenant_admission_integrity_failure'')"

definition tenantAdmissionProjection :: "runtime \<Rightarrow> (string \<Rightarrow> string) \<Rightarrow> admission_row \<Rightarrow> admission_projection res" where
  "tenantAdmissionProjection R H row =
     (case validateTenantAdmission (rw_admission row) of
        Inl _ \<Rightarrow> integrity_failure
      | Inr a \<Rightarrow>
          bindE (hashCanonicalJSON H (admission_js a)) (\<lambda>h.
          if h \<noteq> rw_admissionHash row then integrity_failure
          else case new_Date R (rw_createdAt row) of
                 None \<Rightarrow> integrity_failure
               | Some t \<Rightarrow> Inr \<lparr>apj_admission = a, apj_admissionHash = rw_admissionHash row, apj_createdAt = toISOString t,
                               apj_createdByPrincipalId = rw_createdByPrincipalId row, apj_id = rw_id row,
                               apj_revision = rw_revision row, apj_status = am_status a\<rparr>))"

definition activeTenantAdmission :: "runtime \<Rightarrow> (string \<Rightarrow> string) \<Rightarrow> (string \<Rightarrow> admission_row option) \<Rightarrow> string \<Rightarrow> admission_projection res" where
  "activeTenantAdmission R H db tenantId =
     (case db tenantId of
        None \<Rightarrow> throw (STORE_ERROR 409) (Because ''tenant_not_admitted'')
      | Some row \<Rightarrow> tenantAdmissionProjection R H row)"

definition assertTenantAdmitted :: "runtime \<Rightarrow> (string \<Rightarrow> string) \<Rightarrow> (string \<Rightarrow> admission_row option) \<Rightarrow> string \<Rightarrow> admission_projection res" where
  "assertTenantAdmitted R H db tenantId =
     bindE (activeTenantAdmission R H db tenantId) (\<lambda>p.
     guardE (apj_status p = ''admitted'') (STORE_ERROR 409) (Because ''tenant_not_admitted'') (Inr p))"

record admission_evidence =
  ae_admission :: admission
  ae_admissionHash :: string
  ae_bindingProvenance :: string
  ae_revision :: int
  ae_revisionId :: string

definition tenantAdmissionEvidenceProjection :: "admission_projection \<Rightarrow> admission_evidence" where
  "tenantAdmissionEvidenceProjection p = \<lparr>ae_admission = apj_admission p, ae_admissionHash = apj_admissionHash p,
     ae_bindingProvenance = ''issued'', ae_revision = apj_revision p, ae_revisionId = apj_id p\<rparr>"

section \<open>Lemmas\<close>

definition ref_ok :: "nat \<Rightarrow> string \<Rightarrow> bool" where
  "ref_ok n s = (js_trim s = s \<and> 1 \<le> length s \<and> length s \<le> n \<and> \<not> has_ctrl s \<and> opaque_shape s)"

fun state_ok :: "gate_state \<Rightarrow> bool" where
  "state_ok Pending = True"
| "state_ok (Approved t d e r) = (canonical_iso t \<and> sha256_shape d \<and> ref_ok 160 e \<and> ref_ok 160 r)"

definition admission_ok :: "admission \<Rightarrow> bool" where
  "admission_ok a =
     (map g_id (am_gates a) = TENANT_ADMISSION_GATES \<and> list_all (\<lambda>g. state_ok (g_state g)) (am_gates a) \<and>
      am_status a = derivedAdmissionStatus (am_gates a))"

lemma token_Inr [res_simps]:
  "token v f = Inr s \<longleftrightarrow> (\<exists>r. v = JStr r \<and> s = js_trim r \<and> 1 \<le> length s \<and> length s \<le> 128 \<and> \<not> has_ctrl s \<and> opaque_shape s)"
  by (auto simp: token_def boundedString_def res_simps)

lemma admissionReference_Inr [res_simps]:
  "admissionReference v f = Inr s \<longleftrightarrow> (\<exists>r. v = JStr r \<and> s = js_trim r \<and> ref_ok 160 s)"
  by (auto simp: admissionReference_def boundedString_def ref_ok_def res_simps)

lemma sha256_Inr [res_simps]: "sha256 v f = Inr s \<longleftrightarrow> v = JStr s \<and> sha256_shape s"
  by (auto simp: sha256_def res_simps js_simps split: option.splits)

lemma canonicalTimestamp_JStr [simp]: "canonical_iso s \<Longrightarrow> canonicalTimestamp (JStr s) f = Inr s"
  by (simp add: canonicalTimestamp_def canonical_timestamp_Inr)

lemma canonicalTimestamp_iso: "canonicalTimestamp v f = Inr s \<Longrightarrow> canonical_iso s"
  by (auto simp: canonicalTimestamp_def canonical_toISOString canonical_timestamp_Inr guardE_Inr
      split: js.splits option.splits)

lemma gate_names: "list_all (ref_ok 128) TENANT_ADMISSION_GATES" "distinct TENANT_ADMISSION_GATES"
  by code_simp+

lemma gate_words: "ref_ok 128 ''pending''" "ref_ok 128 ''approved''"
  by code_simp+

lemma token_JStr: "ref_ok 128 s \<Longrightarrow> token (JStr s) f = Inr s"
  by (auto simp: token_Inr ref_ok_def)

lemma admissionReference_JStr: "ref_ok 160 s \<Longrightarrow> admissionReference (JStr s) f = Inr s"
  by (auto simp: admissionReference_Inr ref_ok_def)

lemma sha256_JStr: "sha256_shape s \<Longrightarrow> sha256 (JStr s) f = Inr s"
  by (simp add: sha256_Inr)

lemma validateAdmissionGate_ok:
  assumes "validateAdmissionGate v = Inr g"
  shows "g_id g \<in> set TENANT_ADMISSION_GATES \<and> state_ok (g_state g)"
proof -
  from assms obtain input gid state where gid: "gid \<in> set TENANT_ADMISSION_GATES" and
    b: "(if state = ''pending'' then
        guardE (get input ''decidedAt'' = JUndef \<and> get input ''evidenceDigest'' = JUndef \<and>
                get input ''evidenceReference'' = JUndef \<and> get input ''reviewerReference'' = JUndef)
          INVALID_PRODUCT_CONFIGURATION (Because ''pending gate with evidence'')
          (Inr \<lparr>g_id = gid, g_state = Pending\<rparr>)
      else
        guardE (state = ''approved'') INVALID_PRODUCT_CONFIGURATION (Because ''admission gate state'')
        (bindE (canonicalTimestamp (get input ''decidedAt'') ''decidedAt'') (\<lambda>decidedAt.
         bindE (sha256 (get input ''evidenceDigest'') ''evidenceDigest'') (\<lambda>digest.
         bindE (admissionReference (get input ''evidenceReference'') ''evidenceReference'') (\<lambda>evidence.
         bindE (admissionReference (get input ''reviewerReference'') ''reviewerReference'') (\<lambda>reviewer.
         Inr \<lparr>g_id = gid, g_state = Approved decidedAt digest evidence reviewer\<rparr>)))))) = Inr g"
    unfolding validateAdmissionGate_def by (elim res_elims) blast
  show ?thesis
  proof (cases "state = ''pending''")
    case True
    with b gid show ?thesis by (auto simp: guardE_Inr)
  next
    case False
    with b obtain t d e r where "g = \<lparr>g_id = gid, g_state = Approved t d e r\<rparr>"
      "canonicalTimestamp (get input ''decidedAt'') ''decidedAt'' = Inr t"
      "sha256 (get input ''evidenceDigest'') ''evidenceDigest'' = Inr d"
      "admissionReference (get input ''evidenceReference'') ''evidenceReference'' = Inr e"
      "admissionReference (get input ''reviewerReference'') ''reviewerReference'' = Inr r"
      by (simp only: if_False) (elim res_elims, auto)
    then show ?thesis
      using gid canonicalTimestamp_iso by (auto simp: sha256_Inr admissionReference_Inr)
  qed
qed

lemma validateAdmissionGate_encode:
  assumes "g_id g \<in> set TENANT_ADMISSION_GATES" "state_ok (g_state g)"
  shows "validateAdmissionGate (gate_js g) = Inr g"
proof -
  have id: "token (JStr (g_id g)) f = Inr (g_id g)" for f
    using assms(1) gate_names(1) by (intro token_JStr) (auto simp: list_all_iff)
  show ?thesis
  proof (cases "g_state g")
    case Pending
    then show ?thesis
      using assms(1)
      by (simp add: validateAdmissionGate_def gate_js_def strict_object_JObj id token_JStr[OF gate_words(1)] proto_names_def)
  next
    case (Approved t d e r)
    then show ?thesis
      using assms
      by (simp add: validateAdmissionGate_def gate_js_def strict_object_JObj id token_JStr[OF gate_words(2)]
          admissionReference_JStr sha256_JStr)
  qed
qed

lemma by_id_Some: "by_id gates i = Some g \<Longrightarrow> g \<in> set gates \<and> g_id g = i"
  unfolding by_id_def by (auto dest!: map_of_SomeD)

lemma by_id_nth:
  assumes "distinct (map g_id gates)" "g \<in> set gates"
  shows "by_id gates (g_id g) = Some g"
proof -
  have "distinct (map fst (rev (map (\<lambda>g. (g_id g, g)) gates)))" using assms(1) by (simp add: rev_map[symmetric] comp_def)
  then show ?thesis unfolding by_id_def using assms(2) by (intro map_of_is_SomeI) auto
qed

lemma ordered_gates:
  assumes "list_all (\<lambda>i. by_id gates i \<noteq> None) ids"
  shows "map g_id (List.map_filter (by_id gates) ids) = ids \<and> set (List.map_filter (by_id gates) ids) \<subseteq> set gates"
  using assms by (induction ids) (auto simp: List.map_filter_simps split: option.splits dest: by_id_Some)

lemma ordered_id:
  assumes "distinct (map g_id gates)"
  shows "List.map_filter (by_id gates) (map g_id gates) = gates"
proof -
  have "List.map_filter (by_id gates) (map g_id gs) = gs" if "set gs \<subseteq> set gates" for gs
    using that by (induction gs) (auto simp: List.map_filter_simps by_id_nth[OF assms])
  then show ?thesis by blast
qed

lemma validateTenantAdmission_ok:
  assumes "validateTenantAdmission v = Inr a"
  shows "admission_ok a"
proof -
  from assms obtain entries gates where
    m: "mapE validateAdmissionGate entries = Inr gates" and
    i: "list_all (\<lambda>i. by_id gates i \<noteq> None) TENANT_ADMISSION_GATES" and
    a: "a = \<lparr>am_gates = List.map_filter (by_id gates) TENANT_ADMISSION_GATES,
             am_status = derivedAdmissionStatus (List.map_filter (by_id gates) TENANT_ADMISSION_GATES)\<rparr>"
    unfolding validateTenantAdmission_def Let_def by (elim res_elims) (auto simp only: sum.inject)
  have "\<forall>g \<in> set gates. state_ok (g_state g)" using mapE_memD[OF m] validateAdmissionGate_ok by blast
  then show ?thesis
    using ordered_gates[OF i] by (auto simp: admission_ok_def a list_all_iff)
qed

lemma validateTenantAdmission_encode:
  assumes "admission_ok a"
  shows "validateTenantAdmission (admission_js a) = Inr a"
proof -
  have ids: "map g_id (am_gates a) = TENANT_ADMISSION_GATES" using assms by (simp add: admission_ok_def)
  have dis: "distinct (map g_id (am_gates a))" using gate_names(2) ids by simp
  have "validateAdmissionGate (gate_js g) = Inr g" if "g \<in> set (am_gates a)" for g
  proof (rule validateAdmissionGate_encode)
    show "g_id g \<in> set TENANT_ADMISSION_GATES" unfolding ids[symmetric] using that by simp
    show "state_ok (g_state g)" using that assms by (simp add: admission_ok_def list_all_iff)
  qed
  then have "list_all2 (\<lambda>v g. validateAdmissionGate v = Inr g) (map gate_js (am_gates a)) (am_gates a)"
    by (simp add: list_all2_map1 list_all2_same)
  then have m: "mapE validateAdmissionGate (map gate_js (am_gates a)) = Inr (am_gates a)" by (simp add: mapE_Inr)
  have all: "list_all (\<lambda>i. by_id (am_gates a) i \<noteq> None) TENANT_ADMISSION_GATES"
    unfolding ids[symmetric] using by_id_nth[OF dis] by (auto simp: list_all_iff)
  have ord: "List.map_filter (by_id (am_gates a)) TENANT_ADMISSION_GATES = am_gates a"
    using ordered_id[OF dis] ids by simp
  have len: "length (am_gates a) = length TENANT_ADMISSION_GATES" using ids by (metis length_map)
  have u: "length (uniq (map g_id (am_gates a))) = length TENANT_ADMISSION_GATES"
    using dis ids by (simp add: uniq_id)
  show ?thesis
    using assms all u
    by (simp add: validateTenantAdmission_def admission_js_def strict_object_JObj m ord len Let_def guardE_def admission_ok_def)
qed

interpretation admission: normalizer validateTenantAdmission admission_js
  by unfold_locales (blast intro: validateTenantAdmission_encode validateTenantAdmission_ok)

section \<open>Properties\<close>

lemma decide_gate_ok:
  assumes "validateTenantAdmissionDecisionCommand cv = Inr c" "canonical_iso t" "state_ok (g_state g)"
  shows "state_ok (g_state (decide_gate c t g)) \<and> g_id (decide_gate c t g) = g_id g"
proof -
  have "state_ok (Approved t d e r)" if "dcm_decision c = Decide_approved d e r" for d e r
    using assms(1) that assms(2) unfolding validateTenantAdmissionDecisionCommand_def
    by (elim res_elims) (auto simp: sha256_Inr admissionReference_Inr guardE_Inr bindE_Inr split: if_splits)
  then show ?thesis using assms(3) by (auto simp: decide_gate_def split: decision.split)
qed

lemma derived_admitted: "derivedAdmissionStatus gs = ''admitted'' \<longleftrightarrow> (\<forall>g \<in> set gs. g_state g \<noteq> Pending)"
  by (simp add: derivedAdmissionStatus_def list_all_iff)

text \<open>
  C23. Deciding a gate yields an admission that passes its own validation, keeps the eight gates
  in order, changes no gate but the named one, and is admitted exactly when every gate is
  approved: withdrawing any gate (a production stop) always ends admission.
\<close>

theorem admission_decision_sound:
  assumes "applyTenantAdmissionDecision v cv at0 = Inr a"
  shows "\<exists>old c. validateTenantAdmission v = Inr old \<and> validateTenantAdmissionDecisionCommand cv = Inr c \<and>
    validateTenantAdmission (admission_js a) = Inr a \<and> map g_id (am_gates a) = TENANT_ADMISSION_GATES \<and>
    (\<forall>g \<in> set (am_gates a). g_id g \<noteq> dcm_gateId c \<longrightarrow> g \<in> set (am_gates old)) \<and>
    (am_status a = ''admitted'' \<longleftrightarrow> (\<forall>g \<in> set (am_gates a). g_state g \<noteq> Pending)) \<and>
    (dcm_decision c = Decide_pending \<longrightarrow> am_status a = ''pending'')"
proof -
  from assms obtain old c t where o: "validateTenantAdmission v = Inr old"
    and c: "validateTenantAdmissionDecisionCommand cv = Inr c"
    and t: "canonicalTimestamp at0 ''decidedAt'' = Inr t"
    and a: "a = admissionFromGates (map (decide_gate c t) (am_gates old))"
    unfolding applyTenantAdmissionDecision_def by (elim res_elims) auto
  note ok = validateTenantAdmission_ok[OF o]
  note dg = decide_gate_ok[OF c canonicalTimestamp_iso[OF t]]
  have "map (\<lambda>x. g_id (decide_gate c t x)) (am_gates old) = map g_id (am_gates old)"
    using dg ok by (intro map_cong) (auto simp: admission_ok_def list_all_iff)
  then have "map g_id (am_gates a) = map g_id (am_gates old)" by (simp only: a admissionFromGates_def admission.simps map_map comp_def)
  then have ids: "map g_id (am_gates a) = TENANT_ADMISSION_GATES" using ok by (simp add: admission_ok_def)
  have aok: "admission_ok a"
    using ok dg ids by (auto simp: a admissionFromGates_def admission_ok_def list_all_iff)
  have "dcm_gateId c \<in> set TENANT_ADMISSION_GATES"
    using c unfolding validateTenantAdmissionDecisionCommand_def by (elim res_elims) auto
  then obtain g where g: "g \<in> set (am_gates old)" "g_id g = dcm_gateId c"
    using ok by (metis (no_types, lifting) admission_ok_def imageE list.set_map)
  have "am_status a = ''pending''" if "dcm_decision c = Decide_pending"
  proof -
    have "g_state (decide_gate c t g) = Pending" using that g(2) by (simp add: decide_gate_def)
    then have "\<not> list_all (\<lambda>g. g_state g \<noteq> Pending) (am_gates a)"
      using g(1) by (auto simp: a admissionFromGates_def list_all_iff)
    then show ?thesis by (simp add: a admissionFromGates_def derivedAdmissionStatus_def)
  qed
  moreover have "h \<in> set (am_gates old)" if "h \<in> set (am_gates a)" "g_id h \<noteq> dcm_gateId c" for h
    using that dg ok
    by (auto simp: a admissionFromGates_def decide_gate_def admission_ok_def list_all_iff split: if_splits decision.splits)
  ultimately show ?thesis
    using o c ids validateTenantAdmission_encode[OF aok] aok by (auto simp: derived_admitted admission_ok_def)
qed

text \<open>
  C24. The production guard is sound and complete on stored admissions: it passes exactly on a
  row whose admission validates with the stored hash and has all eight gates approved, and a row
  the engine wrote for a validated admission is never reported as an integrity failure.
\<close>

theorem production_guard:
  assumes "db tenantId = Some row" "new_Date R (rw_createdAt row) = Some t"
    and "validateTenantAdmission v = Inr a" "hashCanonicalJSON H (admission_js a) = Inr h"
    and "rw_admission row = admission_js a" "rw_admissionHash row = h"
  shows "(\<exists>p. activeTenantAdmission R H db tenantId = Inr p \<and> apj_admission p = a) \<and>
    ((\<exists>p. assertTenantAdmitted R H db tenantId = Inr p) \<longleftrightarrow>
       map g_id (am_gates a) = TENANT_ADMISSION_GATES \<and>
       (\<forall>g \<in> set (am_gates a). \<exists>s d e r. g_state g = Approved s d e r \<and> sha256_shape d))"
proof -
  have st: "validateTenantAdmission (admission_js a) = Inr a" by (rule admission.stored_accepted[OF assms(3)])
  have ok: "admission_ok a" by (rule validateTenantAdmission_ok[OF assms(3)])
  have act: "\<exists>p. activeTenantAdmission R H db tenantId = Inr p \<and> apj_admission p = a \<and> apj_status p = am_status a"
    using assms st by (simp add: activeTenantAdmission_def tenantAdmissionProjection_def)
  have "(\<forall>g \<in> set (am_gates a). \<exists>s d e r. g_state g = Approved s d e r \<and> sha256_shape d) \<longleftrightarrow>
      (\<forall>g \<in> set (am_gates a). g_state g \<noteq> Pending)"
    using ok by (fastforce simp: admission_ok_def list_all_iff elim: state_ok.elims)
  then have "(am_status a = ''admitted'') \<longleftrightarrow>
      (\<forall>g \<in> set (am_gates a). \<exists>s d e r. g_state g = Approved s d e r \<and> sha256_shape d)"
    using ok by (simp add: admission_ok_def derived_admitted)
  moreover have "(\<exists>p. assertTenantAdmitted R H db tenantId = Inr p) \<longleftrightarrow> am_status a = ''admitted''"
    using act by (auto simp: assertTenantAdmitted_def guardE_Inr)
  ultimately show ?thesis using act ok by (auto simp: admission_ok_def)
qed

text \<open>
  A stored admission that was changed without its hash is refused: the guard fails with an
  integrity error unless the changed admission has the same canonical text or collides with it.
\<close>

theorem admission_tamper_detected:
  assumes "db tenantId = Some row" "activeTenantAdmission R H db tenantId = Inr p"
    and "validateTenantAdmission v = Inr a" "canonicalJSON (admission_js a) = Inr s" "rw_admissionHash row = H s"
  shows "\<exists>s'. canonicalJSON (admission_js (apj_admission p)) = Inr s' \<and> (s' = s \<or> (s' \<noteq> s \<and> H s' = H s))"
  using assms
  by (auto simp: activeTenantAdmission_def tenantAdmissionProjection_def hashCanonicalJSON_def res_simps
      split: sum.splits if_splits option.splits)

section \<open>Witnesses\<close>

definition demo_decision :: js where
  "demo_decision = JObj [(''decision'', JStr ''pending''), (''expectedRevision'', JInt 1),
     (''gateId'', JStr ''accessibility''), (''tenantId'', JStr ''t1'')]"

lemma default_admission_valid: "validateTenantAdmission (admission_js defaultTenantAdmission) = Inr defaultTenantAdmission"
proof -
  have "admission_ok defaultTenantAdmission"
    by (simp add: admission_ok_def defaultTenantAdmission_def admissionFromGates_def list_all_iff comp_def)
  then show ?thesis by (rule validateTenantAdmission_encode)
qed

lemma demo_decision_valid:
  "\<exists>c. validateTenantAdmissionDecisionCommand demo_decision = Inr c"
proof -
  have "(case validateTenantAdmissionDecisionCommand demo_decision of Inr _ \<Rightarrow> True | Inl _ \<Rightarrow> False)" by code_simp
  then show ?thesis by (auto split: sum.splits)
qed

theorem admission_decision_sound_witness:
  "\<exists>a. applyTenantAdmissionDecision (admission_js defaultTenantAdmission) demo_decision (JDate (Some 0)) = Inr a \<and>
     map g_id (am_gates a) = TENANT_ADMISSION_GATES"
proof -
  obtain a where a: "applyTenantAdmissionDecision (admission_js defaultTenantAdmission) demo_decision (JDate (Some 0)) = Inr a"
    using demo_decision_valid
    by (auto simp: applyTenantAdmissionDecision_def default_admission_valid canonicalTimestamp_def valid_time_def max_time_def)
  with admission_decision_sound[OF a] show ?thesis by blast
qed

definition demo_row :: admission_row where
  "demo_row = \<lparr>rw_admission = admission_js defaultTenantAdmission,
     rw_admissionHash = (case canonicalJSON (admission_js defaultTenantAdmission) of Inr s \<Rightarrow> s | Inl _ \<Rightarrow> []),
     rw_createdAt = JDate (Some 0), rw_createdByPrincipalId = ''p'', rw_id = ''r1'', rw_revision = 1\<rparr>"

definition demo_db :: "string \<Rightarrow> admission_row option" where
  "demo_db tenantId = (if tenantId = ''t1'' then Some demo_row else None)"

definition no_runtime :: runtime where
  "no_runtime = \<lparr>new_URL = (\<lambda>_. None), parse_date = (\<lambda>_. None)\<rparr>"

lemma demo_canonical: "\<exists>s. canonicalJSON (admission_js defaultTenantAdmission) = Inr s"
proof -
  have "(case canonicalJSON (admission_js defaultTenantAdmission) of Inr _ \<Rightarrow> True | Inl _ \<Rightarrow> False)" by code_simp
  then show ?thesis by (auto split: sum.splits)
qed

theorem production_guard_witness:
  "(\<exists>p. activeTenantAdmission no_runtime id demo_db ''t1'' = Inr p \<and> apj_admission p = defaultTenantAdmission) \<and>
   \<not> (\<exists>p. assertTenantAdmitted no_runtime id demo_db ''t1'' = Inr p)"
proof -
  obtain s where s: "canonicalJSON (admission_js defaultTenantAdmission) = Inr s" using demo_canonical by blast
  have h: "hashCanonicalJSON id (admission_js defaultTenantAdmission) = Inr s" by (simp add: hashCanonicalJSON_def s)
  have "\<exists>g \<in> set (am_gates defaultTenantAdmission). g_state g = Pending"
    by (simp add: defaultTenantAdmission_def admissionFromGates_def TENANT_ADMISSION_GATES_def)
  then show ?thesis
    using production_guard[of demo_db "''t1''" demo_row no_runtime 0, OF _ _ default_admission_valid h]
    by (auto simp: demo_db_def demo_row_def s)
qed

theorem admission_tamper_detected_witness:
  "\<exists>p s'. activeTenantAdmission no_runtime id demo_db ''t1'' = Inr p \<and> canonicalJSON (admission_js (apj_admission p)) = Inr s'"
proof -
  obtain s where s: "canonicalJSON (admission_js defaultTenantAdmission) = Inr s" using demo_canonical by blast
  obtain p where p: "activeTenantAdmission no_runtime id demo_db ''t1'' = Inr p"
    using default_admission_valid s
    by (auto simp: activeTenantAdmission_def tenantAdmissionProjection_def demo_db_def demo_row_def hashCanonicalJSON_def)
  have "rw_admissionHash demo_row = id s" by (simp add: demo_row_def s)
  from admission_tamper_detected[OF _ p default_admission_valid s this] p show ?thesis by (auto simp: demo_db_def)
qed

end
