(* ===== verification/HashChain.thy ===== *)
theory HashChain
  imports Normalizer
begin

text \<open>
  Hash chains. Five tables of the system are append-only chains: evidence events, record lifecycle
  events, participant data request events, product configuration events and the administrator
  audit. Each row carries the hash of its predecessor and a digest over a text that contains it.

  The locale \<open>hash_chain\<close> states what a row promises; its lemma \<open>same_head\<close> is tamper evidence:
  two chains with the same head hash record the same texts, unless two of their texts collide or
  one of them hashes to the start value. \<open>append_link\<close> is the append operation the engine's four
  canonical-JSON chains share, and the locale \<open>link_builder\<close> what it relies on: the hashed object
  names its predecessor and its sequence number.
\<close>

section \<open>Chains of rows\<close>

fun chained :: "('r \<Rightarrow> string) \<Rightarrow> ('r \<Rightarrow> string) \<Rightarrow> ('r \<Rightarrow> bool) \<Rightarrow> string \<Rightarrow> 'r list \<Rightarrow> bool" where
  "chained prev hash ok p [] = True"
| "chained prev hash ok p (r # rs) = (prev r = p \<and> ok r \<and> chained prev hash ok (hash r) rs)"

fun head_hash :: "('r \<Rightarrow> string) \<Rightarrow> string \<Rightarrow> 'r list \<Rightarrow> string" where
  "head_hash hash p [] = p"
| "head_hash hash p (r # rs) = head_hash hash (hash r) rs"

lemma head_hash_append [simp]: "head_hash hash p (rs @ ss) = head_hash hash (head_hash hash p rs) ss"
  by (induction rs arbitrary: p) auto

lemma chained_append [simp]:
  "chained prev hash ok p (rs @ ss) \<longleftrightarrow> chained prev hash ok p rs \<and> chained prev hash ok (head_hash hash p rs) ss"
  by (induction rs arbitrary: p) auto

lemma chained_ok: "chained prev hash ok p rs \<Longrightarrow> r \<in> set rs \<Longrightarrow> ok r"
  by (induction rs arbitrary: p) auto

locale hash_chain =
  fixes H :: "string \<Rightarrow> string" and content :: "'r \<Rightarrow> string"
    and prev hash :: "'r \<Rightarrow> string" and ok :: "'r \<Rightarrow> bool"
  assumes digest: "ok r \<Longrightarrow> hash r = H (content r)"
    and content_prev: "ok r \<Longrightarrow> ok s \<Longrightarrow> content r = content s \<Longrightarrow> prev r = prev s"
begin

lemma same_head:
  assumes "chained prev hash ok g rs" "chained prev hash ok g ss"
    and "head_hash hash g rs = head_hash hash g ss"
  shows "map content rs = map content ss \<or>
    (\<exists>r \<in> set rs. \<exists>s \<in> set ss. content r \<noteq> content s \<and> H (content r) = H (content s)) \<or>
    (\<exists>r \<in> set rs \<union> set ss. H (content r) = g)"
  using assms
proof (induction rs arbitrary: ss rule: rev_induct)
  case Nil
  then show ?case
  proof (cases ss rule: rev_cases)
    case (snoc ys y)
    with Nil digest show ?thesis by auto
  qed simp
next
  case (snoc r rs)
  show ?case
  proof (cases ss rule: rev_cases)
    case Nil
    with snoc.prems digest show ?thesis by auto
  next
    case S: (snoc ys y)
    from snoc.prems S have ok: "ok r" "ok y" and prev: "prev r = head_hash hash g rs" "prev y = head_hash hash g ys"
      and eq: "H (content r) = H (content y)"
      by (auto simp flip: digest)
    show ?thesis
    proof (cases "content r = content y")
      case True
      then have "head_hash hash g rs = head_hash hash g ys" using content_prev[OF ok] prev by simp
      then have "map content rs = map content ys \<or>
          (\<exists>r \<in> set rs. \<exists>s \<in> set ys. content r \<noteq> content s \<and> H (content r) = H (content s)) \<or>
          (\<exists>r \<in> set rs \<union> set ys. H (content r) = g)"
        using snoc.prems S by (intro snoc.IH) auto
      with True S show ?thesis by auto
    next
      case False
      with eq S show ?thesis by auto
    qed
  qed
qed

lemma prefix_fixed:
  assumes "chained prev hash ok g (rs @ rs')" "chained prev hash ok g ss"
    and "head_hash hash g rs = head_hash hash g ss"
    and "\<forall>r \<in> set rs \<union> set ss. H (content r) \<noteq> g" "inj_on H (content ` (set rs \<union> set ss))"
  shows "map content ss = map content rs"
  using same_head[of g rs ss] assms by (auto simp: inj_on_def)

end

section \<open>Reading a property of a canonical value\<close>

lemma map_of_filter_fst: "map_of (filter (\<lambda>p. fst p = k) ps) k = map_of ps k"
  by (induction ps) auto

lemma map_of_sort_key: "map_of (sort_key fst ps) k = map_of ps k"
  by (metis map_of_filter_fst sort_key_stable)

lemma map_of_own_order: "map_of (own_order ps) k = map_of ps k"
proof -
  have c: "map_of (filter (\<lambda>p. P (fst p)) ps) k = (if P k then map_of ps k else None)" for P and ps :: "(string \<times> js) list"
    by (induction ps) auto
  have "map_of (sort_key (\<lambda>p. read_nat (fst p)) qs) k = map_of qs k" if "\<forall>q \<in> set qs. is_index_key (fst q)" for qs :: "(string \<times> js) list"
  proof -
    have "filter (\<lambda>p. fst p = k) (filter (\<lambda>p. read_nat (fst p) = read_nat k) (sort_key (\<lambda>p. read_nat (fst p)) qs)) =
        filter (\<lambda>p. fst p = k) (filter (\<lambda>p. read_nat (fst p) = read_nat k) qs)"
      by (simp only: sort_key_stable)
    then have "filter (\<lambda>p. fst p = k) (sort_key (\<lambda>p. read_nat (fst p)) qs) = filter (\<lambda>p. fst p = k) qs"
      by (simp add: filter_filter cong: filter_cong) (metis (mono_tags, lifting) filter_cong)
    then show ?thesis by (metis map_of_filter_fst)
  qed
  then show ?thesis
    by (auto simp: own_order_def map_add_def c[of is_index_key] c[of "\<lambda>k. \<not> is_index_key k"] split: option.splits)
qed

lemma map_of_mapE:
  assumes "mapE (\<lambda>p. bindE (f (snd p)) (\<lambda>v. Inr (fst p, v))) ps = Inr qs" "map_of ps k = Some v"
  shows "\<exists>u. f v = Inr u \<and> map_of qs k = Some u"
  using assms by (induction ps arbitrary: qs) (auto simp: res_simps split: if_splits)

lemma map_of_keep: "map_of ps k = Some v \<Longrightarrow> v \<noteq> JUndef \<Longrightarrow> map_of (filter keep_member ps) k = Some v"
  by (induction ps) (auto split: if_splits)

lemma map_of_own_members: "k \<noteq> ''__proto__'' \<Longrightarrow> map_of (own_members ps) k = map_of ps k"
  by (induction ps) (auto simp: own_members_def)

lemma canonical_get:
  assumes "canonicalValue (JObj ps) = Inr w" "map_of ps k = Some v" "v \<noteq> JUndef" "k \<noteq> ''__proto__''"
  shows "\<exists>u. canonicalValue v = Inr u \<and> get w k = u"
proof -
  from assms(1) obtain qs where qs: "mapE (\<lambda>p. bindE (canonicalValue (snd p)) (\<lambda>v. Inr (fst p, v)))
      (filter keep_member (sort_key fst ps)) = Inr qs" and w: "w = JObj (own_order (own_members qs))"
    by (auto simp: res_simps)
  have "map_of (filter keep_member (sort_key fst ps)) k = Some v"
    using assms(2,3) by (intro map_of_keep) (simp_all add: map_of_sort_key)
  from map_of_mapE[OF qs this] obtain u where "canonicalValue v = Inr u" "map_of qs k = Some u" by blast
  then show ?thesis using assms(4) by (simp add: w map_of_own_order map_of_own_members)
qed

lemma canonical_get_JStr:
  assumes "canonicalValue v = Inr w" "get v k = JStr s" "k \<noteq> ''__proto__''"
  shows "get w k = JStr s"
proof -
  from assms(2) obtain ps where v: "v = JObj ps" "map_of ps k = Some (JStr s)"
    by (cases v) (auto split: option.splits if_splits)
  from canonical_get[OF assms(1)[unfolded v(1)] v(2) _ assms(3)] show ?thesis by simp
qed

lemma canonical_get_JInt:
  assumes "canonicalValue v = Inr w" "get v k = JInt n" "k \<noteq> ''__proto__''"
  shows "get w k = JInt n"
proof -
  from assms(2) obtain ps where v: "v = JObj ps" "map_of ps k = Some (JInt n)"
    by (cases v) (auto split: option.splits if_splits)
  from canonical_get[OF assms(1)[unfolded v(1)] v(2) _ assms(3)] show ?thesis by (auto split: if_splits)
qed

section \<open>Appending a link\<close>

text \<open>
  A chain table with its head rows. \<open>lk_data\<close> is the object the event hash is computed over,
  \<open>lk_columns\<close> the remaining columns of the row. The numeric columns are bigint; \<open>Number(...)\<close> of
  them is exact below 2^53, and canonical JSON refuses any larger sequence.
\<close>

record head_row =
  hd_lastSequence :: int
  hd_lastHash :: string

record ('k, 'c) link =
  lk_key :: 'k
  lk_sequence :: int
  lk_data :: js
  lk_previousHash :: string
  lk_eventHash :: string
  lk_columns :: 'c

record ('k, 'c) ledger =
  lg_heads :: "'k \<Rightarrow> head_row option"
  lg_links :: "('k, 'c) link list"

definition GENESIS_HASH :: string where
  "GENESIS_HASH = replicate 64 (CHR ''0'')"

definition empty_ledger :: "('k, 'c) ledger" where
  "empty_ledger = \<lparr>lg_heads = (\<lambda>_. None), lg_links = []\<rparr>"

text \<open>The head row inserted when the chain's owner is created.\<close>

definition open_chain :: "'k \<Rightarrow> ('k, 'c) ledger \<Rightarrow> ('k, 'c) ledger" where
  "open_chain k L = L\<lparr>lg_heads := (lg_heads L)(k \<mapsto> \<lparr>hd_lastSequence = 0, hd_lastHash = GENESIS_HASH\<rparr>)\<rparr>"

definition append_link ::
  "(string \<Rightarrow> string) \<Rightarrow> 'k \<Rightarrow> head_row \<Rightarrow> (int \<Rightarrow> string \<Rightarrow> js) \<Rightarrow> 'c \<Rightarrow> ('k, 'c) ledger \<Rightarrow> (('k, 'c) link \<times> ('k, 'c) ledger) res" where
  "append_link H k head build columns L =
     (let sequence = hd_lastSequence head + 1; previousHash = hd_lastHash head;
          data = build sequence previousHash
      in bindE (hashCanonicalJSON H data) (\<lambda>eventHash.
         let row = \<lparr>lk_key = k, lk_sequence = sequence, lk_data = data, lk_previousHash = previousHash,
                    lk_eventHash = eventHash, lk_columns = columns\<rparr>
         in Inr (row, L\<lparr>lg_links := lg_links L @ [row],
              lg_heads := (lg_heads L)(k \<mapsto> \<lparr>hd_lastSequence = sequence, hd_lastHash = eventHash\<rparr>)\<rparr>)))"

definition links_of :: "'k \<Rightarrow> ('k, 'c) ledger \<Rightarrow> ('k, 'c) link list" where
  "links_of k L = filter (\<lambda>r. lk_key r = k) (lg_links L)"

text \<open>What a verifier can check of one row.\<close>

definition link_ok :: "(string \<Rightarrow> string) \<Rightarrow> ('k, 'c) link \<Rightarrow> bool" where
  "link_ok H r =
     (hashCanonicalJSON H (lk_data r) = Inr (lk_eventHash r) \<and>
      get (lk_data r) ''previousHash'' = JStr (lk_previousHash r) \<and>
      get (lk_data r) ''sequence'' = JInt (lk_sequence r))"

definition link_text :: "('k, 'c) link \<Rightarrow> string" where
  "link_text r = (case canonicalJSON (lk_data r) of Inr s \<Rightarrow> s | Inl _ \<Rightarrow> [])"

fun numbered :: "int \<Rightarrow> ('k, 'c) link list \<Rightarrow> bool" where
  "numbered n [] = True"
| "numbered n (r # rs) = (lk_sequence r = n \<and> numbered (n + 1) rs)"

lemma numbered_append [simp]: "numbered n (rs @ ss) \<longleftrightarrow> numbered n rs \<and> numbered (n + int (length rs)) ss"
  by (induction rs arbitrary: n) (auto simp: algebra_simps)

definition chain_ok :: "(string \<Rightarrow> string) \<Rightarrow> 'k \<Rightarrow> ('k, 'c) ledger \<Rightarrow> bool" where
  "chain_ok H k L =
     (case lg_heads L k of
        None \<Rightarrow> links_of k L = []
      | Some h \<Rightarrow>
          numbered 1 (links_of k L) \<and>
          hd_lastSequence h = int (length (links_of k L)) \<and>
          chained lk_previousHash lk_eventHash (link_ok H) GENESIS_HASH (links_of k L) \<and>
          hd_lastHash h = head_hash lk_eventHash GENESIS_HASH (links_of k L))"

locale link_builder =
  fixes build :: "int \<Rightarrow> string \<Rightarrow> js"
  assumes binds: "get (build n p) ''previousHash'' = JStr p" "get (build n p) ''sequence'' = JInt n"
begin

lemma append_link_row:
  assumes "append_link H k head build c L = Inr (r, L')"
  shows "link_ok H r \<and> lk_key r = k \<and> lk_previousHash r = hd_lastHash head \<and> lk_sequence r = hd_lastSequence head + 1 \<and>
    lg_links L' = lg_links L @ [r] \<and>
    lg_heads L' = (lg_heads L)(k \<mapsto> \<lparr>hd_lastSequence = lk_sequence r, hd_lastHash = lk_eventHash r\<rparr>)"
  using assms binds by (auto simp: append_link_def Let_def bindE_Inr link_ok_def)

lemma append_link_chain:
  assumes "append_link H k head build c L = Inr (r, L')" "lg_heads L k = Some head" "\<forall>j. chain_ok H j L"
  shows "\<forall>j. chain_ok H j L'"
proof
  fix j
  note row = append_link_row[OF assms(1)]
  have l: "links_of j L' = links_of j L @ (if j = k then [r] else [])"
    using row by (auto simp: links_of_def)
  show "chain_ok H j L'"
  proof (cases "j = k")
    case True
    have "chain_ok H k L" using assms(3) by blast
    with assms(2) row show ?thesis unfolding True by (simp add: chain_ok_def l[unfolded True])
  next
    case False
    then have "chain_ok H j L' = chain_ok H j L" using row unfolding chain_ok_def l by (simp split: option.split)
    then show ?thesis using assms(3) by simp
  qed
qed

end

interpretation links: hash_chain H link_text lk_previousHash lk_eventHash "link_ok H"
  for H :: "string \<Rightarrow> string"
proof
  fix r s :: "('k, 'c) link"
  show "link_ok H r \<Longrightarrow> lk_eventHash r = H (link_text r)"
    by (auto simp: link_ok_def link_text_def hashCanonicalJSON_def bindE_Inr)
  assume ok: "link_ok H r" "link_ok H s" and eq: "link_text r = link_text s"
  then obtain t where "canonicalJSON (lk_data r) = Inr t" "canonicalJSON (lk_data s) = Inr t"
    by (auto simp: link_ok_def link_text_def hashCanonicalJSON_def bindE_Inr)
  then obtain w where "canonicalValue (lk_data r) = Inr w" "canonicalValue (lk_data s) = Inr w"
    using canonicalJSON_inject by (metis canonicalJSON_Inr)
  then have "get w ''previousHash'' = JStr (lk_previousHash r)" "get w ''previousHash'' = JStr (lk_previousHash s)"
    using ok by (auto simp: link_ok_def intro: canonical_get_JStr)
  then show "lk_previousHash r = lk_previousHash s" by simp
qed

lemma chain_ok_empty [simp]: "chain_ok H k empty_ledger"
  by (simp add: chain_ok_def empty_ledger_def links_of_def)

lemma open_chain_ok:
  assumes "\<forall>j. chain_ok H j L" "lg_heads L k = None"
  shows "\<forall>j. chain_ok H j (open_chain k L)"
proof
  fix j
  have l: "links_of j (open_chain k L) = links_of j L" by (simp add: links_of_def open_chain_def)
  show "chain_ok H j (open_chain k L)"
  proof (cases "j = k")
    case True
    have "chain_ok H k L" using assms(1) by blast
    with assms(2) have "links_of k L = []" by (simp add: chain_ok_def)
    with True l show ?thesis by (simp add: chain_ok_def open_chain_def)
  next
    case False
    then have "chain_ok H j (open_chain k L) = chain_ok H j L" unfolding chain_ok_def l by (simp add: open_chain_def)
    then show ?thesis using assms(1) by simp
  qed
qed

end
