(* ===== verification/Boundary.thy ===== *)
theory Boundary
  imports Interaction Calendar
begin

text \<open>
  The boundary of the private engine: the route table and the actor assertions of
  \<^verbatim>\<open>src/packages/engine-contracts/index.mjs\<close>, the service authorisation of
  \<^verbatim>\<open>src/packages/engine-domain/index.mjs\<close>, the request signing of
  \<^verbatim>\<open>src/services/private-ingress/server.mjs\<close>, the claims of
  \<^verbatim>\<open>src/packages/engine-client/index.mjs\<close>, the body limit of \<^verbatim>\<open>src/services/shared/http.mjs\<close>, and the
  request handling of \<^verbatim>\<open>src/services/engine/server.mjs\<close> with its two replay guards. The JWT
  library (\<^verbatim>\<open>jose\<close>) and the stores behind the dispatch are parameters.
\<close>

section \<open>Routes and service actions\<close>

record route =
  rt_action :: string
  rt_method :: string
  rt_path :: string

definition engineRoutes :: "route list" where
  "engineRoutes = map (\<lambda>(a, m, p). \<lparr>rt_action = a, rt_method = m, rt_path = p\<rparr>)
    [(''engine.health'', ''GET'', ''/healthz''), (''actor.identity'', ''POST'', ''/v1/whoami''),
     (''tenant.list'', ''GET'', ''/v1/owner/tenants''),
     (''tenant.create'', ''POST'', ''/v1/owner/tenants''),
     (''tenant.profile.read'', ''POST'', ''/v1/owner/tenant-profile-read''),
     (''tenant.profile.update'', ''POST'', ''/v1/owner/tenant-profiles''),
     (''tenant.usage.read'', ''POST'', ''/v1/owner/tenant-usage''),
     (''integration.list'', ''POST'', ''/v1/owner/integration-list''),
     (''integration.update'', ''POST'', ''/v1/owner/integrations''),
     (''installation.profile.read'', ''GET'', ''/v1/admin/installation-profile''),
     (''installation.profile.update'', ''POST'', ''/v1/admin/installation-profile''),
     (''tenant.admission.list'', ''GET'', ''/v1/admin/tenant-admissions''),
     (''tenant.admission.update'', ''POST'', ''/v1/admin/tenant-admissions''),
     (''tenant.production.stop'', ''POST'', ''/v1/admin/tenant-production-stops''),
     (''tenant.readiness.export'', ''POST'', ''/v1/admin/tenant-readiness-exports''),
     (''operations.read'', ''GET'', ''/v1/admin/operations''),
     (''membership.list'', ''POST'', ''/v1/owner/member-list''),
     (''membership.update'', ''POST'', ''/v1/owner/members''),
     (''lifecycle.policy.list'', ''POST'', ''/v1/owner/retention-policy-list''),
     (''lifecycle.policy.update'', ''POST'', ''/v1/owner/retention-policies''),
     (''lifecycle.record.list'', ''POST'', ''/v1/owner/lifecycle-record-list''),
     (''lifecycle.hold.command'', ''POST'', ''/v1/owner/legal-holds''),
     (''data_request.review.list'', ''POST'', ''/v1/owner/data-request-review-list''),
     (''data_request.review'', ''POST'', ''/v1/owner/data-request-reviews''),
     (''artifact.list'', ''POST'', ''/v1/owner/artifact-list''),
     (''artifact.create'', ''POST'', ''/v1/owner/artifacts''),
     (''artifact.chunk.append'', ''POST'', ''/v1/owner/artifact-chunks''),
     (''artifact.finalize'', ''POST'', ''/v1/owner/artifact-finalizations''),
     (''artifact.abort'', ''POST'', ''/v1/owner/artifact-aborts''),
     (''artifact.owner.open'', ''POST'', ''/v1/owner/artifact-open''),
     (''artifact.owner.read'', ''POST'', ''/v1/owner/artifact-read''),
     (''workflow.list'', ''POST'', ''/v1/owner/workflow-list''),
     (''workflow.create'', ''POST'', ''/v1/owner/workflows''),
     (''workflow.draft.update'', ''POST'', ''/v1/owner/workflow-drafts''),
     (''workflow.publish'', ''POST'', ''/v1/owner/workflow-publications''),
     (''request.issue'', ''POST'', ''/v1/owner/requests''),
     (''request.list'', ''POST'', ''/v1/owner/request-list''),
     (''request.action'', ''POST'', ''/v1/owner/request-actions''),
     (''record.read'', ''POST'', ''/v1/owner/records''),
     (''record.export.open'', ''POST'', ''/v1/owner/evidence-exports''),
     (''record.export.read'', ''POST'', ''/v1/owner/evidence-export-chunks''),
     (''participant.open'', ''POST'', ''/v1/participant/open''),
     (''participant.history.list'', ''GET'', ''/v1/participant/history''),
     (''participant.data_request.list'', ''GET'', ''/v1/participant/data-requests''),
     (''participant.data_request.create'', ''POST'', ''/v1/participant/data-requests''),
     (''participant.data_export.open'', ''POST'', ''/v1/participant/data-exports''),
     (''participant.data_export.read'', ''POST'', ''/v1/participant/data-export-chunks''),
     (''participant.respond'', ''POST'', ''/v1/participant/respond''),
     (''participant.context.record'', ''POST'', ''/v1/participant/context-snapshots''),
     (''participant.interaction.events'', ''POST'', ''/v1/participant/interaction-events''),
     (''participant.media.open'', ''POST'', ''/v1/participant/media-open''),
     (''participant.media.events'', ''POST'', ''/v1/participant/media-events''),
     (''participant.receipt'', ''POST'', ''/v1/participant/receipt''),
     (''participant.report.open'', ''POST'', ''/v1/participant/reports''),
     (''participant.report.read'', ''POST'', ''/v1/participant/report-chunks''),
     (''artifact.participant.open'', ''POST'', ''/v1/participant/artifact-open''),
     (''artifact.participant.read'', ''POST'', ''/v1/participant/artifact-read''),
     (''verification.lookup'', ''POST'', ''/v1/public/verification'')]"

definition resolveEngineRoute :: "string \<Rightarrow> string \<Rightarrow> route option" where
  "resolveEngineRoute verb path = find (\<lambda>r. rt_method r = verb \<and> rt_path r = path) engineRoutes"

definition serviceActions :: "(string \<times> string list) list" where
  "serviceActions = [(''vasi-private-ingress'',
    [''actor.identity'', ''artifact.abort'', ''artifact.chunk.append'', ''artifact.create'',
     ''artifact.finalize'', ''artifact.list'', ''artifact.owner.open'', ''artifact.owner.read'',
     ''artifact.participant.open'', ''artifact.participant.read'', ''engine.health'',
     ''installation.profile.read'', ''installation.profile.update'', ''integration.list'',
     ''integration.update'', ''membership.list'', ''membership.update'', ''operations.read'',
     ''lifecycle.hold.command'', ''lifecycle.policy.list'', ''lifecycle.policy.update'',
     ''lifecycle.record.list'', ''data_request.review'', ''data_request.review.list'',
     ''participant.open'', ''participant.context.record'', ''participant.history.list'',
     ''participant.interaction.events'', ''participant.data_request.create'',
     ''participant.data_request.list'', ''participant.data_export.open'',
     ''participant.data_export.read'', ''participant.media.open'', ''participant.receipt'',
     ''participant.report.open'', ''participant.report.read'', ''participant.respond'',
     ''participant.media.events'', ''record.read'', ''record.export.open'', ''record.export.read'',
     ''request.issue'', ''request.list'', ''request.action'', ''tenant.create'',
     ''tenant.admission.list'', ''tenant.admission.update'', ''tenant.production.stop'',
     ''tenant.readiness.export'', ''tenant.list'', ''tenant.profile.read'', ''tenant.profile.update'',
     ''tenant.usage.read'', ''workflow.create'', ''workflow.draft.update'', ''workflow.list'',
     ''workflow.publish'', ''verification.lookup''])]"

record authorized =
  az_action :: string
  az_serviceId :: string

text \<open>A service name of \<open>Object.prototype\<close> finds an inherited function without a \<open>has\<close> method; calling it throws as well.\<close>

definition authorizeServiceAction :: "string \<Rightarrow> string \<Rightarrow> authorized res" where
  "authorizeServiceAction serviceId action =
     (case map_of serviceActions serviceId of
        None \<Rightarrow> throw PLAIN_ERROR (Because ''service principal not authorized'')
      | Some actions \<Rightarrow>
          guardE (action \<in> set actions) PLAIN_ERROR (Because ''service principal not authorized'')
            (Inr \<lparr>az_action = action, az_serviceId = serviceId\<rparr>))"

text \<open>The store and the operation each action is dispatched to.\<close>

definition dispatchTable :: "(string \<times> string \<times> string) list" where
  "dispatchTable =
    [(''tenant.list'', ''workflows'', ''listTenants''),
     (''tenant.create'', ''product'', ''provisionTenant''),
     (''tenant.admission.list'', ''product'', ''listTenantAdmissions''),
     (''tenant.admission.update'', ''product'', ''updateTenantAdmission''),
     (''tenant.production.stop'', ''product'', ''stopTenantProduction''),
     (''tenant.readiness.export'', ''product'', ''exportTenantReadiness''),
     (''tenant.profile.read'', ''product'', ''getTenantProfile''),
     (''tenant.profile.update'', ''product'', ''updateTenantProfile''),
     (''tenant.usage.read'', ''product'', ''getTenantUsage''),
     (''integration.list'', ''product'', ''listIntegrations''),
     (''integration.update'', ''product'', ''updateIntegration''),
     (''installation.profile.read'', ''product'', ''getInstallationProfile''),
     (''installation.profile.update'', ''product'', ''updateInstallationProfile''),
     (''operations.read'', ''operations'', ''snapshot''),
     (''membership.list'', ''workflows'', ''listMembers''),
     (''membership.update'', ''workflows'', ''setMember''),
     (''lifecycle.policy.list'', ''lifecycle'', ''listPolicies''),
     (''lifecycle.policy.update'', ''lifecycle'', ''updatePolicy''),
     (''lifecycle.record.list'', ''lifecycle'', ''listRecords''),
     (''lifecycle.hold.command'', ''lifecycle'', ''commandHold''),
     (''data_request.review.list'', ''lifecycle'', ''listDataRequestReviews''),
     (''data_request.review'', ''lifecycle'', ''reviewDataRequest''),
     (''artifact.list'', ''artifacts'', ''listArtifacts''),
     (''artifact.create'', ''artifacts'', ''createArtifact''),
     (''artifact.chunk.append'', ''artifacts'', ''appendChunk''),
     (''artifact.finalize'', ''artifacts'', ''finalizeArtifact''),
     (''artifact.abort'', ''artifacts'', ''abortArtifact''),
     (''artifact.owner.open'', ''artifacts'', ''openOwnerArtifact''),
     (''artifact.owner.read'', ''artifacts'', ''readOwnerChunk''),
     (''artifact.participant.open'', ''evidence'', ''openParticipantArtifact''),
     (''artifact.participant.read'', ''evidence'', ''readParticipantArtifactChunk''),
     (''workflow.list'', ''workflows'', ''listWorkflows''),
     (''workflow.create'', ''workflows'', ''createWorkflow''),
     (''workflow.draft.update'', ''workflows'', ''updateDraft''),
     (''workflow.publish'', ''workflows'', ''publishWorkflow''),
     (''request.issue'', ''evidence'', ''issueRequest''),
     (''request.list'', ''evidence'', ''listRequests''),
     (''request.action'', ''evidence'', ''requestAction''),
     (''record.read'', ''evidence'', ''ownerRecord''),
     (''record.export.open'', ''reports'', ''openOwnerExport''),
     (''record.export.read'', ''reports'', ''readOwnerExportChunk''),
     (''participant.open'', ''evidence'', ''openAssignment''),
     (''participant.history.list'', ''lifecycle'', ''listParticipantHistory''),
     (''participant.data_request.list'', ''lifecycle'', ''listParticipantDataRequests''),
     (''participant.data_request.create'', ''lifecycle'', ''createParticipantDataRequest''),
     (''participant.data_export.open'', ''lifecycle'', ''openParticipantDataExport''),
     (''participant.data_export.read'', ''lifecycle'', ''readParticipantDataExportChunk''),
     (''participant.respond'', ''evidence'', ''respond''),
     (''participant.context.record'', ''contexts'', ''recordParticipantContext''),
     (''participant.interaction.events'', ''interactions'', ''recordParticipantEvents''),
     (''participant.media.open'', ''media'', ''openParticipantMedia''),
     (''participant.media.events'', ''media'', ''recordParticipantEvents''),
     (''participant.receipt'', ''evidence'', ''participantReceipt''),
     (''participant.report.open'', ''reports'', ''openParticipantReport''),
     (''participant.report.read'', ''reports'', ''readParticipantExportChunk''),
     (''verification.lookup'', ''reports'', ''verifyFingerprint'')]"

definition dispatchEvidence ::
  "(string \<Rightarrow> string \<Rightarrow> 'actor \<Rightarrow> js \<Rightarrow> 'r res) \<Rightarrow> string \<Rightarrow> 'actor \<Rightarrow> js \<Rightarrow> 'r res" where
  "dispatchEvidence stores action actor payload =
     (case map_of dispatchTable action of
        Some (store, operation) \<Rightarrow> stores store operation actor payload
      | None \<Rightarrow> throw (STORE_ERROR 404) (Because ''not_found''))"

section \<open>Actor assertions\<close>

definition ACTOR_ASSERTION_MAX_LIFETIME_SECONDS :: int where
  "ACTOR_ASSERTION_MAX_LIFETIME_SECONDS = 120"

record authentication =
  at_linkedProvider :: "string option"
  at_linkedProviderSubject :: "string option"
  at_method :: string
  at_provenance :: "string option"
  at_provider :: "string option"
  at_providerSubject :: "string option"

record request_context =
  rc_acceptLanguage :: "string option"
  rc_clientHints :: "string option"
  rc_ipAddress :: "string option"
  rc_userAgent :: "string option"

record actor =
  ac_assertionId :: string
  ac_authenticatedAt :: "int option"
  ac_authentication :: authentication
  ac_email :: "string option"
  ac_expiresAt :: int
  ac_gatewaySessionId :: string
  ac_issuedAt :: int
  ac_principalId :: string
  ac_requestContext :: "request_context option"
  ac_roles :: "string list"
  ac_subject :: string
  ac_tenantId :: "string option"

definition requiredString :: "js \<Rightarrow> string \<Rightarrow> string res" where
  "requiredString v field =
     (case as_str v of
        None \<Rightarrow> throw PLAIN_ERROR (BadFormat field)
      | Some s \<Rightarrow> guardE (js_trim s \<noteq> [] \<and> length s \<le> 512) PLAIN_ERROR (BadFormat field) (Inr s))"

definition optionalString :: "js \<Rightarrow> string \<Rightarrow> string option res" where
  "optionalString v field =
     (if nullish v then Inr None else bindE (requiredString v field) (\<lambda>s. Inr (Some s)))"

definition requiredInteger :: "js \<Rightarrow> string \<Rightarrow> int res" where
  "requiredInteger v field =
     (case safe_int v of None \<Rightarrow> throw PLAIN_ERROR (BadFormat field) | Some n \<Rightarrow> Inr n)"

definition optionalInteger :: "js \<Rightarrow> string \<Rightarrow> int option res" where
  "optionalInteger v field =
     (if nullish v then Inr None else bindE (requiredInteger v field) (\<lambda>n. Inr (Some n)))"

definition optionalEmail :: "js \<Rightarrow> string option res" where
  "optionalEmail v =
     (if nullish v then Inr None
      else bindE (requiredString v ''email'') (\<lambda>s.
           guardE (length s \<le> 320 \<and> email_shape (js_lower s)) PLAIN_ERROR (BadFormat ''email'') (Inr (Some (js_lower s)))))"

definition validateRequestContext :: "js \<Rightarrow> request_context option res" where
  "validateRequestContext v =
     (if nullish v then Inr None
      else guardE (is_object v) PLAIN_ERROR (BadFormat ''request_context'')
       (bindE (optionalString (get v ''accept_language'') ''accept_language'') (\<lambda>language.
        bindE (optionalString (get v ''client_hints'') ''client_hints'') (\<lambda>hints.
        bindE (optionalString (get v ''ip_address'') ''ip_address'') (\<lambda>ip.
        bindE (optionalString (get v ''user_agent'') ''user_agent'') (\<lambda>agent.
        Inr (Some \<lparr>rc_acceptLanguage = language, rc_clientHints = hints, rc_ipAddress = ip, rc_userAgent = agent\<rparr>)))))))"

definition validateActorAssertionClaims :: "js \<Rightarrow> int \<Rightarrow> actor res" where
  "validateActorAssertionClaims payload now =
     bindE (requiredString (get payload ''sub'') ''sub'') (\<lambda>subject.
     bindE (requiredString (get payload ''jti'') ''jti'') (\<lambda>assertionId.
     bindE (requiredString (get payload ''vasi_principal_id'') ''vasi_principal_id'') (\<lambda>principalId.
     bindE (requiredString (get payload ''gateway_session_id'') ''gateway_session_id'') (\<lambda>gatewaySessionId.
     bindE (requiredInteger (get payload ''iat'') ''iat'') (\<lambda>issuedAt.
     bindE (requiredInteger (get payload ''exp'') ''exp'') (\<lambda>expiresAt.
     guardE (\<not> (expiresAt \<le> now \<or> issuedAt > now + 15)) PLAIN_ERROR (Because ''outside accepted time window'')
     (guardE (expiresAt - issuedAt \<le> ACTOR_ASSERTION_MAX_LIFETIME_SECONDS) PLAIN_ERROR (Because ''lifetime is too long'')
     (let auth = get payload ''authentication'' in
      guardE (is_object auth) PLAIN_ERROR (Because ''authentication context is required'')
      (bindE (requiredString (get auth ''method'') ''authentication.method'') (\<lambda>verb.
       bindE (optionalString (get auth ''provenance'') ''authentication.provenance'') (\<lambda>provenance.
       bindE (optionalString (get auth ''provider'') ''authentication.provider'') (\<lambda>provider.
       bindE (optionalString (get auth ''provider_subject'') ''authentication.provider_subject'') (\<lambda>providerSubject.
       bindE (optionalString (get auth ''linked_provider'') ''authentication.linked_provider'') (\<lambda>linkedProvider.
       bindE (optionalString (get auth ''linked_provider_subject'') ''authentication.linked_provider_subject'') (\<lambda>linkedSubject.
       bindE (case as_arr (get payload ''roles'') of
                None \<Rightarrow> Inr [] | Some rs \<Rightarrow> mapE (\<lambda>r. requiredString r ''roles[]'') rs) (\<lambda>roles.
       guardE (length roles \<le> 32) PLAIN_ERROR (Because ''too many roles'')
       (bindE (optionalInteger (get payload ''authenticated_at'') ''authenticated_at'') (\<lambda>authenticatedAt.
        bindE (optionalEmail (get payload ''email'')) (\<lambda>email.
        bindE (validateRequestContext (get payload ''request_context'')) (\<lambda>requestContext.
        bindE (optionalString (get payload ''tenant_id'') ''tenant_id'') (\<lambda>tenantId.
        Inr \<lparr>ac_assertionId = assertionId, ac_authenticatedAt = authenticatedAt,
             ac_authentication = \<lparr>at_linkedProvider = linkedProvider, at_linkedProviderSubject = linkedSubject,
               at_method = verb, at_provenance = provenance, at_provider = provider, at_providerSubject = providerSubject\<rparr>,
             ac_email = email, ac_expiresAt = expiresAt, ac_gatewaySessionId = gatewaySessionId, ac_issuedAt = issuedAt,
             ac_principalId = principalId, ac_requestContext = requestContext, ac_roles = roles, ac_subject = subject,
             ac_tenantId = tenantId\<rparr>)))))))))))))))))))))"

text \<open>
  The claims the gateway signs for an actor, with the registered claims the token builder sets.
  Signing and verification of the token are the JWT library's.
\<close>

definition assertion_claims :: "actor \<Rightarrow> string \<Rightarrow> int \<Rightarrow> js" where
  "assertion_claims a jti now =
     (let au = ac_authentication a in JObj
      [(''authenticated_at'', opt_js JInt (ac_authenticatedAt a)),
       (''authentication'', JObj [(''method'', JStr (at_method au)), (''provenance'', opt_js JStr (at_provenance au)),
          (''provider'', opt_js JStr (at_provider au)), (''provider_subject'', opt_js JStr (at_providerSubject au)),
          (''linked_provider'', opt_js JStr (at_linkedProvider au)),
          (''linked_provider_subject'', opt_js JStr (at_linkedProviderSubject au))]),
       (''email'', opt_js JStr (ac_email a)),
       (''gateway_session_id'', JStr (ac_gatewaySessionId a)),
       (''request_context'', opt_js (\<lambda>c. JObj [(''accept_language'', opt_js JStr (rc_acceptLanguage c)),
          (''client_hints'', opt_js JStr (rc_clientHints c)), (''ip_address'', opt_js JStr (rc_ipAddress c)),
          (''user_agent'', opt_js JStr (rc_userAgent c))]) (ac_requestContext a)),
       (''roles'', JArr (map JStr (ac_roles a))),
       (''tenant_id'', opt_js JStr (ac_tenantId a)),
       (''vasi_principal_id'', JStr (ac_principalId a)),
       (''sub'', JStr (ac_subject a)), (''jti'', JStr jti), (''iat'', JInt now), (''nbf'', JInt (now - 5)),
       (''exp'', JInt (now + 60))])"

section \<open>Service requests\<close>

definition SERVICE_REQUEST_WINDOW_SECONDS :: int where
  "SERVICE_REQUEST_WINDOW_SECONDS = 30"

text \<open>A header is a string, a list of strings when repeated, or undefined.\<close>

record headers =
  hd_service :: js
  hd_requestId :: js
  hd_signature :: js
  hd_timestamp :: js
  hd_authorization :: js

record http_request =
  ht_method :: string
  ht_path :: string
  ht_headers :: headers
  ht_chunks :: "string list"

record engine_settings =
  se_serviceId :: string
  se_hmacSecret :: string

fun singleHeader :: "js \<Rightarrow> js" where
  "singleHeader (JArr _) = JUndef"
| "singleHeader v = v"

text \<open>The replay cache: request identifiers with the second their entry lapses, and the stored assertion identifiers.\<close>

record guards =
  gd_seen :: "(string \<times> int) list"
  gd_assertions :: "(string \<times> int) list"

abbreviation authorizationFailure :: "string \<Rightarrow> 'a res" where
  "authorizationFailure m \<equiv> throw AUTHORIZATION_FAILED (Because m)"

definition pruneServiceReplayCache :: "int \<Rightarrow> (string \<times> int) list \<Rightarrow> (string \<times> int) list" where
  "pruneServiceReplayCache now seen = filter (\<lambda>(i, expiresAt). \<not> expiresAt \<le> now) seen"

text \<open>\<open>Map.prototype.set\<close>: replaces the value of a present key, else appends.\<close>

fun map_set :: "'k \<Rightarrow> 'v \<Rightarrow> ('k \<times> 'v) list \<Rightarrow> ('k \<times> 'v) list" where
  "map_set k v [] = [(k, v)]"
| "map_set k v ((k', v') # kvs) = (if k' = k then (k, v) # kvs else (k', v') # map_set k v kvs)"

text \<open>
  The cache survives a failed request, so the step returns it in every case. \<open>now\<close> is the current
  second, \<open>N\<close> the conversion of a header text to a number.
\<close>

definition authenticateServiceRequest ::
  "primitives \<Rightarrow> (string \<Rightarrow> jsnum) \<Rightarrow> engine_settings \<Rightarrow> int \<Rightarrow> headers \<Rightarrow> string \<Rightarrow> string \<Rightarrow> string \<Rightarrow> string \<Rightarrow> guards \<Rightarrow>
     authorized res \<times> guards" where
  "authenticateServiceRequest P N S now h verb path body action st =
     (case (singleHeader (hd_service h), singleHeader (hd_requestId h),
            safe_int (js_Number N (singleHeader (hd_timestamp h)))) of
        (JStr serviceId, JStr requestId, Some timestamp) \<Rightarrow>
          if serviceId \<noteq> se_serviceId S \<or> requestId = [] \<or> length requestId > 128
          then (authorizationFailure ''Invalid service request metadata.'', st)
          else if \<bar>now - timestamp\<bar> > SERVICE_REQUEST_WINDOW_SECONDS
          then (authorizationFailure ''Expired service request.'', st)
          else
            let seen = pruneServiceReplayCache now (gd_seen st); pruned = st\<lparr>gd_seen := seen\<rparr> in
            if requestId \<in> fst ` set seen then (authorizationFailure ''Replayed service request.'', pruned)
            else if \<not> verifyServiceRequest P \<lparr>rq_timestamp = timestamp, rq_requestId = requestId, rq_serviceId = serviceId,
                        rq_method = verb, rq_path = path, rq_body = body\<rparr> (se_hmacSecret S) (singleHeader (hd_signature h))
            then (authorizationFailure ''Invalid service request signature.'', pruned)
            else
              ((case authorizeServiceAction serviceId action of
                  Inl _ \<Rightarrow> authorizationFailure ''The service action is unauthorized.''
                | Inr a \<Rightarrow> Inr a),
               st\<lparr>gd_seen := map_set requestId (now + SERVICE_REQUEST_WINDOW_SECONDS) seen\<rparr>)
      | _ \<Rightarrow> (authorizationFailure ''Invalid service request metadata.'', st))"

text \<open>What the private ingress sends for a request it forwards.\<close>

definition ingress_headers :: "primitives \<Rightarrow> engine_settings \<Rightarrow> string \<Rightarrow> int \<Rightarrow> string \<Rightarrow> string \<Rightarrow> string \<Rightarrow> js \<Rightarrow> headers" where
  "ingress_headers P S requestId timestamp verb path body authorization =
     \<lparr>hd_service = JStr (se_serviceId S), hd_requestId = JStr requestId,
      hd_signature = JStr (signServiceRequest P \<lparr>rq_timestamp = timestamp, rq_requestId = requestId,
        rq_serviceId = se_serviceId S, rq_method = verb, rq_path = path, rq_body = body\<rparr> (se_hmacSecret S)),
      hd_timestamp = JStr (show_int timestamp),
      hd_authorization = (if truthy authorization then authorization else JStr [])\<rparr>"

text \<open>\<open>readRequestBody\<close>: the chunks are counted as they arrive.\<close>

fun read_chunks :: "nat \<Rightarrow> nat \<Rightarrow> string list \<Rightarrow> string res" where
  "read_chunks limit len [] = Inr []"
| "read_chunks limit len (c # cs) =
     (if len + length c > limit then throw BODY_LIMIT (Because ''Request body limit exceeded.'')
      else bindE (read_chunks limit (len + length c) cs) (\<lambda>rest. Inr (c @ rest)))"

definition readRequestBody :: "string list \<Rightarrow> nat \<Rightarrow> string res" where
  "readRequestBody chunks maximumBytes = read_chunks maximumBytes 0 chunks"

definition body_limit :: "string \<Rightarrow> nat" where
  "body_limit action = (if action = ''artifact.chunk.append'' then 524288 else 65536)"

section \<open>Actors\<close>

definition bearerToken :: "js \<Rightarrow> string res" where
  "bearerToken header =
     (case as_str header of
        None \<Rightarrow> authorizationFailure ''An actor assertion is required.''
      | Some s \<Rightarrow> guardE (take 7 s = ''Bearer '') AUTHORIZATION_FAILED (Because ''An actor assertion is required.'') (Inr (drop 7 s)))"

text \<open>
  \<open>jwt\<close> is the library's \<open>jwtVerify\<close> with the issuer, audience and key of the settings: the payload of a
  valid token or the library's error. The identifier is stored with its expiry; a stored
  identifier is refused.
\<close>

definition verifyActor :: "(string \<Rightarrow> js res) \<Rightarrow> int \<Rightarrow> headers \<Rightarrow> guards \<Rightarrow> actor res \<times> guards" where
  "verifyActor jwt now h st =
     (case bearerToken (hd_authorization h) of
        Inl e \<Rightarrow> (Inl e, st)
      | Inr bearer \<Rightarrow>
          (case bindE (jwt bearer) (\<lambda>payload. validateActorAssertionClaims payload now) of
             Inl e \<Rightarrow> ((case e of Thrown (ERR_JWT x) r \<Rightarrow> Inl e | _ \<Rightarrow> authorizationFailure ''The actor assertion is invalid.''), st)
           | Inr actor \<Rightarrow>
               if ac_assertionId actor \<in> fst ` set (gd_assertions st)
               then (throw (STORE_ERROR 409) (Because ''assertion_replayed''), st)
               else (Inr actor, st\<lparr>gd_assertions := (ac_assertionId actor, ac_expiresAt actor) # gd_assertions st\<rparr>)))"

text \<open>The worker deletes the stored identifiers that have expired.\<close>

definition pruneAssertions :: "int \<Rightarrow> guards \<Rightarrow> guards" where
  "pruneAssertions now st = st\<lparr>gd_assertions := filter (\<lambda>(i, e). \<not> e < now) (gd_assertions st)\<rparr>"

section \<open>Errors on the wire\<close>

definition errorStatus :: "js_error \<Rightarrow> nat" where
  "errorStatus e = (case e of Thrown c r \<Rightarrow>
     (case c of
        BODY_LIMIT \<Rightarrow> 413
      | INVALID_JSON \<Rightarrow> 400 | INVALID_WORKFLOW \<Rightarrow> 400 | INVALID_ARTIFACT \<Rightarrow> 400 | INVALID_ACTIVITY_RESPONSE \<Rightarrow> 400
      | INVALID_ACTIVITY_INTERACTION \<Rightarrow> 400 | INVALID_PARTICIPANT_CONTEXT \<Rightarrow> 400 | INVALID_MEDIA_TELEMETRY \<Rightarrow> 400
      | INVALID_LIFECYCLE \<Rightarrow> 400 | INVALID_PRODUCT_CONFIGURATION \<Rightarrow> 400
      | STORE_ERROR status \<Rightarrow> status
      | AUTHORIZATION_FAILED \<Rightarrow> 401 | ERR_JWT x \<Rightarrow> 401
      | _ \<Rightarrow> 500))"

definition publicErrorCode :: "js_error \<Rightarrow> nat \<Rightarrow> string" where
  "publicErrorCode e status = (case e of Thrown c r \<Rightarrow>
     (case c of
        STORE_ERROR s \<Rightarrow> (case r of Because m \<Rightarrow> m | _ \<Rightarrow> ''internal_error'')
      | INVALID_ARTIFACT \<Rightarrow> ''invalid_artifact''
      | INVALID_ACTIVITY_RESPONSE \<Rightarrow> ''invalid_activity_response''
      | INVALID_ACTIVITY_INTERACTION \<Rightarrow> ''invalid_activity_interaction''
      | INVALID_PARTICIPANT_CONTEXT \<Rightarrow> ''invalid_participant_context''
      | INVALID_MEDIA_TELEMETRY \<Rightarrow> ''invalid_media_telemetry''
      | INVALID_LIFECYCLE \<Rightarrow> ''invalid_lifecycle''
      | INVALID_PRODUCT_CONFIGURATION \<Rightarrow> ''invalid_product_configuration''
      | INVALID_WORKFLOW \<Rightarrow> ''invalid_workflow''
      | _ \<Rightarrow> if status = 413 then ''request_too_large'' else if status = 400 then ''invalid_request''
             else if status = 401 then ''unauthorized'' else ''internal_error''))"

section \<open>The request handler\<close>

datatype reply = Health | Whoami actor string | Result js | Failure nat string

text \<open>\<open>parse\<close> is \<open>JSON.parse\<close>; an empty body is an empty object.\<close>

definition parseJSONBody :: "(string \<Rightarrow> js option) \<Rightarrow> string \<Rightarrow> js res" where
  "parseJSONBody parse body =
     (if body = [] then Inr (JObj [])
      else case parse body of
             None \<Rightarrow> throw INVALID_JSON (Because ''The request body is invalid.'')
           | Some v \<Rightarrow> guardE (is_object v) INVALID_JSON (Because ''The request body is invalid.'') (Inr v))"

definition fail_reply :: "js_error \<Rightarrow> reply" where
  "fail_reply e = Failure (errorStatus e) (publicErrorCode e (errorStatus e))"

record host =
  ho_primitives :: primitives
  ho_number :: "string \<Rightarrow> jsnum"
  ho_settings :: engine_settings
  ho_jwt :: "string \<Rightarrow> js res"
  ho_parse :: "string \<Rightarrow> js option"
  ho_stores :: "string \<Rightarrow> string \<Rightarrow> actor \<Rightarrow> js \<Rightarrow> js res"

definition handle_request :: "host \<Rightarrow> int \<Rightarrow> http_request \<Rightarrow> guards \<Rightarrow> reply \<times> guards" where
  "handle_request E now q st =
     (case resolveEngineRoute (ht_method q) (ht_path q) of
        None \<Rightarrow> (Failure 404 ''not_found'', st)
      | Some route \<Rightarrow>
          (case readRequestBody (ht_chunks q) (body_limit (rt_action route)) of
             Inl e \<Rightarrow> (fail_reply e, st)
           | Inr body \<Rightarrow>
               (case authenticateServiceRequest (ho_primitives E) (ho_number E) (ho_settings E) now (ht_headers q)
                       (ht_method q) (ht_path q) body (rt_action route) st of
                  (Inl e, st1) \<Rightarrow> (fail_reply e, st1)
                | (Inr service, st1) \<Rightarrow>
                    if ht_method q = ''GET'' \<and> ht_path q = ''/healthz'' then (Health, st1)
                    else (case verifyActor (ho_jwt E) now (ht_headers q) st1 of
                      (Inl e, st2) \<Rightarrow> (fail_reply e, st2)
                    | (Inr actor, st2) \<Rightarrow>
                        if ht_method q = ''POST'' \<and> ht_path q = ''/v1/whoami'' then (Whoami actor (az_serviceId service), st2)
                        else (case bindE (parseJSONBody (ho_parse E) body)
                                (dispatchEvidence (ho_stores E) (rt_action route) actor) of
                                Inl e \<Rightarrow> (fail_reply e, st2)
                              | Inr r \<Rightarrow> (Result r, st2))))))"

section \<open>The guards over time\<close>

text \<open>Requests are served and expired identifiers deleted, in any order, as time passes.\<close>

inductive evolves :: "host \<Rightarrow> guards \<Rightarrow> int \<Rightarrow> guards \<Rightarrow> int \<Rightarrow> bool" for E where
  start: "evolves E st t st t"
| serve: "evolves E st t st1 t1 \<Longrightarrow> t1 \<le> t2 \<Longrightarrow> handle_request E t2 q st1 = (r, st2) \<Longrightarrow> evolves E st t st2 t2"
| clean: "evolves E st t st1 t1 \<Longrightarrow> t1 \<le> t2 \<Longrightarrow> evolves E st t (pruneAssertions t2 st1) t2"

text \<open>
  A store of identifiers with expiry times: \<open>entries\<close> reads it, \<open>alive e now\<close> says that an entry with
  expiry \<open>e\<close> must still be there. Whatever one step of the engine does, it keeps the live entries.
\<close>

locale replay_store =
  fixes entries :: "guards \<Rightarrow> (string \<times> int) set" and alive :: "int \<Rightarrow> int \<Rightarrow> bool"
  assumes alive_mono: "alive e now \<Longrightarrow> before \<le> now \<Longrightarrow> alive e before"
    and serve_keeps: "handle_request E now q st = (r, st') \<Longrightarrow> x \<in> entries st \<Longrightarrow> alive (snd x) now \<Longrightarrow> x \<in> entries st'"
    and clean_keeps: "x \<in> entries st \<Longrightarrow> alive (snd x) now \<Longrightarrow> x \<in> entries (pruneAssertions now st)"
begin

lemma remembered:
  assumes "evolves E st t st' t'" "x \<in> entries st" "alive (snd x) t'"
  shows "x \<in> entries st' \<and> t \<le> t'"
  using assms
proof (induction rule: evolves.induct)
  case (serve st t st1 t1 t2 q r st2)
  then show ?case using serve_keeps[OF serve.hyps(3)] alive_mono by (metis order_trans)
next
  case (clean st t st1 t1 t2)
  then show ?case using clean_keeps alive_mono by (metis order_trans)
qed simp

end

lemma set_map_set: "k \<notin> fst ` set kvs \<Longrightarrow> set (map_set k v kvs) = insert (k, v) (set kvs)"
  by (induction kvs) auto

lemma authenticate_guards:
  assumes "authenticateServiceRequest P N S now h verb path body action st = (r, st')"
  shows "gd_assertions st' = gd_assertions st \<and>
    (\<forall>x \<in> set (gd_seen st). now < snd x \<longrightarrow> x \<in> set (gd_seen st'))"
  using assms
  by (auto simp: authenticateServiceRequest_def pruneServiceReplayCache_def Let_def set_map_set
      split: js.splits option.splits if_splits)

lemma verifyActor_guards:
  assumes "verifyActor jwt now h st = (r, st')"
  shows "gd_seen st' = gd_seen st \<and> set (gd_assertions st) \<subseteq> set (gd_assertions st')"
  using assms by (auto simp: verifyActor_def split: sum.splits if_splits)

lemma handle_request_guards:
  assumes "handle_request E now q st = (r, st')"
  shows "set (gd_assertions st) \<subseteq> set (gd_assertions st') \<and>
    (\<forall>x \<in> set (gd_seen st). now < snd x \<longrightarrow> x \<in> set (gd_seen st'))"
  using assms
  by (auto simp: handle_request_def split: option.splits sum.splits prod.splits if_splits
      dest!: authenticate_guards verifyActor_guards)

interpretation seen_requests: replay_store "\<lambda>st. set (gd_seen st)" "\<lambda>e now. now < e"
  by unfold_locales (use handle_request_guards in \<open>fastforce simp: pruneAssertions_def\<close>)+

interpretation used_assertions: replay_store "\<lambda>st. set (gd_assertions st)" "\<lambda>e now. now \<le> e"
  by unfold_locales (use handle_request_guards in \<open>fastforce simp: pruneAssertions_def\<close>)+

section \<open>Properties\<close>

lemma authenticate_accepts:
  assumes "authenticateServiceRequest P N S now h verb path body action st = (Inr a, st')"
  obtains requestId timestamp signature where
    "hd_service h = JStr (se_serviceId S)" "hd_requestId h = JStr requestId"
    "safe_int (js_Number N (singleHeader (hd_timestamp h))) = Some timestamp" "hd_signature h = JStr signature"
    "requestId \<noteq> []" "length requestId \<le> 128" "\<bar>now - timestamp\<bar> \<le> 30"
    "requestId \<notin> fst ` set (pruneServiceReplayCache now (gd_seen st))"
    "signature = signServiceRequest P \<lparr>rq_timestamp = timestamp, rq_requestId = requestId,
       rq_serviceId = se_serviceId S, rq_method = verb, rq_path = path, rq_body = body\<rparr> (se_hmacSecret S)"
    "authorizeServiceAction (se_serviceId S) action = Inr a"
    "st' = st\<lparr>gd_seen := map_set requestId (now + 30) (pruneServiceReplayCache now (gd_seen st))\<rparr>"
proof -
  have sh: "singleHeader v = JStr s \<longleftrightarrow> v = JStr s" for v s by (cases v) auto
  from assms obtain serviceId requestId timestamp where
    h: "hd_service h = JStr serviceId" "hd_requestId h = JStr requestId"
      "safe_int (js_Number N (singleHeader (hd_timestamp h))) = Some timestamp"
    by (auto simp: authenticateServiceRequest_def sh split: js.splits option.splits)
  note u = assms[unfolded authenticateServiceRequest_def h(3) Let_def SERVICE_REQUEST_WINDOW_SECONDS_def] 
  from u h obtain signature where "hd_signature h = JStr signature"
    by (auto simp: verifyServiceRequest_def as_str_Some sh split: if_splits option.splits)
  with u h that show ?thesis
    by (auto simp: verifyServiceRequest_def split: if_splits sum.splits)
qed

lemma verifyActor_accepts:
  assumes "verifyActor jwt t h st = (Inr a, st1)"
  shows "\<exists>bearer. bearerToken (hd_authorization h) = Inr bearer \<and>
    bindE (jwt bearer) (\<lambda>payload. validateActorAssertionClaims payload t) = Inr a \<and>
    ac_assertionId a \<notin> fst ` set (gd_assertions st) \<and>
    st1 = st\<lparr>gd_assertions := (ac_assertionId a, ac_expiresAt a) # gd_assertions st\<rparr>"
  using assms by (auto simp: verifyActor_def split: sum.splits if_splits js_error.splits err_code.splits)

text \<open>
  C25. An actor assertion is good for one request: once the engine has accepted a token, no later
  request with the same token is accepted, however many requests and clean-ups lie between. The
  stored identifier outlives the token, so deleting expired rows never reopens it.
\<close>

theorem actor_assertion_once:
  assumes "verifyActor (ho_jwt E) t h st = (Inr a, st1)" "evolves E st1 t st2 t'"
    and "hd_authorization h' = hd_authorization h"
  shows "\<exists>e. fst (verifyActor (ho_jwt E) t' h' st2) = Inl e"
proof (rule ccontr)
  assume "\<nexists>e. fst (verifyActor (ho_jwt E) t' h' st2) = Inl e"
  then obtain b st3 where b: "verifyActor (ho_jwt E) t' h' st2 = (Inr b, st3)"
    by (metis obj_sumE prod.collapse)
  let ?claims = "\<lambda>now x. bindE (ho_jwt E x) (\<lambda>payload. validateActorAssertionClaims payload now)"
  from assms(1) obtain bearer where be: "bearerToken (hd_authorization h) = Inr bearer" "?claims t bearer = Inr a"
    and st1: "(ac_assertionId a, ac_expiresAt a) \<in> set (gd_assertions st1)"
    using verifyActor_accepts by fastforce
  with verifyActor_accepts[OF b] assms(3)
  have b2: "?claims t' bearer = Inr b" "ac_assertionId b \<notin> fst ` set (gd_assertions st2)" by auto
  have same: "ac_assertionId b = ac_assertionId a" "ac_expiresAt b = ac_expiresAt a" "t' < ac_expiresAt b"
    using be(2) b2(1)
    by (auto simp: bindE_Inr validateActorAssertionClaims_def Let_def guardE_Inr)
  have "(ac_assertionId a, ac_expiresAt a) \<in> set (gd_assertions st2)"
    using used_assertions.remembered[OF assms(2) st1] same by simp
  with b2(2) same show False by (force simp: image_iff)
qed

text \<open>
  C27. Within thirty seconds of its acceptance a service request is not accepted again, whatever
  else the engine serves in between.
\<close>

theorem service_request_not_repeated:
  assumes "authenticateServiceRequest (ho_primitives E) (ho_number E) (ho_settings E) t h verb path body action st = (Inr a, st1)"
    and "evolves E st1 t st2 t'" "t' < t + 30" "hd_requestId h' = hd_requestId h"
  shows "\<exists>e. fst (authenticateServiceRequest (ho_primitives E) (ho_number E) (ho_settings E) t' h' verb' path' body' action' st2) = Inl e"
proof (rule ccontr)
  assume "\<not> ?thesis"
  then obtain b st3 where b: "authenticateServiceRequest (ho_primitives E) (ho_number E) (ho_settings E) t' h' verb' path' body' action' st2 = (Inr b, st3)"
    by (metis obj_sumE prod.collapse)
  from authenticate_accepts[OF assms(1)] obtain i where i: "hd_requestId h = JStr i" 
    "i \<notin> fst ` set (pruneServiceReplayCache t (gd_seen st))"
    "st1 = st\<lparr>gd_seen := map_set i (t + 30) (pruneServiceReplayCache t (gd_seen st))\<rparr>" by metis
  from i have "(i, t + 30) \<in> set (gd_seen st1)" by (simp add: set_map_set)
  then have "(i, t + 30) \<in> set (gd_seen st2)"
    using seen_requests.remembered[OF assms(2)] assms(3) by simp
  then have "i \<in> fst ` set (pruneServiceReplayCache t' (gd_seen st2))"
    using assms(3) by (force simp: pruneServiceReplayCache_def)
  moreover from authenticate_accepts[OF b] obtain j where "hd_requestId h' = JStr j"
    "j \<notin> fst ` set (pruneServiceReplayCache t' (gd_seen st2))" by metis
  ultimately show False using i(1) assms(4) by simp
qed

text \<open>
  C28. The replay cache forgets a request before its timestamp leaves the accepted window: a
  request whose timestamp is not in the past is accepted a second time thirty seconds later.
\<close>

theorem service_request_replay_gap:
  assumes "authenticateServiceRequest P N S t h verb path body action st = (Inr a, st1)"
    and "safe_int (js_Number N (singleHeader (hd_timestamp h))) = Some ts" "t \<le> ts"
  shows "fst (authenticateServiceRequest P N S (t + 30) h verb path body action st1) = Inr a"
proof -
  obtain i ts' sig where acc:
    "hd_service h = JStr (se_serviceId S)" "hd_requestId h = JStr i"
    "safe_int (js_Number N (singleHeader (hd_timestamp h))) = Some ts'" "hd_signature h = JStr sig"
    "i \<noteq> []" "length i \<le> 128" "\<bar>t - ts'\<bar> \<le> 30"
    "i \<notin> fst ` set (pruneServiceReplayCache t (gd_seen st))"
    "sig = signServiceRequest P \<lparr>rq_timestamp = ts', rq_requestId = i, rq_serviceId = se_serviceId S,
       rq_method = verb, rq_path = path, rq_body = body\<rparr> (se_hmacSecret S)"
    "authorizeServiceAction (se_serviceId S) action = Inr a"
    "st1 = st\<lparr>gd_seen := map_set i (t + 30) (pruneServiceReplayCache t (gd_seen st))\<rparr>"
    by (rule authenticate_accepts[OF assms(1)])
  have ts: "ts' = ts" using acc(3) assms(2) by simp
  have sig: "sig \<noteq> []"
    using assms(1)
    by (auto simp: authenticateServiceRequest_def Let_def verifyServiceRequest_def acc(1-4) split: if_splits)
  have "i \<notin> fst ` set (pruneServiceReplayCache (t + 30) (gd_seen st1))"
  proof -
    have "set (gd_seen st1) = insert (i, t + 30) (set (pruneServiceReplayCache t (gd_seen st)))"
      using set_map_set[OF acc(8)] acc(11) by simp
    then show ?thesis using acc(8) unfolding pruneServiceReplayCache_def[of "t + 30"] by auto
  qed
  moreover have "\<bar>t + 30 - ts\<bar> \<le> 30" using acc(7) ts assms(3) by linarith
  ultimately show ?thesis
    using acc(5,6) sig
    by (simp add: authenticateServiceRequest_def SERVICE_REQUEST_WINDOW_SECONDS_def acc(1,2,4,10) assms(2) Let_def
        verifyServiceRequest_def acc(9)[symmetric, unfolded ts])
qed

lemma show_int_header:
  assumes "0 \<le> ts" "ts < 10 ^ 15"
  shows "js_Number N (JStr (show_int ts)) = JInt ts"
proof -
  have "length (show_nat (nat ts)) \<le> 15" using assms by (intro length_show_nat) (simp_all add: nat_less_iff)
  then show ?thesis using assms digits_of_show_nat by (simp add: show_int_def)
qed

text \<open>
  C29. The engine accepts what the private ingress forwards: for a routed action, a fresh request
  identifier and clocks at most thirty seconds apart, the signed request authenticates, for the
  action of its route.
\<close>

theorem ingress_request_accepted:
  assumes "se_serviceId S = ''vasi-private-ingress''" "resolveEngineRoute verb path = Some route"
    and "requestId \<noteq> []" "length requestId \<le> 128" "requestId \<notin> fst ` set (gd_seen st)"
    and "0 \<le> ts" "ts < 10 ^ 15" "\<bar>now - ts\<bar> \<le> 30" "\<And>k m. hmac256 P k m \<noteq> []"
  shows "fst (authenticateServiceRequest P N S now (ingress_headers P S requestId ts verb path body auth)
           verb path body (rt_action route) st) = Inr \<lparr>az_action = rt_action route, az_serviceId = ''vasi-private-ingress''\<rparr>"
proof -
  have "list_all (\<lambda>r. rt_action r \<in> set (snd (hd serviceActions))) engineRoutes" by code_simp
  moreover have "route \<in> set engineRoutes"
    using assms(2) by (auto simp: resolveEngineRoute_def find_Some_iff)
  ultimately have a: "authorizeServiceAction ''vasi-private-ingress'' (rt_action route) =
      Inr \<lparr>az_action = rt_action route, az_serviceId = ''vasi-private-ingress''\<rparr>"
    by (simp add: authorizeServiceAction_def serviceActions_def list_all_iff)
  have f: "requestId \<notin> fst ` set (pruneServiceReplayCache now (gd_seen st))"
    using assms(5) by (auto simp: pruneServiceReplayCache_def)
  have m: "\<bar>ts\<bar> \<le> MAX_SAFE_INTEGER" using assms(6,7) by (simp add: MAX_SAFE_INTEGER_def)
  show ?thesis
    using assms(1,3,4,8) f a m assms(9)
    by (simp add: authenticateServiceRequest_def ingress_headers_def show_int_header[OF assms(6,7)] Let_def
        SERVICE_REQUEST_WINDOW_SECONDS_def verifyServiceRequest_def signServiceRequest_def del: js_Number.simps)
qed


definition claim_text :: "string \<Rightarrow> bool" where
  "claim_text s = (js_trim s \<noteq> [] \<and> length s \<le> 512)"

definition context_ok :: "request_context \<Rightarrow> bool" where
  "context_ok c = (pred_option claim_text (rc_acceptLanguage c) \<and> pred_option claim_text (rc_clientHints c) \<and>
     pred_option claim_text (rc_ipAddress c) \<and> pred_option claim_text (rc_userAgent c))"

definition authentication_ok :: "authentication \<Rightarrow> bool" where
  "authentication_ok u = (claim_text (at_method u) \<and> pred_option claim_text (at_provenance u) \<and>
     pred_option claim_text (at_provider u) \<and> pred_option claim_text (at_providerSubject u) \<and>
     pred_option claim_text (at_linkedProvider u) \<and> pred_option claim_text (at_linkedProviderSubject u))"

definition actor_ok :: "actor \<Rightarrow> bool" where
  "actor_ok a =
     (claim_text (ac_subject a) \<and> claim_text (ac_principalId a) \<and> claim_text (ac_gatewaySessionId a) \<and>
      authentication_ok (ac_authentication a) \<and> list_all claim_text (ac_roles a) \<and> length (ac_roles a) \<le> 32 \<and>
      pred_option (\<lambda>n. \<bar>n\<bar> \<le> MAX_SAFE_INTEGER) (ac_authenticatedAt a) \<and>
      pred_option (\<lambda>e. claim_text e \<and> js_lower e = e \<and> length e \<le> 320 \<and> email_shape e) (ac_email a) \<and>
      pred_option context_ok (ac_requestContext a) \<and> pred_option claim_text (ac_tenantId a))"

lemma requiredString_JStr: "claim_text s \<Longrightarrow> requiredString (JStr s) f = Inr s"
  by (simp add: requiredString_def claim_text_def)

lemma optionalString_opt: "pred_option claim_text x \<Longrightarrow> optionalString (opt_js JStr x) f = Inr x"
  by (cases x) (simp_all add: optionalString_def nullish_def requiredString_JStr)

lemma optionalInteger_opt: "pred_option (\<lambda>n. \<bar>n\<bar> \<le> MAX_SAFE_INTEGER) x \<Longrightarrow> optionalInteger (opt_js JInt x) f = Inr x"
  by (cases x) (simp_all add: optionalInteger_def nullish_def requiredInteger_def)

lemma optionalEmail_opt:
  "pred_option (\<lambda>e. claim_text e \<and> js_lower e = e \<and> length e \<le> 320 \<and> email_shape e) x \<Longrightarrow> optionalEmail (opt_js JStr x) = Inr x"
  by (cases x) (simp_all add: optionalEmail_def nullish_def requiredString_JStr)

lemma roles_claim: "list_all claim_text rs \<Longrightarrow> mapE (\<lambda>r. requiredString r f) (map JStr rs) = Inr rs"
  by (rule mapE_idem) (simp add: requiredString_JStr list_all_iff)

lemma requestContext_opt:
  assumes "pred_option context_ok x"
  shows "validateRequestContext (opt_js (\<lambda>c. JObj [(''accept_language'', opt_js JStr (rc_acceptLanguage c)),
          (''client_hints'', opt_js JStr (rc_clientHints c)), (''ip_address'', opt_js JStr (rc_ipAddress c)),
          (''user_agent'', opt_js JStr (rc_userAgent c))]) x) = Inr x"
  using assms
  by (cases x) (simp_all add: validateRequestContext_def nullish_def context_ok_def optionalString_opt)

lemmas claim_simps = requiredString_JStr optionalString_opt optionalInteger_opt optionalEmail_opt roles_claim requestContext_opt

text \<open>
  The claims the gateway signs for a well-formed actor are accepted by the engine as that very
  actor, from fifteen seconds before the signing second until a minute after it.
\<close>

theorem actor_assertion_roundtrip:
  assumes "actor_ok a" "claim_text jti" "\<bar>now\<bar> < 9007199254740000" "now \<le> t + 15" "t < now + 60"
  shows "validateActorAssertionClaims (assertion_claims a jti now) t =
    Inr (a\<lparr>ac_assertionId := jti, ac_issuedAt := now, ac_expiresAt := now + 60\<rparr>)"
proof -
  note ok = assms(1)[unfolded actor_ok_def authentication_ok_def]
  have i: "requiredInteger (JInt now) f = Inr now" "requiredInteger (JInt (now + 60)) f = Inr (now + 60)" for f
    using assms(3) by (simp_all add: requiredInteger_def MAX_SAFE_INTEGER_def del: of_int_add)
  show ?thesis
    using ok assms(2,4,5)
    by (simp add: validateActorAssertionClaims_def assertion_claims_def Let_def i claim_simps
        ACTOR_ASSERTION_MAX_LIFETIME_SECONDS_def guardE_def del: of_int_add)
qed

section \<open>Witnesses\<close>

definition demo_mac :: primitives where
  "demo_mac = demo_primitives\<lparr>hmac256 := (\<lambda>k m. ''mac'' @ k @ m)\<rparr>"

definition demo_settings :: engine_settings where
  "demo_settings = \<lparr>se_serviceId = ''vasi-private-ingress'', se_hmacSecret = ''secret''\<rparr>"

definition demo_actor :: actor where
  "demo_actor = \<lparr>ac_assertionId = ''a1'', ac_authenticatedAt = Some 900,
     ac_authentication = \<lparr>at_linkedProvider = None, at_linkedProviderSubject = None, at_method = ''password'',
       at_provenance = None, at_provider = Some ''local'', at_providerSubject = None\<rparr>,
     ac_email = Some ''p@example.org'', ac_expiresAt = 1060, ac_gatewaySessionId = ''s1'', ac_issuedAt = 1000,
     ac_principalId = ''p1'', ac_requestContext = None, ac_roles = [''user''], ac_subject = ''p1'', ac_tenantId = None\<rparr>"

definition demo_host :: host where
  "demo_host = \<lparr>ho_primitives = demo_mac, ho_number = (\<lambda>_. NaN), ho_settings = demo_settings,
     ho_jwt = (\<lambda>bearer. if bearer = ''jwt'' then Inr (assertion_claims demo_actor ''a1'' 1000) else throw (ERR_JWT False) (Because ''jwt'')),
     ho_parse = (\<lambda>_. None), ho_stores = (\<lambda>_ _ _ _. Inr JNull)\<rparr>"

definition demo_headers :: headers where
  "demo_headers = ingress_headers demo_mac demo_settings ''r1'' 1000 ''GET'' ''/v1/owner/tenants'' [] (JStr ''Bearer jwt'')"

definition no_guards :: guards where
  "no_guards = \<lparr>gd_seen = [], gd_assertions = []\<rparr>"

definition demo_http :: http_request where
  "demo_http = \<lparr>ht_method = ''GET'', ht_path = ''/v1/owner/tenants'', ht_headers = demo_headers, ht_chunks = []\<rparr>"

lemma demo_actor_ok: "actor_ok demo_actor"
proof -
  have "list_all claim_text [''password'', ''local'', ''s1'', ''p1'', ''user'', ''p@example.org'']" by code_simp
  moreover have "js_lower ''p@example.org'' = ''p@example.org'' \<and> email_shape ''p@example.org''" by code_simp
  ultimately show ?thesis
    by (simp add: actor_ok_def authentication_ok_def demo_actor_def MAX_SAFE_INTEGER_def)
qed

lemma demo_actor_accepted:
  "validateActorAssertionClaims (assertion_claims demo_actor ''a1'' 1000) 1000 = Inr demo_actor"
proof -
  have "claim_text ''a1''" by code_simp
  then have "validateActorAssertionClaims (assertion_claims demo_actor ''a1'' 1000) 1000 =
      Inr (demo_actor\<lparr>ac_assertionId := ''a1'', ac_issuedAt := 1000, ac_expiresAt := 1000 + 60\<rparr>)"
    using demo_actor_ok
    by (simp add: validateActorAssertionClaims_def assertion_claims_def Let_def claim_simps requiredInteger_def MAX_SAFE_INTEGER_def
        ACTOR_ASSERTION_MAX_LIFETIME_SECONDS_def guardE_def actor_ok_def authentication_ok_def)
  also have "\<dots> = Inr demo_actor" by (simp add: demo_actor_def)
  finally show ?thesis .
qed

lemma demo_verified:
  "verifyActor (ho_jwt demo_host) 1000 demo_headers st =
     (if ''a1'' \<in> fst ` set (gd_assertions st) then (throw (STORE_ERROR 409) (Because ''assertion_replayed''), st)
      else (Inr demo_actor, st\<lparr>gd_assertions := (''a1'', 1060) # gd_assertions st\<rparr>))"
proof -
  have "ac_assertionId demo_actor = ''a1''" "ac_expiresAt demo_actor = 1060" by (simp_all add: demo_actor_def)
  then show ?thesis
    by (simp add: verifyActor_def demo_headers_def ingress_headers_def bearerToken_def demo_host_def demo_actor_accepted)
qed

lemma demo_route: "resolveEngineRoute ''GET'' ''/v1/owner/tenants'' = Some \<lparr>rt_action = ''tenant.list'', rt_method = ''GET'', rt_path = ''/v1/owner/tenants''\<rparr>"
  by code_simp

theorem ingress_request_accepted_witness:
  "fst (authenticateServiceRequest demo_mac (\<lambda>_. NaN) demo_settings 1000 demo_headers ''GET'' ''/v1/owner/tenants'' []
     ''tenant.list'' no_guards) = Inr \<lparr>az_action = ''tenant.list'', az_serviceId = ''vasi-private-ingress''\<rparr>"
  using ingress_request_accepted[OF _ demo_route, of demo_settings "''r1''" no_guards 1000 1000 demo_mac "\<lambda>_. NaN" "[]"]
  by (simp add: demo_settings_def no_guards_def demo_headers_def demo_mac_def)

lemma demo_authenticated:
  "\<exists>st1. authenticateServiceRequest demo_mac (\<lambda>_. NaN) demo_settings 1000 demo_headers ''GET'' ''/v1/owner/tenants'' []
     ''tenant.list'' no_guards = (Inr \<lparr>az_action = ''tenant.list'', az_serviceId = ''vasi-private-ingress''\<rparr>, st1) \<and> gd_assertions st1 = []"
proof -
  have a: "authorizeServiceAction ''vasi-private-ingress'' ''tenant.list'' = Inr \<lparr>az_action = ''tenant.list'', az_serviceId = ''vasi-private-ingress''\<rparr>"
    by code_simp
  show ?thesis
    by (simp add: authenticateServiceRequest_def demo_headers_def ingress_headers_def show_int_header Let_def demo_settings_def
        SERVICE_REQUEST_WINDOW_SECONDS_def verifyServiceRequest_def signServiceRequest_def demo_mac_def MAX_SAFE_INTEGER_def
        pruneServiceReplayCache_def no_guards_def a del: js_Number.simps)
qed

theorem service_request_not_repeated_witness:
  "\<exists>a st1 e. authenticateServiceRequest demo_mac (\<lambda>_. NaN) demo_settings 1000 demo_headers ''GET'' ''/v1/owner/tenants'' [] ''tenant.list'' no_guards = (Inr a, st1) \<and>
     fst (authenticateServiceRequest demo_mac (\<lambda>_. NaN) demo_settings 1000 demo_headers ''GET'' ''/v1/owner/tenants'' [] ''tenant.list'' st1) = Inl e"
proof -
  obtain a st1 where a: "authenticateServiceRequest demo_mac (\<lambda>_. NaN) demo_settings 1000 demo_headers ''GET'' ''/v1/owner/tenants'' [] ''tenant.list'' no_guards = (Inr a, st1)"
    using demo_authenticated by blast
  have E: "ho_primitives demo_host = demo_mac" "ho_number demo_host = (\<lambda>_. NaN)" "ho_settings demo_host = demo_settings"
    by (simp_all add: demo_host_def)
  show ?thesis
    using service_request_not_repeated[of demo_host 1000 demo_headers _ _ _ _ _ a st1 st1 1000 demo_headers] a start
    by (fastforce simp: E)
qed

theorem service_request_replay_gap_witness:
  "\<exists>a st1. authenticateServiceRequest demo_mac (\<lambda>_. NaN) demo_settings 1000 demo_headers ''GET'' ''/v1/owner/tenants'' [] ''tenant.list'' no_guards = (Inr a, st1) \<and>
     fst (authenticateServiceRequest demo_mac (\<lambda>_. NaN) demo_settings 1030 demo_headers ''GET'' ''/v1/owner/tenants'' [] ''tenant.list'' st1) = Inr a"
proof -
  obtain a st1 where a: "authenticateServiceRequest demo_mac (\<lambda>_. NaN) demo_settings 1000 demo_headers ''GET'' ''/v1/owner/tenants'' [] ''tenant.list'' no_guards = (Inr a, st1)"
    using demo_authenticated by blast
  have "safe_int (js_Number (\<lambda>_. NaN) (singleHeader (hd_timestamp demo_headers))) = Some 1000"
    by (simp add: demo_headers_def ingress_headers_def show_int_header MAX_SAFE_INTEGER_def del: js_Number.simps)
  from service_request_replay_gap[OF a this] a show ?thesis by auto
qed

theorem actor_assertion_once_witness:
  "\<exists>e. fst (verifyActor (ho_jwt demo_host) 1000 demo_headers (snd (verifyActor (ho_jwt demo_host) 1000 demo_headers no_guards))) = Inl e"
proof -
  have "verifyActor (ho_jwt demo_host) 1000 demo_headers no_guards = (Inr demo_actor, no_guards\<lparr>gd_assertions := [(''a1'', 1060)]\<rparr>)"
    by (simp add: demo_verified no_guards_def)
  from actor_assertion_once[OF this start, of demo_headers] this show ?thesis by simp
qed

theorem actor_assertion_roundtrip_witness:
  "validateActorAssertionClaims (assertion_claims demo_actor ''a2'' 2000) 2001 =
     Inr (demo_actor\<lparr>ac_assertionId := ''a2'', ac_issuedAt := 2000, ac_expiresAt := 2060\<rparr>)"
proof -
  have "claim_text ''a2''" by code_simp
  from actor_assertion_roundtrip[OF demo_actor_ok this, of 2000 2001] show ?thesis by simp
qed


end
