(* ===== verification/EventChain.thy ===== *)
theory EventChain
  imports HashChain Boundary
begin

text \<open>
  The engine's event chains: evidence events (\<^verbatim>\<open>src/services/engine/evidence-events.mjs\<close>, and the worker's
  copy in \<^verbatim>\<open>src/services/worker/worker.mjs\<close>), record lifecycle events and participant data request
  events (\<^verbatim>\<open>src/services/engine/lifecycle-store.mjs\<close>), and product configuration events
  (\<^verbatim>\<open>src/services/engine/product-store.mjs\<close>). Each is \<open>append_link\<close> with its own event object; the
  chain tables of a database are a \<open>ledger\<close>. A thrown error rolls the transaction back, so it
  leaves the ledger as it was.

  An object member that is \<open>undefined\<close> is \<open>JUndef\<close> here. The stored jsonb column has no such members,
  and canonical JSON skips them, so the hash is the same.
\<close>

section \<open>Actors as JSON\<close>

definition authentication_js :: "authentication \<Rightarrow> js" where
  "authentication_js u = JObj
     [(''linkedProvider'', opt_js JStr (at_linkedProvider u)), (''linkedProviderSubject'', opt_js JStr (at_linkedProviderSubject u)),
      (''method'', JStr (at_method u)), (''provenance'', opt_js JStr (at_provenance u)),
      (''provider'', opt_js JStr (at_provider u)), (''providerSubject'', opt_js JStr (at_providerSubject u))]"

definition request_context_js :: "request_context \<Rightarrow> js" where
  "request_context_js c = JObj
     [(''acceptLanguage'', opt_js JStr (rc_acceptLanguage c)), (''clientHints'', opt_js JStr (rc_clientHints c)),
      (''ipAddress'', opt_js JStr (rc_ipAddress c)), (''userAgent'', opt_js JStr (rc_userAgent c))]"

definition actorSnapshot :: "actor \<Rightarrow> js" where
  "actorSnapshot a = JObj
     [(''authenticatedAt'', opt_js JInt (ac_authenticatedAt a)), (''authentication'', authentication_js (ac_authentication a)),
      (''email'', opt_js JStr (ac_email a)), (''gatewaySessionId'', JStr (ac_gatewaySessionId a)),
      (''principalId'', JStr (ac_principalId a)), (''requestContext'', opt_js request_context_js (ac_requestContext a)),
      (''roles'', JArr (map JStr (ac_roles a)))]"

definition lifecycleActorSnapshot :: "actor \<Rightarrow> js" where
  "lifecycleActorSnapshot a = JObj
     [(''authentication'', JObj [(''method'', JStr (at_method (ac_authentication a))),
        (''provider'', opt_js JStr (at_provider (ac_authentication a)))]),
      (''principalId'', JStr (ac_principalId a)), (''roles'', JArr (map JStr (sort (ac_roles a))))]"

section \<open>Evidence events\<close>

definition ENGINE_VERSION :: string where
  "ENGINE_VERSION = ''0.55.1''"

record event_columns =
  ev_id :: string
  ev_tenantId :: string
  ev_requestId :: string
  ev_eventType :: string
  ev_actorPrincipalId :: string
  ev_receivedAt :: int

type_synonym event_ledger = "(string, event_columns) ledger"

record event_input =
  ei_assignmentId :: string
  ei_eventType :: string
  ei_payload :: js
  ei_receivedAt :: int
  ei_requestId :: string
  ei_tenantId :: string

definition event_data :: "js \<Rightarrow> string \<Rightarrow> event_input \<Rightarrow> int \<Rightarrow> string \<Rightarrow> js" where
  "event_data actor eventId i sequence previousHash = JObj
     [(''actor'', actor), (''assignmentId'', JStr (ei_assignmentId i)), (''engineVersion'', JStr ENGINE_VERSION),
      (''eventId'', JStr eventId), (''eventType'', JStr (ei_eventType i)), (''payload'', ei_payload i),
      (''previousHash'', JStr previousHash), (''receivedAt'', JStr (toISOString (ei_receivedAt i))),
      (''requestId'', JStr (ei_requestId i)), (''schema'', JStr ''vasi-evidence-event/v1''),
      (''sequence'', JInt sequence), (''tenantId'', JStr (ei_tenantId i))]"

definition event_row :: "string \<Rightarrow> string \<Rightarrow> event_input \<Rightarrow> event_columns" where
  "event_row principalId eventId i = \<lparr>ev_id = eventId, ev_tenantId = ei_tenantId i, ev_requestId = ei_requestId i,
     ev_eventType = ei_eventType i, ev_actorPrincipalId = principalId, ev_receivedAt = ei_receivedAt i\<rparr>"

text \<open>\<open>receivedAt\<close> is a \<open>new Date()\<close> of the caller, so \<open>toISOString\<close> does not throw.\<close>

definition appendEvent ::
  "(string \<Rightarrow> string) \<Rightarrow> actor \<Rightarrow> string \<Rightarrow> event_input \<Rightarrow> event_ledger \<Rightarrow> ((string, event_columns) link \<times> event_ledger) res" where
  "appendEvent H actor eventId i L =
     (case lg_heads L (ei_assignmentId i) of
        None \<Rightarrow> throw (STORE_ERROR 500) (Because ''evidence_chain_missing'')
      | Some head \<Rightarrow>
          append_link H (ei_assignmentId i) head (event_data (actorSnapshot actor) eventId i)
            (event_row (ac_principalId actor) eventId i) L)"

definition worker_actor :: js where
  "worker_actor = JObj [(''authentication'', JObj [(''method'', JStr ''service'')]), (''gatewaySessionId'', JStr ''vasi-worker''),
     (''principalId'', JStr ''vasi-worker''), (''roles'', JArr [JStr ''service''])]"

text \<open>
  The worker starts at the genesis hash when the head row is missing; its update then changes no
  row, so no head row appears.
\<close>

definition appendWorkerEvent ::
  "(string \<Rightarrow> string) \<Rightarrow> string \<Rightarrow> event_input \<Rightarrow> event_ledger \<Rightarrow> ((string, event_columns) link \<times> event_ledger) res" where
  "appendWorkerEvent H eventId i L =
     (case lg_heads L (ei_assignmentId i) of
        Some head \<Rightarrow>
          append_link H (ei_assignmentId i) head (event_data worker_actor eventId i) (event_row ''vasi-worker'' eventId i) L
      | None \<Rightarrow>
          bindE (append_link H (ei_assignmentId i) \<lparr>hd_lastSequence = 0, hd_lastHash = GENESIS_HASH\<rparr>
                   (event_data worker_actor eventId i) (event_row ''vasi-worker'' eventId i) L) (\<lambda>(row, L').
          Inr (row, L'\<lparr>lg_heads := lg_heads L\<rparr>)))"

text \<open>\<open>evidenceEvents\<close>: the rows of an assignment by sequence, as the objects of an evidence record.\<close>

definition event_js :: "('k, 'c) link \<Rightarrow> js" where
  "event_js r = JObj [(''sequence'', JInt (lk_sequence r)), (''eventData'', lk_data r),
     (''previousHash'', JStr (lk_previousHash r)), (''eventHash'', JStr (lk_eventHash r))]"

definition evidenceEvents :: "event_ledger \<Rightarrow> string \<Rightarrow> js list" where
  "evidenceEvents L assignmentId = map event_js (sort_key lk_sequence (links_of assignmentId L))"

section \<open>Lifecycle, data request and configuration events\<close>

record lifecycle_input =
  li_assignmentId :: string
  li_commandId :: "string option"
  li_createdAt :: int
  li_eventType :: string
  li_payload :: js
  li_requestId :: string
  li_source :: string
  li_tenantId :: string

definition lifecycle_data :: "actor \<Rightarrow> string \<Rightarrow> lifecycle_input \<Rightarrow> int \<Rightarrow> string \<Rightarrow> js" where
  "lifecycle_data actor eventId i sequence previousHash = JObj
     [(''actor'', lifecycleActorSnapshot actor), (''assignmentId'', JStr (li_assignmentId i)),
      (''createdAt'', JStr (toISOString (li_createdAt i))), (''engineVersion'', JStr ENGINE_VERSION),
      (''eventId'', JStr eventId), (''eventType'', JStr (li_eventType i)), (''payload'', li_payload i),
      (''previousHash'', JStr previousHash), (''requestId'', JStr (li_requestId i)),
      (''schema'', JStr ''vasi-record-lifecycle-event/v1''), (''sequence'', JInt sequence),
      (''source'', JStr (li_source i)), (''tenantId'', JStr (li_tenantId i))]"

type_synonym lifecycle_ledger = "(string, lifecycle_input \<times> string) ledger"

definition appendLifecycleEvent ::
  "(string \<Rightarrow> string) \<Rightarrow> actor \<Rightarrow> string \<Rightarrow> lifecycle_input \<Rightarrow> lifecycle_ledger \<Rightarrow>
     ((string, lifecycle_input \<times> string) link \<times> lifecycle_ledger) res" where
  "appendLifecycleEvent H actor eventId i L =
     (case lg_heads L (li_assignmentId i) of
        None \<Rightarrow> throw (STORE_ERROR 500) (Because ''record_lifecycle_chain_missing'')
      | Some head \<Rightarrow> append_link H (li_assignmentId i) head (lifecycle_data actor eventId i) (i, ac_principalId actor) L)"

record data_request_input =
  di_commandId :: "string option"
  di_createdAt :: int
  di_eventType :: string
  di_payload :: js
  di_requestId :: string
  di_tenantId :: "string option"

definition data_request_data :: "actor \<Rightarrow> string \<Rightarrow> data_request_input \<Rightarrow> int \<Rightarrow> string \<Rightarrow> js" where
  "data_request_data actor eventId i sequence previousHash = JObj
     [(''actor'', lifecycleActorSnapshot actor), (''createdAt'', JStr (toISOString (di_createdAt i))),
      (''engineVersion'', JStr ENGINE_VERSION), (''eventId'', JStr eventId), (''eventType'', JStr (di_eventType i)),
      (''payload'', di_payload i), (''previousHash'', JStr previousHash), (''requestId'', JStr (di_requestId i)),
      (''schema'', JStr ''vasi-participant-data-request-event/v1''), (''sequence'', JInt sequence),
      (''tenantId'', opt_js JStr (di_tenantId i))]"

type_synonym data_request_ledger = "(string, data_request_input \<times> string) ledger"

definition appendDataRequestEvent ::
  "(string \<Rightarrow> string) \<Rightarrow> actor \<Rightarrow> string \<Rightarrow> data_request_input \<Rightarrow> data_request_ledger \<Rightarrow>
     ((string, data_request_input \<times> string) link \<times> data_request_ledger) res" where
  "appendDataRequestEvent H actor eventId i L =
     (case lg_heads L (di_requestId i) of
        None \<Rightarrow> throw (STORE_ERROR 500) (Because ''data_request_chain_missing'')
      | Some head \<Rightarrow> append_link H (di_requestId i) head (data_request_data actor eventId i) (i, ac_principalId actor) L)"

record configuration_input =
  ci_actorPrincipalId :: string
  ci_createdAt :: int
  ci_eventData :: js
  ci_eventType :: string
  ci_scopeId :: string
  ci_scopeType :: string
  ci_tenantId :: "string option"

definition configuration_data :: "string \<Rightarrow> configuration_input \<Rightarrow> int \<Rightarrow> string \<Rightarrow> js" where
  "configuration_data id0 i sequence previousHash = JObj
     [(''actorPrincipalId'', JStr (ci_actorPrincipalId i)), (''createdAt'', JStr (toISOString (ci_createdAt i))),
      (''eventData'', ci_eventData i), (''eventType'', JStr (ci_eventType i)), (''id'', JStr id0),
      (''previousHash'', JStr previousHash), (''scopeId'', JStr (ci_scopeId i)), (''scopeType'', JStr (ci_scopeType i)),
      (''sequence'', JInt sequence), (''tenantId'', opt_js JStr (ci_tenantId i))]"

type_synonym configuration_ledger = "(string \<times> string, configuration_input) ledger"

text \<open>The head row is inserted when the scope has none.\<close>

definition ensure_chain :: "'k \<Rightarrow> ('k, 'c) ledger \<Rightarrow> ('k, 'c) ledger" where
  "ensure_chain k L = (if lg_heads L k = None then open_chain k L else L)"

definition appendConfigurationEvent ::
  "(string \<Rightarrow> string) \<Rightarrow> string \<Rightarrow> configuration_input \<Rightarrow> configuration_ledger \<Rightarrow>
     ((string \<times> string, configuration_input) link \<times> configuration_ledger) res" where
  "appendConfigurationEvent H id0 i L =
     (let k = (ci_scopeType i, ci_scopeId i); L1 = ensure_chain k L in
      case lg_heads L1 k of
        None \<Rightarrow> throw TYPE_ERROR (Because ''head row'')
      | Some head \<Rightarrow> append_link H k head (configuration_data id0 i) i L1)"

section \<open>Every event object is a link\<close>

interpretation event_link: link_builder "event_data actor eventId i" for actor eventId i
  by unfold_locales (simp_all add: event_data_def)

interpretation lifecycle_link: link_builder "lifecycle_data actor eventId i" for actor eventId i
  by unfold_locales (simp_all add: lifecycle_data_def)

interpretation data_request_link: link_builder "data_request_data actor eventId i" for actor eventId i
  by unfold_locales (simp_all add: data_request_data_def)

interpretation configuration_link: link_builder "configuration_data eventId i" for eventId i
  by unfold_locales (simp_all add: configuration_data_def)

lemma appendEvent_chain:
  assumes "appendEvent H actor eventId i L = Inr (r, L')" "\<forall>k. chain_ok H k L"
  shows "\<forall>k. chain_ok H k L'"
  using assms event_link.append_link_chain by (fastforce simp: appendEvent_def split: option.splits)

lemma appendWorkerEvent_chain:
  assumes "appendWorkerEvent H eventId i L = Inr (r, L')" "lg_heads L (ei_assignmentId i) \<noteq> None" "\<forall>k. chain_ok H k L"
  shows "\<forall>k. chain_ok H k L'"
  using assms event_link.append_link_chain by (fastforce simp: appendWorkerEvent_def split: option.splits)

lemma appendLifecycleEvent_chain:
  assumes "appendLifecycleEvent H actor eventId i L = Inr (r, L')" "\<forall>k. chain_ok H k L"
  shows "\<forall>k. chain_ok H k L'"
  using assms lifecycle_link.append_link_chain by (fastforce simp: appendLifecycleEvent_def split: option.splits)

lemma appendDataRequestEvent_chain:
  assumes "appendDataRequestEvent H actor eventId i L = Inr (r, L')" "\<forall>k. chain_ok H k L"
  shows "\<forall>k. chain_ok H k L'"
  using assms data_request_link.append_link_chain by (fastforce simp: appendDataRequestEvent_def split: option.splits)

lemma ensure_chain_ok: "\<forall>k. chain_ok H k L \<Longrightarrow> \<forall>k. chain_ok H k (ensure_chain j L)"
  by (simp add: ensure_chain_def open_chain_ok)

lemma appendConfigurationEvent_chain:
  assumes "appendConfigurationEvent H eventId i L = Inr (r, L')" "\<forall>k. chain_ok H k L"
  shows "\<forall>k. chain_ok H k L'"
proof -
  let ?k = "(ci_scopeType i, ci_scopeId i)"
  from assms(1) obtain head where h: "lg_heads (ensure_chain ?k L) ?k = Some head"
    "append_link H ?k head (configuration_data eventId i) i (ensure_chain ?k L) = Inr (r, L')"
    by (auto simp: appendConfigurationEvent_def Let_def split: option.splits)
  show ?thesis by (rule configuration_link.append_link_chain[OF h(2,1) ensure_chain_ok[OF assms(2)]])
qed

section \<open>The evidence ledger over time\<close>

text \<open>
  The evidence tables as the services write them: a chain is opened with its assignment, and
  extended by the engine and by the worker, who reads existing assignments only.
\<close>

inductive ledger_run :: "(string \<Rightarrow> string) \<Rightarrow> event_ledger \<Rightarrow> event_ledger \<Rightarrow> bool" for H where
  run_start: "ledger_run H L L"
| run_open: "ledger_run H L L1 \<Longrightarrow> lg_heads L1 k = None \<Longrightarrow> ledger_run H L (open_chain k L1)"
| run_append: "ledger_run H L L1 \<Longrightarrow> appendEvent H actor eventId i L1 = Inr (r, L2) \<Longrightarrow> ledger_run H L L2"
| run_worker: "ledger_run H L L1 \<Longrightarrow> lg_heads L1 (ei_assignmentId i) \<noteq> None \<Longrightarrow>
    appendWorkerEvent H eventId i L1 = Inr (r, L2) \<Longrightarrow> ledger_run H L L2"

lemma ledger_run_chain: "ledger_run H L L' \<Longrightarrow> \<forall>k. chain_ok H k L \<Longrightarrow> \<forall>k. chain_ok H k L'"
  by (induction rule: ledger_run.induct) (simp_all add: open_chain_ok appendEvent_chain appendWorkerEvent_chain)

lemma append_link_links: "append_link H k h b c L = Inr (r, L') \<Longrightarrow> lg_links L' = lg_links L @ [r]"
  by (auto simp: append_link_def Let_def bindE_Inr)

lemma ledger_run_extends: "ledger_run H L L' \<Longrightarrow> \<exists>new. links_of k L' = links_of k L @ new"
proof (induction rule: ledger_run.induct)
  case (run_open L L1 j)
  then show ?case by (simp add: links_of_def open_chain_def)
next
  case (run_append L L1 actor eventId i r L2)
  then show ?case
    by (auto simp: appendEvent_def links_of_def split: option.splits dest!: append_link_links)
next
  case (run_worker L L1 i eventId r L2)
  then show ?case
    by (auto simp: appendWorkerEvent_def links_of_def split: option.splits dest!: append_link_links)
qed auto

lemma sorted_numbered: "numbered n rs \<Longrightarrow> sorted (map lk_sequence rs) \<and> (\<forall>r \<in> set rs. n \<le> lk_sequence r)"
  by (induction rs arbitrary: n) force+

lemma chain_ok_head:
  assumes "chain_ok H k L" "lg_heads L k = Some h"
  shows "numbered 1 (links_of k L) \<and> chained lk_previousHash lk_eventHash (link_ok H) GENESIS_HASH (links_of k L) \<and>
    hd_lastHash h = head_hash lk_eventHash GENESIS_HASH (links_of k L) \<and> hd_lastSequence h = int (length (links_of k L)) \<and>
    sort_key lk_sequence (links_of k L) = links_of k L"
proof -
  have "numbered 1 (links_of k L)" using assms by (simp add: chain_ok_def)
  then have "sort_key lk_sequence (links_of k L) = links_of k L"
    by (intro sort_key_id_if_sorted) (use sorted_numbered in blast)
  with assms show ?thesis by (simp add: chain_ok_def)
qed

section \<open>Properties\<close>

text \<open>
  C30. Whatever the engine and the worker append, in whatever order, every evidence chain stays
  sound: its events are numbered from one without gaps, each carries the hash of its predecessor
  inside its own hashed data, the head row points at the last event, and what was recorded before
  is still there, unchanged and first.
\<close>

theorem evidence_chain_invariant:
  assumes "ledger_run H empty_ledger L" "ledger_run H L L'" "lg_heads L' k = Some h"
  shows "numbered 1 (links_of k L') \<and>
    chained lk_previousHash lk_eventHash (link_ok H) GENESIS_HASH (links_of k L') \<and>
    hd_lastHash h = head_hash lk_eventHash GENESIS_HASH (links_of k L') \<and>
    evidenceEvents L' k = map event_js (links_of k L') \<and>
    (\<exists>new. links_of k L' = links_of k L @ new)"
proof -
  have "\<forall>k. chain_ok H k L" using ledger_run_chain[OF assms(1)] by simp
  then have "chain_ok H k L'" using ledger_run_chain[OF assms(2)] by blast
  from chain_ok_head[OF this assms(3)] ledger_run_extends[OF assms(2), of k] show ?thesis
    by (simp add: evidenceEvents_def)
qed


text \<open>
  C32. The other chains keep the same invariant: appending a record lifecycle event, a participant
  data request event or a product configuration event to sound chains leaves them all sound.
\<close>

theorem governance_chains_sound:
  "((\<forall>k. chain_ok H k A) \<and> appendLifecycleEvent H actor e i A = Inr (r, A') \<longrightarrow> (\<forall>k. chain_ok H k A')) \<and>
   ((\<forall>k. chain_ok H k B) \<and> appendDataRequestEvent H actor e j B = Inr (s, B') \<longrightarrow> (\<forall>k. chain_ok H k B')) \<and>
   ((\<forall>k. chain_ok H k C) \<and> appendConfigurationEvent H e c C = Inr (t, C') \<longrightarrow> (\<forall>k. chain_ok H k C'))"
proof (intro conjI impI; elim conjE)
  show "\<forall>k. chain_ok H k A'" if "\<forall>k. chain_ok H k A" "appendLifecycleEvent H actor e i A = Inr (r, A')"
    by (rule appendLifecycleEvent_chain[OF that(2,1)])
  show "\<forall>k. chain_ok H k B'" if "\<forall>k. chain_ok H k B" "appendDataRequestEvent H actor e j B = Inr (s, B')"
    by (rule appendDataRequestEvent_chain[OF that(2,1)])
  show "\<forall>k. chain_ok H k C'" if "\<forall>k. chain_ok H k C" "appendConfigurationEvent H e c C = Inr (t, C')"
    by (rule appendConfigurationEvent_chain[OF that(2,1)])
qed

section \<open>Witnesses\<close>

definition demo_event :: event_input where
  "demo_event = \<lparr>ei_assignmentId = ''as1'', ei_eventType = ''request.issued'', ei_payload = JNull, ei_receivedAt = 1000,
     ei_requestId = ''rq1'', ei_tenantId = ''t1''\<rparr>"

definition demo_ledger :: event_ledger where
  "demo_ledger = open_chain ''as1'' empty_ledger"

lemma demo_event_appended: "\<exists>r L. appendEvent id demo_actor ''e1'' demo_event demo_ledger = Inr (r, L)"
proof -
  have "(case appendEvent id demo_actor ''e1'' demo_event demo_ledger of Inr _ \<Rightarrow> True | Inl _ \<Rightarrow> False)" by code_simp
  then show ?thesis by (auto split: sum.splits)
qed

lemma demo_run:
  assumes "appendEvent id demo_actor ''e1'' demo_event demo_ledger = Inr (r, L)"
  shows "ledger_run id empty_ledger L" "\<exists>h. lg_heads L ''as1'' = Some h" "links_of ''as1'' L = [r]"
proof -
  have "ledger_run id empty_ledger demo_ledger"
    unfolding demo_ledger_def by (intro run_open run_start) (simp add: empty_ledger_def)
  from run_append[OF this assms] show "ledger_run id empty_ledger L" .
  show "\<exists>h. lg_heads L ''as1'' = Some h" "links_of ''as1'' L = [r]"
    using assms
    by (auto simp: appendEvent_def demo_event_def demo_ledger_def open_chain_def append_link_def Let_def bindE_Inr
        links_of_def empty_ledger_def)
qed

theorem evidence_chain_invariant_witness:
  "\<exists>r L. ledger_run id empty_ledger L \<and> links_of ''as1'' L = [r] \<and> lk_sequence r = 1 \<and> lk_previousHash r = GENESIS_HASH"
proof -
  obtain r L where a: "appendEvent id demo_actor ''e1'' demo_event demo_ledger = Inr (r, L)"
    using demo_event_appended by blast
  obtain h where "lg_heads L ''as1'' = Some h" using demo_run(2)[OF a] by blast
  from evidence_chain_invariant[OF demo_run(1)[OF a] run_start this] demo_run(1,3)[OF a] show ?thesis by auto
qed


definition demo_configuration :: configuration_input where
  "demo_configuration = \<lparr>ci_actorPrincipalId = ''p1'', ci_createdAt = 1000, ci_eventData = JNull, ci_eventType = ''tenant.created'',
     ci_scopeId = ''t1'', ci_scopeType = ''tenant'', ci_tenantId = Some ''t1''\<rparr>"

theorem governance_chains_sound_witness:
  "\<exists>t C. appendConfigurationEvent id ''c1'' demo_configuration empty_ledger = Inr (t, C) \<and> (\<forall>k. chain_ok id k C)"
proof -
  have "(case appendConfigurationEvent id ''c1'' demo_configuration empty_ledger of Inr _ \<Rightarrow> True | Inl _ \<Rightarrow> False)" by code_simp
  then obtain t C where c: "appendConfigurationEvent id ''c1'' demo_configuration empty_ledger = Inr (t, C)"
    by (auto split: sum.splits)
  show ?thesis
    using governance_chains_sound[THEN conjunct2, THEN conjunct2, of id empty_ledger "''c1''" demo_configuration t C] c by auto
qed

end
