(* ===== verification/Context.thy ===== *)
theory Context
  imports Interaction Calendar HashChain
begin

text \<open>
  Browser context of a participant: \<^verbatim>\<open>src/packages/engine-domain/context.mjs\<close>. A snapshot has six
  optional groups of browser-reported values, an identifier, a purpose and a position in its
  session. Stored snapshots carry a fixed provenance and are re-validated by the evidence verifier.
\<close>

section \<open>Policy and constants\<close>

definition PARTICIPANT_CONTEXT_SCHEMA :: string where
  "PARTICIPANT_CONTEXT_SCHEMA = ''vasi-participant-context/v1''"

definition PARTICIPANT_CONTEXT_POLICY_VERSION :: string where
  "PARTICIPANT_CONTEXT_POLICY_VERSION = ''vasi-participant-context-policy/v1''"

definition PARTICIPANT_CONTEXT_EXCLUDED_SIGNALS :: "string list" where
  "PARTICIPANT_CONTEXT_EXCLUDED_SIGNALS =
     [''plugin_or_font_enumeration'', ''canvas_webgl_audio_or_gpu_fingerprints'', ''precise_geolocation'',
      ''hardware_or_advertising_identifiers'', ''camera_microphone_or_biometric_capture'',
      ''keystrokes_input_contents_or_pointer_coordinates'', ''credentials_tokens_or_reusable_session_secrets'']"

definition PARTICIPANT_CONTEXT_LIMITATIONS :: "string list" where
  "PARTICIPANT_CONTEXT_LIMITATIONS =
     [''Browser-reported context can be absent, reduced, randomized, automated, or spoofed.'',
      ''Browser and device context is supporting evidence and does not prove identity, attention, comprehension, physical location, or freedom from coercion.'',
      ''Display, capability, preference, and connection values describe what the browser reported at one observation time and can change later.'']"

definition PURPOSES :: "string list" where
  "PURPOSES = [''presentation'', ''save'', ''submission'']"

definition STORAGE_STATES :: "string list" where
  "STORAGE_STATES = [''available'', ''blocked'', ''unavailable'']"

definition COLOR_SCHEMES :: "string list" where
  "COLOR_SCHEMES = [''dark'', ''light'', ''no-preference'']"

definition CONTRASTS :: "string list" where
  "CONTRASTS = [''custom'', ''less'', ''more'', ''no-preference'']"

definition EFFECTIVE_TYPES :: "string list" where
  "EFFECTIVE_TYPES = [''slow-2g'', ''2g'', ''3g'', ''4g'']"

record context_policy =
  cp_maxSnapshotsPerActivity :: int

definition participantContextPolicy :: "(string \<Rightarrow> jsnum) \<Rightarrow> js \<Rightarrow> context_policy res" where
  "participantContextPolicy N settings =
     bindE (Interaction.settingInteger N (get settings ''ENGINE_PARTICIPANT_CONTEXT_MAX_SNAPSHOTS_PER_ACTIVITY'') 16 2 64
              ''ENGINE_PARTICIPANT_CONTEXT_MAX_SNAPSHOTS_PER_ACTIVITY'') (\<lambda>n.
     Inr \<lparr>cp_maxSnapshotsPerActivity = n\<rparr>)"

definition context_policy_js :: "context_policy \<Rightarrow> js" where
  "context_policy_js p = JObj
     [(''allowedGroups'', JArr (map JStr [''browser_locale_and_time_zone'', ''viewport_and_screen'', ''touch_capability'',
        ''cookie_storage_and_pdf_capability'', ''accessibility_and_display_preferences'', ''online_and_coarse_connection_state''])),
      (''excludedSignals'', JArr (map JStr PARTICIPANT_CONTEXT_EXCLUDED_SIGNALS)),
      (''limitations'', JArr (map JStr PARTICIPANT_CONTEXT_LIMITATIONS)),
      (''maxSnapshotsPerActivity'', JInt (cp_maxSnapshotsPerActivity p)),
      (''reliabilityClass'', JStr ''browser_reported''), (''version'', JStr PARTICIPANT_CONTEXT_POLICY_VERSION)]"

section \<open>Helpers\<close>

abbreviation invalid :: "reason \<Rightarrow> 'a res" where
  "invalid r \<equiv> throw INVALID_PARTICIPANT_CONTEXT r"

abbreviation strictObject :: "js \<Rightarrow> string \<Rightarrow> string list \<Rightarrow> js res" where
  "strictObject v name allowedKeys \<equiv> strict_object INVALID_PARTICIPANT_CONTEXT v name allowedKeys"

definition token :: "js \<Rightarrow> string \<Rightarrow> nat \<Rightarrow> string res" where
  "token v name maximum =
     (case as_str v of
        None \<Rightarrow> invalid (BadFormat name)
      | Some s \<Rightarrow> guardE (s \<noteq> [] \<and> length s \<le> maximum \<and> \<not> has_ctrl s) INVALID_PARTICIPANT_CONTEXT (BadFormat name) (Inr s))"

definition text_of :: "js \<Rightarrow> string \<Rightarrow> nat \<Rightarrow> string res" where
  "text_of v name maximum =
     (case as_str v of
        None \<Rightarrow> invalid (BadFormat name)
      | Some s \<Rightarrow> guardE (js_trim s \<noteq> [] \<and> length s \<le> maximum \<and> \<not> has_ctrl s) INVALID_PARTICIPANT_CONTEXT (BadFormat name) (Inr s))"

text \<open>\<open>value === undefined || value === null ? undefined : check(value)\<close>\<close>

definition optional :: "(js \<Rightarrow> 'a res) \<Rightarrow> js \<Rightarrow> 'a option res" where
  "optional f v = (if nullish v then Inr None else bindE (f v) (\<lambda>x. Inr (Some x)))"

definition optionalText :: "js \<Rightarrow> string \<Rightarrow> nat \<Rightarrow> string option res" where
  "optionalText v name maximum = optional (\<lambda>v. text_of v name maximum) v"

definition boolean :: "js \<Rightarrow> string \<Rightarrow> bool res" where
  "boolean v name = (case as_bool v of None \<Rightarrow> invalid (BadFormat name) | Some b \<Rightarrow> Inr b)"

definition optionalBoolean :: "js \<Rightarrow> string \<Rightarrow> bool option res" where
  "optionalBoolean v name = optional (\<lambda>v. boolean v name) v"

definition enum :: "js \<Rightarrow> string list \<Rightarrow> string \<Rightarrow> string res" where
  "enum v allowed name =
     (case as_str v of
        None \<Rightarrow> invalid (BadFormat name)
      | Some s \<Rightarrow> guardE (s \<in> set allowed) INVALID_PARTICIPANT_CONTEXT (BadFormat name) (Inr s))"

definition optionalEnum :: "js \<Rightarrow> string list \<Rightarrow> string \<Rightarrow> string option res" where
  "optionalEnum v allowed name = optional (\<lambda>v. enum v allowed name) v"

abbreviation integer :: "js \<Rightarrow> string \<Rightarrow> int \<Rightarrow> int \<Rightarrow> int res" where
  "integer v name lo hi \<equiv> whole_number INVALID_PARTICIPANT_CONTEXT v name lo hi"

definition optionalInteger :: "js \<Rightarrow> string \<Rightarrow> int \<Rightarrow> int \<Rightarrow> int option res" where
  "optionalInteger v name lo hi = optional (\<lambda>v. integer v name lo hi) v"

definition number :: "js \<Rightarrow> string \<Rightarrow> rat \<Rightarrow> rat \<Rightarrow> rat res" where
  "number v name lo hi =
     (case finite_num v of
        None \<Rightarrow> invalid (BadFormat name)
      | Some r \<Rightarrow> guardE (\<not> (r < lo \<or> r > hi)) INVALID_PARTICIPANT_CONTEXT (BadFormat name) (Inr r))"

definition optionalNumber :: "js \<Rightarrow> string \<Rightarrow> rat \<Rightarrow> rat \<Rightarrow> rat option res" where
  "optionalNumber v name lo hi = optional (\<lambda>v. number v name lo hi) v"

abbreviation canonicalTimestamp :: "js \<Rightarrow> string \<Rightarrow> string res" where
  "canonicalTimestamp v name \<equiv> canonical_timestamp INVALID_PARTICIPANT_CONTEXT v name"

section \<open>Groups\<close>

record browser_group =
  bw_language :: "string option"
  bw_languages :: "string list option"
  bw_online :: "bool option"
  bw_timeZone :: "string option"

record capability_group =
  cg_cookiesEnabled :: "bool option"
  cg_localStorage :: "string option"
  cg_pdfViewerEnabled :: "bool option"
  cg_sessionStorage :: "string option"

record display_group =
  dg_availableHeight :: "int option"
  dg_availableWidth :: "int option"
  dg_colorDepth :: "int option"
  dg_devicePixelRatio :: "rat option"
  dg_pixelDepth :: "int option"
  dg_screenHeight :: "int option"
  dg_screenWidth :: "int option"
  dg_viewportHeight :: "int option"
  dg_viewportWidth :: "int option"

record preference_group =
  pg_colorScheme :: "string option"
  pg_contrast :: "string option"
  pg_forcedColors :: "bool option"
  pg_reducedMotion :: "bool option"

record connection_group =
  ng_downlinkMbps :: "rat option"
  ng_effectiveType :: "string option"
  ng_rttMs :: "int option"
  ng_saveData :: "bool option"

text \<open>The encoded groups; \<open>hasDefinedValue\<close> looks for a member that is not undefined.\<close>

definition browser_js :: "browser_group \<Rightarrow> js" where
  "browser_js g = JObj [(''language'', opt_js JStr (bw_language g)), (''languages'', opt_js (\<lambda>l. JArr (map JStr l)) (bw_languages g)),
     (''online'', opt_js JBool (bw_online g)), (''timeZone'', opt_js JStr (bw_timeZone g))]"

definition capability_js :: "capability_group \<Rightarrow> js" where
  "capability_js g = JObj [(''cookiesEnabled'', opt_js JBool (cg_cookiesEnabled g)), (''localStorage'', opt_js JStr (cg_localStorage g)),
     (''pdfViewerEnabled'', opt_js JBool (cg_pdfViewerEnabled g)), (''sessionStorage'', opt_js JStr (cg_sessionStorage g))]"

definition display_js :: "display_group \<Rightarrow> js" where
  "display_js g = JObj [(''availableHeight'', opt_js JInt (dg_availableHeight g)), (''availableWidth'', opt_js JInt (dg_availableWidth g)),
     (''colorDepth'', opt_js JInt (dg_colorDepth g)), (''devicePixelRatio'', opt_js (\<lambda>r. JNum (Fin r)) (dg_devicePixelRatio g)),
     (''pixelDepth'', opt_js JInt (dg_pixelDepth g)), (''screenHeight'', opt_js JInt (dg_screenHeight g)),
     (''screenWidth'', opt_js JInt (dg_screenWidth g)), (''viewportHeight'', opt_js JInt (dg_viewportHeight g)),
     (''viewportWidth'', opt_js JInt (dg_viewportWidth g))]"

definition input_js :: "int option \<Rightarrow> js" where
  "input_js n = JObj [(''maxTouchPoints'', opt_js JInt n)]"

definition preference_js :: "preference_group \<Rightarrow> js" where
  "preference_js g = JObj [(''colorScheme'', opt_js JStr (pg_colorScheme g)), (''contrast'', opt_js JStr (pg_contrast g)),
     (''forcedColors'', opt_js JBool (pg_forcedColors g)), (''reducedMotion'', opt_js JBool (pg_reducedMotion g))]"

definition connection_js :: "connection_group \<Rightarrow> js" where
  "connection_js g = JObj [(''downlinkMbps'', opt_js (\<lambda>r. JNum (Fin r)) (ng_downlinkMbps g)), (''effectiveType'', opt_js JStr (ng_effectiveType g)),
     (''rttMs'', opt_js JInt (ng_rttMs g)), (''saveData'', opt_js JBool (ng_saveData g))]"

fun hasDefinedValue :: "js \<Rightarrow> bool" where
  "hasDefinedValue (JObj ps) = list_ex (\<lambda>p. snd p \<noteq> JUndef) ps"
| "hasDefinedValue _ = False"

definition requireNonemptyGroup :: "('g \<Rightarrow> js) \<Rightarrow> 'g \<Rightarrow> string \<Rightarrow> 'g res" where
  "requireNonemptyGroup enc g name =
     guardE (hasDefinedValue (enc g)) INVALID_PARTICIPANT_CONTEXT (Because (name @ '' group is empty'')) (Inr g)"

definition browser_languages :: "js \<Rightarrow> string list option res" where
  "browser_languages v =
     (if v = JUndef then Inr None
      else case as_arr v of
             None \<Rightarrow> invalid (Because ''languages'')
           | Some ls \<Rightarrow>
               guardE (ls \<noteq> [] \<and> length ls \<le> 8) INVALID_PARTICIPANT_CONTEXT (Because ''languages'')
               (bindE (mapE (\<lambda>l. text_of l ''browser.languages[]'' 35) ls) (\<lambda>languages.
                guardE (distinct languages) INVALID_PARTICIPANT_CONTEXT (Because ''languages repeat'') (Inr (Some languages)))))"

definition optionalBrowser :: "js \<Rightarrow> browser_group option res" where
  "optionalBrowser = optional (\<lambda>v.
     bindE (strictObject v ''browser group'' [''language'', ''languages'', ''online'', ''timeZone'']) (\<lambda>input.
     bindE (browser_languages (get input ''languages'')) (\<lambda>languages.
     bindE (optionalText (get input ''language'') ''browser.language'' 35) (\<lambda>language.
     bindE (optionalBoolean (get input ''online'') ''browser.online'') (\<lambda>online.
     bindE (optionalText (get input ''timeZone'') ''browser.timeZone'' 100) (\<lambda>timeZone.
     requireNonemptyGroup browser_js \<lparr>bw_language = language, bw_languages = languages, bw_online = online, bw_timeZone = timeZone\<rparr> ''browser''))))))"

definition optionalCapabilities :: "js \<Rightarrow> capability_group option res" where
  "optionalCapabilities = optional (\<lambda>v.
     bindE (strictObject v ''capabilities group'' [''cookiesEnabled'', ''localStorage'', ''pdfViewerEnabled'', ''sessionStorage'']) (\<lambda>input.
     bindE (optionalBoolean (get input ''cookiesEnabled'') ''capabilities.cookiesEnabled'') (\<lambda>cookies.
     bindE (optionalEnum (get input ''localStorage'') STORAGE_STATES ''capabilities.localStorage'') (\<lambda>local.
     bindE (optionalBoolean (get input ''pdfViewerEnabled'') ''capabilities.pdfViewerEnabled'') (\<lambda>pdf.
     bindE (optionalEnum (get input ''sessionStorage'') STORAGE_STATES ''capabilities.sessionStorage'') (\<lambda>session.
     requireNonemptyGroup capability_js \<lparr>cg_cookiesEnabled = cookies, cg_localStorage = local, cg_pdfViewerEnabled = pdf, cg_sessionStorage = session\<rparr>
       ''capabilities''))))))"

text \<open>The literal \<open>0.1\<close> is the double nearest to one tenth.\<close>

definition tenth :: rat where
  "tenth = 3602879701896397 / 36028797018963968"

definition optionalDisplay :: "js \<Rightarrow> display_group option res" where
  "optionalDisplay = optional (\<lambda>v.
     bindE (strictObject v ''display group'' [''availableHeight'', ''availableWidth'', ''colorDepth'', ''devicePixelRatio'',
       ''pixelDepth'', ''screenHeight'', ''screenWidth'', ''viewportHeight'', ''viewportWidth'']) (\<lambda>input.
     bindE (optionalInteger (get input ''availableHeight'') ''display.availableHeight'' 0 32768) (\<lambda>ah.
     bindE (optionalInteger (get input ''availableWidth'') ''display.availableWidth'' 0 32768) (\<lambda>aw.
     bindE (optionalInteger (get input ''colorDepth'') ''display.colorDepth'' 1 64) (\<lambda>cd.
     bindE (optionalNumber (get input ''devicePixelRatio'') ''display.devicePixelRatio'' tenth 16) (\<lambda>ratio.
     bindE (optionalInteger (get input ''pixelDepth'') ''display.pixelDepth'' 1 64) (\<lambda>pd.
     bindE (optionalInteger (get input ''screenHeight'') ''display.screenHeight'' 1 32768) (\<lambda>sh.
     bindE (optionalInteger (get input ''screenWidth'') ''display.screenWidth'' 1 32768) (\<lambda>sw.
     bindE (optionalInteger (get input ''viewportHeight'') ''display.viewportHeight'' 1 32768) (\<lambda>vh.
     bindE (optionalInteger (get input ''viewportWidth'') ''display.viewportWidth'' 1 32768) (\<lambda>vw.
     requireNonemptyGroup display_js \<lparr>dg_availableHeight = ah, dg_availableWidth = aw, dg_colorDepth = cd, dg_devicePixelRatio = ratio,
       dg_pixelDepth = pd, dg_screenHeight = sh, dg_screenWidth = sw, dg_viewportHeight = vh, dg_viewportWidth = vw\<rparr> ''display'')))))))))))"

definition optionalInput :: "js \<Rightarrow> int option option res" where
  "optionalInput = optional (\<lambda>v.
     bindE (strictObject v ''input group'' [''maxTouchPoints'']) (\<lambda>input.
     bindE (optionalInteger (get input ''maxTouchPoints'') ''input.maxTouchPoints'' 0 32) (\<lambda>touch.
     requireNonemptyGroup input_js touch ''input'')))"

definition optionalPreferences :: "js \<Rightarrow> preference_group option res" where
  "optionalPreferences = optional (\<lambda>v.
     bindE (strictObject v ''preferences group'' [''colorScheme'', ''contrast'', ''forcedColors'', ''reducedMotion'']) (\<lambda>input.
     bindE (optionalEnum (get input ''colorScheme'') COLOR_SCHEMES ''preferences.colorScheme'') (\<lambda>scheme.
     bindE (optionalEnum (get input ''contrast'') CONTRASTS ''preferences.contrast'') (\<lambda>contrast.
     bindE (optionalBoolean (get input ''forcedColors'') ''preferences.forcedColors'') (\<lambda>forced.
     bindE (optionalBoolean (get input ''reducedMotion'') ''preferences.reducedMotion'') (\<lambda>reduced.
     requireNonemptyGroup preference_js \<lparr>pg_colorScheme = scheme, pg_contrast = contrast, pg_forcedColors = forced, pg_reducedMotion = reduced\<rparr>
       ''preferences''))))))"

definition optionalConnection :: "js \<Rightarrow> connection_group option res" where
  "optionalConnection = optional (\<lambda>v.
     bindE (strictObject v ''connection group'' [''downlinkMbps'', ''effectiveType'', ''rttMs'', ''saveData'']) (\<lambda>input.
     bindE (optionalNumber (get input ''downlinkMbps'') ''connection.downlinkMbps'' 0 10000) (\<lambda>downlink.
     bindE (optionalEnum (get input ''effectiveType'') EFFECTIVE_TYPES ''connection.effectiveType'') (\<lambda>effective.
     bindE (optionalInteger (get input ''rttMs'') ''connection.rttMs'' 0 60000) (\<lambda>rtt.
     bindE (optionalBoolean (get input ''saveData'') ''connection.saveData'') (\<lambda>saveData.
     requireNonemptyGroup connection_js \<lparr>ng_downlinkMbps = downlink, ng_effectiveType = effective, ng_rttMs = rtt, ng_saveData = saveData\<rparr>
       ''connection''))))))"

section \<open>Snapshots\<close>

record snapshot =
  sn_browser :: "browser_group option"
  sn_capabilities :: "capability_group option"
  sn_clientOccurredAt :: string
  sn_connection :: "connection_group option"
  sn_display :: "display_group option"
  sn_id :: string
  sn_input :: "int option option"
  sn_monotonicMs :: int
  sn_preferences :: "preference_group option"
  sn_purpose :: string
  sn_sequence :: int

definition SNAPSHOT_KEYS :: "string list" where
  "SNAPSHOT_KEYS = [''browser'', ''capabilities'', ''clientOccurredAt'', ''connection'', ''display'', ''id'', ''input'',
     ''monotonicMs'', ''preferences'', ''purpose'', ''schema'', ''sequence'']"

definition snapshot_members :: "snapshot \<Rightarrow> (string \<times> js) list" where
  "snapshot_members s =
     [(''browser'', opt_js browser_js (sn_browser s)), (''capabilities'', opt_js capability_js (sn_capabilities s)),
      (''clientOccurredAt'', JStr (sn_clientOccurredAt s)), (''connection'', opt_js connection_js (sn_connection s)),
      (''display'', opt_js display_js (sn_display s)), (''id'', JStr (sn_id s)), (''input'', opt_js input_js (sn_input s)),
      (''monotonicMs'', JInt (sn_monotonicMs s)), (''preferences'', opt_js preference_js (sn_preferences s)),
      (''purpose'', JStr (sn_purpose s)), (''schema'', JStr PARTICIPANT_CONTEXT_SCHEMA), (''sequence'', JInt (sn_sequence s))]"

text \<open>A group that is present has passed \<open>requireNonemptyGroup\<close>, so the last test asks for a group.\<close>

definition normalizeSnapshot :: "js \<Rightarrow> snapshot res" where
  "normalizeSnapshot v =
     bindE (strictObject v ''participant context snapshot'' SNAPSHOT_KEYS) (\<lambda>input.
     guardE (get input ''schema'' = JStr PARTICIPANT_CONTEXT_SCHEMA) INVALID_PARTICIPANT_CONTEXT (Because ''schema'')
     (case as_str (get input ''purpose'') of
        None \<Rightarrow> invalid (Because ''purpose'')
      | Some purpose \<Rightarrow>
        guardE (purpose \<in> set PURPOSES) INVALID_PARTICIPANT_CONTEXT (Because ''purpose'')
        (bindE (optionalBrowser (get input ''browser'')) (\<lambda>browser.
         bindE (optionalCapabilities (get input ''capabilities'')) (\<lambda>capabilities.
         bindE (canonicalTimestamp (get input ''clientOccurredAt'') ''snapshot.clientOccurredAt'') (\<lambda>occurred.
         bindE (optionalConnection (get input ''connection'')) (\<lambda>connection.
         bindE (optionalDisplay (get input ''display'')) (\<lambda>display.
         bindE (token (get input ''id'') ''snapshot.id'' 128) (\<lambda>sid.
         bindE (optionalInput (get input ''input'')) (\<lambda>touch.
         bindE (integer (get input ''monotonicMs'') ''snapshot.monotonicMs'' 0 (7 * DAY_MS)) (\<lambda>monotonicMs.
         bindE (optionalPreferences (get input ''preferences'')) (\<lambda>preferences.
         bindE (integer (get input ''sequence'') ''snapshot.sequence'' 1 64) (\<lambda>sequence.
         guardE (browser \<noteq> None \<or> capabilities \<noteq> None \<or> connection \<noteq> None \<or> display \<noteq> None \<or> touch \<noteq> None \<or> preferences \<noteq> None)
           INVALID_PARTICIPANT_CONTEXT (Because ''no supported context values'')
         (Inr \<lparr>sn_browser = browser, sn_capabilities = capabilities, sn_clientOccurredAt = occurred, sn_connection = connection,
              sn_display = display, sn_id = sid, sn_input = touch, sn_monotonicMs = monotonicMs, sn_preferences = preferences,
              sn_purpose = purpose, sn_sequence = sequence\<rparr>))))))))))))))"

definition provenance_js :: js where
  "provenance_js = JObj [(''collectionMethod'', JStr ''vasi-browser-context/v1''),
     (''limitations'', JArr (map JStr PARTICIPANT_CONTEXT_LIMITATIONS)), (''reliabilityClass'', JStr ''browser_reported''),
     (''source'', JStr ''browser_api'')]"

definition withParticipantContextProvenance :: "snapshot \<Rightarrow> js" where
  "withParticipantContextProvenance s = JObj (snapshot_members s @ [(''provenance'', provenance_js)])"

definition validateProvenance :: "js \<Rightarrow> unit res" where
  "validateProvenance v =
     bindE (strictObject v ''participant context provenance'' [''collectionMethod'', ''limitations'', ''reliabilityClass'', ''source'']) (\<lambda>input.
     guardE (get input ''collectionMethod'' = JStr ''vasi-browser-context/v1'' \<and> get input ''reliabilityClass'' = JStr ''browser_reported'' \<and>
             get input ''source'' = JStr ''browser_api'' \<and> get input ''limitations'' = JArr (map JStr PARTICIPANT_CONTEXT_LIMITATIONS))
       INVALID_PARTICIPANT_CONTEXT (Because ''provenance'') (Inr ()))"

fun without_provenance :: "js \<Rightarrow> js" where
  "without_provenance (JObj ps) = JObj (filter (\<lambda>p. fst p \<noteq> ''provenance'') ps)"
| "without_provenance _ = JObj []"

definition validateStoredParticipantContextSnapshot :: "js \<Rightarrow> snapshot res" where
  "validateStoredParticipantContextSnapshot v =
     bindE (strictObject v ''stored participant context snapshot'' (''provenance'' # SNAPSHOT_KEYS)) (\<lambda>input.
     bindE (validateProvenance (get input ''provenance'')) (\<lambda>_.
     normalizeSnapshot (without_provenance input)))"

record context_submission =
  cs_activityId :: string
  cs_contextSessionId :: string
  cs_handle :: string
  cs_interactionId :: string
  cs_snapshot :: snapshot

definition validateParticipantContextSubmission :: "js \<Rightarrow> context_submission res" where
  "validateParticipantContextSubmission v =
     bindE (strictObject v ''participant context submission'' [''activityId'', ''contextSessionId'', ''handle'', ''interactionId'', ''snapshot'']) (\<lambda>input.
     bindE (token (get input ''activityId'') ''activityId'' 64) (\<lambda>activityId.
     bindE (token (get input ''contextSessionId'') ''contextSessionId'' 128) (\<lambda>contextSessionId.
     bindE (token (get input ''handle'') ''handle'' 64) (\<lambda>handle.
     bindE (token (get input ''interactionId'') ''interactionId'' 128) (\<lambda>interactionId.
     bindE (normalizeSnapshot (get input ''snapshot'')) (\<lambda>snapshot.
     Inr \<lparr>cs_activityId = activityId, cs_contextSessionId = contextSessionId, cs_handle = handle,
          cs_interactionId = interactionId, cs_snapshot = snapshot\<rparr>))))))"

definition context_payload :: "string \<Rightarrow> string \<Rightarrow> string \<Rightarrow> js \<Rightarrow> js" where
  "context_payload activityId contextSessionId interactionId stored = JObj
     [(''activityId'', JStr activityId), (''contextSessionId'', JStr contextSessionId),
      (''interactionId'', JStr interactionId), (''snapshot'', stored)]"

section \<open>Stored snapshots are stable\<close>

text \<open>Each optional field, re-encoded, is accepted as itself.\<close>

lemma optional_stable:
  assumes "optional f v = Inr x" "\<And>w y. f w = Inr y \<Longrightarrow> f (enc y) = Inr y \<and> \<not> nullish (enc y)"
  shows "optional f (opt_js enc x) = Inr x"
proof (cases x)
  case (Some y)
  with assms(1) obtain w where "f w = Inr y" by (auto simp: optional_def bindE_Inr split: if_splits)
  with assms(2)[OF this] Some show ?thesis by (simp add: optional_def)
qed (simp add: optional_def nullish_def)

lemma text_stable: "optionalText v n m = Inr x \<Longrightarrow> optionalText (opt_js JStr x) n m = Inr x"
  unfolding optionalText_def
  by (erule optional_stable) (auto simp: text_of_def nullish_def guardE_Inr split: option.splits)

lemma boolean_stable: "optionalBoolean v n = Inr x \<Longrightarrow> optionalBoolean (opt_js JBool x) n = Inr x"
  unfolding optionalBoolean_def
  by (erule optional_stable) (auto simp: boolean_def nullish_def split: option.splits)

lemma enum_stable: "optionalEnum v ks n = Inr x \<Longrightarrow> optionalEnum (opt_js JStr x) ks n = Inr x"
  unfolding optionalEnum_def
  by (erule optional_stable) (auto simp: enum_def nullish_def guardE_Inr split: option.splits)

lemma integer_stable: "optionalInteger v n lo hi = Inr x \<Longrightarrow> optionalInteger (opt_js JInt x) n lo hi = Inr x"
  unfolding optionalInteger_def
  by (erule optional_stable) (auto simp: whole_number_Inr nullish_def)

lemma number_stable: "optionalNumber v n lo hi = Inr x \<Longrightarrow> optionalNumber (opt_js (\<lambda>r. JNum (Fin r)) x) n lo hi = Inr x"
  unfolding optionalNumber_def
  by (erule optional_stable) (auto simp: number_def nullish_def guardE_Inr split: option.splits)

lemmas field_stable = text_stable boolean_stable enum_stable integer_stable number_stable

lemma group_nonempty: "requireNonemptyGroup enc g n = Inr x \<longleftrightarrow> x = g \<and> hasDefinedValue (enc g)"
  by (auto simp: requireNonemptyGroup_def guardE_Inr)

lemma capabilities_stable: "optionalCapabilities v = Inr x \<Longrightarrow> optionalCapabilities (opt_js capability_js x) = Inr x"
  unfolding optionalCapabilities_def
  by (erule optional_stable)
    (elim res_elims, auto simp: group_nonempty capability_js_def nullish_def strict_object_JObj field_stable)

lemma display_stable: "optionalDisplay v = Inr x \<Longrightarrow> optionalDisplay (opt_js display_js x) = Inr x"
  unfolding optionalDisplay_def
  by (erule optional_stable)
    (elim res_elims, auto simp: group_nonempty display_js_def nullish_def strict_object_JObj field_stable)

lemma input_stable: "optionalInput v = Inr x \<Longrightarrow> optionalInput (opt_js input_js x) = Inr x"
  unfolding optionalInput_def
  by (erule optional_stable)
    (elim res_elims, auto simp: group_nonempty input_js_def nullish_def strict_object_JObj field_stable)

lemma preferences_stable: "optionalPreferences v = Inr x \<Longrightarrow> optionalPreferences (opt_js preference_js x) = Inr x"
  unfolding optionalPreferences_def
  by (erule optional_stable)
    (elim res_elims, auto simp: group_nonempty preference_js_def nullish_def strict_object_JObj field_stable)

lemma connection_stable: "optionalConnection v = Inr x \<Longrightarrow> optionalConnection (opt_js connection_js x) = Inr x"
  unfolding optionalConnection_def
  by (erule optional_stable)
    (elim res_elims, auto simp: group_nonempty connection_js_def nullish_def strict_object_JObj field_stable)

lemma texts_stable:
  assumes "mapE (\<lambda>l. text_of l n m) ls = Inr xs"
  shows "mapE (\<lambda>l. text_of l n m) (map JStr xs) = Inr xs \<and> length xs = length ls"
  using assms mapE_length[OF assms]
  by (intro conjI mapE_idem) (auto dest!: mapE_memD simp: text_of_def guardE_Inr split: option.splits)

lemma languages_stable:
  assumes "browser_languages v = Inr x"
  shows "browser_languages (opt_js (\<lambda>l. JArr (map JStr l)) x) = Inr x"
proof (cases x)
  case (Some xs)
  with assms obtain ls where "ls \<noteq> []" "length ls \<le> 8" "distinct xs"
    and m: "mapE (\<lambda>l. text_of l ''browser.languages[]'' 35) ls = Inr xs"
    by (auto simp: browser_languages_def bindE_Inr guardE_Inr split: if_splits option.splits)
  with texts_stable[OF m] Some show ?thesis by (auto simp: browser_languages_def guardE_def)
qed (simp add: browser_languages_def)

lemma browser_stable: "optionalBrowser v = Inr x \<Longrightarrow> optionalBrowser (opt_js browser_js x) = Inr x"
  unfolding optionalBrowser_def
  by (erule optional_stable)
    (elim res_elims, auto simp: group_nonempty browser_js_def nullish_def strict_object_JObj field_stable languages_stable)

lemmas group_stable = browser_stable capabilities_stable display_stable input_stable preferences_stable connection_stable

definition snapshot_ok :: "snapshot \<Rightarrow> bool" where
  "snapshot_ok s =
     (optionalBrowser (opt_js browser_js (sn_browser s)) = Inr (sn_browser s) \<and>
      optionalCapabilities (opt_js capability_js (sn_capabilities s)) = Inr (sn_capabilities s) \<and>
      optionalConnection (opt_js connection_js (sn_connection s)) = Inr (sn_connection s) \<and>
      optionalDisplay (opt_js display_js (sn_display s)) = Inr (sn_display s) \<and>
      optionalInput (opt_js input_js (sn_input s)) = Inr (sn_input s) \<and>
      optionalPreferences (opt_js preference_js (sn_preferences s)) = Inr (sn_preferences s) \<and>
      token (JStr (sn_id s)) ''snapshot.id'' 128 = Inr (sn_id s) \<and> canonical_iso (sn_clientOccurredAt s) \<and>
      sn_purpose s \<in> set PURPOSES \<and> 0 \<le> sn_monotonicMs s \<and> sn_monotonicMs s \<le> 7 * DAY_MS \<and>
      1 \<le> sn_sequence s \<and> sn_sequence s \<le> 64 \<and>
      (sn_browser s \<noteq> None \<or> sn_capabilities s \<noteq> None \<or> sn_connection s \<noteq> None \<or> sn_display s \<noteq> None \<or>
       sn_input s \<noteq> None \<or> sn_preferences s \<noteq> None))"

lemma token_stable: "token v n m = Inr s \<Longrightarrow> token (JStr s) n m = Inr s"
  by (auto simp: token_def guardE_Inr split: option.splits)

lemma normalizeSnapshot_ok: "normalizeSnapshot v = Inr s \<Longrightarrow> snapshot_ok s"
  unfolding normalizeSnapshot_def
proof (elim res_elims, goal_cases)
  case (1 input purpose browser capabilities occurred connection display sid touch monotonicMs preferences sequence)
  then have s: "s = \<lparr>sn_browser = browser, sn_capabilities = capabilities, sn_clientOccurredAt = occurred, sn_connection = connection,
              sn_display = display, sn_id = sid, sn_input = touch, sn_monotonicMs = monotonicMs, sn_preferences = preferences,
              sn_purpose = purpose, sn_sequence = sequence\<rparr>" by simp
  show ?case
    unfolding snapshot_ok_def s snapshot.simps
    using 1 by (intro conjI) ((rule group_stable token_stable, assumption) | simp add: canonical_timestamp_Inr whole_number_Inr)+
qed

lemma normalizeSnapshot_encode:
  assumes "snapshot_ok s"
  shows "normalizeSnapshot (JObj (snapshot_members s)) = Inr s"
proof -
  note ok = assms[unfolded snapshot_ok_def]
  have w: "integer (JInt (sn_monotonicMs s)) f 0 (7 * DAY_MS) = Inr (sn_monotonicMs s)"
      "integer (JInt (sn_sequence s)) f 1 64 = Inr (sn_sequence s)" for f
    using ok by (simp_all add: whole_number_Inr MAX_SAFE_INTEGER_def DAY_MS_def)
  have k: "strictObject (JObj (snapshot_members s)) f SNAPSHOT_KEYS = Inr (JObj (snapshot_members s))" for f
    by (rule strict_object_JObj) (simp add: snapshot_members_def SNAPSHOT_KEYS_def)
  have c: "canonicalTimestamp (JStr (sn_clientOccurredAt s)) f = Inr (sn_clientOccurredAt s)" for f
    using ok by (simp add: canonical_timestamp_Inr)
  show ?thesis
    unfolding normalizeSnapshot_def k bindE.simps using ok by (simp add: snapshot_members_def w c guardE_def)
qed

interpretation context_snapshot: normalizer normalizeSnapshot "\<lambda>s. JObj (snapshot_members s)"
  by unfold_locales (blast intro: normalizeSnapshot_ok normalizeSnapshot_encode)

lemma stored_snapshot_encode:
  assumes "snapshot_ok s"
  shows "validateStoredParticipantContextSnapshot (withParticipantContextProvenance s) = Inr s"
proof -
  have k: "strictObject (withParticipantContextProvenance s) f (''provenance'' # SNAPSHOT_KEYS) = Inr (withParticipantContextProvenance s)" for f
    unfolding withParticipantContextProvenance_def
    by (rule strict_object_JObj) (simp add: snapshot_members_def SNAPSHOT_KEYS_def)
  have p: "validateProvenance provenance_js = Inr ()"
    by (simp add: validateProvenance_def provenance_js_def strict_object_JObj)
  have g: "get (withParticipantContextProvenance s) ''provenance'' = provenance_js"
    by (simp add: withParticipantContextProvenance_def snapshot_members_def)
  have w: "without_provenance (withParticipantContextProvenance s) = JObj (snapshot_members s)"
    by (simp add: withParticipantContextProvenance_def snapshot_members_def)
  show ?thesis
    using normalizeSnapshot_encode[OF assms] by (simp add: validateStoredParticipantContextSnapshot_def k g p w)
qed

interpretation stored_snapshot: normalizer validateStoredParticipantContextSnapshot withParticipantContextProvenance
proof
  fix v s
  assume "validateStoredParticipantContextSnapshot v = Inr s"
  then have "\<exists>w. normalizeSnapshot w = Inr s" by (auto simp: validateStoredParticipantContextSnapshot_def bindE_Inr)
  then show "validateStoredParticipantContextSnapshot (withParticipantContextProvenance s) = Inr s"
    using normalizeSnapshot_ok stored_snapshot_encode by blast
qed

section \<open>Properties\<close>

text \<open>
  What the engine stores for an accepted context submission is a snapshot the verifier
  accepts and reads back unchanged: it has a known purpose, a canonical client time, a session
  position between 1 and 64, at most a week of session time, and at least one group of values.
\<close>

theorem stored_context_accepted:
  assumes "validateParticipantContextSubmission v = Inr c"
  shows "validateStoredParticipantContextSnapshot (withParticipantContextProvenance (cs_snapshot c)) = Inr (cs_snapshot c) \<and>
    sn_purpose (cs_snapshot c) \<in> {''presentation'', ''save'', ''submission''} \<and>
    canonical_iso (sn_clientOccurredAt (cs_snapshot c)) \<and>
    1 \<le> sn_sequence (cs_snapshot c) \<and> sn_sequence (cs_snapshot c) \<le> 64 \<and>
    0 \<le> sn_monotonicMs (cs_snapshot c) \<and> sn_monotonicMs (cs_snapshot c) \<le> 7 * DAY_MS \<and>
    (\<exists>g \<in> {''browser'', ''capabilities'', ''connection'', ''display'', ''input'', ''preferences''}.
       get (withParticipantContextProvenance (cs_snapshot c)) g \<noteq> JUndef)"
proof -
  obtain w where "normalizeSnapshot w = Inr (cs_snapshot c)"
    using assms unfolding validateParticipantContextSubmission_def by (elim res_elims) auto
  then have ok: "snapshot_ok (cs_snapshot c)" by (rule normalizeSnapshot_ok)
  have "opt_js f x \<noteq> JUndef" if "x \<noteq> None" "\<And>y. f y \<noteq> JUndef" for f :: "'a \<Rightarrow> js" and x
    using that by (cases x) auto
  note this [simp]
  show ?thesis
    using ok stored_snapshot_encode[OF ok]
    by (auto simp: snapshot_ok_def PURPOSES_def withParticipantContextProvenance_def snapshot_members_def browser_js_def
        capability_js_def connection_js_def display_js_def input_js_def preference_js_def)
qed

lemma canonical_path:
  assumes "canonicalValue v = Inr w" "get v k = u" "u \<noteq> JUndef" "u \<noteq> JFun" "k \<noteq> ''__proto__''"
  shows "\<exists>w. canonicalValue u = Inr w"
proof -
  from assms(2,3,4) obtain ps where v: "v = JObj ps" "map_of ps k = Some u"
    by (cases v) (auto split: option.splits if_splits)
  from canonical_get[OF assms(1)[unfolded v(1)] v(2) assms(3,5)] show ?thesis by blast
qed

text \<open>
  A context snapshot with a fractional device pixel ratio or connection speed is accepted by
  the validator but cannot be recorded: the payload hash of the store throws, because canonical
  JSON refuses every number that is not a safe integer.
\<close>

theorem fractional_context_not_recorded:
  assumes "(\<exists>d. sn_display s = Some d \<and> dg_devicePixelRatio d = Some r) \<or>
           (\<exists>n. sn_connection s = Some n \<and> ng_downlinkMbps n = Some r)"
    and "r \<noteq> of_int \<lfloor>r\<rfloor>"
  shows "\<exists>e. hashCanonicalJSON H (context_payload a c i (withParticipantContextProvenance s)) = Inl e"
proof (rule ccontr)
  assume "\<not> ?thesis"
  then obtain w where "canonicalValue (context_payload a c i (withParticipantContextProvenance s)) = Inr w"
    by (cases "canonicalValue (context_payload a c i (withParticipantContextProvenance s))")
      (auto simp: hashCanonicalJSON_def canonicalJSON_def)
  then obtain x where x: "canonicalValue (withParticipantContextProvenance s) = Inr x"
    by (drule_tac canonical_path[where k = "''snapshot''"]) (auto simp: context_payload_def withParticipantContextProvenance_def)
  have n: "\<nexists>w. canonicalValue (JNum (Fin r)) = Inr w" using assms(2) by auto
  from assms(1) show False
  proof (elim disjE exE conjE)
    fix d assume d: "sn_display s = Some d" "dg_devicePixelRatio d = Some r"
    obtain y where y: "canonicalValue (display_js d) = Inr y"
      using canonical_path[OF x, where k = "''display''" and u = "display_js d"] d
      by (auto simp: withParticipantContextProvenance_def snapshot_members_def display_js_def)
    show False
      using canonical_path[OF y, where k = "''devicePixelRatio''" and u = "JNum (Fin r)"] d n by (auto simp: display_js_def)
  next
    fix g assume g: "sn_connection s = Some g" "ng_downlinkMbps g = Some r"
    obtain y where y: "canonicalValue (connection_js g) = Inr y"
      using canonical_path[OF x, where k = "''connection''" and u = "connection_js g"] g
      by (auto simp: withParticipantContextProvenance_def snapshot_members_def connection_js_def)
    show False
      using canonical_path[OF y, where k = "''downlinkMbps''" and u = "JNum (Fin r)"] g n by (auto simp: connection_js_def)
  qed
qed

section \<open>Witnesses\<close>

definition demo_submission :: js where
  "demo_submission = JObj
     [(''activityId'', JStr ''a1''), (''contextSessionId'', JStr ''c1''), (''handle'', JStr ''h1''), (''interactionId'', JStr ''i1''),
      (''snapshot'', JObj [(''schema'', JStr ''vasi-participant-context/v1''), (''purpose'', JStr ''presentation''),
        (''clientOccurredAt'', JStr ''2024-01-01T00:00:00.000Z''), (''id'', JStr ''s1''), (''monotonicMs'', JInt 10), (''sequence'', JInt 1),
        (''display'', JObj [(''devicePixelRatio'', JNum (Fin (3 / 2)))])])]"

lemma demo_submission_accepted:
  "\<exists>c. validateParticipantContextSubmission demo_submission = Inr c \<and>
     (\<exists>d. sn_display (cs_snapshot c) = Some d \<and> dg_devicePixelRatio d = Some (3 / 2))"
proof -
  have "(case validateParticipantContextSubmission demo_submission of Inl _ \<Rightarrow> False
     | Inr c \<Rightarrow> (case sn_display (cs_snapshot c) of None \<Rightarrow> False | Some d \<Rightarrow> dg_devicePixelRatio d = Some (3 / 2)))" by code_simp
  then show ?thesis by (auto split: sum.splits option.splits)
qed

theorem stored_context_accepted_witness:
  "\<exists>c. validateParticipantContextSubmission demo_submission = Inr c \<and>
     validateStoredParticipantContextSnapshot (withParticipantContextProvenance (cs_snapshot c)) = Inr (cs_snapshot c)"
  using demo_submission_accepted stored_context_accepted by blast

theorem fractional_context_not_recorded_witness:
  "\<exists>c e. validateParticipantContextSubmission demo_submission = Inr c \<and>
     hashCanonicalJSON id (context_payload ''a1'' ''c1'' ''i1'' (withParticipantContextProvenance (cs_snapshot c))) = Inl e"
proof -
  obtain c d where c: "validateParticipantContextSubmission demo_submission = Inr c"
    and d: "sn_display (cs_snapshot c) = Some d" "dg_devicePixelRatio d = Some (3 / 2)"
    using demo_submission_accepted by blast
  have "(3 / 2 :: rat) \<noteq> of_int \<lfloor>3 / 2 :: rat\<rfloor>" by code_simp
  with fractional_context_not_recorded[of "cs_snapshot c" "3 / 2" id "''a1''" "''c1''" "''i1''"] c d show ?thesis by blast
qed

end
