(* ===== verification/Notifications.thy ===== *)
theory Notifications
  imports Context
begin

text \<open>
  Notification delivery evidence: \<^verbatim>\<open>src/packages/engine-domain/notifications.mjs\<close>. A sealed record
  carries the notification jobs of its request with their delivery attempts as they were when the
  record was sealed; the verifier applies the same validation.
\<close>

definition NOTIFICATION_TYPES :: "string list" where
  "NOTIFICATION_TYPES = [''request.issued'', ''request.reminder'', ''request.completed'', ''participant_data.ready'',
     ''participant_data.denied'', ''participant_data.preparation_failed'', ''participant_data.expired'']"

definition NOTIFICATION_JOB_LIMIT :: nat where
  "NOTIFICATION_JOB_LIMIT = 32"

definition NOTIFICATION_DELIVERY_LIMITATIONS :: "string list" where
  "NOTIFICATION_DELIVERY_LIMITATIONS =
     [''Provider acceptance means the configured adapter accepted the notification; it does not prove inbox delivery, receipt, reading, attention, or identity.'',
      ''This sealed snapshot includes only notification state and immutable attempts available when the evidence record was sealed.'']"

definition JOB_STATUSES :: "string list" where
  "JOB_STATUSES = [''scheduled'', ''queued'', ''processing'', ''provider_accepted'', ''suppressed'', ''failed'', ''indeterminate'']"

definition ATTEMPT_OUTCOMES :: "string list" where
  "ATTEMPT_OUTCOMES = [''provider_accepted'', ''suppressed'', ''failed'']"

definition NOTIFICATION_ADAPTERS :: "string list" where
  "NOTIFICATION_ADAPTERS = [''disabled'', ''microsoft_graph'', ''notification'', ''smtp'', ''webhook'']"

abbreviation invalidNotification :: "string \<Rightarrow> 'a res" where
  "invalidNotification m \<equiv> throw INVALID_NOTIFICATION_DELIVERY (Because m)"

definition must :: "bool \<Rightarrow> string \<Rightarrow> 'a res \<Rightarrow> 'a res" where
  "must ok m k = guardE ok INVALID_NOTIFICATION_DELIVERY (Because m) k"

definition requireNotificationType :: "js \<Rightarrow> string res" where
  "requireNotificationType v =
     (case as_str v of
        None \<Rightarrow> invalidNotification ''notification_type_invalid''
      | Some s \<Rightarrow> must (s \<in> set NOTIFICATION_TYPES) ''notification_type_invalid'' (Inr s))"

text \<open>A job row with the outcome of its result and of its last attempt (null columns are \<open>None\<close>).\<close>

record job_state =
  js_status :: string
  js_resultOutcome :: "string option"
  js_attemptOutcome :: "string option"
  js_availableAt :: int

definition notificationOperationalStatus :: "job_state \<Rightarrow> int \<Rightarrow> string" where
  "notificationOperationalStatus job now =
     (let status = js_status job;
          outcome = (case js_resultOutcome job of Some (c # cs) \<Rightarrow> Some (c # cs) | _ \<Rightarrow> js_attemptOutcome job)
      in if status \<in> {''pending'', ''participant_pending''}
         then if js_availableAt job > now then ''scheduled'' else ''queued''
         else if status = ''running'' then ''processing''
         else if status = ''failed'' then ''failed''
         else if status = ''completed'' \<and> outcome = Some ''delivered'' then ''provider_accepted''
         else if status = ''completed'' \<and> outcome = Some ''suppressed'' then ''suppressed''
         else if status = ''completed'' \<and> outcome = Some ''failed'' then ''failed''
         else ''indeterminate'')"

definition notificationEvidenceOutcome :: "string \<Rightarrow> string res" where
  "notificationEvidenceOutcome v =
     (if v = ''delivered'' then Inr ''provider_accepted''
      else must (v = ''failed'' \<or> v = ''suppressed'') ''notification_attempt_outcome_invalid'' (Inr v))"

definition replace_spaces :: "string \<Rightarrow> string" where
  "replace_spaces s = map (\<lambda>c. if c = CHR '' '' then CHR ''_'' else c) s"

definition strictObject :: "js \<Rightarrow> string \<Rightarrow> string list \<Rightarrow> js res" where
  "strictObject v name allowedKeys =
     must (is_object v) (replace_spaces name @ ''_invalid'')
     (must (set (keys v) \<subseteq> set allowedKeys) ''notification_delivery_field_unsupported'' (Inr v))"

definition boundedToken :: "js \<Rightarrow> string \<Rightarrow> nat \<Rightarrow> string res" where
  "boundedToken v name maximum =
     (case as_str v of
        None \<Rightarrow> invalidNotification (replace_spaces name @ ''_invalid'')
      | Some s \<Rightarrow> must (1 \<le> length s \<and> length s \<le> maximum \<and> opaque_shape s) (replace_spaces name @ ''_invalid'') (Inr s))"

definition canonicalTimestamp :: "js \<Rightarrow> string \<Rightarrow> string res" where
  "canonicalTimestamp v name =
     (case as_str v of
        None \<Rightarrow> invalidNotification (name @ ''_invalid'')
      | Some s \<Rightarrow> must (canonical_iso s) (name @ ''_invalid'') (Inr s))"

text \<open>\<open>/^[a-z0-9_]{1,64}$/\<close>\<close>

definition error_code_shape :: "string \<Rightarrow> bool" where
  "error_code_shape s = (1 \<le> length s \<and> length s \<le> 64 \<and> list_all (\<lambda>c. is_lower c \<or> is_digit c \<or> c = CHR ''_'') s)"

definition boundedErrorCode :: "js \<Rightarrow> string res" where
  "boundedErrorCode v =
     (case as_str v of
        None \<Rightarrow> invalidNotification ''notification_error_code_invalid''
      | Some s \<Rightarrow> must (error_code_shape s) ''notification_error_code_invalid'' (Inr s))"

record attempt =
  at_adapter :: string
  at_attempt :: int
  at_completedAt :: string
  at_errorCode :: "string option"
  at_outcome :: string
  at_startedAt :: string

definition validateAttempt :: "js \<Rightarrow> string \<Rightarrow> attempt res" where
  "validateAttempt v capturedAt =
     bindE (strictObject v ''notification attempt'' [''adapter'', ''attempt'', ''completedAt'', ''errorCode'', ''outcome'', ''startedAt'']) (\<lambda>v.
     bindE (boundedToken (get v ''adapter'') ''notification adapter'' 64) (\<lambda>adapter.
     must (adapter \<in> set NOTIFICATION_ADAPTERS) ''notification_delivery_adapter_invalid''
     (case safe_int (get v ''attempt'') of
        None \<Rightarrow> invalidNotification ''notification_delivery_attempt_number_invalid''
      | Some n \<Rightarrow>
        must (\<not> (n < 1 \<or> n > 20)) ''notification_delivery_attempt_number_invalid''
        (bindE (canonicalTimestamp (get v ''startedAt'') ''startedAt'') (\<lambda>startedAt.
         bindE (canonicalTimestamp (get v ''completedAt'') ''completedAt'') (\<lambda>completedAt.
         must (\<not> (iso_time startedAt > iso_time completedAt \<or> iso_time completedAt > iso_time capturedAt))
           ''notification_delivery_attempt_time_invalid''
         (case as_str (get v ''outcome'') of
            None \<Rightarrow> invalidNotification ''notification_delivery_attempt_outcome_invalid''
          | Some outcome \<Rightarrow>
            must (outcome \<in> set ATTEMPT_OUTCOMES) ''notification_delivery_attempt_outcome_invalid''
            (bindE (optional boundedErrorCode (get v ''errorCode'')) (\<lambda>errorCode.
             must (\<not> (outcome = ''failed'' \<and> errorCode = None)) ''notification_delivery_attempt_error_missing''
             (must (\<not> (outcome \<noteq> ''failed'' \<and> errorCode \<noteq> None)) ''notification_delivery_attempt_error_unexpected''
              (Inr \<lparr>at_adapter = adapter, at_attempt = n, at_completedAt = completedAt, at_errorCode = errorCode,
                   at_outcome = outcome, at_startedAt = startedAt\<rparr>)))))))))))"

fun validate_attempts :: "string \<Rightarrow> int \<Rightarrow> js list \<Rightarrow> attempt list res" where
  "validate_attempts capturedAt previous [] = Inr []"
| "validate_attempts capturedAt previous (v # vs) =
     bindE (validateAttempt v capturedAt) (\<lambda>a.
     must (\<not> at_attempt a \<le> previous) ''notification_delivery_attempt_order_invalid''
     (bindE (validate_attempts capturedAt (at_attempt a) vs) (\<lambda>rest. Inr (a # rest))))"

record job =
  jb_attempts :: "attempt list"
  jb_id :: string
  jb_notificationType :: string
  jb_queuedAt :: string
  jb_scheduledFor :: string
  jb_status :: string

definition lastOutcome :: "attempt list \<Rightarrow> string option" where
  "lastOutcome xs = (if xs = [] then None else Some (at_outcome (last xs)))"

definition validateJob :: "js \<Rightarrow> string \<Rightarrow> string list \<Rightarrow> job res" where
  "validateJob v capturedAt jobIds =
     bindE (strictObject v ''notification job'' [''attempts'', ''id'', ''notificationType'', ''queuedAt'', ''scheduledFor'', ''status'']) (\<lambda>v.
     bindE (boundedToken (get v ''id'') ''notification job id'' 128) (\<lambda>jid.
     must (jid \<notin> set jobIds) ''notification_delivery_job_duplicate''
     (bindE (requireNotificationType (get v ''notificationType'')) (\<lambda>notificationType.
      bindE (canonicalTimestamp (get v ''queuedAt'') ''queuedAt'') (\<lambda>queuedAt.
      bindE (canonicalTimestamp (get v ''scheduledFor'') ''scheduledFor'') (\<lambda>scheduledFor.
      must (\<not> iso_time queuedAt > iso_time capturedAt) ''notification_delivery_job_time_invalid''
      (case as_str (get v ''status'') of
         None \<Rightarrow> invalidNotification ''notification_delivery_status_invalid''
       | Some status \<Rightarrow>
         must (status \<in> set JOB_STATUSES) ''notification_delivery_status_invalid''
         (case as_arr (get v ''attempts'') of
            None \<Rightarrow> invalidNotification ''notification_delivery_attempts_invalid''
          | Some vs \<Rightarrow>
            must (length vs \<le> 20) ''notification_delivery_attempts_invalid''
            (bindE (validate_attempts capturedAt 0 vs) (\<lambda>attempts.
             must (\<not> (status = ''provider_accepted'' \<and> lastOutcome attempts \<noteq> Some ''provider_accepted''))
               ''notification_delivery_status_attempt_mismatch''
             (must (\<not> (status = ''failed'' \<and> attempts \<noteq> [] \<and> lastOutcome attempts \<noteq> Some ''failed''))
                ''notification_delivery_status_attempt_mismatch''
              (Inr \<lparr>jb_attempts = attempts, jb_id = jid, jb_notificationType = notificationType, jb_queuedAt = queuedAt,
                   jb_scheduledFor = scheduledFor, jb_status = status\<rparr>))))))))))))"

fun validate_jobs :: "string \<Rightarrow> string list \<Rightarrow> js list \<Rightarrow> job list res" where
  "validate_jobs capturedAt seen [] = Inr []"
| "validate_jobs capturedAt seen (v # vs) =
     bindE (validateJob v capturedAt seen) (\<lambda>j.
     bindE (validate_jobs capturedAt (jb_id j # seen) vs) (\<lambda>rest. Inr (j # rest)))"

record delivery_evidence =
  de_capturedAt :: string
  de_jobs :: "job list"

text \<open>\<open>expectedCapturedAt\<close> is a value or undefined.\<close>

definition validateNotificationDeliveryEvidence :: "js \<Rightarrow> js \<Rightarrow> delivery_evidence res" where
  "validateNotificationDeliveryEvidence v expectedCapturedAt =
     bindE (strictObject v ''notification delivery evidence'' [''capturedAt'', ''jobs'', ''limitations'', ''schema'']) (\<lambda>v.
     must (get v ''schema'' = JStr ''vasi-notification-delivery-evidence/v1'') ''notification_delivery_schema_invalid''
     (bindE (canonicalTimestamp (get v ''capturedAt'') ''capturedAt'') (\<lambda>capturedAt.
      bindE (if expectedCapturedAt = JUndef then Inr capturedAt else canonicalTimestamp expectedCapturedAt ''expectedCapturedAt'') (\<lambda>expected.
      must (capturedAt = expected) ''notification_delivery_capture_invalid''
      (must (get v ''limitations'' = JArr (map JStr NOTIFICATION_DELIVERY_LIMITATIONS)) ''notification_delivery_limitations_invalid''
       (case as_arr (get v ''jobs'') of
          None \<Rightarrow> invalidNotification ''notification_delivery_jobs_invalid''
        | Some vs \<Rightarrow>
          must (length vs \<le> NOTIFICATION_JOB_LIMIT) ''notification_delivery_jobs_invalid''
          (bindE (validate_jobs capturedAt [] vs) (\<lambda>jobs.
           Inr \<lparr>de_capturedAt = capturedAt, de_jobs = jobs\<rparr>))))))))"

section \<open>The evidence as the store loads it\<close>

text \<open>
  \<open>loadNotificationDeliveryEvidence\<close> of \<^verbatim>\<open>src/services/engine/evidence-store.mjs\<close>: the notification
  jobs of the request that were created by the capture time, ordered by creation and identifier,
  each with the attempts completed by then. A job takes its status from its first joined row.
\<close>

record outbox_row =
  oj_id :: string
  oj_notificationType :: string
  oj_status :: string
  oj_availableAt :: int
  oj_createdAt :: int
  oj_resultOutcome :: "string option"

record attempt_row =
  oa_jobId :: string
  oa_attempt :: int
  oa_adapter :: string
  oa_outcome :: string
  oa_errorCode :: "string option"
  oa_startedAt :: int
  oa_completedAt :: int

definition joined_attempts :: "attempt_row list \<Rightarrow> int \<Rightarrow> outbox_row \<Rightarrow> attempt_row list" where
  "joined_attempts attempts capturedAt j =
     sort_key oa_attempt (filter (\<lambda>a. oa_jobId a = oj_id j \<and> oa_completedAt a \<le> capturedAt) attempts)"

definition attempt_evidence :: "attempt_row \<Rightarrow> js res" where
  "attempt_evidence a =
     bindE (notificationEvidenceOutcome (oa_outcome a)) (\<lambda>outcome.
     Inr (JObj ([(''adapter'', JStr (oa_adapter a)), (''attempt'', JInt (oa_attempt a)),
                 (''completedAt'', JStr (toISOString (oa_completedAt a)))] @
                (case oa_errorCode a of Some (c # cs) \<Rightarrow> [(''errorCode'', JStr (c # cs))] | _ \<Rightarrow> []) @
                [(''outcome'', JStr outcome), (''startedAt'', JStr (toISOString (oa_startedAt a)))])))"

definition job_evidence :: "attempt_row list \<Rightarrow> int \<Rightarrow> outbox_row \<Rightarrow> js res" where
  "job_evidence attempts capturedAt j =
     (let joined = joined_attempts attempts capturedAt j;
          state = \<lparr>js_status = oj_status j, js_resultOutcome = oj_resultOutcome j,
                   js_attemptOutcome = (if joined = [] then None else Some (oa_outcome (hd joined))), js_availableAt = oj_availableAt j\<rparr>
      in bindE (mapE attempt_evidence joined) (\<lambda>atts.
         Inr (JObj [(''attempts'', JArr atts), (''id'', JStr (oj_id j)), (''notificationType'', JStr (oj_notificationType j)),
                    (''queuedAt'', JStr (toISOString (oj_createdAt j))), (''scheduledFor'', JStr (toISOString (oj_availableAt j))),
                    (''status'', JStr (notificationOperationalStatus state capturedAt))])))"

definition loadNotificationDeliveryEvidence :: "outbox_row list \<Rightarrow> attempt_row list \<Rightarrow> int \<Rightarrow> delivery_evidence res" where
  "loadNotificationDeliveryEvidence jobs attempts capturedAt =
     (let rows = sort_key oj_createdAt (sort_key oj_id (filter (\<lambda>j. oj_createdAt j \<le> capturedAt) jobs))
      in bindE (mapE (job_evidence attempts capturedAt) rows) (\<lambda>js.
         validateNotificationDeliveryEvidence
           (JObj [(''capturedAt'', JStr (toISOString capturedAt)), (''jobs'', JArr js),
                  (''limitations'', JArr (map JStr NOTIFICATION_DELIVERY_LIMITATIONS)),
                  (''schema'', JStr ''vasi-notification-delivery-evidence/v1'')])
           (JStr (toISOString capturedAt))))"

section \<open>Stored evidence is stable\<close>

definition attempt_js :: "attempt \<Rightarrow> js" where
  "attempt_js a = JObj ([(''adapter'', JStr (at_adapter a)), (''attempt'', JInt (at_attempt a)), (''completedAt'', JStr (at_completedAt a))] @
     (case at_errorCode a of Some e \<Rightarrow> [(''errorCode'', JStr e)] | None \<Rightarrow> []) @
     [(''outcome'', JStr (at_outcome a)), (''startedAt'', JStr (at_startedAt a))])"

definition job_js :: "job \<Rightarrow> js" where
  "job_js j = JObj [(''attempts'', JArr (map attempt_js (jb_attempts j))), (''id'', JStr (jb_id j)),
     (''notificationType'', JStr (jb_notificationType j)), (''queuedAt'', JStr (jb_queuedAt j)),
     (''scheduledFor'', JStr (jb_scheduledFor j)), (''status'', JStr (jb_status j))]"

definition delivery_js :: "delivery_evidence \<Rightarrow> js" where
  "delivery_js d = JObj [(''capturedAt'', JStr (de_capturedAt d)), (''jobs'', JArr (map job_js (de_jobs d))),
     (''limitations'', JArr (map JStr NOTIFICATION_DELIVERY_LIMITATIONS)), (''schema'', JStr ''vasi-notification-delivery-evidence/v1'')]"

lemma must_Inr [res_simps]: "must ok m k = Inr x \<longleftrightarrow> ok \<and> k = Inr x"
  by (simp add: must_def guardE_Inr)

lemma must_True [simp]: "must True m k = k"
  by (simp add: must_def)

lemma must_E: "must ok m k = Inr y \<Longrightarrow> (ok \<Longrightarrow> k = Inr y \<Longrightarrow> P) \<Longrightarrow> P"
  by (simp add: must_Inr)

lemmas delivery_elims = res_elims must_E

lemma strictObject_Inr: "strictObject v n ks = Inr w \<longleftrightarrow> w = v \<and> is_object v \<and> set (keys v) \<subseteq> set ks"
  by (auto simp: strictObject_def must_Inr)

lemma boundedToken_Inr:
  "boundedToken v n m = Inr s \<longleftrightarrow> v = JStr s \<and> 1 \<le> length s \<and> length s \<le> m \<and> opaque_shape s"
  by (auto simp: boundedToken_def must_Inr as_str_Some split: option.splits)

lemma canonicalTimestamp_Inr: "canonicalTimestamp v n = Inr s \<longleftrightarrow> v = JStr s \<and> canonical_iso s"
  by (auto simp: canonicalTimestamp_def must_Inr as_str_Some split: option.splits)

lemma requireNotificationType_Inr: "requireNotificationType v = Inr s \<longleftrightarrow> v = JStr s \<and> s \<in> set NOTIFICATION_TYPES"
  by (auto simp: requireNotificationType_def must_Inr as_str_Some split: option.splits)

lemma boundedErrorCode_Inr: "boundedErrorCode v = Inr s \<longleftrightarrow> v = JStr s \<and> error_code_shape s"
  by (auto simp: boundedErrorCode_def must_Inr as_str_Some split: option.splits)

lemmas delivery_simps = strictObject_Inr boundedToken_Inr canonicalTimestamp_Inr requireNotificationType_Inr boundedErrorCode_Inr

definition attempt_ok :: "string \<Rightarrow> attempt \<Rightarrow> bool" where
  "attempt_ok capturedAt a =
     (1 \<le> length (at_adapter a) \<and> length (at_adapter a) \<le> 64 \<and> opaque_shape (at_adapter a) \<and> at_adapter a \<in> set NOTIFICATION_ADAPTERS \<and>
      1 \<le> at_attempt a \<and> at_attempt a \<le> 20 \<and> canonical_iso (at_startedAt a) \<and> canonical_iso (at_completedAt a) \<and>
      iso_time (at_startedAt a) \<le> iso_time (at_completedAt a) \<and> iso_time (at_completedAt a) \<le> iso_time capturedAt \<and>
      at_outcome a \<in> set ATTEMPT_OUTCOMES \<and> pred_option error_code_shape (at_errorCode a) \<and>
      (at_outcome a = ''failed'' \<longleftrightarrow> at_errorCode a \<noteq> None))"

lemma validateAttempt_ok: "validateAttempt v c = Inr a \<Longrightarrow> attempt_ok c a"
  unfolding validateAttempt_def
  by (elim delivery_elims) (auto simp: delivery_simps safe_int_Some attempt_ok_def optional_def bindE_Inr split: if_splits)

lemma validateAttempt_encode: "attempt_ok c a \<Longrightarrow> validateAttempt (attempt_js a) c = Inr a"
proof -
  assume ok: "attempt_ok c a"
  have o: "strictObject (attempt_js a) f [''adapter'', ''attempt'', ''completedAt'', ''errorCode'', ''outcome'', ''startedAt''] = Inr (attempt_js a)" for f
    by (auto simp: strictObject_Inr attempt_js_def split: option.splits)
  have g: "get (attempt_js a) ''adapter'' = JStr (at_adapter a)" "get (attempt_js a) ''attempt'' = JInt (at_attempt a)"
    "get (attempt_js a) ''startedAt'' = JStr (at_startedAt a)" "get (attempt_js a) ''completedAt'' = JStr (at_completedAt a)"
    "get (attempt_js a) ''outcome'' = JStr (at_outcome a)" "get (attempt_js a) ''errorCode'' = opt_js JStr (at_errorCode a)"
    by (simp_all add: attempt_js_def proto_names_def split: option.splits)
  have e: "optional boundedErrorCode (opt_js JStr (at_errorCode a)) = Inr (at_errorCode a)"
    using ok by (cases "at_errorCode a") (auto simp: optional_def nullish_def attempt_ok_def boundedErrorCode_Inr bindE_Inr)
  have t: "boundedToken (JStr (at_adapter a)) f 64 = Inr (at_adapter a)" "canonicalTimestamp (JStr (at_startedAt a)) f = Inr (at_startedAt a)"
    "canonicalTimestamp (JStr (at_completedAt a)) f = Inr (at_completedAt a)" for f
    using ok by (simp_all add: attempt_ok_def boundedToken_Inr canonicalTimestamp_Inr)
  have n: "safe_int (JInt (at_attempt a)) = Some (at_attempt a)"
    using ok by (intro safe_int_JInt) (simp add: attempt_ok_def MAX_SAFE_INTEGER_def)
  show ?thesis
    unfolding validateAttempt_def o bindE.simps g t n e
    using ok by (auto simp: attempt_ok_def must_def guardE_def)
qed

fun increasing :: "int \<Rightarrow> attempt list \<Rightarrow> bool" where
  "increasing p [] = True"
| "increasing p (a # as) = (p < at_attempt a \<and> increasing (at_attempt a) as)"

lemma validate_attempts_ok:
  "validate_attempts c p vs = Inr as \<Longrightarrow> increasing p as \<and> list_all (attempt_ok c) as \<and> length as = length vs"
  by (induction vs arbitrary: p as) (auto simp: bindE_Inr must_Inr dest: validateAttempt_ok)

lemma validate_attempts_encode:
  "increasing p as \<Longrightarrow> list_all (attempt_ok c) as \<Longrightarrow> validate_attempts c p (map attempt_js as) = Inr as"
  by (induction as arbitrary: p) (auto simp: validateAttempt_encode must_def guardE_def)

definition job_ok :: "string \<Rightarrow> job \<Rightarrow> bool" where
  "job_ok c j =
     (1 \<le> length (jb_id j) \<and> length (jb_id j) \<le> 128 \<and> opaque_shape (jb_id j) \<and> jb_notificationType j \<in> set NOTIFICATION_TYPES \<and>
      canonical_iso (jb_queuedAt j) \<and> canonical_iso (jb_scheduledFor j) \<and> iso_time (jb_queuedAt j) \<le> iso_time c \<and>
      jb_status j \<in> set JOB_STATUSES \<and> length (jb_attempts j) \<le> 20 \<and> increasing 0 (jb_attempts j) \<and>
      list_all (attempt_ok c) (jb_attempts j) \<and>
      (jb_status j = ''provider_accepted'' \<longrightarrow> lastOutcome (jb_attempts j) = Some ''provider_accepted'') \<and>
      (jb_status j = ''failed'' \<and> jb_attempts j \<noteq> [] \<longrightarrow> lastOutcome (jb_attempts j) = Some ''failed''))"

lemma validateJob_ok: "validateJob v c seen = Inr j \<Longrightarrow> job_ok c j \<and> jb_id j \<notin> set seen"
  unfolding validateJob_def
proof (elim delivery_elims, goal_cases)
  case (1 w jid nt qa sf status vs attempts)
  have j: "j = \<lparr>jb_attempts = attempts, jb_id = jid, jb_notificationType = nt, jb_queuedAt = qa, jb_scheduledFor = sf, jb_status = status\<rparr>"
    using 1 by simp
  show ?case
    unfolding job_ok_def j job.simps
    using 1 validate_attempts_ok[of c 0 vs attempts]
    by (intro conjI) (simp_all add: boundedToken_Inr canonicalTimestamp_Inr requireNotificationType_Inr, blast)
qed

lemma validateJob_encode:
  assumes "job_ok c j" "jb_id j \<notin> set seen"
  shows "validateJob (job_js j) c seen = Inr j"
proof -
  note ok = assms(1)[unfolded job_ok_def]
  have o: "strictObject (job_js j) f [''attempts'', ''id'', ''notificationType'', ''queuedAt'', ''scheduledFor'', ''status''] = Inr (job_js j)" for f
    by (simp add: strictObject_Inr job_js_def)
  have g: "get (job_js j) ''id'' = JStr (jb_id j)" "get (job_js j) ''notificationType'' = JStr (jb_notificationType j)"
    "get (job_js j) ''queuedAt'' = JStr (jb_queuedAt j)" "get (job_js j) ''scheduledFor'' = JStr (jb_scheduledFor j)"
    "get (job_js j) ''status'' = JStr (jb_status j)" "get (job_js j) ''attempts'' = JArr (map attempt_js (jb_attempts j))"
    by (simp_all add: job_js_def)
  have t: "boundedToken (JStr (jb_id j)) f 128 = Inr (jb_id j)" "canonicalTimestamp (JStr (jb_queuedAt j)) f = Inr (jb_queuedAt j)"
    "canonicalTimestamp (JStr (jb_scheduledFor j)) f = Inr (jb_scheduledFor j)"
    "requireNotificationType (JStr (jb_notificationType j)) = Inr (jb_notificationType j)"
    "validate_attempts c 0 (map attempt_js (jb_attempts j)) = Inr (jb_attempts j)" for f
    using ok by (simp_all add: boundedToken_Inr canonicalTimestamp_Inr requireNotificationType_Inr validate_attempts_encode)
  show ?thesis
    unfolding validateJob_def o bindE.simps g t as_str.simps as_arr.simps option.case
    using ok assms(2) by (simp add: t must_def guardE_def) blast
qed

lemma validate_jobs_ok:
  "validate_jobs c seen vs = Inr js \<Longrightarrow>
     list_all (job_ok c) js \<and> distinct (map jb_id js) \<and> set (map jb_id js) \<inter> set seen = {} \<and> length js = length vs"
  by (induction vs arbitrary: seen js) (fastforce simp: bindE_Inr dest!: validateJob_ok)+

lemma validate_jobs_encode:
  "list_all (job_ok c) js \<Longrightarrow> distinct (map jb_id js) \<Longrightarrow> set (map jb_id js) \<inter> set seen = {} \<Longrightarrow>
     validate_jobs c seen (map job_js js) = Inr js"
  by (induction js arbitrary: seen) (auto simp: validateJob_encode)

definition delivery_ok :: "delivery_evidence \<Rightarrow> bool" where
  "delivery_ok d = (canonical_iso (de_capturedAt d) \<and> length (de_jobs d) \<le> NOTIFICATION_JOB_LIMIT \<and>
     list_all (job_ok (de_capturedAt d)) (de_jobs d) \<and> distinct (map jb_id (de_jobs d)))"

lemma delivery_evidence_ok:
  assumes "validateNotificationDeliveryEvidence v e = Inr d"
  shows "delivery_ok d \<and> (e = JUndef \<or> e = JStr (de_capturedAt d))"
proof -
  from assms obtain w c expected vs jobs where f:
    "canonicalTimestamp (get w ''capturedAt'') ''capturedAt'' = Inr c"
    "(if e = JUndef then Inr c else canonicalTimestamp e ''expectedCapturedAt'') = Inr expected" "c = expected"
    "length vs \<le> NOTIFICATION_JOB_LIMIT" "validate_jobs c [] vs = Inr jobs" "d = \<lparr>de_capturedAt = c, de_jobs = jobs\<rparr>"
    unfolding validateNotificationDeliveryEvidence_def by (elim delivery_elims) (auto simp only: sum.inject)
  with validate_jobs_ok[OF f(5)] show ?thesis
    by (auto simp: delivery_ok_def canonicalTimestamp_Inr split: if_splits)
qed

lemma delivery_evidence_encode:
  assumes "delivery_ok d" "e = JUndef \<or> e = JStr (de_capturedAt d)"
  shows "validateNotificationDeliveryEvidence (delivery_js d) e = Inr d"
proof -
  have o: "strictObject (delivery_js d) f [''capturedAt'', ''jobs'', ''limitations'', ''schema''] = Inr (delivery_js d)" for f
    by (simp add: strictObject_Inr delivery_js_def)
  have t: "canonicalTimestamp (JStr (de_capturedAt d)) f = Inr (de_capturedAt d)" for f
    using assms(1) by (simp add: delivery_ok_def canonicalTimestamp_Inr)
  have j: "validate_jobs (de_capturedAt d) [] (map job_js (de_jobs d)) = Inr (de_jobs d)"
    using assms(1) by (intro validate_jobs_encode) (simp_all add: delivery_ok_def)
  show ?thesis
    unfolding validateNotificationDeliveryEvidence_def o bindE.simps
    using assms j by (auto simp: delivery_js_def t delivery_ok_def)
qed

interpretation delivery: normalizer "\<lambda>v. validateNotificationDeliveryEvidence v JUndef" delivery_js
  by unfold_locales (blast intro: delivery_evidence_encode dest: delivery_evidence_ok)

section \<open>Properties\<close>

text \<open>
  C33. Delivery evidence that passes its validation is consistent: at most 32 jobs with distinct
  identifiers, every attempt ran before the capture time, attempt numbers increase, a failed
  attempt names its error and no other does, and a job counts as accepted by the provider only when
  its last attempt was. The evidence passes validation again, unchanged, for the same capture time.
\<close>

theorem delivery_evidence_consistent:
  assumes "validateNotificationDeliveryEvidence v e = Inr d"
  shows "length (de_jobs d) \<le> 32 \<and> distinct (map jb_id (de_jobs d)) \<and>
    (\<forall>j \<in> set (de_jobs d).
       increasing 0 (jb_attempts j) \<and>
       (jb_status j = ''provider_accepted'' \<longrightarrow> jb_attempts j \<noteq> [] \<and> at_outcome (last (jb_attempts j)) = ''provider_accepted'') \<and>
       (\<forall>a \<in> set (jb_attempts j). iso_time (at_startedAt a) \<le> iso_time (at_completedAt a) \<and>
          iso_time (at_completedAt a) \<le> iso_time (de_capturedAt d) \<and>
          (at_outcome a = ''failed'' \<longleftrightarrow> at_errorCode a \<noteq> None))) \<and>
    validateNotificationDeliveryEvidence (delivery_js d) e = Inr d"
proof -
  note ok = delivery_evidence_ok[OF assms]
  from ok have "\<forall>j \<in> set (de_jobs d). job_ok (de_capturedAt d) j" by (simp add: delivery_ok_def list_all_iff)
  then show ?thesis
    using ok delivery_evidence_encode[of d e]
    by (auto simp: delivery_ok_def NOTIFICATION_JOB_LIMIT_def job_ok_def attempt_ok_def list_all_iff lastOutcome_def split: if_splits)
qed

text \<open>
  C34. A record cannot be sealed while a notification delivery of its request is newer than the
  completion time: when a job is already marked delivered but its attempts ended after the capture
  time, the evidence is refused, and with it the completion of the request.
\<close>

theorem late_delivery_blocks_sealing:
  assumes "j \<in> set jobs" "oj_createdAt j \<le> capturedAt" "oj_status j = ''completed''" "oj_resultOutcome j = Some ''delivered''"
    and "\<forall>a \<in> set attempts. oa_jobId a = oj_id j \<longrightarrow> capturedAt < oa_completedAt a"
  shows "\<exists>err. loadNotificationDeliveryEvidence jobs attempts capturedAt = Inl err"
proof (rule ccontr)
  assume "\<not> ?thesis"
  then obtain d where d: "loadNotificationDeliveryEvidence jobs attempts capturedAt = Inr d" by (meson obj_sumE)
  let ?rows = "sort_key oj_createdAt (sort_key oj_id (filter (\<lambda>j. oj_createdAt j \<le> capturedAt) jobs))"
  let ?obj = "\<lambda>js. JObj [(''capturedAt'', JStr (toISOString capturedAt)), (''jobs'', JArr js),
       (''limitations'', JArr (map JStr NOTIFICATION_DELIVERY_LIMITATIONS)), (''schema'', JStr ''vasi-notification-delivery-evidence/v1'')]"
  from d obtain js where js: "mapE (job_evidence attempts capturedAt) ?rows = Inr js"
    and v: "validateNotificationDeliveryEvidence (?obj js) (JStr (toISOString capturedAt)) = Inr d"
    by (auto simp: loadNotificationDeliveryEvidence_def bindE_Inr Let_def)
  have "filter (\<lambda>a. oa_jobId a = oj_id j \<and> oa_completedAt a \<le> capturedAt) attempts = []"
    using assms(5) by (auto simp: filter_empty_conv)
  then have none: "joined_attempts attempts capturedAt j = []"
    by (simp add: joined_attempts_def)
  let ?job = "JObj [(''attempts'', JArr []), (''id'', JStr (oj_id j)), (''notificationType'', JStr (oj_notificationType j)),
       (''queuedAt'', JStr (toISOString (oj_createdAt j))), (''scheduledFor'', JStr (toISOString (oj_availableAt j))),
       (''status'', JStr ''provider_accepted'')]"
  have "job_evidence attempts capturedAt j = Inr ?job"
    using assms(3,4) by (simp add: job_evidence_def none Let_def notificationOperationalStatus_def)
  moreover have "j \<in> set ?rows" using assms(1,2) by simp
  ultimately have "?job \<in> set js"
    using js unfolding mapE_Inr list_all2_conv_all_nth in_set_conv_nth by (metis sum.inject(2))
  moreover have "\<exists>c. validate_jobs c [] js = Inr (de_jobs d)"
    using v by (auto simp: validateNotificationDeliveryEvidence_def bindE_Inr must_Inr strictObject_Inr split: if_splits)
  moreover have "\<exists>e. validate_jobs c seen js = Inl e" if "?job \<in> set js" for c seen js
    using that
  proof (induction js arbitrary: seen)
    case (Cons x xs)
    show ?case
    proof (cases "x = ?job")
      case True
      have "validateJob ?job c seen \<noteq> Inr k" for k
        by (auto simp: validateJob_def bindE_Inr must_Inr strictObject_Inr lastOutcome_def split: option.splits)
      then have "\<exists>e. validateJob x c seen = Inl e" unfolding True by (meson obj_sumE)
      then show ?thesis by auto
    next
      case False
      with Cons have "\<exists>e. validate_jobs c seen' xs = Inl e" for seen' by simp
      then show ?thesis by (cases "validateJob x c seen") (auto, metis bindE.simps(1))
    qed
  qed simp
  ultimately show False by (metis sum.distinct(1))
qed

section \<open>Witnesses\<close>

definition demo_delivery :: js where
  "demo_delivery = JObj [(''capturedAt'', JStr ''2024-01-02T00:00:00.000Z''),
     (''jobs'', JArr [JObj [(''attempts'', JArr [JObj [(''adapter'', JStr ''smtp''), (''attempt'', JInt 1),
         (''completedAt'', JStr ''2024-01-01T00:00:01.000Z''), (''outcome'', JStr ''provider_accepted''),
         (''startedAt'', JStr ''2024-01-01T00:00:00.000Z'')]]), (''id'', JStr ''j1''), (''notificationType'', JStr ''request.issued''),
        (''queuedAt'', JStr ''2024-01-01T00:00:00.000Z''), (''scheduledFor'', JStr ''2024-01-01T00:00:00.000Z''),
        (''status'', JStr ''provider_accepted'')]]),
     (''limitations'', JArr (map JStr NOTIFICATION_DELIVERY_LIMITATIONS)), (''schema'', JStr ''vasi-notification-delivery-evidence/v1'')]"

theorem delivery_evidence_consistent_witness:
  "\<exists>d. validateNotificationDeliveryEvidence demo_delivery JUndef = Inr d \<and>
     validateNotificationDeliveryEvidence (delivery_js d) JUndef = Inr d"
proof -
  have "(case validateNotificationDeliveryEvidence demo_delivery JUndef of Inr _ \<Rightarrow> True | Inl _ \<Rightarrow> False)" by code_simp
  then obtain d where d: "validateNotificationDeliveryEvidence demo_delivery JUndef = Inr d" by (auto split: sum.splits)
  with delivery_evidence_consistent[OF d] show ?thesis by blast
qed

definition demo_job :: outbox_row where
  "demo_job = \<lparr>oj_id = ''j1'', oj_notificationType = ''request.issued'', oj_status = ''completed'', oj_availableAt = 1000,
     oj_createdAt = 1000, oj_resultOutcome = Some ''delivered''\<rparr>"

definition demo_attempt :: attempt_row where
  "demo_attempt = \<lparr>oa_jobId = ''j1'', oa_attempt = 1, oa_adapter = ''smtp'', oa_outcome = ''delivered'', oa_errorCode = None,
     oa_startedAt = 4000, oa_completedAt = 6000\<rparr>"

theorem late_delivery_blocks_sealing_witness:
  "\<exists>err. loadNotificationDeliveryEvidence [demo_job] [demo_attempt] 5000 = Inl err"
  by (rule late_delivery_blocks_sealing[of demo_job]) (simp_all add: demo_job_def demo_attempt_def)

end
