(* ===== verification/Records.thy ===== *)
theory Records
  imports Workflow EventChain
begin

text \<open>
  What an evidence record is made of besides its events: the requester snapshot
  (\<^verbatim>\<open>src/packages/engine-domain/requester.mjs\<close>), the authentication assurance a participant meets
  (\<^verbatim>\<open>src/services/engine/authentication-assurance.mjs\<close>), and the single-activity requests with their
  manifest (\<^verbatim>\<open>src/packages/engine-domain/evidence.mjs\<close>).
\<close>

section \<open>The requester snapshot\<close>

definition REQUESTER_SNAPSHOT_SCHEMA :: string where
  "REQUESTER_SNAPSHOT_SCHEMA = ''vasi-requester-snapshot/v1''"

definition PROVENANCE :: "string list" where
  "PROVENANCE = [''authenticated_actor_at_issuance'', ''evidence_event_backfill'', ''membership_backfill'', ''legacy_unavailable'']"

text \<open>The address is a text, \<open>null\<close> when none is known, or \<open>undefined\<close> when an old one is malformed.\<close>

record requester =
  rq_email :: js
  rq_principalId :: string
  rq_provenance :: string

definition requester_js :: "requester \<Rightarrow> js" where
  "requester_js r = JObj [(''email'', rq_email r), (''principalId'', JStr (rq_principalId r)), (''provenance'', JStr (rq_provenance r)),
     (''relationship'', JStr ''requesting_organization''), (''schema'', JStr REQUESTER_SNAPSHOT_SCHEMA)]"

definition normalizedEmail :: "js \<Rightarrow> string option" where
  "normalizedEmail v =
     (case as_str v of
        None \<Rightarrow> None
      | Some s \<Rightarrow> let t = js_lower (js_trim s) in if length t > 320 \<or> \<not> email_shape t then None else Some t)"

definition boundedText :: "js \<Rightarrow> nat \<Rightarrow> string option" where
  "boundedText v maximum =
     (case as_str v of
        None \<Rightarrow> None
      | Some s \<Rightarrow> let t = js_trim s in if t \<noteq> [] \<and> length t \<le> maximum then Some t else None)"

definition requesterSnapshot :: "js \<Rightarrow> requester res" where
  "requesterSnapshot actor =
     (case (boundedText (get actor ''principalId'') 512, normalizedEmail (get actor ''email'')) of
        (Some principalId, Some mail) \<Rightarrow>
          Inr \<lparr>rq_email = JStr mail, rq_principalId = principalId, rq_provenance = ''authenticated_actor_at_issuance''\<rparr>
      | _ \<Rightarrow> throw PLAIN_ERROR (Because ''requester_identity_required''))"

definition validateRequesterSnapshot :: "js \<Rightarrow> js \<Rightarrow> requester res" where
  "validateRequesterSnapshot v expectedPrincipalId =
     guardE (is_object v) PLAIN_ERROR (Because ''requester_snapshot_invalid'')
     (let mail = (if get v ''email'' = JNull then JNull else opt_js JStr (normalizedEmail (get v ''email''))) in
      case (boundedText (get v ''principalId'') 512, as_str (get v ''provenance'')) of
        (Some principalId, Some provenance) \<Rightarrow>
          guardE (sort (keys v) = [''email'', ''principalId'', ''provenance'', ''relationship'', ''schema''] \<and>
                  get v ''schema'' = JStr REQUESTER_SNAPSHOT_SCHEMA \<and>
                  get v ''relationship'' = JStr ''requesting_organization'' \<and>
                  (truthy expectedPrincipalId \<longrightarrow> expectedPrincipalId = JStr principalId) \<and>
                  provenance \<in> set PROVENANCE \<and>
                  (provenance \<noteq> ''legacy_unavailable'' \<longrightarrow> truthy mail))
            PLAIN_ERROR (Because ''requester_snapshot_invalid'')
          (Inr \<lparr>rq_email = mail, rq_principalId = principalId, rq_provenance = provenance\<rparr>)
      | _ \<Rightarrow> throw PLAIN_ERROR (Because ''requester_snapshot_invalid''))"

section \<open>Authentication assurance at the boundary of an operation\<close>

definition observation_js :: "observation \<Rightarrow> js" where
  "observation_js b = JObj [(''authenticatedAt'', opt_js JStr (ob_authenticatedAt b)), (''method'', JStr (ob_method b)),
     (''provenance'', opt_js JStr (ob_provenance b)), (''provider'', opt_js JStr (ob_provider b))]"

definition evaluation_js :: "evaluation \<Rightarrow> js" where
  "evaluation_js e = JObj [(''ageSeconds'', opt_js JInt (ev_ageSeconds e)), (''evaluatedAt'', JStr (ev_evaluatedAt e)),
     (''observation'', observation_js (ev_observation e)), (''policy'', auth_policy_js (ev_policy e)),
     (''reason'', opt_js JStr (ev_reason e)), (''satisfied'', JBool (ev_satisfied e)),
     (''schema'', JStr ''vasi-authentication-assurance-evaluation/v1'')]"

definition requireAuthenticationAssurance :: "runtime \<Rightarrow> js \<Rightarrow> js \<Rightarrow> int \<Rightarrow> evaluation res" where
  "requireAuthenticationAssurance R accessPolicy actor evaluatedAt =
     (case bindE (authenticationAssurancePolicy accessPolicy) (\<lambda>policy.
             evaluateAuthenticationAssurance R (auth_policy_js policy) actor (JDate (Some evaluatedAt))) of
        Inl e \<Rightarrow> throw (STORE_ERROR 500) (Because ''authentication_assurance_policy_invalid'')
      | Inr evaluation \<Rightarrow>
          if ev_satisfied evaluation then Inr evaluation
          else case ev_reason evaluation of
            Some reason \<Rightarrow> throw (STORE_ERROR (if reason = ''reauthentication_required'' then 401 else 403)) (Because reason)
          | None \<Rightarrow> throw (STORE_ERROR 403) (Because ''undefined''))"

definition PARTICIPANT_DATA_AUTHENTICATION_ASSURANCE :: js where
  "PARTICIPANT_DATA_AUTHENTICATION_ASSURANCE =
     JObj [(''acceptedMethods'', JArr [JStr ''any_verified'']), (''maximumAgeSeconds'', JInt 900)]"

definition requireRecentParticipantDataAuthentication :: "runtime \<Rightarrow> js \<Rightarrow> int \<Rightarrow> evaluation res" where
  "requireRecentParticipantDataAuthentication R actor evaluatedAt =
     requireAuthenticationAssurance R
       (JObj [(''authenticationAssurance'', PARTICIPANT_DATA_AUTHENTICATION_ASSURANCE)]) actor evaluatedAt"

section \<open>Single-activity requests\<close>

definition RESPONSE_MODES :: "string list" where
  "RESPONSE_MODES = [''acknowledgement'', ''yes_no'']"

definition object :: "js \<Rightarrow> string \<Rightarrow> js res" where
  "object v name = guardE (is_object v) PLAIN_ERROR (NotObject name) (Inr v)"

abbreviation boundedString :: "js \<Rightarrow> string \<Rightarrow> nat \<Rightarrow> nat \<Rightarrow> string res" where
  "boundedString v field minimum maximum \<equiv> bounded_string PLAIN_ERROR v field minimum maximum"

record tenant_input =
  ti_name :: string
  ti_slug :: string

definition validateTenantInput :: "js \<Rightarrow> tenant_input res" where
  "validateTenantInput v =
     bindE (object v ''tenant'') (\<lambda>input.
     bindE (boundedString (get input ''name'') ''name'' 2 160) (\<lambda>name.
     bindE (boundedString (get input ''slug'') ''slug'' 2 64) (\<lambda>slug.
     Inr \<lparr>ti_name = name, ti_slug = js_lower slug\<rparr>)))"

record issue_input =
  ii_prompt :: string
  ii_terms :: string
  ii_contentHash :: string
  ii_expiresAt :: int
  ii_intendedEmail :: string
  ii_purpose :: string
  ii_responseMode :: string
  ii_tenantId :: string
  ii_title :: string

definition issue_content_js :: "string \<Rightarrow> string \<Rightarrow> js" where
  "issue_content_js prompt terms = JObj [(''prompt'', JStr prompt), (''terms'', JStr terms)]"

definition validateIssueInput :: "runtime \<Rightarrow> (string \<Rightarrow> string) \<Rightarrow> js \<Rightarrow> int \<Rightarrow> issue_input res" where
  "validateIssueInput R H v now =
     bindE (object v ''request'') (\<lambda>input.
     bindE (boundedString (get input ''responseMode'') ''responseMode'' 1 32) (\<lambda>responseMode.
     guardE (responseMode \<in> set RESPONSE_MODES) PLAIN_ERROR (Because ''response mode'')
     (bindE (boundedString (get input ''intendedEmail'') ''intendedEmail'' 3 320) (\<lambda>mail.
      guardE (email_shape (js_lower mail)) PLAIN_ERROR (Because ''intended participant email'')
      (case (if truthy (get input ''expiresAt'') then new_Date R (get input ''expiresAt'') else Some (now + 7 * DAY_MS)) of
         None \<Rightarrow> throw PLAIN_ERROR (Because ''request expiration'')
       | Some expiresAt \<Rightarrow>
           guardE (now < expiresAt \<and> expiresAt \<le> now + 365 * DAY_MS) PLAIN_ERROR (Because ''request expiration'')
           (bindE (boundedString (get input ''prompt'') ''prompt'' 2 1000) (\<lambda>prompt.
            bindE (boundedString (get input ''terms'') ''terms'' 2 50000) (\<lambda>terms.
            bindE (hashCanonicalJSON H (issue_content_js prompt terms)) (\<lambda>contentHash.
            bindE (boundedString (get input ''purpose'') ''purpose'' 2 1000) (\<lambda>purpose.
            bindE (boundedString (get input ''tenantId'') ''tenantId'' 1 128) (\<lambda>tenantId.
            bindE (boundedString (get input ''title'') ''title'' 2 160) (\<lambda>title.
            Inr \<lparr>ii_prompt = prompt, ii_terms = terms, ii_contentHash = contentHash, ii_expiresAt = expiresAt,
                 ii_intendedEmail = js_lower mail, ii_purpose = purpose, ii_responseMode = responseMode,
                 ii_tenantId = tenantId, ii_title = title\<rparr>))))))))))))"

definition validateParticipantResponse :: "string \<Rightarrow> js \<Rightarrow> string res" where
  "validateParticipantResponse responseMode v =
     (if responseMode = ''acknowledgement'' \<and> v = JStr ''acknowledged'' then Inr ''acknowledged''
      else if responseMode = ''yes_no'' \<and> v = JStr ''yes'' then Inr ''yes''
      else if responseMode = ''yes_no'' \<and> v = JStr ''no'' then Inr ''no''
      else throw PLAIN_ERROR (Because ''participant response''))"

section \<open>The manifest of a single-activity request\<close>

record manifest_parts =
  mp_assignment :: js
  mp_completedAt :: js
  mp_events :: "js list"
  mp_issuedAt :: js
  mp_request :: js
  mp_requester :: js
  mp_response :: js
  mp_startedAt :: js
  mp_tenant :: js
  mp_workflow :: js

text \<open>The \<open>evidence\<close> member that every manifest shares: counts and hashes of the events.\<close>

definition manifest_evidence :: "js list \<Rightarrow> js" where
  "manifest_evidence events = JObj [(''eventCount'', JInt (int (length events))),
     (''eventHashes'', JArr (map (\<lambda>e. get e ''eventHash'') events)), (''firstSequence'', get (hd events) ''sequence''),
     (''headHash'', get (last events) ''eventHash''), (''lastSequence'', get (last events) ''sequence'')]"

definition buildEvidenceManifest :: "manifest_parts \<Rightarrow> js res" where
  "buildEvidenceManifest m =
     guardE (mp_events m \<noteq> []) PLAIN_ERROR (Because ''A sealed manifest requires evidence events.'')
     (Inr (JObj
       [(''assignment'', JObj [(''id'', get (mp_assignment m) ''id''), (''participantEmail'', get (mp_assignment m) ''participantEmail''),
          (''principalId'', get (mp_assignment m) ''principalId'')]),
        (''evidence'', manifest_evidence (mp_events m)),
        (''manifestId'', get (mp_assignment m) ''manifestId''),
        (''outcome'', JObj [(''response'', mp_response m)]),
        (''request'', JObj [(''id'', get (mp_request m) ''id''), (''purpose'', get (mp_request m) ''purpose'')]),
        (''requester'', mp_requester m),
        (''schema'', JStr ''vasi-evidence-manifest/v1''),
        (''tenant'', JObj ([(''id'', get (mp_tenant m) ''id''), (''name'', get (mp_tenant m) ''name'')] @
          (if truthy (get (mp_tenant m) ''profile'')
           then map (\<lambda>k. (k, get (mp_tenant m) k)) [''profile'', ''profileBindingProvenance'', ''profileHash'', ''profileRevisionId'']
           else []))),
        (''timestamps'', JObj [(''completedAt'', mp_completedAt m), (''issuedAt'', mp_issuedAt m), (''startedAt'', mp_startedAt m)]),
        (''workflow'', JObj (map (\<lambda>k. (k, get (mp_workflow m) k))
          [''content'', ''contentHash'', ''id'', ''responseMode'', ''revision'', ''title'']))]))"

section \<open>Rules\<close>

lemma normalizedEmail_stable: "normalizedEmail v = Some t \<Longrightarrow> normalizedEmail (JStr t) = Some t"
  by (auto simp: normalizedEmail_def Let_def js_trim_lower split: option.splits if_splits)

lemma normalizedEmail_undef [simp]: "normalizedEmail JUndef = None"
  by (simp add: normalizedEmail_def)

lemma normalizedEmail_not_Nil: "normalizedEmail v = Some t \<Longrightarrow> t \<noteq> []"
  by (auto simp: normalizedEmail_def Let_def email_shape_def split: option.splits if_splits)

lemma boundedText_stable: "boundedText v n = Some t \<Longrightarrow> boundedText (JStr t) n = Some t"
  by (auto simp: boundedText_def Let_def split: option.splits if_splits)

lemma validateRequesterSnapshot_Inr:
  "validateRequesterSnapshot v p = Inr r \<longleftrightarrow>
     is_object v \<and> boundedText (get v ''principalId'') 512 = Some (rq_principalId r) \<and>
     get v ''provenance'' = JStr (rq_provenance r) \<and>
     rq_email r = (if get v ''email'' = JNull then JNull else opt_js JStr (normalizedEmail (get v ''email''))) \<and>
     sort (keys v) = [''email'', ''principalId'', ''provenance'', ''relationship'', ''schema''] \<and>
     get v ''schema'' = JStr REQUESTER_SNAPSHOT_SCHEMA \<and> get v ''relationship'' = JStr ''requesting_organization'' \<and>
     (truthy p \<longrightarrow> p = JStr (rq_principalId r)) \<and> rq_provenance r \<in> set PROVENANCE \<and>
     (rq_provenance r \<noteq> ''legacy_unavailable'' \<longrightarrow> truthy (rq_email r))"
  by (cases r) (auto simp: validateRequesterSnapshot_def guardE_Inr Let_def js_simps split: option.splits)

lemma requester_keys: "sort (keys (requester_js r)) = [''email'', ''principalId'', ''provenance'', ''relationship'', ''schema'']"
  by (simp add: requester_js_def)

lemma requester_get [simp]:
  "get (requester_js r) ''email'' = rq_email r" "get (requester_js r) ''principalId'' = JStr (rq_principalId r)"
  "get (requester_js r) ''provenance'' = JStr (rq_provenance r)" "get (requester_js r) ''schema'' = JStr REQUESTER_SNAPSHOT_SCHEMA"
  "get (requester_js r) ''relationship'' = JStr ''requesting_organization''" "is_object (requester_js r)"
  by (simp_all add: requester_js_def)

lemma requester_encode:
  assumes "validateRequesterSnapshot v p = Inr r"
  shows "validateRequesterSnapshot (requester_js r) p = Inr r"
proof -
  have "rq_email r = (if rq_email r = JNull then JNull else opt_js JStr (normalizedEmail (rq_email r)))"
    using assms normalizedEmail_stable[of "get v ''email''"] normalizedEmail_undef
    by (cases "normalizedEmail (get v ''email'')") (auto simp: validateRequesterSnapshot_Inr)
  then show ?thesis
    using assms boundedText_stable by (auto simp: validateRequesterSnapshot_Inr requester_keys)
qed

interpretation requester: normalizer "\<lambda>v. validateRequesterSnapshot v p" requester_js for p
  by unfold_locales (rule requester_encode)

lemma requesterSnapshot_Inr:
  "requesterSnapshot a = Inr r \<longleftrightarrow>
     (\<exists>email. normalizedEmail (get a ''email'') = Some email \<and> rq_email r = JStr email) \<and>
     boundedText (get a ''principalId'') 512 = Some (rq_principalId r) \<and> rq_provenance r = ''authenticated_actor_at_issuance''"
  by (cases r) (auto simp: requesterSnapshot_def split: option.splits)

lemma requesterSnapshot_accepted:
  assumes "requesterSnapshot a = Inr r"
  shows "validateRequesterSnapshot (requester_js r) (JStr (rq_principalId r)) = Inr r"
  using assms boundedText_stable normalizedEmail_stable normalizedEmail_not_Nil
  by (fastforce simp: validateRequesterSnapshot_Inr requesterSnapshot_Inr requester_keys PROVENANCE_def)

lemma evaluate_reason:
  "evaluateAuthenticationAssurance R pv actor t = Inr e \<Longrightarrow> ev_reason e = None \<longleftrightarrow> ev_satisfied e"
  unfolding evaluateAuthenticationAssurance_def
  by (elim res_elims) (auto simp: Let_def split: option.splits if_splits)

lemma requireAuthenticationAssurance_Inr:
  "requireAuthenticationAssurance R access actor t = Inr e \<longleftrightarrow>
     (\<exists>policy. authenticationAssurancePolicy access = Inr policy \<and>
        evaluateAuthenticationAssurance R (auth_policy_js policy) actor (JDate (Some t)) = Inr e) \<and> ev_satisfied e"
  by (auto simp: requireAuthenticationAssurance_def bindE_Inr split: sum.splits if_splits option.splits
      dest: evaluate_reason)

section \<open>Values with a canonical form\<close>

text \<open>Whether \<open>canonicalValue\<close> succeeds, read off the value.\<close>

fun hashable :: "js \<Rightarrow> bool" where
  "hashable JNull = True"
| "hashable (JBool b) = True"
| "hashable (JStr s) = True"
| "hashable (JNum n) = (safe_int (JNum n) \<noteq> None)"
| "hashable (JArr xs) = list_all hashable xs"
| "hashable (JObj ps) = list_all (\<lambda>p. snd p = JUndef \<or> hashable (snd p)) ps"
| "hashable _ = False"

lemma mapE_total: "\<forall>x \<in> set xs. \<exists>y. f x = Inr y \<Longrightarrow> \<exists>ys. mapE f xs = Inr ys"
  by (induction xs) (auto simp: bindE_Inr)

lemma keep_member_iff: "keep_member p \<longleftrightarrow> snd p \<noteq> JUndef"
  by (cases p) simp

lemma hashable_canonical: "hashable v \<Longrightarrow> \<exists>w. canonicalValue v = Inr w"
proof (induction v rule: canonicalValue.induct)
  case (5 xs)
  then have "\<forall>x \<in> set xs. hashable x" by (simp add: list_all_iff)
  with 5(1) have "\<forall>x \<in> set xs. \<exists>y. canonicalValue x = Inr y" by blast
  from mapE_total[OF this] obtain ys where "mapE canonicalValue xs = Inr ys" by blast
  then show ?case by simp
next
  case (6 ps)
  have "\<exists>y. bindE (canonicalValue (snd p)) (\<lambda>v. Inr (fst p, v)) = Inr y" if "p \<in> set (filter keep_member (sort_key fst ps))" for p
  proof -
    from that have m: "p \<in> set ps" "snd p \<noteq> JUndef" by (simp_all add: keep_member_iff)
    with "6.prems" have "hashable (snd p)" unfolding hashable.simps list_all_iff by blast
    with "6.IH"[OF that] show ?thesis by (auto simp: bindE_Inr)
  qed
  then have "\<exists>ys. mapE (\<lambda>p. bindE (canonicalValue (snd p)) (\<lambda>v. Inr (fst p, v))) (filter keep_member (sort_key fst ps)) = Inr ys"
    by (intro mapE_total ballI)
  then obtain ys where "mapE (\<lambda>p. bindE (canonicalValue (snd p)) (\<lambda>v. Inr (fst p, v))) (filter keep_member (sort_key fst ps)) = Inr ys" ..
  then show ?case by simp
qed simp_all

lemma hashable_hash: "hashable v \<Longrightarrow> \<exists>h. hashCanonicalJSON H v = Inr h"
  using hashable_canonical by (fastforce simp: hashCanonicalJSON_def canonicalJSON_def bindE_Inr)

lemma hashable_JInt [simp]: "hashable (JInt n) \<longleftrightarrow> \<bar>n\<bar> \<le> MAX_SAFE_INTEGER"
  by simp

lemma hashable_opt [simp]: "hashable (opt_js JStr x) \<longleftrightarrow> x \<noteq> None" "opt_js JStr x = JUndef \<longleftrightarrow> x = None"
  by (cases x; simp)+

lemma hashable_texts [simp]: "list_all hashable (map JStr xs)"
  by (simp add: list_all_iff)

lemma hashable_requester:
  "validateRequesterSnapshot v p = Inr r \<Longrightarrow> hashable (requester_js r)"
  by (auto simp: validateRequesterSnapshot_Inr requester_js_def)

lemma hashable_evaluation:
  assumes "evaluateAuthenticationAssurance R pv actor t = Inr x" "ev_satisfied x"
  shows "hashable (evaluation_js x)"
proof -
  have "auth_policy_ok (ev_policy x)" using assms normalizeAuthenticationAssurance_ok
    unfolding evaluateAuthenticationAssurance_def by (elim res_elims) (auto simp: Let_def split: option.splits if_splits)
  then have "hashable (auth_policy_js (ev_policy x))"
    by (auto simp: auth_policy_js_def auth_policy_ok_def MAX_SAFE_INTEGER_def split: option.splits)
  moreover have "0 \<le> n \<and> n \<le> 2592000" if n: "ev_ageSeconds x = Some n" for n
  proof -
    from assms n obtain p maximum where p: "normalizeAuthenticationAssurance pv = Inr p" "au_maximumAgeSeconds p = Some maximum" "0 \<le> n" "n \<le> max 0 maximum"
      unfolding evaluateAuthenticationAssurance_def by (elim res_elims) (auto simp: Let_def split: option.splits if_splits)
    then show ?thesis using normalizeAuthenticationAssurance_ok[OF p(1)] unfolding auth_policy_ok_def by fastforce
  qed
  ultimately show ?thesis
    by (cases "ev_ageSeconds x") (auto simp: evaluation_js_def observation_js_def MAX_SAFE_INTEGER_def)
qed

end
