(* ===== verification/Certificates.thy ===== *)
theory Certificates
  imports Crypto Dates
begin

text \<open>
  Certificate seals: \<^verbatim>\<open>createCertificateSeal\<close>, \<^verbatim>\<open>verifyCertificateSeal\<close> and their helpers in
  \<^verbatim>\<open>src/packages/engine-crypto/index.mjs\<close>. X.509 parsing and the signature algorithms are Node's; they are
  the record \<open>x509_provider\<close>.
\<close>

record certificate =
  ce_fingerprint256 :: string
  ce_issuer :: js
  ce_serialNumber :: js
  ce_subject :: js
  ce_validFrom :: string
  ce_validTo :: string
  ce_publicJWK :: js
  ce_keyType :: string

text \<open>
  \<open>new X509Certificate(v)\<close>, \<open>createPrivateKey(pem)\<close> and the type of its key, \<open>checkPrivateKey\<close>, and
  \<open>sign\<close> and \<open>verify\<close> at a digest name, where \<open>None\<close> is the \<open>null\<close> that Ed25519 takes.
\<close>

record x509_provider =
  x5_parse :: "js \<Rightarrow> certificate option"
  x5_private :: "js \<Rightarrow> js option"
  x5_private_type :: "js \<Rightarrow> string"
  x5_matches :: "certificate \<Rightarrow> js \<Rightarrow> bool"
  x5_sign :: "string option \<Rightarrow> js \<Rightarrow> string \<Rightarrow> string"
  x5_verify :: "string option \<Rightarrow> certificate \<Rightarrow> string \<Rightarrow> string \<Rightarrow> bool"

section \<open>The certificate chain\<close>

fun find_sub :: "string \<Rightarrow> string \<Rightarrow> (string \<times> string) option" where
  "find_sub sub s =
     (if take (length sub) s = sub then Some ([], drop (length sub) s)
      else case s of [] \<Rightarrow> None | c # cs \<Rightarrow> map_option (\<lambda>(a, b). (c # a, b)) (find_sub sub cs))"

declare find_sub.simps [simp del]

definition pem_begin :: string where
  "pem_begin = ''-----BEGIN CERTIFICATE-----''"

definition pem_end :: string where
  "pem_end = ''-----END CERTIFICATE-----''"

lemma find_sub_append: "find_sub sub s = Some (a, b) \<Longrightarrow> s = a @ sub @ b"
proof (induction sub s arbitrary: a rule: find_sub.induct)
  case (1 sub s)
  show ?case
  proof (cases "take (length sub) s = sub")
    case True
    with "1.prems" show ?thesis
      by (subst (asm) find_sub.simps) (metis append_Nil append_take_drop_id option.inject prod.inject)
  next
    case False
    with "1.prems" obtain c cs a' where "s = c # cs" "find_sub sub cs = Some (a', b)" "a = c # a'"
      by (subst (asm) find_sub.simps) (auto split: list.splits)
    with "1.IH"[OF False] show ?thesis by auto
  qed
qed

text \<open>\<open>value.match(/-----BEGIN CERTIFICATE-----[\s\S]+?-----END CERTIFICATE-----/g)\<close>\<close>

function pem_blocks :: "string \<Rightarrow> string list" where
  "pem_blocks s =
     (case find_sub pem_begin s of
        Some (_, c # cs) \<Rightarrow>
          (case find_sub pem_end cs of
             Some (body, rest) \<Rightarrow> (pem_begin @ c # body @ pem_end) # pem_blocks rest
           | None \<Rightarrow> [])
      | _ \<Rightarrow> [])"
  by pat_completeness auto
termination
  by (relation "measure length") (auto dest!: find_sub_append)

declare pem_blocks.simps [simp del]

definition certificateChain :: "x509_provider \<Rightarrow> js \<Rightarrow> string list res" where
  "certificateChain X v =
     (case as_str v of
        None \<Rightarrow> throw PLAIN_ERROR (Because ''The certificate seal chain is invalid.'')
      | Some s \<Rightarrow>
          guardE (length s \<le> 100000) PLAIN_ERROR (Because ''The certificate seal chain is invalid.'')
          (let chain = pem_blocks s in
           guardE (chain \<noteq> [] \<and> length chain \<le> 10) PLAIN_ERROR (Because ''The certificate seal chain is invalid.'')
           (guardE (list_all (\<lambda>c. x5_parse X (JStr c) \<noteq> None) chain) PLAIN_ERROR (Because ''X509Certificate'')
            (Inr chain))))"

definition certificateAlgorithm :: "string \<Rightarrow> (string \<times> string option) res" where
  "certificateAlgorithm keyType =
     (if keyType = ''ed25519'' then Inr (''Ed25519'', None)
      else if keyType = ''rsa'' \<or> keyType = ''rsa-pss'' then Inr (''RSA-SHA256'', Some ''sha256'')
      else if keyType = ''ec'' then Inr (''ECDSA-SHA256'', Some ''sha256'')
      else throw PLAIN_ERROR (Because ''The certificate seal key algorithm is unsupported.''))"

section \<open>Seals\<close>

definition iso_date :: "runtime \<Rightarrow> string \<Rightarrow> string res" where
  "iso_date R s = (case new_Date R (JStr s) of None \<Rightarrow> throw PLAIN_ERROR (Because ''Invalid time value'') | Some t \<Rightarrow> Inr (toISOString t))"

definition certificate_metadata :: "runtime \<Rightarrow> certificate \<Rightarrow> js res" where
  "certificate_metadata R c =
     bindE (iso_date R (ce_validFrom c)) (\<lambda>validFrom.
     bindE (iso_date R (ce_validTo c)) (\<lambda>validTo.
     Inr (JObj [(''fingerprint256'', JStr (js_lower (filter (\<lambda>x. x \<noteq> CHR '':'') (ce_fingerprint256 c)))), (''issuer'', ce_issuer c),
       (''serialNumber'', ce_serialNumber c), (''subject'', ce_subject c), (''validFrom'', JStr validFrom), (''validTo'', JStr validTo)])))"

definition createCertificateSeal ::
  "primitives \<Rightarrow> x509_provider \<Rightarrow> runtime \<Rightarrow> js \<Rightarrow> js \<Rightarrow> js \<Rightarrow> js \<Rightarrow> js res" where
  "createCertificateSeal P X R certificateChainPEM keyId payload privateKeyPEM =
     bindE (certificateChain X certificateChainPEM) (\<lambda>chain.
     case (x5_parse X (JStr (hd chain)), x5_private X privateKeyPEM) of
       (Some c, Some privateKey) \<Rightarrow>
         guardE (x5_matches X c privateKey) PLAIN_ERROR (Because ''private key does not match its leaf certificate'')
         (bindE (certificateAlgorithm (x5_private_type X privateKey)) (\<lambda>(label, node).
          bindE (canonicalJSON payload) (\<lambda>manifestBytes.
          bindE (certificate_metadata R c) (\<lambda>metadata.
          Inr (JObj [(''algorithm'', JStr label), (''certificate'', metadata), (''certificateChain'', JArr (map JStr chain)),
             (''keyId'', keyId), (''manifestHash'', JStr (sha256Hex P manifestBytes)),
             (''profile'', JStr ''vasi-certificate-seal/v1''), (''publicJWK'', ce_publicJWK c),
             (''signature'', JStr (x5_sign X node privateKey manifestBytes)),
             (''validationScope'', JStr ''leaf_signature_and_key_match'')])))))
     | _ \<Rightarrow> throw PLAIN_ERROR (Because ''X509Certificate''))"

text \<open>Every exception inside the \<open>try\<close> block counts as a failed verification.\<close>

definition same_hash :: "(string \<Rightarrow> string) \<Rightarrow> js \<Rightarrow> js \<Rightarrow> bool" where
  "same_hash H a b = (case (hashCanonicalJSON H a, hashCanonicalJSON H b) of (Inr x, Inr y) \<Rightarrow> x = y | _ \<Rightarrow> False)"

definition verifyCertificateSeal :: "primitives \<Rightarrow> x509_provider \<Rightarrow> runtime \<Rightarrow> js \<Rightarrow> js \<Rightarrow> bool" where
  "verifyCertificateSeal P X R payload seal =
     (get seal ''profile'' = JStr ''vasi-certificate-seal/v1'' \<and>
      get seal ''validationScope'' = JStr ''leaf_signature_and_key_match'' \<and>
      (case (as_arr (get seal ''certificateChain''), as_str (get seal ''signature'')) of
         (Some (leaf # _), Some signature) \<Rightarrow>
           (case x5_parse X leaf of
              None \<Rightarrow> False
            | Some c \<Rightarrow>
                (case (certificate_metadata R c, canonicalJSON payload, certificateAlgorithm (ce_keyType c)) of
                   (Inr metadata, Inr manifestBytes, Inr (label, node)) \<Rightarrow>
                     same_hash (sha256Hex P) (get seal ''certificate'') metadata \<and>
                     same_hash (sha256Hex P) (get seal ''publicJWK'') (ce_publicJWK c) \<and>
                     get seal ''manifestHash'' = JStr (sha256Hex P manifestBytes) \<and>
                     get seal ''algorithm'' = JStr label \<and> x5_verify X node c manifestBytes signature
                 | _ \<Rightarrow> False))
       | _ \<Rightarrow> False))"

section \<open>Created seals verify\<close>

lemma same_hash_refl: "hashCanonicalJSON H a = Inr h \<Longrightarrow> same_hash H a a"
  by (simp add: same_hash_def)

text \<open>
  A certificate seal verifies for the payload it was created over, when the parsed certificate has
  the type of its private key, its metadata and key can be hashed, and a signature of a matching
  private key verifies.
\<close>

lemma certificate_seal_verifies:
  assumes "createCertificateSeal P X R pem keyId payload key = Inr seal"
    and sound: "\<And>c k node m. x5_matches X c k \<Longrightarrow> x5_verify X node c m (x5_sign X node k m) \<and> x5_private_type X k = ce_keyType c"
    and hashable: "\<And>v c. x5_parse X v = Some c \<Longrightarrow> (\<exists>h. hashCanonicalJSON (sha256Hex P) (ce_publicJWK c) = Inr h) \<and>
      (\<forall>metadata. certificate_metadata R c = Inr metadata \<longrightarrow> (\<exists>h. hashCanonicalJSON (sha256Hex P) metadata = Inr h))"
  shows "verifyCertificateSeal P X R payload seal \<and>
    (verifyCertificateSeal P X R other seal \<longrightarrow>
      (\<exists>s t. canonicalJSON payload = Inr s \<and> canonicalJSON other = Inr t \<and> sha256Hex P s = sha256Hex P t))"
proof -
  from assms(1) obtain chain c k label node bytes metadata where
    chain: "certificateChain X pem = Inr chain" and c: "x5_parse X (JStr (hd chain)) = Some c" and k: "x5_private X key = Some k"
    and m: "x5_matches X c k" and alg: "certificateAlgorithm (x5_private_type X k) = Inr (label, node)"
    and bytes: "canonicalJSON payload = Inr bytes" and meta: "certificate_metadata R c = Inr metadata"
    and seal: "seal = JObj [(''algorithm'', JStr label), (''certificate'', metadata), (''certificateChain'', JArr (map JStr chain)),
             (''keyId'', keyId), (''manifestHash'', JStr (sha256Hex P bytes)),
             (''profile'', JStr ''vasi-certificate-seal/v1''), (''publicJWK'', ce_publicJWK c),
             (''signature'', JStr (x5_sign X node k bytes)),
             (''validationScope'', JStr ''leaf_signature_and_key_match'')]"
    unfolding createCertificateSeal_def by (elim bindE_E) (auto simp: res_simps split: option.splits)
  from chain obtain leaf rest where l: "chain = leaf # rest"
    by (cases chain) (auto simp: certificateChain_def res_simps Let_def split: option.splits)
  have h: "same_hash (sha256Hex P) metadata metadata" "same_hash (sha256Hex P) (ce_publicJWK c) (ce_publicJWK c)"
    using hashable[OF c] meta by (auto intro: same_hash_refl)
  have leaf: "x5_parse X (JStr leaf) = Some c" using c l by simp
  have alg': "certificateAlgorithm (ce_keyType c) = Inr (label, node)" using alg sound[OF m] by simp
  have "verifyCertificateSeal P X R payload seal"
    using sound[OF m, of node bytes] by (simp add: verifyCertificateSeal_def seal l leaf meta bytes alg' h)
  moreover have "\<exists>s t. canonicalJSON payload = Inr s \<and> canonicalJSON other = Inr t \<and> sha256Hex P s = sha256Hex P t"
    if "verifyCertificateSeal P X R other seal"
  proof (cases "canonicalJSON other")
    case (Inr t)
    then show ?thesis using that bytes by (simp add: verifyCertificateSeal_def seal l leaf meta alg' h)
  next
    case (Inl e)
    then show ?thesis using that by (simp add: verifyCertificateSeal_def seal l leaf meta alg')
  qed
  ultimately show ?thesis by blast
qed

end
