(* ===== verification/EvidenceChecks.thy ===== *)
theory EvidenceChecks
  imports Records Certificates Admission Notifications
begin

text \<open>
  The checks the offline verifier makes on the parts of a manifest:
  \<^verbatim>\<open>verifyAuthenticationAssuranceEvidence\<close>, \<^verbatim>\<open>verifyTenantAdmissionEvidence\<close>, \<^verbatim>\<open>verifyRequesterEvidence\<close>,
  \<^verbatim>\<open>verifyNotificationDeliveryEvidence\<close>, \<^verbatim>\<open>verifyActivityInteractionEvidence\<close> and
  \<^verbatim>\<open>verifyParticipantContextEvidence\<close> of \<^verbatim>\<open>src/packages/evidence-verifier/index.mjs\<close>.

  Each takes the manifest's member and the record's events and gives the codes it pushes to the list of
  errors. Where the source can throw (a method call on a value of the wrong type) the result is an
  error value. Records are parsed JSON: no two places of a record are the same object, so \<open>===\<close> of
  two objects or arrays is false.
\<close>

section \<open>Values of a record\<close>

fun is_reference :: "js \<Rightarrow> bool" where
  "is_reference (JArr _) = True"
| "is_reference (JObj _) = True"
| "is_reference (JDate _) = True"
| "is_reference JFun = True"
| "is_reference _ = False"

definition strict_eq :: "js \<Rightarrow> js \<Rightarrow> bool" where
  "strict_eq a b = (a = b \<and> a \<noteq> JNum NaN \<and> \<not> is_reference a)"

text \<open>What the environment provides: the primitives, and the texts and numbers of other values.\<close>

record verifier_env =
  ve_primitives :: primitives
  ve_x509 :: x509_provider
  ve_runtime :: runtime
  ve_Number :: "string \<Rightarrow> jsnum"
  ve_String :: "jsnum \<Rightarrow> string"

abbreviation ve_hash :: "verifier_env \<Rightarrow> string \<Rightarrow> string" where
  "ve_hash E \<equiv> sha256Hex (ve_primitives E)"

text \<open>
  The text of a value in a template literal. An object with an own member \<open>toString\<close> has no text;
  dates and functions do not occur in a record.
\<close>

fun to_text :: "(jsnum \<Rightarrow> string) \<Rightarrow> js \<Rightarrow> string res" where
  "to_text T (JStr s) = Inr s"
| "to_text T (JNum n) = Inr (case safe_int (JNum n) of Some i \<Rightarrow> show_int i | None \<Rightarrow> T n)"
| "to_text T (JBool b) = Inr (if b then ''true'' else ''false'')"
| "to_text T JNull = Inr ''null''"
| "to_text T JUndef = Inr ''undefined''"
| "to_text T (JArr xs) = bindE (mapE (\<lambda>x. if nullish x then Inr [] else to_text T x) xs) (\<lambda>ts. Inr (Crypto.join '','' ts))"
| "to_text T (JObj ps) =
     (if ''toString'' \<in> set (map fst ps) then throw TYPE_ERROR (Because ''toString'') else Inr ''[object Object]'')"
| "to_text T (JDate d) = throw TYPE_ERROR (Because ''date'')"
| "to_text T JFun = throw TYPE_ERROR (Because ''function'')"

text \<open>\<open>/^[a-f0-9]{64}$/.test(value || "")\<close>\<close>

definition digest_text :: "(jsnum \<Rightarrow> string) \<Rightarrow> js \<Rightarrow> bool res" where
  "digest_text T v = bindE (to_text T (js_or v (JStr []))) (\<lambda>t. Inr (sha256_shape t))"

definition bounded_text :: "js \<Rightarrow> nat \<Rightarrow> string option" where
  "bounded_text v maximum =
     (case as_str v of
        None \<Rightarrow> None
      | Some s \<Rightarrow> if s \<noteq> [] \<and> length s \<le> maximum \<and> \<not> has_ctrl s then Some s else None)"

definition canonicalTimestamp :: "js \<Rightarrow> bool" where
  "canonicalTimestamp v = (case as_str v of None \<Rightarrow> False | Some s \<Rightarrow> canonical_iso s)"

definition sameCanonicalValue :: "(string \<Rightarrow> string) \<Rightarrow> js \<Rightarrow> js \<Rightarrow> bool" where
  "sameCanonicalValue H left right = same_hash H (coalesce left JNull) (coalesce right JNull)"

text \<open>\<open>hashCanonicalJSON(value) === digest\<close>, false when the value has no canonical form.\<close>

definition hashes_to :: "(string \<Rightarrow> string) \<Rightarrow> js \<Rightarrow> js \<Rightarrow> bool" where
  "hashes_to H v digest = (case hashCanonicalJSON H v of Inr h \<Rightarrow> digest = JStr h | Inl _ \<Rightarrow> False)"

definition unless_code :: "bool \<Rightarrow> string \<Rightarrow> string list" where
  "unless_code ok c = (if ok then [] else [c])"

definition with_errors :: "string list \<Rightarrow> (string list \<times> 'a) res \<Rightarrow> (string list \<times> 'a) res" where
  "with_errors errs m = bindE m (\<lambda>(es, x). Inr (errs @ es, x))"

abbreviation event_type_of :: "js \<Rightarrow> js" where
  "event_type_of e \<equiv> get (get e ''eventData'') ''eventType''"

abbreviation event_payload :: "js \<Rightarrow> js" where
  "event_payload e \<equiv> get (get e ''eventData'') ''payload''"

abbreviation event_actor :: "js \<Rightarrow> js" where
  "event_actor e \<equiv> get (get e ''eventData'') ''actor''"

section \<open>Authentication assurance\<close>

definition AUTHENTICATION_ASSURANCE_EVENT_TYPES :: "string list" where
  "AUTHENTICATION_ASSURANCE_EVENT_TYPES = [''activity.response.saved'', ''activity.response.submitted'', ''document.downloaded'',
     ''document.presented'', ''media.telemetry.recorded'', ''participant.opened'', ''participant.responded'']"

definition material_event :: "js \<Rightarrow> js \<Rightarrow> bool" where
  "material_event manifest e =
     (strict_eq (get (event_actor e) ''principalId'') (get (get manifest ''assignment'') ''principalId'') \<and>
      event_type_of e \<in> JStr ` set AUTHENTICATION_ASSURANCE_EVENT_TYPES)"

text \<open>\<open>eventById.get(id)\<close>: the last event with that identifier.\<close>

definition event_by_id :: "js list \<Rightarrow> string \<Rightarrow> js option" where
  "event_by_id events i = find (\<lambda>e. get (get e ''eventData'') ''eventId'' = JStr i) (rev events)"

definition assurance_entry :: "js \<Rightarrow> js list \<Rightarrow> string list \<Rightarrow> js \<Rightarrow> (string \<times> js) option" where
  "assurance_entry manifest events bound entry =
     (case (bounded_text (get entry ''eventId'') 128, bounded_text (get entry ''eventType'') 64) of
        (Some eventId, Some eventType) \<Rightarrow>
          (case event_by_id events eventId of
             Some e \<Rightarrow>
               if eventId \<in> set bound \<or> event_type_of e \<noteq> JStr eventType \<or>
                  eventType \<notin> set AUTHENTICATION_ASSURANCE_EVENT_TYPES \<or>
                  \<not> strict_eq (get (event_actor e) ''principalId'') (get (get manifest ''assignment'') ''principalId'')
               then None else Some (eventId, e)
           | None \<Rightarrow> None)
      | _ \<Rightarrow> None)"

definition assurance_evaluation_errors :: "verifier_env \<Rightarrow> auth_policy \<Rightarrow> js \<Rightarrow> js \<Rightarrow> string list" where
  "assurance_evaluation_errors E policy e entry =
     (case evaluateAuthenticationAssurance (ve_runtime E) (auth_policy_js policy) (event_actor e) (get (get e ''eventData'') ''receivedAt'') of
        Inl err \<Rightarrow> [''authentication_assurance_evaluation_invalid'']
      | Inr expected \<Rightarrow>
          unless_code (ev_satisfied expected) ''authentication_assurance_unsatisfied_event'' @
          unless_code (same_hash (ve_hash E) (evaluation_js expected) (get entry ''evaluation'') \<and>
                       same_hash (ve_hash E) (evaluation_js expected) (get (event_payload e) ''authenticationAssurance''))
            ''authentication_assurance_evaluation_invalid'')"

fun assurance_entries :: "verifier_env \<Rightarrow> auth_policy \<Rightarrow> js \<Rightarrow> js list \<Rightarrow> string list \<Rightarrow> js list \<Rightarrow> string list \<times> string list" where
  "assurance_entries E policy manifest events bound [] = ([], bound)"
| "assurance_entries E policy manifest events bound (entry # rest) =
     (case assurance_entry manifest events bound entry of
        None \<Rightarrow>
          let (errs, bound') = assurance_entries E policy manifest events bound rest
          in (''authentication_assurance_event_binding_invalid'' # errs, bound')
      | Some (eventId, e) \<Rightarrow>
          let (errs, bound') = assurance_entries E policy manifest events (eventId # bound) rest
          in (assurance_evaluation_errors E policy e entry @ errs, bound'))"

definition verifyAuthenticationAssuranceEvidence :: "verifier_env \<Rightarrow> js \<Rightarrow> js \<Rightarrow> js list \<Rightarrow> string list" where
  "verifyAuthenticationAssuranceEvidence E v manifest events =
     (case as_arr (get v ''evaluations'') of
        Some evaluations \<Rightarrow>
          if \<not> is_object v \<or> get v ''schema'' \<noteq> JStr ''vasi-authentication-assurance-evidence/v1'' \<or> length evaluations > length events
          then [''authentication_assurance_evidence_invalid'']
          else case (authenticationAssurancePolicy (get (get manifest ''request'') ''accessPolicy''),
                     authenticationAssurancePolicy (get (get (get manifest ''workflow'') ''snapshot'') ''access'')) of
            (Inr policy, Inr workflowPolicy) \<Rightarrow>
              (case (hashCanonicalJSON (ve_hash E) (auth_policy_js policy), hashCanonicalJSON (ve_hash E) (auth_policy_js workflowPolicy)) of
                 (Inr h, Inr w) \<Rightarrow>
                   let checked = (\<lambda>pre.
                     let (errs, bound) = assurance_entries E policy manifest events [] evaluations;
                         material = filter (material_event manifest) events
                     in pre @ errs @
                        unless_code (length material = length evaluations \<and>
                          list_all (\<lambda>e. get (get e ''eventData'') ''eventId'' \<in> JStr ` set bound) material)
                          ''authentication_assurance_material_event_missing'')
                   in if h \<noteq> w then checked [''authentication_assurance_policy_binding_invalid'']
                      else (case hashCanonicalJSON (ve_hash E) (get v ''policy'') of
                              Inl err \<Rightarrow> [''authentication_assurance_policy_invalid'']
                            | Inr p \<Rightarrow> checked (unless_code (h = p) ''authentication_assurance_policy_binding_invalid''))
               | _ \<Rightarrow> [''authentication_assurance_policy_invalid''])
          | _ \<Rightarrow> [''authentication_assurance_policy_invalid'']
      | None \<Rightarrow> [''authentication_assurance_evidence_invalid''])"

section \<open>Tenant admission\<close>

definition issuance_event :: "js list \<Rightarrow> js option" where
  "issuance_event events = find (\<lambda>e. event_type_of e \<in> {JStr ''request.issued'', JStr ''request.scheduled''}) events"

definition verifyTenantAdmissionEvidence :: "verifier_env \<Rightarrow> js \<Rightarrow> js list \<Rightarrow> string list res" where
  "verifyTenantAdmissionEvidence E v events =
     (if \<not> is_object v then Inr [''tenant_admission_missing'']
      else case validateTenantAdmission (get v ''admission'') of
        Inl err \<Rightarrow> Inr [''tenant_admission_invalid'']
      | Inr admission \<Rightarrow>
          bindE (hashCanonicalJSON (ve_hash E) (admission_js admission)) (\<lambda>h.
          Inr (unless_code (am_status admission = ''admitted'') ''tenant_admission_status_invalid'' @
               unless_code (get v ''admissionHash'' = JStr h) ''tenant_admission_hash_invalid'' @
               unless_code (get v ''bindingProvenance'' = JStr ''issued'' \<and> bounded_text (get v ''revisionId'') 128 \<noteq> None \<and>
                   (case safe_int (get v ''revision'') of Some n \<Rightarrow> 1 \<le> n | None \<Rightarrow> False))
                 ''tenant_admission_binding_invalid'' @
               (case issuance_event events of
                  None \<Rightarrow> [''tenant_admission_issuance_event_missing'']
                | Some e \<Rightarrow> unless_code (same_hash (ve_hash E) (get (event_payload e) ''admission'') v)
                              ''tenant_admission_issuance_binding_invalid''))))"

section \<open>The requester and the notifications\<close>

text \<open>\<open>value?.toLowerCase()\<close>\<close>

definition lower_case :: "js \<Rightarrow> js res" where
  "lower_case v =
     (if nullish v then Inr JUndef
      else case as_str v of Some s \<Rightarrow> Inr (JStr (js_lower s)) | None \<Rightarrow> throw TYPE_ERROR (Because ''toLowerCase''))"

definition verifyRequesterEvidence :: "js \<Rightarrow> js list \<Rightarrow> string list res" where
  "verifyRequesterEvidence v events =
     (case validateRequesterSnapshot v JUndef of
        Inl err \<Rightarrow> Inr [''requester_snapshot_invalid'']
      | Inr r \<Rightarrow>
          (case issuance_event events of
             None \<Rightarrow> Inr [''requester_issuance_event_missing'']
           | Some e \<Rightarrow>
               let principal = unless_code (get (event_actor e) ''principalId'' = JStr (rq_principalId r)) ''requester_principal_binding_invalid''
               in if truthy (rq_email r)
                  then bindE (lower_case (get (event_actor e) ''email'')) (\<lambda>mail.
                       Inr (principal @ unless_code (mail = rq_email r) ''requester_email_binding_invalid''))
                  else Inr principal))"

definition verifyNotificationDeliveryEvidence :: "js \<Rightarrow> js \<Rightarrow> string list" where
  "verifyNotificationDeliveryEvidence v completedAt =
     (case validateNotificationDeliveryEvidence v completedAt of
        Inr _ \<Rightarrow> []
      | Inl (Thrown c r) \<Rightarrow>
          (case r of
             Because m \<Rightarrow> if take 13 m = ''notification_'' then [m] else [''notification_delivery_evidence_invalid'']
           | _ \<Rightarrow> [''notification_delivery_evidence_invalid'']))"

end
