(* ===== verification/EvidenceTelemetry.thy ===== *)
theory EvidenceTelemetry
  imports EvidenceChecks
begin

text \<open>
  The verifier's checks of the telemetry in a manifest: \<^verbatim>\<open>verifyActivityInteractionEvidence\<close> and
  \<^verbatim>\<open>verifyParticipantContextEvidence\<close> of \<^verbatim>\<open>src/packages/evidence-verifier/index.mjs\<close>.

  A \<open>Map\<close> or \<open>Set\<close> that a loop of the source fills is the list of the entries accepted so far. Its keys
  join identifiers without control characters by U+0000, so a key is the tuple of its parts.
\<close>

section \<open>The summary object\<close>

fun note_text :: "summary_note \<Rightarrow> string" where
  "note_text No_presentation = ''No browser presentation event was received.''"
| "note_text No_heartbeat = ''No periodic heartbeat was received, so duration evidence is limited.''"
| "note_text No_visible = ''No foreground-visible activity event was received.''"
| "note_text No_focus = ''No focused-window activity event was received.''"
| "note_text Incomplete_sessions = ''One or more telemetry sessions ended without a recorded disconnect.''"
| "note_text Gaps = ''One or more missing or oversized telemetry intervals received no duration credit.''"

definition fixed_limitations :: "string list" where
  "fixed_limitations =
     [''Activity presence is browser-reported supporting evidence and can be absent, reduced, automated, or spoofed.'',
      ''Foreground visibility and coarse interaction do not prove attention, comprehension, identity, or freedom from coercion.'',
      ''VASI records only coarse interaction occurrence; it does not retain keys pressed, pointer coordinates, or input contents in this telemetry.'',
      ''Intervals longer than the credited-gap policy are excluded rather than treated as continuous activity.'']"

definition interaction_summary_js :: "interaction_summary \<Rightarrow> js" where
  "interaction_summary_js s = JObj
     [(''calculation'', JObj [(''clock'', JStr ''browser_monotonic''), (''policyVersion'', JStr ACTIVITY_INTERACTION_POLICY_VERSION),
        (''telemetryPolicy'', JObj [(''heartbeatSeconds'', JInt (ip_heartbeatSeconds (is_policy s))),
           (''idleSeconds'', JInt (ip_idleSeconds (is_policy s))), (''maxCreditedGapSeconds'', JInt (ip_maxCreditedGapSeconds (is_policy s)))])]),
      (''confidence'', JObj [(''level'', JStr (if is_mediumConfidence s then ''medium'' else ''low'')),
        (''limitations'', JArr (map JStr (fixed_limitations @ map note_text (is_limitations s))))]),
      (''events'', JObj [(''count'', JInt (int (is_count s))), (''firstClientOccurredAt'', opt_js JStr (is_firstClientOccurredAt s)),
        (''firstReceivedAt'', opt_js JStr (is_firstReceivedAt s)), (''heartbeatCount'', JInt (int (is_heartbeatCount s))),
        (''focusCount'', JInt (int (is_focusCount s))), (''interactionCount'', JInt (int (is_interactionCount s))),
        (''lastClientOccurredAt'', opt_js JStr (is_lastClientOccurredAt s)), (''lastReceivedAt'', opt_js JStr (is_lastReceivedAt s)),
        (''presentedCount'', JInt (int (is_presentedCount s))), (''visibleCount'', JInt (int (is_visibleCount s)))]),
      (''schema'', JStr ''vasi-activity-interaction-summary/v1''),
      (''sessions'', JObj [(''count'', JInt (int (is_sessionCount s))), (''disconnectCount'', JInt (int (is_disconnectCount s))),
        (''incompleteCount'', JInt (int (is_incompleteCount s)))]),
      (''timing'', JObj [(''backgroundOrHiddenMilliseconds'', JInt (is_backgroundOrHiddenMilliseconds s)),
        (''engagedMilliseconds'', JInt (is_engagedMilliseconds s)),
        (''foregroundVisibleMilliseconds'', JInt (is_foregroundVisibleMilliseconds s)),
        (''idleForegroundMilliseconds'', JInt (is_idleForegroundMilliseconds s)),
        (''openMilliseconds'', JInt (is_openMilliseconds s)), (''uncreditedGapMilliseconds'', JInt (is_uncreditedGapMilliseconds s))])]"

section \<open>Interaction events\<close>

record ix_event =
  ix_activityId :: string
  ix_batchId :: string
  ix_id :: string
  ix_interactionId :: string
  ix_sessionId :: string
  ix_sequence :: int
  ix_monotonicMs :: int
  ix_raw :: js

definition INTERACTION_TYPES :: "string list" where
  "INTERACTION_TYPES = [''presented'', ''visible'', ''hidden'', ''focus'', ''blur'', ''heartbeat'', ''interaction'', ''disconnect'']"

definition parse_ix_event :: "js \<Rightarrow> ix_event option" where
  "parse_ix_event e =
     (let inner = get e ''event'' in
      case (bounded_text (get e ''activityId'') 64, bounded_text (get e ''batchId'') 128, bounded_text (get e ''id'') 128,
            bounded_text (get e ''interactionId'') 128, bounded_text (get e ''telemetrySessionId'') 128,
            bounded_text (get e ''type'') 32, safe_int (get e ''sequence''), safe_int (get inner ''monotonicMs'')) of
        (Some activityId, Some batchId, Some eventId, Some interactionId, Some sessionId, Some kind, Some sequence, Some clock) \<Rightarrow>
          if kind \<in> set INTERACTION_TYPES \<and> 1 \<le> sequence \<and> sequence \<le> 100000 \<and> 0 \<le> clock \<and> clock \<le> 604800000 \<and>
             get inner ''id'' = JStr eventId \<and> get inner ''sequence'' = JInt sequence \<and> get inner ''type'' = JStr kind \<and>
             canonicalTimestamp (get e ''receivedAt'') \<and>
             (get inner ''clientOccurredAt'' = JUndef \<or> canonicalTimestamp (get inner ''clientOccurredAt''))
          then Some \<lparr>ix_activityId = activityId, ix_batchId = batchId, ix_id = eventId, ix_interactionId = interactionId,
                     ix_sessionId = sessionId, ix_sequence = sequence, ix_monotonicMs = clock, ix_raw = e\<rparr>
          else None
      | _ \<Rightarrow> None)"

definition same_session :: "ix_event \<Rightarrow> ix_event \<Rightarrow> bool" where
  "same_session p q = (ix_activityId p = ix_activityId q \<and> ix_sessionId p = ix_sessionId q)"

definition ix_event_errors :: "ix_event list \<Rightarrow> ix_event \<Rightarrow> string list" where
  "ix_event_errors seen p =
     unless_code (\<not> list_ex (\<lambda>q. same_session p q \<and> ix_id q = ix_id p) seen) ''activity_interaction_event_id_duplicate'' @
     unless_code (\<not> list_ex (\<lambda>q. same_session p q \<and> ix_sequence q = ix_sequence p) seen) ''activity_interaction_event_sequence_duplicate'' @
     (case find (same_session p) (rev seen) of
        None \<Rightarrow> []
      | Some q \<Rightarrow> unless_code (ix_sequence q < ix_sequence p \<and> ix_monotonicMs q \<le> ix_monotonicMs p) ''activity_interaction_event_order_invalid'')"

fun ix_events :: "ix_event list \<Rightarrow> js list \<Rightarrow> string list \<times> ix_event list" where
  "ix_events seen [] = ([], seen)"
| "ix_events seen (e # es) =
     (case parse_ix_event e of
        None \<Rightarrow> let (errs, all) = ix_events seen es in (''activity_interaction_event_invalid'' # errs, all)
      | Some p \<Rightarrow> let (errs, all) = ix_events (seen @ [p]) es in (ix_event_errors seen p @ errs, all))"

section \<open>Interaction batches\<close>

record ix_batch =
  bt_activityId :: string
  bt_actorPrincipalId :: string
  bt_id :: string
  bt_interactionId :: string
  bt_sessionId :: string
  bt_eventCount :: int
  bt_payloadHash :: js

definition parse_ix_batch :: "(jsnum \<Rightarrow> string) \<Rightarrow> js \<Rightarrow> ix_batch option res" where
  "parse_ix_batch T b =
     (case (bounded_text (get b ''activityId'') 64, bounded_text (get b ''actorPrincipalId'') 128, bounded_text (get b ''id'') 128,
            bounded_text (get b ''interactionId'') 128, bounded_text (get b ''telemetrySessionId'') 128, safe_int (get b ''eventCount'')) of
        (Some activityId, Some actorId, Some batchId, Some interactionId, Some sessionId, Some n) \<Rightarrow>
          if 1 \<le> n \<and> n \<le> 100
          then bindE (digest_text T (get b ''payloadHash'')) (\<lambda>ok.
               Inr (if ok \<and> canonicalTimestamp (get b ''receivedAt'')
                    then Some \<lparr>bt_activityId = activityId, bt_actorPrincipalId = actorId, bt_id = batchId,
                               bt_interactionId = interactionId, bt_sessionId = sessionId, bt_eventCount = n,
                               bt_payloadHash = get b ''payloadHash''\<rparr>
                    else None))
          else Inr None
      | _ \<Rightarrow> Inr None)"

definition batch_payload :: "ix_batch \<Rightarrow> ix_event list \<Rightarrow> js" where
  "batch_payload b grouped = JObj [(''activityId'', JStr (bt_activityId b)), (''batchId'', JStr (bt_id b)),
     (''events'', JArr (map (\<lambda>p. get (ix_raw p) ''event'') grouped)), (''interactionId'', JStr (bt_interactionId b)),
     (''telemetrySessionId'', JStr (bt_sessionId b))]"

text \<open>The event of the chain that records the batch, when there is exactly one and it says the same.\<close>

definition batch_link :: "js list \<Rightarrow> ix_batch \<Rightarrow> js option" where
  "batch_link chain b =
     (case filter (\<lambda>e. get (get (event_payload e) ''batch'') ''id'' = JStr (bt_id b)) chain of
        [e] \<Rightarrow>
          let p = event_payload e in
          if get p ''activityId'' = JStr (bt_activityId b) \<and> get (get p ''batch'') ''eventCount'' = JInt (bt_eventCount b) \<and>
             strict_eq (get (get p ''batch'') ''payloadHash'') (bt_payloadHash b) \<and>
             get (get p ''batch'') ''telemetrySessionId'' = JStr (bt_sessionId b) \<and>
             get (event_actor e) ''principalId'' = JStr (bt_actorPrincipalId b)
          then Some p else None
      | _ \<Rightarrow> None)"

definition ix_batch_errors :: "(string \<Rightarrow> string) \<Rightarrow> js list \<Rightarrow> ix_event list \<Rightarrow> ix_batch \<Rightarrow> string list" where
  "ix_batch_errors H chain events b =
     (let grouped = sort_key ix_sequence (filter (\<lambda>p. ix_batchId p = bt_id b) events) in
      unless_code (int (length grouped) = bt_eventCount b \<and>
        list_all (\<lambda>p. ix_activityId p = bt_activityId b \<and> ix_interactionId p = bt_interactionId b \<and> ix_sessionId p = bt_sessionId b) grouped)
        ''activity_interaction_batch_event_binding_invalid'' @
      unless_code (hashes_to H (batch_payload b grouped) (bt_payloadHash b)) ''activity_interaction_batch_hash_invalid'' @
      unless_code (batch_link chain b \<noteq> None) ''activity_interaction_batch_chain_binding_invalid'')"

fun ix_batches :: "(jsnum \<Rightarrow> string) \<Rightarrow> (string \<Rightarrow> string) \<Rightarrow> js list \<Rightarrow> ix_event list \<Rightarrow> ix_batch list \<Rightarrow> js list \<Rightarrow> (string list \<times> ix_batch list) res" where
  "ix_batches T H chain events seen [] = Inr ([], seen)"
| "ix_batches T H chain events seen (v # vs) =
     bindE (parse_ix_batch T v) (\<lambda>parsed.
     case parsed of
       None \<Rightarrow> with_errors [''activity_interaction_batch_invalid''] (ix_batches T H chain events seen vs)
     | Some b \<Rightarrow>
         if bt_id b \<in> bt_id ` set seen
         then with_errors [''activity_interaction_batch_duplicate''] (ix_batches T H chain events seen vs)
         else with_errors (ix_batch_errors H chain events b) (ix_batches T H chain events (seen @ [b]) vs))"

section \<open>Interaction summaries\<close>

record ix_summary =
  sm_activityId :: string
  sm_revision :: int
  sm_raw :: js

definition parse_ix_summary :: "(jsnum \<Rightarrow> string) \<Rightarrow> js \<Rightarrow> ix_summary option res" where
  "parse_ix_summary T s =
     (case (bounded_text (get s ''activityId'') 64, bounded_text (get s ''id'') 128, safe_int (get s ''revision'')) of
        (Some activityId, Some _, Some revision) \<Rightarrow>
          if 1 \<le> revision \<and> canonicalTimestamp (get s ''calculatedAt'') \<and> is_object (get s ''policy'') \<and> is_object (get s ''summary'')
          then bindE (digest_text T (get s ''summaryHash'')) (\<lambda>ok.
               Inr (if ok then Some \<lparr>sm_activityId = activityId, sm_revision = revision, sm_raw = s\<rparr> else None))
          else Inr None
      | _ \<Rightarrow> Inr None)"

definition same_revision :: "ix_summary \<Rightarrow> ix_summary \<Rightarrow> bool" where
  "same_revision a b = (sm_activityId a = sm_activityId b \<and> sm_revision a = sm_revision b)"

definition summary_hash_errors :: "(string \<Rightarrow> string) \<Rightarrow> js \<Rightarrow> string list" where
  "summary_hash_errors H s =
     (case hashCanonicalJSON H (get s ''summary'') of
        Inl e \<Rightarrow> [''activity_interaction_summary_canonical_invalid'']
      | Inr h \<Rightarrow> unless_code (get s ''summaryHash'' = JStr h) ''activity_interaction_summary_hash_invalid'')"

fun ix_summaries :: "(jsnum \<Rightarrow> string) \<Rightarrow> (string \<Rightarrow> string) \<Rightarrow> ix_summary list \<Rightarrow> js list \<Rightarrow> (string list \<times> ix_summary list) res" where
  "ix_summaries T H seen [] = Inr ([], seen)"
| "ix_summaries T H seen (v # vs) =
     bindE (parse_ix_summary T v) (\<lambda>parsed.
     case parsed of
       None \<Rightarrow> with_errors [''activity_interaction_summary_invalid''] (ix_summaries T H seen vs)
     | Some s \<Rightarrow>
         with_errors (unless_code (\<not> list_ex (same_revision s) seen) ''activity_interaction_summary_revision_duplicate'' @
                      summary_hash_errors H v)
           (ix_summaries T H (seen @ [s]) vs))"

text \<open>\<open>latestSummaries\<close>: the first of the summaries of an activity with the highest revision.\<close>

definition latest_summary :: "ix_summary list \<Rightarrow> string \<Rightarrow> ix_summary option" where
  "latest_summary summaries a =
     foldl (\<lambda>newest s. case newest of None \<Rightarrow> Some s | Some l \<Rightarrow> if sm_revision s > sm_revision l then Some s else newest) None
       (filter (\<lambda>s. sm_activityId s = a) summaries)"

text \<open>\<open>summariesByRevision.get(...)\<close> at the activity of a batch and the text of a linked revision.\<close>

definition summary_by_text :: "ix_summary list \<Rightarrow> string \<Rightarrow> string \<Rightarrow> ix_summary option" where
  "summary_by_text summaries a t = find (\<lambda>s. sm_activityId s = a \<and> show_int (sm_revision s) = t) (rev summaries)"

fun ix_links :: "(jsnum \<Rightarrow> string) \<Rightarrow> ix_summary list \<Rightarrow> (string \<times> js) list \<Rightarrow> (string list \<times> (string \<times> string) list) res" where
  "ix_links T summaries [] = Inr ([], [])"
| "ix_links T summaries ((a, link) # rest) =
     bindE (to_text T (get link ''summaryRevision'')) (\<lambda>t.
     bindE (ix_links T summaries rest) (\<lambda>(errs, linked).
     Inr (unless_code (case summary_by_text summaries a t of
              None \<Rightarrow> False
            | Some s \<Rightarrow> strict_eq (get (sm_raw s) ''summaryHash'') (get link ''summaryHash''))
            ''activity_interaction_summary_chain_binding_invalid'' @ errs, (a, t) # linked)))"

definition calculation_errors :: "verifier_env \<Rightarrow> ix_summary list \<Rightarrow> ix_event list \<Rightarrow> string \<Rightarrow> string list" where
  "calculation_errors E summaries events a =
     (case latest_summary summaries a of
        None \<Rightarrow> [''activity_interaction_summary_missing'']
      | Some newest \<Rightarrow>
          unless_code (case calculateActivityInteractionSummary (ve_Number E) (get (sm_raw newest) ''policy'')
                            (JArr (map ix_raw (filter (\<lambda>p. ix_activityId p = a) events))) of
                         Inl e \<Rightarrow> False
                       | Inr calculated \<Rightarrow> hashes_to (ve_hash E) (interaction_summary_js calculated) (get (sm_raw newest) ''summaryHash''))
            ''activity_interaction_summary_calculation_invalid'')"

definition TELEMETRY_LIMIT :: nat where
  "TELEMETRY_LIMIT = 100000"

definition verifyActivityInteractionEvidence :: "verifier_env \<Rightarrow> js \<Rightarrow> js list \<Rightarrow> string list res" where
  "verifyActivityInteractionEvidence E v recorded =
     (case (as_arr (get v ''batches''), as_arr (get v ''events''), as_arr (get v ''summaries'')) of
        (Some batchValues, Some eventValues, Some summaryValues) \<Rightarrow>
          if \<not> is_object v then Inr [''activity_interaction_evidence_invalid'']
          else if length batchValues > TELEMETRY_LIMIT \<or> length eventValues > TELEMETRY_LIMIT \<or> length summaryValues > TELEMETRY_LIMIT
          then Inr [''activity_interaction_evidence_unbounded'']
          else
            let (eventErrors, events) = ix_events [] eventValues;
                chain = filter (\<lambda>e. event_type_of e = JStr ''activity.interaction.recorded'') recorded
            in bindE (ix_batches (ve_String E) (ve_hash E) chain events [] batchValues) (\<lambda>(batchErrors, batches).
               bindE (ix_summaries (ve_String E) (ve_hash E) [] summaryValues) (\<lambda>(summaryErrors, summaries).
               bindE (ix_links (ve_String E) summaries (List.map_filter (\<lambda>b. map_option (\<lambda>p. (bt_activityId b, p)) (batch_link chain b)) batches)) (\<lambda>(linkErrors, linked).
               Inr (eventErrors @ batchErrors @
                    concat (map (\<lambda>i. unless_code (i \<in> bt_id ` set batches) ''activity_interaction_event_batch_missing'') (uniq (map ix_batchId events))) @
                    unless_code (length chain = length batches) ''activity_interaction_batch_chain_count_invalid'' @
                    summaryErrors @ linkErrors @
                    concat (map (\<lambda>(a, r). unless_code ((a, show_int r) \<in> set linked) ''activity_interaction_summary_chain_missing'')
                      (uniq (map (\<lambda>s. (sm_activityId s, sm_revision s)) summaries))) @
                    concat (map (calculation_errors E summaries events) (uniq (map ix_activityId events))) @
                    concat (map (\<lambda>a. unless_code (a \<in> ix_activityId ` set events) ''activity_interaction_summary_orphaned'')
                      (uniq (map sm_activityId summaries)))))))
      | _ \<Rightarrow> Inr [''activity_interaction_evidence_invalid''])"

section \<open>Participant context\<close>

record cx_entry =
  cx_activityId :: string
  cx_actorPrincipalId :: string
  cx_contextSessionId :: string
  cx_gatewaySessionId :: string
  cx_id :: string
  cx_interactionId :: string
  cx_sequence :: int
  cx_purpose :: string
  cx_payloadHash :: js
  cx_requestContext :: js
  cx_snapshot :: snapshot

definition REQUEST_CONTEXT_KEYS :: "string list" where
  "REQUEST_CONTEXT_KEYS = [''acceptLanguage'', ''clientHints'', ''ipAddress'', ''userAgent'']"

definition validRequestContext :: "js \<Rightarrow> bool" where
  "validRequestContext v =
     (nullish v \<or>
      (is_object v \<and>
       list_all (\<lambda>k. k \<in> set REQUEST_CONTEXT_KEYS \<and>
         (case as_str (get v k) of Some s \<Rightarrow> s \<noteq> [] \<and> length s \<le> 512 \<and> \<not> has_ctrl s | None \<Rightarrow> False)) (keys v)))"

definition parse_cx_entry :: "verifier_env \<Rightarrow> js \<Rightarrow> cx_entry option res" where
  "parse_cx_entry E e =
     (case (bounded_text (get e ''activityId'') 64, bounded_text (get e ''actorPrincipalId'') 512, bounded_text (get e ''contextSessionId'') 128,
            bounded_text (get e ''gatewaySessionId'') 512, bounded_text (get e ''id'') 128, bounded_text (get e ''interactionId'') 128,
            safe_int (get e ''sequence''), as_str (get e ''purpose'')) of
        (Some activityId, Some actorId, Some contextSessionId, Some gatewaySessionId, Some sid, Some interactionId, Some sequence, Some purpose) \<Rightarrow>
          if 1 \<le> sequence \<and> sequence \<le> 64 \<and> purpose \<in> set PURPOSES \<and> get e ''schema'' = JStr PARTICIPANT_CONTEXT_SCHEMA
          then bindE (digest_text (ve_String E) (get e ''payloadHash'')) (\<lambda>ok.
               if \<not> (ok \<and> canonicalTimestamp (get e ''receivedAt'') \<and> validRequestContext (get e ''requestContext'')) then Inr None
               else case validateStoredParticipantContextSnapshot (get e ''snapshot'') of
                 Inl err \<Rightarrow> Inr None
               | Inr snapshot \<Rightarrow>
                   Inr (if same_hash (ve_hash E) (withParticipantContextProvenance snapshot) (get e ''snapshot'') \<and>
                           sn_id snapshot = sid \<and> sn_sequence snapshot = sequence \<and> sn_purpose snapshot = purpose
                        then Some \<lparr>cx_activityId = activityId, cx_actorPrincipalId = actorId, cx_contextSessionId = contextSessionId,
                                   cx_gatewaySessionId = gatewaySessionId, cx_id = sid, cx_interactionId = interactionId,
                                   cx_sequence = sequence, cx_purpose = purpose, cx_payloadHash = get e ''payloadHash'',
                                   cx_requestContext = get e ''requestContext'', cx_snapshot = snapshot\<rparr>
                        else None))
          else Inr None
      | _ \<Rightarrow> Inr None)"

definition same_context_session :: "cx_entry \<Rightarrow> cx_entry \<Rightarrow> bool" where
  "same_context_session p q = (cx_activityId p = cx_activityId q \<and> cx_contextSessionId p = cx_contextSessionId q)"

definition context_linked :: "(string \<Rightarrow> string) \<Rightarrow> js list \<Rightarrow> cx_entry \<Rightarrow> bool" where
  "context_linked H chain p =
     (case filter (\<lambda>e. get (get (event_payload e) ''snapshot'') ''id'' = JStr (cx_id p)) chain of
        [e] \<Rightarrow>
          let d = event_payload e; s = get d ''snapshot'' in
          get d ''activityId'' = JStr (cx_activityId p) \<and> get d ''contextSessionId'' = JStr (cx_contextSessionId p) \<and>
          get d ''interactionId'' = JStr (cx_interactionId p) \<and> strict_eq (get s ''payloadHash'') (cx_payloadHash p) \<and>
          get s ''purpose'' = JStr (cx_purpose p) \<and> get s ''schema'' = JStr PARTICIPANT_CONTEXT_SCHEMA \<and>
          get s ''sequence'' = JInt (cx_sequence p) \<and> get (event_actor e) ''principalId'' = JStr (cx_actorPrincipalId p) \<and>
          get (event_actor e) ''gatewaySessionId'' = JStr (cx_gatewaySessionId p) \<and>
          sameCanonicalValue H (get (event_actor e) ''requestContext'') (cx_requestContext p)
      | _ \<Rightarrow> False)"

definition cx_entry_errors :: "verifier_env \<Rightarrow> js list \<Rightarrow> int \<Rightarrow> cx_entry list \<Rightarrow> cx_entry \<Rightarrow> string list" where
  "cx_entry_errors E chain maximum seen p =
     unless_code (cx_id p \<notin> cx_id ` set seen) ''participant_context_snapshot_duplicate'' @
     unless_code (\<not> list_ex (\<lambda>q. same_context_session p q \<and> cx_sequence q = cx_sequence p) seen) ''participant_context_sequence_duplicate'' @
     unless_code (case find (same_context_session p) (rev seen) of
          None \<Rightarrow> cx_sequence p = 1 \<and> cx_purpose p = ''presentation''
        | Some q \<Rightarrow> cx_sequence q < cx_sequence p \<and> sn_monotonicMs (cx_snapshot q) \<le> sn_monotonicMs (cx_snapshot p))
       ''participant_context_sequence_invalid'' @
     unless_code (int (length (filter (\<lambda>q. cx_activityId q = cx_activityId p) seen)) + 1 \<le> maximum) ''participant_context_activity_limit_invalid'' @
     unless_code (hashes_to (ve_hash E)
          (context_payload (cx_activityId p) (cx_contextSessionId p) (cx_interactionId p) (withParticipantContextProvenance (cx_snapshot p)))
          (cx_payloadHash p)) ''participant_context_snapshot_hash_invalid'' @
     unless_code (context_linked (ve_hash E) chain p) ''participant_context_snapshot_chain_binding_invalid''"

fun cx_entries :: "verifier_env \<Rightarrow> js list \<Rightarrow> int \<Rightarrow> cx_entry list \<Rightarrow> js list \<Rightarrow> (string list \<times> cx_entry list) res" where
  "cx_entries E chain maximum seen [] = Inr ([], seen)"
| "cx_entries E chain maximum seen (v # vs) =
     bindE (parse_cx_entry E v) (\<lambda>parsed.
     case parsed of
       None \<Rightarrow> with_errors [''participant_context_snapshot_invalid''] (cx_entries E chain maximum seen vs)
     | Some p \<Rightarrow> with_errors (cx_entry_errors E chain maximum seen p) (cx_entries E chain maximum (seen @ [p]) vs))"

definition verifyParticipantContextEvidence :: "verifier_env \<Rightarrow> js \<Rightarrow> js list \<Rightarrow> string list res" where
  "verifyParticipantContextEvidence E v recorded =
     (case as_arr (get v ''snapshots'') of
        None \<Rightarrow> Inr [''participant_context_evidence_invalid'']
      | Some values \<Rightarrow>
          if \<not> is_object v \<or> \<not> is_object (get v ''policy'') then Inr [''participant_context_evidence_invalid'']
          else if length values > TELEMETRY_LIMIT then Inr [''participant_context_evidence_unbounded'']
          else case safe_int (get (get v ''policy'') ''maxSnapshotsPerActivity'') of
            None \<Rightarrow> Inr [''participant_context_policy_invalid'']
          | Some maximum \<Rightarrow>
              if maximum < 2 \<or> maximum > 64 then Inr [''participant_context_policy_invalid'']
              else
                let policyErrors = unless_code
                      (case participantContextPolicy (ve_Number E) (JObj [(''ENGINE_PARTICIPANT_CONTEXT_MAX_SNAPSHOTS_PER_ACTIVITY'', JInt maximum)]) of
                         Inl err \<Rightarrow> False
                       | Inr policy \<Rightarrow> same_hash (ve_hash E) (get v ''policy'') (context_policy_js policy))
                      ''participant_context_policy_invalid'';
                    chain = filter (\<lambda>e. event_type_of e = JStr ''participant.context.recorded'') recorded
                in bindE (cx_entries E chain maximum [] values) (\<lambda>(entryErrors, entries).
                   Inr (policyErrors @ entryErrors @
                        concat (map (\<lambda>e. unless_code (get (get (event_payload e) ''snapshot'') ''id'' \<in> JStr ` cx_id ` set entries)
                          ''participant_context_snapshot_missing'') chain) @
                        unless_code (length chain = length values) ''participant_context_snapshot_chain_count_invalid'')))"

end
