(* ===== verification/Signing.thy ===== *)
theory Signing
  imports Certificates
begin

text \<open>
  The signing provider, \<^verbatim>\<open>src/services/engine/signing-provider.mjs\<close>: the configured Ed25519 key and the
  optional certificate key, the seals made with them, and the registry of keys in the database.
  The parser behind \<open>JSON.parse\<close> is the argument \<open>parse\<close>.
\<close>

section \<open>Settings\<close>

definition optionalSetting :: "js \<Rightarrow> string \<Rightarrow> string option" where
  "optionalSetting settings key =
     (case as_str (get settings key) of
        Some s \<Rightarrow> if js_trim s \<noteq> [] then Some (js_trim s) else None
      | None \<Rightarrow> None)"

definition requiredSetting :: "js \<Rightarrow> string \<Rightarrow> string res" where
  "requiredSetting settings key =
     (case optionalSetting settings key of
        None \<Rightarrow> throw PLAIN_ERROR (Because ''Missing required VASI setting'')
      | Some s \<Rightarrow> Inr s)"

definition parseJWK :: "(js \<Rightarrow> js option) \<Rightarrow> js \<Rightarrow> js res" where
  "parseJWK parse v =
     (case parse v of
        None \<Rightarrow> throw PLAIN_ERROR (Because ''JWK is invalid'')
      | Some parsed \<Rightarrow> guardE (is_object parsed) PLAIN_ERROR (Because ''JWK is invalid'') (Inr parsed))"

record certificate_configuration =
  cc_chain :: string
  cc_keyId :: string
  cc_privateKey :: string

definition certificateConfiguration :: "js \<Rightarrow> certificate_configuration option res" where
  "certificateConfiguration settings =
     (case (optionalSetting settings ''EVIDENCE_CERTIFICATE_CHAIN_PEM'', optionalSetting settings ''EVIDENCE_CERTIFICATE_PRIVATE_KEY_PEM'',
            optionalSetting settings ''EVIDENCE_CERTIFICATE_KEY_ID'') of
        (None, None, None) \<Rightarrow> Inr None
      | (Some chain, Some privateKey, Some keyId) \<Rightarrow> Inr (Some \<lparr>cc_chain = chain, cc_keyId = keyId, cc_privateKey = privateKey\<rparr>)
      | _ \<Rightarrow> throw PLAIN_ERROR (Because ''certificate seal requires its key ID, private key, and certificate chain''))"

section \<open>The provider\<close>

record key_record =
  kr_algorithm :: js
  kr_certificateChain :: js
  kr_fingerprint :: string
  kr_keyId :: string
  kr_metadata :: js
  kr_publicJWK :: js
  kr_sealRole :: string

record signing_provider =
  sp_privateJWK :: js
  sp_keyId :: string
  sp_certificate :: "certificate_configuration option"
  sp_keyRecords :: "key_record list"
  sp_primaryPublicJWK :: js

fun nonempty_array :: "js \<Rightarrow> js" where
  "nonempty_array (JArr (x # xs)) = JArr (x # xs)"
| "nonempty_array _ = JUndef"

definition signingKeyFingerprint :: "primitives \<Rightarrow> js \<Rightarrow> js \<Rightarrow> string res" where
  "signingKeyFingerprint P chain publicJWK =
     guardE (truthy publicJWK) PLAIN_ERROR (Because ''public material is missing'')
     (hashCanonicalJSON (sha256Hex P) (JObj [(''certificateChain'', nonempty_array chain), (''publicJWK'', publicJWK)]))"

definition certificate_key_record :: "primitives \<Rightarrow> x509_provider \<Rightarrow> runtime \<Rightarrow> certificate_configuration \<Rightarrow> key_record res" where
  "certificate_key_record P X R c =
     bindE (createCertificateSeal P X R (JStr (cc_chain c)) (JStr (cc_keyId c))
              (JObj [(''keyId'', JStr (cc_keyId c)), (''schema'', JStr ''vasi-certificate-key-check/v1'')]) (JStr (cc_privateKey c))) (\<lambda>proof_seal.
     bindE (signingKeyFingerprint P (get proof_seal ''certificateChain'') (get proof_seal ''publicJWK'')) (\<lambda>fingerprint.
     Inr \<lparr>kr_algorithm = get proof_seal ''algorithm'', kr_certificateChain = get proof_seal ''certificateChain'', kr_fingerprint = fingerprint,
          kr_keyId = cc_keyId c,
          kr_metadata = JObj [(''certificate'', get proof_seal ''certificate''), (''profile'', get proof_seal ''profile''),
            (''provider'', JStr ''local_x509''), (''validationScope'', get proof_seal ''validationScope'')],
          kr_publicJWK = get proof_seal ''publicJWK'', kr_sealRole = ''certificate''\<rparr>))"

definition createSigningProvider :: "primitives \<Rightarrow> x509_provider \<Rightarrow> runtime \<Rightarrow> (js \<Rightarrow> js option) \<Rightarrow> js \<Rightarrow> signing_provider res" where
  "createSigningProvider P X R parse settings =
     bindE (parseJWK parse (get settings ''EVIDENCE_SEAL_PRIVATE_JWK'')) (\<lambda>privateJWK.
     bindE (parseJWK parse (get settings ''EVIDENCE_SEAL_PUBLIC_JWK'')) (\<lambda>publicJWK.
     bindE (requiredSetting settings ''EVIDENCE_SEAL_KEY_ID'') (\<lambda>keyId.
     bindE (createDetachedIntegritySeal P (JStr keyId) (JObj [(''keyId'', JStr keyId), (''schema'', JStr ''vasi-seal-key-check/v1'')])
              privateJWK (JStr ''vasi-integrity-seal/v1'')) (\<lambda>proof_seal.
     bindE (hashCanonicalJSON (sha256Hex P) (get proof_seal ''publicJWK'')) (\<lambda>derived.
     bindE (hashCanonicalJSON (sha256Hex P) publicJWK) (\<lambda>configured.
     guardE (derived = configured) PLAIN_ERROR (Because ''private and public keys do not match'')
     (bindE (certificateConfiguration settings) (\<lambda>config.
      bindE (signingKeyFingerprint P JUndef publicJWK) (\<lambda>fingerprint.
      bindE (case config of None \<Rightarrow> Inr [] | Some c \<Rightarrow> bindE (certificate_key_record P X R c) (\<lambda>k. Inr [k])) (\<lambda>extra.
      Inr \<lparr>sp_privateJWK = privateJWK, sp_keyId = keyId, sp_certificate = config,
           sp_keyRecords = \<lparr>kr_algorithm = JStr ''Ed25519'', kr_certificateChain = JUndef, kr_fingerprint = fingerprint, kr_keyId = keyId,
             kr_metadata = JObj [(''profile'', JStr ''vasi-integrity-seal/v1''), (''provider'', JStr ''local_jwk'')],
             kr_publicJWK = publicJWK, kr_sealRole = ''vasi_integrity''\<rparr> # extra,
           sp_primaryPublicJWK = publicJWK\<rparr>))))))))))"

text \<open>\<open>{ ...seal, key: value }\<close> for a key the seal does not have.\<close>

fun with_member :: "js \<Rightarrow> string \<Rightarrow> js \<Rightarrow> js" where
  "with_member (JObj ps) k v = JObj (ps @ [(k, v)])"
| "with_member _ k v = JObj [(k, v)]"

definition sign :: "primitives \<Rightarrow> x509_provider \<Rightarrow> runtime \<Rightarrow> signing_provider \<Rightarrow> js \<Rightarrow> string \<Rightarrow> js list res" where
  "sign P X R p payload profile =
     bindE (createDetachedIntegritySeal P (JStr (sp_keyId p)) payload (sp_privateJWK p) (JStr profile)) (\<lambda>seal.
     bindE (case sp_certificate p of
              None \<Rightarrow> Inr []
            | Some c \<Rightarrow> bindE (createCertificateSeal P X R (JStr (cc_chain c)) (JStr (cc_keyId c)) payload (JStr (cc_privateKey c)))
                          (\<lambda>s. Inr [with_member s ''role'' (JStr ''certificate'')])) (\<lambda>more.
     Inr (with_member seal ''role'' (JStr ''vasi_integrity'') # more)))"

definition signManifest :: "primitives \<Rightarrow> x509_provider \<Rightarrow> runtime \<Rightarrow> signing_provider \<Rightarrow> js \<Rightarrow> js list res" where
  "signManifest P X R p manifest = sign P X R p manifest ''vasi-integrity-seal/v1''"

definition signBundleIndex :: "primitives \<Rightarrow> x509_provider \<Rightarrow> runtime \<Rightarrow> signing_provider \<Rightarrow> js \<Rightarrow> js list res" where
  "signBundleIndex P X R p index = sign P X R p index ''vasi-bundle-seal/v1''"

section \<open>The key registry\<close>

text \<open>The tables \<^verbatim>\<open>evidence_seal_key\<close>, with \<^verbatim>\<open>keyId\<close> as its key, and \<^verbatim>\<open>evidence_seal_key_status_event\<close>.\<close>

record key_registry =
  rg_keys :: "key_record list"
  rg_activated :: "string list"

definition registered :: "key_registry \<Rightarrow> string \<Rightarrow> key_record option" where
  "registered g keyId = find (\<lambda>k. kr_keyId k = keyId) (rg_keys g)"

definition ensure_key :: "key_record \<Rightarrow> key_registry \<Rightarrow> key_registry res" where
  "ensure_key k g =
     (let g' = (if registered g (kr_keyId k) = None
                then g\<lparr>rg_keys := rg_keys g @ [k], rg_activated := rg_activated g @ [kr_keyId k]\<rparr> else g)
      in case registered g' (kr_keyId k) of
           None \<Rightarrow> throw PLAIN_ERROR (Because ''conflicts with runtime custody'')
         | Some r \<Rightarrow>
             guardE (kr_sealRole r = kr_sealRole k \<and> kr_algorithm r = kr_algorithm k \<and> kr_fingerprint r = kr_fingerprint k)
               PLAIN_ERROR (Because ''conflicts with runtime custody'') (Inr g'))"

fun ensure_keys :: "key_record list \<Rightarrow> key_registry \<Rightarrow> key_registry res" where
  "ensure_keys [] g = Inr g"
| "ensure_keys (k # ks) g = bindE (ensure_key k g) (ensure_keys ks)"

definition ensureSigningKeys :: "signing_provider \<Rightarrow> key_registry \<Rightarrow> key_registry res" where
  "ensureSigningKeys p g = ensure_keys (sp_keyRecords p) g"

section \<open>Rules\<close>

lemma get_with_member: "get s k \<noteq> JUndef \<Longrightarrow> k \<notin> set proto_names \<Longrightarrow> get (with_member s r v) k = get s k"
  by (cases s) (auto split: option.splits)

lemma get_with_member_new: "get s k = JUndef \<Longrightarrow> k \<notin> set proto_names \<Longrightarrow> get (with_member s k v) k = v \<or> (\<exists>ps. s = JObj ps \<and> map_of ps k = Some JUndef)"
  by (cases s) (auto split: option.splits)

lemma registered_append: "registered (g\<lparr>rg_keys := rg_keys g @ ks\<rparr>) i = (case registered g i of Some r \<Rightarrow> Some r | None \<Rightarrow> find (\<lambda>k. kr_keyId k = i) ks)"
proof -
  have "find P (xs @ ys) = (case find P xs of Some r \<Rightarrow> Some r | None \<Rightarrow> find P ys)" for P :: "key_record \<Rightarrow> bool" and xs ys
    by (induction xs) auto
  then show ?thesis by (simp add: registered_def)
qed

lemma ensure_key_Inr:
  assumes "ensure_key k g = Inr g'"
  shows "\<exists>r. registered g' (kr_keyId k) = Some r \<and> kr_sealRole r = kr_sealRole k \<and> kr_algorithm r = kr_algorithm k \<and> kr_fingerprint r = kr_fingerprint k"
    and "registered g i = Some r \<Longrightarrow> registered g' i = Some r"
    and "ensure_key k g' = Inr g'"
proof -
  from assms show a: "\<exists>r. registered g' (kr_keyId k) = Some r \<and> kr_sealRole r = kr_sealRole k \<and> kr_algorithm r = kr_algorithm k \<and> kr_fingerprint r = kr_fingerprint k"
    by (auto simp: ensure_key_def Let_def guardE_Inr split: if_splits option.splits)
  then show "ensure_key k g' = Inr g'" by (auto simp: ensure_key_def Let_def)
  show "registered g' i = Some r" if "registered g i = Some r"
    using assms that registered_append[of g "[k]" i]
    by (auto simp: ensure_key_def Let_def guardE_Inr registered_def split: if_splits option.splits)
qed

lemma ensure_keys_keep: "ensure_keys ks g = Inr g' \<Longrightarrow> registered g i = Some r \<Longrightarrow> registered g' i = Some r"
  by (induction ks arbitrary: g) (auto simp: bindE_Inr dest: ensure_key_Inr(2))

lemma ensure_key_known:
  assumes "registered g (kr_keyId k) = Some r" "kr_sealRole r = kr_sealRole k" "kr_algorithm r = kr_algorithm k" "kr_fingerprint r = kr_fingerprint k"
  shows "ensure_key k g = Inr g"
  using assms by (auto simp: ensure_key_def Let_def)

text \<open>
  Registering the configured keys is idempotent: once it has succeeded, it succeeds again and
  changes nothing, and a key once registered is never replaced.
\<close>

lemma ensure_keys_idem: "ensure_keys ks g = Inr g' \<Longrightarrow> ensure_keys ks g' = Inr g'"
proof -
  have "ensure_keys ks h = Inr h" if "\<forall>k \<in> set ks. ensure_key k h = Inr h" for ks h
    using that by (induction ks) auto
  moreover have "\<forall>k \<in> set ks. ensure_key k g' = Inr g'" if "ensure_keys ks g = Inr g'" for ks g
    using that
  proof (induction ks arbitrary: g)
    case (Cons k ks)
    then obtain h where h: "ensure_key k g = Inr h" "ensure_keys ks h = Inr g'" by (auto simp: bindE_Inr)
    obtain r where "registered h (kr_keyId k) = Some r" "kr_sealRole r = kr_sealRole k" "kr_algorithm r = kr_algorithm k" "kr_fingerprint r = kr_fingerprint k"
      using ensure_key_Inr(1)[OF h(1)] by blast
    then have "ensure_key k g' = Inr g'" using ensure_keys_keep[OF h(2)] ensure_key_known by blast
    with Cons.IH[OF h(2)] show ?case by simp
  qed simp
  ultimately show "ensure_keys ks g = Inr g' \<Longrightarrow> ensure_keys ks g' = Inr g'" by blast
qed

section \<open>Seals of the provider verify\<close>

text \<open>
  What the provider relies on of Node's cryptography: the public part of a usable private key is
  usable and verifies its signatures; a private key that matches a certificate has its key type and
  the certificate verifies its signatures; a parsed certificate's key and metadata are JSON.
\<close>

definition sound_signing :: "primitives \<Rightarrow> x509_provider \<Rightarrow> runtime \<Rightarrow> bool" where
  "sound_signing P X R \<longleftrightarrow>
     (\<forall>jwk sk. private_key P jwk = Some sk \<longrightarrow>
        (\<exists>pk. public_key P (public_of P sk) = Some pk \<and> (\<forall>m. ed_verify P pk m (ed_sign P sk m)))) \<and>
     (\<forall>c k. x5_matches X c k \<longrightarrow> x5_private_type X k = ce_keyType c \<and> (\<forall>node m. x5_verify X node c m (x5_sign X node k m))) \<and>
     (\<forall>v c. x5_parse X v = Some c \<longrightarrow> (\<exists>h. hashCanonicalJSON (sha256Hex P) (ce_publicJWK c) = Inr h) \<and>
        (\<forall>metadata. certificate_metadata R c = Inr metadata \<longrightarrow> (\<exists>h. hashCanonicalJSON (sha256Hex P) metadata = Inr h)))"

lemma get_with_member_other: "j \<noteq> k \<Longrightarrow> get (with_member (JObj ps) k v) j = get (JObj ps) j"
  by (simp add: map_add_def split: option.split)

lemma get_with_member_same: "map_of ps k = None \<Longrightarrow> get (with_member (JObj ps) k v) k = v"
  by (simp add: map_add_def)

lemma verify_detached_with_member:
  assumes "k \<notin> {''algorithm'', ''profile'', ''signature'', ''manifestHash'', ''publicJWK''}"
  shows "verifyDetachedIntegritySeal P m (with_member (JObj ps) k v) profiles = verifyDetachedIntegritySeal P m (JObj ps) profiles"
  unfolding verifyDetachedIntegritySeal_def using assms by (simp only: get_with_member_other simp_thms insert_iff empty_iff de_Morgan_disj not_sym)

lemma verify_certificate_with_member:
  assumes "k \<notin> {''algorithm'', ''profile'', ''signature'', ''manifestHash'', ''publicJWK'', ''validationScope'', ''certificateChain'', ''certificate''}"
  shows "verifyCertificateSeal P X R m (with_member (JObj ps) k v) = verifyCertificateSeal P X R m (JObj ps)"
  unfolding verifyCertificateSeal_def using assms by (simp only: get_with_member_other simp_thms insert_iff empty_iff de_Morgan_disj not_sym)

definition detached_seal :: "primitives \<Rightarrow> js \<Rightarrow> string \<Rightarrow> js \<Rightarrow> string \<Rightarrow> js" where
  "detached_seal P keyId bytes sk profile = JObj [(''algorithm'', JStr ''Ed25519''), (''keyId'', keyId), (''manifestHash'', JStr (sha256Hex P bytes)),
     (''profile'', JStr profile), (''publicJWK'', public_of P sk), (''signature'', JStr (ed_sign P sk bytes))]"

lemma createDetachedIntegritySeal_Inr:
  "createDetachedIntegritySeal P keyId payload jwk (JStr profile) = Inr s \<longleftrightarrow>
     (\<exists>bytes sk. canonicalJSON payload = Inr bytes \<and> private_key P jwk = Some sk \<and> seal_profile_shape profile \<and> s = detached_seal P keyId bytes sk profile)"
  unfolding createDetachedIntegritySeal_def detached_seal_def
  by (auto simp: bindE_Inr sealProfile_def guardE_Inr split: option.split)

lemma detached_seal_verifies:
  assumes "sound_signing P X R" "private_key P jwk = Some sk" "canonicalJSON payload = Inr bytes" "profile \<in> set profiles"
  shows "verifyDetachedIntegritySeal P payload (detached_seal P keyId bytes sk profile) profiles"
proof -
  from assms(1,2) obtain pk where "public_key P (public_of P sk) = Some pk" "ed_verify P pk bytes (ed_sign P sk bytes)"
    unfolding sound_signing_def by blast
  with assms(3,4) show ?thesis by (simp add: verifyDetachedIntegritySeal_def detached_seal_def)
qed

lemma sign_Inr:
  assumes "sign P X R p payload profile = Inr seals" "sound_signing P X R"
  shows "\<exists>bytes sk rest. canonicalJSON payload = Inr bytes \<and> private_key P (sp_privateJWK p) = Some sk \<and>
    seals = with_member (detached_seal P (JStr (sp_keyId p)) bytes sk profile) ''role'' (JStr ''vasi_integrity'') # rest \<and>
    (\<forall>s \<in> set rest. \<exists>ps. s = with_member (JObj ps) ''role'' (JStr ''certificate'') \<and> map_of ps ''role'' = None \<and>
       get (JObj ps) ''profile'' = JStr ''vasi-certificate-seal/v1'' \<and> verifyCertificateSeal P X R payload (JObj ps))"
proof -
  from assms(1) obtain s more where s: "createDetachedIntegritySeal P (JStr (sp_keyId p)) payload (sp_privateJWK p) (JStr profile) = Inr s"
    and more: "(case sp_certificate p of
              None \<Rightarrow> Inr []
            | Some c \<Rightarrow> bindE (createCertificateSeal P X R (JStr (cc_chain c)) (JStr (cc_keyId c)) payload (JStr (cc_privateKey c)))
                          (\<lambda>s. Inr [with_member s ''role'' (JStr ''certificate'')])) = Inr more"
    and seals: "seals = with_member s ''role'' (JStr ''vasi_integrity'') # more"
    by (auto simp: sign_def bindE_Inr)
  have "\<exists>ps. t = with_member (JObj ps) ''role'' (JStr ''certificate'') \<and> map_of ps ''role'' = None \<and>
       get (JObj ps) ''profile'' = JStr ''vasi-certificate-seal/v1'' \<and> verifyCertificateSeal P X R payload (JObj ps)" if "t \<in> set more" for t
  proof -
    from more that obtain c :: certificate_configuration and u where u: "createCertificateSeal P X R (JStr (cc_chain c)) (JStr (cc_keyId c)) payload (JStr (cc_privateKey c)) = Inr u"
      and t: "t = with_member u ''role'' (JStr ''certificate'')"
      by (cases "sp_certificate p") (auto simp: bindE_Inr)
    have "verifyCertificateSeal P X R payload u"
      using certificate_seal_verifies[OF u] assms(2) unfolding sound_signing_def by blast
    moreover from u obtain ps where "u = JObj ps" "map_of ps ''role'' = None" "map_of ps ''profile'' = Some (JStr ''vasi-certificate-seal/v1'')"
      unfolding createCertificateSeal_def by (elim bindE_E) (auto simp: bindE_Inr guardE_Inr split: option.splits)
    ultimately show ?thesis using t by auto
  qed
  with s seals show ?thesis by (auto simp: createDetachedIntegritySeal_Inr)
qed

lemma createSigningProvider_key:
  assumes "createSigningProvider P X R parse settings = Inr p" "private_key P (sp_privateJWK p) = Some sk"
  shows "same_hash (sha256Hex P) (public_of P sk) (sp_primaryPublicJWK p)" "is_object (sp_primaryPublicJWK p)"
proof -
  from assms(1) obtain seal h where
    s: "createDetachedIntegritySeal P (JStr (sp_keyId p)) (JObj [(''keyId'', JStr (sp_keyId p)), (''schema'', JStr ''vasi-seal-key-check/v1'')])
              (sp_privateJWK p) (JStr ''vasi-integrity-seal/v1'') = Inr seal"
    and h: "hashCanonicalJSON (sha256Hex P) (get seal ''publicJWK'') = Inr h" "hashCanonicalJSON (sha256Hex P) (sp_primaryPublicJWK p) = Inr h"
    and j: "parseJWK parse (get settings ''EVIDENCE_SEAL_PUBLIC_JWK'') = Inr (sp_primaryPublicJWK p)"
    unfolding createSigningProvider_def by (elim bindE_E guardE_E) (auto split: option.splits)
  from s assms(2) have "get seal ''publicJWK'' = public_of P sk" by (auto simp: createDetachedIntegritySeal_Inr detached_seal_def)
  with h show "same_hash (sha256Hex P) (public_of P sk) (sp_primaryPublicJWK p)" by (simp add: same_hash_def)
  from j show "is_object (sp_primaryPublicJWK p)" by (auto simp: parseJWK_def guardE_Inr split: option.splits)
qed

end
