(* ===== verification/Verifier.thy ===== *)
theory Verifier
  imports EvidenceTelemetry Signing
begin

text \<open>
  The offline verifier of evidence records: \<^verbatim>\<open>verifyEvidenceRecord\<close> and \<^verbatim>\<open>assertEvidenceRecord\<close> of
  \<^verbatim>\<open>src/packages/evidence-verifier/index.mjs\<close>. The engine runs it on every record it seals or loads, and
  anybody with an exported record can run it without the engine.
\<close>

section \<open>Errors and seals\<close>

text \<open>
  An entry of the list of errors: a fixed code, \<open>event_<sequence>_<what>\<close>, or \<open>seal_<keyId>_invalid\<close>.
  No prefix that the result's checks look for begins like a seal error.
\<close>

datatype verify_error = Failure string | Event_failure nat string | Seal_failure js

fun starts_with :: "string \<Rightarrow> verify_error \<Rightarrow> bool" where
  "starts_with p (Failure c) = (take (length p) c = p)"
| "starts_with p (Event_failure n c) = (let t = ''event_'' @ show_nat n @ ''_'' @ c in take (length p) t = p)"
| "starts_with p (Seal_failure k) = False"

definition normalizedSeals :: "js \<Rightarrow> js list" where
  "normalizedSeals record =
     (case as_arr (get record ''seals'') of
        Some (s # ss) \<Rightarrow> s # ss
      | _ \<Rightarrow> if truthy (get record ''seal'') then [get record ''seal''] else [])"

record seal_result =
  sr_algorithm :: js
  sr_keyId :: js
  sr_profile :: js
  sr_role :: js
  sr_verified :: bool

definition seal_role :: "js \<Rightarrow> js" where
  "seal_role seal = js_or (get seal ''role'')
     (JStr (if get seal ''profile'' = JStr ''vasi-integrity-seal/v1'' then ''vasi_integrity'' else ''certificate''))"

definition verify_seal :: "verifier_env \<Rightarrow> js \<Rightarrow> js \<Rightarrow> seal_result res" where
  "verify_seal E manifest seal =
     guardE (\<not> nullish seal) TYPE_ERROR (Because ''seal.profile'')
     (Inr \<lparr>sr_algorithm = get seal ''algorithm'', sr_keyId = get seal ''keyId'', sr_profile = get seal ''profile'', sr_role = seal_role seal,
          sr_verified =
            (if get seal ''profile'' = JStr ''vasi-certificate-seal/v1''
             then verifyCertificateSeal (ve_primitives E) (ve_x509 E) (ve_runtime E) manifest seal
             else verifyDetachedIntegritySeal (ve_primitives E) manifest seal [''vasi-integrity-seal/v1''])\<rparr>)"

text \<open>\<open>seals.find(...) || seals[0]\<close>, when it is truthy.\<close>

definition primary_seal :: "js list \<Rightarrow> js option" where
  "primary_seal seals =
     (let found = (case find (\<lambda>s. js_or (get s ''role'') (JStr ''vasi_integrity'') = JStr ''vasi_integrity'') seals of
            Some s \<Rightarrow> s | None \<Rightarrow> JUndef);
          first = (case seals of [] \<Rightarrow> JUndef | s # _ \<Rightarrow> s);
          chosen = js_or found first
      in if truthy chosen then Some chosen else None)"

definition primary_errors :: "verifier_env \<Rightarrow> js \<Rightarrow> js list \<Rightarrow> verify_error list" where
  "primary_errors E expectedPublicJWK seals =
     (case primary_seal seals of
        None \<Rightarrow> [Failure ''primary_seal_missing'']
      | Some s \<Rightarrow>
          (if get s ''profile'' = JStr ''vasi-integrity-seal/v1'' then [] else [Failure ''primary_seal_missing'']) @
          (if truthy expectedPublicJWK then
             (case (hashCanonicalJSON (ve_hash E) (get s ''publicJWK''), hashCanonicalJSON (ve_hash E) expectedPublicJWK) of
                (Inr a, Inr b) \<Rightarrow> if a = b then [] else [Failure ''primary_seal_key_unexpected'']
              | _ \<Rightarrow> [Failure ''primary_seal_key_invalid''])
           else []))"

section \<open>The event chain\<close>

definition event_errors :: "(string \<Rightarrow> string) \<Rightarrow> js \<Rightarrow> nat \<Rightarrow> string \<Rightarrow> js \<Rightarrow> verify_error list" where
  "event_errors H manifest sequence previousHash e =
     (let d = get e ''eventData''; fail = (\<lambda>ok c. if ok then [] else [Event_failure sequence c]) in
      fail (get e ''sequence'' = JInt (int sequence)) ''sequence_invalid'' @
      fail (get e ''previousHash'' = JStr previousHash \<and> get d ''previousHash'' = JStr previousHash) ''previous_hash_invalid'' @
      fail (strict_eq (get d ''sequence'') (get e ''sequence'')) ''embedded_sequence_invalid'' @
      fail (strict_eq (get d ''assignmentId'') (get (get manifest ''assignment'') ''id'')) ''assignment_invalid'' @
      fail (strict_eq (get d ''requestId'') (get (get manifest ''request'') ''id'')) ''request_invalid'' @
      fail (strict_eq (get d ''tenantId'') (get (get manifest ''tenant'') ''id'')) ''tenant_invalid'' @
      (case hashCanonicalJSON H d of
         Inl err \<Rightarrow> [Event_failure sequence ''canonical_invalid'']
       | Inr h \<Rightarrow> fail (get e ''eventHash'' = JStr h) ''hash_invalid''))"

fun verify_events :: "(string \<Rightarrow> string) \<Rightarrow> js \<Rightarrow> nat \<Rightarrow> string \<Rightarrow> js list \<Rightarrow> verify_error list \<times> string \<times> string list" where
  "verify_events H manifest sequence previousHash [] = ([], previousHash, [])"
| "verify_events H manifest sequence previousHash (e # es) =
     (let (next, own) = (case as_str (get e ''eventHash'') of Some h \<Rightarrow> (h, [h]) | None \<Rightarrow> (previousHash, []));
          (errs, head, hashes) = verify_events H manifest (Suc sequence) next es
      in (event_errors H manifest sequence previousHash e @ errs, head, own @ hashes))"

text \<open>
  \<open>JSON.stringify\<close> of the listed hashes equals that of the collected ones exactly when the member is
  the same array of texts.
\<close>

definition evidence_errors :: "js \<Rightarrow> nat \<Rightarrow> string \<Rightarrow> string list \<Rightarrow> verify_error list" where
  "evidence_errors evidence n head hashes =
     (let fail = (\<lambda>ok c. if ok then [] else [Failure c]) in
      fail (get evidence ''eventCount'' = JInt (int n)) ''manifest_event_count_invalid'' @
      fail (get evidence ''firstSequence'' = JInt 1) ''manifest_first_sequence_invalid'' @
      fail (get evidence ''lastSequence'' = JInt (int n)) ''manifest_last_sequence_invalid'' @
      fail (get evidence ''headHash'' = JStr head) ''manifest_head_hash_invalid'' @
      fail (get evidence ''eventHashes'' = JArr (map JStr hashes)) ''manifest_event_hashes_invalid'')"

definition manifest_schema :: "nat \<Rightarrow> string" where
  "manifest_schema n = ''vasi-evidence-manifest/v'' @ show_nat n"

definition schema_in :: "js \<Rightarrow> nat list \<Rightarrow> bool" where
  "schema_in manifest versions = (get manifest ''schema'' \<in> JStr ` manifest_schema ` set versions)"

definition member_errors :: "verifier_env \<Rightarrow> js \<Rightarrow> js list \<Rightarrow> string list res" where
  "member_errors E manifest events =
     bindE (if schema_in manifest [5, 6, 7, 8, 9, 10]
            then verifyActivityInteractionEvidence E (get manifest ''activityInteraction'') events else Inr []) (\<lambda>interaction.
     bindE (if schema_in manifest [6, 7, 8, 9, 10]
            then verifyParticipantContextEvidence E (get manifest ''participantContext'') events else Inr []) (\<lambda>contexts.
     let notifications = (if schema_in manifest [7, 8, 9, 10]
           then verifyNotificationDeliveryEvidence (get manifest ''notificationDelivery'') (get (get manifest ''timestamps'') ''completedAt'') else []) in
     bindE (if schema_in manifest [8, 9, 10] then verifyRequesterEvidence (get manifest ''requester'') events else Inr []) (\<lambda>requester.
     bindE (if schema_in manifest [9, 10] then verifyTenantAdmissionEvidence E (get manifest ''admission'') events else Inr []) (\<lambda>admission.
     Inr (interaction @ contexts @ notifications @ requester @ admission @
          (if schema_in manifest [10]
           then verifyAuthenticationAssuranceEvidence E (get manifest ''authenticationAssurance'') manifest events else []))))))"

definition manifest_errors :: "verifier_env \<Rightarrow> js \<Rightarrow> js list \<Rightarrow> verify_error list res" where
  "manifest_errors E manifest events =
     (if truthy manifest then
        let (chain, head, hashes) = verify_events (ve_hash E) manifest 1 GENESIS_HASH events in
        bindE (member_errors E manifest events) (\<lambda>members.
        Inr (chain @ evidence_errors (get manifest ''evidence'') (length events) head hashes @ map Failure members))
      else Inr [])"

section \<open>The verifier\<close>

record verification =
  vr_eventChain :: bool
  vr_activityInteraction :: bool
  vr_authenticationAssurance :: bool
  vr_notificationDelivery :: bool
  vr_participantContext :: bool
  vr_requester :: bool
  vr_tenantAdmission :: bool
  vr_manifest :: bool
  vr_primarySeal :: bool
  vr_errors :: "verify_error list"
  vr_seals :: "seal_result list"
  vr_verified :: bool

fun typeof_object :: "js \<Rightarrow> bool" where
  "typeof_object (JArr _) = True"
| "typeof_object v = is_object v"

definition record_events :: "js \<Rightarrow> js list" where
  "record_events record = (case as_arr (get record ''events'') of Some es \<Rightarrow> es | None \<Rightarrow> [])"

definition seal_errors :: "seal_result list \<Rightarrow> verify_error list" where
  "seal_errors rs = concat (map (\<lambda>r. if sr_verified r then [] else [Seal_failure (sr_keyId r)]) rs)"

definition verifyEvidenceRecord :: "verifier_env \<Rightarrow> js \<Rightarrow> js \<Rightarrow> verification res" where
  "verifyEvidenceRecord E record expectedPublicJWK =
     (let events = record_events record; manifest = get record ''manifest''; seals = normalizedSeals record in
      bindE (manifest_errors E manifest events) (\<lambda>manifestErrors.
      bindE (mapE (verify_seal E manifest) seals) (\<lambda>sealResults.
      let errors =
            (if events = [] then [Failure ''event_chain_missing''] else []) @
            (if typeof_object manifest then [] else [Failure ''manifest_missing'']) @
            (if seals = [] then [Failure ''seal_missing''] else []) @
            manifestErrors @
            seal_errors sealResults @
            primary_errors E expectedPublicJWK seals;
          none = (\<lambda>p. \<not> list_ex (starts_with p) errors)
      in Inr \<lparr>vr_eventChain = (none ''event_'' \<and> none ''manifest_event'' \<and> Failure ''manifest_head_hash_invalid'' \<notin> set errors),
              vr_activityInteraction = none ''activity_interaction_'', vr_authenticationAssurance = none ''authentication_assurance_'',
              vr_notificationDelivery = none ''notification_delivery_'', vr_participantContext = none ''participant_context_'',
              vr_requester = none ''requester_'', vr_tenantAdmission = none ''tenant_admission_'',
              vr_manifest = (truthy manifest \<and> Failure ''manifest_missing'' \<notin> set errors),
              vr_primarySeal = (primary_seal seals \<noteq> None \<and> Failure ''primary_seal_missing'' \<notin> set errors \<and>
                list_ex (\<lambda>r. sr_role r = JStr ''vasi_integrity'' \<and> sr_verified r) sealResults),
              vr_errors = errors, vr_seals = sealResults, vr_verified = (errors = [])\<rparr>)))"

definition assertEvidenceRecord :: "verifier_env \<Rightarrow> js \<Rightarrow> js \<Rightarrow> verification res" where
  "assertEvidenceRecord E record expectedPublicJWK =
     bindE (verifyEvidenceRecord E record expectedPublicJWK) (\<lambda>result.
     guardE (vr_verified result) VASI_EVIDENCE_INVALID (Because ''VASI evidence verification failed'') (Inr result))"

section \<open>What a verified record's events promise\<close>

definition text_or_empty :: "js \<Rightarrow> string" where
  "text_or_empty v = (case as_str v of Some s \<Rightarrow> s | None \<Rightarrow> [])"

abbreviation record_prev :: "js \<Rightarrow> string" where
  "record_prev e \<equiv> text_or_empty (get e ''previousHash'')"

abbreviation record_hash :: "js \<Rightarrow> string" where
  "record_hash e \<equiv> text_or_empty (get e ''eventHash'')"

definition record_text :: "js \<Rightarrow> string" where
  "record_text e = (case canonicalJSON (get e ''eventData'') of Inr s \<Rightarrow> s | Inl _ \<Rightarrow> [])"

definition event_ok :: "(string \<Rightarrow> string) \<Rightarrow> js \<Rightarrow> js \<Rightarrow> bool" where
  "event_ok H manifest e =
     (let d = get e ''eventData'' in
      hashCanonicalJSON H d = Inr (record_hash e) \<and> get e ''eventHash'' = JStr (record_hash e) \<and>
      get e ''previousHash'' = JStr (record_prev e) \<and> get d ''previousHash'' = JStr (record_prev e) \<and>
      strict_eq (get d ''sequence'') (get e ''sequence'') \<and>
      strict_eq (get d ''assignmentId'') (get (get manifest ''assignment'') ''id'') \<and>
      strict_eq (get d ''requestId'') (get (get manifest ''request'') ''id'') \<and>
      strict_eq (get d ''tenantId'') (get (get manifest ''tenant'') ''id''))"

lemma text_or_empty_JStr [simp]: "text_or_empty (JStr s) = s"
  by (simp add: text_or_empty_def)

lemma event_ok_text:
  assumes "event_ok H m e"
  shows "canonicalJSON (get e ''eventData'') = Inr (record_text e)" "record_hash e = H (record_text e)"
    "get (get e ''eventData'') ''previousHash'' = JStr (record_prev e)"
proof -
  from assms have "hashCanonicalJSON H (get e ''eventData'') = Inr (record_hash e)" by (simp add: event_ok_def Let_def)
  then obtain t where t: "canonicalJSON (get e ''eventData'') = Inr t" "record_hash e = H t"
    by (auto simp: hashCanonicalJSON_def bindE_Inr)
  then show "canonicalJSON (get e ''eventData'') = Inr (record_text e)" "record_hash e = H (record_text e)"
    by (simp_all add: record_text_def)
  show "get (get e ''eventData'') ''previousHash'' = JStr (record_prev e)" using assms by (simp add: event_ok_def Let_def)
qed

lemma same_text_same_prev:
  assumes "event_ok H m r" "event_ok H m' s" "record_text r = record_text s"
  shows "record_prev r = record_prev s"
proof -
  note t = event_ok_text[OF assms(1)] event_ok_text[OF assms(2)]
  have "canonicalValue (get r ''eventData'') = canonicalValue (get s ''eventData'')"
    by (rule canonicalJSON_inject[OF t(1)]) (simp add: assms(3) t(4))
  moreover obtain w where "canonicalValue (get r ''eventData'') = Inr w" using t(1) unfolding canonicalJSON_Inr by blast
  ultimately have w: "canonicalValue (get r ''eventData'') = Inr w" "canonicalValue (get s ''eventData'') = Inr w" by simp_all
  have "get w ''previousHash'' = JStr (record_prev r)" by (rule canonical_get_JStr[OF w(1) t(3)]) simp
  moreover have "get w ''previousHash'' = JStr (record_prev s)" by (rule canonical_get_JStr[OF w(2) t(6)]) simp
  ultimately show ?thesis by simp
qed

interpretation record_chain: hash_chain H record_text record_prev record_hash "\<lambda>e. \<exists>m. event_ok H m e"
  for H :: "string \<Rightarrow> string"
proof
  fix r s
  show "\<exists>m. event_ok H m r \<Longrightarrow> record_hash r = H (record_text r)"
    using event_ok_text(2) by blast
  show "\<exists>m. event_ok H m r \<Longrightarrow> \<exists>m. event_ok H m s \<Longrightarrow> record_text r = record_text s \<Longrightarrow> record_prev r = record_prev s"
    using same_text_same_prev by blast
qed

lemma event_errors_Nil:
  "event_errors H m n p e = [] \<longleftrightarrow> event_ok H m e \<and> record_prev e = p \<and> get e ''sequence'' = JInt (int n)"
proof
  assume "event_errors H m n p e = []"
  then show "event_ok H m e \<and> record_prev e = p \<and> get e ''sequence'' = JInt (int n)"
    by (auto simp: event_errors_def event_ok_def Let_def split: if_splits sum.splits)
next
  assume "event_ok H m e \<and> record_prev e = p \<and> get e ''sequence'' = JInt (int n)"
  then have "event_ok H m e" and p: "get e ''sequence'' = JInt (int n)" "p = record_prev e" by auto
  then show "event_errors H m n p e = []"
    unfolding p(2) by (simp add: event_errors_def event_ok_def Let_def)
qed

fun sequenced :: "nat \<Rightarrow> js list \<Rightarrow> bool" where
  "sequenced n [] = True"
| "sequenced n (e # es) = (get e ''sequence'' = JInt (int n) \<and> sequenced (Suc n) es)"

lemma verify_events_ok:
  "verify_events H m n p es = ([], head, hashes) \<longleftrightarrow>
     chained record_prev record_hash (event_ok H m) p es \<and> sequenced n es \<and>
     head = head_hash record_hash p es \<and> hashes = map record_hash es"
proof (induction es arbitrary: n p head hashes)
  case (Cons e es)
  obtain errs head' hashes' where r: "verify_events H m (Suc n) (record_hash e) es = (errs, head', hashes')"
    by (metis prod_cases3)
  show ?case
  proof (cases "event_errors H m n p e = []")
    case True
    then have h: "get e ''eventHash'' = JStr (record_hash e)" by (simp add: event_errors_Nil event_ok_def Let_def)
    then have "as_str (get e ''eventHash'') = Some (record_hash e)" by (simp add: js_simps)
    moreover have "(errs = [] \<and> head' = g \<and> hashes' = hs) \<longleftrightarrow>
        chained record_prev record_hash (event_ok H m) (record_hash e) es \<and> sequenced (Suc n) es \<and>
        g = head_hash record_hash (record_hash e) es \<and> hs = map record_hash es" for g hs
      using Cons.IH[of "Suc n" "record_hash e" g hs] r by simp
    ultimately show ?thesis
      using True r by (cases hashes) (auto simp: event_errors_Nil)
  next
    case False
    then show ?thesis by (auto simp: event_errors_Nil Let_def split: prod.splits option.splits)
  qed
qed auto

lemma sequenced_nth: "sequenced n es \<Longrightarrow> i < length es \<Longrightarrow> get (es ! i) ''sequence'' = JInt (int (n + i))"
  by (induction es arbitrary: n i) (auto simp: nth_Cons' algebra_simps)

lemma chained_weaken:
  "chained prev hash ok p rs \<Longrightarrow> (\<And>r. ok r \<Longrightarrow> ok' r) \<Longrightarrow> chained prev hash ok' p rs"
  by (induction rs arbitrary: p) auto

lemma canonical_nested:
  assumes "canonicalValue v = Inr w" "get (get v j) k = JStr s" "j \<notin> set proto_names" "k \<noteq> ''__proto__''"
  shows "get (get w j) k = JStr s"
proof -
  from assms(2,3) obtain ps qs where v: "v = JObj ps" "map_of ps j = Some (JObj qs)"
    by (cases v; cases "get v j") (auto split: option.splits if_splits)
  have "j \<noteq> ''__proto__''" using assms(3) by (auto simp: proto_names_def)
  from canonical_get[OF assms(1)[unfolded v(1)] v(2) _ this] obtain u where
    u: "canonicalValue (JObj qs) = Inr u" "get w j = u" by auto
  have "get (JObj qs) k = JStr s" using assms(2,3) v by simp
  from canonical_get_JStr[OF u(1) this assms(4)] u(2) show ?thesis by simp
qed

section \<open>What a verified record consists of\<close>

lemma seal_errors_Nil: "seal_errors rs = [] \<longleftrightarrow> (\<forall>r \<in> set rs. sr_verified r)"
  by (auto simp: seal_errors_def)

lemma verified_parts:
  assumes "verifyEvidenceRecord E record jwk = Inr v" "vr_verified v"
  shows "record_events record \<noteq> []" "typeof_object (get record ''manifest'')"
    "manifest_errors E (get record ''manifest'') (record_events record) = Inr []"
    "\<forall>s \<in> set (normalizedSeals record). \<exists>r. verify_seal E (get record ''manifest'') s = Inr r \<and> sr_verified r"
    "primary_errors E jwk (normalizedSeals record) = []"
proof -
  from assms obtain me rs where me: "manifest_errors E (get record ''manifest'') (record_events record) = Inr me"
    and rs: "mapE (verify_seal E (get record ''manifest'')) (normalizedSeals record) = Inr rs"
    and nil: "record_events record \<noteq> []" "typeof_object (get record ''manifest'')" "me = []"
      "\<forall>r \<in> set rs. sr_verified r" "primary_errors E jwk (normalizedSeals record) = []"
    by (auto simp: verifyEvidenceRecord_def bindE_Inr Let_def seal_errors_Nil split: if_splits)
  show "record_events record \<noteq> []" "typeof_object (get record ''manifest'')" "primary_errors E jwk (normalizedSeals record) = []"
    using nil by auto
  show "manifest_errors E (get record ''manifest'') (record_events record) = Inr []" using me nil by simp
  show "\<forall>s \<in> set (normalizedSeals record). \<exists>r. verify_seal E (get record ''manifest'') s = Inr r \<and> sr_verified r"
  proof
    fix s assume "s \<in> set (normalizedSeals record)"
    then obtain r where "r \<in> set rs" "verify_seal E (get record ''manifest'') s = Inr r"
      using rs unfolding mapE_Inr list_all2_conv_all_nth in_set_conv_nth by metis
    then show "\<exists>r. verify_seal E (get record ''manifest'') s = Inr r \<and> sr_verified r" using nil by auto
  qed
qed

lemma typeof_object_truthy: "typeof_object v \<Longrightarrow> truthy v"
  by (cases v) auto

lemma verified_chain:
  assumes "verifyEvidenceRecord E record jwk = Inr v" "vr_verified v"
  defines "m \<equiv> get record ''manifest''" and "es \<equiv> record_events record"
  shows "chained record_prev record_hash (event_ok (ve_hash E) m) GENESIS_HASH es" "sequenced 1 es"
    "get (get m ''evidence'') ''headHash'' = JStr (head_hash record_hash GENESIS_HASH es)"
    "get (get m ''evidence'') ''eventHashes'' = JArr (map (\<lambda>e. JStr (record_hash e)) es)"
    "get (get m ''evidence'') ''eventCount'' = JInt (int (length es))"
    "member_errors E m es = Inr []"
proof -
  note parts = verified_parts[OF assms(1,2), folded m_def es_def]
  obtain errs head hashes where r: "verify_events (ve_hash E) m 1 GENESIS_HASH es = (errs, head, hashes)" by (metis prod_cases3)
  have "truthy m" using parts(2) by (rule typeof_object_truthy)
  with parts(3) r have e: "errs = []" "evidence_errors (get m ''evidence'') (length es) head hashes = []" "member_errors E m es = Inr []"
    by (auto simp: manifest_errors_def Let_def bindE_Inr)
  from r e(1) have c: "chained record_prev record_hash (event_ok (ve_hash E) m) GENESIS_HASH es \<and> sequenced 1 es \<and>
      head = head_hash record_hash GENESIS_HASH es \<and> hashes = map record_hash es"
    using verify_events_ok[of "ve_hash E" m 1 GENESIS_HASH es head hashes] by simp
  then show "chained record_prev record_hash (event_ok (ve_hash E) m) GENESIS_HASH es" "sequenced 1 es" by auto
  show "get (get m ''evidence'') ''headHash'' = JStr (head_hash record_hash GENESIS_HASH es)"
    "get (get m ''evidence'') ''eventHashes'' = JArr (map (\<lambda>e. JStr (record_hash e)) es)"
    "get (get m ''evidence'') ''eventCount'' = JInt (int (length es))"
    using e(2) c by (auto simp: evidence_errors_def Let_def comp_def split: if_splits)
  show "member_errors E m es = Inr []" by (rule e(3))
qed

lemma primary_seal_mem: "primary_seal seals = Some s \<Longrightarrow> s \<in> set seals"
  by (cases seals) (auto simp: primary_seal_def Let_def js_or_def find_Some_iff split: option.splits if_splits)

lemma verified_primary:
  assumes "verifyEvidenceRecord E record jwk = Inr v" "vr_verified v"
  obtains s where "primary_seal (normalizedSeals record) = Some s"
    "verifyDetachedIntegritySeal (ve_primitives E) (get record ''manifest'') s [''vasi-integrity-seal/v1'']"
    "truthy jwk \<Longrightarrow> same_hash (ve_hash E) (get s ''publicJWK'') jwk"
proof -
  note parts = verified_parts[OF assms]
  from parts(5) obtain s where s: "primary_seal (normalizedSeals record) = Some s" "get s ''profile'' = JStr ''vasi-integrity-seal/v1''"
    and k: "truthy jwk \<Longrightarrow> same_hash (ve_hash E) (get s ''publicJWK'') jwk"
    by (auto simp: primary_errors_def same_hash_def split: option.splits if_splits sum.splits)
  from primary_seal_mem[OF s(1)] parts(4) obtain r where "verify_seal E (get record ''manifest'') s = Inr r" "sr_verified r" by blast
  with s(2) have "verifyDetachedIntegritySeal (ve_primitives E) (get record ''manifest'') s [''vasi-integrity-seal/v1'']"
    by (auto simp: verify_seal_def guardE_Inr)
  then show thesis by (rule that[OF s(1) _ k])
qed

lemma detached_seal_hash:
  assumes "verifyDetachedIntegritySeal P m s profiles"
  obtains t where "canonicalJSON m = Inr t" "get s ''manifestHash'' = JStr (sha256Hex P t)"
  using assms by (auto simp: verifyDetachedIntegritySeal_def split: option.splits sum.splits)

section \<open>Records of a sound ledger\<close>

lemma mapE_exists:
  assumes "\<forall>x \<in> set xs. \<exists>y. f x = Inr y \<and> Q y"
  shows "\<exists>ys. mapE f xs = Inr ys \<and> (\<forall>y \<in> set ys. Q y)"
  using assms
proof (induction xs)
  case (Cons x xs)
  then obtain y ys where "f x = Inr y" "Q y" "mapE f xs = Inr ys" "\<forall>y \<in> set ys. Q y" by auto
  then show ?case by (intro exI[of _ "y # ys"]) simp
qed simp

definition sealed_record :: "js list \<Rightarrow> js \<Rightarrow> js list \<Rightarrow> js" where
  "sealed_record events manifest seals =
     JObj [(''events'', JArr events), (''manifest'', manifest), (''seal'', hd seals), (''seals'', JArr seals)]"

text \<open>The events of a chain name its assignment, and one request and tenant.\<close>

definition links_bound :: "string \<Rightarrow> string \<Rightarrow> string \<Rightarrow> ('k, 'c) link list \<Rightarrow> bool" where
  "links_bound assignmentId requestId tenantId rs =
     list_all (\<lambda>r. get (lk_data r) ''assignmentId'' = JStr assignmentId \<and> get (lk_data r) ''requestId'' = JStr requestId \<and>
       get (lk_data r) ''tenantId'' = JStr tenantId) rs"

definition manifest_binds :: "js \<Rightarrow> string \<Rightarrow> string \<Rightarrow> string \<Rightarrow> bool" where
  "manifest_binds m assignmentId requestId tenantId =
     (get (get m ''assignment'') ''id'' = JStr assignmentId \<and> get (get m ''request'') ''id'' = JStr requestId \<and>
      get (get m ''tenant'') ''id'' = JStr tenantId)"

lemma get_event_js [simp]:
  "get (event_js r) ''sequence'' = JInt (lk_sequence r)" "get (event_js r) ''eventData'' = lk_data r"
  "get (event_js r) ''previousHash'' = JStr (lk_previousHash r)" "get (event_js r) ''eventHash'' = JStr (lk_eventHash r)"
  by (simp_all add: event_js_def)

lemma verify_ledger_events:
  assumes "chained lk_previousHash lk_eventHash (link_ok H) p rs" "numbered (int n) rs" "links_bound a q t rs" "manifest_binds m a q t"
  shows "verify_events H m n p (map event_js rs) = ([], head_hash lk_eventHash p rs, map lk_eventHash rs)"
proof -
  have c: "chained record_prev record_hash (event_ok H m) p (map event_js rs)"
    using assms(1,3,4)
    by (induction rs arbitrary: p) (auto simp: event_ok_def link_ok_def links_bound_def manifest_binds_def strict_eq_def Let_def)
  have s: "sequenced n (map event_js rs)" using assms(2)
    by (induction rs arbitrary: n) (auto simp: algebra_simps)
  have h: "head_hash record_hash p (map event_js rs) = head_hash lk_eventHash p rs"
    by (induction rs arbitrary: p) auto
  show ?thesis using c s h by (simp add: verify_events_ok comp_def)
qed

lemma head_hash_last: "rs \<noteq> [] \<Longrightarrow> head_hash hash p rs = hash (last rs)"
  by (induction rs arbitrary: p) auto

lemma numbered_last: "numbered n rs \<Longrightarrow> rs \<noteq> [] \<Longrightarrow> lk_sequence (last rs) = n + int (length rs) - 1"
  by (induction rs arbitrary: n) (auto split: if_splits)

lemma ledger_evidence_errors:
  assumes "numbered 1 rs" "rs \<noteq> []"
  shows "evidence_errors (manifest_evidence (map event_js rs)) (length rs) (head_hash lk_eventHash GENESIS_HASH rs) (map lk_eventHash rs) = []"
proof -
  have "hd (map event_js rs) = event_js (hd rs)" "last (map event_js rs) = event_js (last rs)"
    using assms(2) by (simp_all add: hd_map last_map)
  moreover have "lk_sequence (hd rs) = 1" using assms by (cases rs) auto
  ultimately show ?thesis
    using numbered_last[OF assms] head_hash_last[OF assms(2)]
    by (simp add: evidence_errors_def manifest_evidence_def Let_def comp_def)
qed

text \<open>
  The seals of the provider, with the time and the role that are added to them, pass the check of
  every seal and of the primary seal.
\<close>

lemma provider_seals_verify:
  fixes stamp :: js
  assumes "signManifest (ve_primitives E) (ve_x509 E) (ve_runtime E) p m = Inr seals" "sound_signing (ve_primitives E) (ve_x509 E) (ve_runtime E)"
    and "createSigningProvider (ve_primitives E) (ve_x509 E) (ve_runtime E) parse settings = Inr p"
  defines "stored \<equiv> map (\<lambda>s. with_member s ''createdAt'' stamp) seals"
  shows "stored \<noteq> []" "\<exists>rs. mapE (verify_seal E m) stored = Inr rs \<and> (\<forall>r \<in> set rs. sr_verified r)"
    "primary_errors E (sp_primaryPublicJWK p) stored = []" "truthy (hd stored)"
proof -
  let ?P = "ve_primitives E"
  from sign_Inr[OF assms(1)[unfolded signManifest_def] assms(2)] obtain bytes sk rest where
    b: "canonicalJSON m = Inr bytes" "private_key ?P (sp_privateJWK p) = Some sk"
    and seals: "seals = with_member (detached_seal ?P (JStr (sp_keyId p)) bytes sk ''vasi-integrity-seal/v1'') ''role'' (JStr ''vasi_integrity'') # rest"
    and rest: "\<forall>s \<in> set rest. \<exists>ps. s = with_member (JObj ps) ''role'' (JStr ''certificate'') \<and> map_of ps ''role'' = None \<and>
       get (JObj ps) ''profile'' = JStr ''vasi-certificate-seal/v1'' \<and> verifyCertificateSeal ?P (ve_x509 E) (ve_runtime E) m (JObj ps)"
    by blast
  obtain ps where ps: "detached_seal ?P (JStr (sp_keyId p)) bytes sk ''vasi-integrity-seal/v1'' = JObj ps" "map_of ps ''role'' = None"
    "map_of ps ''profile'' = Some (JStr ''vasi-integrity-seal/v1'')" "map_of ps ''publicJWK'' = Some (public_of ?P sk)"
    by (simp add: detached_seal_def)
  let ?first = "JObj (ps @ [(''role'', JStr ''vasi_integrity''), (''createdAt'', stamp)])"
  have first: "hd stored = ?first" "stored = ?first # map (\<lambda>s. with_member s ''createdAt'' stamp) rest"
    by (simp_all add: stored_def seals ps(1))
  have vf: "verifyDetachedIntegritySeal ?P m ?first [''vasi-integrity-seal/v1'']"
    using detached_seal_verifies[OF assms(2) b(2,1), of "''vasi-integrity-seal/v1''" "[''vasi-integrity-seal/v1'']" "JStr (sp_keyId p)"]
      verify_detached_with_member[of "''createdAt''" ?P m "ps @ [(''role'', JStr ''vasi_integrity'')]"]
      verify_detached_with_member[of "''role''" ?P m ps] by (simp add: ps(1))
  have g: "get ?first ''profile'' = JStr ''vasi-integrity-seal/v1''" "get ?first ''role'' = JStr ''vasi_integrity''"
    "get ?first ''publicJWK'' = public_of ?P sk"
    using ps by (simp_all add: map_add_def)
  show "stored \<noteq> []" "truthy (hd stored)" using first by auto
  have v: "\<exists>r. verify_seal E m s = Inr r \<and> sr_verified r" if "s \<in> set stored" for s
  proof (cases "s = ?first")
    case True
    then show ?thesis using vf g by (simp add: verify_seal_def nullish_def)
  next
    case False
    with that first rest obtain qs where qs: "s = with_member (with_member (JObj qs) ''role'' (JStr ''certificate'')) ''createdAt'' stamp"
      "get (JObj qs) ''profile'' = JStr ''vasi-certificate-seal/v1''" "verifyCertificateSeal ?P (ve_x509 E) (ve_runtime E) m (JObj qs)" by auto
    have "verifyCertificateSeal ?P (ve_x509 E) (ve_runtime E) m s"
      using qs(3) verify_certificate_with_member[of "''createdAt''" ?P "ve_x509 E" "ve_runtime E" m "qs @ [(''role'', JStr ''certificate'')]"]
        verify_certificate_with_member[of "''role''" ?P "ve_x509 E" "ve_runtime E" m qs] by (simp add: qs(1))
    moreover have "get s ''profile'' = JStr ''vasi-certificate-seal/v1''"
      using qs(2) get_with_member_other[of "''profile''" "''createdAt''" "qs @ [(''role'', JStr ''certificate'')]"]
        get_with_member_other[of "''profile''" "''role''" qs] by (simp add: qs(1))
    ultimately show ?thesis using qs(1) by (simp add: verify_seal_def nullish_def)
  qed
  show "\<exists>rs. mapE (verify_seal E m) stored = Inr rs \<and> (\<forall>r \<in> set rs. sr_verified r)"
    using v by (intro mapE_exists) blast
  have "primary_seal stored = Some ?first"
    using g(2) by (simp add: primary_seal_def first(2) js_or_def)
  then show "primary_errors E (sp_primaryPublicJWK p) stored = []"
    using g createSigningProvider_key(1)[OF assms(3) b(2)]
    by (auto simp: primary_errors_def same_hash_def split: sum.splits)
qed

lemma record_verifies:
  assumes "chain_ok (ve_hash E) k L" "lg_heads L k = Some h" "links_of k L \<noteq> []" "links_bound k q t (links_of k L)" "manifest_binds m k q t"
    and "get m ''evidence'' = manifest_evidence (evidenceEvents L k)" "is_object m" "member_errors E m (evidenceEvents L k) = Inr []"
    and "signManifest (ve_primitives E) (ve_x509 E) (ve_runtime E) p m = Inr seals" "sound_signing (ve_primitives E) (ve_x509 E) (ve_runtime E)"
    and "createSigningProvider (ve_primitives E) (ve_x509 E) (ve_runtime E) parse settings = Inr p"
  shows "\<exists>v. verifyEvidenceRecord E (sealed_record (evidenceEvents L k) m (map (\<lambda>s. with_member s ''createdAt'' stamp) seals)) (sp_primaryPublicJWK p) = Inr v \<and> vr_verified v"
proof -
  let ?rs = "links_of k L" and ?seals = "map (\<lambda>s. with_member s ''createdAt'' stamp) seals"
  note hd = chain_ok_head[OF assms(1,2)]
  have ev: "evidenceEvents L k = map event_js ?rs" using hd by (simp add: evidenceEvents_def)
  note ps = provider_seals_verify[OF assms(9,10,11), where stamp=stamp]
  from ps(2) obtain rs where rs: "mapE (verify_seal E m) ?seals = Inr rs" "\<forall>r \<in> set rs. sr_verified r" by blast
  have "truthy m" "typeof_object m" using assms(7) by (cases m; simp)+
  moreover have "verify_events (ve_hash E) m 1 GENESIS_HASH (evidenceEvents L k) = ([], head_hash lk_eventHash GENESIS_HASH ?rs, map lk_eventHash ?rs)"
    unfolding ev by (rule verify_ledger_events) (use hd assms(4,5) in auto)
  ultimately have "manifest_errors E m (evidenceEvents L k) = Inr []"
    using ledger_evidence_errors[of ?rs] hd assms(3,6,8) by (simp add: manifest_errors_def ev)
  moreover have "normalizedSeals (sealed_record (evidenceEvents L k) m ?seals) = ?seals"
    using ps(1) by (cases seals) (simp_all add: normalizedSeals_def sealed_record_def)
  ultimately show ?thesis
    using rs ps(1,3) \<open>typeof_object m\<close> assms(3)
    by (simp add: verifyEvidenceRecord_def sealed_record_def record_events_def Let_def seal_errors_Nil[THEN iffD2] ev)
qed

section \<open>Assurance and admission of a verified record\<close>

lemma plain_schema:
  assumes "get m ''schema'' = JStr ''vasi-evidence-manifest/v1''" "set ns \<subseteq> {5, 6, 7, 8, 9, 10}"
  shows "\<not> schema_in m ns"
proof -
  have "''vasi-evidence-manifest/v1'' \<notin> manifest_schema ` {5, 6, 7, 8, 9, 10}" by code_simp
  then show ?thesis using assms by (auto simp: schema_in_def)
qed

lemma sequenced_distinct: "sequenced n es \<Longrightarrow> distinct es"
proof -
  have lower: "sequenced n es \<Longrightarrow> e \<in> set es \<Longrightarrow> \<exists>k \<ge> n. get e ''sequence'' = JInt (int k)" for n es e
    by (induction es arbitrary: n) (auto, metis Suc_leD)
  show "sequenced n es \<Longrightarrow> distinct es"
  proof (induction es arbitrary: n)
    case (Cons e es)
    then show ?case using lower[of "Suc n" es e] by auto
  qed simp
qed

lemma event_by_id_Some:
  assumes "event_by_id es i = Some e"
  shows "e \<in> set es" "get (get e ''eventData'') ''eventId'' = JStr i"
proof -
  from assms obtain n where "n < length (rev es)" "rev es ! n = e" "get (get e ''eventData'') ''eventId'' = JStr i"
    by (auto simp: event_by_id_def find_Some_iff)
  then show "e \<in> set es" "get (get e ''eventData'') ''eventId'' = JStr i" by (metis nth_mem set_rev, blast)
qed

lemma assurance_entry_material:
  assumes "assurance_entry m es bound entry = Some (i, e)"
  shows "event_by_id es i = Some e" "material_event m e" "i \<notin> set bound"
proof -
  from assms obtain k where k: "event_by_id es i = Some e" "i \<notin> set bound" "event_type_of e = JStr k" "k \<in> set AUTHENTICATION_ASSURANCE_EVENT_TYPES"
    "strict_eq (get (event_actor e) ''principalId'') (get (get m ''assignment'') ''principalId'')"
    by (auto simp: assurance_entry_def split: option.splits if_splits)
  then show "event_by_id es i = Some e" "material_event m e" "i \<notin> set bound" by (auto simp: material_event_def)
qed

definition evaluated :: "verifier_env \<Rightarrow> auth_policy \<Rightarrow> js \<Rightarrow> bool" where
  "evaluated E policy e \<longleftrightarrow> (\<exists>x. evaluateAuthenticationAssurance (ve_runtime E) (auth_policy_js policy) (event_actor e)
       (get (get e ''eventData'') ''receivedAt'') = Inr x \<and> ev_satisfied x \<and>
     same_hash (ve_hash E) (evaluation_js x) (get (event_payload e) ''authenticationAssurance''))"

lemma evaluation_errors_Nil: "assurance_evaluation_errors E policy e entry = [] \<Longrightarrow> evaluated E policy e"
  by (auto simp: assurance_evaluation_errors_def evaluated_def unless_code_def split: sum.splits if_splits)

lemma assurance_entries_Nil:
  assumes "assurance_entries E policy m es bound entries = ([], bound')" "distinct bound"
  shows "distinct bound' \<and> length bound' = length bound + length entries \<and>
    (\<forall>i \<in> set bound' - set bound. \<exists>e. event_by_id es i = Some e \<and> material_event m e \<and> evaluated E policy e)"
  using assms
proof (induction entries arbitrary: bound)
  case (Cons entry rest)
  then obtain i e where ie: "assurance_entry m es bound entry = Some (i, e)"
    and r: "assurance_entries E policy m es (i # bound) rest = ([], bound')" "assurance_evaluation_errors E policy e entry = []"
    by (auto split: option.splits prod.splits)
  note a = assurance_entry_material[OF ie]
  from Cons.IH[OF r(1)] Cons.prems(2) a evaluation_errors_Nil[OF r(2)] show ?case by auto
qed simp

lemma same_size_image:
  assumes "finite B" "inj_on f A" "f ` A \<subseteq> B" "card A = card B"
  shows "f ` A = B"
  using assms by (metis card_image card_subset_eq)

lemma assurance_evidence_Nil:
  assumes "verifyAuthenticationAssuranceEvidence E v m es = []" "distinct es"
  shows "\<exists>policy. authenticationAssurancePolicy (get (get m ''request'') ''accessPolicy'') = Inr policy \<and>
    (\<forall>e \<in> set es. material_event m e \<longrightarrow> evaluated E policy e)"
proof -
  from assms(1) obtain evals policy bound where p: "authenticationAssurancePolicy (get (get m ''request'') ''accessPolicy'') = Inr policy"
    and ent: "assurance_entries E policy m es [] evals = ([], bound)"
    and len: "length (filter (material_event m) es) = length evals"
    by (auto simp: verifyAuthenticationAssuranceEvidence_def unless_code_def Let_def split: option.splits sum.splits if_splits prod.splits)
  note b = assurance_entries_Nil[OF ent]
  let ?f = "\<lambda>i. the (event_by_id es i)" and ?M = "set (filter (material_event m) es)"
  have "inj_on ?f (set bound)"
  proof (rule inj_onI)
    fix i j assume "i \<in> set bound" "j \<in> set bound" "?f i = ?f j"
    moreover from this b obtain d e where "event_by_id es i = Some d" "event_by_id es j = Some e" by fastforce
    ultimately show "i = j" using event_by_id_Some(2)[of es i d] event_by_id_Some(2)[of es j e] by simp
  qed
  moreover have "?f ` set bound \<subseteq> ?M" using b event_by_id_Some(1) by fastforce
  moreover have "card (set bound) = card ?M"
    using b len distinct_card[of bound] distinct_card[OF distinct_filter[OF assms(2)]] by simp
  ultimately have "?f ` set bound = ?M" by (intro same_size_image) auto
  moreover have "evaluated E policy (?f i)" if "i \<in> set bound" for i using b that by fastforce
  ultimately have "\<forall>e \<in> ?M. evaluated E policy e" by (metis (no_types, lifting) imageE)
  then have "evaluated E policy e" if "e \<in> set es" "material_event m e" for e using that by simp
  with p show ?thesis by blast
qed

lemma verified_members:
  assumes "verifyEvidenceRecord E record jwk = Inr v" "vr_verified v"
  defines "m \<equiv> get record ''manifest''" and "es \<equiv> record_events record"
  shows "schema_in m [8, 9, 10] \<Longrightarrow> verifyRequesterEvidence (get m ''requester'') es = Inr []"
    "schema_in m [9, 10] \<Longrightarrow> verifyTenantAdmissionEvidence E (get m ''admission'') es = Inr []"
    "schema_in m [10] \<Longrightarrow> verifyAuthenticationAssuranceEvidence E (get m ''authenticationAssurance'') m es = []"
  using verified_chain(6)[OF assms(1,2), folded m_def es_def]
  by (auto simp: member_errors_def bindE_Inr Let_def split: if_splits)

section \<open>Members that pass\<close>

abbreviation assurance_of :: "js \<Rightarrow> js" where
  "assurance_of e \<equiv> get (event_payload e) ''authenticationAssurance''"

abbreviation id_of :: "js \<Rightarrow> js" where
  "id_of e \<equiv> get (get e ''eventData'') ''eventId''"

definition assurance_entry_js :: "js \<Rightarrow> js" where
  "assurance_entry_js e = JObj [(''evaluation'', assurance_of e), (''eventId'', id_of e), (''eventType'', event_type_of e)]"

lemma find_unique:
  assumes "x \<in> set xs" "Q x" and unique: "\<And>y. y \<in> set xs \<Longrightarrow> Q y \<Longrightarrow> y = x"
  shows "find Q xs = Some x"
proof (cases "find Q xs")
  case None
  then show ?thesis using assms(1,2) unfolding find_None_iff by blast
next
  case (Some y)
  then have "y \<in> set xs" "Q y" unfolding find_Some_iff by (metis nth_mem, blast)
  then have "y = x" by (rule unique)
  with Some show ?thesis by simp
qed

lemma event_by_id_unique:
  assumes "e \<in> set es" "id_of e = JStr i" "distinct (map id_of es)"
  shows "event_by_id es i = Some e"
proof -
  have "d = e" if "d \<in> set es" "id_of d = JStr i" for d
    using assms that inj_onD[of id_of "set es" d e] by (simp add: distinct_map)
  then show ?thesis
    unfolding event_by_id_def
    by (rule find_unique[of e "rev es" "\<lambda>e. id_of e = JStr i", unfolded set_rev, OF assms(1,2)])
qed

lemma assurance_entry_accepts:
  assumes "e \<in> set es" "material_event m e" "bounded_text (id_of e) 128 = Some i" "distinct (map id_of es)" "i \<notin> set bound"
  shows "assurance_entry m es bound (assurance_entry_js e) = Some (i, e)"
proof -
  from assms(3) have i: "id_of e = JStr i" by (auto simp: bounded_text_def js_simps split: option.splits if_splits)
  from assms(2) obtain k where k: "event_type_of e = JStr k" "k \<in> set AUTHENTICATION_ASSURANCE_EVENT_TYPES"
    "strict_eq (get (event_actor e) ''principalId'') (get (get m ''assignment'') ''principalId'')"
    by (auto simp: material_event_def)
  have "list_all (\<lambda>k. bounded_text (JStr k) 64 = Some k) AUTHENTICATION_ASSURANCE_EVENT_TYPES" by code_simp
  with k(2) have "bounded_text (JStr k) 64 = Some k" by (simp add: list_all_iff)
  then show ?thesis
    using assms(3,5) i k event_by_id_unique[OF assms(1) i assms(4)]
    by (simp add: assurance_entry_def assurance_entry_js_def)
qed

lemma evaluated_no_errors: "evaluated E policy e \<Longrightarrow> assurance_evaluation_errors E policy e (assurance_entry_js e) = []"
  by (auto simp: evaluated_def assurance_evaluation_errors_def unless_code_def assurance_entry_js_def)

lemma assurance_entries_accept:
  assumes "\<forall>e \<in> set xs. e \<in> set es \<and> material_event m e \<and> evaluated E policy e \<and> (\<exists>i. bounded_text (id_of e) 128 = Some i)"
    and "distinct (map id_of es)" "distinct (map id_of xs)" "\<forall>e \<in> set xs. id_of e \<notin> JStr ` set bound"
  shows "\<exists>bound'. assurance_entries E policy m es bound (map assurance_entry_js xs) = ([], bound') \<and>
    JStr ` set bound' = JStr ` set bound \<union> id_of ` set xs"
  using assms
proof (induction xs arbitrary: bound)
  case (Cons e xs)
  then obtain i where i: "bounded_text (id_of e) 128 = Some i" by auto
  then have j: "id_of e = JStr i" by (auto simp: bounded_text_def js_simps split: option.splits if_splits)
  have "i \<notin> set bound" using Cons.prems(4) j by auto
  then have a: "assurance_entry m es bound (assurance_entry_js e) = Some (i, e)"
    using Cons.prems i by (intro assurance_entry_accepts) auto
  have "\<exists>bound'. assurance_entries E policy m es (i # bound) (map assurance_entry_js xs) = ([], bound') \<and>
      JStr ` set bound' = JStr ` set (i # bound) \<union> id_of ` set xs"
  proof (rule Cons.IH)
    show "\<forall>e \<in> set xs. id_of e \<notin> JStr ` set (i # bound)" using Cons.prems(3,4) j by (metis (no_types, lifting) distinct.simps(2) image_insert insert_iff list.map(2) list.set(2) set_map image_eqI)
  qed (use Cons.prems in auto)
  then show ?case using a evaluated_no_errors[of E policy e] Cons.prems(1) j by auto
qed simp

lemma hashable_policy: "authenticationAssurancePolicy v = Inr p \<Longrightarrow> hashable (auth_policy_js p)"
proof -
  assume "authenticationAssurancePolicy v = Inr p"
  then have "p = DEFAULT_AUTHENTICATION_ASSURANCE \<or> auth_policy_ok p"
    using normalizeAuthenticationAssurance_ok by (auto simp: authenticationAssurancePolicy_def guardE_Inr split: if_splits)
  then show ?thesis
    by (auto simp: auth_policy_js_def auth_policy_ok_def DEFAULT_AUTHENTICATION_ASSURANCE_def MAX_SAFE_INTEGER_def split: option.splits)
qed

lemma assurance_evidence_accepts:
  assumes "authenticationAssurancePolicy (get (get m ''request'') ''accessPolicy'') = Inr policy"
    and "authenticationAssurancePolicy (get (get (get m ''workflow'') ''snapshot'') ''access'') = Inr policy"
    and "\<forall>e \<in> set es. truthy (assurance_of e) \<longleftrightarrow> material_event m e"
    and "\<forall>e \<in> set es. material_event m e \<longrightarrow> evaluated E policy e \<and> (\<exists>i. bounded_text (id_of e) 128 = Some i)"
    and "distinct (map id_of es)"
  shows "verifyAuthenticationAssuranceEvidence E
    (JObj [(''evaluations'', JArr (map assurance_entry_js (filter (\<lambda>e. truthy (assurance_of e)) es))), (''policy'', auth_policy_js policy),
       (''schema'', JStr ''vasi-authentication-assurance-evidence/v1'')]) m es = []"
proof -
  let ?xs = "filter (\<lambda>e. truthy (assurance_of e)) es"
  have f: "filter (material_event m) es = ?xs" using assms(3) by (auto intro: filter_cong)
  from hashable_hash[OF hashable_policy[OF assms(1)]] obtain h where h: "hashCanonicalJSON (ve_hash E) (auth_policy_js policy) = Inr h" by blast
  have "\<exists>bound. assurance_entries E policy m es [] (map assurance_entry_js ?xs) = ([], bound) \<and>
      JStr ` set bound = JStr ` set [] \<union> id_of ` set ?xs"
    using assms(3-5) by (intro assurance_entries_accept) (auto simp: distinct_map_filter)
  then show ?thesis
    using assms(1,2) h length_filter_le[of "\<lambda>e. truthy (assurance_of e)" es]
    by (auto simp: verifyAuthenticationAssuranceEvidence_def unless_code_def f list_all_iff not_less)
qed

lemma no_interaction_accepts:
  assumes "\<forall>e \<in> set es. event_type_of e \<noteq> JStr ''activity.interaction.recorded''"
  shows "verifyActivityInteractionEvidence E (JObj [(''batches'', JArr []), (''events'', JArr []), (''summaries'', JArr [])]) es = Inr []"
  using assms by (simp add: verifyActivityInteractionEvidence_def unless_code_def filter_empty_conv List.map_filter_def)

lemma no_context_accepts:
  assumes "\<forall>e \<in> set es. event_type_of e \<noteq> JStr ''participant.context.recorded''" "2 \<le> cp_maxSnapshotsPerActivity p" "cp_maxSnapshotsPerActivity p \<le> 64"
  shows "verifyParticipantContextEvidence E (JObj [(''policy'', context_policy_js p), (''snapshots'', JArr [])]) es = Inr []"
proof -
  have "participantContextPolicy (ve_Number E) (JObj [(''ENGINE_PARTICIPANT_CONTEXT_MAX_SNAPSHOTS_PER_ACTIVITY'', JInt (cp_maxSnapshotsPerActivity p))]) = Inr p"
    using assms(2,3) by (simp add: participantContextPolicy_def settingInteger_def absent_def)
  moreover have "hashable (context_policy_js p)" using assms(2,3) by (simp add: context_policy_js_def MAX_SAFE_INTEGER_def)
  ultimately show ?thesis
    using assms hashable_hash[of "context_policy_js p" "ve_hash E"]
    by (auto simp: verifyParticipantContextEvidence_def unless_code_def filter_empty_conv context_policy_js_def MAX_SAFE_INTEGER_def same_hash_def)
qed

section \<open>Properties\<close>

text \<open>
  C35. A verified record proves its history: its events are numbered from one, each is the preimage
  of its hash and names the hash before it, all belong to the manifest's assignment, request and
  tenant, the manifest lists exactly their hashes and the head, and an integrity seal (under the
  expected key, when one is given) is valid for exactly this manifest.
\<close>

theorem verified_record_sound:
  assumes "verifyEvidenceRecord E record jwk = Inr v" "vr_verified v"
  defines "m \<equiv> get record ''manifest''" and "es \<equiv> record_events record"
  shows "es \<noteq> [] \<and>
    (\<forall>i < length es. get (es ! i) ''sequence'' = JInt (int i + 1) \<and> event_ok (ve_hash E) m (es ! i)) \<and>
    chained record_prev record_hash (event_ok (ve_hash E) m) GENESIS_HASH es \<and>
    get (get m ''evidence'') ''eventHashes'' = JArr (map (\<lambda>e. JStr (record_hash e)) es) \<and>
    get (get m ''evidence'') ''headHash'' = JStr (record_hash (last es)) \<and>
    (\<exists>s \<in> set (normalizedSeals record).
       verifyDetachedIntegritySeal (ve_primitives E) m s [''vasi-integrity-seal/v1''] \<and>
       (truthy jwk \<longrightarrow> same_hash (ve_hash E) (get s ''publicJWK'') jwk))"
proof -
  note chain = verified_chain[OF assms(1,2), folded m_def es_def]
  have ne: "es \<noteq> []" using verified_parts(1)[OF assms(1,2)] by (simp add: es_def)
  have hd: "head_hash record_hash p xs = record_hash (last xs)" if "xs \<noteq> []" for p xs
    using that by (induction xs arbitrary: p) auto
  obtain s where s: "primary_seal (normalizedSeals record) = Some s"
    "verifyDetachedIntegritySeal (ve_primitives E) m s [''vasi-integrity-seal/v1'']"
    "truthy jwk \<longrightarrow> same_hash (ve_hash E) (get s ''publicJWK'') jwk"
    using verified_primary[OF assms(1,2)] unfolding m_def by metis
  have "get (es ! i) ''sequence'' = JInt (int i + 1)" if "i < length es" for i
    using sequenced_nth[OF chain(2) that] by (simp add: add.commute)
  then show ?thesis
    using ne chain hd[OF ne] s primary_seal_mem[OF s(1)] chained_ok[OF chain(1)] by auto
qed

text \<open>
  A sealed record cannot be rewritten: two verified records whose primary seals carry the same
  manifest hash have the same manifest and the same event texts in the same order, unless two of
  their texts collide under the hash or an event text hashes to the genesis value.
\<close>

theorem verified_records_agree:
  assumes "verifyEvidenceRecord E A jwk = Inr v" "vr_verified v"
    and "verifyEvidenceRecord E B jwk' = Inr w" "vr_verified w"
    and "primary_seal (normalizedSeals A) = Some s" "primary_seal (normalizedSeals B) = Some t"
    and "get s ''manifestHash'' = get t ''manifestHash''"
  shows "(canonicalValue (get A ''manifest'') = canonicalValue (get B ''manifest'') \<and>
      map record_text (record_events A) = map record_text (record_events B)) \<or>
    (\<exists>a b. canonicalJSON (get A ''manifest'') = Inr a \<and> canonicalJSON (get B ''manifest'') = Inr b \<and>
      a \<noteq> b \<and> ve_hash E a = ve_hash E b) \<or>
    (\<exists>d \<in> set (record_events A). \<exists>e \<in> set (record_events B). record_text d \<noteq> record_text e \<and> ve_hash E (record_text d) = ve_hash E (record_text e)) \<or>
    (\<exists>e \<in> set (record_events A) \<union> set (record_events B). ve_hash E (record_text e) = GENESIS_HASH)"
proof -
  let ?m = "get A ''manifest''" and ?n = "get B ''manifest''"
  have "verifyDetachedIntegritySeal (ve_primitives E) ?m s [''vasi-integrity-seal/v1'']"
    "verifyDetachedIntegritySeal (ve_primitives E) ?n t [''vasi-integrity-seal/v1'']"
    using verified_primary[OF assms(1,2)] verified_primary[OF assms(3,4)] assms(5,6) by (metis option.inject)+
  then obtain a b where ab: "canonicalJSON ?m = Inr a" "canonicalJSON ?n = Inr b" and h: "ve_hash E a = ve_hash E b"
    using assms(7) by (elim detached_seal_hash) auto
  show ?thesis
  proof (cases "a = b")
    case True
    then have eq: "canonicalValue ?m = canonicalValue ?n" using canonicalJSON_inject[OF ab(1)] ab(2) by simp
    note cA = verified_chain[OF assms(1,2)] and cB = verified_chain[OF assms(3,4)]
    from ab(1) obtain u where u: "canonicalValue ?m = Inr u" unfolding canonicalJSON_Inr by blast
    have "head_hash record_hash GENESIS_HASH (record_events A) = head_hash record_hash GENESIS_HASH (record_events B)"
      using canonical_nested[OF u cA(3)] canonical_nested[OF u[unfolded eq] cB(3)] by (simp add: proto_names_def)
    moreover have "chained record_prev record_hash (\<lambda>e. \<exists>m. event_ok (ve_hash E) m e) GENESIS_HASH (record_events A)"
      by (rule chained_weaken[OF cA(1)]) blast
    moreover have "chained record_prev record_hash (\<lambda>e. \<exists>m. event_ok (ve_hash E) m e) GENESIS_HASH (record_events B)"
      by (rule chained_weaken[OF cB(1)]) blast
    ultimately show ?thesis using record_chain.same_head[of "ve_hash E" GENESIS_HASH "record_events A" "record_events B"] eq by blast
  next
    case False
    with ab h show ?thesis by blast
  qed
qed


text \<open>
  C37. In a verified record of the current schema every material event of the participant (opening,
  saving, answering, presenting or downloading a document, media telemetry) was made under
  satisfied authentication assurance: evaluating the request's policy on the recorded actor at the
  recorded time is satisfied, and the event itself carries that evaluation.
\<close>

theorem verified_assurance:
  assumes "verifyEvidenceRecord E record jwk = Inr v" "vr_verified v" "get (get record ''manifest'') ''schema'' = JStr ''vasi-evidence-manifest/v10''"
  shows "\<exists>policy. authenticationAssurancePolicy (get (get (get record ''manifest'') ''request'') ''accessPolicy'') = Inr policy \<and>
    (\<forall>e \<in> set (record_events record). material_event (get record ''manifest'') e \<longrightarrow>
       (\<exists>x. evaluateAuthenticationAssurance (ve_runtime E) (auth_policy_js policy) (event_actor e) (get (get e ''eventData'') ''receivedAt'') = Inr x \<and>
          ev_satisfied x \<and> same_hash (ve_hash E) (evaluation_js x) (get (event_payload e) ''authenticationAssurance'')))"
proof -
  have "schema_in (get record ''manifest'') [10]" using assms(3) by (simp add: schema_in_def manifest_schema_def) code_simp
  from verified_members(3)[OF assms(1,2) this] have "verifyAuthenticationAssuranceEvidence E (get (get record ''manifest'') ''authenticationAssurance'')
      (get record ''manifest'') (record_events record) = []" .
  from assurance_evidence_Nil[OF this] sequenced_distinct[OF verified_chain(2)[OF assms(1,2)]] show ?thesis
    unfolding evaluated_def by blast
qed

text \<open>
  C38. A verified record that carries a tenant admission was issued by an admitted tenant: the
  snapshot has all eight gates approved, its hash is the recorded one, and the event that issued the
  request already carried the same snapshot.
\<close>

theorem verified_admission:
  assumes "verifyEvidenceRecord E record jwk = Inr v" "vr_verified v" "schema_in (get record ''manifest'') [9, 10]"
  defines "a \<equiv> get (get record ''manifest'') ''admission''"
  shows "\<exists>admission e. validateTenantAdmission (get a ''admission'') = Inr admission \<and>
    map g_id (am_gates admission) = TENANT_ADMISSION_GATES \<and> (\<forall>g \<in> set (am_gates admission). g_state g \<noteq> Pending) \<and>
    hashCanonicalJSON (ve_hash E) (admission_js admission) = Inr (text_or_empty (get a ''admissionHash'')) \<and>
    e \<in> set (record_events record) \<and> event_type_of e \<in> {JStr ''request.issued'', JStr ''request.scheduled''} \<and>
    same_hash (ve_hash E) (get (event_payload e) ''admission'') a"
proof -
  from verified_members(2)[OF assms(1-3)] obtain admission h e where
    v: "validateTenantAdmission (get a ''admission'') = Inr admission" "am_status admission = ''admitted''"
    and h: "hashCanonicalJSON (ve_hash E) (admission_js admission) = Inr h" "get a ''admissionHash'' = JStr h"
    and e: "issuance_event (record_events record) = Some e" "same_hash (ve_hash E) (get (event_payload e) ''admission'') a"
    by (auto simp: verifyTenantAdmissionEvidence_def a_def bindE_Inr unless_code_def split: if_splits sum.splits option.splits)
  have "admission_ok admission" by (rule validateTenantAdmission_ok[OF v(1)])
  moreover from e(1) have "e \<in> set (record_events record)" "event_type_of e \<in> {JStr ''request.issued'', JStr ''request.scheduled''}"
    unfolding issuance_event_def find_Some_iff by (metis nth_mem, blast)
  ultimately show ?thesis
    using v h e(2) derived_admitted by (auto simp: admission_ok_def)
qed

text \<open>
  Interaction batches of a participant whose principal identifier has more than 128 characters
  are refused by the verifier, although the engine accepts such identifiers up to 512 characters:
  every list of batches with one yields an error.
\<close>

theorem long_principal_batch_refused:
  assumes "get b ''actorPrincipalId'' = JStr actorId" "128 < length actorId" "b \<in> set vs"
    and "ix_batches T H chain events seen vs = Inr (errs, batches)"
  shows "''activity_interaction_batch_invalid'' \<in> set errs"
proof -
  have "parse_ix_batch T b = Inr None"
    using assms(1,2) by (auto simp: parse_ix_batch_def bounded_text_def split: option.split)
  then show ?thesis using assms(3,4)
    by (induction vs arbitrary: seen errs)
      (fastforce simp: bindE_Inr with_errors_def split: option.splits if_splits)+
qed

section \<open>Witnesses\<close>

text \<open>A record of the current schema: issued with an admission, then opened by the participant.\<close>

definition no_x509 :: x509_provider where
  "no_x509 = \<lparr>x5_parse = (\<lambda>_. None), x5_private = (\<lambda>_. None), x5_private_type = (\<lambda>_. []), x5_matches = (\<lambda>_ _. False),
     x5_sign = (\<lambda>_ _ _. []), x5_verify = (\<lambda>_ _ _ _. False)\<rparr>"

definition demo_env :: verifier_env where
  "demo_env = \<lparr>ve_primitives = demo_primitives, ve_x509 = no_x509,
     ve_runtime = \<lparr>new_URL = (\<lambda>_. None), parse_date = (\<lambda>s. if canonical_iso s then Some (iso_time s) else None)\<rparr>,
     ve_Number = (\<lambda>_. NaN), ve_String = (\<lambda>_. [])\<rparr>"

definition demo_time :: string where
  "demo_time = ''1970-01-01T00:16:40.000Z''"

definition demo_admission :: admission where
  "demo_admission = admissionFromGates (map (\<lambda>i. \<lparr>g_id = i,
     g_state = Approved demo_time (replicate 64 (CHR ''a'')) ''ref:1'' ''rev:1''\<rparr>) TENANT_ADMISSION_GATES)"

definition demo_admission_value :: "string \<Rightarrow> js" where
  "demo_admission_value h = JObj [(''admission'', admission_js demo_admission), (''admissionHash'', JStr h), (''bindingProvenance'', JStr ''issued''),
     (''revision'', JInt 1), (''revisionId'', JStr ''ar1'')]"

definition demo_requester :: requester where
  "demo_requester = \<lparr>rq_email = JStr ''p@example.org'', rq_principalId = ''p1'', rq_provenance = ''authenticated_actor_at_issuance''\<rparr>"

definition demo_manifest :: "js \<Rightarrow> js list \<Rightarrow> js" where
  "demo_manifest admission events = JObj
     [(''activityInteraction'', JObj [(''batches'', JArr []), (''events'', JArr []), (''summaries'', JArr [])]),
      (''admission'', admission),
      (''assignment'', JObj [(''id'', JStr ''as1''), (''principalId'', JStr ''p1'')]),
      (''authenticationAssurance'', JObj [(''evaluations'', JArr (map assurance_entry_js (filter (\<lambda>e. truthy (assurance_of e)) events))),
        (''policy'', auth_policy_js DEFAULT_AUTHENTICATION_ASSURANCE), (''schema'', JStr ''vasi-authentication-assurance-evidence/v1'')]),
      (''evidence'', manifest_evidence events),
      (''notificationDelivery'', delivery_js \<lparr>de_capturedAt = demo_time, de_jobs = []\<rparr>),
      (''participantContext'', JObj [(''policy'', context_policy_js \<lparr>cp_maxSnapshotsPerActivity = 16\<rparr>), (''snapshots'', JArr [])]),
      (''request'', JObj [(''id'', JStr ''rq1'')]), (''requester'', requester_js demo_requester),
      (''schema'', JStr ''vasi-evidence-manifest/v10''), (''tenant'', JObj [(''id'', JStr ''t1'')]),
      (''timestamps'', JObj [(''completedAt'', JStr demo_time)])]"

definition demo_opened :: "evaluation \<Rightarrow> event_input" where
  "demo_opened x = demo_event\<lparr>ei_eventType := ''participant.opened'', ei_receivedAt := 1000000,
     ei_payload := JObj [(''authenticationAssurance'', evaluation_js x)]\<rparr>"

abbreviation demo_parse :: "js \<Rightarrow> js option" where
  "demo_parse \<equiv> (\<lambda>_. Some (JObj []))"

definition demo_signing_settings :: js where
  "demo_signing_settings = JObj [(''EVIDENCE_SEAL_KEY_ID'', JStr ''k1'')]"

abbreviation demo_sign :: "signing_provider \<Rightarrow> js \<Rightarrow> js list res" where
  "demo_sign \<equiv> signManifest (ve_primitives demo_env) (ve_x509 demo_env) (ve_runtime demo_env)"

lemma demo_sound_signing: "sound_signing (ve_primitives demo_env) (ve_x509 demo_env) (ve_runtime demo_env)"
  by (simp add: sound_signing_def demo_env_def demo_primitives_def no_x509_def)

lemma demo_provider:
  obtains p where "createSigningProvider (ve_primitives demo_env) (ve_x509 demo_env) (ve_runtime demo_env) demo_parse demo_signing_settings = Inr p"
    "\<And>m. hashable m \<Longrightarrow> \<exists>s. demo_sign p m = Inr s"
proof -
  have "(case createSigningProvider (ve_primitives demo_env) (ve_x509 demo_env) (ve_runtime demo_env) demo_parse demo_signing_settings of
      Inr p \<Rightarrow> sp_certificate p = None | Inl _ \<Rightarrow> False)" by code_simp
  then obtain p where p: "createSigningProvider (ve_primitives demo_env) (ve_x509 demo_env) (ve_runtime demo_env) demo_parse demo_signing_settings = Inr p"
    "sp_certificate p = None" by (auto split: sum.splits)
  have "seal_profile_shape ''vasi-integrity-seal/v1''" by code_simp
  then have "\<exists>s. demo_sign p m = Inr s" if "hashable m" for m
    using hashable_canonical[OF that] p(2)
    by (auto simp: signManifest_def sign_def bindE_Inr createDetachedIntegritySeal_Inr canonicalJSON_def demo_env_def demo_primitives_def)
  with p(1) show thesis by (rule that)
qed

lemma appendEvent_total:
  assumes "lg_heads L (ei_assignmentId i) = Some h" "hashable (event_data (actorSnapshot a) eid i (hd_lastSequence h + 1) (hd_lastHash h))"
  shows "\<exists>r L'. appendEvent H a eid i L = Inr (r, L')"
  using hashable_hash[OF assms(2), of H] assms(1) by (auto simp: appendEvent_def append_link_def Let_def bindE_Inr)

lemma hashable_demo_actor: "hashable (actorSnapshot demo_actor)"
  by code_simp

lemma demo_evaluation:
  obtains x where "evaluateAuthenticationAssurance (ve_runtime demo_env) (auth_policy_js DEFAULT_AUTHENTICATION_ASSURANCE) (actorSnapshot demo_actor)
      (JStr demo_time) = Inr x" "ev_satisfied x"
proof -
  have "(case evaluateAuthenticationAssurance (ve_runtime demo_env) (auth_policy_js DEFAULT_AUTHENTICATION_ASSURANCE) (actorSnapshot demo_actor)
      (JStr demo_time) of Inr x \<Rightarrow> ev_satisfied x | Inl _ \<Rightarrow> False)" by code_simp
  then show thesis by (auto split: sum.splits intro: that)
qed

lemma demo_ledger_events:
  fixes H :: "string \<Rightarrow> string"
  assumes "hashable (evaluation_js x)"
  obtains r1 r2 L where "ledger_run H empty_ledger L" "links_of ''as1'' L = [r1, r2]" "\<exists>h. lg_heads L ''as1'' = Some h" "lk_sequence r1 = 1" "lk_sequence r2 = 2"
    "lk_data r1 = event_data (actorSnapshot demo_actor) ''e1'' (demo_event\<lparr>ei_payload := JObj [(''admission'', demo_admission_value g)]\<rparr>) 1 GENESIS_HASH"
    "lk_data r2 = event_data (actorSnapshot demo_actor) ''e2'' (demo_opened x) 2 (lk_eventHash r1)"
proof -
  let ?i = "demo_event\<lparr>ei_payload := JObj [(''admission'', demo_admission_value g)]\<rparr>"
  have "hashable (admission_js demo_admission)" by code_simp
  then have "hashable (event_data (actorSnapshot demo_actor) ''e1'' ?i 1 GENESIS_HASH)"
    using hashable_demo_actor by (simp add: event_data_def demo_event_def demo_admission_value_def MAX_SAFE_INTEGER_def)
  then have "\<exists>r L. appendEvent H demo_actor ''e1'' ?i demo_ledger = Inr (r, L)"
    by (intro appendEvent_total[where h = "\<lparr>hd_lastSequence = 0, hd_lastHash = GENESIS_HASH\<rparr>"]) (simp_all add: demo_ledger_def open_chain_def demo_event_def)
  then obtain r1 L1 where a1: "appendEvent H demo_actor ''e1'' ?i demo_ledger = Inr (r1, L1)" by blast
  then have L1: "lg_heads L1 ''as1'' = Some \<lparr>hd_lastSequence = 1, hd_lastHash = lk_eventHash r1\<rparr>" "links_of ''as1'' L1 = [r1]"
    "lk_data r1 = event_data (actorSnapshot demo_actor) ''e1'' ?i 1 GENESIS_HASH" "lk_sequence r1 = 1"
    by (auto simp: appendEvent_def append_link_def Let_def bindE_Inr demo_ledger_def open_chain_def demo_event_def empty_ledger_def links_of_def)
  have "hashable (event_data (actorSnapshot demo_actor) ''e2'' (demo_opened x) 2 (lk_eventHash r1))"
    using hashable_demo_actor assms by (simp add: event_data_def demo_opened_def demo_event_def MAX_SAFE_INTEGER_def)
  then have "\<exists>r L. appendEvent H demo_actor ''e2'' (demo_opened x) L1 = Inr (r, L)"
    using L1(1) by (intro appendEvent_total[where h = "\<lparr>hd_lastSequence = 1, hd_lastHash = lk_eventHash r1\<rparr>"]) (simp_all add: demo_opened_def demo_event_def)
  then obtain r2 L2 where a2: "appendEvent H demo_actor ''e2'' (demo_opened x) L1 = Inr (r2, L2)" by blast
  have id2: "ei_assignmentId (demo_opened x) = ''as1''" by (simp add: demo_opened_def demo_event_def)
  then have L2: "links_of ''as1'' L2 = [r1, r2]" "\<exists>h. lg_heads L2 ''as1'' = Some h"
    "lk_data r2 = event_data (actorSnapshot demo_actor) ''e2'' (demo_opened x) 2 (lk_eventHash r1)" "lk_sequence r2 = 2"
    using a2 L1(1,2) by (auto simp: appendEvent_def append_link_def Let_def bindE_Inr links_of_def)
  have "ledger_run H empty_ledger demo_ledger" unfolding demo_ledger_def by (intro run_open run_start) (simp add: empty_ledger_def)
  from run_append[OF run_append[OF this a1] a2] show thesis using L2 L1(3,4) by (intro that)
qed

lemma demo_record_verified:
  obtains r j v where "verifyEvidenceRecord demo_env r j = Inr v" "vr_verified v"
    "get (get r ''manifest'') ''schema'' = JStr ''vasi-evidence-manifest/v10''" "\<exists>s. primary_seal (normalizedSeals r) = Some s"
    "\<exists>e \<in> set (record_events r). material_event (get r ''manifest'') e"
proof -
  let ?R = "ve_runtime demo_env" and ?H = "ve_hash demo_env"
  obtain x where x: "evaluateAuthenticationAssurance ?R (auth_policy_js DEFAULT_AUTHENTICATION_ASSURANCE) (actorSnapshot demo_actor) (JStr demo_time) = Inr x"
    "ev_satisfied x" by (rule demo_evaluation)
  have hx: "hashable (evaluation_js x)" by (rule hashable_evaluation[OF x])
  have ha: "hashable (admission_js demo_admission)" by code_simp
  from hashable_hash[OF ha] obtain g where g: "hashCanonicalJSON ?H (admission_js demo_admission) = Inr g" by blast
  obtain r1 r2 and L :: event_ledger where L: "ledger_run ?H empty_ledger L" "links_of ''as1'' L = [r1, r2]" "\<exists>h. lg_heads L ''as1'' = Some h" "lk_sequence r1 = 1" "lk_sequence r2 = 2"
    "lk_data r1 = event_data (actorSnapshot demo_actor) ''e1'' (demo_event\<lparr>ei_payload := JObj [(''admission'', demo_admission_value g)]\<rparr>) 1 GENESIS_HASH"
    "lk_data r2 = event_data (actorSnapshot demo_actor) ''e2'' (demo_opened x) 2 (lk_eventHash r1)"
    by (rule demo_ledger_events[OF hx, of ?H g])
  obtain h where h: "lg_heads L ''as1'' = Some h" using L(3) by blast
  have ok: "chain_ok ?H ''as1'' L" using ledger_run_chain[OF L(1)] by simp
  let ?es = "[event_js r1, event_js r2]"
  have es: "evidenceEvents L ''as1'' = ?es" using chain_ok_head[OF ok h] L(2) by (simp add: evidenceEvents_def)
  let ?m = "demo_manifest (demo_admission_value g) ?es"
  note d = L(6,7) event_data_def demo_event_def demo_opened_def
  have t: "event_type_of (event_js r1) = JStr ''request.issued''" "event_type_of (event_js r2) = JStr ''participant.opened''"
    "event_payload (event_js r1) = JObj [(''admission'', demo_admission_value g)]" "assurance_of (event_js r1) = JUndef" "assurance_of (event_js r2) = evaluation_js x"
    "event_actor (event_js r1) = actorSnapshot demo_actor" "event_actor (event_js r2) = actorSnapshot demo_actor"
    "id_of (event_js r1) = JStr ''e1''" "id_of (event_js r2) = JStr ''e2''"
    by (simp_all add: d proto_names_def)
  have time: "get (get (event_js r2) ''eventData'') ''receivedAt'' = JStr demo_time"
    unfolding get_event_js d by (simp add: demo_time_def) code_simp
  have mat: "\<not> material_event ?m (event_js r1)" "material_event ?m (event_js r2)"
    by (simp_all add: material_event_def d AUTHENTICATION_ASSURANCE_EVENT_TYPES_def demo_manifest_def strict_eq_def actorSnapshot_def demo_actor_def)
  have ev: "evaluated demo_env DEFAULT_AUTHENTICATION_ASSURANCE (event_js r2)"
    unfolding evaluated_def t time using x hashable_hash[OF hx, of ?H] by (auto simp: same_hash_def)
  have assurance: "verifyAuthenticationAssuranceEvidence demo_env (get ?m ''authenticationAssurance'') ?m ?es = []"
  proof -
    have "truthy (evaluation_js x)" by (simp add: evaluation_js_def)
    then have "\<forall>e \<in> set ?es. truthy (assurance_of e) \<longleftrightarrow> material_event ?m e" using mat t by simp
    moreover have "bounded_text (JStr ''e2'') 128 = Some ''e2''" by code_simp
    then have "\<forall>e \<in> set ?es. material_event ?m e \<longrightarrow> evaluated demo_env DEFAULT_AUTHENTICATION_ASSURANCE e \<and> (\<exists>i. bounded_text (id_of e) 128 = Some i)"
      using mat ev t by simp
    moreover have "authenticationAssurancePolicy (get (get ?m ''request'') ''accessPolicy'') = Inr DEFAULT_AUTHENTICATION_ASSURANCE"
      "authenticationAssurancePolicy (get (get (get ?m ''workflow'') ''snapshot'') ''access'') = Inr DEFAULT_AUTHENTICATION_ASSURANCE"
      by (simp_all add: demo_manifest_def authenticationAssurancePolicy_def nullish_def proto_names_def)
    ultimately show ?thesis
      using assurance_evidence_accepts[of ?m DEFAULT_AUTHENTICATION_ASSURANCE ?es demo_env] t by (simp add: demo_manifest_def)
  qed
  have admission: "verifyTenantAdmissionEvidence demo_env (demo_admission_value g) ?es = Inr []"
  proof -
    have "state_ok (Approved demo_time (replicate 64 (CHR ''a'')) ''ref:1'' ''rev:1'')" by code_simp
    then have "admission_ok demo_admission"
      by (simp add: admission_ok_def demo_admission_def admissionFromGates_def list_all_iff comp_def)
    moreover have "am_status demo_admission = ''admitted''"
      by (simp add: demo_admission_def admissionFromGates_def derivedAdmissionStatus_def list_all_iff)
    moreover from calculation(1) have "validateTenantAdmission (admission_js demo_admission) = Inr demo_admission" by (rule validateTenantAdmission_encode)
    moreover have "hashable (demo_admission_value g)" using ha by (simp add: demo_admission_value_def MAX_SAFE_INTEGER_def)
    moreover have "bounded_text (JStr ''ar1'') 128 = Some ''ar1''" by code_simp
    ultimately show ?thesis
      using g t hashable_hash[of "demo_admission_value g" ?H]
      by (auto simp: verifyTenantAdmissionEvidence_def issuance_event_def demo_admission_value_def unless_code_def same_hash_def MAX_SAFE_INTEGER_def)
  qed
  have requester: "verifyRequesterEvidence (requester_js demo_requester) ?es = Inr []"
  proof -
    have "validateRequesterSnapshot (requester_js demo_requester) JUndef = Inr demo_requester" by code_simp
    moreover have "lower_case (get (actorSnapshot demo_actor) ''email'') = Inr (rq_email demo_requester)"
      "get (actorSnapshot demo_actor) ''principalId'' = JStr (rq_principalId demo_requester)" by code_simp+
    ultimately show ?thesis
      using t by (simp add: verifyRequesterEvidence_def issuance_event_def unless_code_def)
  qed
  have delivery: "verifyNotificationDeliveryEvidence (delivery_js \<lparr>de_capturedAt = demo_time, de_jobs = []\<rparr>) (JStr demo_time) = []" by code_simp
  have schema: "schema_in ?m ns" if "10 \<in> set ns" for ns
  proof -
    have "manifest_schema 10 = ''vasi-evidence-manifest/v10''" by code_simp
    then show ?thesis using that unfolding schema_in_def demo_manifest_def by (simp add: image_iff) metis
  qed
  have members: "member_errors demo_env ?m ?es = Inr []"
    using schema assurance admission requester delivery no_interaction_accepts[of ?es demo_env] t
      no_context_accepts[of ?es "\<lparr>cp_maxSnapshotsPerActivity = 16\<rparr>" demo_env]
    by (simp add: member_errors_def demo_manifest_def)
  obtain p where p: "createSigningProvider (ve_primitives demo_env) (ve_x509 demo_env) (ve_runtime demo_env) demo_parse demo_signing_settings = Inr p"
    "\<forall>m. hashable m \<longrightarrow> (\<exists>s. demo_sign p m = Inr s)" by (rule demo_provider) blast
  have "hashable ?m" using ha hx t L(4,5)
    by (simp add: demo_manifest_def manifest_evidence_def assurance_entry_js_def delivery_js_def context_policy_js_def requester_js_def demo_requester_def
        demo_admission_value_def MAX_SAFE_INTEGER_def auth_policy_js_def DEFAULT_AUTHENTICATION_ASSURANCE_def)
  then obtain s where s: "demo_sign p ?m = Inr s" using p(2) by blast
  have bound: "links_bound ''as1'' ''rq1'' ''t1'' (links_of ''as1'' L)" "manifest_binds ?m ''as1'' ''rq1'' ''t1''"
    unfolding L(2) by (simp_all add: links_bound_def manifest_binds_def d demo_manifest_def)
  have m: "get ?m ''evidence'' = manifest_evidence (evidenceEvents L ''as1'')" "is_object ?m"
    unfolding es by (simp_all add: demo_manifest_def)
  have "links_of ''as1'' L \<noteq> []" using L(2) by simp
  moreover have "member_errors demo_env ?m (evidenceEvents L ''as1'') = Inr []" using members es by simp
  ultimately obtain v where v: "verifyEvidenceRecord demo_env (sealed_record ?es ?m (map (\<lambda>s. with_member s ''createdAt'' JNull) s)) (sp_primaryPublicJWK p) = Inr v"
    "vr_verified v" using record_verifies[OF ok h _ bound m _ s demo_sound_signing p(1), of JNull] unfolding es by blast
  show thesis
  proof (rule that[OF v])
    show "\<exists>q. primary_seal (normalizedSeals (sealed_record ?es ?m (map (\<lambda>s. with_member s ''createdAt'' JNull) s))) = Some q"
      using verified_primary[OF v] by blast
    show "\<exists>e \<in> set (record_events (sealed_record ?es ?m (map (\<lambda>s. with_member s ''createdAt'' JNull) s))).
        material_event (get (sealed_record ?es ?m (map (\<lambda>s. with_member s ''createdAt'' JNull) s)) ''manifest'') e"
      using mat(2) by (simp add: record_events_def sealed_record_def)
    show "get (get (sealed_record ?es ?m (map (\<lambda>s. with_member s ''createdAt'' JNull) s)) ''manifest'') ''schema'' = JStr ''vasi-evidence-manifest/v10''"
      by (simp add: sealed_record_def demo_manifest_def)
  qed
qed

theorem verified_record_sound_witness:
  "\<exists>record j v. verifyEvidenceRecord demo_env record j = Inr v \<and> vr_verified v \<and> record_events record \<noteq> [] \<and>
     get (record_events record ! 0) ''sequence'' = JInt 1"
proof -
  obtain r j v where d: "verifyEvidenceRecord demo_env r j = Inr v" "vr_verified v" by (rule demo_record_verified)
  from verified_record_sound[OF d] have "record_events r \<noteq> []" "\<forall>i < length (record_events r). get (record_events r ! i) ''sequence'' = JInt (int i + 1)" by auto
  then have "get (record_events r ! 0) ''sequence'' = JInt 1" by (metis add_0 length_greater_0_conv of_nat_0)
  with d \<open>record_events r \<noteq> []\<close> show ?thesis by blast
qed

theorem verified_records_agree_witness:
  "\<exists>record j v. verifyEvidenceRecord demo_env record j = Inr v \<and> vr_verified v \<and>
     canonicalValue (get record ''manifest'') = canonicalValue (get record ''manifest'')"
proof -
  obtain r j v where d: "verifyEvidenceRecord demo_env r j = Inr v" "vr_verified v" "\<exists>s. primary_seal (normalizedSeals r) = Some s"
    by (rule demo_record_verified)
  then obtain s where s: "primary_seal (normalizedSeals r) = Some s" by blast
  show ?thesis using verified_records_agree[OF d(1,2) d(1,2) s s refl] d(1,2) by blast
qed

theorem verified_assurance_witness:
  "\<exists>record j v policy e x. verifyEvidenceRecord demo_env record j = Inr v \<and> e \<in> set (record_events record) \<and> material_event (get record ''manifest'') e \<and>
     evaluateAuthenticationAssurance (ve_runtime demo_env) (auth_policy_js policy) (event_actor e) (get (get e ''eventData'') ''receivedAt'') = Inr x \<and> ev_satisfied x"
proof -
  obtain r j v where d: "verifyEvidenceRecord demo_env r j = Inr v" "vr_verified v" "get (get r ''manifest'') ''schema'' = JStr ''vasi-evidence-manifest/v10''"
    "\<exists>e \<in> set (record_events r). material_event (get r ''manifest'') e" by (rule demo_record_verified)
  from d(4) obtain e where e: "e \<in> set (record_events r)" "material_event (get r ''manifest'') e" by blast
  from verified_assurance[OF d(1,2,3)] e d(1) show ?thesis by blast
qed

theorem verified_admission_witness:
  "\<exists>record j v admission. verifyEvidenceRecord demo_env record j = Inr v \<and>
     validateTenantAdmission (get (get (get record ''manifest'') ''admission'') ''admission'') = Inr admission \<and>
     (\<forall>g \<in> set (am_gates admission). g_state g \<noteq> Pending)"
proof -
  obtain r j v where d: "verifyEvidenceRecord demo_env r j = Inr v" "vr_verified v" "get (get r ''manifest'') ''schema'' = JStr ''vasi-evidence-manifest/v10''"
    by (rule demo_record_verified)
  have "schema_in (get r ''manifest'') [9, 10]" using d(3) by (simp add: schema_in_def manifest_schema_def) code_simp
  from verified_admission[OF d(1,2) this] d(1) show ?thesis by blast
qed

definition demo_parts :: "event_ledger \<Rightarrow> manifest_parts" where
  "demo_parts L = \<lparr>mp_assignment = JObj [(''id'', JStr ''as1'')], mp_completedAt = JNull, mp_events = evidenceEvents L ''as1'', mp_issuedAt = JNull,
     mp_request = JObj [(''id'', JStr ''rq1'')], mp_requester = JNull, mp_response = JStr ''yes'', mp_startedAt = JNull,
     mp_tenant = JObj [(''id'', JStr ''t1'')], mp_workflow = JObj []\<rparr>"


theorem long_principal_batch_refused_witness:
  "\<exists>errs batches. ix_batches (\<lambda>_. []) id [] [] [] [JObj [(''actorPrincipalId'', JStr (replicate 129 (CHR ''p'')))]] = Inr (errs, batches) \<and>
     ''activity_interaction_batch_invalid'' \<in> set errs"
proof -
  let ?b = "JObj [(''actorPrincipalId'', JStr (replicate 129 (CHR ''p'')))]"
  obtain errs batches where r: "ix_batches (\<lambda>_. []) id [] [] [] [?b] = Inr (errs, batches)"
    by (auto simp: parse_ix_batch_def bounded_text_def with_errors_def)
  from long_principal_batch_refused[OF _ _ _ r, of ?b "replicate 129 (CHR ''p'')"] r show ?thesis by auto
qed

end
