(* ===== verification/Profiles.thy ===== *)
theory Profiles
  imports Records HashChain Certificates Admission
begin

text \<open>
  The rest of \<^verbatim>\<open>src/packages/engine-domain/productization.mjs\<close>: installation and tenant profiles, the
  commands of tenant provisioning and integration bindings; and \<^verbatim>\<open>src/services/engine/tenant-policy.mjs\<close>:
  the stored profile of a tenant and its quotas. A profile is stored with the hash of its normal
  form and validated again whenever a quota is checked.
\<close>

section \<open>Shapes\<close>

definition lower_alnum :: "char \<Rightarrow> bool" where
  "lower_alnum c = (is_lower c \<or> is_digit c)"

text \<open>\<open>/^[a-z0-9](?:[a-z0-9MID]{0,n}[a-z0-9])?$/\<close>\<close>

definition edged_shape :: "char set \<Rightarrow> nat \<Rightarrow> string \<Rightarrow> bool" where
  "edged_shape mid n s =
     (s \<noteq> [] \<and> lower_alnum (hd s) \<and> lower_alnum (last s) \<and> length s \<le> n + 2 \<and>
      list_all (\<lambda>c. lower_alnum c \<or> c \<in> mid) s)"

definition slug_shape :: "string \<Rightarrow> bool" where
  "slug_shape = edged_shape {CHR ''-''} 62"

text \<open>\<open>/^(?:[a-z0-9](?:[a-z0-9.-]{0,251}[a-z0-9])?|\[[0-9a-f:]+\])$/i\<close>, on a lower-case text\<close>

definition host_shape :: "string \<Rightarrow> bool" where
  "host_shape s =
     (edged_shape {CHR ''.'', CHR ''-''} 251 s \<or>
      (length s > 2 \<and> hd s = CHR ''['' \<and> last s = CHR '']'' \<and> list_all (\<lambda>c. is_hex c \<or> c = CHR '':'') (butlast (tl s))))"

definition uuid_shape :: "string \<Rightarrow> bool" where
  "uuid_shape s =
     (length s = 36 \<and> list_all (\<lambda>(i, c). if i \<in> {8, 13, 18, 23} then c = CHR ''-'' else is_hex c) (enumerate 0 s))"

definition NIL_UUID :: string where
  "NIL_UUID = ''00000000-0000-0000-0000-000000000000''"

definition color_shape :: "string \<Rightarrow> bool" where
  "color_shape s = (length s = 7 \<and> hd s = CHR ''#'' \<and> list_all (\<lambda>c. is_hex c \<or> (65 \<le> code c \<and> code c \<le> 70)) (tl s))"

section \<open>Field validators\<close>

definition uuid :: "js \<Rightarrow> string \<Rightarrow> string res" where
  "uuid v field =
     (let s = (case as_str v of Some t \<Rightarrow> js_lower (js_trim t) | None \<Rightarrow> [])
      in guardE (uuid_shape s \<and> s \<noteq> NIL_UUID) INVALID_PRODUCT_CONFIGURATION (BadFormat field) (Inr s))"

definition color :: "js \<Rightarrow> string \<Rightarrow> string res" where
  "color v field =
     (case as_str v of
        None \<Rightarrow> invalid (BadFormat field)
      | Some s \<Rightarrow> guardE (color_shape s) INVALID_PRODUCT_CONFIGURATION (BadFormat field) (Inr (js_lower s)))"

definition email :: "js \<Rightarrow> string \<Rightarrow> string res" where
  "email v field =
     bindE (boundedString v field 3 320) (\<lambda>s.
     guardE (email_shape (js_lower s)) INVALID_PRODUCT_CONFIGURATION (BadFormat field) (Inr (js_lower s)))"

definition optionalEmail :: "js \<Rightarrow> string \<Rightarrow> string option res" where
  "optionalEmail v field = (if absent v then Inr None else bindE (email v field) (\<lambda>s. Inr (Some s)))"

definition profileName :: "js \<Rightarrow> string res" where
  "profileName v =
     bindE (boundedString v ''defaultRetentionProfile'' 1 128) (\<lambda>s.
     guardE (ident_shape s) INVALID_PRODUCT_CONFIGURATION (BadFormat ''defaultRetentionProfile'') (Inr s))"

definition host :: "js \<Rightarrow> string \<Rightarrow> string res" where
  "host v field =
     bindE (boundedString v field 1 253) (\<lambda>s.
     guardE (host_shape (js_lower s)) INVALID_PRODUCT_CONFIGURATION (BadFormat field) (Inr (js_lower s)))"

text \<open>The lists of an installation profile: at most 256 entries, without duplicates, sorted.\<close>

definition allowed_list :: "(js \<Rightarrow> string \<Rightarrow> string res) \<Rightarrow> js \<Rightarrow> string \<Rightarrow> string list res" where
  "allowed_list entry v field =
     (case as_arr v of
        None \<Rightarrow> invalid (BadFormat field)
      | Some xs \<Rightarrow>
          guardE (length xs \<le> 256) INVALID_PRODUCT_CONFIGURATION (BadFormat field)
          (bindE (mapE (\<lambda>x. entry x field) xs) (\<lambda>ys. Inr (sort (uniq ys)))))"

abbreviation allowedHosts :: "js \<Rightarrow> string \<Rightarrow> string list res" where
  "allowedHosts \<equiv> allowed_list host"

abbreviation allowedUUIDs :: "js \<Rightarrow> string \<Rightarrow> string list res" where
  "allowedUUIDs \<equiv> allowed_list uuid"

abbreviation allowedEmails :: "js \<Rightarrow> string \<Rightarrow> string list res" where
  "allowedEmails \<equiv> allowed_list email"

section \<open>Tenant profiles\<close>

definition TENANT_PROFILE_SCHEMA :: string where
  "TENANT_PROFILE_SCHEMA = ''vasi-tenant-profile/v1''"

record tenant_branding =
  tb_accentColor :: string
  tb_displayName :: string
  tb_primaryColor :: string
  tb_shortName :: string
  tb_supportEmail :: "string option"

record tenant_quotas =
  tq_maxActiveRequests :: int
  tq_maxArtifactBytes :: int
  tq_maxArtifactBytesPerArtifact :: int
  tq_maxIntegrations :: int
  tq_maxMembers :: int
  tq_maxWorkflows :: int

record tenant_profile =
  tp_branding :: tenant_branding
  tp_defaultRetentionProfile :: string
  tp_quotas :: tenant_quotas

definition defaultTenantProfile :: "js \<Rightarrow> tenant_profile res" where
  "defaultTenantProfile name =
     bindE (boundedString name ''name'' 2 160) (\<lambda>displayName.
     Inr \<lparr>tp_branding = \<lparr>tb_accentColor = ''#2e5b4e'', tb_displayName = displayName, tb_primaryColor = ''#183e34'',
            tb_shortName = take 48 displayName, tb_supportEmail = None\<rparr>,
          tp_defaultRetentionProfile = ''tenant_default'',
          tp_quotas = \<lparr>tq_maxActiveRequests = 10000, tq_maxArtifactBytes = 1073741824, tq_maxArtifactBytesPerArtifact = 52428800,
            tq_maxIntegrations = 8, tq_maxMembers = 100, tq_maxWorkflows = 500\<rparr>\<rparr>)"

definition tenant_branding_of :: "js \<Rightarrow> tenant_branding res" where
  "tenant_branding_of b =
     bindE (color (get b ''accentColor'') ''accentColor'') (\<lambda>accentColor.
     bindE (boundedString (get b ''displayName'') ''displayName'' 2 160) (\<lambda>displayName.
     bindE (color (get b ''primaryColor'') ''primaryColor'') (\<lambda>primaryColor.
     bindE (boundedString (get b ''shortName'') ''shortName'' 2 48) (\<lambda>shortName.
     bindE (optionalEmail (get b ''supportEmail'') ''supportEmail'') (\<lambda>supportEmail.
     Inr \<lparr>tb_accentColor = accentColor, tb_displayName = displayName, tb_primaryColor = primaryColor,
          tb_shortName = shortName, tb_supportEmail = supportEmail\<rparr>)))))"

definition validateTenantProfile :: "js \<Rightarrow> tenant_profile res" where
  "validateTenantProfile v =
     bindE (strictObject v ''tenant profile'' [''branding'', ''policies'', ''quotas'', ''schema'']) (\<lambda>input.
     guardE (get input ''schema'' = JStr TENANT_PROFILE_SCHEMA) INVALID_PRODUCT_CONFIGURATION (Because ''tenant profile schema'')
     (bindE (strictObject (get input ''branding'') ''tenant branding''
        [''accentColor'', ''displayName'', ''primaryColor'', ''shortName'', ''supportEmail'']) (\<lambda>branding.
      bindE (strictObject (get input ''policies'') ''tenant policies'' [''defaultRetentionProfile'']) (\<lambda>policies.
      bindE (strictObject (get input ''quotas'') ''tenant quotas''
        [''maxActiveRequests'', ''maxArtifactBytes'', ''maxArtifactBytesPerArtifact'', ''maxIntegrations'', ''maxMembers'', ''maxWorkflows'']) (\<lambda>quotas.
      bindE (safeInteger (get quotas ''maxArtifactBytes'') ''maxArtifactBytes'' 1048576 10995116277760) (\<lambda>maxArtifactBytes.
      bindE (safeInteger (get quotas ''maxArtifactBytesPerArtifact'') ''maxArtifactBytesPerArtifact'' 1024 1073741824) (\<lambda>perArtifact.
      guardE (perArtifact \<le> maxArtifactBytes) INVALID_PRODUCT_CONFIGURATION (Because ''per-artifact limit'')
      (bindE (tenant_branding_of branding) (\<lambda>b.
       bindE (profileName (get policies ''defaultRetentionProfile'')) (\<lambda>retention.
       bindE (safeInteger (get quotas ''maxActiveRequests'') ''maxActiveRequests'' 1 1000000) (\<lambda>activeRequests.
       bindE (safeInteger (get quotas ''maxIntegrations'') ''maxIntegrations'' 0 100) (\<lambda>integrations.
       bindE (safeInteger (get quotas ''maxMembers'') ''maxMembers'' 1 100000) (\<lambda>members.
       bindE (safeInteger (get quotas ''maxWorkflows'') ''maxWorkflows'' 1 100000) (\<lambda>workflows.
       Inr \<lparr>tp_branding = b, tp_defaultRetentionProfile = retention,
            tp_quotas = \<lparr>tq_maxActiveRequests = activeRequests, tq_maxArtifactBytes = maxArtifactBytes,
              tq_maxArtifactBytesPerArtifact = perArtifact, tq_maxIntegrations = integrations, tq_maxMembers = members,
              tq_maxWorkflows = workflows\<rparr>\<rparr>))))))))))))))"

definition null_or_text :: "string option \<Rightarrow> js" where
  "null_or_text x = (case x of None \<Rightarrow> JNull | Some s \<Rightarrow> JStr s)"

definition branding_members :: "tenant_branding \<Rightarrow> (string \<times> js) list" where
  "branding_members b =
     [(''accentColor'', JStr (tb_accentColor b)), (''displayName'', JStr (tb_displayName b)), (''primaryColor'', JStr (tb_primaryColor b)),
      (''shortName'', JStr (tb_shortName b)), (''supportEmail'', null_or_text (tb_supportEmail b))]"

definition tenant_profile_js :: "tenant_profile \<Rightarrow> js" where
  "tenant_profile_js p = (let q = tp_quotas p in JObj
     [(''branding'', JObj (branding_members (tp_branding p))),
      (''policies'', JObj [(''defaultRetentionProfile'', JStr (tp_defaultRetentionProfile p))]),
      (''quotas'', JObj [(''maxActiveRequests'', JInt (tq_maxActiveRequests q)), (''maxArtifactBytes'', JInt (tq_maxArtifactBytes q)),
        (''maxArtifactBytesPerArtifact'', JInt (tq_maxArtifactBytesPerArtifact q)), (''maxIntegrations'', JInt (tq_maxIntegrations q)),
        (''maxMembers'', JInt (tq_maxMembers q)), (''maxWorkflows'', JInt (tq_maxWorkflows q))]),
      (''schema'', JStr TENANT_PROFILE_SCHEMA)])"

section \<open>Adapters and installation profiles\<close>

definition INTEGRATION_CAPABILITIES :: "string list" where
  "INTEGRATION_CAPABILITIES = [''document.malware_scan'', ''notification.delivery'']"

record adapter =
  ap_capabilities :: "string list"
  ap_id :: string
  ap_name :: string

definition BUILT_IN_ADAPTERS :: "adapter list" where
  "BUILT_IN_ADAPTERS =
     [\<lparr>ap_capabilities = [''notification.delivery''], ap_id = ''disabled'', ap_name = ''Disabled delivery''\<rparr>,
      \<lparr>ap_capabilities = [''document.malware_scan''], ap_id = ''scan_disabled'', ap_name = ''Disabled document malware scanning''\<rparr>,
      \<lparr>ap_capabilities = [''document.malware_scan''], ap_id = ''https_malware_scanner'', ap_name = ''Signed HTTPS document malware scanner''\<rparr>,
      \<lparr>ap_capabilities = [''notification.delivery''], ap_id = ''microsoft_graph'', ap_name = ''Microsoft Graph mail delivery''\<rparr>,
      \<lparr>ap_capabilities = [''notification.delivery''], ap_id = ''smtp'', ap_name = ''SMTP delivery''\<rparr>,
      \<lparr>ap_capabilities = [''notification.delivery''], ap_id = ''webhook'', ap_name = ''Signed webhook delivery''\<rparr>]"

definition ADAPTER_VERSION :: string where
  "ADAPTER_VERSION = ''1''"

definition INSTALLATION_PROFILE_SCHEMA :: string where
  "INSTALLATION_PROFILE_SCHEMA = ''vasi-installation-profile/v1''"

record installation_adapters =
  ia_allow :: "string list"
  ia_microsoftGraphAllowedClientIds :: "string list option"
  ia_microsoftGraphAllowedSenders :: "string list option"
  ia_microsoftGraphAllowedTenantIds :: "string list option"
  ia_malwareScannerAllowedHosts :: "string list option"
  ia_smtpAllowedHosts :: "string list"
  ia_webhookAllowedHosts :: "string list"

record installation_profile =
  ip_adapters :: installation_adapters
  ip_mode :: string
  ip_organizationName :: string
  ip_productName :: string
  ip_supportEmail :: string
  ip_maxTenants :: int

definition defaultInstallationProfile :: "string \<Rightarrow> installation_profile res" where
  "defaultInstallationProfile mode =
     guardE (mode \<in> {''self_hosted'', ''saas''}) INVALID_PRODUCT_CONFIGURATION (Because ''deployment mode'')
     (Inr \<lparr>ip_adapters = \<lparr>ia_allow = map ap_id BUILT_IN_ADAPTERS, ia_microsoftGraphAllowedClientIds = Some [],
        ia_microsoftGraphAllowedSenders = Some [], ia_microsoftGraphAllowedTenantIds = Some [], ia_malwareScannerAllowedHosts = Some [],
        ia_smtpAllowedHosts = [], ia_webhookAllowedHosts = []\<rparr>,
      ip_mode = mode, ip_organizationName = ''VASI'', ip_productName = [CHR ''V'', CHR 0xB7] @ ''Sign'',
      ip_supportEmail = ''support@example.invalid'', ip_maxTenants = (if mode = ''saas'' then 100000 else 1000)\<rparr>)"

definition optional_list :: "(js \<Rightarrow> string \<Rightarrow> string list res) \<Rightarrow> js \<Rightarrow> string \<Rightarrow> string list option res" where
  "optional_list f v field = (if v = JUndef then Inr None else bindE (f v field) (\<lambda>xs. Inr (Some xs)))"

definition adapter_allowlist :: "js \<Rightarrow> string list res" where
  "adapter_allowlist v =
     (case as_arr v of
        None \<Rightarrow> invalid (Because ''adapter allowlist'')
      | Some xs \<Rightarrow>
          guardE (xs \<noteq> [] \<and> length xs \<le> length BUILT_IN_ADAPTERS) INVALID_PRODUCT_CONFIGURATION (Because ''adapter allowlist'')
          (bindE (mapE (\<lambda>x. token x ''adapter'') xs) (\<lambda>ids.
           let allow = sort (uniq ids) in
           guardE (set allow \<subseteq> ap_id ` set BUILT_IN_ADAPTERS \<and> ''disabled'' \<in> set allow)
             INVALID_PRODUCT_CONFIGURATION (Because ''unsupported adapter'') (Inr allow))))"

definition installation_adapters_of :: "js \<Rightarrow> string list \<Rightarrow> installation_adapters res" where
  "installation_adapters_of a allow =
     bindE (optional_list allowedUUIDs (get a ''microsoftGraphAllowedClientIds'') ''microsoftGraphAllowedClientIds'') (\<lambda>clients.
     bindE (optional_list allowedEmails (get a ''microsoftGraphAllowedSenders'') ''microsoftGraphAllowedSenders'') (\<lambda>senders.
     bindE (optional_list allowedUUIDs (get a ''microsoftGraphAllowedTenantIds'') ''microsoftGraphAllowedTenantIds'') (\<lambda>tenants.
     bindE (optional_list allowedHosts (get a ''malwareScannerAllowedHosts'') ''malwareScannerAllowedHosts'') (\<lambda>scanners.
     bindE (allowedHosts (get a ''smtpAllowedHosts'') ''smtpAllowedHosts'') (\<lambda>smtp.
     bindE (allowedHosts (get a ''webhookAllowedHosts'') ''webhookAllowedHosts'') (\<lambda>webhook.
     Inr \<lparr>ia_allow = allow, ia_microsoftGraphAllowedClientIds = clients, ia_microsoftGraphAllowedSenders = senders,
          ia_microsoftGraphAllowedTenantIds = tenants, ia_malwareScannerAllowedHosts = scanners, ia_smtpAllowedHosts = smtp,
          ia_webhookAllowedHosts = webhook\<rparr>))))))"

definition ADAPTER_FIELDS :: "string list" where
  "ADAPTER_FIELDS = [''allow'', ''microsoftGraphAllowedClientIds'', ''microsoftGraphAllowedSenders'', ''microsoftGraphAllowedTenantIds'',
     ''malwareScannerAllowedHosts'', ''smtpAllowedHosts'', ''webhookAllowedHosts'']"

definition validateInstallationProfile :: "js \<Rightarrow> installation_profile res" where
  "validateInstallationProfile v =
     bindE (strictObject v ''installation profile'' [''adapters'', ''deployment'', ''product'', ''provisioning'', ''schema'']) (\<lambda>input.
     guardE (get input ''schema'' = JStr INSTALLATION_PROFILE_SCHEMA) INVALID_PRODUCT_CONFIGURATION (Because ''installation profile schema'')
     (bindE (strictObject (get input ''deployment'') ''installation deployment'' [''engineDatabaseBoundary'', ''mode'', ''publicIngress'']) (\<lambda>deployment.
      guardE (get deployment ''mode'' \<in> {JStr ''self_hosted'', JStr ''saas''}) INVALID_PRODUCT_CONFIGURATION (Because ''deployment mode'')
      (guardE (get deployment ''engineDatabaseBoundary'' = JStr ''dedicated'') INVALID_PRODUCT_CONFIGURATION (Because ''database boundary'')
      (guardE (get deployment ''publicIngress'' = JStr ''gateway_only'') INVALID_PRODUCT_CONFIGURATION (Because ''public ingress'')
      (bindE (strictObject (get input ''product'') ''installation product'' [''organizationName'', ''productName'', ''supportEmail'']) (\<lambda>product.
       bindE (strictObject (get input ''provisioning'') ''installation provisioning'' [''maxTenants'', ''mode'']) (\<lambda>provisioning.
       guardE (get provisioning ''mode'' = JStr ''administrators_only'') INVALID_PRODUCT_CONFIGURATION (Because ''tenant provisioning'')
       (bindE (strictObject (get input ''adapters'') ''installation adapters'' ADAPTER_FIELDS) (\<lambda>adapters.
        bindE (adapter_allowlist (get adapters ''allow'')) (\<lambda>allow.
        bindE (installation_adapters_of adapters allow) (\<lambda>a.
        bindE (boundedString (get product ''organizationName'') ''organizationName'' 2 120) (\<lambda>organizationName.
        bindE (boundedString (get product ''productName'') ''productName'' 2 80) (\<lambda>productName.
        bindE (email (get product ''supportEmail'') ''supportEmail'') (\<lambda>supportEmail.
        bindE (safeInteger (get provisioning ''maxTenants'') ''maxTenants'' 1 1000000) (\<lambda>maxTenants.
        Inr \<lparr>ip_adapters = a, ip_mode = (if get deployment ''mode'' = JStr ''saas'' then ''saas'' else ''self_hosted''),
             ip_organizationName = organizationName, ip_productName = productName, ip_supportEmail = supportEmail,
             ip_maxTenants = maxTenants\<rparr>))))))))))))))))"

fun texts_js :: "string list \<Rightarrow> js" where
  "texts_js xs = JArr (map JStr xs)"

definition installation_profile_js :: "installation_profile \<Rightarrow> js" where
  "installation_profile_js p = (let a = ip_adapters p in JObj
     [(''adapters'', JObj [(''allow'', texts_js (ia_allow a)),
        (''microsoftGraphAllowedClientIds'', opt_js texts_js (ia_microsoftGraphAllowedClientIds a)),
        (''microsoftGraphAllowedSenders'', opt_js texts_js (ia_microsoftGraphAllowedSenders a)),
        (''microsoftGraphAllowedTenantIds'', opt_js texts_js (ia_microsoftGraphAllowedTenantIds a)),
        (''malwareScannerAllowedHosts'', opt_js texts_js (ia_malwareScannerAllowedHosts a)),
        (''smtpAllowedHosts'', texts_js (ia_smtpAllowedHosts a)), (''webhookAllowedHosts'', texts_js (ia_webhookAllowedHosts a))]),
      (''deployment'', JObj [(''engineDatabaseBoundary'', JStr ''dedicated''), (''mode'', JStr (ip_mode p)), (''publicIngress'', JStr ''gateway_only'')]),
      (''product'', JObj [(''organizationName'', JStr (ip_organizationName p)), (''productName'', JStr (ip_productName p)),
        (''supportEmail'', JStr (ip_supportEmail p))]),
      (''provisioning'', JObj [(''maxTenants'', JInt (ip_maxTenants p)), (''mode'', JStr ''administrators_only'')]),
      (''schema'', JStr INSTALLATION_PROFILE_SCHEMA)])"

section \<open>Commands\<close>

record tenant_provision =
  pv_commandId :: "string option"
  pv_name :: string
  pv_ownerEmail :: "string option"
  pv_profile :: tenant_profile
  pv_slug :: string

definition validateTenantProvisionInput :: "js \<Rightarrow> tenant_provision res" where
  "validateTenantProvisionInput v =
     bindE (strictObject v ''tenant provisioning command'' [''commandId'', ''name'', ''ownerEmail'', ''profile'', ''slug'']) (\<lambda>input.
     bindE (boundedString (get input ''name'') ''name'' 2 160) (\<lambda>name.
     bindE (boundedString (get input ''slug'') ''slug'' 2 64) (\<lambda>slug.
     guardE (slug_shape (js_lower slug)) INVALID_PRODUCT_CONFIGURATION (BadFormat ''slug'')
     (bindE (if get input ''commandId'' = JUndef then Inr None else bindE (uuid (get input ''commandId'') ''commandId'') (\<lambda>c. Inr (Some c))) (\<lambda>commandId.
      bindE (optionalEmail (get input ''ownerEmail'') ''ownerEmail'') (\<lambda>ownerEmail.
      bindE (if get input ''profile'' = JUndef then defaultTenantProfile (JStr name) else validateTenantProfile (get input ''profile'')) (\<lambda>profile.
      Inr \<lparr>pv_commandId = commandId, pv_name = name, pv_ownerEmail = ownerEmail, pv_profile = profile, pv_slug = js_lower slug\<rparr>)))))))"

record tenant_profile_command =
  tc_expectedRevision :: int
  tc_profile :: tenant_profile
  tc_tenantId :: string

definition validateTenantProfileCommand :: "js \<Rightarrow> tenant_profile_command res" where
  "validateTenantProfileCommand v =
     bindE (strictObject v ''tenant profile command'' [''expectedRevision'', ''profile'', ''tenantId'']) (\<lambda>input.
     bindE (safeInteger (get input ''expectedRevision'') ''expectedRevision'' 1 MAX_SAFE_INTEGER) (\<lambda>expectedRevision.
     bindE (validateTenantProfile (get input ''profile'')) (\<lambda>profile.
     bindE (token (get input ''tenantId'') ''tenantId'') (\<lambda>tenantId.
     Inr \<lparr>tc_expectedRevision = expectedRevision, tc_profile = profile, tc_tenantId = tenantId\<rparr>))))"

definition validateInstallationProfileCommand :: "js \<Rightarrow> (int \<times> installation_profile) res" where
  "validateInstallationProfileCommand v =
     bindE (strictObject v ''installation profile command'' [''expectedRevision'', ''profile'']) (\<lambda>input.
     bindE (safeInteger (get input ''expectedRevision'') ''expectedRevision'' 1 MAX_SAFE_INTEGER) (\<lambda>expectedRevision.
     bindE (validateInstallationProfile (get input ''profile'')) (\<lambda>profile. Inr (expectedRevision, profile))))"

definition validateTenantReference :: "js \<Rightarrow> string \<Rightarrow> string res" where
  "validateTenantReference v name = bindE (strictObject v name [''tenantId'']) (\<lambda>input. token (get input ''tenantId'') ''tenantId'')"

definition validateTenantReadinessExportCommand :: "js \<Rightarrow> (string \<times> string) res" where
  "validateTenantReadinessExportCommand v =
     bindE (strictObject v ''tenant readiness export'' [''format'', ''tenantId'']) (\<lambda>input.
     bindE (token (get input ''format'') ''format'') (\<lambda>format.
     guardE (format \<in> {''html'', ''json''}) INVALID_PRODUCT_CONFIGURATION (Because ''readiness export format'')
     (bindE (uuid (get input ''tenantId'') ''tenantId'') (\<lambda>tenantId. Inr (format, tenantId)))))"

section \<open>Integration bindings\<close>

definition CA_BEGIN :: string where
  "CA_BEGIN = pem_begin @ [CHR 0x0A]"

definition is_base64_line :: "char \<Rightarrow> bool" where
  "is_base64_line c = (is_alnum c \<or> c \<in> {CHR ''+'', CHR ''/'', CHR ''='', CHR 0x0A})"

text \<open>
  \<open>match(/-----BEGIN CERTIFICATE-----\n[A-Za-z0-9+/=\n]+\n-----END CERTIFICATE-----/g)\<close>: the body is the whole run of its
  characters, since the end marker begins with another one; a start that has no such body is skipped.
\<close>

function ca_blocks :: "string \<Rightarrow> string list" where
  "ca_blocks s =
     (case find_sub CA_BEGIN s of
        None \<Rightarrow> []
      | Some (_, t) \<Rightarrow>
          let body = takeWhile is_base64_line t; rest = dropWhile is_base64_line t in
          if length body > 1 \<and> last body = CHR 0x0A \<and> take (length pem_end) rest = pem_end
          then (CA_BEGIN @ body @ pem_end) # ca_blocks (drop (length pem_end) rest)
          else ca_blocks t)"
  by pat_completeness auto
termination
proof (relation "measure length", goal_cases)
  case 1
  show ?case by simp
next
  case (2 s p a t body rest)
  then have "length t < length s" by (auto dest!: find_sub_append simp: CA_BEGIN_def pem_begin_def)
  moreover have "length rest \<le> length t" using 2 by (simp add: length_dropWhile_le)
  ultimately show ?case by simp
next
  case (3 s p a t)
  then show ?case by (auto dest!: find_sub_append simp: CA_BEGIN_def pem_begin_def)
qed

declare ca_blocks.simps [simp del]

fun unix_lines :: "string \<Rightarrow> string" where
  "unix_lines (CHR 0x0D # CHR 0x0A # cs) = CHR 0x0A # unix_lines cs"
| "unix_lines (c # cs) = c # unix_lines cs"
| "unix_lines [] = []"

definition utf8_length :: "string \<Rightarrow> nat" where
  "utf8_length s = sum_list (map (\<lambda>c. if code c < 128 then 1 else 2) s)"

fun join_lines :: "string list \<Rightarrow> string" where
  "join_lines [] = []"
| "join_lines [x] = x"
| "join_lines (x # xs) = x @ [CHR 0x0A] @ join_lines xs"

definition optionalCertificateAuthorityBundle :: "x509_provider \<Rightarrow> js \<Rightarrow> string option res" where
  "optionalCertificateAuthorityBundle X v =
     (if absent v then Inr None
      else case as_str v of
        None \<Rightarrow> invalid (BadFormat ''caCertificatePem'')
      | Some s \<Rightarrow>
          guardE (utf8_length s \<le> 131072) INVALID_PRODUCT_CONFIGURATION (BadFormat ''caCertificatePem'')
          (let normalized = js_trim (unix_lines s); matches = ca_blocks normalized in
           guardE (matches \<noteq> [] \<and> length matches \<le> 5 \<and> join_lines matches = normalized) INVALID_PRODUCT_CONFIGURATION (BadFormat ''caCertificatePem'')
           (guardE (list_all (\<lambda>c. x5_parse X (JStr c) \<noteq> None) matches) INVALID_PRODUCT_CONFIGURATION (BadFormat ''caCertificatePem'')
            (Inr (Some (join_lines matches @ [CHR 0x0A]))))))"

datatype adapter_config =
    No_config
  | Scanner_config int string
  | Webhook_config string
  | Graph_config string string string
  | Smtp_config string string int bool "string option"

datatype adapter_credentials =
    No_credentials
  | Scanner_credentials "string option" string
  | Webhook_credentials string
  | Graph_credentials string
  | Smtp_credentials "string option"

definition scanner_configuration :: "runtime \<Rightarrow> x509_provider \<Rightarrow> js \<Rightarrow> js \<Rightarrow> (adapter_config \<times> adapter_credentials) res" where
  "scanner_configuration R X configValue credentialValue =
     bindE (strictObject configValue ''HTTPS malware scanner configuration'' [''timeoutSeconds'', ''url'']) (\<lambda>config.
     bindE (strictObject credentialValue ''HTTPS malware scanner credentials'' [''caCertificatePem'', ''secret'']) (\<lambda>credentials.
     case boundedString (get config ''url'') ''url'' 1 2048 of
       Inl _ \<Rightarrow> invalid (Because ''malware scanner URL'')
     | Inr s \<Rightarrow>
         (case new_URL R s of
            None \<Rightarrow> invalid (Because ''malware scanner URL'')
          | Some url \<Rightarrow>
              guardE (url_protocol url = ''https:'' \<and> url_username url = [] \<and> url_password url = [] \<and> url_search url = [] \<and> url_hash url = [])
                INVALID_PRODUCT_CONFIGURATION (Because ''malware scanner URL must use HTTPS'')
              (bindE (safeInteger (get config ''timeoutSeconds'') ''timeoutSeconds'' 5 300) (\<lambda>timeoutSeconds.
               bindE (optionalCertificateAuthorityBundle X (get credentials ''caCertificatePem'')) (\<lambda>ca.
               bindE (boundedString (get credentials ''secret'') ''secret'' 32 1024) (\<lambda>secret.
               Inr (Scanner_config timeoutSeconds (url_href url), Scanner_credentials ca secret))))))))"

definition webhook_configuration :: "runtime \<Rightarrow> js \<Rightarrow> js \<Rightarrow> (adapter_config \<times> adapter_credentials) res" where
  "webhook_configuration R configValue credentialValue =
     bindE (strictObject configValue ''webhook configuration'' [''url'']) (\<lambda>config.
     bindE (strictObject credentialValue ''webhook credentials'' [''secret'']) (\<lambda>credentials.
     bindE (boundedString (get config ''url'') ''url'' 1 2048) (\<lambda>s.
     case new_URL R s of
       None \<Rightarrow> throw TYPE_ERROR (Because ''Invalid URL'')
     | Some url \<Rightarrow>
         guardE (url_protocol url = ''https:'' \<and> url_username url = [] \<and> url_password url = [] \<and> url_hash url = [])
           INVALID_PRODUCT_CONFIGURATION (Because ''webhook URL must use HTTPS'')
         (bindE (boundedString (get credentials ''secret'') ''secret'' 32 1024) (\<lambda>secret.
          Inr (Webhook_config (url_href url), Webhook_credentials secret))))))"

definition graph_configuration :: "js \<Rightarrow> js \<Rightarrow> (adapter_config \<times> adapter_credentials) res" where
  "graph_configuration configValue credentialValue =
     bindE (strictObject configValue ''Microsoft Graph configuration'' [''clientId'', ''senderEmail'', ''tenantId'']) (\<lambda>config.
     bindE (strictObject credentialValue ''Microsoft Graph credentials'' [''clientSecret'']) (\<lambda>credentials.
     bindE (uuid (get config ''clientId'') ''clientId'') (\<lambda>clientId.
     bindE (email (get config ''senderEmail'') ''senderEmail'') (\<lambda>senderEmail.
     bindE (uuid (get config ''tenantId'') ''tenantId'') (\<lambda>tenantId.
     bindE (boundedString (get credentials ''clientSecret'') ''clientSecret'' 1 2048) (\<lambda>clientSecret.
     Inr (Graph_config clientId senderEmail tenantId, Graph_credentials clientSecret)))))))"

definition smtp_configuration :: "js \<Rightarrow> js \<Rightarrow> (adapter_config \<times> adapter_credentials) res" where
  "smtp_configuration configValue credentialValue =
     bindE (strictObject configValue ''SMTP configuration'' [''from'', ''host'', ''port'', ''secure'', ''username'']) (\<lambda>config.
     bindE (strictObject (coalesce credentialValue (JObj [])) ''SMTP credentials'' [''password'']) (\<lambda>credentials.
     bindE (host (get config ''host'') ''host'') (\<lambda>h.
     bindE (optionalString (get config ''username'') ''username'' 320) (\<lambda>username.
     bindE (optionalString (get credentials ''password'') ''password'' 1024) (\<lambda>password.
     guardE ((username \<noteq> None) = (password \<noteq> None)) INVALID_PRODUCT_CONFIGURATION (Because ''SMTP username and password'')
     (case as_bool (get config ''secure'') of
        None \<Rightarrow> invalid (Because ''SMTP secure must be a boolean.'')
      | Some secure \<Rightarrow>
          bindE (boundedString (get config ''from'') ''from'' 3 320) (\<lambda>sender.
          bindE (safeInteger (get config ''port'') ''port'' 1 65535) (\<lambda>port.
          Inr (Smtp_config sender h port secure username, Smtp_credentials password)))))))))"

definition normalizeAdapterConfiguration ::
  "runtime \<Rightarrow> x509_provider \<Rightarrow> string \<Rightarrow> js \<Rightarrow> js \<Rightarrow> (adapter_config \<times> adapter_credentials) res" where
  "normalizeAdapterConfiguration R X adapterId configValue credentialValue =
     (if adapterId \<in> {''disabled'', ''scan_disabled''}
      then bindE (strictObject (coalesce configValue (JObj [])) ''disabled adapter configuration'' []) (\<lambda>_.
           bindE (strictObject (coalesce credentialValue (JObj [])) ''disabled adapter credentials'' []) (\<lambda>_.
           Inr (No_config, No_credentials)))
      else if adapterId = ''https_malware_scanner'' then scanner_configuration R X configValue credentialValue
      else if adapterId = ''webhook'' then webhook_configuration R configValue credentialValue
      else if adapterId = ''microsoft_graph'' then graph_configuration configValue credentialValue
      else smtp_configuration configValue credentialValue)"

record integration_binding =
  ib_adapterId :: string
  ib_adapterVersion :: string
  ib_capability :: string
  ib_config :: adapter_config
  ib_credentials :: adapter_credentials
  ib_expectedRevision :: int
  ib_status :: string
  ib_tenantId :: string

definition validateIntegrationBindingCommand :: "runtime \<Rightarrow> x509_provider \<Rightarrow> js \<Rightarrow> integration_binding res" where
  "validateIntegrationBindingCommand R X v =
     bindE (strictObject v ''integration binding command''
       [''adapterId'', ''capability'', ''config'', ''credentials'', ''expectedRevision'', ''status'', ''tenantId'']) (\<lambda>input.
     bindE (token (get input ''adapterId'') ''adapterId'') (\<lambda>adapterId.
     case find (\<lambda>a. ap_id a = adapterId) BUILT_IN_ADAPTERS of
       None \<Rightarrow> invalid (Because ''integration adapter'')
     | Some a \<Rightarrow>
         bindE (token (get input ''capability'') ''capability'') (\<lambda>capability.
         guardE (capability \<in> set INTEGRATION_CAPABILITIES \<and> capability \<in> set (ap_capabilities a))
           INVALID_PRODUCT_CONFIGURATION (Because ''integration capability'')
         (let off = adapterId \<in> {''disabled'', ''scan_disabled''};
              status = coalesce (get input ''status'') (JStr (if off then ''disabled'' else ''active'')) in
          guardE (status \<in> {JStr ''active'', JStr ''disabled''}) INVALID_PRODUCT_CONFIGURATION (Because ''integration binding status'')
          (guardE (off \<longrightarrow> status = JStr ''disabled'') INVALID_PRODUCT_CONFIGURATION (Because ''disabled adapter'')
          (bindE (normalizeAdapterConfiguration R X adapterId (get input ''config'') (get input ''credentials'')) (\<lambda>(config, credentials).
           bindE (safeInteger (get input ''expectedRevision'') ''expectedRevision'' 0 MAX_SAFE_INTEGER) (\<lambda>expectedRevision.
           bindE (token (get input ''tenantId'') ''tenantId'') (\<lambda>tenantId.
           Inr \<lparr>ib_adapterId = adapterId, ib_adapterVersion = ADAPTER_VERSION, ib_capability = capability, ib_config = config,
                ib_credentials = credentials, ib_expectedRevision = expectedRevision,
                ib_status = (if status = JStr ''active'' then ''active'' else ''disabled''), ib_tenantId = tenantId\<rparr>)))))))))"

text \<open>
  A binding that is active has the configuration of its adapter, and its URL parses: both were
  checked when it was stored.
\<close>

definition integrationDestinationAllowed :: "runtime \<Rightarrow> js \<Rightarrow> integration_binding \<Rightarrow> bool res" where
  "integrationDestinationAllowed R profileValue b =
     bindE (validateInstallationProfile profileValue) (\<lambda>profile.
     let a = ip_adapters profile;
         host_in = (\<lambda>s hosts. case new_URL R s of None \<Rightarrow> throw TYPE_ERROR (Because ''Invalid URL'')
                                | Some url \<Rightarrow> Inr (js_lower (url_hostname url) \<in> set hosts)) in
     if ib_status b \<noteq> ''active'' \<or> ib_adapterId b = ''disabled'' then Inr True
     else if ib_adapterId b \<notin> set (ia_allow a) then Inr False
     else case ib_config b of
       Webhook_config url \<Rightarrow> host_in url (ia_webhookAllowedHosts a)
     | Smtp_config _ h _ _ _ \<Rightarrow> Inr (js_lower h \<in> set (ia_smtpAllowedHosts a))
     | Graph_config clientId senderEmail tenantId \<Rightarrow>
         Inr (tenantId \<in> set (or_default [] (ia_microsoftGraphAllowedTenantIds a)) \<and>
              clientId \<in> set (or_default [] (ia_microsoftGraphAllowedClientIds a)) \<and>
              senderEmail \<in> set (or_default [] (ia_microsoftGraphAllowedSenders a)))
     | Scanner_config _ url \<Rightarrow> host_in url (or_default [] (ia_malwareScannerAllowedHosts a))
     | No_config \<Rightarrow> Inr False)"

section \<open>Quotas of a tenant\<close>

text \<open>The rows the quotas are counted over; an artifact counts with its expected length.\<close>

record membership_row =
  mr_tenantId :: string
  mr_principalId :: string
  mr_roles :: "string list"
  mr_email :: "string option"
  mr_status :: string
  mr_validFrom :: int
  mr_expiresAt :: "int option"

record usage_tables =
  ut_memberships :: "membership_row list"
  ut_grants :: "(string \<times> string \<times> string) list"
  ut_workflows :: "(string \<times> string) list"
  ut_requests :: "(string \<times> string) list"
  ut_artifacts :: "(string \<times> int) list"
  ut_bindings :: "(string \<times> string) list"

record profile_row =
  pw_id :: string
  pw_profile :: js
  pw_profileHash :: string
  pw_revision :: int

record active_profile =
  af_id :: string
  af_profile :: tenant_profile
  af_profileHash :: string
  af_revision :: int

definition activeTenantProfile :: "(string \<Rightarrow> string) \<Rightarrow> (string \<Rightarrow> profile_row option) \<Rightarrow> string \<Rightarrow> active_profile res" where
  "activeTenantProfile H profiles tenantId =
     (case profiles tenantId of
        None \<Rightarrow> throw (STORE_ERROR 409) (Because ''tenant_profile_unavailable'')
      | Some row \<Rightarrow>
          bindE (validateTenantProfile (pw_profile row)) (\<lambda>profile.
          bindE (hashCanonicalJSON H (tenant_profile_js profile)) (\<lambda>h.
          guardE (h = pw_profileHash row) (STORE_ERROR 500) (Because ''tenant_profile_integrity_failure'')
          (Inr \<lparr>af_id = pw_id row, af_profile = profile, af_profileHash = pw_profileHash row, af_revision = pw_revision row\<rparr>))))"

record quota =
  qt_available :: int
  qt_limit :: int
  qt_used :: int

definition quota_of :: "int \<Rightarrow> int \<Rightarrow> quota" where
  "quota_of used limit = \<lparr>qt_available = max 0 (limit - used), qt_limit = limit, qt_used = used\<rparr>"

definition member_identities :: "usage_tables \<Rightarrow> string \<Rightarrow> string list" where
  "member_identities T tenantId =
     remdups (map (\<lambda>m. case mr_email m of Some e \<Rightarrow> js_lower e | None \<Rightarrow> mr_principalId m)
                (filter (\<lambda>m. mr_tenantId m = tenantId \<and> mr_status m = ''active'') (ut_memberships T)) @
              map (\<lambda>(_, e, _). js_lower e) (filter (\<lambda>(t, _, st). t = tenantId \<and> st = ''active'') (ut_grants T)))"

definition ACTIVE_REQUEST_STATES :: "string list" where
  "ACTIVE_REQUEST_STATES = [''scheduled'', ''issued'', ''in_progress'']"

record tenant_usage =
  us_activeRequests :: quota
  us_artifactBytes :: quota
  us_integrations :: quota
  us_members :: quota
  us_workflows :: quota

definition tenantUsage :: "usage_tables \<Rightarrow> string \<Rightarrow> active_profile \<Rightarrow> tenant_usage" where
  "tenantUsage T tenantId profile =
     (let q = tp_quotas (af_profile profile); count = (\<lambda>P rows. int (length (filter P rows))) in
      \<lparr>us_activeRequests = quota_of (count (\<lambda>(t, st). t = tenantId \<and> st \<in> set ACTIVE_REQUEST_STATES) (ut_requests T)) (tq_maxActiveRequests q),
       us_artifactBytes = quota_of (sum_list (map snd (filter (\<lambda>(t, _). t = tenantId) (ut_artifacts T)))) (tq_maxArtifactBytes q),
       us_integrations = quota_of (count (\<lambda>(t, st). t = tenantId \<and> st = ''active'') (ut_bindings T)) (tq_maxIntegrations q),
       us_members = quota_of (int (length (member_identities T tenantId))) (tq_maxMembers q),
       us_workflows = quota_of (count (\<lambda>(t, st). t = tenantId \<and> st \<noteq> ''archived'') (ut_workflows T)) (tq_maxWorkflows q)\<rparr>)"

datatype resource = Active_requests | Artifact_bytes | Integrations | Members | Workflows

fun resource_name :: "resource \<Rightarrow> string" where
  "resource_name Active_requests = ''activeRequests''"
| "resource_name Artifact_bytes = ''artifactBytes''"
| "resource_name Integrations = ''integrations''"
| "resource_name Members = ''members''"
| "resource_name Workflows = ''workflows''"

fun usage_of :: "tenant_usage \<Rightarrow> resource \<Rightarrow> quota" where
  "usage_of u Active_requests = us_activeRequests u"
| "usage_of u Artifact_bytes = us_artifactBytes u"
| "usage_of u Integrations = us_integrations u"
| "usage_of u Members = us_members u"
| "usage_of u Workflows = us_workflows u"

definition assertTenantCapacity ::
  "(string \<Rightarrow> string) \<Rightarrow> (string \<Rightarrow> profile_row option) \<Rightarrow> usage_tables \<Rightarrow> string \<Rightarrow> resource \<Rightarrow> int \<Rightarrow> active_profile res" where
  "assertTenantCapacity H profiles T tenantId resource increment =
     bindE (activeTenantProfile H profiles tenantId) (\<lambda>profile.
     let selected = usage_of (tenantUsage T tenantId profile) resource in
     guardE (\<bar>increment\<bar> \<le> MAX_SAFE_INTEGER \<and> 0 \<le> increment) (STORE_ERROR 500) (Because ''invalid_tenant_quota_check'')
     (guardE (qt_used selected + increment \<le> qt_limit selected) (STORE_ERROR 409)
       (Because (''tenant_quota_'' @ resource_name resource @ ''_exceeded'')) (Inr profile)))"

definition assertArtifactCapacity ::
  "(string \<Rightarrow> string) \<Rightarrow> (string \<Rightarrow> profile_row option) \<Rightarrow> usage_tables \<Rightarrow> string \<Rightarrow> int \<Rightarrow> active_profile res" where
  "assertArtifactCapacity H profiles T tenantId expectedByteLength =
     bindE (activeTenantProfile H profiles tenantId) (\<lambda>profile.
     guardE (expectedByteLength \<le> tq_maxArtifactBytesPerArtifact (tp_quotas (af_profile profile))) (STORE_ERROR 413)
       (Because ''tenant_quota_artifact_size_exceeded'')
     (let selected = us_artifactBytes (tenantUsage T tenantId profile) in
      guardE (qt_used selected + expectedByteLength \<le> qt_limit selected) (STORE_ERROR 409)
        (Because ''tenant_quota_artifactBytes_exceeded'') (Inr profile)))"

section \<open>Lemmas\<close>

definition safe_text :: "nat \<Rightarrow> nat \<Rightarrow> string \<Rightarrow> bool" where
  "safe_text lo hi s = (js_trim s = s \<and> lo \<le> length s \<and> length s \<le> hi \<and> \<not> has_ctrl s)"

lemma boundedString_text: "boundedString v f lo hi = Inr s \<Longrightarrow> safe_text lo hi s"
  by (auto simp: boundedString_def res_simps bounded_string_Inr safe_text_def)

lemma boundedString_JStr: "safe_text lo hi s \<Longrightarrow> boundedString (JStr s) f lo hi = Inr s"
  by (simp add: boundedString_def safe_text_def bounded_string_JStr)

definition email_ok :: "string \<Rightarrow> bool" where
  "email_ok s = (safe_text 3 320 s \<and> js_lower s = s \<and> email_shape s)"

lemma has_ctrl_lower: "has_ctrl (js_lower s) = has_ctrl s"
  by (auto simp: has_ctrl_def js_lower_def is_ctrl_def lower_char_def code_def comp_def list_ex_iff)

lemma email_text: "email v f = Inr s \<Longrightarrow> email_ok s"
  by (auto simp: email_def res_simps email_ok_def safe_text_def js_trim_lower has_ctrl_lower js_lower_idem dest!: boundedString_text)

lemma email_JStr: "email_ok s \<Longrightarrow> email (JStr s) f = Inr s"
  by (simp add: email_def email_ok_def boundedString_JStr)

lemma js_lower_Nil [simp]: "js_lower [] = []"
  by (simp add: js_lower_def)

lemma uuid_text: "uuid v f = Inr s \<Longrightarrow> js_lower (js_trim s) = s \<and> uuid_shape s \<and> s \<noteq> NIL_UUID"
  by (auto simp: uuid_def res_simps Let_def js_trim_lower split: option.splits)

lemma uuid_JStr: "js_lower (js_trim s) = s \<Longrightarrow> uuid_shape s \<Longrightarrow> s \<noteq> NIL_UUID \<Longrightarrow> uuid (JStr s) f = Inr s"
  by (simp add: uuid_def)

lemma host_text: "host v f = Inr s \<Longrightarrow> safe_text 1 253 s \<and> js_lower s = s \<and> host_shape s"
  by (auto simp: host_def res_simps safe_text_def js_trim_lower has_ctrl_lower dest!: boundedString_text)

lemma host_JStr: "safe_text 1 253 s \<Longrightarrow> js_lower s = s \<Longrightarrow> host_shape s \<Longrightarrow> host (JStr s) f = Inr s"
  by (simp add: host_def boundedString_JStr)

text \<open>An entry validator that accepts its own results makes the sorted list stable.\<close>

definition stable :: "(js \<Rightarrow> string \<Rightarrow> string res) \<Rightarrow> bool" where
  "stable entry \<longleftrightarrow> (\<forall>w f y. entry w f = Inr y \<longrightarrow> entry (JStr y) f = Inr y)"

lemma stable_entries: "stable uuid" "stable email" "stable host" "stable token"
  using uuid_text uuid_JStr email_text email_JStr host_text host_JStr by (auto simp: stable_def res_simps)

lemma allowed_list_stable:
  assumes "allowed_list entry v field = Inr xs" "stable entry"
  shows "allowed_list entry (texts_js xs) field = Inr xs"
proof -
  from assms(1) obtain vs ys where v: "as_arr v = Some vs" "length vs \<le> 256" "mapE (\<lambda>x. entry x field) vs = Inr ys" "xs = sort (uniq ys)"
    by (auto simp: allowed_list_def res_simps split: option.splits)
  have "\<forall>y \<in> set ys. \<exists>w. entry w field = Inr y" using v(3) mapE_memD by fastforce
  then have "mapE (\<lambda>x. entry x field) (map JStr xs) = Inr xs"
    using assms(2) v(4) by (intro mapE_idem) (auto simp: stable_def)
  moreover have "length xs \<le> 256" using v mapE_length[OF v(3)] by (auto simp: uniq_def intro: le_trans[OF length_remdups_leq])
  moreover have "distinct xs" "sorted xs" using v(4) by (simp_all add: distinct_uniq)
  ultimately show ?thesis by (simp add: allowed_list_def uniq_id sorted_sort_id)
qed

definition tenant_profile_ok :: "tenant_profile \<Rightarrow> bool" where
  "tenant_profile_ok p = (let b = tp_branding p; q = tp_quotas p in
     color_shape (tb_accentColor b) \<and> js_lower (tb_accentColor b) = tb_accentColor b \<and>
     color_shape (tb_primaryColor b) \<and> js_lower (tb_primaryColor b) = tb_primaryColor b \<and>
     safe_text 2 160 (tb_displayName b) \<and> safe_text 2 48 (tb_shortName b) \<and> pred_option email_ok (tb_supportEmail b) \<and>
     safe_text 1 128 (tp_defaultRetentionProfile p) \<and> ident_shape (tp_defaultRetentionProfile p) \<and>
     1 \<le> tq_maxActiveRequests q \<and> tq_maxActiveRequests q \<le> 1000000 \<and>
     1048576 \<le> tq_maxArtifactBytes q \<and> tq_maxArtifactBytes q \<le> 10995116277760 \<and>
     1024 \<le> tq_maxArtifactBytesPerArtifact q \<and> tq_maxArtifactBytesPerArtifact q \<le> 1073741824 \<and>
     tq_maxArtifactBytesPerArtifact q \<le> tq_maxArtifactBytes q \<and>
     0 \<le> tq_maxIntegrations q \<and> tq_maxIntegrations q \<le> 100 \<and> 1 \<le> tq_maxMembers q \<and> tq_maxMembers q \<le> 100000 \<and>
     1 \<le> tq_maxWorkflows q \<and> tq_maxWorkflows q \<le> 100000)"

lemma color_shape_lower: "color_shape s \<Longrightarrow> color_shape (js_lower s)"
proof -
  have "lower_char (CHR ''#'') = CHR ''#''" by code_simp
  moreover have "is_hex (lower_char c)" if "is_hex c \<or> (65 \<le> code c \<and> code c \<le> 70)" for c
    using that by (auto simp: lower_char_def is_hex_def is_digit_def between_def code_char_of)
  ultimately show "color_shape s \<Longrightarrow> color_shape (js_lower s)" by (cases s) (auto simp: color_shape_def js_lower_def list_all_iff)
qed

lemma color_text: "color v f = Inr s \<Longrightarrow> color_shape s \<and> js_lower s = s"
  by (auto simp: color_def res_simps color_shape_lower split: option.splits)

lemma color_JStr: "color_shape s \<Longrightarrow> js_lower s = s \<Longrightarrow> color (JStr s) f = Inr s"
  by (simp add: color_def)

lemma optionalEmail_text: "optionalEmail v f = Inr x \<Longrightarrow> pred_option email_ok x"
  by (auto simp: optionalEmail_def res_simps email_text split: if_splits)

lemma optionalEmail_js: "pred_option email_ok x \<Longrightarrow> optionalEmail (null_or_text x) f = Inr x"
  by (cases x) (auto simp: optionalEmail_def null_or_text_def email_JStr email_ok_def safe_text_def)

lemma profileName_text: "profileName v = Inr s \<Longrightarrow> safe_text 1 128 s \<and> ident_shape s"
  by (auto simp: profileName_def res_simps dest: boundedString_text)

lemma branding_ok:
  "tenant_branding_of b = Inr t \<Longrightarrow>
     color_shape (tb_accentColor t) \<and> js_lower (tb_accentColor t) = tb_accentColor t \<and>
     color_shape (tb_primaryColor t) \<and> js_lower (tb_primaryColor t) = tb_primaryColor t \<and>
     safe_text 2 160 (tb_displayName t) \<and> safe_text 2 48 (tb_shortName t) \<and> pred_option email_ok (tb_supportEmail t)"
  unfolding tenant_branding_of_def
  by (elim bindE_E) (auto dest: color_text boundedString_text optionalEmail_text)

lemma validateTenantProfile_ok: "validateTenantProfile v = Inr p \<Longrightarrow> tenant_profile_ok p"
  unfolding validateTenantProfile_def
  by (elim bindE_E guardE_E, drule branding_ok, drule profileName_text) (clarsimp simp: whole_number_Inr tenant_profile_ok_def Let_def)

lemma validateTenantProfile_encode:
  assumes "tenant_profile_ok p"
  shows "validateTenantProfile (tenant_profile_js p) = Inr p"
proof -
  note q = assms[unfolded tenant_profile_ok_def Let_def]
  have "tenant_branding_of (get (tenant_profile_js p) ''branding'') = Inr (tp_branding p)"
    using q by (simp add: tenant_branding_of_def tenant_profile_js_def branding_members_def Let_def color_JStr boundedString_JStr optionalEmail_js)
  moreover have "profileName (JStr (tp_defaultRetentionProfile p)) = Inr (tp_defaultRetentionProfile p)"
    using q by (simp add: profileName_def boundedString_JStr)
  ultimately show ?thesis
    using q by (simp add: validateTenantProfile_def tenant_profile_js_def branding_members_def Let_def strict_object_JObj whole_number_JInt MAX_SAFE_INTEGER_def)
qed

interpretation tenant_profile: normalizer validateTenantProfile tenant_profile_js
  by unfold_locales (rule validateTenantProfile_encode[OF validateTenantProfile_ok])

definition installation_profile_ok :: "installation_profile \<Rightarrow> bool" where
  "installation_profile_ok p = (
     (\<exists>v. adapter_allowlist v = Inr (ia_allow (ip_adapters p))) \<and>
     (\<exists>v. installation_adapters_of v (ia_allow (ip_adapters p)) = Inr (ip_adapters p)) \<and>
     ip_mode p \<in> {''self_hosted'', ''saas''} \<and> safe_text 2 120 (ip_organizationName p) \<and> safe_text 2 80 (ip_productName p) \<and>
     email_ok (ip_supportEmail p) \<and> 1 \<le> ip_maxTenants p \<and> ip_maxTenants p \<le> 1000000)"

lemma adapter_allowlist_stable:
  assumes "adapter_allowlist v = Inr xs"
  shows "adapter_allowlist (texts_js xs) = Inr xs"
proof -
  from assms obtain vs ys where v: "as_arr v = Some vs" "vs \<noteq> []" "length vs \<le> length BUILT_IN_ADAPTERS"
      "mapE (\<lambda>x. token x ''adapter'') vs = Inr ys" "xs = sort (uniq ys)" "set xs \<subseteq> ap_id ` set BUILT_IN_ADAPTERS" "''disabled'' \<in> set xs"
    by (auto simp: adapter_allowlist_def res_simps Let_def split: option.splits)
  have "\<forall>y \<in> set ys. \<exists>w. token w ''adapter'' = Inr y" using v(4) mapE_memD by fastforce
  then have "mapE (\<lambda>x. token x ''adapter'') (map JStr xs) = Inr xs"
    using stable_entries(4) v(5) by (intro mapE_idem) (auto simp: stable_def)
  moreover have "length xs \<le> length BUILT_IN_ADAPTERS" using v mapE_length[OF v(4)] by (auto simp: uniq_def intro: le_trans[OF length_remdups_leq])
  moreover have "distinct xs" "sorted xs" using v(5) by (auto simp: distinct_uniq)
  moreover have "xs \<noteq> []" using v(7) by auto
  ultimately show ?thesis using v(6,7) by (simp add: adapter_allowlist_def uniq_id sorted_sort_id)
qed

lemma optional_list_stable:
  assumes "optional_list (allowed_list entry) v f = Inr x" "stable entry"
  shows "optional_list (allowed_list entry) (opt_js texts_js x) f = Inr x"
  using assms(1) allowed_list_stable[OF _ assms(2)] by (auto simp: optional_list_def res_simps split: if_splits)

lemma installation_adapters_stable:
  assumes "installation_adapters_of v (ia_allow a) = Inr a"
  shows "installation_adapters_of (get (installation_profile_js (p\<lparr>ip_adapters := a\<rparr>)) ''adapters'') (ia_allow a) = Inr a"
proof -
  have l: "optional_list allowedUUIDs (get v ''microsoftGraphAllowedClientIds'') ''microsoftGraphAllowedClientIds'' = Inr (ia_microsoftGraphAllowedClientIds a)"
    "optional_list allowedEmails (get v ''microsoftGraphAllowedSenders'') ''microsoftGraphAllowedSenders'' = Inr (ia_microsoftGraphAllowedSenders a)"
    "optional_list allowedUUIDs (get v ''microsoftGraphAllowedTenantIds'') ''microsoftGraphAllowedTenantIds'' = Inr (ia_microsoftGraphAllowedTenantIds a)"
    "optional_list allowedHosts (get v ''malwareScannerAllowedHosts'') ''malwareScannerAllowedHosts'' = Inr (ia_malwareScannerAllowedHosts a)"
    "allowedHosts (get v ''smtpAllowedHosts'') ''smtpAllowedHosts'' = Inr (ia_smtpAllowedHosts a)"
    "allowedHosts (get v ''webhookAllowedHosts'') ''webhookAllowedHosts'' = Inr (ia_webhookAllowedHosts a)"
    using assms unfolding installation_adapters_of_def by (elim bindE_E, simp, metis installation_adapters.select_convs)+
  note st = optional_list_stable[OF l(1) stable_entries(1)] optional_list_stable[OF l(2) stable_entries(2)]
    optional_list_stable[OF l(3) stable_entries(1)] optional_list_stable[OF l(4) stable_entries(3)]
    allowed_list_stable[OF l(5) stable_entries(3)] allowed_list_stable[OF l(6) stable_entries(3)]
  show ?thesis by (simp add: installation_adapters_of_def installation_profile_js_def Let_def st del: texts_js.simps)
qed

lemma validateInstallationProfile_ok: "validateInstallationProfile v = Inr p \<Longrightarrow> installation_profile_ok p"
  unfolding validateInstallationProfile_def
  by (elim bindE_E guardE_E)
    (auto simp: res_simps installation_profile_ok_def installation_adapters_of_def dest: boundedString_text email_text split: if_splits)

lemma validateInstallationProfile_encode:
  assumes "installation_profile_ok p"
  shows "validateInstallationProfile (installation_profile_js p) = Inr p"
proof -
  note q = assms[unfolded installation_profile_ok_def]
  have "adapter_allowlist (get (get (installation_profile_js p) ''adapters'') ''allow'') = Inr (ia_allow (ip_adapters p))"
    using q adapter_allowlist_stable by (auto simp: installation_profile_js_def Let_def simp del: texts_js.simps)
  moreover have "installation_adapters_of (get (installation_profile_js p) ''adapters'') (ia_allow (ip_adapters p)) = Inr (ip_adapters p)"
    using q installation_adapters_stable[where p = p] by fastforce
  moreover have "(if ip_mode p = ''saas'' then ''saas'' else ''self_hosted'') = ip_mode p" using q by auto
  ultimately show ?thesis
    using q by (simp add: validateInstallationProfile_def installation_profile_js_def Let_def strict_object_JObj ADAPTER_FIELDS_def whole_number_JInt
        boundedString_JStr email_JStr MAX_SAFE_INTEGER_def del: texts_js.simps)
qed

interpretation installation_profile: normalizer validateInstallationProfile installation_profile_js
  by unfold_locales (rule validateInstallationProfile_encode[OF validateInstallationProfile_ok])

section \<open>Properties\<close>


lemma trim_last: "s \<noteq> [] \<Longrightarrow> is_ws (last s) \<Longrightarrow> js_trim s \<noteq> s"
proof
  assume "s \<noteq> []" "is_ws (last s)" "js_trim s = s"
  then have "dropWhile is_ws (rev (dropWhile is_ws s)) = rev s" unfolding js_trim_def by (metis rev_rev_ident)
  moreover have "rev s = last s # rev (butlast s)" using \<open>s \<noteq> []\<close> by (metis append_butlast_last_id rev.simps(2) rev_rev_ident rev_append rev_singleton_conv append_Cons append_Nil)
  ultimately have "dropWhile is_ws (rev (dropWhile is_ws s)) = last s # rev (butlast s)" by simp
  then have "\<not> is_ws (last s)" using hd_dropWhile[of is_ws "rev (dropWhile is_ws s)"] by (metis dropWhile.simps(1) list.distinct(1) list.sel(1))
  with \<open>is_ws (last s)\<close> show False by simp
qed

lemma profile_short_name:
  assumes "canonicalValue (tenant_profile_js p) = Inr w"
  shows "get (get w ''branding'') ''shortName'' = JStr (tb_shortName (tp_branding p))"
proof -
  let ?qs = "branding_members (tp_branding p)"
  obtain ps where q: "tenant_profile_js p = JObj ps" "map_of ps ''branding'' = Some (JObj ?qs)" by (simp add: tenant_profile_js_def Let_def)
  from canonical_get[OF assms[unfolded q(1)] q(2)] obtain u where u: "canonicalValue (JObj ?qs) = Inr u" "get w ''branding'' = u" by auto
  from canonical_get[OF u(1), of "''shortName''"] u(2) show ?thesis by (simp add: branding_members_def)
qed


text \<open>
  An accepted integration binding fits its adapter: the adapter is built in and offers the
  capability, a disabled adapter is never active, a webhook or scanner is reached over HTTPS
  without credentials in the URL and signs with a secret of at least 32 characters, and an SMTP
  user name comes with a password.
\<close>

theorem integration_binding_fits:
  assumes "validateIntegrationBindingCommand R X v = Inr b"
  shows "(\<exists>a \<in> set BUILT_IN_ADAPTERS. ap_id a = ib_adapterId b \<and> ib_capability b \<in> set (ap_capabilities a)) \<and>
    (ib_adapterId b \<in> {''disabled'', ''scan_disabled''} \<longrightarrow> ib_status b = ''disabled'' \<and> ib_config b = No_config) \<and>
    (\<forall>href. ib_config b = Webhook_config href \<longrightarrow>
       (\<exists>s url secret. new_URL R s = Some url \<and> href = url_href url \<and> url_protocol url = ''https:'' \<and> url_username url = [] \<and> url_password url = [] \<and>
          ib_credentials b = Webhook_credentials secret \<and> 32 \<le> length secret)) \<and>
    (\<forall>n href. ib_config b = Scanner_config n href \<longrightarrow>
       (\<exists>s url ca secret. new_URL R s = Some url \<and> href = url_href url \<and> url_protocol url = ''https:'' \<and> url_username url = [] \<and> url_password url = [] \<and>
          ib_credentials b = Scanner_credentials ca secret \<and> 32 \<le> length secret)) \<and>
    (\<forall>f h n s u. ib_config b = Smtp_config f h n s u \<longrightarrow> (\<exists>password. ib_credentials b = Smtp_credentials password \<and> (u = None) = (password = None)))"
proof -
  from assms obtain input adapterId a capability config credentials where
    i: "find (\<lambda>a. ap_id a = adapterId) BUILT_IN_ADAPTERS = Some a" "capability \<in> set (ap_capabilities a)"
      "ib_adapterId b = adapterId" "ib_capability b = capability" "ib_config b = config" "ib_credentials b = credentials"
      "normalizeAdapterConfiguration R X adapterId (get input ''config'') (get input ''credentials'') = Inr (config, credentials)"
      "adapterId \<in> {''disabled'', ''scan_disabled''} \<longrightarrow> ib_status b = ''disabled''"
    unfolding validateIntegrationBindingCommand_def
    by (elim bindE_E guardE_E case_option_throw_E) (auto simp: Let_def res_simps split: option.splits)
  have "a \<in> set BUILT_IN_ADAPTERS" "ap_id a = adapterId" using i(1) by (auto simp: find_Some_iff)
  moreover have "adapterId \<in> {''disabled'', ''scan_disabled''} \<longrightarrow> config = No_config"
    using i(7) by (auto simp: normalizeAdapterConfiguration_def res_simps)
  moreover have "case config of
      Webhook_config href \<Rightarrow> \<exists>s url secret. new_URL R s = Some url \<and> href = url_href url \<and> url_protocol url = ''https:'' \<and> url_username url = [] \<and>
        url_password url = [] \<and> credentials = Webhook_credentials secret \<and> 32 \<le> length secret
    | Scanner_config n href \<Rightarrow> \<exists>s url ca secret. new_URL R s = Some url \<and> href = url_href url \<and> url_protocol url = ''https:'' \<and> url_username url = [] \<and>
        url_password url = [] \<and> credentials = Scanner_credentials ca secret \<and> 32 \<le> length secret
    | Smtp_config f h n s u \<Rightarrow> \<exists>password. credentials = Smtp_credentials password \<and> (u = None) = (password = None)
    | _ \<Rightarrow> True"
    using i(7) unfolding normalizeAdapterConfiguration_def
    by (auto simp: scanner_configuration_def webhook_configuration_def graph_configuration_def smtp_configuration_def res_simps safe_text_def
        dest!: boundedString_text split: if_splits option.splits sum.splits) blast+
  ultimately show ?thesis using i by auto
qed

text \<open>
  An active integration is only used towards a destination the installation profile names:
  its adapter is on the allow list, and so is the host, or the Graph tenant, client and sender.
\<close>

theorem integration_destination_listed:
  assumes "integrationDestinationAllowed R v b = Inr True" "ib_status b = ''active''" "ib_adapterId b \<noteq> ''disabled''"
  shows "\<exists>profile. validateInstallationProfile v = Inr profile \<and> ib_adapterId b \<in> set (ia_allow (ip_adapters profile)) \<and>
    (\<forall>href. ib_config b = Webhook_config href \<longrightarrow>
       (\<exists>url. new_URL R href = Some url \<and> js_lower (url_hostname url) \<in> set (ia_webhookAllowedHosts (ip_adapters profile)))) \<and>
    (\<forall>n href. ib_config b = Scanner_config n href \<longrightarrow>
       (\<exists>url hosts. new_URL R href = Some url \<and> ia_malwareScannerAllowedHosts (ip_adapters profile) = Some hosts \<and> js_lower (url_hostname url) \<in> set hosts)) \<and>
    (\<forall>f h n s u. ib_config b = Smtp_config f h n s u \<longrightarrow> js_lower h \<in> set (ia_smtpAllowedHosts (ip_adapters profile))) \<and>
    ib_config b \<noteq> No_config"
proof -
  have d: "x \<in> set (or_default [] y) \<longleftrightarrow> (\<exists>ys. y = Some ys \<and> x \<in> set ys)" for x :: string and y by (cases y) auto
  show ?thesis
    using assms by (auto simp: integrationDestinationAllowed_def res_simps Let_def d split: if_splits adapter_config.splits option.splits)
qed

section \<open>Witnesses\<close>

lemma hashable_profile: "tenant_profile_ok p \<Longrightarrow> hashable (tenant_profile_js p)"
  by (simp add: tenant_profile_js_def branding_members_def null_or_text_def Let_def tenant_profile_ok_def MAX_SAFE_INTEGER_def split: option.split)

definition plain_profile :: tenant_profile where
  "plain_profile = \<lparr>tp_branding = \<lparr>tb_accentColor = ''#2e5b4e'', tb_displayName = ''Acme'', tb_primaryColor = ''#183e34'', tb_shortName = ''Acme'',
       tb_supportEmail = None\<rparr>, tp_defaultRetentionProfile = ''tenant_default'',
     tp_quotas = \<lparr>tq_maxActiveRequests = 10000, tq_maxArtifactBytes = 1073741824, tq_maxArtifactBytesPerArtifact = 52428800,
       tq_maxIntegrations = 8, tq_maxMembers = 100, tq_maxWorkflows = 500\<rparr>\<rparr>"

definition no_usage :: usage_tables where
  "no_usage = \<lparr>ut_memberships = [], ut_grants = [], ut_workflows = [], ut_requests = [], ut_artifacts = [], ut_bindings = []\<rparr>"


definition long_name :: string where
  "long_name = replicate 47 (CHR ''a'') @ '' b''"


definition hook_url :: url where
  "hook_url = \<lparr>url_protocol = ''https:'', url_username = [], url_password = [], url_port = [], url_hostname = ''hooks.example.org'',
     url_pathname = ''/v'', url_search = [], url_hash = [], url_origin = ''https://hooks.example.org'', url_href = ''https://hooks.example.org/v'',
     url_hrefNoHash = ''https://hooks.example.org/v'', url_param = (\<lambda>_. None)\<rparr>"

definition hook_runtime :: runtime where
  "hook_runtime = \<lparr>new_URL = (\<lambda>s. if s = ''https://hooks.example.org/v'' then Some hook_url else None), parse_date = (\<lambda>_. None)\<rparr>"

definition no_certificates :: x509_provider where
  "no_certificates = \<lparr>x5_parse = (\<lambda>_. None), x5_private = (\<lambda>_. None), x5_private_type = (\<lambda>_. []), x5_matches = (\<lambda>_ _. False),
     x5_sign = (\<lambda>_ _ _. []), x5_verify = (\<lambda>_ _ _ _. False)\<rparr>"

definition hook_command :: js where
  "hook_command = JObj [(''adapterId'', JStr ''webhook''), (''capability'', JStr ''notification.delivery''),
     (''config'', JObj [(''url'', JStr ''https://hooks.example.org/v'')]), (''credentials'', JObj [(''secret'', JStr (replicate 32 (CHR ''s'')))]),
     (''expectedRevision'', JInt 0), (''tenantId'', JStr ''t1'')]"

lemma hook_binding:
  obtains b where "validateIntegrationBindingCommand hook_runtime no_certificates hook_command = Inr b" "ib_status b = ''active''"
    "ib_adapterId b = ''webhook''" "ib_config b = Webhook_config ''https://hooks.example.org/v''"
proof -
  have "(case validateIntegrationBindingCommand hook_runtime no_certificates hook_command of Inl _ \<Rightarrow> False
     | Inr b \<Rightarrow> ib_status b = ''active'' \<and> ib_adapterId b = ''webhook'' \<and> ib_config b = Webhook_config ''https://hooks.example.org/v'')" by code_simp
  then show thesis by (auto split: sum.splits intro: that)
qed

theorem integration_binding_fits_witness:
  "\<exists>b. validateIntegrationBindingCommand hook_runtime no_certificates hook_command = Inr b \<and>
     (\<exists>secret. ib_credentials b = Webhook_credentials secret \<and> 32 \<le> length secret)"
proof -
  obtain b where b: "validateIntegrationBindingCommand hook_runtime no_certificates hook_command = Inr b"
    "ib_config b = Webhook_config ''https://hooks.example.org/v''" by (rule hook_binding)
  from integration_binding_fits[OF b(1)] b show ?thesis by blast
qed

definition hook_profile :: js where
  "hook_profile = JObj [(''adapters'', JObj [(''allow'', JArr [JStr ''disabled'', JStr ''webhook'']), (''smtpAllowedHosts'', JArr []),
       (''webhookAllowedHosts'', JArr [JStr ''Hooks.example.org''])]),
     (''deployment'', JObj [(''engineDatabaseBoundary'', JStr ''dedicated''), (''mode'', JStr ''saas''), (''publicIngress'', JStr ''gateway_only'')]),
     (''product'', JObj [(''organizationName'', JStr ''Acme''), (''productName'', JStr ''VASI''), (''supportEmail'', JStr ''a@b.c'')]),
     (''provisioning'', JObj [(''maxTenants'', JInt 10), (''mode'', JStr ''administrators_only'')]),
     (''schema'', JStr ''vasi-installation-profile/v1'')]"

theorem integration_destination_listed_witness:
  "\<exists>b. integrationDestinationAllowed hook_runtime hook_profile b = Inr True \<and> ib_status b = ''active'' \<and>
     (\<exists>profile. validateInstallationProfile hook_profile = Inr profile \<and> ib_adapterId b \<in> set (ia_allow (ip_adapters profile)))"
proof -
  obtain b :: integration_binding where b: "ib_status b = ''active''" "ib_adapterId b = ''webhook''" "ib_config b = Webhook_config ''https://hooks.example.org/v''"
    by (rule hook_binding)
  have "case validateInstallationProfile hook_profile of Inl _ \<Rightarrow> False
    | Inr p \<Rightarrow> ''webhook'' \<in> set (ia_allow (ip_adapters p)) \<and> ia_webhookAllowedHosts (ip_adapters p) = [''hooks.example.org'']" by code_simp
  moreover have "js_lower ''hooks.example.org'' = ''hooks.example.org''" by code_simp
  ultimately have "integrationDestinationAllowed hook_runtime hook_profile b = Inr True"
    using b by (auto simp: integrationDestinationAllowed_def hook_runtime_def hook_url_def split: sum.splits)
  from integration_destination_listed[OF this b(1)] this b show ?thesis by auto
qed

end
