(* ===== verification/Envelope.thy ===== *)
theory Envelope
  imports Crypto
begin

text \<open>
  Encrypted JSON envelopes (\<^verbatim>\<open>src/packages/engine-crypto/index.mjs\<close>): notification payloads and
  integration credentials are stored under AES-256-GCM. The cipher, base64url and \<^verbatim>\<open>JSON.parse\<close> are
  those of the platform; \<open>sound_cipher\<close> states what is relied on.
\<close>

record cipher =
  ci_fromBase64url :: "string \<Rightarrow> string"
  ci_toBase64url :: "string \<Rightarrow> string"
  ci_utf8 :: "string \<Rightarrow> string"
  ci_fromUtf8 :: "string \<Rightarrow> string"
  ci_encrypt :: "string \<Rightarrow> string \<Rightarrow> string \<Rightarrow> string \<times> string"
  ci_decrypt :: "string \<Rightarrow> string \<Rightarrow> string \<Rightarrow> string \<Rightarrow> string option"
  ci_parse :: "string \<Rightarrow> js option"

definition ENVELOPE_SCHEMA :: string where
  "ENVELOPE_SCHEMA = ''vasi-encrypted-envelope/v1''"

definition envelopeKey :: "cipher \<Rightarrow> js \<Rightarrow> string res" where
  "envelopeKey C secret =
     (case as_str secret of
        None \<Rightarrow> throw PLAIN_ERROR (Because ''envelope secret is invalid'')
      | Some s \<Rightarrow>
          let key = ci_fromBase64url C s in
          guardE (length key = 32) PLAIN_ERROR (Because ''envelope secret must contain 32 bytes'') (Inr key))"

definition encryptJSONEnvelope :: "cipher \<Rightarrow> string \<Rightarrow> js \<Rightarrow> js \<Rightarrow> js res" where
  "encryptJSONEnvelope C iv v secret =
     bindE (envelopeKey C secret) (\<lambda>key.
     bindE (canonicalJSON v) (\<lambda>plaintext.
     let (ciphertext, tag) = ci_encrypt C key iv (ci_utf8 C plaintext) in
     Inr (JObj [(''algorithm'', JStr ''A256GCM''), (''ciphertext'', JStr (ci_toBase64url C ciphertext)), (''iv'', JStr (ci_toBase64url C iv)),
       (''schema'', JStr ENVELOPE_SCHEMA), (''tag'', JStr (ci_toBase64url C tag))])))"

text \<open>
  Everything after the header check is one \<open>try\<close>, so a secret of the wrong length is reported as an
  envelope that could not be authenticated; so is a member that is not a text.
\<close>

definition decryptJSONEnvelope :: "cipher \<Rightarrow> js \<Rightarrow> js \<Rightarrow> js res" where
  "decryptJSONEnvelope C envelope secret =
     guardE (get envelope ''schema'' = JStr ENVELOPE_SCHEMA \<and> get envelope ''algorithm'' = JStr ''A256GCM'') PLAIN_ERROR
       (Because ''encrypted envelope is invalid'')
     (case (envelopeKey C secret, as_str (get envelope ''iv''), as_str (get envelope ''tag''), as_str (get envelope ''ciphertext'')) of
        (Inr key, Some iv, Some tag, Some ciphertext) \<Rightarrow>
          (case ci_decrypt C key (ci_fromBase64url C iv) (ci_fromBase64url C tag) (ci_fromBase64url C ciphertext) of
             Some plaintext \<Rightarrow>
               (case ci_parse C (ci_fromUtf8 C plaintext) of
                  Some v \<Rightarrow> Inr v
                | None \<Rightarrow> throw PLAIN_ERROR (Because ''envelope could not be authenticated''))
           | None \<Rightarrow> throw PLAIN_ERROR (Because ''envelope could not be authenticated''))
      | _ \<Rightarrow> throw PLAIN_ERROR (Because ''envelope could not be authenticated''))"

section \<open>What is relied on\<close>

definition sound_cipher :: "cipher \<Rightarrow> bool" where
  "sound_cipher C \<longleftrightarrow>
     (\<forall>b. ci_fromBase64url C (ci_toBase64url C b) = b) \<and> (\<forall>s. ci_fromUtf8 C (ci_utf8 C s) = s) \<and>
     (\<forall>k iv m c t. ci_encrypt C k iv m = (c, t) \<longrightarrow> ci_decrypt C k iv t c = Some m)"

text \<open>Authenticated encryption: what decrypts under a key was made with that key.\<close>

definition authentic :: "cipher \<Rightarrow> bool" where
  "authentic C \<longleftrightarrow> (\<forall>k iv m c t. ci_decrypt C k iv t c = Some m \<longrightarrow> ci_encrypt C k iv m = (c, t))"

section \<open>Properties\<close>

text \<open>
  C13. An envelope opens under its own secret, to the canonical form of what was put in, provided
  the platform parses the canonical text back.
\<close>

theorem envelope_roundtrip:
  assumes "encryptJSONEnvelope C iv v secret = Inr env" "canonicalValue v = Inr w" "ci_parse C (stringify w) = Some w" "sound_cipher C"
  shows "decryptJSONEnvelope C env secret = Inr w"
proof -
  from assms(1,2) obtain key where key: "envelopeKey C secret = Inr key"
    by (auto simp: encryptJSONEnvelope_def elim: bindE_E)
  obtain c t where k: "ci_encrypt C key iv (ci_utf8 C (stringify w)) = (c, t)" by fastforce
  with assms(1,2) key have e: "env = JObj [(''algorithm'', JStr ''A256GCM''), (''ciphertext'', JStr (ci_toBase64url C c)), (''iv'', JStr (ci_toBase64url C iv)),
       (''schema'', JStr ENVELOPE_SCHEMA), (''tag'', JStr (ci_toBase64url C t))]"
    by (simp add: encryptJSONEnvelope_def canonicalJSON_def)
  moreover have "ci_decrypt C key iv t c = Some (ci_utf8 C (stringify w))" using assms(4) k by (simp add: sound_cipher_def)
  ultimately show ?thesis using assms(3,4) key by (simp add: e decryptJSONEnvelope_def sound_cipher_def)
qed

text \<open>
  Whatever opens under a secret was sealed under it: with authenticated encryption an envelope
  that decrypts carries the ciphertext and tag of its own plaintext under that key, so no altered
  envelope opens, nor one made under another key.
\<close>

theorem opened_envelope_authentic:
  assumes "decryptJSONEnvelope C env secret = Inr v" "authentic C"
  shows "\<exists>key iv plaintext c t. envelopeKey C secret = Inr key \<and> ci_encrypt C key iv plaintext = (c, t) \<and>
    ci_parse C (ci_fromUtf8 C plaintext) = Some v \<and> (\<exists>i s g. get env ''iv'' = JStr i \<and> ci_fromBase64url C i = iv \<and>
      get env ''ciphertext'' = JStr s \<and> ci_fromBase64url C s = c \<and> get env ''tag'' = JStr g \<and> ci_fromBase64url C g = t)"
proof -
  have str: "x = JStr s" if "as_str x = Some s" for x s using that by (cases x) auto
  from assms(1) obtain key i g s m where "envelopeKey C secret = Inr key" "as_str (get env ''iv'') = Some i" "as_str (get env ''tag'') = Some g"
    "as_str (get env ''ciphertext'') = Some s" "ci_decrypt C key (ci_fromBase64url C i) (ci_fromBase64url C g) (ci_fromBase64url C s) = Some m"
    "ci_parse C (ci_fromUtf8 C m) = Some v"
    by (auto simp: decryptJSONEnvelope_def guardE_Inr split: sum.splits option.splits)
  then show ?thesis using assms(2) str unfolding authentic_def by blast
qed

definition demo_cipher :: cipher where
  "demo_cipher = \<lparr>ci_fromBase64url = id, ci_toBase64url = id, ci_utf8 = id, ci_fromUtf8 = id, ci_encrypt = (\<lambda>k iv m. (m, k @ iv @ m)),
     ci_decrypt = (\<lambda>k iv t c. if t = k @ iv @ c then Some c else None), ci_parse = (\<lambda>s. if s = quote ''hi'' then Some (JStr ''hi'') else None)\<rparr>"

definition demo_secret :: js where
  "demo_secret = JStr (replicate 32 (CHR ''k''))"

lemma demo_cipher_sound: "sound_cipher demo_cipher" "authentic demo_cipher"
  by (auto simp: sound_cipher_def authentic_def demo_cipher_def split: if_splits)

lemma demo_envelope: "\<exists>env. encryptJSONEnvelope demo_cipher ''iv'' (JStr ''hi'') demo_secret = Inr env"
  by (simp add: encryptJSONEnvelope_def envelopeKey_def demo_cipher_def demo_secret_def canonicalJSON_def)

theorem envelope_roundtrip_witness:
  "\<exists>env. encryptJSONEnvelope demo_cipher ''iv'' (JStr ''hi'') demo_secret = Inr env \<and> decryptJSONEnvelope demo_cipher env demo_secret = Inr (JStr ''hi'')"
proof -
  obtain env where e: "encryptJSONEnvelope demo_cipher ''iv'' (JStr ''hi'') demo_secret = Inr env" using demo_envelope by blast
  from envelope_roundtrip[OF e _ _ demo_cipher_sound(1)] e show ?thesis by (auto simp: demo_cipher_def)
qed

theorem opened_envelope_authentic_witness:
  "\<exists>key. envelopeKey demo_cipher demo_secret = Inr key \<and>
     decryptJSONEnvelope demo_cipher (JObj [(''algorithm'', JStr ''A256GCM''), (''ciphertext'', JStr (quote ''hi'')), (''iv'', JStr ''iv''),
       (''schema'', JStr ENVELOPE_SCHEMA), (''tag'', JStr (key @ ''iv'' @ quote ''hi''))]) demo_secret = Inr (JStr ''hi'') \<and>
     (\<exists>c t iv. ci_encrypt demo_cipher key iv (quote ''hi'') = (c, t))"
proof -
  let ?key = "replicate 32 (CHR ''k'')"
  let ?env = "JObj [(''algorithm'', JStr ''A256GCM''), (''ciphertext'', JStr (quote ''hi'')), (''iv'', JStr ''iv''),
       (''schema'', JStr ENVELOPE_SCHEMA), (''tag'', JStr (?key @ ''iv'' @ quote ''hi''))]"
  have k: "envelopeKey demo_cipher demo_secret = Inr ?key" by (simp add: envelopeKey_def demo_cipher_def demo_secret_def)
  have d: "decryptJSONEnvelope demo_cipher ?env demo_secret = Inr (JStr ''hi'')"
    by (simp add: decryptJSONEnvelope_def k) (simp add: demo_cipher_def)
  from opened_envelope_authentic[OF d demo_cipher_sound(2)] k d show ?thesis by (auto simp: demo_cipher_def)
qed

end
