(* ===== verification/Inspection.thy ===== *)
theory Inspection
  imports Prelude "HOL-Library.Sublist"
begin

text \<open>
  The inspection of an uploaded document (\<^verbatim>\<open>document-inspection.mjs\<close>), which sees the bytes chunk by
  chunk: the type signature, UTF-8 with a decoder that is carried from chunk to chunk, and the EICAR
  test marker in a window over the chunk borders. A buffer is the string of its bytes. The last
  section proves that the verdict does not depend on how the document was cut into chunks.
\<close>

section \<open>Bytes\<close>

type_synonym bytes = string

definition EICAR_MARKER :: string where
  "EICAR_MARKER = ''EICAR-STANDARD-ANTIVIRUS-TEST-FILE''"

definition TEXT_MEDIA_TYPES :: "string list" where
  "TEXT_MEDIA_TYPES = [''application/json'', ''application/xml'', ''text/csv'', ''text/markdown'', ''text/plain'']"

definition ZIP_MEDIA_TYPES :: "string list" where
  "ZIP_MEDIA_TYPES =
     [''application/vnd.oasis.opendocument.presentation'', ''application/vnd.oasis.opendocument.spreadsheet'', ''application/vnd.oasis.opendocument.text'',
      ''application/vnd.openxmlformats-officedocument.presentationml.presentation'', ''application/vnd.openxmlformats-officedocument.spreadsheetml.sheet'',
      ''application/vnd.openxmlformats-officedocument.wordprocessingml.document'']"

fun text_includes :: "string \<Rightarrow> string \<Rightarrow> bool" where
  "text_includes m [] = (m = [])"
| "text_includes m (c # s) = (take (length m) (c # s) = m \<or> text_includes m s)"

definition last_chars :: "nat \<Rightarrow> string \<Rightarrow> string" where
  "last_chars n s = drop (length s - n) s"

section \<open>UTF-8\<close>

text \<open>
  The fatal decoder of the encoding standard: how many continuation bytes are missing, and the range
  of the next one. Only its verdict is used, so code points are not assembled.
\<close>

record decoder =
  dc_needed :: nat
  dc_lower :: nat
  dc_upper :: nat

definition fresh_decoder :: decoder where
  "fresh_decoder = \<lparr>dc_needed = 0, dc_lower = 128, dc_upper = 191\<rparr>"

definition decode_byte :: "decoder \<Rightarrow> char \<Rightarrow> decoder option" where
  "decode_byte d c =
     (let b = code c in
      if dc_needed d = 0
      then if b \<le> 127 then Some d
           else if 194 \<le> b \<and> b \<le> 223 then Some (d\<lparr>dc_needed := 1\<rparr>)
           else if 224 \<le> b \<and> b \<le> 239
             then Some \<lparr>dc_needed = 2, dc_lower = (if b = 224 then 160 else dc_lower d), dc_upper = (if b = 237 then 159 else dc_upper d)\<rparr>
           else if 240 \<le> b \<and> b \<le> 244
             then Some \<lparr>dc_needed = 3, dc_lower = (if b = 240 then 144 else dc_lower d), dc_upper = (if b = 244 then 143 else dc_upper d)\<rparr>
           else None
      else if dc_lower d \<le> b \<and> b \<le> dc_upper d then Some \<lparr>dc_needed = dc_needed d - 1, dc_lower = 128, dc_upper = 191\<rparr> else None)"

fun decode_bytes :: "decoder \<Rightarrow> bytes \<Rightarrow> decoder option" where
  "decode_bytes d [] = Some d"
| "decode_bytes d (c # cs) = (case decode_byte d c of None \<Rightarrow> None | Some d' \<Rightarrow> decode_bytes d' cs)"

text \<open>\<open>replace(/^\uFEFF/, "").trimStart()\<close> on valid UTF-8: the white space and line terminators of ECMAScript.\<close>

definition white_length :: "nat list \<Rightarrow> nat" where
  "white_length bs =
     (if bs = [] then 0
      else if (9 \<le> hd bs \<and> hd bs \<le> 13) \<or> hd bs = 32 then 1
      else if take 2 bs = [194, 160] then 2
      else if take 3 bs \<in> {[225, 154, 128], [226, 129, 159], [227, 128, 128], [239, 187, 191], [226, 128, 168], [226, 128, 169], [226, 128, 175]} then 3
      else if take 2 bs = [226, 128] \<and> length bs \<ge> 3 \<and> 128 \<le> bs ! 2 \<and> bs ! 2 \<le> 138 then 3
      else 0)"

function trim_start_utf8 :: "nat list \<Rightarrow> nat list" where
  "trim_start_utf8 bs = (if white_length bs = 0 then bs else trim_start_utf8 (drop (white_length bs) bs))"
  by pat_completeness auto
termination
  by (relation "measure length") (auto simp: white_length_def split: if_splits)

declare trim_start_utf8.simps [simp del]

definition starts_with :: "char list \<Rightarrow> bytes \<Rightarrow> bool" where
  "starts_with cs head = (case trim_start_utf8 (map code head) of [] \<Rightarrow> False | b # _ \<Rightarrow> b \<in> code ` set cs)"

section \<open>The inspector\<close>

record inspector =
  np_prefix :: bytes
  np_signatureTail :: string
  np_containsEicar :: bool
  np_containsNul :: bool
  np_decoder :: "decoder option"

text \<open>The decoder is \<open>None\<close> once a byte was refused: \<open>utf8Valid\<close> is never set again.\<close>

definition createDocumentInspector :: inspector where
  "createDocumentInspector = \<lparr>np_prefix = [], np_signatureTail = [], np_containsEicar = False, np_containsNul = False, np_decoder = Some fresh_decoder\<rparr>"

definition inspector_update :: "string \<Rightarrow> bytes \<Rightarrow> inspector \<Rightarrow> inspector res" where
  "inspector_update mediaType chunk st =
     guardE (chunk \<noteq> []) PLAIN_ERROR (Because ''A non-empty document chunk is required.'')
     (let head = (if length (np_prefix st) < 8192 then np_prefix st @ take (8192 - length (np_prefix st)) chunk else np_prefix st);
          signatureWindow = np_signatureTail st @ chunk;
          is_text = mediaType \<in> set TEXT_MEDIA_TYPES in
      Inr \<lparr>np_prefix = head, np_signatureTail = last_chars 128 signatureWindow,
           np_containsEicar = (np_containsEicar st \<or> text_includes EICAR_MARKER signatureWindow),
           np_containsNul = (np_containsNul st \<or> (is_text \<and> list_ex (\<lambda>c. code c = 0) chunk)),
           np_decoder = (if is_text then Option.bind (np_decoder st) (\<lambda>d. decode_bytes d chunk) else np_decoder st)\<rparr>)"

text \<open>\<open>toString("ascii")\<close> drops the highest bit of each byte.\<close>

definition ascii :: "bytes \<Rightarrow> string" where
  "ascii b = map (\<lambda>c. char_of (code c mod 128)) b"

definition validateContent :: "string \<Rightarrow> bytes \<Rightarrow> bool \<Rightarrow> bool \<Rightarrow> string" where
  "validateContent mediaType head containsNul utf8Valid =
     (if mediaType = ''application/pdf'' then if ascii (take 5 head) = ''%PDF-'' then ''passed'' else ''pdf_signature_mismatch''
      else if mediaType \<in> set ZIP_MEDIA_TYPES
      then if map code (take 4 head) \<in> {[80, 75, 3, 4], [80, 75, 5, 6], [80, 75, 7, 8]} then ''passed'' else ''zip_container_signature_mismatch''
      else if mediaType \<in> set TEXT_MEDIA_TYPES
      then if containsNul then ''text_contains_nul''
           else if \<not> utf8Valid then ''invalid_utf8''
           else if mediaType = ''application/json'' \<and> \<not> starts_with ''{['' head then ''json_shape_mismatch''
           else if mediaType = ''application/xml'' \<and> \<not> starts_with ''<'' head then ''xml_shape_mismatch''
           else ''passed''
      else ''unsupported_media_type'')"

record inspection =
  is_contentValidation :: string
  is_containsEicar :: bool

definition inspection_passed :: "inspection \<Rightarrow> bool" where
  "inspection_passed i = (\<not> is_containsEicar i \<and> is_contentValidation i = ''passed'')"

definition rejection_code :: "inspection \<Rightarrow> string option" where
  "rejection_code i =
     (if is_containsEicar i then Some ''malware_test_signature_detected''
      else if is_contentValidation i = ''passed'' then None else Some (is_contentValidation i))"

definition inspector_finalize :: "string \<Rightarrow> inspector \<Rightarrow> inspection" where
  "inspector_finalize mediaType st =
     (let utf8Valid = (mediaType \<in> set TEXT_MEDIA_TYPES \<longrightarrow> (case np_decoder st of None \<Rightarrow> False | Some d \<Rightarrow> dc_needed d = 0)) in
      \<lparr>is_contentValidation = validateContent mediaType (np_prefix st) (np_containsNul st) utf8Valid, is_containsEicar = np_containsEicar st\<rparr>)"

definition inspection_js :: "inspection \<Rightarrow> js" where
  "inspection_js i = JObj
     [(''adapter'', JStr ''vasi-bounded-document-inspector''), (''adapterVersion'', JStr ''1''), (''contentValidation'', JStr (is_contentValidation i)),
      (''limitation'', JStr ''Built-in inspection validates bounded type signatures, UTF-8 where applicable, and the EICAR test marker; it is not a comprehensive antivirus signature service.''),
      (''malwareSignatureProfile'', JStr ''eicar-test-marker/v1''),
      (''malwareStatus'', JStr (if is_containsEicar i then ''test_signature_detected'' else ''no_test_signature_detected'')),
      (''passed'', JBool (inspection_passed i)), (''rejectionCode'', opt_js JStr (rejection_code i))]"

section \<open>The whole document\<close>

text \<open>What the inspection means, with the document in one piece.\<close>

definition inspect_document :: "string \<Rightarrow> bytes \<Rightarrow> inspection" where
  "inspect_document mediaType b =
     (let is_text = mediaType \<in> set TEXT_MEDIA_TYPES in
      \<lparr>is_contentValidation = validateContent mediaType (take 8192 b) (is_text \<and> list_ex (\<lambda>c. code c = 0) b)
         (is_text \<longrightarrow> (case decode_bytes fresh_decoder b of None \<Rightarrow> False | Some d \<Rightarrow> dc_needed d = 0)),
       is_containsEicar = text_includes EICAR_MARKER b\<rparr>)"

fun inspect_chunks :: "string \<Rightarrow> bytes list \<Rightarrow> inspector \<Rightarrow> inspector res" where
  "inspect_chunks mediaType [] st = Inr st"
| "inspect_chunks mediaType (c # cs) st = bindE (inspector_update mediaType c st) (inspect_chunks mediaType cs)"

lemma text_includes_iff: "text_includes m s \<longleftrightarrow> sublist m s"
proof (induction m s rule: text_includes.induct)
  case (1 m)
  then show ?case by simp
next
  case (2 m c s)
  have "take (length m) (c # s) = m \<longleftrightarrow> prefix m (c # s)" by (metis append_take_drop_id prefixI append_eq_conv_conj prefix_def)
  with 2 show ?case by (simp add: sublist_Cons_right)
qed

lemma last_chars_append: "last_chars n (last_chars n s @ t) = last_chars n (s @ t)"
  by (cases "n \<le> length s") (simp_all add: last_chars_def add.commute)

text \<open>A marker that is not longer than the window plus one is seen when its last byte arrives.\<close>

lemma sublist_window:
  assumes "0 < length m" "length m \<le> Suc n"
  shows "sublist m (s @ t) \<longleftrightarrow> sublist m s \<or> sublist m (last_chars n s @ t)"
proof
  assume "sublist m (s @ t)"
  then obtain p q where pq: "s @ t = p @ m @ q" by (auto simp: sublist_def)
  show "sublist m s \<or> sublist m (last_chars n s @ t)"
  proof (cases "length (p @ m) \<le> length s")
    case True
    have "take (length s) (s @ t) = p @ m @ take (length s - length (p @ m)) q" using True unfolding pq by simp
    then have "s = p @ m @ take (length s - length (p @ m)) q" by simp
    then show ?thesis by (metis sublist_appendI)
  next
    case False
    have "length s - n \<le> length p" using False assms by simp
    then have "drop (length s - n) (s @ t) = drop (length s - n) p @ m @ q" unfolding pq by simp
    moreover have "drop (length s - n) (s @ t) = last_chars n s @ t" by (simp add: last_chars_def)
    ultimately show ?thesis by (metis sublist_appendI)
  qed
next
  have whole: "s @ t = take (length s - n) s @ last_chars n s @ t" by (simp add: last_chars_def)
  have "sublist m (s @ t)" if "sublist m (last_chars n s @ t)"
    using that whole unfolding sublist_def by (metis append_assoc)
  moreover have "sublist m (s @ t)" if "sublist m s" using that unfolding sublist_def by (metis append_assoc)
  ultimately show "sublist m s \<or> sublist m (last_chars n s @ t) \<Longrightarrow> sublist m (s @ t)" by blast
qed

lemma decode_bytes_append: "decode_bytes d (a @ b) = Option.bind (decode_bytes d a) (\<lambda>e. decode_bytes e b)"
  by (induction a arbitrary: d) (auto split: option.splits)

definition seen :: "string \<Rightarrow> bytes \<Rightarrow> inspector \<Rightarrow> bool" where
  "seen mediaType b st \<longleftrightarrow>
     st = \<lparr>np_prefix = take 8192 b, np_signatureTail = last_chars 128 b, np_containsEicar = text_includes EICAR_MARKER b,
       np_containsNul = (mediaType \<in> set TEXT_MEDIA_TYPES \<and> list_ex (\<lambda>c. code c = 0) b),
       np_decoder = (if mediaType \<in> set TEXT_MEDIA_TYPES then decode_bytes fresh_decoder b else Some fresh_decoder)\<rparr>"

lemma seen_update:
  assumes "seen mediaType b st" "inspector_update mediaType c st = Inr st'"
  shows "seen mediaType (b @ c) st'"
proof -
  have e: "text_includes EICAR_MARKER (b @ c) \<longleftrightarrow> text_includes EICAR_MARKER b \<or> text_includes EICAR_MARKER (last_chars 128 b @ c)"
    unfolding text_includes_iff by (rule sublist_window) (simp_all add: EICAR_MARKER_def)
  have p: "take 8192 (b @ c) = (if length (take 8192 b) < 8192 then take 8192 b @ take (8192 - length (take 8192 b)) c else take 8192 b)" by auto
  from assms(2) show ?thesis unfolding inspector_update_def using assms(1)
    by (auto simp: seen_def guardE_Inr Let_def e last_chars_append decode_bytes_append simp flip: p)
qed

lemma seen_chunks: "seen mediaType b st \<Longrightarrow> inspect_chunks mediaType cs st = Inr st' \<Longrightarrow> seen mediaType (b @ concat cs) st'"
proof (induction cs arbitrary: b st)
  case (Cons c cs)
  from Cons.prems(2) obtain st1 where s: "inspector_update mediaType c st = Inr st1" "inspect_chunks mediaType cs st1 = Inr st'" by (auto elim: bindE_E)
  from Cons.IH[OF seen_update[OF Cons.prems(1) s(1)] s(2)] show ?case by simp
qed simp

lemma inspect_chunks_total: "\<forall>c \<in> set cs. c \<noteq> [] \<Longrightarrow> \<exists>st'. inspect_chunks mediaType cs st = Inr st'"
  by (induction cs arbitrary: st) (auto simp: inspector_update_def Let_def)

lemma seen_start: "seen mediaType [] createDocumentInspector"
  by (simp add: seen_def createDocumentInspector_def last_chars_def EICAR_MARKER_def)

lemma seen_finalize: "seen mediaType b st \<Longrightarrow> inspector_finalize mediaType st = inspect_document mediaType b"
  by (auto simp: seen_def inspector_finalize_def inspect_document_def Let_def)

lemma chunks_inspected:
  "inspect_chunks mediaType cs createDocumentInspector = Inr st \<Longrightarrow> inspector_finalize mediaType st = inspect_document mediaType (concat cs)"
  using seen_finalize[OF seen_chunks[OF seen_start]] by simp

section \<open>Properties\<close>

text \<open>
  C14. How a document is cut into chunks does not matter: whatever non-empty chunks the inspector is
  fed, their inspection succeeds and its verdict is that of the whole document, with its first 8192
  bytes for the type signature, every byte for NUL and UTF-8, and the marker anywhere, also
  across a chunk border.
\<close>

theorem inspection_whole:
  assumes "\<forall>c \<in> set cs. c \<noteq> []"
  shows "\<exists>st. inspect_chunks mediaType cs createDocumentInspector = Inr st \<and> inspector_finalize mediaType st = inspect_document mediaType (concat cs)"
proof -
  obtain st where st: "inspect_chunks mediaType cs createDocumentInspector = Inr st" using inspect_chunks_total[OF assms] by blast
  with chunks_inspected show ?thesis by blast
qed

text \<open>The marker, cut in two: both parts look harmless.\<close>

theorem inspection_whole_witness:
  "\<exists>st. inspect_chunks ''text/plain'' [take 10 EICAR_MARKER, drop 10 EICAR_MARKER] createDocumentInspector = Inr st \<and>
     inspector_finalize ''text/plain'' st = inspect_document ''text/plain'' EICAR_MARKER \<and>
     rejection_code (inspect_document ''text/plain'' EICAR_MARKER) = Some ''malware_test_signature_detected'' \<and>
     rejection_code (inspect_document ''text/plain'' (take 10 EICAR_MARKER)) = None"
proof -
  have e: "\<forall>c \<in> set [take 10 EICAR_MARKER, drop 10 EICAR_MARKER]. c \<noteq> []" by (simp add: EICAR_MARKER_def)
  have r: "rejection_code (inspect_document ''text/plain'' EICAR_MARKER) = Some ''malware_test_signature_detected''"
    "rejection_code (inspect_document ''text/plain'' (take 10 EICAR_MARKER)) = None"
    by code_simp+
  from inspection_whole[OF e, of "''text/plain''"] show ?thesis using r by (simp only: append_take_drop_id concat.simps append_Nil2 simp_thms)
qed

end
