(* ===== verification/Scanning.thy ===== *)
theory Scanning
  imports Boundary
begin

text \<open>
  The engine's client of the integration gateway for malware scans
  (\<^verbatim>\<open>src/services/engine/integration-gateway-scan-client.mjs\<close>): the signed command, and the
  validation of what comes back. The transport is a parameter that gets the signed request.
\<close>

abbreviation scanClientError :: "string \<Rightarrow> 'a res" where
  "scanClientError c \<equiv> throw INVALID_ARTIFACT_SCAN (Because c)"

abbreviation invalidScanResponse :: "'a res" where
  "invalidScanResponse \<equiv> scanClientError ''integration_gateway_invalid_response''"

text \<open>How the request went: no response, a refusal, a body that is not bounded JSON, or a value.\<close>

datatype scan_response = Unreachable | Refused_by_gateway | Unreadable | Answered js

record external_scan =
  xt_adapter :: string
  xt_adapterVersion :: string
  xt_attemptId :: "string option"
  xt_bindingRevisionId :: "string option"
  xt_errorCode :: "string option"
  xt_outcome :: string
  xt_responseMetadata :: "(string \<times> js) list"
  xt_scanRequestId :: "string option"
  xt_verdict :: "string option"

record scan_subject =
  sj_byteLength :: int
  sj_id :: string
  sj_mediaType :: string
  sj_sha256 :: string
  sj_tenantId :: string

definition scan_strict :: "js \<Rightarrow> string list \<Rightarrow> js res" where
  "scan_strict v allowedKeys =
     guardE (is_object v \<and> set (keys v) \<subseteq> set allowedKeys) INVALID_ARTIFACT_SCAN (Because ''integration_gateway_invalid_response'') (Inr v)"

definition scan_token :: "js \<Rightarrow> nat \<Rightarrow> string res" where
  "scan_token v maximum =
     (case as_str v of
        None \<Rightarrow> invalidScanResponse
      | Some s \<Rightarrow> guardE (length s \<le> maximum \<and> opaque_shape s) INVALID_ARTIFACT_SCAN (Because ''integration_gateway_invalid_response'') (Inr s))"

definition optional_scan_token :: "js \<Rightarrow> nat \<Rightarrow> string option res" where
  "optional_scan_token v maximum = (if v = JUndef then Inr None else bindE (scan_token v maximum) (\<lambda>s. Inr (Some s)))"

definition safeText :: "js \<Rightarrow> nat \<Rightarrow> string res" where
  "safeText v maximum =
     (case as_str v of
        None \<Rightarrow> invalidScanResponse
      | Some s \<Rightarrow> guardE (js_trim s \<noteq> [] \<and> length (js_trim s) \<le> maximum \<and> \<not> has_ctrl (js_trim s)) INVALID_ARTIFACT_SCAN
          (Because ''integration_gateway_invalid_response'') (Inr (js_trim s)))"

definition metadata_limit :: "string \<Rightarrow> nat" where
  "metadata_limit key = (if key = ''signatureSet'' then 160 else if key = ''reasonCode'' then 64 else 80)"

definition validateResponse :: "js \<Rightarrow> external_scan res" where
  "validateResponse v =
     bindE (scan_strict v [''adapter'', ''adapterVersion'', ''attemptId'', ''bindingRevisionId'', ''errorCode'', ''outcome'',
       ''responseMetadata'', ''scanRequestId'', ''verdict'']) (\<lambda>input.
     case as_str (get input ''outcome'') of
       None \<Rightarrow> invalidScanResponse
     | Some outcome \<Rightarrow>
         guardE (outcome = ''completed'' \<or> outcome = ''failed'') INVALID_ARTIFACT_SCAN (Because ''integration_gateway_invalid_response'')
         (bindE (scan_token (get input ''adapter'') 64) (\<lambda>adapter.
          bindE (scan_token (get input ''adapterVersion'') 32) (\<lambda>adapterVersion.
          bindE (scan_token (get input ''attemptId'') 512) (\<lambda>attemptId.
          bindE (optional_scan_token (get input ''bindingRevisionId'') 512) (\<lambda>bindingRevisionId.
          bindE (optional_scan_token (get input ''errorCode'') 64) (\<lambda>errorCode.
          bindE (scan_token (get input ''scanRequestId'') 512) (\<lambda>scanRequestId.
          bindE (optional_scan_token (get input ''verdict'') 32) (\<lambda>verdict.
          guardE ((outcome = ''completed'' \<longrightarrow> verdict \<in> {Some ''clean'', Some ''malicious'', Some ''suspicious''}) \<and>
                  (outcome = ''failed'' \<longrightarrow> verdict = None \<and> errorCode \<noteq> None)) INVALID_ARTIFACT_SCAN (Because ''integration_gateway_invalid_response'')
          (bindE (scan_strict (get input ''responseMetadata'') [''reasonCode'', ''scanner'', ''scannerVersion'', ''signatureSet'']) (\<lambda>metadata.
           bindE (mapE (\<lambda>k. bindE (safeText (get metadata k) (metadata_limit k)) (\<lambda>s. Inr (k, JStr s))) (keys metadata)) (\<lambda>entries.
           Inr \<lparr>xt_adapter = adapter, xt_adapterVersion = adapterVersion, xt_attemptId = Some attemptId, xt_bindingRevisionId = bindingRevisionId,
                 xt_errorCode = errorCode, xt_outcome = outcome, xt_responseMetadata = entries, xt_scanRequestId = Some scanRequestId,
                 xt_verdict = verdict\<rparr>))))))))))))"

text \<open>The identifiers of the command and of the request, the clock in milliseconds, and the shared secret.\<close>

record scan_client =
  sq_primitives :: primitives
  sq_secret :: string
  sq_fetch :: "service_request \<Rightarrow> string \<Rightarrow> scan_response"

definition scanArtifact :: "scan_client \<Rightarrow> string \<Rightarrow> string \<Rightarrow> int \<Rightarrow> scan_subject \<Rightarrow> external_scan res" where
  "scanArtifact K scanRequestId requestId now artifact =
     bindE (canonicalJSON (JObj [(''artifactId'', JStr (sj_id artifact)), (''byteLength'', JInt (sj_byteLength artifact)),
       (''capability'', JStr ''document.malware_scan''), (''mediaType'', JStr (sj_mediaType artifact)), (''scanRequestId'', JStr scanRequestId),
       (''schema'', JStr ''vasi-artifact-scan/v1''), (''sha256'', JStr (sj_sha256 artifact)), (''tenantId'', JStr (sj_tenantId artifact))])) (\<lambda>body.
     let request = \<lparr>rq_timestamp = now div 1000, rq_requestId = requestId, rq_serviceId = ''vasi-engine'', rq_method = ''POST'',
                    rq_path = ''/v1/scan'', rq_body = body\<rparr>
     in case sq_fetch K request (signServiceRequest (sq_primitives K) request (sq_secret K)) of
          Unreachable \<Rightarrow> scanClientError ''integration_gateway_unavailable''
        | Refused_by_gateway \<Rightarrow> scanClientError ''integration_gateway_rejected''
        | Unreadable \<Rightarrow> invalidScanResponse
        | Answered v \<Rightarrow> validateResponse v)"

text \<open>A completed scan has a verdict, a failed one has an error code and no verdict.\<close>

definition scan_settled :: "external_scan \<Rightarrow> bool" where
  "scan_settled x \<longleftrightarrow>
     (xt_outcome x = ''completed'' \<and> xt_verdict x \<in> {Some ''clean'', Some ''malicious'', Some ''suspicious''}) \<or>
     (xt_outcome x = ''failed'' \<and> xt_verdict x = None \<and> xt_errorCode x \<noteq> None)"

lemma validateResponse_settled: "validateResponse v = Inr x \<Longrightarrow> scan_settled x"
  unfolding validateResponse_def by (elim bindE_E guardE_E case_option_throw_E) (clarsimp simp: scan_settled_def)

lemma scanArtifact_answer:
  assumes "scanArtifact K i q now s = Inr x"
  obtains v where "validateResponse v = Inr x"
proof -
  from assms obtain r sig where "(case sq_fetch K r sig of Unreachable \<Rightarrow> scanClientError ''integration_gateway_unavailable''
      | Refused_by_gateway \<Rightarrow> scanClientError ''integration_gateway_rejected'' | Unreadable \<Rightarrow> invalidScanResponse | Answered v \<Rightarrow> validateResponse v) = Inr x"
    unfolding scanArtifact_def Let_def by (elim bindE_E) blast
  then show thesis using that by (cases "sq_fetch K r sig") simp_all
qed

lemma scanArtifact_settled: "scanArtifact K i q now s = Inr x \<Longrightarrow> scan_settled x"
  by (elim scanArtifact_answer validateResponse_settled)

end
