(* ===== verification/Workspace.thy ===== *)
theory Workspace
  imports Profiles Records Media
begin

text \<open>
  The control plane of a company: \<^verbatim>\<open>src/services/engine/workflow-store.mjs\<close> with the bindings that
  \<^verbatim>\<open>artifact-store.mjs\<close> and \<^verbatim>\<open>media-store.mjs\<close> resolve when a workflow is published, and the membership
  guards of \<^verbatim>\<open>evidence-store.mjs\<close>. A published workflow keeps its document and the JSON of its
  activities, which the bindings extend.

  What an operation draws from outside is a \<open>draws\<close>: the readings of the clock, the random
  identifiers and the random handle, each named by what it is for. An insert whose key is taken is
  refused by the database with the code 23505. Texts are ordered by code point.
\<close>

section \<open>Tables\<close>

record draws =
  dr_clock :: "string \<Rightarrow> int"
  dr_uuid :: "string \<Rightarrow> nat \<Rightarrow> string"
  dr_handle :: string

abbreviation duplicate_key :: "'a res" where
  "duplicate_key \<equiv> throw PLAIN_ERROR (Because ''23505'')"

definition fresh :: "bool \<Rightarrow> 'a res \<Rightarrow> 'a res" where
  "fresh ok k = guardE ok PLAIN_ERROR (Because ''23505'') k"

record tenant_row =
  te_id :: string
  te_slug :: string
  te_name :: string
  te_status :: string

record grant_row =
  gr_id :: string
  gr_tenantId :: string
  gr_email :: string
  gr_roles :: "string list"
  gr_status :: string

record definition_row =
  wf_id :: string
  wf_tenantId :: string
  wf_name :: string
  wf_status :: string
  wf_createdByPrincipalId :: string
  wf_updatedAt :: int

record draft_row =
  df_definitionId :: string
  df_tenantId :: string
  df_version :: int
  df_document :: workflow_document
  df_documentHash :: string
  df_updatedByPrincipalId :: string
  df_updatedAt :: int

record published_workflow =
  pd_document :: workflow_document
  pd_definitions :: "js list"

record revision_row =
  wr_id :: string
  wr_tenantId :: string
  wr_revision :: int
  wr_title :: string
  wr_purpose :: string
  wr_activityType :: string
  wr_responseMode :: string
  wr_content :: js
  wr_contentHash :: string
  wr_definitionId :: "string option"
  wr_snapshot :: "published_workflow option"
  wr_snapshotHash :: "string option"

record artifact_row =
  da_id :: string
  da_tenantId :: string
  da_status :: string
  da_familyId :: string
  da_revision :: int
  da_role :: string
  da_originalFilename :: string
  da_mediaType :: string
  da_expectedByteLength :: int
  da_byteLength :: "int option"
  da_chunkCount :: "int option"
  da_sha256 :: "string option"
  da_inspectionProfile :: js
  da_inspectionResult :: js
  da_inspectionStatus :: string
  da_sourceArtifactId :: "string option"
  da_replacesArtifactId :: "string option"
  da_retentionPolicy :: js
  da_createdByPrincipalId :: string
  da_createdAt :: int
  da_publishedAt :: "int option"
  da_rejectedAt :: "int option"

record chunk_row =
  dk_artifactId :: string
  dk_sequence :: int
  dk_byteLength :: int
  dk_sha256 :: string
  dk_bytes :: string

record access_row =
  xs_id :: string
  xs_tenantId :: string
  xs_artifactId :: string
  xs_requestId :: "string option"
  xs_assignmentId :: "string option"
  xs_activityInstanceId :: "string option"
  xs_actorPrincipalId :: string
  xs_accessType :: string
  xs_disposition :: string
  xs_createdAt :: int

record artifact_binding =
  bn_workflowRevisionId :: string
  bn_activityId :: string
  bn_artifactId :: string
  bn_boundAt :: int

record descriptor_row =
  dw_id :: string
  dw_workflowRevisionId :: string
  dw_activityId :: string
  dw_descriptor :: js
  dw_descriptorHash :: string
  dw_boundAt :: int

record snapshot_row =
  sw_id :: string
  sw_descriptorId :: string
  sw_requestId :: "string option"
  sw_assignmentId :: "string option"
  sw_phase :: string
  sw_source :: string
  sw_availability :: string
  sw_metadata :: js
  sw_metadataHash :: string
  sw_capturedAt :: int

record workspace =
  ws_tenants :: "tenant_row list"
  ws_memberships :: "membership_row list"
  ws_grants :: "grant_row list"
  ws_definitions :: "definition_row list"
  ws_drafts :: "draft_row list"
  ws_revisions :: "revision_row list"
  ws_profiles :: "string \<Rightarrow> profile_row option"
  ws_admissions :: "string \<Rightarrow> admission_row option"
  ws_artifacts :: "artifact_row list"
  ws_artifactBindings :: "artifact_binding list"
  ws_integrations :: "(string \<times> string) list"
  ws_descriptors :: "descriptor_row list"
  ws_snapshots :: "snapshot_row list"
  ws_chunks :: "chunk_row list"
  ws_accesses :: "access_row list"

text \<open>The rows the quotas count; the requests are those of the execution tables.\<close>

definition usage_rows :: "workspace \<Rightarrow> (string \<times> string) list \<Rightarrow> usage_tables" where
  "usage_rows W requests =
     \<lparr>ut_memberships = ws_memberships W, ut_grants = map (\<lambda>g. (gr_tenantId g, gr_email g, gr_status g)) (ws_grants W),
      ut_workflows = map (\<lambda>d. (wf_tenantId d, wf_status d)) (ws_definitions W), ut_requests = requests,
      ut_artifacts = map (\<lambda>a. (da_tenantId a, da_expectedByteLength a)) (ws_artifacts W), ut_bindings = ws_integrations W\<rparr>"

section \<open>Members\<close>

abbreviation deny :: "'a res" where
  "deny \<equiv> throw (STORE_ERROR 403) (Because ''forbidden'')"

abbreviation notFound :: "'a res" where
  "notFound \<equiv> throw (STORE_ERROR 404) (Because ''not_found'')"

definition current_member :: "int \<Rightarrow> membership_row \<Rightarrow> bool" where
  "current_member now m = (mr_status m = ''active'' \<and> mr_validFrom m \<le> now \<and> (case mr_expiresAt m of None \<Rightarrow> True | Some e \<Rightarrow> now < e))"

definition requirePermission :: "int \<Rightarrow> workspace \<Rightarrow> actor \<Rightarrow> string \<Rightarrow> string \<Rightarrow> string list res" where
  "requirePermission now W actor tenantId permission =
     (case find (\<lambda>m. mr_tenantId m = tenantId \<and> mr_principalId m = ac_principalId actor \<and> current_member now m) (ws_memberships W) of
        None \<Rightarrow> deny
      | Some m \<Rightarrow> guardE (hasTenantPermission (mr_roles m) permission) (STORE_ERROR 403) (Because ''forbidden'') (Inr (mr_roles m)))"

definition requireActorEmail :: "actor \<Rightarrow> string res" where
  "requireActorEmail actor =
     (case ac_email actor of
        None \<Rightarrow> deny
      | Some e \<Rightarrow> guardE (ac_principalId actor \<noteq> [] \<and> e \<noteq> []) (STORE_ERROR 403) (Because ''forbidden'') (Inr e))"

text \<open>
  An address belongs to one membership of a company, and a membership row is keyed by company and
  principal: the insert of a claimed grant updates the principal's row, keeping its validity.
\<close>

definition email_taken :: "workspace \<Rightarrow> string \<Rightarrow> string \<Rightarrow> string \<Rightarrow> bool" where
  "email_taken W tenantId principalId e =
     list_ex (\<lambda>m. mr_tenantId m = tenantId \<and> mr_principalId m \<noteq> principalId \<and>
        (case mr_email m of None \<Rightarrow> False | Some x \<Rightarrow> js_lower x = js_lower e)) (ws_memberships W)"

definition claim_grant :: "int \<Rightarrow> string \<Rightarrow> string \<Rightarrow> grant_row \<Rightarrow> workspace \<Rightarrow> workspace res" where
  "claim_grant now principalId e g W =
     (let own = (\<lambda>m. mr_tenantId m = gr_tenantId g \<and> mr_principalId m = principalId) in
      fresh (\<not> email_taken W (gr_tenantId g) principalId e)
      (Inr (if list_ex own (ws_memberships W)
            then W\<lparr>ws_memberships := map (\<lambda>m. if own m then m\<lparr>mr_roles := gr_roles g, mr_status := ''active'', mr_email := Some e\<rparr> else m) (ws_memberships W)\<rparr>
            else W\<lparr>ws_memberships := ws_memberships W @
                   [\<lparr>mr_tenantId = gr_tenantId g, mr_principalId = principalId, mr_roles = gr_roles g, mr_email = Some e, mr_status = ''active'',
                     mr_validFrom = now, mr_expiresAt = None\<rparr>]\<rparr>)))"

fun claim_grants :: "int \<Rightarrow> string \<Rightarrow> string \<Rightarrow> grant_row list \<Rightarrow> workspace \<Rightarrow> workspace res" where
  "claim_grants now principalId e [] W = Inr W"
| "claim_grants now principalId e (g # gs) W = bindE (claim_grant now principalId e g W) (claim_grants now principalId e gs)"

definition claimMembershipGrants :: "int \<Rightarrow> string \<Rightarrow> string \<Rightarrow> workspace \<Rightarrow> workspace res" where
  "claimMembershipGrants now principalId e W =
     claim_grants now principalId e (filter (\<lambda>g. js_lower (gr_email g) = e \<and> gr_status g = ''active'') (ws_grants W)) W"

definition member_tenants :: "int \<Rightarrow> string \<Rightarrow> workspace \<Rightarrow> (tenant_row \<times> string list) list" where
  "member_tenants now principalId W =
     sort_key (\<lambda>(t, _). te_name t) (sort_key (\<lambda>(t, _). te_id t)
       (concat (map (\<lambda>m. map (\<lambda>t. (t, mr_roles m)) (filter (\<lambda>t. te_id t = mr_tenantId m \<and> te_status t = ''active'') (ws_tenants W)))
          (filter (\<lambda>m. mr_principalId m = principalId \<and> current_member now m) (ws_memberships W)))))"

definition listTenants :: "int \<Rightarrow> actor \<Rightarrow> workspace \<Rightarrow> ((tenant_row \<times> string list \<times> string list) list \<times> workspace) res" where
  "listTenants now actor W =
     bindE (requireActorEmail actor) (\<lambda>e.
     bindE (claimMembershipGrants now (ac_principalId actor) e W) (\<lambda>W'.
     Inr (map (\<lambda>(t, roles). (t, roles, permissionsForRoles roles)) (member_tenants now (ac_principalId actor) W'), W')))"

definition upsert_grant :: "grant_row \<Rightarrow> grant_row list \<Rightarrow> grant_row list" where
  "upsert_grant g gs =
     (let same = (\<lambda>x. gr_tenantId x = gr_tenantId g \<and> gr_email x = gr_email g) in
      if list_ex same gs then map (\<lambda>x. if same x then x\<lparr>gr_roles := gr_roles g, gr_status := gr_status g\<rparr> else x) gs else gs @ [g])"

definition active_owner :: "string \<Rightarrow> membership_row \<Rightarrow> bool" where
  "active_owner tenantId m = (mr_tenantId m = tenantId \<and> mr_status m = ''active'' \<and> ''owner'' \<in> set (mr_roles m))"

definition has_email :: "string \<Rightarrow> string \<Rightarrow> membership_row \<Rightarrow> bool" where
  "has_email tenantId e m = (mr_tenantId m = tenantId \<and> (case mr_email m of None \<Rightarrow> False | Some x \<Rightarrow> js_lower x = e))"

definition changed_member :: "membership \<Rightarrow> membership_row \<Rightarrow> membership_row" where
  "changed_member c m = (if has_email (mb_tenantId c) (mb_email c) m then m\<lparr>mr_roles := mb_roles c, mr_status := mb_status c\<rparr> else m)"

definition setMember :: "(string \<Rightarrow> string) \<Rightarrow> (string \<times> string) list \<Rightarrow> draws \<Rightarrow> actor \<Rightarrow> js \<Rightarrow> workspace \<Rightarrow> (membership \<times> workspace) res" where
  "setMember H requests D actor payload W =
     bindE (validateMembershipInput payload) (\<lambda>input.
     bindE (requirePermission (dr_clock D ''CURRENT_TIMESTAMP'') W actor (mb_tenantId input) ''member.manage'') (\<lambda>_.
     let known = list_ex (\<lambda>g. gr_tenantId g = mb_tenantId input \<and> js_lower (gr_email g) = mb_email input \<and> gr_status g = ''active'') (ws_grants W) \<or>
                 list_ex (\<lambda>m. has_email (mb_tenantId input) (mb_email input) m \<and> mr_status m = ''active'') (ws_memberships W) in
     bindE (if mb_status input = ''active'' \<and> \<not> known
            then bindE (assertTenantCapacity H (ws_profiles W) (usage_rows W requests) (mb_tenantId input) Members 1) (\<lambda>_. Inr ())
            else Inr ()) (\<lambda>_.
     let W1 = W\<lparr>ws_grants := upsert_grant \<lparr>gr_id = dr_uuid D ''grant'' 0, gr_tenantId = mb_tenantId input, gr_email = mb_email input,
                  gr_roles = mb_roles input, gr_status = mb_status input\<rparr> (ws_grants W),
                ws_memberships := map (changed_member input) (ws_memberships W)\<rparr> in
     guardE (list_ex (active_owner (mb_tenantId input)) (ws_memberships W1)) (STORE_ERROR 409) (Because ''last_owner_required'')
       (Inr (input, W1)))))"

section \<open>Drafts\<close>

abbreviation invalidWorkflow :: "'a res" where
  "invalidWorkflow \<equiv> throw (STORE_ERROR 400) (Because ''invalid_workflow_command'')"

record workflow_projection =
  wp_definitionId :: string
  wp_document :: workflow_document
  wp_documentHash :: string
  wp_draftVersion :: int
  wp_name :: string
  wp_publishedRevision :: "int option"
  wp_status :: string
  wp_tenantId :: string
  wp_updatedAt :: string

definition workflowProjection :: "definition_row \<Rightarrow> draft_row \<Rightarrow> workflow_projection" where
  "workflowProjection w d =
     \<lparr>wp_definitionId = df_definitionId d, wp_document = df_document d, wp_documentHash = df_documentHash d, wp_draftVersion = df_version d,
      wp_name = wf_name w, wp_publishedRevision = None, wp_status = wf_status w, wp_tenantId = df_tenantId d, wp_updatedAt = toISOString (df_updatedAt d)\<rparr>"

definition createWorkflow ::
  "runtime \<Rightarrow> (string \<Rightarrow> string) \<Rightarrow> (string \<times> string) list \<Rightarrow> draws \<Rightarrow> actor \<Rightarrow> js \<Rightarrow> workspace \<Rightarrow> (workflow_projection \<times> workspace) res" where
  "createWorkflow R H requests D actor payload W =
     bindE (validateWorkflowMutation R H payload) (\<lambda>input.
     case (wm_name input, wm_document input, wm_definitionId input) of
       (Some name, Some (document, documentHash), None) \<Rightarrow>
         bindE (requirePermission (dr_clock D ''CURRENT_TIMESTAMP'') W actor (wm_tenantId input) ''workflow.manage'') (\<lambda>_.
         bindE (assertTenantCapacity H (ws_profiles W) (usage_rows W requests) (wm_tenantId input) Workflows 1) (\<lambda>_.
         let definitionId = dr_uuid D ''definition'' 0; now = dr_clock D ''now'';
             w = \<lparr>wf_id = definitionId, wf_tenantId = wm_tenantId input, wf_name = name, wf_status = ''draft'',
                  wf_createdByPrincipalId = ac_principalId actor, wf_updatedAt = now\<rparr>;
             d = \<lparr>df_definitionId = definitionId, df_tenantId = wm_tenantId input, df_version = 1, df_document = document, df_documentHash = documentHash,
                  df_updatedByPrincipalId = ac_principalId actor, df_updatedAt = now\<rparr>
         in fresh (definitionId \<notin> wf_id ` set (ws_definitions W) \<and> definitionId \<notin> df_definitionId ` set (ws_drafts W))
            (Inr (workflowProjection w d, W\<lparr>ws_definitions := ws_definitions W @ [w], ws_drafts := ws_drafts W @ [d]\<rparr>))))
     | _ \<Rightarrow> invalidWorkflow)"

text \<open>
  The update names the version it replaces, so of two edits of one version the second finds no row.
\<close>

definition updateDraft ::
  "runtime \<Rightarrow> (string \<Rightarrow> string) \<Rightarrow> draws \<Rightarrow> actor \<Rightarrow> js \<Rightarrow> workspace \<Rightarrow> (workflow_projection \<times> workspace) res" where
  "updateDraft R H D actor payload W =
     bindE (validateWorkflowMutation R H payload) (\<lambda>input.
     case (wm_definitionId input, wm_document input, wm_expectedDraftVersion input, wm_name input) of
       (Some definitionId, Some (document, documentHash), Some expected, None) \<Rightarrow>
         bindE (requirePermission (dr_clock D ''CURRENT_TIMESTAMP'') W actor (wm_tenantId input) ''workflow.manage'') (\<lambda>_.
         let now = dr_clock D ''now'';
             hit = (\<lambda>d. df_definitionId d = definitionId \<and> df_tenantId d = wm_tenantId input \<and> df_version d = expected)
         in case (find hit (ws_drafts W),
                  find (\<lambda>w. wf_id w = definitionId \<and> wf_tenantId w = wm_tenantId input \<and> wf_status w \<noteq> ''archived'') (ws_definitions W)) of
              (Some d, Some w) \<Rightarrow>
                let d' = d\<lparr>df_version := df_version d + 1, df_document := document, df_documentHash := documentHash,
                           df_updatedByPrincipalId := ac_principalId actor, df_updatedAt := now\<rparr>
                in Inr (workflowProjection w d',
                        W\<lparr>ws_drafts := map (\<lambda>x. if hit x then d' else x) (ws_drafts W),
                          ws_definitions := map (\<lambda>x. if wf_id x = definitionId then x\<lparr>wf_updatedAt := now\<rparr> else x) (ws_definitions W)\<rparr>)
            | _ \<Rightarrow> throw (STORE_ERROR 409) (Because ''draft_version_conflict''))
     | _ \<Rightarrow> invalidWorkflow)"

section \<open>Publication\<close>

text \<open>A spread object with one member given anew: a member that is there keeps its place.\<close>

definition replace_member :: "string \<Rightarrow> js \<Rightarrow> (string \<times> js) list \<Rightarrow> (string \<times> js) list" where
  "replace_member k v ps = (if k \<in> fst ` set ps then map (\<lambda>(i, x). (i, if i = k then v else x)) ps else ps @ [(k, v)])"

fun set_member :: "js \<Rightarrow> string \<Rightarrow> js \<Rightarrow> js" where
  "set_member (JObj ps) k v = JObj (replace_member k v ps)"
| "set_member _ k v = JObj [(k, v)]"

text \<open>\<open>Number(null)\<close> is zero.\<close>

definition artifact_js :: "(string \<Rightarrow> string) \<Rightarrow> artifact_row \<Rightarrow> js res" where
  "artifact_js H a =
     bindE (hashCanonicalJSON H (da_inspectionResult a)) (\<lambda>resultHash.
     Inr (JObj [(''byteLength'', JInt (or_default 0 (da_byteLength a))), (''chunkCount'', JInt (or_default 0 (da_chunkCount a))), (''familyId'', JStr (da_familyId a)), (''id'', JStr (da_id a)),
       (''inspection'', JObj [(''profile'', da_inspectionProfile a), (''resultHash'', JStr resultHash), (''status'', JStr (da_inspectionStatus a))]),
       (''mediaType'', JStr (da_mediaType a)), (''originalFilename'', JStr (da_originalFilename a)), (''revision'', JInt (da_revision a)),
       (''role'', JStr (da_role a)), (''sha256'', js_or (opt_js JStr (da_sha256 a)) JNull)]))"

definition publishedArtifact :: "workspace \<Rightarrow> string \<Rightarrow> string \<Rightarrow> artifact_row res" where
  "publishedArtifact W tenantId artifactId =
     (case find (\<lambda>a. da_id a = artifactId \<and> da_tenantId a = tenantId \<and> da_status a = ''published'') (ws_artifacts W) of
        None \<Rightarrow> notFound
      | Some a \<Rightarrow> Inr a)"

fun resolveWorkflowArtifactBindings ::
  "(string \<Rightarrow> string) \<Rightarrow> workspace \<Rightarrow> string \<Rightarrow> activity list \<Rightarrow> ((string \<times> string) list \<times> js list) res" where
  "resolveWorkflowArtifactBindings H W tenantId [] = Inr ([], [])"
| "resolveWorkflowArtifactBindings H W tenantId (a # as) =
     bindE (case a_content a of
              Document_review c \<Rightarrow>
                bindE (publishedArtifact W tenantId (do_artifactId c)) (\<lambda>artifact.
                bindE (artifact_js H artifact) (\<lambda>binding.
                Inr ([(a_id a, da_id artifact)],
                     set_member (activity_js a) ''content'' (set_member (content_js (a_content a)) ''artifact'' binding))))
            | _ \<Rightarrow> Inr ([], activity_js a)) (\<lambda>(own, definition).
     bindE (resolveWorkflowArtifactBindings H W tenantId as) (\<lambda>(rest, definitions).
     Inr (own @ rest, definition # definitions)))"

fun split_tokens :: "string \<Rightarrow> string \<Rightarrow> string list" where
  "split_tokens acc [] = (if acc = [] then [] else [rev acc])"
| "split_tokens acc (c # cs) =
     (if is_ws c \<or> c = CHR '','' then (if acc = [] then [] else [rev acc]) @ split_tokens [] cs else split_tokens (c # acc) cs)"

definition configuredMediaOrigins :: "(string \<Rightarrow> string option) \<Rightarrow> js list" where
  "configuredMediaOrigins settings =
     (case settings ''ENGINE_MEDIA_GENERIC_ORIGINS'' of None \<Rightarrow> [] | Some s \<Rightarrow> map JStr (split_tokens [] s))"

text \<open>
  The bindings of the media activities: activity, descriptor identifier, bound descriptor and its
  hash. The second list holds the activities with their artifacts bound; a media activity has none,
  so what is extended is its own content.
\<close>

fun resolveWorkflowMediaBindings ::
  "runtime \<Rightarrow> (string \<Rightarrow> string) \<Rightarrow> js list \<Rightarrow> (nat \<Rightarrow> string) \<Rightarrow> nat \<Rightarrow> activity list \<Rightarrow> js list \<Rightarrow>
     ((string \<times> string \<times> js \<times> string) list \<times> js list) res" where
  "resolveWorkflowMediaBindings R H origins newId n (a # as) (v # vs) =
     bindE (case a_content a of
              External_media c \<Rightarrow>
                bindE (validateMediaOriginPolicy R c origins) (\<lambda>_.
                bindE (hashCanonicalJSON H (descriptor_js (mc_descriptor c))) (\<lambda>descriptorHash.
                let binding = set_member (set_member (descriptor_js (mc_descriptor c)) ''descriptorHash'' (JStr descriptorHash)) ''id'' (JStr (newId n))
                in Inr ([(a_id a, newId n, binding, descriptorHash)],
                        set_member v ''content'' (set_member (content_js (a_content a)) ''descriptor'' binding))))
            | _ \<Rightarrow> Inr ([], v)) (\<lambda>(own, definition).
     bindE (resolveWorkflowMediaBindings R H origins newId (Suc n) as vs) (\<lambda>(rest, definitions).
     Inr (own @ rest, definition # definitions)))"
| "resolveWorkflowMediaBindings R H origins newId n _ _ = Inr ([], [])"

definition published_js :: "published_workflow \<Rightarrow> js" where
  "published_js p = set_member (workflow_js (pd_document p)) ''activities'' (JArr (pd_definitions p))"

record metadata_snapshot =
  ms_assignmentId :: "string option"
  ms_availability :: string
  ms_capturedAt :: int
  ms_descriptor :: js
  ms_descriptorId :: string
  ms_metadata :: js
  ms_phase :: string
  ms_requestId :: "string option"
  ms_source :: string

definition snapshot_metadata :: "metadata_snapshot \<Rightarrow> js" where
  "snapshot_metadata m =
     (let d = (\<lambda>k. (k, get (ms_descriptor m) k)) in
      JObj [d ''accessMode'', d ''adapter'', d ''capability'', d ''dimensions'', d ''durationMilliseconds'', d ''itemId'', d ''kind'', d ''limitations'',
        d ''metadataProvenance'', (''observed'', ms_metadata m), d ''owner'', d ''provider'', d ''sourceUrl'', d ''title'', d ''version''])"

text \<open>
  A second snapshot of one descriptor, assignment, phase, source and availability is not stored; a
  null assignment never conflicts.
\<close>

definition persistMetadataSnapshot :: "(string \<Rightarrow> string) \<Rightarrow> string \<Rightarrow> metadata_snapshot \<Rightarrow> snapshot_row list \<Rightarrow> snapshot_row list res" where
  "persistMetadataSnapshot H snapshotId m rows =
     bindE (hashCanonicalJSON H (snapshot_metadata m)) (\<lambda>h.
     if ms_assignmentId m \<noteq> None \<and>
        list_ex (\<lambda>r. sw_descriptorId r = ms_descriptorId m \<and> sw_assignmentId r = ms_assignmentId m \<and> sw_phase r = ms_phase m \<and>
                     sw_source r = ms_source m \<and> sw_availability r = ms_availability m) rows
     then Inr rows
     else fresh (snapshotId \<notin> sw_id ` set rows)
       (Inr (rows @ [\<lparr>sw_id = snapshotId, sw_descriptorId = ms_descriptorId m, sw_requestId = ms_requestId m, sw_assignmentId = ms_assignmentId m,
          sw_phase = ms_phase m, sw_source = ms_source m, sw_availability = ms_availability m, sw_metadata = snapshot_metadata m,
          sw_metadataHash = h, sw_capturedAt = ms_capturedAt m\<rparr>])))"

fun persistWorkflowArtifactBindings :: "string \<Rightarrow> (string \<times> string) list \<Rightarrow> int \<Rightarrow> workspace \<Rightarrow> workspace res" where
  "persistWorkflowArtifactBindings revisionId [] boundAt W = Inr W"
| "persistWorkflowArtifactBindings revisionId ((activityId, artifactId) # bs) boundAt W =
     fresh (\<not> list_ex (\<lambda>b. bn_workflowRevisionId b = revisionId \<and> bn_activityId b = activityId \<and> bn_artifactId b = artifactId) (ws_artifactBindings W))
     (persistWorkflowArtifactBindings revisionId bs boundAt
        (W\<lparr>ws_artifactBindings := ws_artifactBindings W @
           [\<lparr>bn_workflowRevisionId = revisionId, bn_activityId = activityId, bn_artifactId = artifactId, bn_boundAt = boundAt\<rparr>]\<rparr>))"

fun persistWorkflowMediaBindings ::
  "(string \<Rightarrow> string) \<Rightarrow> (nat \<Rightarrow> string) \<Rightarrow> nat \<Rightarrow> string \<Rightarrow> (string \<times> string \<times> js \<times> string) list \<Rightarrow> int \<Rightarrow> workspace \<Rightarrow> workspace res" where
  "persistWorkflowMediaBindings H newId n revisionId [] boundAt W = Inr W"
| "persistWorkflowMediaBindings H newId n revisionId ((activityId, descriptorId, descriptor, descriptorHash) # bs) boundAt W =
     fresh (descriptorId \<notin> dw_id ` set (ws_descriptors W) \<and>
            \<not> list_ex (\<lambda>d. dw_workflowRevisionId d = revisionId \<and> dw_activityId d = activityId) (ws_descriptors W))
     (bindE (persistMetadataSnapshot H (newId n)
        \<lparr>ms_assignmentId = None, ms_availability = ''configured'', ms_capturedAt = boundAt, ms_descriptor = descriptor, ms_descriptorId = descriptorId,
         ms_metadata = JUndef, ms_phase = ''publish'', ms_requestId = None, ms_source = ''tenant_supplied''\<rparr> (ws_snapshots W)) (\<lambda>snapshots.
      persistWorkflowMediaBindings H newId (Suc n) revisionId bs boundAt
        (W\<lparr>ws_descriptors := ws_descriptors W @ [\<lparr>dw_id = descriptorId, dw_workflowRevisionId = revisionId, dw_activityId = activityId,
             dw_descriptor = descriptor, dw_descriptorHash = descriptorHash, dw_boundAt = boundAt\<rparr>],
           ws_snapshots := snapshots\<rparr>)))"

definition next_revision :: "workspace \<Rightarrow> string \<Rightarrow> int" where
  "next_revision W definitionId = Max (insert 0 (wr_revision ` {r \<in> set (ws_revisions W). wr_definitionId r = Some definitionId})) + 1"

record publication =
  pb_definitionId :: string
  pb_publishedAt :: string
  pb_revision :: int
  pb_revisionId :: string
  pb_snapshotHash :: string
  pb_tenantId :: string

text \<open>The insert of the revision and its bindings, and what precedes it once the draft has been read.\<close>

definition insert_revision ::
  "(string \<Rightarrow> string) \<Rightarrow> draws \<Rightarrow> string \<Rightarrow> string \<Rightarrow> published_workflow \<Rightarrow> (string \<times> string) list \<Rightarrow> (string \<times> string \<times> js \<times> string) list \<Rightarrow> workspace \<Rightarrow>
     (publication \<times> workspace) res" where
  "insert_revision H D tenantId definitionId snapshot artifacts media W =
     (let document = pd_document snapshot; revision = next_revision W definitionId; revisionId = dr_uuid D ''revision'' 0; publishedAt = dr_clock D ''publishedAt'' in
      bindE (hashCanonicalJSON H (published_js snapshot)) (\<lambda>snapshotHash.
      case (wd_activities document, pd_definitions snapshot) of
        (first # _, firstDefinition # _) \<Rightarrow>
          bindE (hashCanonicalJSON H (get firstDefinition ''content'')) (\<lambda>contentHash.
          fresh (revisionId \<notin> wr_id ` set (ws_revisions W))
          (bindE (persistWorkflowArtifactBindings revisionId artifacts publishedAt (W\<lparr>ws_revisions := ws_revisions W @
              [\<lparr>wr_id = revisionId, wr_tenantId = tenantId, wr_revision = revision, wr_title = wd_title document, wr_purpose = wd_purpose document,
                wr_activityType = activity_type (a_content first), wr_responseMode = a_responseMode first, wr_content = get firstDefinition ''content'',
                wr_contentHash = contentHash, wr_definitionId = Some definitionId, wr_snapshot = Some snapshot, wr_snapshotHash = Some snapshotHash\<rparr>]\<rparr>)) (\<lambda>W1.
           bindE (persistWorkflowMediaBindings H (dr_uuid D ''snapshot'') 0 revisionId media publishedAt W1) (\<lambda>W2.
           Inr (\<lparr>pb_definitionId = definitionId, pb_publishedAt = toISOString publishedAt, pb_revision = revision, pb_revisionId = revisionId,
                 pb_snapshotHash = snapshotHash, pb_tenantId = tenantId\<rparr>,
                W2\<lparr>ws_definitions := map (\<lambda>x. if wf_id x = definitionId then x\<lparr>wf_status := ''active'', wf_updatedAt := publishedAt\<rparr> else x)
                     (ws_definitions W2)\<rparr>)))))
      | _ \<Rightarrow> throw TYPE_ERROR (Because ''first activity'')))"

definition publish_draft ::
  "runtime \<Rightarrow> (string \<Rightarrow> string) \<Rightarrow> (string \<Rightarrow> string option) \<Rightarrow> draws \<Rightarrow> string \<Rightarrow> string \<Rightarrow> workflow_document \<Rightarrow> workspace \<Rightarrow> (publication \<times> workspace) res" where
  "publish_draft R H settings D tenantId definitionId document W =
     bindE (resolveWorkflowArtifactBindings H W tenantId (wd_activities document)) (\<lambda>(artifacts, bound).
     bindE (hashCanonicalJSON H (published_js \<lparr>pd_document = document, pd_definitions = bound\<rparr>)) (\<lambda>_.
     bindE (resolveWorkflowMediaBindings R H (configuredMediaOrigins settings) (dr_uuid D ''descriptor'') 0 (wd_activities document) bound) (\<lambda>(media, definitions).
     insert_revision H D tenantId definitionId \<lparr>pd_document = document, pd_definitions = definitions\<rparr> artifacts media W)))"

definition publishWorkflow ::
  "runtime \<Rightarrow> (string \<Rightarrow> string) \<Rightarrow> (string \<Rightarrow> string option) \<Rightarrow> draws \<Rightarrow> actor \<Rightarrow> js \<Rightarrow> workspace \<Rightarrow> (publication \<times> workspace) res" where
  "publishWorkflow R H settings D actor payload W =
     bindE (validateWorkflowMutation R H payload) (\<lambda>input.
     case (wm_definitionId input, wm_document input, wm_name input) of
       (Some definitionId, None, None) \<Rightarrow>
         bindE (requirePermission (dr_clock D ''CURRENT_TIMESTAMP'') W actor (wm_tenantId input) ''workflow.manage'') (\<lambda>_.
         case (find (\<lambda>d. df_definitionId d = definitionId \<and> df_tenantId d = wm_tenantId input) (ws_drafts W),
               find (\<lambda>w. wf_id w = definitionId) (ws_definitions W)) of
           (Some draft, Some w) \<Rightarrow>
             guardE (wf_status w \<noteq> ''archived'') (STORE_ERROR 409) (Because ''workflow_archived'')
             (guardE (case wm_expectedDraftVersion input of None \<Rightarrow> True | Some v \<Rightarrow> v = df_version draft) (STORE_ERROR 409) (Because ''draft_version_conflict'')
              (publish_draft R H settings D (wm_tenantId input) definitionId (df_document draft) W))
         | _ \<Rightarrow> notFound)
     | _ \<Rightarrow> invalidWorkflow)"

section \<open>Published workflows\<close>

lemma fresh_Inr [res_simps]: "fresh ok k = Inr x \<longleftrightarrow> ok \<and> k = Inr x"
  by (simp add: fresh_def guardE_Inr)

lemma fresh_E: "fresh ok k = Inr x \<Longrightarrow> (ok \<Longrightarrow> k = Inr x \<Longrightarrow> Q) \<Longrightarrow> Q"
  by (simp add: fresh_Inr)

lemma map_of_overwrite: "map_of (map (\<lambda>(i, x). (i, if i = k then v else x)) ps) j = (if j = k \<and> k \<in> fst ` set ps then Some v else map_of ps j)"
proof (induction ps)
  case (Cons p ps)
  then show ?case by (cases p; cases "j = k"; simp)
qed simp

lemma map_of_replace [simp]: "map_of (replace_member k v ps) j = (if j = k then Some v else map_of ps j)"
proof (cases "k \<in> fst ` set ps")
  case True
  then show ?thesis by (simp add: replace_member_def map_of_overwrite)
next
  case False
  then have "map_of ps k = None" by (simp add: map_of_eq_None_iff)
  then show ?thesis using False by (simp add: replace_member_def map_add_def split: option.split)
qed

lemma get_set_member: "get (set_member (JObj ps) k v) j = (if j = k then v else get (JObj ps) j)"
  by (simp add: map_of_replace)

lemma set_member_obj: "\<exists>ps. set_member v k x = JObj ps"
  by (cases v) auto

definition json_of :: "activity \<Rightarrow> js \<Rightarrow> bool" where
  "json_of a d \<longleftrightarrow> (\<exists>ps. d = JObj ps) \<and> get d ''id'' = JStr (a_id a) \<and> get d ''type'' = JStr (activity_type (a_content a))"

lemma activity_defines: "json_of a (activity_js a)" "json_of a (set_member (activity_js a) ''content'' c)"
  unfolding json_of_def activity_js_def by (simp_all add: map_of_replace)

lemma set_content_defines: "json_of a d \<Longrightarrow> json_of a (set_member d ''content'' c)"
  unfolding json_of_def by (auto simp: map_of_replace)

lemma resolve_artifacts_define:
  "resolveWorkflowArtifactBindings H W tenantId as = Inr (bs, ds) \<Longrightarrow> list_all2 json_of as ds"
  by (induction as arbitrary: bs ds) (auto simp: activity_defines set_content_defines elim!: bindE_E split: content.splits)

lemma resolve_media_define:
  "list_all2 json_of as vs \<Longrightarrow> resolveWorkflowMediaBindings R H origins newId n as vs = Inr (bs, ds) \<Longrightarrow> list_all2 json_of as ds"
proof (induction as vs arbitrary: n bs ds rule: list_all2_induct)
  case (Cons a as v vs)
  then show ?case by (auto simp: set_content_defines Let_def elim!: bindE_E split: content.splits)
qed simp

section \<open>What every operation keeps\<close>

text \<open>
  Drafts hold validated documents. A published revision holds the validated document of its draft,
  the JSON of each of its activities and the hash over both; revisions of a definition are numbered
  without repetition.
\<close>

definition valid_document :: "runtime \<Rightarrow> (string \<Rightarrow> string) \<Rightarrow> workflow_document \<Rightarrow> bool" where
  "valid_document R H d \<longleftrightarrow> (\<exists>v h. validateWorkflowDraft R H v = Inr (d, h))"

definition revision_ok :: "runtime \<Rightarrow> (string \<Rightarrow> string) \<Rightarrow> revision_row \<Rightarrow> bool" where
  "revision_ok R H r \<longleftrightarrow> (\<forall>p. wr_snapshot r = Some p \<longrightarrow> valid_document R H (pd_document p) \<and>
     list_all2 json_of (wd_activities (pd_document p)) (pd_definitions p) \<and>
     (\<exists>h. hashCanonicalJSON H (published_js p) = Inr h \<and> wr_snapshotHash r = Some h))"

definition numbered :: "revision_row list \<Rightarrow> bool" where
  "numbered rs \<longleftrightarrow> distinct (map wr_id rs) \<and> distinct (map (\<lambda>r. (wr_definitionId r, wr_revision r)) (filter (\<lambda>r. wr_definitionId r \<noteq> None) rs))"

definition workspace_ok :: "runtime \<Rightarrow> (string \<Rightarrow> string) \<Rightarrow> workspace \<Rightarrow> bool" where
  "workspace_ok R H W \<longleftrightarrow> (\<forall>d \<in> set (ws_drafts W). valid_document R H (df_document d)) \<and> distinct (map df_definitionId (ws_drafts W)) \<and>
     (\<forall>r \<in> set (ws_revisions W). revision_ok R H r) \<and> numbered (ws_revisions W)"

inductive workspace_step :: "runtime \<Rightarrow> (string \<Rightarrow> string) \<Rightarrow> (string \<Rightarrow> string option) \<Rightarrow> workspace \<Rightarrow> workspace \<Rightarrow> bool" for R H settings where
  step_create: "createWorkflow R H requests D actor payload W = Inr (x, W') \<Longrightarrow> workspace_step R H settings W W'"
| step_update: "updateDraft R H D actor payload W = Inr (x, W') \<Longrightarrow> workspace_step R H settings W W'"
| step_publish: "publishWorkflow R H settings D actor payload W = Inr (y, W') \<Longrightarrow> workspace_step R H settings W W'"
| step_member: "setMember H requests D actor payload W = Inr (z, W') \<Longrightarrow> workspace_step R H settings W W'"
| step_list: "listTenants now actor W = Inr (u, W') \<Longrightarrow> workspace_step R H settings W W'"

lemma findD: "find P xs = Some x \<Longrightarrow> P x \<and> x \<in> set xs"
  by (auto simp: find_Some_iff)

lemma workspace_ok_cong:
  "ws_drafts W' = ws_drafts W \<Longrightarrow> ws_revisions W' = ws_revisions W \<Longrightarrow> workspace_ok R H W' = workspace_ok R H W"
  by (simp add: workspace_ok_def)

lemma persist_artifacts_frame:
  "persistWorkflowArtifactBindings i bs t W = Inr W' \<Longrightarrow>
     ws_drafts W' = ws_drafts W \<and> ws_revisions W' = ws_revisions W \<and> ws_definitions W' = ws_definitions W"
  by (induction i bs t W rule: persistWorkflowArtifactBindings.induct) (auto simp: fresh_Inr)

lemma persist_media_frame:
  "persistWorkflowMediaBindings H newId n i bs t W = Inr W' \<Longrightarrow>
     ws_drafts W' = ws_drafts W \<and> ws_revisions W' = ws_revisions W \<and> ws_definitions W' = ws_definitions W"
  by (induction H newId n i bs t W rule: persistWorkflowMediaBindings.induct) (auto simp: fresh_Inr bindE_Inr)

lemma claim_grants_frame:
  "claim_grants now p e gs W = Inr W' \<Longrightarrow> ws_drafts W' = ws_drafts W \<and> ws_revisions W' = ws_revisions W"
  by (induction gs arbitrary: W) (auto simp: fresh_Inr bindE_Inr claim_grant_def Let_def split: if_splits, (metis workspace.simps)?)

lemma mutation_document_valid:
  assumes "validateWorkflowMutation R H v = Inr input" "wm_document input = Some (d, h)"
  shows "valid_document R H d"
  using assms unfolding validateWorkflowMutation_def valid_document_def
  by (auto simp: bindE_Inr split: if_splits) blast

lemma createWorkflow_E:
  assumes "createWorkflow R H requests D actor payload W = Inr (x, W')"
  obtains input d h and r :: draft_row and w where "validateWorkflowMutation R H payload = Inr input" "wm_document input = Some (d, h)"
    "W' = W\<lparr>ws_definitions := ws_definitions W @ [w], ws_drafts := ws_drafts W @ [r]\<rparr>" "df_document r = d" "df_definitionId r \<notin> df_definitionId ` set (ws_drafts W)"
proof -
  from assms obtain input where i: "validateWorkflowMutation R H payload = Inr input"
    "(case (wm_name input, wm_document input, wm_definitionId input) of
       (Some name, Some (document, documentHash), None) \<Rightarrow>
         bindE (requirePermission (dr_clock D ''CURRENT_TIMESTAMP'') W actor (wm_tenantId input) ''workflow.manage'') (\<lambda>_.
         bindE (assertTenantCapacity H (ws_profiles W) (usage_rows W requests) (wm_tenantId input) Workflows 1) (\<lambda>_.
         let definitionId = dr_uuid D ''definition'' 0; now = dr_clock D ''now'';
             w = \<lparr>wf_id = definitionId, wf_tenantId = wm_tenantId input, wf_name = name, wf_status = ''draft'',
                  wf_createdByPrincipalId = ac_principalId actor, wf_updatedAt = now\<rparr>;
             d = \<lparr>df_definitionId = definitionId, df_tenantId = wm_tenantId input, df_version = 1, df_document = document, df_documentHash = documentHash,
                  df_updatedByPrincipalId = ac_principalId actor, df_updatedAt = now\<rparr>
         in fresh (definitionId \<notin> wf_id ` set (ws_definitions W) \<and> definitionId \<notin> df_definitionId ` set (ws_drafts W))
            (Inr (workflowProjection w d, W\<lparr>ws_definitions := ws_definitions W @ [w], ws_drafts := ws_drafts W @ [d]\<rparr>))))
     | _ \<Rightarrow> invalidWorkflow) = Inr (x, W')" unfolding createWorkflow_def by (elim bindE_E)
  then obtain name d h where n: "wm_name input = Some name" "wm_document input = Some (d, h)" "wm_definitionId input = None"
    by (auto split: option.splits)
  from i(2)[unfolded n] show ?thesis unfolding prod.case option.case Let_def
    by (elim bindE_E fresh_E) (rule that[OF i(1) n(2)], auto)
qed

lemma createWorkflow_ok:
  assumes "createWorkflow R H requests D actor payload W = Inr (x, W')" "workspace_ok R H W"
  shows "workspace_ok R H W'"
  using assms(1) by (rule createWorkflow_E) (use assms(2) mutation_document_valid in \<open>auto simp: workspace_ok_def\<close>)

lemma updateDraft_ok:
  assumes "updateDraft R H D actor payload W = Inr (x, W')" "workspace_ok R H W"
  shows "workspace_ok R H W'"
proof -
  from assms(1) obtain input d h hit d' where i: "validateWorkflowMutation R H payload = Inr input" "wm_document input = Some (d, h)"
    and w: "ws_drafts W' = map (\<lambda>x. if hit x then d' else x) (ws_drafts W)" "ws_revisions W' = ws_revisions W" "df_document d' = d"
    "\<forall>x. hit x \<longrightarrow> df_definitionId x = df_definitionId d'"
    unfolding updateDraft_def
    by (elim bindE_E) (clarsimp simp: Let_def split: option.splits elim!: bindE_E, fastforce dest: findD)
  have "map df_definitionId (ws_drafts W') = map df_definitionId (ws_drafts W)" using w(4) by (simp add: w(1))
  moreover have "\<forall>x \<in> set (ws_drafts W'). valid_document R H (df_document x)"
    using assms(2) mutation_document_valid[OF i] w(1,3) by (auto simp: workspace_ok_def)
  ultimately show ?thesis using assms(2) w(2) by (simp add: workspace_ok_def)
qed

lemma insert_revision_E:
  assumes "insert_revision H D tenantId definitionId snapshot artifacts media W = Inr (y, W')"
  obtains row :: revision_row and h where
    "wr_snapshot row = Some snapshot" "hashCanonicalJSON H (published_js snapshot) = Inr h"
    "wr_snapshotHash row = Some h" "wr_id row \<notin> wr_id ` set (ws_revisions W)" "wr_definitionId row = Some definitionId"
    "wr_revision row = next_revision W definitionId" "ws_drafts W' = ws_drafts W" "ws_revisions W' = ws_revisions W @ [row]"
    "pb_revisionId y = wr_id row" "pb_revision y = wr_revision row" "pb_snapshotHash y = h"
  using assms unfolding insert_revision_def Let_def
  apply (elim bindE_E)
  apply (clarsimp split: list.splits elim!: bindE_E fresh_E)
  apply (drule persist_artifacts_frame)
  apply (drule persist_media_frame)
  apply (rule that)
  apply auto
  done

lemma publish_draft_E:
  assumes "publish_draft R H settings D tenantId definitionId document W = Inr (y, W')"
  obtains artifacts media definitions where
    "list_all2 json_of (wd_activities document) definitions"
    "insert_revision H D tenantId definitionId \<lparr>pd_document = document, pd_definitions = definitions\<rparr> artifacts media W = Inr (y, W')"
  using assms unfolding publish_draft_def
  by (elim bindE_E) (clarsimp elim!: bindE_E simp del: resolveWorkflowArtifactBindings.simps resolveWorkflowMediaBindings.simps;
      rule that; auto elim: resolve_media_define[OF resolve_artifacts_define])

lemma publishWorkflow_E:
  assumes "publishWorkflow R H settings D actor payload W = Inr (y, W')"
  obtains draft :: draft_row and tenantId definitionId where
    "draft \<in> set (ws_drafts W)" "df_definitionId draft = definitionId" "publish_draft R H settings D tenantId definitionId (df_document draft) W = Inr (y, W')"
  using assms unfolding publishWorkflow_def
  by (elim bindE_E) (clarsimp split: option.splits elim!: bindE_E guardE_E; blast dest: findD)

lemma next_revision_new: "r \<in> set (ws_revisions W) \<Longrightarrow> wr_definitionId r = Some i \<Longrightarrow> wr_revision r < next_revision W i"
proof -
  assume r: "r \<in> set (ws_revisions W)" "wr_definitionId r = Some i"
  have "wr_revision r \<le> Max (insert 0 (wr_revision ` {r \<in> set (ws_revisions W). wr_definitionId r = Some i}))"
    by (rule Max_ge) (use r in auto)
  then show ?thesis by (simp add: next_revision_def)
qed

lemma publishWorkflow_ok:
  assumes "publishWorkflow R H settings D actor payload W = Inr (y, W')" "workspace_ok R H W"
  shows "workspace_ok R H W'"
proof -
  from assms(1) obtain draft :: draft_row and tenantId definitionId where d: "draft \<in> set (ws_drafts W)" "df_definitionId draft = definitionId"
    "publish_draft R H settings D tenantId definitionId (df_document draft) W = Inr (y, W')" by (rule publishWorkflow_E)
  from d(3) obtain artifacts media definitions where l: "list_all2 json_of (wd_activities (df_document draft)) definitions"
    "insert_revision H D tenantId definitionId \<lparr>pd_document = df_document draft, pd_definitions = definitions\<rparr> artifacts media W = Inr (y, W')"
    by (rule publish_draft_E)
  from l(2) obtain row :: revision_row and h where r: "wr_snapshot row = Some \<lparr>pd_document = df_document draft, pd_definitions = definitions\<rparr>"
    "hashCanonicalJSON H (published_js \<lparr>pd_document = df_document draft, pd_definitions = definitions\<rparr>) = Inr h"
    "wr_snapshotHash row = Some h" "wr_id row \<notin> wr_id ` set (ws_revisions W)" "wr_definitionId row = Some definitionId"
    "wr_revision row = next_revision W definitionId" "ws_drafts W' = ws_drafts W" "ws_revisions W' = ws_revisions W @ [row]"
    by (rule insert_revision_E)
  have "revision_ok R H row" using assms(2) d(1) l(1) r(1-3) by (auto simp: workspace_ok_def revision_ok_def)
  moreover have "numbered (ws_revisions W @ [row])"
    using assms(2) r(4-6) next_revision_new[of _ W definitionId] by (fastforce simp: workspace_ok_def numbered_def)
  ultimately show ?thesis using assms(2) r(7,8) by (auto simp: workspace_ok_def)
qed

lemma setMember_Inr:
  assumes "setMember H requests D actor payload W = Inr (m, W')"
  shows "validateMembershipInput payload = Inr m" "list_ex (active_owner (mb_tenantId m)) (ws_memberships W')"
    "ws_memberships W' = map (changed_member m) (ws_memberships W)" "ws_drafts W' = ws_drafts W" "ws_revisions W' = ws_revisions W"
proof -
  obtain gs where "W' = W\<lparr>ws_grants := gs, ws_memberships := map (changed_member m) (ws_memberships W)\<rparr>"
    and "validateMembershipInput payload = Inr m" "list_ex (active_owner (mb_tenantId m)) (map (changed_member m) (ws_memberships W))"
    using assms unfolding setMember_def Let_def by (elim bindE_E guardE_E) clarsimp
  then show "validateMembershipInput payload = Inr m" "list_ex (active_owner (mb_tenantId m)) (ws_memberships W')"
    "ws_memberships W' = map (changed_member m) (ws_memberships W)" "ws_drafts W' = ws_drafts W" "ws_revisions W' = ws_revisions W" by simp_all
qed

lemma listTenants_frame: "listTenants now actor W = Inr (u, W') \<Longrightarrow> ws_drafts W' = ws_drafts W \<and> ws_revisions W' = ws_revisions W"
  unfolding listTenants_def claimMembershipGrants_def by (elim bindE_E) (drule claim_grants_frame, simp)

lemma workspace_step_ok: "workspace_step R H settings W W' \<Longrightarrow> workspace_ok R H W \<Longrightarrow> workspace_ok R H W'"
proof (induction rule: workspace_step.induct)
  case (step_member requests D actor payload W z W')
  from workspace_ok_cong[OF setMember_Inr(4,5)[OF this(1)], of R H] this(2) show ?case by simp
next
  case (step_list now actor W u W')
  from listTenants_frame[OF this(1)] workspace_ok_cong[of W' W R H] this(2) show ?case by simp
next
  case (step_create requests D actor payload W x W')
  then show ?case by (rule createWorkflow_ok)
next
  case (step_update D actor payload W x W')
  then show ?case by (rule updateDraft_ok)
next
  case (step_publish D actor payload W y W')
  then show ?case by (rule publishWorkflow_ok)
qed

section \<open>Properties\<close>

text \<open>
  C10. However a company's control plane is used (drafts created and edited, workflows published,
  members changed, grants claimed), what is published stays sound: every published revision holds a
  validated document whose routing only moves forward, the JSON of each of its activities, and the
  hash that pins both; no identifier and no revision number of a workflow is used twice.
\<close>

theorem published_workflows_sound:
  assumes "(workspace_step R H settings)\<^sup>*\<^sup>* W0 W" "workspace_ok R H W0"
  shows "workspace_ok R H W \<and>
    (\<forall>r \<in> set (ws_revisions W). \<forall>p. wr_snapshot r = Some p \<longrightarrow>
       well_routed (wd_activities (pd_document p)) \<and> wd_activities (pd_document p) \<noteq> [] \<and>
       list_all2 json_of (wd_activities (pd_document p)) (pd_definitions p) \<and>
       (\<exists>h. hashCanonicalJSON H (published_js p) = Inr h \<and> wr_snapshotHash r = Some h))"
proof -
  have ok: "workspace_ok R H W" using assms by (induction rule: rtranclp_induct) (auto intro: workspace_step_ok)
  then show ?thesis using draft_well_routed by (fastforce simp: workspace_ok_def revision_ok_def valid_document_def)
qed



text \<open>
  Claiming a grant can take the last owner away: the claim writes the roles of the grant over
  the principal's own membership, whatever it was, and nothing counts the owners afterwards. When
  every active owner of the company is the principal who signs in, and a grant of lesser roles is
  waiting for the address, listing companies leaves the company without an owner.
\<close>

theorem claim_drops_last_owner:
  assumes "ac_email actor = Some e" "e \<noteq> []" "ac_principalId actor \<noteq> []"
    and "filter (\<lambda>g. js_lower (gr_email g) = e \<and> gr_status g = ''active'') (ws_grants W) = [g]" "''owner'' \<notin> set (gr_roles g)"
    and "\<forall>x \<in> set (ws_memberships W). active_owner (gr_tenantId g) x \<longrightarrow> mr_principalId x = ac_principalId actor"
    and "\<not> email_taken W (gr_tenantId g) (ac_principalId actor) e"
  shows "\<exists>u W'. listTenants now actor W = Inr (u, W') \<and> \<not> (\<exists>x \<in> set (ws_memberships W'). active_owner (gr_tenantId g) x)"
proof -
  let ?own = "\<lambda>m. mr_tenantId m = gr_tenantId g \<and> mr_principalId m = ac_principalId actor"
  obtain W' where W': "claim_grant now (ac_principalId actor) e g W = Inr W'"
    using assms(7) by (auto simp: claim_grant_def fresh_def Let_def)
  then have "\<forall>x \<in> set (ws_memberships W'). \<not> active_owner (gr_tenantId g) x"
    using assms(5,6) by (auto simp: claim_grant_def fresh_Inr Let_def active_owner_def list_ex_iff split: if_splits)
  moreover have "\<exists>u. listTenants now actor W = Inr (u, W')"
    using assms(1-4) W' by (simp add: listTenants_def requireActorEmail_def claimMembershipGrants_def)
  ultimately show ?thesis by blast
qed

section \<open>Witnesses\<close>

definition demo_edit :: js where
  "demo_edit = JObj [(''definitionId'', JStr ''d1''), (''document'', demo_draft), (''expectedDraftVersion'', JInt 1), (''tenantId'', JStr ''t1'')]"

definition demo_publish :: js where
  "demo_publish = JObj [(''definitionId'', JStr ''d1''), (''tenantId'', JStr ''t1'')]"

lemma demo_edit_valid:
  "\<exists>h. validateWorkflowMutation demo_runtime id demo_edit = Inr \<lparr>wm_definitionId = Some ''d1'', wm_document = Some (demo_document, h),
     wm_expectedDraftVersion = Some 1, wm_name = None, wm_tenantId = ''t1''\<rparr>"
proof -
  obtain h where h: "validateWorkflowDraft demo_runtime id demo_draft = Inr (demo_document, h)" using demo_document_eq by blast
  have d: "get demo_edit ''document'' = demo_draft" "demo_draft \<noteq> JUndef" by (simp_all add: demo_edit_def demo_draft_def)
  have s: "Workflow.strictObject demo_edit ''workflow command'' [''definitionId'', ''document'', ''expectedDraftVersion'', ''name'', ''tenantId''] = Inr demo_edit"
    "Workflow.optionalString (get demo_edit ''definitionId'') ''definitionId'' 128 = Inr (Some ''d1'')"
    "optionalSafeInteger (get demo_edit ''expectedDraftVersion'') ''expectedDraftVersion'' 1 MAX_SAFE_INTEGER = Inr (Some 1)"
    "Workflow.optionalString (get demo_edit ''name'') ''name'' 160 = Inr None"
    "Workflow.boundedString (get demo_edit ''tenantId'') ''tenantId'' 1 128 = Inr ''t1''"
    unfolding demo_edit_def by code_simp+
  show ?thesis by (rule exI[of _ h]) (simp only: validateWorkflowMutation_def s d h bindE.simps if_False)
qed

definition demo_form :: "string \<Rightarrow> activity" where
  "demo_form i = \<lparr>a_content = Free_form \<lparr>ff_maxLength = 2000, ff_minLength = 1, ff_multiline = True, ff_prompt = ''Why?''\<rparr>, a_contractVersion = 1, a_id = i,
     a_instructions = None, a_responseMode = ''free_form'', a_title = ''Text'', a_cases = [], a_defaultTo = None\<rparr>"

lemma demo_activities: "wd_activities demo_document = [demo_form ''one'', demo_form ''two'']"
proof -
  have n: "normalizeActivityDefinition demo_runtime 0 (demo_free_form ''one'') = Inr (demo_form ''one'')"
    "normalizeActivityDefinition demo_runtime (Suc 0) (demo_free_form ''two'') = Inr (demo_form ''two'')" unfolding demo_form_def by code_simp+
  have a: "as_arr (get demo_draft ''activities'') = Some [demo_free_form ''one'', demo_free_form ''two'']" by (simp add: demo_draft_def)
  have o: "Workflow.strictObject demo_draft ''workflow'' [''access'', ''activities'', ''assurance'', ''completion'', ''instructions'', ''notifications'',
    ''purpose'', ''retention'', ''schedule'', ''schema'', ''title''] = Inr demo_draft" by code_simp
  obtain h where "validateWorkflowDraft demo_runtime id demo_draft = Inr (demo_document, h)" using demo_document_eq by blast
  then have "\<exists>acts. imapE (normalizeActivityDefinition demo_runtime) 0 [demo_free_form ''one'', demo_free_form ''two''] = Inr acts \<and> wd_activities demo_document = acts"
    unfolding validateWorkflowDraft_def o bindE.simps a option.case Let_def
    by (elim guardE_E bindE_E) (drule Inr_inject, drule arg_cong[of _ _ "\<lambda>x. wd_activities (fst x)"], simp)
  then show ?thesis by (simp add: n)
qed

definition demo_workspace :: workspace where
  "demo_workspace = \<lparr>ws_tenants = [\<lparr>te_id = ''t1'', te_slug = ''acme'', te_name = ''Acme'', te_status = ''active''\<rparr>],
     ws_memberships = [\<lparr>mr_tenantId = ''t1'', mr_principalId = ''p1'', mr_roles = [''owner''], mr_email = Some ''boss@example.org'', mr_status = ''active'',
       mr_validFrom = 0, mr_expiresAt = None\<rparr>],
     ws_grants = [\<lparr>gr_id = ''g1'', gr_tenantId = ''t1'', gr_email = ''p@example.org'', gr_roles = [''auditor''], gr_status = ''active''\<rparr>],
     ws_definitions = [\<lparr>wf_id = ''d1'', wf_tenantId = ''t1'', wf_name = ''Training'', wf_status = ''draft'', wf_createdByPrincipalId = ''p1'', wf_updatedAt = 0\<rparr>],
     ws_drafts = [\<lparr>df_definitionId = ''d1'', df_tenantId = ''t1'', df_version = 1, df_document = demo_document, df_documentHash = [],
       df_updatedByPrincipalId = ''p1'', df_updatedAt = 0\<rparr>],
     ws_revisions = [], ws_profiles = (\<lambda>_. None), ws_admissions = (\<lambda>_. None), ws_artifacts = [], ws_artifactBindings = [], ws_integrations = [],
     ws_descriptors = [], ws_snapshots = [], ws_chunks = [], ws_accesses = []\<rparr>"

definition demo_draws :: draws where
  "demo_draws = \<lparr>dr_clock = (\<lambda>_. 1000), dr_uuid = (\<lambda>k n. k), dr_handle = ''h''\<rparr>"

lemma demo_owner_may: "p \<in> set [''workflow.manage'', ''member.manage''] \<Longrightarrow>
  requirePermission 1000 (demo_workspace\<lparr>ws_drafts := ds, ws_definitions := ws\<rparr>) demo_actor ''t1'' p = Inr [''owner'']"
proof -
  have "list_all (hasTenantPermission [''owner'']) [''workflow.manage'', ''member.manage'']" by code_simp
  then show "p \<in> set [''workflow.manage'', ''member.manage''] \<Longrightarrow> ?thesis"
    by (auto simp: requirePermission_def demo_workspace_def demo_actor_def current_member_def)
qed

lemma demo_owner_may_now: "p \<in> set [''workflow.manage'', ''member.manage''] \<Longrightarrow> requirePermission 1000 demo_workspace demo_actor ''t1'' p = Inr [''owner'']"
  using demo_owner_may[where p = p and ds = "ws_drafts demo_workspace" and ws = "ws_definitions demo_workspace"] by simp


theorem claim_drops_last_owner_witness:
  "list_ex (active_owner ''t1'') (ws_memberships demo_workspace) \<and>
   (\<exists>u W'. listTenants 1000 demo_actor demo_workspace = Inr (u, W') \<and> \<not> (\<exists>x \<in> set (ws_memberships W'). active_owner ''t1'' x))"
proof -
  have "filter (\<lambda>g. js_lower (gr_email g) = ''p@example.org'' \<and> gr_status g = ''active'') (ws_grants demo_workspace) = [hd (ws_grants demo_workspace)]"
    unfolding demo_workspace_def by simp code_simp
  with claim_drops_last_owner[of demo_actor "''p@example.org''" demo_workspace "hd (ws_grants demo_workspace)" 1000] show ?thesis
    by (simp add: demo_actor_def demo_workspace_def active_owner_def email_taken_def)
qed


theorem published_workflows_sound_witness:
  "\<exists>W r p. (workspace_step demo_runtime id (\<lambda>_. None))\<^sup>*\<^sup>* demo_workspace W \<and> workspace_ok demo_runtime id W \<and> r \<in> set (ws_revisions W) \<and>
     wr_snapshot r = Some p \<and> well_routed (wd_activities (pd_document p))"
proof -
  obtain h where h: "validateWorkflowDraft demo_runtime id demo_draft = Inr (demo_document, h)" using demo_document_eq by blast
  then have ok: "workspace_ok demo_runtime id demo_workspace"
    by (auto simp: workspace_ok_def demo_workspace_def valid_document_def numbered_def)
  let ?as = "wd_activities demo_document" and ?p = "\<lparr>pd_document = demo_document, pd_definitions = map activity_js (wd_activities demo_document)\<rparr>"
  have as: "?as = demo_form ''one'' # [demo_form ''two'']" by (rule demo_activities)
  have free: "\<forall>x \<in> set ?as. \<exists>c. a_content x = Free_form c" by (simp add: demo_activities demo_form_def)
  have r1: "resolveWorkflowArtifactBindings id W t xs = Inr ([], map activity_js xs)" if "\<forall>x \<in> set xs. \<exists>c. a_content x = Free_form c" for W t xs
    using that by (induction xs) auto
  have r2: "resolveWorkflowMediaBindings demo_runtime id os new n xs (map activity_js xs) = Inr ([], map activity_js xs)" if "\<forall>x \<in> set xs. \<exists>c. a_content x = Free_form c" for os new n xs
    using that by (induction xs arbitrary: n) auto
  have pj: "published_js ?p = workflow_js demo_document"
    by (simp add: published_js_def workflow_js_def replace_member_def)
  obtain h' where h': "hashCanonicalJSON id (published_js ?p) = Inr h'" using h unfolding pj validateWorkflowDraft_def
    by (auto simp: Let_def guardE_Inr elim!: bindE_E split: option.splits)
  have "case hashCanonicalJSON id (get (activity_js (demo_form ''one'')) ''content'') of Inr _ \<Rightarrow> True | Inl _ \<Rightarrow> False" unfolding demo_form_def by code_simp
  then obtain k where k: "hashCanonicalJSON id (get (activity_js (demo_form ''one'')) ''content'') = Inr k" by (auto split: sum.splits)
  have m: "validateWorkflowMutation demo_runtime id demo_publish = Inr \<lparr>wm_definitionId = Some ''d1'', wm_document = None,
     wm_expectedDraftVersion = None, wm_name = None, wm_tenantId = ''t1''\<rparr>" by code_simp
  have c: "dr_clock demo_draws k = 1000" for k by (simp add: demo_draws_def)
  have d: "find (\<lambda>d. df_definitionId d = ''d1'' \<and> df_tenantId d = ''t1'') (ws_drafts demo_workspace) = Some (hd (ws_drafts demo_workspace))"
    "find (\<lambda>w. wf_id w = ''d1'') (ws_definitions demo_workspace) = Some (hd (ws_definitions demo_workspace))"
    "df_document (hd (ws_drafts demo_workspace)) = demo_document" "wf_status (hd (ws_definitions demo_workspace)) = ''draft''" "ws_revisions demo_workspace = []"
    by (simp_all add: demo_workspace_def)
  have "publishWorkflow demo_runtime id (\<lambda>_. None) demo_draws demo_actor demo_publish demo_workspace =
      publish_draft demo_runtime id (\<lambda>_. None) demo_draws ''t1'' ''d1'' demo_document demo_workspace"
    by (simp add: publishWorkflow_def m c demo_owner_may_now d)
  also have "\<exists>y W'. \<dots> = Inr (y, W')"
    using h' k as by (simp add: publish_draft_def r1[OF free, unfolded as list.map] r2[OF free, unfolded as list.map] insert_revision_def Let_def fresh_def d(5) del: resolveWorkflowMediaBindings.simps resolveWorkflowArtifactBindings.simps)
  finally obtain y W' where w: "publishWorkflow demo_runtime id (\<lambda>_. None) demo_draws demo_actor demo_publish demo_workspace = Inr (y, W')" by blast
  then have st: "(workspace_step demo_runtime id (\<lambda>_. None))\<^sup>*\<^sup>* demo_workspace W'" by (blast intro: step_publish)
  from w obtain r where "r \<in> set (ws_revisions W')" "wr_snapshot r \<noteq> None"
    by (elim publishWorkflow_E publish_draft_E insert_revision_E) auto
  with published_workflows_sound[OF st ok] st show ?thesis by blast
qed

end
