(* ===== verification/EvidenceTables.thy ===== *)
theory EvidenceTables
  imports Workspace Context
begin

text \<open>
  The activities of an assignment and the evidence recorded about them, as the tables hold it, and
  the loaders that put it into a manifest: \<^verbatim>\<open>loadActivityInteractionEvidence\<close>
  (\<^verbatim>\<open>src/services/engine/interaction-store.mjs\<close>), \<^verbatim>\<open>loadParticipantContextEvidence\<close>
  (\<^verbatim>\<open>context-store.mjs\<close>), \<^verbatim>\<open>loadMediaEvidence\<close>, \<^verbatim>\<open>persistIssueMediaSnapshots\<close> and
  \<^verbatim>\<open>assertMediaCompletion\<close> (\<^verbatim>\<open>media-store.mjs\<close>).
\<close>

section \<open>Rows\<close>

record activity_instance =
  in_id :: string
  in_tenantId :: string
  in_requestId :: string
  in_assignmentId :: string
  in_activityId :: string
  in_ordinal :: nat
  in_definition :: activity
  in_definitionJson :: js
  in_definitionHash :: string
  in_status :: string
  in_availableAt :: "int option"
  in_openedAt :: "int option"
  in_completedAt :: "int option"

record interaction_batch_row =
  bt_id :: string
  bt_assignmentId :: string
  bt_activityInstanceId :: string
  bt_interactionId :: string
  bt_telemetrySessionId :: string
  bt_actorPrincipalId :: string
  bt_eventCount :: int
  bt_payloadHash :: string
  bt_receivedAt :: int

record telemetry_event_row =
  tv_batchId :: string
  tv_id :: string
  tv_assignmentId :: string
  tv_activityInstanceId :: string
  tv_interactionId :: string
  tv_telemetrySessionId :: string
  tv_sequence :: int
  tv_eventType :: string
  tv_eventData :: js
  tv_receivedAt :: int

record summary_row =
  sy_id :: string
  sy_assignmentId :: string
  sy_activityInstanceId :: string
  sy_revision :: int
  sy_policy :: js
  sy_summary :: js
  sy_summaryHash :: string
  sy_calculatedAt :: int

record context_row =
  cw_id :: string
  cw_assignmentId :: string
  cw_activityInstanceId :: string
  cw_interactionId :: string
  cw_contextSessionId :: string
  cw_sequence :: int
  cw_purpose :: string
  cw_schema :: string
  cw_actorPrincipalId :: string
  cw_gatewaySessionId :: string
  cw_snapshot :: js
  cw_requestContext :: js
  cw_payloadHash :: string
  cw_receivedAt :: int

record telemetry_tables =
  tt_batches :: "interaction_batch_row list"
  tt_events :: "telemetry_event_row list"
  tt_summaries :: "summary_row list"
  tt_contexts :: "context_row list"
  tt_mediaBatches :: "interaction_batch_row list"
  tt_mediaEvents :: "telemetry_event_row list"
  tt_mediaSummaries :: "summary_row list"

section \<open>Loaders\<close>

text \<open>
  A row joined with its activity instance, in the order of the query: stable sorts from the last
  key to the first. A row without an instance is not joined.
\<close>

definition instance_of :: "activity_instance list \<Rightarrow> string \<Rightarrow> activity_instance option" where
  "instance_of I i = find (\<lambda>x. in_id x = i) I"

definition joined :: "activity_instance list \<Rightarrow> ('r \<Rightarrow> string) \<Rightarrow> 'r list \<Rightarrow> (activity_instance \<times> 'r) list" where
  "joined I key rows = concat (map (\<lambda>r. case instance_of I (key r) of None \<Rightarrow> [] | Some x \<Rightarrow> [(x, r)]) rows)"

definition batch_evidence :: "activity_instance \<times> interaction_batch_row \<Rightarrow> js" where
  "batch_evidence = (\<lambda>(x, b). JObj [(''activityId'', JStr (in_activityId x)), (''actorPrincipalId'', JStr (bt_actorPrincipalId b)),
     (''eventCount'', JInt (bt_eventCount b)), (''id'', JStr (bt_id b)), (''interactionId'', JStr (bt_interactionId b)),
     (''payloadHash'', JStr (bt_payloadHash b)), (''receivedAt'', JStr (toISOString (bt_receivedAt b))), (''telemetrySessionId'', JStr (bt_telemetrySessionId b))])"

definition event_evidence :: "activity_instance \<times> telemetry_event_row \<Rightarrow> js" where
  "event_evidence = (\<lambda>(x, e). JObj [(''activityId'', JStr (in_activityId x)), (''batchId'', JStr (tv_batchId e)), (''event'', tv_eventData e),
     (''id'', JStr (tv_id e)), (''interactionId'', JStr (tv_interactionId e)), (''receivedAt'', JStr (toISOString (tv_receivedAt e))),
     (''sequence'', JInt (tv_sequence e)), (''telemetrySessionId'', JStr (tv_telemetrySessionId e)), (''type'', JStr (tv_eventType e))])"

definition summary_evidence :: "activity_instance \<times> summary_row \<Rightarrow> js" where
  "summary_evidence = (\<lambda>(x, s). JObj [(''activityId'', JStr (in_activityId x)), (''calculatedAt'', JStr (toISOString (sy_calculatedAt s))),
     (''id'', JStr (sy_id s)), (''policy'', sy_policy s), (''revision'', JInt (sy_revision s)), (''summary'', sy_summary s),
     (''summaryHash'', JStr (sy_summaryHash s))])"

definition ordered_events :: "activity_instance list \<Rightarrow> telemetry_event_row list \<Rightarrow> (activity_instance \<times> telemetry_event_row) list" where
  "ordered_events I rows =
     sort_key (\<lambda>(x, e). in_ordinal x) (sort_key (\<lambda>(x, e). tv_receivedAt e) (sort_key (\<lambda>(x, e). tv_telemetrySessionId e)
       (sort_key (\<lambda>(x, e). tv_sequence e) (joined I tv_activityInstanceId rows))))"

definition ordered_summaries :: "activity_instance list \<Rightarrow> summary_row list \<Rightarrow> (activity_instance \<times> summary_row) list" where
  "ordered_summaries I rows = sort_key (\<lambda>(x, s). in_ordinal x) (sort_key (\<lambda>(x, s). sy_revision s) (joined I sy_activityInstanceId rows))"

definition loadActivityInteractionEvidence :: "activity_instance list \<Rightarrow> telemetry_tables \<Rightarrow> string \<Rightarrow> js" where
  "loadActivityInteractionEvidence I T assignmentId = JObj
     [(''batches'', JArr (map batch_evidence (sort_key (\<lambda>(x, b). in_ordinal x) (sort_key (\<lambda>(x, b). bt_receivedAt b) (sort_key (\<lambda>(x, b). bt_id b)
         (joined I bt_activityInstanceId (filter (\<lambda>b. bt_assignmentId b = assignmentId) (tt_batches T)))))))),
      (''events'', JArr (map event_evidence (ordered_events I (filter (\<lambda>e. tv_assignmentId e = assignmentId) (tt_events T))))),
      (''summaries'', JArr (map summary_evidence (ordered_summaries I (filter (\<lambda>s. sy_assignmentId s = assignmentId) (tt_summaries T)))))]"

definition context_evidence :: "activity_instance \<times> context_row \<Rightarrow> js" where
  "context_evidence = (\<lambda>(x, c). JObj [(''activityId'', JStr (in_activityId x)), (''actorPrincipalId'', JStr (cw_actorPrincipalId c)),
     (''contextSessionId'', JStr (cw_contextSessionId c)), (''gatewaySessionId'', JStr (cw_gatewaySessionId c)), (''id'', JStr (cw_id c)),
     (''interactionId'', JStr (cw_interactionId c)), (''payloadHash'', JStr (cw_payloadHash c)), (''purpose'', JStr (cw_purpose c)),
     (''receivedAt'', JStr (toISOString (cw_receivedAt c))), (''requestContext'', js_or (cw_requestContext c) JUndef),
     (''schema'', JStr (cw_schema c)), (''sequence'', JInt (cw_sequence c)), (''snapshot'', cw_snapshot c)])"

definition loadParticipantContextEvidence :: "activity_instance list \<Rightarrow> telemetry_tables \<Rightarrow> string \<Rightarrow> js \<Rightarrow> js" where
  "loadParticipantContextEvidence I T assignmentId policy = JObj
     [(''policy'', policy),
      (''snapshots'', JArr (map context_evidence (sort_key (\<lambda>(x, c). in_ordinal x) (sort_key (\<lambda>(x, c). cw_receivedAt c)
         (sort_key (\<lambda>(x, c). cw_contextSessionId c) (sort_key (\<lambda>(x, c). cw_sequence c)
           (joined I cw_activityInstanceId (filter (\<lambda>c. cw_assignmentId c = assignmentId) (tt_contexts T)))))))))]"

section \<open>Media\<close>

definition request_descriptors :: "workspace \<Rightarrow> string \<Rightarrow> descriptor_row list" where
  "request_descriptors W workflowRevisionId = sort_key dw_activityId (filter (\<lambda>d. dw_workflowRevisionId d = workflowRevisionId) (ws_descriptors W))"

fun persistIssueMediaSnapshots ::
  "(string \<Rightarrow> string) \<Rightarrow> (nat \<Rightarrow> string) \<Rightarrow> nat \<Rightarrow> string \<Rightarrow> int \<Rightarrow> string \<Rightarrow> descriptor_row list \<Rightarrow> snapshot_row list \<Rightarrow> snapshot_row list res" where
  "persistIssueMediaSnapshots H newId n assignmentId issuedAt requestId [] rows = Inr rows"
| "persistIssueMediaSnapshots H newId n assignmentId issuedAt requestId (d # ds) rows =
     bindE (persistMetadataSnapshot H (newId n)
       \<lparr>ms_assignmentId = Some assignmentId, ms_availability = ''configured'', ms_capturedAt = issuedAt, ms_descriptor = dw_descriptor d, ms_descriptorId = dw_id d,
        ms_metadata = JUndef, ms_phase = ''issue'', ms_requestId = Some requestId, ms_source = ''tenant_supplied''\<rparr> rows)
     (persistIssueMediaSnapshots H newId (Suc n) assignmentId issuedAt requestId ds)"

definition latestMediaSummaryRecord :: "telemetry_tables \<Rightarrow> string \<Rightarrow> string \<Rightarrow> summary_row option" where
  "latestMediaSummaryRecord T assignmentId activityInstanceId =
     (case rev (sort_key sy_revision (filter (\<lambda>s. sy_assignmentId s = assignmentId \<and> sy_activityInstanceId s = activityInstanceId) (tt_mediaSummaries T))) of
        [] \<Rightarrow> None | s # _ \<Rightarrow> Some s)"

definition summary_member :: "summary_row option \<Rightarrow> (summary_row \<Rightarrow> js) \<Rightarrow> js" where
  "summary_member s f = (case s of None \<Rightarrow> JUndef | Some x \<Rightarrow> f x)"

text \<open>
  A response as the rest of the submission uses it: its value, outcome and label, and the result as
  JSON, to which a media activity adds the summary of its telemetry.
\<close>

record submission =
  sb_display :: display
  sb_outcome :: string
  sb_result :: js
  sb_value :: js

definition submission_of :: "response \<Rightarrow> submission" where
  "submission_of r = \<lparr>sb_display = r_display r, sb_outcome = r_outcome r,
     sb_result = (case r_result r of None \<Rightarrow> JUndef | Some x \<Rightarrow> response_result_js x), sb_value = response_value_js (r_value r)\<rparr>"

definition assertMediaCompletion ::
  "(string \<Rightarrow> string) \<Rightarrow> string \<Rightarrow> string \<Rightarrow> string \<Rightarrow> activity_instance \<Rightarrow> submission \<Rightarrow> int \<Rightarrow> telemetry_tables \<Rightarrow> snapshot_row list \<Rightarrow>
     (submission \<times> snapshot_row list) res" where
  "assertMediaCompletion H snapshotId assignmentId requestId x response completedAt T rows =
     (case a_content (in_definition x) of
        External_media c \<Rightarrow>
          let method = get (sb_value response) ''method''; s = latestMediaSummaryRecord T assignmentId (in_id x);
              playback = summary_member s (\<lambda>r. get (sy_summary r) ''playback'');
              descriptor = get (get (in_definitionJson x) ''content'') ''descriptor'' in
          guardE (\<not> (method = JStr ''playback'' \<and> \<not> truthy (get playback ''completionMet''))) (STORE_ERROR 409) (Because ''media_playback_incomplete'')
          (bindE (persistMetadataSnapshot H snapshotId
             \<lparr>ms_assignmentId = Some assignmentId, ms_availability = (if truthy (get playback ''providerErrorCount'') then ''error'' else ''available''),
              ms_capturedAt = completedAt, ms_descriptor = descriptor, ms_descriptorId = (case as_str (get descriptor ''id'') of Some i \<Rightarrow> i | None \<Rightarrow> []),
              ms_metadata = JObj [(''completionMethod'', method), (''summaryHash'', summary_member s (\<lambda>r. JStr (sy_summaryHash r)))],
              ms_phase = ''completion'', ms_requestId = Some requestId, ms_source = ''browser_observed''\<rparr> rows) (\<lambda>rows'.
           Inr (response\<lparr>sb_result := set_member (set_member (set_member (sb_result response)
                  ''mediaSummary'' (summary_member s sy_summary)) ''mediaSummaryHash'' (summary_member s (\<lambda>r. JStr (sy_summaryHash r))))
                  ''mediaSummaryRevision'' (summary_member s (\<lambda>r. JInt (sy_revision r)))\<rparr>, rows')))
      | _ \<Rightarrow> Inr (response, rows))"

definition descriptor_evidence :: "descriptor_row \<Rightarrow> js" where
  "descriptor_evidence d = JObj [(''activityId'', JStr (dw_activityId d)), (''boundAt'', JStr (toISOString (dw_boundAt d))), (''descriptor'', dw_descriptor d),
     (''descriptorHash'', JStr (dw_descriptorHash d)), (''id'', JStr (dw_id d))]"

definition snapshot_evidence :: "string \<times> snapshot_row \<Rightarrow> js" where
  "snapshot_evidence = (\<lambda>(activityId, s). JObj [(''activityId'', JStr activityId), (''availability'', JStr (sw_availability s)),
     (''capturedAt'', JStr (toISOString (sw_capturedAt s))), (''id'', JStr (sw_id s)), (''metadata'', sw_metadata s), (''metadataHash'', JStr (sw_metadataHash s)),
     (''phase'', JStr (sw_phase s)), (''source'', JStr (sw_source s))])"

definition loadMediaEvidence :: "workspace \<Rightarrow> activity_instance list \<Rightarrow> telemetry_tables \<Rightarrow> string \<Rightarrow> string \<Rightarrow> js" where
  "loadMediaEvidence W I T workflowRevisionId assignmentId =
     (let ds = request_descriptors W workflowRevisionId;
          with_activity = concat (map (\<lambda>s. map (\<lambda>d. (dw_activityId d, s)) (filter (\<lambda>d. dw_id d = sw_descriptorId s) (ws_descriptors W)))
            (filter (\<lambda>s. sw_assignmentId s = Some assignmentId \<or> (sw_assignmentId s = None \<and> sw_descriptorId s \<in> dw_id ` set ds)) (ws_snapshots W)))
      in if ds = [] then JUndef
         else JObj [(''descriptors'', JArr (map descriptor_evidence ds)),
           (''events'', JArr (map event_evidence (ordered_events I (filter (\<lambda>e. tv_assignmentId e = assignmentId) (tt_mediaEvents T))))),
           (''snapshots'', JArr (map snapshot_evidence (sort_key fst (sort_key (\<lambda>(_, s). sw_capturedAt s) (sort_key (\<lambda>(_, s). sw_id s) with_activity))))),
           (''summaries'', JArr (map summary_evidence (ordered_summaries I (filter (\<lambda>s. sy_assignmentId s = assignmentId) (tt_mediaSummaries T)))))])"

section \<open>Frames\<close>

lemma media_completion_kept:
  "assertMediaCompletion H i assignmentId requestId x response t T rows = Inr (response', rows') \<Longrightarrow>
     sb_outcome response' = sb_outcome response \<and> sb_value response' = sb_value response \<and> sb_display response' = sb_display response"
  by (auto simp: assertMediaCompletion_def Let_def guardE_Inr bindE_Inr split: content.splits)

end
