(* ===== verification/RecordLifecycle.thy ===== *)
theory RecordLifecycle
  imports EventChain Lifecycle
begin

text \<open>
  The lifecycle of a record as \<^verbatim>\<open>src/services/engine/lifecycle-store.mjs\<close> keeps it: the retention policy
  in force when a request is issued is bound to its assignment with the deadlines that follow from
  it, the deadlines are anchored at completion, and both steps are events of the record's
  lifecycle chain. Content and history stay available until their deadlines.
\<close>

section \<open>Tables\<close>

record policy_row =
  pq_id :: string
  pq_policy :: js
  pq_policyHash :: string
  pq_revision :: int

text \<open>A deadline column is a time or null.\<close>

record lifecycle_state =
  ls_tenantId :: string
  ls_requestId :: string
  ls_policyRevisionId :: "string option"
  ls_policySnapshot :: js
  ls_policyHash :: string
  ls_deadlines :: deadlines
  ls_contentStatus :: string
  ls_historyStatus :: string

record lifecycle_tables =
  lt_policies :: "string \<Rightarrow> string \<Rightarrow> policy_row option"
  lt_states :: "string \<Rightarrow> lifecycle_state option"
  lt_ledger :: lifecycle_ledger

section \<open>Operations\<close>

record resolved_policy =
  rp_id :: "string option"
  rp_policy :: js
  rp_policyHash :: string
  rp_revision :: int

definition resolveRetentionPolicy :: "(string \<Rightarrow> string) \<Rightarrow> lifecycle_tables \<Rightarrow> string \<Rightarrow> string \<Rightarrow> resolved_policy res" where
  "resolveRetentionPolicy H T tenantId profileName =
     (case lt_policies T tenantId profileName of
        None \<Rightarrow>
          guardE (profileName = ''tenant_default'') (STORE_ERROR 409) (Because ''retention_policy_not_found'')
          (bindE (retentionPolicyHash H SYSTEM_RETENTION_POLICY) (\<lambda>h.
           Inr \<lparr>rp_id = None, rp_policy = SYSTEM_RETENTION_POLICY, rp_policyHash = h, rp_revision = 0\<rparr>))
      | Some row \<Rightarrow>
          bindE (normalizeRetentionPolicy (pq_policy row)) (\<lambda>policy.
          bindE (retentionPolicyHash H (retention_policy_js policy)) (\<lambda>h.
          guardE (h = pq_policyHash row) (STORE_ERROR 500) (Because ''retention_policy_integrity_failed'')
          (Inr \<lparr>rp_id = Some (pq_id row), rp_policy = retention_policy_js policy, rp_policyHash = pq_policyHash row, rp_revision = pq_revision row\<rparr>))))"

fun iso :: "deadline \<Rightarrow> js res" where
  "iso No_deadline = Inr JNull"
| "iso (At t) = Inr (JStr (toISOString t))"
| "iso Invalid_date = throw PLAIN_ERROR (Because ''Invalid time value'')"

definition isoDeadlines :: "deadlines \<Rightarrow> js res" where
  "isoDeadlines d =
     bindE (iso (dl_archiveAt d)) (\<lambda>archiveAt.
     bindE (iso (dl_contentExpiresAt d)) (\<lambda>contentExpiresAt.
     bindE (iso (dl_deleteAt d)) (\<lambda>deleteAt.
     bindE (iso (dl_historyExpiresAt d)) (\<lambda>historyExpiresAt.
     bindE (iso (At (dl_terminalAt d))) (\<lambda>terminalAt.
     Inr (JObj [(''archiveAt'', archiveAt), (''contentExpiresAt'', contentExpiresAt), (''deleteAt'', deleteAt),
       (''historyExpiresAt'', historyExpiresAt), (''terminalAt'', terminalAt)]))))))"

record lifecycle_command =
  lc_assignmentId :: string
  lc_requestId :: string
  lc_tenantId :: string

definition lifecycle_event :: "lifecycle_command \<Rightarrow> string \<Rightarrow> js \<Rightarrow> int \<Rightarrow> lifecycle_input" where
  "lifecycle_event c eventType payload createdAt =
     \<lparr>li_assignmentId = lc_assignmentId c, li_commandId = None, li_createdAt = createdAt, li_eventType = eventType, li_payload = payload,
      li_requestId = lc_requestId c, li_source = ''engine'', li_tenantId = lc_tenantId c\<rparr>"

text \<open>
  The state row and the chain head are keyed by the assignment, so a second binding is refused by
  the database. An invalid date cannot be stored; it surfaces in \<open>isoDeadlines\<close>.
\<close>

definition bindRecordLifecycle ::
  "runtime \<Rightarrow> (string \<Rightarrow> string) \<Rightarrow> actor \<Rightarrow> string \<Rightarrow> lifecycle_command \<Rightarrow> int \<Rightarrow> string \<Rightarrow> int \<Rightarrow> lifecycle_tables \<Rightarrow> lifecycle_tables res" where
  "bindRecordLifecycle R H actor eventId c expiresAt profileName now T =
     bindE (resolveRetentionPolicy H T (lc_tenantId c) profileName) (\<lambda>resolved.
     bindE (calculateRetentionDeadlines R (rp_policy resolved) (JObj [(''expiresAt'', JDate (Some expiresAt))])) (\<lambda>deadlines.
     guardE (lt_states T (lc_assignmentId c) = None \<and> lg_heads (lt_ledger T) (lc_assignmentId c) = None) PLAIN_ERROR (Because ''23505'')
     (bindE (isoDeadlines deadlines) (\<lambda>times.
      bindE (appendLifecycleEvent H actor eventId
        (lifecycle_event c ''policy.bound'' (JObj [(''deadlines'', times), (''policyHash'', JStr (rp_policyHash resolved)),
          (''policyRevisionId'', case rp_id resolved of None \<Rightarrow> JNull | Some i \<Rightarrow> JStr i), (''profileName'', JStr profileName)]) now)
        (open_chain (lc_assignmentId c) (lt_ledger T))) (\<lambda>(_, L).
      Inr (T\<lparr>lt_states := (lt_states T)(lc_assignmentId c \<mapsto>
             \<lparr>ls_tenantId = lc_tenantId c, ls_requestId = lc_requestId c, ls_policyRevisionId = rp_id resolved, ls_policySnapshot = rp_policy resolved,
              ls_policyHash = rp_policyHash resolved, ls_deadlines = deadlines, ls_contentStatus = ''available'', ls_historyStatus = ''available''\<rparr>),
           lt_ledger := L\<rparr>))))))"

fun deadline_or :: "int \<Rightarrow> deadline \<Rightarrow> js" where
  "deadline_or d (At t) = JDate (Some t)"
| "deadline_or d _ = JDate (Some d)"

definition anchorRecordLifecycle ::
  "runtime \<Rightarrow> (string \<Rightarrow> string) \<Rightarrow> actor \<Rightarrow> string \<Rightarrow> lifecycle_command \<Rightarrow> int \<Rightarrow> lifecycle_tables \<Rightarrow> lifecycle_tables res" where
  "anchorRecordLifecycle R H actor eventId c completedAt T =
     (case lt_states T (lc_assignmentId c) of
        None \<Rightarrow> throw (STORE_ERROR 500) (Because ''record_lifecycle_missing'')
      | Some row \<Rightarrow>
          bindE (calculateRetentionDeadlines R (ls_policySnapshot row)
            (JObj [(''expiresAt'', deadline_or completedAt (dl_contentExpiresAt (ls_deadlines row))), (''terminalAt'', JDate (Some completedAt))])) (\<lambda>deadlines.
          bindE (isoDeadlines deadlines) (\<lambda>times.
          bindE (appendLifecycleEvent H actor eventId
            (lifecycle_event c ''terminal.anchored'' (JObj [(''deadlines'', times), (''policyHash'', JStr (ls_policyHash row))]) completedAt)
            (lt_ledger T)) (\<lambda>(_, L).
          Inr (T\<lparr>lt_states := (lt_states T)(lc_assignmentId c \<mapsto> row\<lparr>ls_deadlines := deadlines\<rparr>), lt_ledger := L\<rparr>)))))"

fun reached :: "deadline \<Rightarrow> int \<Rightarrow> bool" where
  "reached (At t) now = (t \<le> now)"
| "reached _ now = False"

definition assertLifecycleContentAvailable :: "lifecycle_tables \<Rightarrow> string \<Rightarrow> int \<Rightarrow> unit res" where
  "assertLifecycleContentAvailable T assignmentId now =
     (case lt_states T assignmentId of
        None \<Rightarrow> throw (STORE_ERROR 500) (Because ''record_lifecycle_missing'')
      | Some row \<Rightarrow>
          guardE (\<not> (ls_contentStatus row = ''expired'' \<or> reached (dl_contentExpiresAt (ls_deadlines row)) now))
            (STORE_ERROR 410) (Because ''content_unavailable'') (Inr ()))"

definition assertLifecycleHistoryAvailable :: "lifecycle_tables \<Rightarrow> string \<Rightarrow> int \<Rightarrow> unit res" where
  "assertLifecycleHistoryAvailable T assignmentId now =
     (case lt_states T assignmentId of
        None \<Rightarrow> throw (STORE_ERROR 500) (Because ''record_lifecycle_missing'')
      | Some row \<Rightarrow>
          guardE (\<not> (ls_historyStatus row = ''expired'' \<or> reached (dl_historyExpiresAt (ls_deadlines row)) now))
            (STORE_ERROR 410) (Because ''participant_history_unavailable'') (Inr ()))"

section \<open>Lemmas\<close>

lemma bindRecordLifecycle_E:
  assumes "bindRecordLifecycle R H actor eventId c expiresAt profileName now T = Inr T'"
  obtains row :: lifecycle_state and e :: lifecycle_input and x L where "lt_states T (lc_assignmentId c) = None"
    "lg_heads (lt_ledger T) (lc_assignmentId c) = None" "li_assignmentId e = lc_assignmentId c"
    "appendLifecycleEvent H actor eventId e (open_chain (lc_assignmentId c) (lt_ledger T)) = Inr (x, L)"
    "T' = T\<lparr>lt_states := (lt_states T)(lc_assignmentId c \<mapsto> row), lt_ledger := L\<rparr>" "ls_contentStatus row = ''available''"
    "ls_historyStatus row = ''available''" "ls_requestId row = lc_requestId c" "ls_tenantId row = lc_tenantId c"
  using assms unfolding bindRecordLifecycle_def lifecycle_event_def
  by (elim bindE_E guardE_E) (force split: prod.splits)

lemma anchorRecordLifecycle_E:
  assumes "anchorRecordLifecycle R H actor eventId c completedAt T = Inr T'"
  obtains row :: lifecycle_state and e :: lifecycle_input and d x L where "lt_states T (lc_assignmentId c) = Some row"
    "li_assignmentId e = lc_assignmentId c"
    "appendLifecycleEvent H actor eventId e (lt_ledger T) = Inr (x, L)"
    "T' = T\<lparr>lt_states := (lt_states T)(lc_assignmentId c \<mapsto> row\<lparr>ls_deadlines := d\<rparr>), lt_ledger := L\<rparr>"
  using assms unfolding anchorRecordLifecycle_def lifecycle_event_def
  by (cases "lt_states T (lc_assignmentId c)"; simp) (elim bindE_E; force split: prod.splits)

end
