(* ===== verification/Requests.thy ===== *)
theory Requests
  imports Verifier EvidenceTables Notifications RecordLifecycle Envelope Workspace
begin

text \<open>
  Requests from issue to their end (\<^verbatim>\<open>src/services/engine/evidence-store.mjs\<close>): the tables a request
  lives in, issuing it from a published workflow or as a single activity, the notifications it
  queues, and the actions of its owner (remind, reissue, revoke).
\<close>

section \<open>Tables\<close>

text \<open>The profile and the admission a request was issued under; the columns are all set or all null.\<close>

record profile_binding =
  bp_revisionId :: string
  bp_snapshot :: js
  bp_hash :: string
  bp_provenance :: string

text \<open>The revision number comes from the immutable revision row the identifier names.\<close>

record admission_binding =
  ba_revisionId :: string
  ba_snapshot :: js
  ba_hash :: string
  ba_provenance :: string
  ba_revision :: int

record request_row =
  rr_id :: string
  rr_tenantId :: string
  rr_workflowRevisionId :: string
  rr_createdByPrincipalId :: string
  rr_purpose :: string
  rr_status :: string
  rr_issuedAt :: int
  rr_scheduledFor :: "int option"
  rr_dueAt :: "int option"
  rr_expiresAt :: int
  rr_completedAt :: "int option"
  rr_accessPolicy :: js
  rr_notificationPolicy :: js
  rr_profile :: "profile_binding option"
  rr_requester :: js
  rr_admission :: "admission_binding option"
  rr_reissuedFrom :: "string option"

record assignment_row =
  pa_id :: string
  pa_tenantId :: string
  pa_requestId :: string
  pa_handleDigest :: string
  pa_intendedEmail :: string
  pa_principalId :: "string option"
  pa_participantEmail :: "string option"
  pa_status :: string
  pa_issuedAt :: int
  pa_firstOpenedAt :: "int option"
  pa_completedAt :: "int option"

record session_row =
  ss_id :: string
  ss_assignmentId :: string
  ss_principalId :: string
  ss_gatewaySessionId :: string
  ss_authentication :: js
  ss_requestContext :: js
  ss_startedAt :: int
  ss_completedAt :: "int option"

record single_response_row =
  pr_id :: string
  pr_assignmentId :: string
  pr_interactionId :: string
  pr_commandId :: string
  pr_responseMode :: string
  pr_responseValue :: string
  pr_respondedAt :: int
  pr_clientContext :: js

record response_revision_row =
  rv_id :: string
  rv_assignmentId :: string
  rv_activityInstanceId :: string
  rv_interactionId :: string
  rv_revision :: int
  rv_commandId :: string
  rv_state :: string
  rv_value :: js
  rv_label :: string
  rv_outcome :: string
  rv_result :: js
  rv_clientContext :: js
  rv_recordedAt :: int

record activity_response_row =
  an_id :: string
  an_assignmentId :: string
  an_activityInstanceId :: string
  an_interactionId :: string
  an_commandId :: string
  an_value :: js
  an_responseRevisionId :: string
  an_label :: string
  an_outcome :: string
  an_result :: js
  an_clientContext :: js
  an_respondedAt :: int

record job_row = outbox_row +
  jr_jobType :: string
  jr_tenantId :: "string option"
  jr_requestId :: "string option"
  jr_idempotencyKey :: "string option"
  jr_payload :: js
  jr_payloadHash :: string
  jr_result :: js
  jr_completedAt :: "int option"

record request_event_row =
  qe_id :: string
  qe_tenantId :: string
  qe_requestId :: string
  qe_eventType :: string
  qe_actorPrincipalId :: string
  qe_idempotencyKey :: string
  qe_eventData :: js
  qe_createdAt :: int

record manifest_row =
  mf_id :: string
  mf_assignmentId :: string
  mf_requestId :: string
  mf_tenantId :: string
  mf_manifest :: js
  mf_manifestHash :: js
  mf_createdAt :: int

record seal_row =
  sl_id :: string
  sl_manifestId :: string
  sl_seal :: js
  sl_createdAt :: int

record engine_db =
  db_workspace :: workspace
  db_requests :: "request_row list"
  db_assignments :: "assignment_row list"
  db_instances :: "activity_instance list"
  db_sessions :: "session_row list"
  db_singleResponses :: "single_response_row list"
  db_revisions :: "response_revision_row list"
  db_responses :: "activity_response_row list"
  db_jobs :: "job_row list"
  db_attempts :: "attempt_row list"
  db_requestEvents :: "request_event_row list"
  db_lifecycle :: lifecycle_tables
  db_telemetry :: telemetry_tables
  db_ledger :: event_ledger
  db_manifests :: "manifest_row list"
  db_seals :: "seal_row list"
  db_keys :: key_registry

text \<open>
  What the store is created with, and the platform it runs on. The label of a questionnaire score is
  formatted by a template whose dash lies outside the texts of this model, and a time inside a JSON
  aggregate is rendered by the database.
\<close>

record engine_env =
  en_verifier :: verifier_env
  en_provider :: signing_provider
  en_cipher :: cipher
  en_outboxSecret :: js
  en_contextPolicy :: context_policy
  en_interactionPolicy :: js
  en_digest :: "string \<Rightarrow> string"
  en_timestamp :: "int \<Rightarrow> string"
  en_scoreText :: "int \<Rightarrow> int \<Rightarrow> rat \<Rightarrow> bool \<Rightarrow> string"

abbreviation en_hash :: "engine_env \<Rightarrow> string \<Rightarrow> string" where
  "en_hash E \<equiv> ve_hash (en_verifier E)"

abbreviation en_runtime :: "engine_env \<Rightarrow> runtime" where
  "en_runtime E \<equiv> ve_runtime (en_verifier E)"

section \<open>Guards\<close>

definition requireActor :: "actor \<Rightarrow> unit res" where
  "requireActor actor = guardE (ac_principalId actor \<noteq> [] \<and> ac_gatewaySessionId actor \<noteq> []) (STORE_ERROR 403) (Because ''forbidden'') (Inr ())"

text \<open>A participant's address and the time of the sign-in; a zero time is falsy.\<close>

definition requireParticipant :: "actor \<Rightarrow> string res" where
  "requireParticipant actor =
     bindE (requireActor actor) (\<lambda>_.
     case (ac_email actor, ac_authenticatedAt actor) of
       (Some e, Some t) \<Rightarrow> guardE (e \<noteq> [] \<and> t \<noteq> 0) (STORE_ERROR 403) (Because ''forbidden'') (Inr e)
     | _ \<Rightarrow> deny)"

definition boundedToken :: "js \<Rightarrow> string \<Rightarrow> nat \<Rightarrow> string res" where
  "boundedToken v name maximum =
     (case as_str v of
        None \<Rightarrow> throw (STORE_ERROR 400) (Because (''invalid_'' @ name))
      | Some s \<Rightarrow> guardE (s \<noteq> [] \<and> length s \<le> maximum) (STORE_ERROR 400) (Because (''invalid_'' @ name)) (Inr s))"

definition digestHandle :: "engine_env \<Rightarrow> js \<Rightarrow> string res" where
  "digestHandle E v =
     bindE (boundedToken v ''handle'' 64) (\<lambda>handle.
     guardE (base64url_shape 43 43 handle) (STORE_ERROR 404) (Because ''not_found'') (Inr (en_digest E handle)))"

definition optionalBounded :: "js \<Rightarrow> nat \<Rightarrow> js res" where
  "optionalBounded v maximum =
     (if v = JUndef \<or> v = JNull \<or> v = JStr [] then Inr JUndef
      else case as_str v of
        None \<Rightarrow> throw (STORE_ERROR 400) (Because ''invalid_client_context'')
      | Some s \<Rightarrow> guardE (length s \<le> maximum) (STORE_ERROR 400) (Because ''invalid_client_context'') (Inr (JStr s)))"

definition sanitizeClientContext :: "js \<Rightarrow> js res" where
  "sanitizeClientContext v =
     (if nullish v then Inr JUndef
      else guardE (is_object v) (STORE_ERROR 400) (Because ''invalid_client_context'')
        (bindE (optionalBounded (get v ''clientStartedAt'') 64) (\<lambda>a.
         bindE (optionalBounded (get v ''clientSubmittedAt'') 64) (\<lambda>b.
         bindE (optionalBounded (get v ''timezone'') 100) (\<lambda>c.
         Inr (JObj [(''clientStartedAt'', a), (''clientSubmittedAt'', b), (''timezone'', c)]))))))"

text \<open>Unlike \<open>requirePermission\<close>, the role check does not look at the validity of the membership.\<close>

definition requireTenantRole :: "workspace \<Rightarrow> string \<Rightarrow> string \<Rightarrow> string \<Rightarrow> unit res" where
  "requireTenantRole W principalId tenantId role =
     (case find (\<lambda>m. mr_tenantId m = tenantId \<and> mr_principalId m = principalId \<and> mr_status m = ''active'') (ws_memberships W) of
        None \<Rightarrow> deny
      | Some m \<Rightarrow> guardE (role \<in> set (mr_roles m)) (STORE_ERROR 403) (Because ''forbidden'') (Inr ()))"

definition requireTenantPermission :: "int \<Rightarrow> workspace \<Rightarrow> string \<Rightarrow> string \<Rightarrow> string \<Rightarrow> unit res" where
  "requireTenantPermission now W principalId tenantId permission =
     (case find (\<lambda>m. mr_tenantId m = tenantId \<and> mr_principalId m = principalId \<and> current_member now m) (ws_memberships W) of
        None \<Rightarrow> deny
      | Some m \<Rightarrow> guardE (hasTenantPermission (mr_roles m) permission) (STORE_ERROR 403) (Because ''forbidden'') (Inr ()))"

definition tenantById :: "workspace \<Rightarrow> string \<Rightarrow> tenant_row res" where
  "tenantById W tenantId =
     (case find (\<lambda>t. te_id t = tenantId \<and> te_status t = ''active'') (ws_tenants W) of None \<Rightarrow> notFound | Some t \<Rightarrow> Inr t)"

section \<open>Companies\<close>

text \<open>\<open>/^[a-z0-9](?:[a-z0-9-]{0,62}[a-z0-9])?$/\<close> is \<open>slug_shape\<close>.\<close>

definition createTenant :: "draws \<Rightarrow> actor \<Rightarrow> js \<Rightarrow> workspace \<Rightarrow> (tenant_row \<times> workspace) res" where
  "createTenant D actor payload W =
     bindE (requireActor actor) (\<lambda>_.
     guardE (''admin'' \<in> set (ac_roles actor)) (STORE_ERROR 403) (Because ''forbidden'')
     (bindE (validateTenantInput payload) (\<lambda>input.
      guardE (slug_shape (ti_slug input)) (STORE_ERROR 400) (Because ''invalid_tenant_slug'')
      (let t = \<lparr>te_id = dr_uuid D ''tenant'' 0, te_slug = ti_slug input, te_name = ti_name input, te_status = ''active''\<rparr>;
           e = (case ac_email actor of Some (c # cs) \<Rightarrow> Some (c # cs) | _ \<Rightarrow> None);
           m = \<lparr>mr_tenantId = te_id t, mr_principalId = ac_principalId actor, mr_roles = [''owner''], mr_email = e, mr_status = ''active'',
                mr_validFrom = dr_clock D ''CURRENT_TIMESTAMP'', mr_expiresAt = None\<rparr> in
       guardE (te_slug t \<notin> te_slug ` set (ws_tenants W) \<and> te_id t \<notin> te_id ` set (ws_tenants W)) (STORE_ERROR 409) (Because ''tenant_slug_exists'')
       (Inr (t, W\<lparr>ws_tenants := ws_tenants W @ [t], ws_memberships := ws_memberships W @ [m]\<rparr>))))))"

section \<open>Notifications\<close>

definition request_jobs :: "engine_db \<Rightarrow> string \<Rightarrow> job_row list" where
  "request_jobs db requestId = filter (\<lambda>j. jr_requestId j = Some requestId \<and> jr_jobType j = ''notification'') (db_jobs db)"

record notification =
  nt_availableAt :: int
  nt_idempotencyKey :: string
  nt_payload :: js
  nt_requestId :: string
  nt_tenantId :: string

text \<open>The last place of a request is kept for its completion notice; a key already used queues nothing.\<close>

definition queueNotification :: "engine_env \<Rightarrow> draws \<Rightarrow> string \<Rightarrow> nat \<Rightarrow> notification \<Rightarrow> engine_db \<Rightarrow> engine_db res" where
  "queueNotification E D label k n db =
     bindE (requireNotificationType (get (nt_payload n) ''eventType'')) (\<lambda>notificationType.
     let maximumBeforeInsert = (if notificationType = ''request.completed'' then NOTIFICATION_JOB_LIMIT else NOTIFICATION_JOB_LIMIT - 1) in
     guardE (length (request_jobs db (nt_requestId n)) < maximumBeforeInsert) (STORE_ERROR 409) (Because ''notification_limit_exceeded'')
     (bindE (encryptJSONEnvelope (en_cipher E) (dr_uuid D (label @ '' iv'') k) (nt_payload n) (en_outboxSecret E)) (\<lambda>envelope.
      bindE (hashCanonicalJSON (en_hash E) (nt_payload n)) (\<lambda>payloadHash.
      if list_ex (\<lambda>j. jr_idempotencyKey j = Some (nt_idempotencyKey n)) (db_jobs db) then Inr db
      else fresh (dr_uuid D label k \<notin> oj_id ` set (db_jobs db))
        (Inr (db\<lparr>db_jobs := db_jobs db @ [\<lparr>oj_id = dr_uuid D label k, oj_notificationType = notificationType, oj_status = ''pending'',
           oj_availableAt = nt_availableAt n, oj_createdAt = dr_clock D ''CURRENT_TIMESTAMP'', oj_resultOutcome = None, jr_jobType = ''notification'',
           jr_tenantId = Some (nt_tenantId n), jr_requestId = Some (nt_requestId n), jr_idempotencyKey = Some (nt_idempotencyKey n),
           jr_payload = JObj [(''envelope'', envelope)], jr_payloadHash = payloadHash, jr_result = JNull, jr_completedAt = None\<rparr>]\<rparr>))))))"

definition suppress_job :: "string \<Rightarrow> string \<Rightarrow> int \<Rightarrow> job_row \<Rightarrow> job_row" where
  "suppress_job reason requestId suppressedAt j =
     (if jr_requestId j = Some requestId \<and> oj_status j = ''pending'' \<and> oj_notificationType j \<in> {''request.issued'', ''request.reminder''}
      then j\<lparr>oj_status := ''completed'', oj_resultOutcome := Some ''suppressed'', jr_completedAt := Some suppressedAt,
             jr_result := JObj [(''adapter'', JStr ''engine''), (''outcome'', JStr ''suppressed''), (''reason'', JStr reason)],
             jr_payload := JObj [(''redacted'', JBool True)]\<rparr>
      else j)"

definition suppressPendingRequestNotifications :: "string \<Rightarrow> string \<Rightarrow> int \<Rightarrow> engine_db \<Rightarrow> engine_db" where
  "suppressPendingRequestNotifications reason requestId suppressedAt db = db\<lparr>db_jobs := map (suppress_job reason requestId suppressedAt) (db_jobs db)\<rparr>"

section \<open>Projections\<close>

definition tenant_pair :: "string \<Rightarrow> string \<Rightarrow> (string \<times> js) list" where
  "tenant_pair i name = [(''id'', JStr i), (''name'', JStr name)]"

definition issuedTenantProjection :: "string \<Rightarrow> string \<Rightarrow> active_profile \<Rightarrow> js" where
  "issuedTenantProjection i name p =
     JObj (if af_profileHash p = [] \<or> af_id p = [] then tenant_pair i name
       else tenant_pair i name @ [(''profile'', tenant_profile_js (af_profile p)), (''profileBindingProvenance'', JStr ''issued''),
         (''profileHash'', JStr (af_profileHash p))] @ (if af_revision p = 0 then [] else [(''profileRevision'', JInt (af_revision p))]) @
         [(''profileRevisionId'', JStr (af_id p))])"

definition tenantEvidenceProjection :: "string \<Rightarrow> string \<Rightarrow> profile_binding option \<Rightarrow> js" where
  "tenantEvidenceProjection i name b =
     JObj (tenant_pair i name @ (case b of None \<Rightarrow> []
       | Some p \<Rightarrow> if \<not> truthy (bp_snapshot p) \<or> bp_hash p = [] \<or> bp_revisionId p = [] then []
           else [(''profile'', bp_snapshot p), (''profileBindingProvenance'', JStr (bp_provenance p)), (''profileHash'', JStr (bp_hash p)),
                 (''profileRevisionId'', JStr (bp_revisionId p))]))"

definition requestAdmissionEvidenceProjection :: "admission_binding option \<Rightarrow> js" where
  "requestAdmissionEvidenceProjection b =
     (case b of None \<Rightarrow> JUndef
      | Some a \<Rightarrow> if ba_revisionId a = [] \<or> \<not> truthy (ba_snapshot a) \<or> ba_hash a = [] \<or> ba_provenance a = [] \<or> \<bar>ba_revision a\<bar> > MAX_SAFE_INTEGER then JUndef
          else JObj [(''admission'', ba_snapshot a), (''admissionHash'', JStr (ba_hash a)), (''bindingProvenance'', JStr (ba_provenance a)),
            (''revision'', JInt (ba_revision a)), (''revisionId'', JStr (ba_revisionId a))])"

definition admission_evidence_js :: "admission_evidence \<Rightarrow> js" where
  "admission_evidence_js a = JObj [(''admission'', admission_js (ae_admission a)), (''admissionHash'', JStr (ae_admissionHash a)),
     (''bindingProvenance'', JStr (ae_bindingProvenance a)), (''revision'', JInt (ae_revision a)), (''revisionId'', JStr (ae_revisionId a))]"

definition bound_profile :: "active_profile \<Rightarrow> profile_binding" where
  "bound_profile p = \<lparr>bp_revisionId = af_id p, bp_snapshot = tenant_profile_js (af_profile p), bp_hash = af_profileHash p, bp_provenance = ''issued''\<rparr>"

definition bound_admission :: "admission_projection \<Rightarrow> admission_binding" where
  "bound_admission a = \<lparr>ba_revisionId = apj_id a, ba_snapshot = admission_js (apj_admission a), ba_hash = apj_admissionHash a, ba_provenance = ''issued'',
     ba_revision = apj_revision a\<rparr>"

section \<open>Issuing a request\<close>

definition append_evidence :: "engine_env \<Rightarrow> draws \<Rightarrow> string \<Rightarrow> actor \<Rightarrow> event_input \<Rightarrow> engine_db \<Rightarrow> engine_db res" where
  "append_evidence E D label actor i db =
     bindE (appendEvent (en_hash E) actor (dr_uuid D label 0) i (db_ledger db)) (\<lambda>(_, L). Inr (db\<lparr>db_ledger := L\<rparr>))"

text \<open>Request, assignment, chain head and lifecycle state, which every issue inserts in this order.\<close>

definition insert_request :: "engine_env \<Rightarrow> draws \<Rightarrow> actor \<Rightarrow> string \<Rightarrow> request_row \<Rightarrow> assignment_row \<Rightarrow> engine_db \<Rightarrow> engine_db res" where
  "insert_request E D actor retention r a db =
     fresh (rr_id r \<notin> rr_id ` set (db_requests db))
     (guardE (rr_issuedAt r < rr_expiresAt r) PLAIN_ERROR (Because ''23514'')
      (fresh (pa_id a \<notin> pa_id ` set (db_assignments db) \<and> pa_handleDigest a \<notin> pa_handleDigest ` set (db_assignments db) \<and> lg_heads (db_ledger db) (pa_id a) = None)
       (bindE (bindRecordLifecycle (en_runtime E) (en_hash E) actor (dr_uuid D ''lifecycle event'' 0)
           \<lparr>lc_assignmentId = pa_id a, lc_requestId = rr_id r, lc_tenantId = rr_tenantId r\<rparr> (rr_expiresAt r) retention (dr_clock D ''lifecycle'') (db_lifecycle db)) (\<lambda>T.
        Inr (db\<lparr>db_requests := db_requests db @ [r], db_assignments := db_assignments db @ [a], db_ledger := open_chain (pa_id a) (db_ledger db),
                db_lifecycle := T\<rparr>)))))"

record issued =
  is_assignmentId :: string
  is_dueAt :: "string option"
  is_expiresAt :: string
  is_participantPath :: string
  is_requestId :: string
  is_scheduledFor :: "string option"
  is_status :: "string option"
  is_tenantId :: string
  is_workflowRevisionId :: "string option"

definition db_usage :: "engine_db \<Rightarrow> usage_tables" where
  "db_usage db = usage_rows (db_workspace db) (map (\<lambda>r. (rr_tenantId r, rr_status r)) (db_requests db))"

text \<open>The rows of a single-activity request: its workflow revision, the request and the assignment.\<close>

definition single_revision :: "draws \<Rightarrow> issue_input \<Rightarrow> revision_row" where
  "single_revision D input =
     \<lparr>wr_id = dr_uuid D ''workflow'' 0, wr_tenantId = ii_tenantId input, wr_revision = 1, wr_title = ii_title input, wr_purpose = ii_purpose input,
      wr_activityType = ''terms_response'', wr_responseMode = ii_responseMode input, wr_content = issue_content_js (ii_prompt input) (ii_terms input),
      wr_contentHash = ii_contentHash input, wr_definitionId = None, wr_snapshot = None, wr_snapshotHash = None\<rparr>"

definition single_request :: "draws \<Rightarrow> actor \<Rightarrow> issue_input \<Rightarrow> requester \<Rightarrow> active_profile \<Rightarrow> admission_projection \<Rightarrow> request_row" where
  "single_request D actor input requester profile admission =
     \<lparr>rr_id = dr_uuid D ''request'' 0, rr_tenantId = ii_tenantId input, rr_workflowRevisionId = dr_uuid D ''workflow'' 0,
      rr_createdByPrincipalId = ac_principalId actor, rr_purpose = ii_purpose input, rr_status = ''issued'', rr_issuedAt = dr_clock D ''issuedAt'',
      rr_scheduledFor = None, rr_dueAt = None, rr_expiresAt = ii_expiresAt input, rr_completedAt = None, rr_accessPolicy = JNull,
      rr_notificationPolicy = JNull, rr_profile = Some (bound_profile profile), rr_requester = requester_js requester,
      rr_admission = Some (bound_admission admission), rr_reissuedFrom = None\<rparr>"

definition new_assignment :: "engine_env \<Rightarrow> draws \<Rightarrow> string \<Rightarrow> string \<Rightarrow> string \<Rightarrow> int \<Rightarrow> assignment_row" where
  "new_assignment E D tenantId intendedEmail status issuedAt =
     \<lparr>pa_id = dr_uuid D ''assignment'' 0, pa_tenantId = tenantId, pa_requestId = dr_uuid D ''request'' 0, pa_handleDigest = en_digest E (dr_handle D),
      pa_intendedEmail = intendedEmail, pa_principalId = None, pa_participantEmail = None, pa_status = status, pa_issuedAt = issuedAt,
      pa_firstOpenedAt = None, pa_completedAt = None\<rparr>"

definition single_event :: "draws \<Rightarrow> issue_input \<Rightarrow> requester \<Rightarrow> active_profile \<Rightarrow> admission_projection \<Rightarrow> tenant_row \<Rightarrow> event_input" where
  "single_event D input requester profile admission tenant =
     \<lparr>ei_assignmentId = dr_uuid D ''assignment'' 0, ei_eventType = ''request.issued'',
      ei_payload = JObj [(''admission'', admission_evidence_js (tenantAdmissionEvidenceProjection admission)), (''expiresAt'', JStr (toISOString (ii_expiresAt input))),
        (''intendedEmail'', JStr (ii_intendedEmail input)), (''requester'', requester_js requester),
        (''tenant'', issuedTenantProjection (te_id tenant) (te_name tenant) profile),
        (''workflow'', JObj [(''content'', issue_content_js (ii_prompt input) (ii_terms input)), (''contentHash'', JStr (ii_contentHash input)),
           (''id'', JStr (dr_uuid D ''workflow'' 0)), (''responseMode'', JStr (ii_responseMode input)), (''revision'', JInt 1), (''title'', JStr (ii_title input))])],
      ei_receivedAt = dr_clock D ''issuedAt'', ei_requestId = dr_uuid D ''request'' 0, ei_tenantId = ii_tenantId input\<rparr>"

definition issue_single :: "engine_env \<Rightarrow> draws \<Rightarrow> actor \<Rightarrow> issue_input \<Rightarrow> engine_db \<Rightarrow> (issued \<times> engine_db) res" where
  "issue_single E D actor input db =
     (let W = db_workspace db; H = en_hash E; tenantId = ii_tenantId input in
      bindE (requireTenantRole W (ac_principalId actor) tenantId ''owner'') (\<lambda>_.
      bindE (assertTenantAdmitted (en_runtime E) H (ws_admissions W) tenantId) (\<lambda>admission.
      bindE (requesterSnapshot (actorSnapshot actor)) (\<lambda>requester.
      bindE (tenantById W tenantId) (\<lambda>tenant.
      bindE (assertTenantCapacity H (ws_profiles W) (db_usage db) tenantId Active_requests 1) (\<lambda>profile.
      let row = single_revision D input; r = single_request D actor input requester profile admission;
          a = new_assignment E D tenantId (ii_intendedEmail input) ''issued'' (dr_clock D ''issuedAt'') in
      fresh (wr_id row \<notin> wr_id ` set (ws_revisions W))
      (bindE (insert_request E D actor ''tenant_default'' r a (db\<lparr>db_workspace := W\<lparr>ws_revisions := ws_revisions W @ [row]\<rparr>\<rparr>)) (\<lambda>db1.
       bindE (append_evidence E D ''event'' actor (single_event D input requester profile admission tenant) db1) (\<lambda>db2.
       Inr (\<lparr>is_assignmentId = pa_id a, is_dueAt = None, is_expiresAt = toISOString (ii_expiresAt input), is_participantPath = ''/r/'' @ dr_handle D,
             is_requestId = rr_id r, is_scheduledFor = None, is_status = None, is_tenantId = tenantId, is_workflowRevisionId = None\<rparr>, db2))))))))))"

section \<open>Issuing a published workflow\<close>

fun issue_instances ::
  "engine_env \<Rightarrow> draws \<Rightarrow> assignment_row \<Rightarrow> int \<Rightarrow> nat \<Rightarrow> activity list \<Rightarrow> js list \<Rightarrow> activity_instance list res" where
  "issue_instances E D a scheduledFor ordinal (x # xs) (d # ds) =
     bindE (hashCanonicalJSON (en_hash E) d) (\<lambda>definitionHash.
     bindE (issue_instances E D a scheduledFor (Suc ordinal) xs ds) (\<lambda>rest.
     Inr (\<lparr>in_id = dr_uuid D ''instance'' ordinal, in_tenantId = pa_tenantId a, in_requestId = pa_requestId a, in_assignmentId = pa_id a, in_activityId = a_id x,
           in_ordinal = ordinal, in_definition = x, in_definitionJson = d, in_definitionHash = definitionHash,
           in_status = (if ordinal = 0 then ''available'' else ''pending''), in_availableAt = (if ordinal = 0 then Some scheduledFor else None),
           in_openedAt = None, in_completedAt = None\<rparr> # rest)))"
| "issue_instances E D a scheduledFor ordinal _ _ = Inr []"

definition insert_instances :: "activity_instance list \<Rightarrow> engine_db \<Rightarrow> engine_db res" where
  "insert_instances rows db =
     fresh (distinct (map in_id (db_instances db @ rows)) \<and> distinct (map in_activityId rows)) (Inr (db\<lparr>db_instances := db_instances db @ rows\<rparr>))"

definition invitation :: "string \<Rightarrow> string \<Rightarrow> published_issue \<Rightarrow> string \<Rightarrow> active_profile \<Rightarrow> string \<Rightarrow> (string \<times> js) list" where
  "invitation eventType handle input requestId profile title =
     [(''eventType'', JStr eventType), (''participantPath'', JStr (''/r/'' @ handle)), (''recipient'', JStr (pi_intendedEmail input)),
      (''requestId'', JStr requestId), (''tenant'', JObj (tenant_pair (pi_tenantId input) (tb_displayName (tp_branding (af_profile profile))))), (''title'', JStr title)]"

fun queue_reminders ::
  "engine_env \<Rightarrow> draws \<Rightarrow> (string \<times> js) list \<Rightarrow> string \<Rightarrow> string \<Rightarrow> int \<Rightarrow> int \<Rightarrow> nat \<Rightarrow> int list \<Rightarrow> engine_db \<Rightarrow> engine_db res" where
  "queue_reminders E D members requestId tenantId now dueAt k [] db = Inr db"
| "queue_reminders E D members requestId tenantId now dueAt k (h # hs) db =
     (let availableAt = dueAt - h * 3600000 in
      if availableAt \<le> now then queue_reminders E D members requestId tenantId now dueAt (Suc k) hs db
      else bindE (queueNotification E D ''reminder'' k
             \<lparr>nt_availableAt = availableAt, nt_idempotencyKey = requestId @ '':reminder:'' @ show_int h,
              nt_payload = JObj ((''dueAt'', JStr (toISOString dueAt)) # members), nt_requestId = requestId, nt_tenantId = tenantId\<rparr> db)
           (queue_reminders E D members requestId tenantId now dueAt (Suc k) hs))"

definition access_js :: "workflow_document \<Rightarrow> js" where
  "access_js d = get (workflow_js d) ''access''"

definition notifications_js :: "workflow_document \<Rightarrow> js" where
  "notifications_js d = get (workflow_js d) ''notifications''"

text \<open>A date computed past the range of \<open>Date\<close> is invalid: it compares false and cannot be stored.\<close>

definition schedule_refused :: "int \<Rightarrow> int \<Rightarrow> int \<Rightarrow> bool" where
  "schedule_refused scheduledFor dueAt expiresAt \<longleftrightarrow>
     (valid_time expiresAt \<and> valid_time dueAt \<and> expiresAt < dueAt) \<or> (valid_time expiresAt \<and> expiresAt > scheduledFor + 365 * DAY_MS)"

definition active_revision :: "workspace \<Rightarrow> string \<Rightarrow> string \<Rightarrow> (revision_row \<times> published_workflow \<times> tenant_row) option" where
  "active_revision W revisionId tenantId =
     (case find (\<lambda>w. wr_id w = revisionId \<and> wr_tenantId w = tenantId) (ws_revisions W) of
        None \<Rightarrow> None
      | Some w \<Rightarrow>
          (case (wr_snapshot w, find (\<lambda>t. te_id t = wr_tenantId w \<and> te_status t = ''active'') (ws_tenants W),
                 find (\<lambda>d. Some (wf_id d) = wr_definitionId w \<and> wf_status d = ''active'') (ws_definitions W)) of
             (Some p, Some t, Some _) \<Rightarrow> Some (w, p, t)
           | _ \<Rightarrow> None))"

definition due_of :: "published_issue \<Rightarrow> workflow_document \<Rightarrow> int" where
  "due_of input doc = (case pi_dueAt input of Some t \<Rightarrow> t | None \<Rightarrow> pi_scheduledFor input + sd_defaultDueDays (wd_schedule doc) * DAY_MS)"

definition expiry_of :: "published_issue \<Rightarrow> workflow_document \<Rightarrow> int" where
  "expiry_of input doc = (case pi_expiresAt input of Some t \<Rightarrow> t | None \<Rightarrow> pi_scheduledFor input + sd_defaultExpirationDays (wd_schedule doc) * DAY_MS)"

definition is_scheduled :: "draws \<Rightarrow> published_issue \<Rightarrow> bool" where
  "is_scheduled D input \<longleftrightarrow> pi_scheduledFor input > dr_clock D ''now'' + 1000"

definition first_status :: "draws \<Rightarrow> published_issue \<Rightarrow> string" where
  "first_status D input = (if is_scheduled D input then ''scheduled'' else ''issued'')"

definition published_request ::
  "draws \<Rightarrow> actor \<Rightarrow> published_issue \<Rightarrow> revision_row \<Rightarrow> workflow_document \<Rightarrow> requester \<Rightarrow> active_profile \<Rightarrow> admission_projection \<Rightarrow> request_row" where
  "published_request D actor input w doc requester profile admission =
     \<lparr>rr_id = dr_uuid D ''request'' 0, rr_tenantId = pi_tenantId input, rr_workflowRevisionId = wr_id w, rr_createdByPrincipalId = ac_principalId actor,
      rr_purpose = wr_purpose w, rr_status = first_status D input, rr_issuedAt = dr_clock D ''now'', rr_scheduledFor = Some (pi_scheduledFor input),
      rr_dueAt = Some (due_of input doc), rr_expiresAt = expiry_of input doc, rr_completedAt = None, rr_accessPolicy = access_js doc,
      rr_notificationPolicy = notifications_js doc, rr_profile = Some (bound_profile profile), rr_requester = requester_js requester,
      rr_admission = Some (bound_admission admission), rr_reissuedFrom = None\<rparr>"

definition published_event ::
  "draws \<Rightarrow> published_issue \<Rightarrow> revision_row \<Rightarrow> workflow_document \<Rightarrow> requester \<Rightarrow> active_profile \<Rightarrow> admission_projection \<Rightarrow> tenant_row \<Rightarrow> event_input" where
  "published_event D input w doc requester profile admission tenant =
     \<lparr>ei_assignmentId = dr_uuid D ''assignment'' 0, ei_eventType = (if is_scheduled D input then ''request.scheduled'' else ''request.issued''),
      ei_payload = JObj [(''admission'', admission_evidence_js (tenantAdmissionEvidenceProjection admission)), (''accessPolicy'', access_js doc),
        (''dueAt'', JStr (toISOString (due_of input doc))), (''expiresAt'', JStr (toISOString (expiry_of input doc))), (''intendedEmail'', JStr (pi_intendedEmail input)),
        (''notificationPolicy'', notifications_js doc), (''requester'', requester_js requester), (''scheduledFor'', JStr (toISOString (pi_scheduledFor input))),
        (''tenant'', issuedTenantProjection (pi_tenantId input) (te_name tenant) profile),
        (''workflow'', JObj [(''definitionId'', opt_js JStr (wr_definitionId w)), (''id'', JStr (wr_id w)), (''revision'', JInt (wr_revision w)),
           (''snapshotHash'', opt_js JStr (wr_snapshotHash w)), (''title'', JStr (wr_title w))])],
      ei_receivedAt = dr_clock D ''now'', ei_requestId = dr_uuid D ''request'' 0, ei_tenantId = pi_tenantId input\<rparr>"

definition queue_issue_notices ::
  "engine_env \<Rightarrow> draws \<Rightarrow> published_issue \<Rightarrow> revision_row \<Rightarrow> workflow_document \<Rightarrow> active_profile \<Rightarrow> engine_db \<Rightarrow> engine_db res" where
  "queue_issue_notices E D input w doc profile db =
     (let requestId = dr_uuid D ''request'' 0; members = (\<lambda>eventType. invitation eventType (dr_handle D) input requestId profile (wr_title w)) in
      bindE (if np_onIssue (wd_notifications doc)
             then queueNotification E D ''invitation'' 0
               \<lparr>nt_availableAt = pi_scheduledFor input, nt_idempotencyKey = requestId @ '':issued'', nt_payload = JObj (members ''request.issued''),
                nt_requestId = requestId, nt_tenantId = pi_tenantId input\<rparr> db
             else Inr db)
        (queue_reminders E D (members ''request.reminder'') requestId (pi_tenantId input) (dr_clock D ''now'') (due_of input doc) 0
           (np_reminderHoursBeforeDue (wd_notifications doc))))"

text \<open>The rows of a request on a published revision, once its dates are checked.\<close>

definition issue_revision ::
  "engine_env \<Rightarrow> draws \<Rightarrow> actor \<Rightarrow> published_issue \<Rightarrow> revision_row \<Rightarrow> published_workflow \<Rightarrow> requester \<Rightarrow> active_profile \<Rightarrow> admission_projection \<Rightarrow> tenant_row \<Rightarrow>
     engine_db \<Rightarrow> engine_db res" where
  "issue_revision E D actor input w p requester profile admission tenant db =
     (let doc = pd_document p; now = dr_clock D ''now''; r = published_request D actor input w doc requester profile admission;
          a = new_assignment E D (pi_tenantId input) (pi_intendedEmail input) (first_status D input) now in
      bindE (insert_request E D actor (if wd_retention doc = [] then ''tenant_default'' else wd_retention doc) r a db) (\<lambda>db1.
      bindE (issue_instances E D a (pi_scheduledFor input) 0 (wd_activities doc) (pd_definitions p)) (\<lambda>rows.
      bindE (insert_instances rows db1) (\<lambda>db2.
      bindE (persistIssueMediaSnapshots (en_hash E) (dr_uuid D ''snapshot'') 0 (pa_id a) now (rr_id r) (request_descriptors (db_workspace db) (wr_id w))
          (ws_snapshots (db_workspace db))) (\<lambda>snapshots.
      bindE (append_evidence E D ''event'' actor (published_event D input w doc requester profile admission tenant)
          (db2\<lparr>db_workspace := (db_workspace db)\<lparr>ws_snapshots := snapshots\<rparr>\<rparr>)) (\<lambda>db3.
      queue_issue_notices E D input w doc profile db3))))))"

definition issuePublishedRequest :: "engine_env \<Rightarrow> draws \<Rightarrow> actor \<Rightarrow> published_issue \<Rightarrow> engine_db \<Rightarrow> (issued \<times> engine_db) res" where
  "issuePublishedRequest E D actor input db =
     (let W = db_workspace db; H = en_hash E; tenantId = pi_tenantId input in
      bindE (requireTenantPermission (dr_clock D ''CURRENT_TIMESTAMP'') W (ac_principalId actor) tenantId ''request.manage'') (\<lambda>_.
      bindE (assertTenantAdmitted (en_runtime E) H (ws_admissions W) tenantId) (\<lambda>admission.
      bindE (requesterSnapshot (actorSnapshot actor)) (\<lambda>requester.
      bindE (assertTenantCapacity H (ws_profiles W) (db_usage db) tenantId Active_requests 1) (\<lambda>profile.
      case active_revision W (pi_workflowRevisionId input) tenantId of
        None \<Rightarrow> notFound
      | Some (w, p, tenant) \<Rightarrow>
          let doc = pd_document p; dueAt = due_of input doc; expiresAt = expiry_of input doc in
          guardE (\<not> schedule_refused (pi_scheduledFor input) dueAt expiresAt) (STORE_ERROR 400) (Because ''invalid_request_schedule'')
          (guardE (valid_time dueAt \<and> valid_time expiresAt) PLAIN_ERROR (Because ''Invalid time value'')
           (bindE (issue_revision E D actor input w p requester profile admission tenant db) (\<lambda>db'.
            Inr (\<lparr>is_assignmentId = dr_uuid D ''assignment'' 0, is_dueAt = Some (toISOString dueAt), is_expiresAt = toISOString expiresAt,
                  is_participantPath = ''/r/'' @ dr_handle D, is_requestId = dr_uuid D ''request'' 0, is_scheduledFor = Some (toISOString (pi_scheduledFor input)),
                  is_status = Some (first_status D input), is_tenantId = tenantId, is_workflowRevisionId = Some (wr_id w)\<rparr>, db')))))))))"

definition issueRequest :: "engine_env \<Rightarrow> draws \<Rightarrow> actor \<Rightarrow> js \<Rightarrow> engine_db \<Rightarrow> (issued \<times> engine_db) res" where
  "issueRequest E D actor payload db =
     bindE (requireActor actor) (\<lambda>_.
     if truthy (get payload ''workflowRevisionId'')
     then bindE (validatePublishedIssueInput (en_runtime E) payload (dr_clock D ''input'')) (\<lambda>input. issuePublishedRequest E D actor input db)
     else bindE (validateIssueInput (en_runtime E) (en_hash E) payload (dr_clock D ''input'')) (\<lambda>input. issue_single E D actor input db))"

section \<open>Actions of the owner\<close>

definition set_request_status :: "string \<Rightarrow> string \<Rightarrow> engine_db \<Rightarrow> engine_db" where
  "set_request_status requestId status db = db\<lparr>db_requests := map (\<lambda>r. if rr_id r = requestId then r\<lparr>rr_status := status\<rparr> else r) (db_requests db)\<rparr>"

definition set_assignment_status :: "string \<Rightarrow> string \<Rightarrow> engine_db \<Rightarrow> engine_db" where
  "set_assignment_status assignmentId status db =
     db\<lparr>db_assignments := map (\<lambda>a. if pa_id a = assignmentId then a\<lparr>pa_status := status\<rparr> else a) (db_assignments db)\<rparr>"

definition revoke_request :: "engine_env \<Rightarrow> draws \<Rightarrow> actor \<Rightarrow> request_action \<Rightarrow> int \<Rightarrow> request_row \<Rightarrow> assignment_row \<Rightarrow> engine_db \<Rightarrow> engine_db res" where
  "revoke_request E D actor input now r a db =
     guardE (rr_status r \<noteq> ''revoked'') (STORE_ERROR 409) (Because ''request_state_conflict'')
     (append_evidence E D ''action event'' actor
       \<lparr>ei_assignmentId = pa_id a, ei_eventType = (if ra_action input = ''reissue'' then ''request.reissued'' else ''request.revoked''),
        ei_payload = JObj [(''commandId'', JStr (ra_commandId input)), (''previousStatus'', JStr (rr_status r))],
        ei_receivedAt = now, ei_requestId = ra_requestId input, ei_tenantId = ra_tenantId input\<rparr>
       (suppressPendingRequestNotifications (if ra_action input = ''reissue'' then ''request_reissued'' else ''request_revoked'') (ra_requestId input) now
         (set_assignment_status (pa_id a) ''revoked'' (set_request_status (ra_requestId input) ''revoked'' db))))"

definition reissue_request :: "engine_env \<Rightarrow> draws \<Rightarrow> actor \<Rightarrow> request_action \<Rightarrow> int \<Rightarrow> request_row \<Rightarrow> assignment_row \<Rightarrow> engine_db \<Rightarrow> (issued \<times> engine_db) res" where
  "reissue_request E D actor input now r a db =
     bindE (issuePublishedRequest E D actor
       \<lparr>pi_dueAt = None, pi_expiresAt = None, pi_intendedEmail = pa_intendedEmail a, pi_scheduledFor = now, pi_tenantId = ra_tenantId input,
        pi_workflowRevisionId = rr_workflowRevisionId r\<rparr> db) (\<lambda>(x, db').
     Inr (x, db'\<lparr>db_requests := map (\<lambda>q. if rr_id q = is_requestId x then q\<lparr>rr_reissuedFrom := Some (ra_requestId input)\<rparr> else q) (db_requests db')\<rparr>))"

datatype action_result = Acted (ar_action: string) (ar_requestId: string) (ar_status: string) (ar_queued: bool) | Reissued issued

definition result_status :: "action_result \<Rightarrow> string" where
  "result_status x = (case x of Acted _ _ s _ \<Rightarrow> if s = [] then ''issued'' else s | Reissued i \<Rightarrow> (case is_status i of Some s \<Rightarrow> s | None \<Rightarrow> ''issued''))"

text \<open>A request that was issued without a schedule reads as scheduled for the epoch.\<close>

definition manual_reminder :: "engine_env \<Rightarrow> draws \<Rightarrow> request_action \<Rightarrow> int \<Rightarrow> request_row \<Rightarrow> assignment_row \<Rightarrow> engine_db \<Rightarrow> engine_db res" where
  "manual_reminder E D input now r a =
     queueNotification E D ''manual'' 0
       \<lparr>nt_availableAt = (case rr_scheduledFor r of Some t \<Rightarrow> if t > now then t else now | None \<Rightarrow> if 0 > now then 0 else now),
        nt_idempotencyKey = ra_requestId input @ '':manual-reminder:'' @ ra_commandId input,
        nt_payload = JObj [(''eventType'', JStr ''request.reminder''), (''recipient'', JStr (pa_intendedEmail a)), (''requestId'', JStr (ra_requestId input))],
        nt_requestId = ra_requestId input, nt_tenantId = ra_tenantId input\<rparr>"

definition request_of :: "engine_db \<Rightarrow> string \<Rightarrow> string \<Rightarrow> (request_row \<times> assignment_row) option" where
  "request_of db requestId tenantId =
     (case find (\<lambda>r. rr_id r = requestId \<and> rr_tenantId r = tenantId) (db_requests db) of
        None \<Rightarrow> None
      | Some r \<Rightarrow> (case find (\<lambda>a. pa_requestId a = rr_id r) (db_assignments db) of None \<Rightarrow> None | Some a \<Rightarrow> Some (r, a)))"

text \<open>Revoke, then issue again, then remind, each only for the actions that ask for it.\<close>

definition perform_action ::
  "engine_env \<Rightarrow> draws \<Rightarrow> actor \<Rightarrow> request_action \<Rightarrow> int \<Rightarrow> request_row \<Rightarrow> assignment_row \<Rightarrow> engine_db \<Rightarrow> (action_result \<times> engine_db) res" where
  "perform_action E D actor input now r a db =
     (let action = ra_action input in
      bindE (if action = ''revoke'' \<or> action = ''reissue''
             then bindE (revoke_request E D actor input now r a db) (\<lambda>db1. Inr (Acted action (ra_requestId input) ''revoked'' False, db1))
             else Inr (Acted action (ra_requestId input) (rr_status r) False, db)) (\<lambda>(x1, db1).
      bindE (if action = ''reissue''
             then bindE (reissue_request E D actor input now r a db1) (\<lambda>(i, db2). Inr (Reissued i, db2)) else Inr (x1, db1)) (\<lambda>(x2, db2).
      if action = ''remind''
      then bindE (manual_reminder E D input now r a db2) (\<lambda>db3. Inr (Acted action (ra_requestId input) (rr_status r) True, db3)) else Inr (x2, db2))))"

definition action_event :: "draws \<Rightarrow> actor \<Rightarrow> request_action \<Rightarrow> int \<Rightarrow> action_result \<Rightarrow> request_event_row" where
  "action_event D actor input now x =
     \<lparr>qe_id = dr_uuid D ''request event'' 0, qe_tenantId = ra_tenantId input, qe_requestId = ra_requestId input, qe_eventType = ''request.'' @ ra_action input,
      qe_actorPrincipalId = ac_principalId actor, qe_idempotencyKey = ra_commandId input,
      qe_eventData = JObj [(''action'', JStr (ra_action input)), (''resultingStatus'', JStr (result_status x))], qe_createdAt = now\<rparr>"

definition applyRequestAction :: "engine_env \<Rightarrow> draws \<Rightarrow> actor \<Rightarrow> request_action \<Rightarrow> engine_db \<Rightarrow> (action_result \<times> engine_db) res" where
  "applyRequestAction E D actor input db =
     (let W = db_workspace db; action = ra_action input; now = dr_clock D ''action'' in
      guardE (\<not> list_ex (\<lambda>q. qe_idempotencyKey q = ra_commandId input) (db_requestEvents db)) (STORE_ERROR 409) (Because ''action_replayed'')
      (bindE (if action = ''reissue'' then bindE (assertTenantAdmitted (en_runtime E) (en_hash E) (ws_admissions W) (ra_tenantId input)) (\<lambda>_. Inr ()) else Inr ()) (\<lambda>_.
       case request_of db (ra_requestId input) (ra_tenantId input) of
         None \<Rightarrow> notFound
       | Some (r, a) \<Rightarrow>
           guardE (rr_status r \<notin> {''completed'', ''expired''}) (STORE_ERROR 409) (Because ''request_state_conflict'')
           (guardE (\<not> (action = ''remind'' \<and> rr_status r = ''revoked'')) (STORE_ERROR 409) (Because ''request_state_conflict'')
            (bindE (perform_action E D actor input now r a db) (\<lambda>(x, db').
             fresh (dr_uuid D ''request event'' 0 \<notin> qe_id ` set (db_requestEvents db'))
             (Inr (x, db'\<lparr>db_requestEvents := db_requestEvents db' @ [action_event D actor input now x]\<rparr>))))))))"

definition requestAction :: "engine_env \<Rightarrow> draws \<Rightarrow> actor \<Rightarrow> js \<Rightarrow> engine_db \<Rightarrow> (action_result \<times> engine_db) res" where
  "requestAction E D actor payload db =
     bindE (requireActor actor) (\<lambda>_.
     bindE (validateRequestAction payload) (\<lambda>input.
     bindE (requireTenantPermission (dr_clock D ''CURRENT_TIMESTAMP'') (db_workspace db) (ac_principalId actor) (ra_tenantId input) ''request.manage'') (\<lambda>_.
     applyRequestAction E D actor input db)))"

end
