(* ===== verification/Participation.thy ===== *)
theory Participation
  imports Requests
begin

text \<open>
  The participant's side of a request (\<^verbatim>\<open>src/services/engine/evidence-store.mjs\<close>): opening the
  assignment behind a handle, saving and submitting answers, the walk through the activities, and
  the sealed record at the end.
\<close>

section \<open>The record behind a handle\<close>

record participation =
  pn_assignment :: assignment_row
  pn_request :: request_row
  pn_revision :: revision_row
  pn_tenantName :: string

definition assignmentForHandle :: "engine_db \<Rightarrow> string \<Rightarrow> participation res" where
  "assignmentForHandle db digest =
     (case find (\<lambda>a. pa_handleDigest a = digest) (db_assignments db) of
        None \<Rightarrow> notFound
      | Some a \<Rightarrow>
          (case find (\<lambda>r. rr_id r = pa_requestId a) (db_requests db) of
             None \<Rightarrow> notFound
           | Some r \<Rightarrow>
               (case (find (\<lambda>w. wr_id w = rr_workflowRevisionId r) (ws_revisions (db_workspace db)), find (\<lambda>t. te_id t = pa_tenantId a) (ws_tenants (db_workspace db))) of
                  (Some w, Some t) \<Rightarrow> Inr \<lparr>pn_assignment = a, pn_request = r, pn_revision = w, pn_tenantName = te_name t\<rparr>
                | _ \<Rightarrow> notFound)))"

definition authorizeParticipant :: "assignment_row \<Rightarrow> actor \<Rightarrow> unit res" where
  "authorizeParticipant a actor =
     guardE (Some (js_lower (pa_intendedEmail a)) = ac_email actor \<and>
       (case pa_principalId a of None \<Rightarrow> True | Some p \<Rightarrow> p = [] \<or> p = ac_principalId actor)) (STORE_ERROR 404) (Because ''not_found'') (Inr ())"

definition assertAssignmentAvailable :: "assignment_row \<Rightarrow> request_row \<Rightarrow> int \<Rightarrow> unit res" where
  "assertAssignmentAvailable a r now =
     guardE (pa_status a \<noteq> ''revoked'' \<and> rr_status r \<noteq> ''revoked'') (STORE_ERROR 410) (Because ''assignment_revoked'')
     (guardE (now < rr_expiresAt r \<and> pa_status a \<noteq> ''expired'' \<and> rr_status r \<noteq> ''expired'') (STORE_ERROR 410) (Because ''assignment_expired'')
      (guardE (case rr_scheduledFor r of None \<Rightarrow> True | Some t \<Rightarrow> t \<le> now) (STORE_ERROR 425) (Because ''assignment_not_yet_available'') (Inr ())))"

section \<open>The current activity\<close>

record current_activity =
  cu_instance :: activity_instance
  cu_savedResponse :: js
  cu_savedLabel :: js
  cu_mediaSummary :: js
  cu_interactionSummary :: js

definition last_by :: "('a \<Rightarrow> int) \<Rightarrow> ('a \<Rightarrow> js) \<Rightarrow> 'a list \<Rightarrow> js" where
  "last_by key f rows = (case rev (sort_key key rows) of [] \<Rightarrow> JNull | x # _ \<Rightarrow> f x)"

definition available_instance :: "activity_instance list \<Rightarrow> string \<Rightarrow> activity_instance option" where
  "available_instance I assignmentId =
     (case sort_key in_ordinal (filter (\<lambda>x. in_assignmentId x = assignmentId \<and> in_status x = ''available'') I) of [] \<Rightarrow> None | x # _ \<Rightarrow> Some x)"

definition open_instance :: "string \<Rightarrow> int \<Rightarrow> activity_instance \<Rightarrow> activity_instance" where
  "open_instance i now x = (if in_id x = i \<and> in_openedAt x = None then x\<lparr>in_openedAt := Some now\<rparr> else x)"

definition currentActivity :: "engine_db \<Rightarrow> string \<Rightarrow> int \<Rightarrow> (current_activity \<times> engine_db) res" where
  "currentActivity db assignmentId now =
     (case available_instance (db_instances db) assignmentId of
        None \<Rightarrow> throw (STORE_ERROR 409) (Because ''activity_unavailable'')
      | Some x \<Rightarrow>
          let saved = filter (\<lambda>v. rv_activityInstanceId v = in_id x \<and> rv_state v = ''saved'') (db_revisions db);
              of_activity = filter (\<lambda>s. sy_activityInstanceId s = in_id x)
          in Inr (\<lparr>cu_instance = open_instance (in_id x) now x, cu_savedResponse = last_by rv_revision rv_value saved,
                   cu_savedLabel = last_by rv_revision (\<lambda>v. JStr (rv_label v)) saved,
                   cu_mediaSummary = last_by sy_revision sy_summary (of_activity (tt_mediaSummaries (db_telemetry db))),
                   cu_interactionSummary = last_by sy_revision sy_summary (of_activity (tt_summaries (db_telemetry db)))\<rparr>,
                  db\<lparr>db_instances := map (open_instance (in_id x) now) (db_instances db)\<rparr>))"

section \<open>What the participant sees\<close>

definition choice_view :: "shown_question \<Rightarrow> js" where
  "choice_view q = JObj [(''choices'', JArr (map choice_js (sq_choices q))), (''id'', JStr (sq_id q)), (''prompt'', JStr (sq_prompt q)),
     (''required'', JBool (sq_required q)),
     (''type'', JStr (case sq_type q of Single_choice_question \<Rightarrow> ''single_choice'' | Multiple_choice_question \<Rightarrow> ''multiple_choice''))]"

text \<open>A questionnaire is shown without its answer key; any other content is the stored one, bindings included.\<close>

definition shown_content_js :: "js \<Rightarrow> shown_activity \<Rightarrow> js" where
  "shown_content_js definition a =
     (case sa_content a of
        Shown _ \<Rightarrow> get definition ''content''
      | Shown_questionnaire instructions passing questions disclosure \<Rightarrow>
          JObj [(''instructions'', opt_js JStr instructions), (''passingPercent'', JInt passing), (''questions'', JArr (map choice_view questions)),
            (''resultDisclosure'', JStr disclosure)])"

definition shown_activity_js :: "activity \<Rightarrow> js \<Rightarrow> js" where
  "shown_activity_js x definition =
     (let a = participantActivityProjection None x in
      JObj [(''content'', shown_content_js definition a), (''contentHash'', opt_js JStr (sa_contentHash a)), (''contractVersion'', JInt (sa_contractVersion a)),
        (''id'', JStr (sa_id a)), (''instructions'', opt_js JStr (sa_instructions a)), (''responseMode'', JStr (sa_responseMode a)),
        (''title'', JStr (sa_title a)), (''type'', JStr (sa_type a))])"

definition participantTenantProjection :: "string \<Rightarrow> string \<Rightarrow> profile_binding option \<Rightarrow> js" where
  "participantTenantProjection i name b =
     (let branding = (case b of None \<Rightarrow> JUndef | Some p \<Rightarrow> get (bp_snapshot p) ''branding'') in
      JObj (tenant_pair i name @ (if truthy branding then [(''branding'', branding)] else [])))"

definition participantRequesterProjection :: "js \<Rightarrow> js" where
  "participantRequesterProjection snapshot =
     JObj [(''email'', js_or (get snapshot ''email'') JNull), (''relationship'', JStr ''requesting_organization'')]"

definition request_access_js :: "js \<Rightarrow> js res" where
  "request_access_js accessPolicy =
     bindE (authenticationAssurancePolicy accessPolicy) (\<lambda>policy.
     Inr (JObj [(''authenticationAssurance'', auth_policy_js policy), (''postCompletion'', js_or (get accessPolicy ''postCompletion'') (JStr ''receipt_only''))]))"

definition interaction_js :: "string \<Rightarrow> int \<Rightarrow> js" where
  "interaction_js i startedAt = JObj [(''id'', JStr i), (''startedAt'', JStr (toISOString startedAt))]"

definition workflowParticipantProjection :: "engine_env \<Rightarrow> participation \<Rightarrow> published_workflow \<Rightarrow> string \<times> int \<Rightarrow> current_activity \<Rightarrow> js res" where
  "workflowParticipantProjection E p w session c =
     (let a = pn_assignment p; r = pn_request p; x = cu_instance c; shown = shown_activity_js (in_definition x) (in_definitionJson x) in
      bindE (request_access_js (rr_accessPolicy r)) (\<lambda>access.
      Inr (JObj [(''activityId'', JStr (in_activityId x)), (''assignmentId'', JStr (pa_id a)), (''completed'', JBool False), (''content'', get shown ''content''),
        (''contentHash'', JStr (in_definitionHash x)), (''contractVersion'', get shown ''contractVersion''),
        (''dueAt'', opt_js (\<lambda>t. JStr (toISOString t)) (rr_dueAt r)), (''expiresAt'', JStr (toISOString (rr_expiresAt r))),
        (''instructions'', get shown ''instructions''), (''interaction'', interaction_js (fst session) (snd session)),
        (''interactionEvidence'', JObj [(''policy'', en_interactionPolicy E), (''summary'', cu_interactionSummary c)]),
        (''progress'', JObj [(''current'', JInt (int (in_ordinal x) + 1)), (''total'', JInt (int (length (wd_activities (pd_document w)))))]),
        (''purpose'', JStr (rr_purpose r)), (''requestAccess'', access), (''requester'', participantRequesterProjection (rr_requester r)),
        (''responseMode'', get shown ''responseMode''), (''mediaSummary'', cu_mediaSummary c), (''savedResponse'', cu_savedResponse c),
        (''savedResponseLabel'', cu_savedLabel c), (''tenant'', participantTenantProjection (pa_tenantId a) (pn_tenantName p) (rr_profile r)),
        (''title'', get shown ''title''), (''type'', get shown ''type''), (''workflowTitle'', JStr (wr_title (pn_revision p)))])))"

definition participantProjection :: "participation \<Rightarrow> string \<times> int \<Rightarrow> js res" where
  "participantProjection p session =
     (let a = pn_assignment p; r = pn_request p; w = pn_revision p in
      bindE (request_access_js (rr_accessPolicy r)) (\<lambda>access.
      Inr (JObj [(''assignmentId'', JStr (pa_id a)), (''completed'', JBool False), (''content'', wr_content w), (''contentHash'', JStr (wr_contentHash w)),
        (''dueAt'', opt_js (\<lambda>t. JStr (toISOString t)) (rr_dueAt r)), (''expiresAt'', JStr (toISOString (rr_expiresAt r))),
        (''interaction'', interaction_js (fst session) (snd session)), (''purpose'', JStr (rr_purpose r)), (''requestAccess'', access),
        (''requester'', participantRequesterProjection (rr_requester r)), (''responseMode'', JStr (wr_responseMode w)),
        (''tenant'', participantTenantProjection (pa_tenantId a) (pn_tenantName p) (rr_profile r)), (''title'', JStr (wr_title w))])))"

section \<open>Opening\<close>

definition open_scheduled :: "participation \<Rightarrow> engine_db \<Rightarrow> engine_db" where
  "open_scheduled p db =
     (if rr_status (pn_request p) = ''scheduled''
      then set_assignment_status (pa_id (pn_assignment p)) ''issued'' (set_request_status (rr_id (pn_request p)) ''issued'' db) else db)"

definition unbound :: "assignment_row \<Rightarrow> bool" where
  "unbound a = (case pa_principalId a of None \<Rightarrow> True | Some p \<Rightarrow> p = [])"

definition bind_assignment :: "actor \<Rightarrow> int \<Rightarrow> assignment_row \<Rightarrow> assignment_row" where
  "bind_assignment actor now a =
     a\<lparr>pa_principalId := Some (ac_principalId actor), pa_participantEmail := ac_email actor, pa_status := ''in_progress'',
       pa_firstOpenedAt := (case pa_firstOpenedAt a of None \<Rightarrow> Some now | Some t \<Rightarrow> Some t)\<rparr>"

definition bind_participant :: "actor \<Rightarrow> int \<Rightarrow> participation \<Rightarrow> engine_db \<Rightarrow> engine_db" where
  "bind_participant actor now p db =
     (if unbound (pn_assignment p)
      then db\<lparr>db_assignments := map (\<lambda>a. if pa_id a = pa_id (pn_assignment p) then bind_assignment actor now a else a) (db_assignments db),
              db_requests := map (\<lambda>r. if rr_id r = rr_id (pn_request p) \<and> rr_status r \<in> {''issued'', ''scheduled''} then r\<lparr>rr_status := ''in_progress''\<rparr> else r) (db_requests db)\<rparr>
      else db)"

definition open_sessions :: "engine_db \<Rightarrow> string \<Rightarrow> string \<Rightarrow> session_row list" where
  "open_sessions db assignmentId principalId =
     filter (\<lambda>s. ss_assignmentId s = assignmentId \<and> ss_principalId s = principalId \<and> ss_completedAt s = None) (db_sessions db)"

definition close_session :: "string \<Rightarrow> int \<Rightarrow> engine_db \<Rightarrow> engine_db" where
  "close_session i now db = db\<lparr>db_sessions := map (\<lambda>s. if ss_id s = i then s\<lparr>ss_completedAt := Some now\<rparr> else s) (db_sessions db)\<rparr>"

text \<open>A session of another gateway session is closed; one open session of this gateway session is kept.\<close>

definition ensure_session ::
  "engine_env \<Rightarrow> draws \<Rightarrow> actor \<Rightarrow> int \<Rightarrow> evaluation \<Rightarrow> participation \<Rightarrow> engine_db \<Rightarrow> ((string \<times> int) \<times> engine_db) res" where
  "ensure_session E D actor now assurance p db =
     (let a = pn_assignment p; r = pn_request p; existing = open_sessions db (pa_id a) (ac_principalId actor);
          start = (\<lambda>db.
            let i = dr_uuid D ''interaction'' 0;
                s = \<lparr>ss_id = i, ss_assignmentId = pa_id a, ss_principalId = ac_principalId actor, ss_gatewaySessionId = ac_gatewaySessionId actor,
                     ss_authentication = authentication_js (ac_authentication actor), ss_requestContext = opt_js request_context_js (ac_requestContext actor),
                     ss_startedAt = now, ss_completedAt = None\<rparr> in
            fresh (i \<notin> ss_id ` set (db_sessions db) \<and> open_sessions db (pa_id a) (ac_principalId actor) = [])
            (bindE (append_evidence E D ''event'' actor
              \<lparr>ei_assignmentId = pa_id a, ei_eventType = ''participant.opened'',
               ei_payload = JObj [(''authenticationAssurance'', evaluation_js assurance), (''authentication'', authentication_js (ac_authentication actor)),
                 (''authenticatedAt'', opt_js JInt (ac_authenticatedAt actor)), (''contentHash'', JStr (wr_contentHash (pn_revision p))), (''interactionId'', JStr i),
                 (''requestContext'', opt_js request_context_js (ac_requestContext actor))],
               ei_receivedAt = now, ei_requestId = rr_id r, ei_tenantId = pa_tenantId a\<rparr>
              (db\<lparr>db_sessions := db_sessions db @ [s]\<rparr>)) (\<lambda>db'. Inr ((i, now), db'))))
      in case existing of
           [] \<Rightarrow> start db
         | s # _ \<Rightarrow> if ss_gatewaySessionId s \<noteq> ac_gatewaySessionId actor then start (close_session (ss_id s) now db) else Inr ((ss_id s, ss_startedAt s), db))"

definition shown_record :: "engine_env \<Rightarrow> participation \<Rightarrow> int \<Rightarrow> string \<times> int \<Rightarrow> engine_db \<Rightarrow> (js \<times> engine_db) res" where
  "shown_record E p now session db =
     (case wr_snapshot (pn_revision p) of
        Some w \<Rightarrow>
          bindE (currentActivity db (pa_id (pn_assignment p)) now) (\<lambda>(c, db').
          bindE (workflowParticipantProjection E p w session c) (\<lambda>view. Inr (view, db')))
      | None \<Rightarrow> bindE (participantProjection p session) (\<lambda>view. Inr (view, db)))"

definition open_available :: "engine_env \<Rightarrow> draws \<Rightarrow> actor \<Rightarrow> participation \<Rightarrow> engine_db \<Rightarrow> (js \<times> engine_db) res" where
  "open_available E D actor p db =
     (let a = pn_assignment p; r = pn_request p; now = dr_clock D ''now'' in
      bindE (assertAssignmentAvailable a r now) (\<lambda>_.
      bindE (requireAuthenticationAssurance (en_runtime E) (rr_accessPolicy r) (actorSnapshot actor) now) (\<lambda>assurance.
      bindE (ensure_session E D actor now assurance p (bind_participant actor now p (open_scheduled p db))) (\<lambda>(session, db1).
      shown_record E p now session db1))))"

definition openAssignment :: "engine_env \<Rightarrow> draws \<Rightarrow> actor \<Rightarrow> js \<Rightarrow> engine_db \<Rightarrow> (js \<times> engine_db) res" where
  "openAssignment E D actor payload db =
     bindE (requireParticipant actor) (\<lambda>_.
     bindE (digestHandle E (get payload ''handle'')) (\<lambda>digest.
     bindE (assignmentForHandle db digest) (\<lambda>p.
     let a = pn_assignment p in
     bindE (authorizeParticipant a actor) (\<lambda>_.
     if pa_status a = ''completed''
     then bindE (assertLifecycleHistoryAvailable (db_lifecycle db) (pa_id a) (dr_clock D ''history'')) (\<lambda>_.
          Inr (JObj [(''completed'', JBool True), (''receiptAvailable'', JBool True)], db))
     else open_available E D actor p db))))"

section \<open>Sealing a record\<close>

text \<open>
  A seal carries the time of completion. The manifest and each seal are stored, and the record is
  verified before the transaction commits; whatever the verifier throws becomes one error.
\<close>

definition insert_seals :: "draws \<Rightarrow> string \<Rightarrow> int \<Rightarrow> js list \<Rightarrow> seal_row list" where
  "insert_seals D manifestId completedAt seals =
     map (\<lambda>(n, s). \<lparr>sl_id = dr_uuid D ''seal'' n, sl_manifestId = manifestId, sl_seal = s, sl_createdAt = completedAt\<rparr>) (enumerate 0 seals)"

definition verified_record :: "engine_env \<Rightarrow> js \<Rightarrow> js \<Rightarrow> js res" where
  "verified_record E record expected =
     (case assertEvidenceRecord (en_verifier E) record expected of
        Inr _ \<Rightarrow> Inr record
      | Inl _ \<Rightarrow> throw (STORE_ERROR 500) (Because ''integrity_check_failed''))"

definition persistSeal :: "engine_env \<Rightarrow> draws \<Rightarrow> assignment_row \<Rightarrow> int \<Rightarrow> js list \<Rightarrow> js \<Rightarrow> string \<Rightarrow> engine_db \<Rightarrow> (js \<times> engine_db) res" where
  "persistSeal E D a completedAt events manifest manifestId db =
     (let V = en_verifier E in
      bindE (ensureSigningKeys (en_provider E) (db_keys db)) (\<lambda>keys.
      bindE (signManifest (ve_primitives V) (ve_x509 V) (ve_runtime V) (en_provider E) manifest) (\<lambda>signed.
      let seals = map (\<lambda>s. with_member s ''createdAt'' (JStr (toISOString completedAt))) signed in
      case find (\<lambda>s. get s ''role'' = JStr ''vasi_integrity'') seals of
        None \<Rightarrow> throw (STORE_ERROR 500) (Because ''seal_key_mismatch'')
      | Some seal \<Rightarrow>
          fresh (manifestId \<notin> mf_id ` set (db_manifests db) \<and> pa_id a \<notin> mf_assignmentId ` set (db_manifests db))
          (bindE (verified_record E (JObj [(''events'', JArr events), (''manifest'', manifest), (''seal'', seal), (''seals'', JArr seals)])
              (sp_primaryPublicJWK (en_provider E))) (\<lambda>record.
           Inr (record, db\<lparr>db_keys := keys,
             db_manifests := db_manifests db @ [\<lparr>mf_id = manifestId, mf_assignmentId = pa_id a, mf_requestId = pa_requestId a, mf_tenantId = pa_tenantId a,
               mf_manifest = manifest, mf_manifestHash = get seal ''manifestHash'', mf_createdAt = completedAt\<rparr>],
             db_seals := db_seals db @ insert_seals D manifestId completedAt seals\<rparr>))))))"

text \<open>The value of an answer as text, where it has no label.\<close>

definition formatResponse :: "js \<Rightarrow> string" where
  "formatResponse v =
     (case v of
        JStr s \<Rightarrow> s
      | JArr xs \<Rightarrow> Crypto.join '', '' (map (\<lambda>x. case as_str x of Some s \<Rightarrow> s | None \<Rightarrow> stringify x) xs)
      | JObj ps \<Rightarrow> stringify (JObj (filter (\<lambda>p. snd p \<noteq> JUndef) ps))
      | _ \<Rightarrow> stringify v)"

definition answer_line :: "js \<Rightarrow> string" where
  "answer_line o0 = (case as_str (get o0 ''activityId'') of Some s \<Rightarrow> s | None \<Rightarrow> []) @ '': '' @
     (case as_str (get o0 ''responseLabel'') of Some (c # cs) \<Rightarrow> c # cs | _ \<Rightarrow> formatResponse (get o0 ''response''))"

definition content_available :: "engine_env \<Rightarrow> js \<Rightarrow> int \<Rightarrow> bool" where
  "content_available E request now =
     (let postCompletion = js_or (get (get request ''accessPolicy'') ''postCompletion'') (JStr ''receipt_only'') in
      postCompletion = JStr ''content_always'' \<or>
      (postCompletion = JStr ''content_until_expiration'' \<and> truthy (get request ''expiresAt'') \<and>
       (case new_Date (en_runtime E) (get request ''expiresAt'') of Some t \<Rightarrow> t > now | None \<Rightarrow> False)))"

text \<open>The activities are those of the workflow snapshot that the manifest carries.\<close>

definition participantReceipt :: "engine_env \<Rightarrow> int \<Rightarrow> published_workflow option \<Rightarrow> js \<Rightarrow> js" where
  "participantReceipt E now w record =
     (let manifest = get record ''manifest''; seal = get record ''seal''; outcome = get manifest ''outcome''; request = get manifest ''request'';
          outcomes = as_arr (get outcome ''activities''); available = content_available E request now in
      JObj [(''assignmentId'', get (get manifest ''assignment'') ''id''), (''completedAt'', get (get manifest ''timestamps'') ''completedAt''),
        (''integrity'', JObj [(''algorithm'', get seal ''algorithm''), (''keyId'', get seal ''keyId''), (''manifestHash'', get seal ''manifestHash''),
           (''profile'', get seal ''profile''), (''verified'', JBool True)]),
        (''issuedAt'', get (get manifest ''timestamps'') ''issuedAt''), (''requester'', participantRequesterProjection (get manifest ''requester'')),
        (''request'', JObj [
           (''activities'', if available then (case w of None \<Rightarrow> JUndef
              | Some p \<Rightarrow> JArr (map (\<lambda>(x, d). shown_activity_js x d) (zip (wd_activities (pd_document p)) (pd_definitions p)))) else JUndef),
           (''contentAccess'', JObj [(''available'', JBool available), (''policy'', js_or (get (get request ''accessPolicy'') ''postCompletion'') (JStr ''receipt_only''))]),
           (''purpose'', get request ''purpose''),
           (''response'', case outcomes of Some os \<Rightarrow> JStr (Crypto.join ''; '' (map answer_line os)) | None \<Rightarrow> get outcome ''response''),
           (''responses'', get outcome ''activities''), (''title'', get (get manifest ''workflow'') ''title'')]),
        (''tenant'', get manifest ''tenant'')])"

section \<open>Answering a single activity\<close>

definition complete_tables :: "string \<Rightarrow> assignment_row \<Rightarrow> int \<Rightarrow> engine_db \<Rightarrow> engine_db" where
  "complete_tables interactionId a completedAt db =
     (let db1 = close_session interactionId completedAt db in
      db1\<lparr>db_assignments := map (\<lambda>x. if pa_id x = pa_id a then x\<lparr>pa_status := ''completed'', pa_completedAt := Some completedAt\<rparr> else x) (db_assignments db1),
          db_requests := map (\<lambda>r. if rr_id r = pa_requestId a then r\<lparr>rr_status := ''completed'', rr_completedAt := Some completedAt\<rparr> else r) (db_requests db1)\<rparr>)"

definition anchor_record :: "engine_env \<Rightarrow> draws \<Rightarrow> actor \<Rightarrow> assignment_row \<Rightarrow> int \<Rightarrow> engine_db \<Rightarrow> engine_db res" where
  "anchor_record E D actor a completedAt db =
     bindE (anchorRecordLifecycle (en_runtime E) (en_hash E) actor (dr_uuid D ''lifecycle event'' 0)
       \<lparr>lc_assignmentId = pa_id a, lc_requestId = pa_requestId a, lc_tenantId = pa_tenantId a\<rparr> completedAt (db_lifecycle db)) (\<lambda>T.
     Inr (db\<lparr>db_lifecycle := T\<rparr>))"

definition open_interaction :: "engine_db \<Rightarrow> string \<Rightarrow> string \<Rightarrow> string \<Rightarrow> session_row res" where
  "open_interaction db interactionId assignmentId principalId =
     (case find (\<lambda>s. ss_id s = interactionId) (open_sessions db assignmentId principalId) of
        None \<Rightarrow> throw (STORE_ERROR 409) (Because ''interaction_unavailable'')
      | Some s \<Rightarrow> Inr s)"

definition single_manifest :: "actor \<Rightarrow> participation \<Rightarrow> string \<Rightarrow> js list \<Rightarrow> string \<Rightarrow> int \<Rightarrow> int \<Rightarrow> manifest_parts" where
  "single_manifest actor p manifestId events response startedAt completedAt =
     (let a = pn_assignment p; r = pn_request p; w = pn_revision p in
      \<lparr>mp_assignment = JObj [(''id'', JStr (pa_id a)), (''manifestId'', JStr manifestId), (''participantEmail'', opt_js JStr (ac_email actor)), (''principalId'', JStr (ac_principalId actor))],
       mp_completedAt = JStr (toISOString completedAt), mp_events = events, mp_issuedAt = JStr (toISOString (pa_issuedAt a)),
       mp_request = JObj [(''id'', JStr (rr_id r)), (''purpose'', JStr (rr_purpose r))], mp_requester = rr_requester r, mp_response = JStr response,
       mp_startedAt = JStr (toISOString startedAt), mp_tenant = tenantEvidenceProjection (pa_tenantId a) (pn_tenantName p) (rr_profile r),
       mp_workflow = JObj [(''content'', wr_content w), (''contentHash'', JStr (wr_contentHash w)), (''id'', JStr (wr_id w)),
         (''responseMode'', JStr (wr_responseMode w)), (''revision'', JInt (wr_revision w)), (''title'', JStr (wr_title w))]\<rparr>)"

definition single_response :: "draws \<Rightarrow> participation \<Rightarrow> string \<Rightarrow> string \<Rightarrow> js \<Rightarrow> string \<Rightarrow> single_response_row" where
  "single_response D p commandId interactionId clientContext response =
     \<lparr>pr_id = dr_uuid D ''response'' 0, pr_assignmentId = pa_id (pn_assignment p), pr_interactionId = interactionId, pr_commandId = commandId,
      pr_responseMode = wr_responseMode (pn_revision p), pr_responseValue = response, pr_respondedAt = dr_clock D ''completedAt'', pr_clientContext = clientContext\<rparr>"

definition responded_event :: "draws \<Rightarrow> participation \<Rightarrow> session_row \<Rightarrow> evaluation \<Rightarrow> js \<Rightarrow> string \<Rightarrow> event_input" where
  "responded_event D p session assurance clientContext response =
     (let a = pn_assignment p; completedAt = dr_clock D ''completedAt'' in
      \<lparr>ei_assignmentId = pa_id a, ei_eventType = ''participant.responded'',
       ei_payload = JObj [(''authenticationAssurance'', evaluation_js assurance), (''clientContext'', clientContext), (''interactionId'', JStr (ss_id session)),
         (''response'', JStr response), (''responseId'', JStr (dr_uuid D ''response'' 0)), (''serverDurationMilliseconds'', JInt (max 0 (completedAt - ss_startedAt session)))],
       ei_receivedAt = completedAt, ei_requestId = rr_id (pn_request p), ei_tenantId = pa_tenantId a\<rparr>)"

definition respond_single ::
  "engine_env \<Rightarrow> draws \<Rightarrow> actor \<Rightarrow> participation \<Rightarrow> string \<Rightarrow> string \<Rightarrow> js \<Rightarrow> js \<Rightarrow> engine_db \<Rightarrow> (js \<times> engine_db) res" where
  "respond_single E D actor p commandId interactionId clientContext payload db =
     (let a = pn_assignment p; completedAt = dr_clock D ''completedAt'' in
      bindE (validateParticipantResponse (wr_responseMode (pn_revision p)) (get payload ''response'')) (\<lambda>response.
      bindE (open_interaction db interactionId (pa_id a) (ac_principalId actor)) (\<lambda>session.
      bindE (requireAuthenticationAssurance (en_runtime E) (rr_accessPolicy (pn_request p)) (actorSnapshot actor) completedAt) (\<lambda>assurance.
      guardE (\<not> list_ex (\<lambda>x. pr_id x = dr_uuid D ''response'' 0 \<or> pr_assignmentId x = pa_id a \<or> pr_commandId x = commandId) (db_singleResponses db))
        (STORE_ERROR 409) (Because ''response_replayed'')
      (bindE (append_evidence E D ''event'' actor (responded_event D p session assurance clientContext response)
         (db\<lparr>db_singleResponses := db_singleResponses db @ [single_response D p commandId interactionId clientContext response]\<rparr>)) (\<lambda>db1.
       bindE (anchor_record E D actor a completedAt (complete_tables interactionId a completedAt db1)) (\<lambda>db2.
       let events = evidenceEvents (db_ledger db2) (pa_id a); manifestId = dr_uuid D ''manifest'' 0 in
       bindE (buildEvidenceManifest (single_manifest actor p manifestId events response (ss_startedAt session) completedAt)) (\<lambda>manifest.
       bindE (persistSeal E D a completedAt events manifest manifestId db2) (\<lambda>sealed.
       Inr (participantReceipt E (dr_clock D ''receipt'') None (fst sealed), snd sealed))))))))))"

section \<open>Answering an activity of a workflow\<close>

fun display_text :: "engine_env \<Rightarrow> display \<Rightarrow> string" where
  "display_text E (Text s) = s"
| "display_text E (Score earned possible percent passed) = en_scoreText E earned possible percent passed"

definition submission_js :: "engine_env \<Rightarrow> submission \<Rightarrow> js" where
  "submission_js E x = JObj [(''display'', JStr (display_text E (sb_display x))), (''outcome'', JStr (sb_outcome x)), (''result'', sb_result x), (''value'', sb_value x)]"

definition activity_ref :: "activity_instance \<Rightarrow> js" where
  "activity_ref x = JObj [(''definitionHash'', JStr (in_definitionHash x)), (''id'', JStr (in_activityId x)), (''ordinal'', JInt (int (in_ordinal x))),
     (''type'', JStr (activity_type (a_content (in_definition x))))]"

definition presented :: "engine_db \<Rightarrow> string \<Rightarrow> string \<Rightarrow> string \<Rightarrow> bool" where
  "presented db assignmentId instanceId principalId =
     list_ex (\<lambda>x. xs_assignmentId x = Some assignmentId \<and> xs_activityInstanceId x = Some instanceId \<and> xs_actorPrincipalId x = principalId \<and>
        xs_accessType x \<in> {''participant_presentation'', ''participant_download''}) (ws_accesses (db_workspace db))"

definition next_response_revision :: "engine_db \<Rightarrow> string \<Rightarrow> int" where
  "next_response_revision db instanceId = Max (insert 0 (rv_revision ` {v \<in> set (db_revisions db). rv_activityInstanceId v = instanceId})) + 1"

text \<open>The checked answer, with the media snapshots its completion stores.\<close>

definition checked_response ::
  "engine_env \<Rightarrow> draws \<Rightarrow> actor \<Rightarrow> participation \<Rightarrow> activity_instance \<Rightarrow> string \<Rightarrow> js \<Rightarrow> engine_db \<Rightarrow> ((submission \<times> evaluation) \<times> engine_db) res" where
  "checked_response E D actor p x intent payload db =
     (let a = pn_assignment p; completedAt = dr_clock D ''completedAt'' in
      bindE (validateActivityResponse (in_definition x) (get payload ''response'')) (\<lambda>response.
      guardE (\<not> (intent = ''submit'' \<and> activity_type (a_content (in_definition x)) = ''document_review'' \<and> \<not> presented db (pa_id a) (in_id x) (ac_principalId actor)))
        (STORE_ERROR 409) (Because ''document_not_presented'')
      (bindE (requireAuthenticationAssurance (en_runtime E) (rr_accessPolicy (pn_request p)) (actorSnapshot actor) completedAt) (\<lambda>assurance.
       if intent = ''submit''
       then bindE (assertMediaCompletion (en_hash E) (dr_uuid D ''snapshot'' 0) (pa_id a) (pa_requestId a) x (submission_of response) completedAt (db_telemetry db)
                    (ws_snapshots (db_workspace db))) (\<lambda>(submission, snapshots).
            Inr ((submission, assurance), db\<lparr>db_workspace := (db_workspace db)\<lparr>ws_snapshots := snapshots\<rparr>\<rparr>))
       else Inr ((submission_of response, assurance), db)))))"

definition insert_revision_row ::
  "engine_env \<Rightarrow> draws \<Rightarrow> actor \<Rightarrow> participation \<Rightarrow> activity_instance \<Rightarrow> string \<Rightarrow> string \<Rightarrow> string \<Rightarrow> js \<Rightarrow> submission \<Rightarrow> evaluation \<Rightarrow> engine_db \<Rightarrow>
     (int \<times> engine_db) res" where
  "insert_revision_row E D actor p x intent commandId interactionId clientContext response assurance db =
     (let a = pn_assignment p; revision = next_response_revision db (in_id x); i = dr_uuid D ''response revision'' 0; completedAt = dr_clock D ''completedAt'' in
      guardE (\<not> list_ex (\<lambda>v. rv_id v = i \<or> rv_commandId v = commandId) (db_revisions db)) (STORE_ERROR 409) (Because ''response_replayed'')
      (bindE (append_evidence E D ''event'' actor
        \<lparr>ei_assignmentId = pa_id a, ei_eventType = (if intent = ''save'' then ''activity.response.saved'' else ''activity.response.submitted''),
         ei_payload = JObj [(''authenticationAssurance'', evaluation_js assurance), (''activity'', activity_ref x), (''clientContext'', clientContext),
           (''interactionId'', JStr interactionId), (''response'', submission_js E response), (''responseRevision'', JInt revision), (''responseRevisionId'', JStr i)],
         ei_receivedAt = completedAt, ei_requestId = pa_requestId a, ei_tenantId = pa_tenantId a\<rparr>
        (db\<lparr>db_revisions := db_revisions db @ [\<lparr>rv_id = i, rv_assignmentId = pa_id a, rv_activityInstanceId = in_id x, rv_interactionId = interactionId,
           rv_revision = revision, rv_commandId = commandId, rv_state = (if intent = ''save'' then ''saved'' else ''submitted''), rv_value = sb_value response,
           rv_label = display_text E (sb_display response), rv_outcome = sb_outcome response, rv_result = js_or (sb_result response) JNull,
           rv_clientContext = clientContext, rv_recordedAt = completedAt\<rparr>]\<rparr>)) (\<lambda>db'.
       Inr (revision, db'))))"

definition finish_instance :: "string \<Rightarrow> string \<Rightarrow> int \<Rightarrow> activity_instance \<Rightarrow> activity_instance" where
  "finish_instance i status t x = (if in_id x = i then x\<lparr>in_status := status, in_completedAt := Some t\<rparr> else x)"

definition skip_pending :: "string \<Rightarrow> (nat \<Rightarrow> bool) \<Rightarrow> int \<Rightarrow> activity_instance \<Rightarrow> activity_instance" where
  "skip_pending assignmentId before t x =
     (if in_assignmentId x = assignmentId \<and> in_status x = ''pending'' \<and> before (in_ordinal x) then x\<lparr>in_status := ''skipped'', in_completedAt := Some t\<rparr> else x)"

definition activates :: "string \<Rightarrow> string \<Rightarrow> activity_instance \<Rightarrow> bool" where
  "activates assignmentId activityId x \<longleftrightarrow> in_assignmentId x = assignmentId \<and> in_activityId x = activityId \<and> in_status x = ''pending''"

definition activate :: "string \<Rightarrow> string \<Rightarrow> int \<Rightarrow> activity_instance \<Rightarrow> activity_instance" where
  "activate assignmentId activityId t x = (if activates assignmentId activityId x then x\<lparr>in_status := ''available'', in_availableAt := Some t\<rparr> else x)"

text \<open>
  The instances after a submission: the current one is completed, pending ones before the target are
  skipped, the target becomes available; without a target all that is pending is skipped.
\<close>

definition route_instances ::
  "activity list \<Rightarrow> string \<Rightarrow> destination \<Rightarrow> string \<Rightarrow> int \<Rightarrow> activity_instance list \<Rightarrow> (activity_instance option \<times> activity_instance list) res" where
  "route_instances activities assignmentId nextId currentInstance t I =
     (let I1 = map (finish_instance currentInstance ''completed'' t) I in
      case nextId of
        None \<Rightarrow> Inr (None, map (skip_pending assignmentId (\<lambda>_. True) t) I1)
      | Some activityId \<Rightarrow>
          let target = (case index_of activityId activities of Some j \<Rightarrow> int j | None \<Rightarrow> -1);
              I2 = map (skip_pending assignmentId (\<lambda>n. int n < target) t) I1 in
          (case find (activates assignmentId activityId) I2 of
             None \<Rightarrow> throw (STORE_ERROR 409) (Because ''activity_state_conflict'')
           | Some x \<Rightarrow> Inr (Some (activate assignmentId activityId t x), map (activate assignmentId activityId t) I2)))"

definition response_row ::
  "draws \<Rightarrow> engine_env \<Rightarrow> participation \<Rightarrow> activity_instance \<Rightarrow> string \<Rightarrow> string \<Rightarrow> js \<Rightarrow> submission \<Rightarrow> activity_response_row" where
  "response_row D E p x commandId interactionId clientContext response =
     \<lparr>an_id = dr_uuid D ''response'' 0, an_assignmentId = pa_id (pn_assignment p), an_activityInstanceId = in_id x, an_interactionId = interactionId,
      an_commandId = commandId, an_value = sb_value response, an_responseRevisionId = dr_uuid D ''response revision'' 0,
      an_label = display_text E (sb_display response), an_outcome = sb_outcome response, an_result = js_or (sb_result response) JNull,
      an_clientContext = clientContext, an_respondedAt = dr_clock D ''completedAt''\<rparr>"

definition insert_response_row :: "activity_response_row \<Rightarrow> engine_db \<Rightarrow> engine_db res" where
  "insert_response_row n db =
     guardE (\<not> list_ex (\<lambda>v. an_id v = an_id n \<or> an_commandId v = an_commandId n \<or> an_activityInstanceId v = an_activityInstanceId n) (db_responses db))
       (STORE_ERROR 409) (Because ''response_replayed'') (Inr (db\<lparr>db_responses := db_responses db @ [n]\<rparr>))"

definition completed_event :: "engine_env \<Rightarrow> draws \<Rightarrow> participation \<Rightarrow> activity_instance \<Rightarrow> string \<Rightarrow> js \<Rightarrow> submission \<Rightarrow> int \<Rightarrow> destination \<Rightarrow> event_input" where
  "completed_event E D p x interactionId clientContext response revision nextId =
     (let a = pn_assignment p; completedAt = dr_clock D ''completedAt'' in
      \<lparr>ei_assignmentId = pa_id a, ei_eventType = ''activity.completed'',
       ei_payload = JObj [(''activity'', activity_ref x), (''clientContext'', clientContext), (''interactionId'', JStr interactionId),
         (''nextActivityId'', destination_js nextId), (''response'', submission_js E response), (''responseId'', JStr (dr_uuid D ''response'' 0)),
         (''responseRevision'', JInt revision), (''responseRevisionId'', JStr (dr_uuid D ''response revision'' 0)),
         (''serverDurationMilliseconds'', JInt (max 0 (completedAt - (case in_openedAt x of Some t \<Rightarrow> t | None \<Rightarrow> 0))))],
       ei_receivedAt = completedAt, ei_requestId = pa_requestId a, ei_tenantId = pa_tenantId a\<rparr>)"

text \<open>The answer that completes the activity: its row, the new states, and the event that names the next activity.\<close>

definition complete_activity ::
  "engine_env \<Rightarrow> draws \<Rightarrow> actor \<Rightarrow> participation \<Rightarrow> published_workflow \<Rightarrow> activity_instance \<Rightarrow> string \<Rightarrow> string \<Rightarrow> js \<Rightarrow> submission \<Rightarrow> int \<Rightarrow> engine_db \<Rightarrow>
     (activity_instance option \<times> engine_db) res" where
  "complete_activity E D actor p w x commandId interactionId clientContext response revision db =
     (let activities = wd_activities (pd_document w) in
      bindE (insert_response_row (response_row D E p x commandId interactionId clientContext response) db) (\<lambda>db1.
      bindE (evaluateNextActivity activities (in_activityId x) (JObj [(''outcome'', JStr (sb_outcome response))])) (\<lambda>nextId.
      bindE (route_instances activities (pa_id (pn_assignment p)) nextId (in_id x) (dr_clock D ''completedAt'') (db_instances db1)) (\<lambda>routed.
      bindE (append_evidence E D ''completed event'' actor (completed_event E D p x interactionId clientContext response revision nextId)
        (db1\<lparr>db_instances := snd routed\<rparr>)) (\<lambda>db2.
      Inr (fst routed, db2))))))"

section \<open>The manifest of a workflow\<close>

definition authenticationAssuranceEvidence :: "js \<Rightarrow> js list \<Rightarrow> js res" where
  "authenticationAssuranceEvidence accessPolicy events =
     bindE (authenticationAssurancePolicy accessPolicy) (\<lambda>policy.
     Inr (JObj [(''evaluations'', JArr (map (\<lambda>e. JObj [(''evaluation'', get (get (get e ''eventData'') ''payload'') ''authenticationAssurance''),
          (''eventId'', get (get e ''eventData'') ''eventId''), (''eventType'', get (get e ''eventData'') ''eventType'')])
        (filter (\<lambda>e. truthy (get (get (get e ''eventData'') ''payload'') ''authenticationAssurance'')) events))),
      (''policy'', auth_policy_js policy), (''schema'', JStr ''vasi-authentication-assurance-evidence/v1'')]))"

definition revision_evidence :: "engine_env \<Rightarrow> response_revision_row \<Rightarrow> js" where
  "revision_evidence E v = JObj [(''id'', JStr (rv_id v)), (''revision'', JInt (rv_revision v)), (''state'', JStr (rv_state v)), (''response'', rv_value v),
     (''responseLabel'', JStr (rv_label v)), (''outcome'', JStr (rv_outcome v)), (''result'', rv_result v), (''recordedAt'', JStr (en_timestamp E (rv_recordedAt v)))]"

definition response_evidence :: "engine_env \<Rightarrow> engine_db \<Rightarrow> activity_instance \<times> activity_response_row \<Rightarrow> js" where
  "response_evidence E db = (\<lambda>(x, n). JObj [(''activityId'', JStr (in_activityId x)), (''definitionHash'', JStr (in_definitionHash x)),
     (''ordinal'', JInt (int (in_ordinal x))), (''respondedAt'', JStr (toISOString (an_respondedAt n))), (''response'', an_value n),
     (''responseLabel'', JStr (an_label n)), (''outcome'', JStr (an_outcome n)), (''result'', an_result n),
     (''revisions'', JArr (map (revision_evidence E) (sort_key rv_revision (filter (\<lambda>v. rv_activityInstanceId v = in_id x) (db_revisions db)))))])"

definition assignment_responses :: "engine_db \<Rightarrow> string \<Rightarrow> (activity_instance \<times> activity_response_row) list" where
  "assignment_responses db assignmentId =
     sort_key (\<lambda>(x, n). in_ordinal x) (joined (db_instances db) an_activityInstanceId (filter (\<lambda>n. an_assignmentId n = assignmentId) (db_responses db)))"

definition buildWorkflowManifest ::
  "engine_env \<Rightarrow> actor \<Rightarrow> participation \<Rightarrow> published_workflow \<Rightarrow> string \<Rightarrow> int \<Rightarrow> session_row \<Rightarrow> delivery_evidence \<Rightarrow> engine_db \<Rightarrow> js res" where
  "buildWorkflowManifest E actor p w manifestId completedAt session delivery db =
     (let a = pn_assignment p; r = pn_request p; v = pn_revision p; events = evidenceEvents (db_ledger db) (pa_id a);
          admission = requestAdmissionEvidenceProjection (rr_admission r) in
      bindE (authenticationAssuranceEvidence (rr_accessPolicy r) events) (\<lambda>assurance.
      guardE (events \<noteq> []) TYPE_ERROR (Because ''sequence'')
      (Inr (JObj ((if truthy admission then [(''admission'', admission)] else []) @
        [(''activityInteraction'', loadActivityInteractionEvidence (db_instances db) (db_telemetry db) (pa_id a)), (''authenticationAssurance'', assurance),
         (''assignment'', JObj [(''id'', JStr (pa_id a)), (''participantEmail'', opt_js JStr (ac_email actor)), (''principalId'', JStr (ac_principalId actor))]),
         (''evidence'', manifest_evidence events), (''manifestId'', JStr manifestId),
         (''media'', loadMediaEvidence (db_workspace db) (db_instances db) (db_telemetry db) (wr_id v) (pa_id a)), (''notificationDelivery'', delivery_js delivery),
         (''participantContext'', loadParticipantContextEvidence (db_instances db) (db_telemetry db) (pa_id a) (context_policy_js (en_contextPolicy E))),
         (''outcome'', JObj [(''activities'', JArr (map (response_evidence E db) (assignment_responses db (pa_id a)))), (''status'', JStr ''completed'')]),
         (''request'', JObj [(''accessPolicy'', rr_accessPolicy r), (''dueAt'', opt_js (\<lambda>t. JStr (toISOString t)) (rr_dueAt r)),
            (''expiresAt'', JStr (toISOString (rr_expiresAt r))), (''id'', JStr (rr_id r)), (''purpose'', JStr (rr_purpose r)),
            (''scheduledFor'', opt_js (\<lambda>t. JStr (toISOString t)) (rr_scheduledFor r))]),
         (''requester'', rr_requester r), (''schema'', JStr (if truthy admission then ''vasi-evidence-manifest/v10'' else ''vasi-evidence-manifest/v8'')),
         (''tenant'', tenantEvidenceProjection (pa_tenantId a) (pn_tenantName p) (rr_profile r)),
         (''timestamps'', JObj [(''completedAt'', JStr (toISOString completedAt)), (''issuedAt'', JStr (toISOString (pa_issuedAt a))),
            (''startedAt'', JStr (toISOString (ss_startedAt session)))]),
         (''workflow'', JObj [(''definitionId'', opt_js JStr (wr_definitionId v)), (''id'', JStr (wr_id v)), (''revision'', JInt (wr_revision v)),
            (''snapshot'', published_js w), (''snapshotHash'', opt_js JStr (wr_snapshotHash v)), (''title'', JStr (wr_title v))])])))))"

definition request_delivery :: "engine_db \<Rightarrow> string \<Rightarrow> string \<Rightarrow> int \<Rightarrow> delivery_evidence res" where
  "request_delivery db tenantId requestId capturedAt =
     loadNotificationDeliveryEvidence (map outbox_row.truncate (filter (\<lambda>j. jr_tenantId j = Some tenantId) (request_jobs db requestId))) (db_attempts db) capturedAt"

section \<open>Finishing the workflow\<close>

definition completion_notice :: "engine_env \<Rightarrow> draws \<Rightarrow> actor \<Rightarrow> participation \<Rightarrow> engine_db \<Rightarrow> engine_db res" where
  "completion_notice E D actor p db =
     (let a = pn_assignment p; r = pn_request p;
          name = (case rr_profile r of None \<Rightarrow> JUndef | Some b \<Rightarrow> get (get (bp_snapshot b) ''branding'') ''displayName'') in
      if truthy (get (rr_notificationPolicy r) ''onCompletion'')
      then queueNotification E D ''completion'' 0
        \<lparr>nt_availableAt = dr_clock D ''completedAt'', nt_idempotencyKey = rr_id r @ '':completed'',
         nt_payload = JObj [(''eventType'', JStr ''request.completed''), (''recipient'', opt_js JStr (ac_email actor)), (''requestId'', JStr (rr_id r)),
           (''tenant'', JObj [(''id'', JStr (pa_tenantId a)), (''name'', js_or name (JStr (pn_tenantName p)))]), (''title'', JStr (wr_title (pn_revision p)))],
         nt_requestId = rr_id r, nt_tenantId = pa_tenantId a\<rparr> db
      else Inr db)"

definition finish_assignment ::
  "engine_env \<Rightarrow> draws \<Rightarrow> actor \<Rightarrow> participation \<Rightarrow> published_workflow \<Rightarrow> session_row \<Rightarrow> engine_db \<Rightarrow> (js \<times> engine_db) res" where
  "finish_assignment E D actor p w session db =
     (let a = pn_assignment p; completedAt = dr_clock D ''completedAt''; manifestId = dr_uuid D ''manifest'' 0 in
      bindE (anchor_record E D actor a completedAt
        (suppressPendingRequestNotifications ''request_completed'' (pa_requestId a) completedAt (complete_tables (ss_id session) a completedAt db))) (\<lambda>db1.
      bindE (request_delivery db1 (pa_tenantId a) (pa_requestId a) completedAt) (\<lambda>delivery.
      bindE (buildWorkflowManifest E actor p w manifestId completedAt session delivery db1) (\<lambda>manifest.
      bindE (persistSeal E D a completedAt (evidenceEvents (db_ledger db1) (pa_id a)) manifest manifestId db1) (\<lambda>(record, db2).
      bindE (completion_notice E D actor p db2) (\<lambda>db3.
      Inr (participantReceipt E (dr_clock D ''receipt'') (Some w) record, db3)))))))"

datatype reply_kind = Saved | Advanced | Finished

definition assignment_reply :: "reply_kind \<Rightarrow> js \<Rightarrow> js" where
  "assignment_reply k view =
     (case k of
        Saved \<Rightarrow> JObj [(''assignment'', view), (''completed'', JBool False), (''saved'', JBool True)]
      | Advanced \<Rightarrow> JObj [(''assignment'', view), (''completed'', JBool False)]
      | Finished \<Rightarrow> view)"

definition intent_of :: "js \<Rightarrow> string res" where
  "intent_of payload =
     (case as_str (coalesce (get payload ''intent'') (JStr ''submit'')) of
        None \<Rightarrow> throw (STORE_ERROR 400) (Because ''invalid_response_intent'')
      | Some i \<Rightarrow> guardE (i \<in> {''save'', ''submit''}) (STORE_ERROR 400) (Because ''invalid_response_intent'') (Inr i))"

text \<open>What comes after a recorded submission: the next activity, or the sealed record.\<close>

definition after_submission ::
  "engine_env \<Rightarrow> draws \<Rightarrow> actor \<Rightarrow> participation \<Rightarrow> published_workflow \<Rightarrow> session_row \<Rightarrow> activity_instance option \<Rightarrow> engine_db \<Rightarrow> ((reply_kind \<times> js) \<times> engine_db) res" where
  "after_submission E D actor p w session nextActivity db =
     (case nextActivity of
        Some y \<Rightarrow>
          bindE (workflowParticipantProjection E p w (ss_id session, ss_startedAt session)
            \<lparr>cu_instance = y, cu_savedResponse = JUndef, cu_savedLabel = JUndef, cu_mediaSummary = JUndef, cu_interactionSummary = JUndef\<rparr>) (\<lambda>view.
          Inr ((Advanced, view), db))
      | None \<Rightarrow> bindE (finish_assignment E D actor p w session db) (\<lambda>(receipt, db'). Inr ((Finished, receipt), db')))"

definition respondToWorkflowActivity ::
  "engine_env \<Rightarrow> draws \<Rightarrow> actor \<Rightarrow> participation \<Rightarrow> published_workflow \<Rightarrow> string \<Rightarrow> string \<Rightarrow> js \<Rightarrow> js \<Rightarrow> engine_db \<Rightarrow> ((reply_kind \<times> js) \<times> engine_db) res" where
  "respondToWorkflowActivity E D actor p w commandId interactionId clientContext payload db =
     (let a = pn_assignment p in
      bindE (open_interaction db interactionId (pa_id a) (ac_principalId actor)) (\<lambda>session.
      bindE (currentActivity db (pa_id a) (dr_clock D ''current'')) (\<lambda>(c, db1).
      let x = cu_instance c in
      guardE (\<not> (truthy (get payload ''activityId'') \<and> get payload ''activityId'' \<noteq> JStr (in_activityId x))) (STORE_ERROR 409) (Because ''activity_state_conflict'')
      (bindE (intent_of payload) (\<lambda>intent.
       bindE (checked_response E D actor p x intent payload db1) (\<lambda>((response, assurance), db2).
       bindE (insert_revision_row E D actor p x intent commandId interactionId clientContext response assurance db2) (\<lambda>(revision, db3).
       if intent = ''save''
       then bindE (workflowParticipantProjection E p w (ss_id session, ss_startedAt session)
              (c\<lparr>cu_savedResponse := sb_value response, cu_savedLabel := JStr (display_text E (sb_display response))\<rparr>)) (\<lambda>view. Inr ((Saved, view), db3))
       else bindE (complete_activity E D actor p w x commandId interactionId clientContext response revision db3) (\<lambda>(nextActivity, db4).
            after_submission E D actor p w session nextActivity db4))))))))"

definition respond :: "engine_env \<Rightarrow> draws \<Rightarrow> actor \<Rightarrow> js \<Rightarrow> engine_db \<Rightarrow> (js \<times> engine_db) res" where
  "respond E D actor payload db =
     bindE (requireParticipant actor) (\<lambda>_.
     bindE (digestHandle E (get payload ''handle'')) (\<lambda>digest.
     bindE (boundedToken (get payload ''commandId'') ''commandId'' 128) (\<lambda>commandId.
     bindE (boundedToken (get payload ''interactionId'') ''interactionId'' 128) (\<lambda>interactionId.
     bindE (sanitizeClientContext (get payload ''clientContext'')) (\<lambda>clientContext.
     bindE (assignmentForHandle db digest) (\<lambda>p.
     let a = pn_assignment p; r = pn_request p; now = dr_clock D ''now'' in
     bindE (authorizeParticipant a actor) (\<lambda>_.
     bindE (assertAssignmentAvailable a r now) (\<lambda>_.
     guardE (pa_status a \<noteq> ''completed'') (STORE_ERROR 409) (Because ''response_replayed'')
     (bindE (requireAuthenticationAssurance (en_runtime E) (rr_accessPolicy r) (actorSnapshot actor) now) (\<lambda>_.
      case wr_snapshot (pn_revision p) of
        Some w \<Rightarrow> bindE (respondToWorkflowActivity E D actor p w commandId interactionId clientContext payload db) (\<lambda>((k, view), db'). Inr (assignment_reply k view, db'))
      | None \<Rightarrow> respond_single E D actor p commandId interactionId clientContext payload db))))))))))"

end
