(* ===== verification/Positions.thy ===== *)
theory Positions
  imports Participation
begin

text \<open>
  Where a participant stands in a workflow, read off the activity rows of the assignment, and what
  issuing, opening and routing do to it.
\<close>

section \<open>The rows of an assignment\<close>

definition rows_of :: "string \<Rightarrow> activity_instance list \<Rightarrow> activity_instance list" where
  "rows_of a I = filter (\<lambda>x. in_assignmentId x = a) I"

lemma set_rows_of [simp]: "set (rows_of a I) = {x \<in> set I. in_assignmentId x = a}"
  by (simp add: rows_of_def)

lemma rows_of_append [simp]: "rows_of a (I @ J) = rows_of a I @ rows_of a J"
  by (simp add: rows_of_def)

lemma rows_of_Nil: "\<forall>x \<in> set I. in_assignmentId x \<noteq> a \<Longrightarrow> rows_of a I = []"
  by (simp add: rows_of_def)

definition stage_row :: "nat \<Rightarrow> activity_instance \<Rightarrow> bool" where
  "stage_row k x \<longleftrightarrow>
     (if in_ordinal x < k then in_status x = ''completed'' \<or> in_status x = ''skipped''
      else if in_ordinal x = k then in_status x = ''available'' else in_status x = ''pending'')"

text \<open>
  The assignment is at activity \<open>k\<close>: one row per activity in the order of the workflow, those before
  \<open>k\<close> done or skipped, \<open>k\<close> available, the rest pending; at the number of activities it is through.
\<close>

definition on_path :: "activity list \<Rightarrow> string \<Rightarrow> activity_instance list \<Rightarrow> nat \<Rightarrow> bool" where
  "on_path acts a I k \<longleftrightarrow> map in_activityId (rows_of a I) = map a_id acts \<and> map in_ordinal (rows_of a I) = [0..<length acts] \<and>
     map in_definition (rows_of a I) = acts \<and> (\<forall>x \<in> set (rows_of a I). stage_row k x)"

lemma on_path_row:
  assumes "on_path acts a I k" "x \<in> set I" "in_assignmentId x = a"
  shows "in_ordinal x < length acts" "in_activityId x = a_id (acts ! in_ordinal x)" "in_definition x = acts ! in_ordinal x"
    "rows_of a I ! in_ordinal x = x" "stage_row k x"
proof -
  have m: "x \<in> set (rows_of a I)" using assms by simp
  then obtain i where i: "i < length (rows_of a I)" "rows_of a I ! i = x" by (metis in_set_conv_nth)
  have len: "length (rows_of a I) = length acts" using assms(1) unfolding on_path_def by (metis length_map)
  have o: "in_ordinal x = i" using assms(1) i len unfolding on_path_def by (metis nth_map nth_upt add_0 diff_zero)
  show "in_ordinal x < length acts" using i(1) len o by simp
  show "in_activityId x = a_id (acts ! in_ordinal x)" using assms(1) i len o unfolding on_path_def by (metis nth_map)
  show "in_definition x = acts ! in_ordinal x" using assms(1) i o unfolding on_path_def by (metis nth_map)
  show "rows_of a I ! in_ordinal x = x" using i o by simp
  show "stage_row k x" using assms(1) m unfolding on_path_def by blast
qed

lemma on_path_length: "on_path acts a I k \<Longrightarrow> length (rows_of a I) = length acts"
  unfolding on_path_def by (metis length_map)

lemma on_path_nth:
  assumes "on_path acts a I k" "i < length acts"
  shows "rows_of a I ! i \<in> set I" "in_assignmentId (rows_of a I ! i) = a" "in_ordinal (rows_of a I ! i) = i"
proof -
  have "rows_of a I ! i \<in> set (rows_of a I)" by (rule nth_mem) (use on_path_length[OF assms(1)] assms(2) in simp)
  then show "rows_of a I ! i \<in> set I" "in_assignmentId (rows_of a I ! i) = a" by simp_all
  have "map in_ordinal (rows_of a I) ! i = i" using assms by (simp add: on_path_def)
  then show "in_ordinal (rows_of a I ! i) = i" using on_path_length[OF assms(1)] assms(2) by (simp only: nth_map)
qed

lemma find_hit: "P x \<Longrightarrow> x \<in> set xs \<Longrightarrow> \<exists>z. find P xs = Some z"
  by (induction xs) auto

lemma set_singleton_list: "distinct xs \<Longrightarrow> set xs = {x} \<Longrightarrow> xs = [x]"
  by (cases xs; cases "tl xs") auto

lemma on_path_available:
  assumes "on_path acts a I k"
  shows "available_instance I a = (if k < length acts then Some (rows_of a I ! k) else None)"
proof -
  let ?F = "filter (\<lambda>x. in_assignmentId x = a \<and> in_status x = ''available'') I"
  have st: "in_status x = ''available'' \<longleftrightarrow> in_ordinal x = k" if "x \<in> set I" "in_assignmentId x = a" for x
    using on_path_row(5)[OF assms that] by (auto simp: stage_row_def split: if_splits)
  have "distinct (map in_ordinal (rows_of a I))" using assms by (simp add: on_path_def)
  then have "distinct (rows_of a I)" by (simp add: distinct_map)
  then have "distinct (filter (\<lambda>x. in_status x = ''available'') (rows_of a I))" by (rule distinct_filter)
  moreover have "?F = filter (\<lambda>x. in_status x = ''available'') (rows_of a I)"
    unfolding rows_of_def filter_filter by (rule filter_cong) auto
  ultimately have dis: "distinct ?F" by simp
  show ?thesis
  proof (cases "k < length acts")
    case True
    have "set ?F = {rows_of a I ! k}"
    proof (intro set_eqI iffI)
      fix x assume "x \<in> set ?F"
      then have x: "x \<in> set I" "in_assignmentId x = a" "in_ordinal x = k" using st by auto
      from on_path_row(4)[OF assms x(1,2)] x(3) show "x \<in> {rows_of a I ! k}" by simp
    next
      fix x assume "x \<in> {rows_of a I ! k}"
      then show "x \<in> set ?F" using on_path_nth[OF assms True] st by simp
    qed
    from set_singleton_list[OF dis this] True show ?thesis by (simp add: available_instance_def)
  next
    case False
    have "set ?F = {}"
    proof (rule equals0I)
      fix x assume "x \<in> set ?F"
      then have x: "x \<in> set I" "in_assignmentId x = a" "in_ordinal x = k" using st by auto
      from on_path_row(1)[OF assms x(1,2)] x(3) False show False by simp
    qed
    then have "?F = []" by (simp only: set_empty)
    then show ?thesis using False by (simp only: available_instance_def) simp
  qed
qed

section \<open>Updates of rows\<close>

text \<open>An update of rows that keeps their identity, and what such an update of statuses does to a position.\<close>

definition row_update :: "(activity_instance \<Rightarrow> activity_instance) \<Rightarrow> bool" where
  "row_update f \<longleftrightarrow> (\<forall>x. in_id (f x) = in_id x \<and> in_assignmentId (f x) = in_assignmentId x \<and> in_activityId (f x) = in_activityId x \<and>
     in_ordinal (f x) = in_ordinal x \<and> in_definition (f x) = in_definition x)"

lemma row_updateI [intro]:
  "row_update (open_instance i t)" "row_update (finish_instance i s t)" "row_update (skip_pending a P t)" "row_update (activate a d t)"
  by (simp_all add: row_update_def open_instance_def finish_instance_def skip_pending_def activate_def)

lemma row_update_comp: "row_update f \<Longrightarrow> row_update g \<Longrightarrow> row_update (f \<circ> g)"
  by (simp add: row_update_def)

lemma row_update_ids: "row_update f \<Longrightarrow> map in_id (map f I) = map in_id I"
  by (simp add: row_update_def)

lemma rows_of_map: "row_update f \<Longrightarrow> rows_of a (map f I) = map f (rows_of a I)"
  by (simp add: rows_of_def row_update_def filter_map o_def)

lemma on_path_update:
  assumes "row_update f" "on_path acts a I k" "\<And>x. x \<in> set I \<Longrightarrow> in_assignmentId x = a \<Longrightarrow> stage_row k x \<Longrightarrow> stage_row j (f x)"
  shows "on_path acts a (map f I) j"
proof -
  have f: "in_activityId \<circ> f = in_activityId" "in_ordinal \<circ> f = in_ordinal" "in_definition \<circ> f = in_definition"
    using assms(1) by (auto simp: row_update_def)
  show ?thesis using assms(2,3) unfolding on_path_def rows_of_map[OF assms(1)] list.map_comp f by auto
qed

lemma on_path_open: "on_path acts a I k \<Longrightarrow> on_path acts a (map (open_instance i t) I) k"
  by (rule on_path_update) (auto simp: open_instance_def stage_row_def)

text \<open>An update that leaves the rows of another assignment alone leaves its position alone.\<close>

lemma on_path_frame:
  assumes "on_path acts a I k" "\<And>x. x \<in> set I \<Longrightarrow> in_assignmentId x = a \<Longrightarrow> f x = x" "row_update f"
  shows "on_path acts a (map f I) k"
  by (rule on_path_update[OF assms(3,1)]) (simp add: assms(2))

section \<open>Routing\<close>

lemma on_path_same_row:
  assumes "on_path acts a I k" "distinct (map in_id I)" "i < length acts" "x \<in> set I"
  shows "in_id x = in_id (rows_of a I ! i) \<longleftrightarrow> in_assignmentId x = a \<and> in_ordinal x = i"
proof
  assume "in_id x = in_id (rows_of a I ! i)"
  then have "x = rows_of a I ! i" using on_path_nth(1)[OF assms(1,3)] assms(2,4) by (meson distinct_map inj_onD)
  then show "in_assignmentId x = a \<and> in_ordinal x = i" using on_path_nth[OF assms(1,3)] by simp
next
  assume "in_assignmentId x = a \<and> in_ordinal x = i"
  then show "in_id x = in_id (rows_of a I ! i)" using on_path_row(4)[OF assms(1,4)] by simp
qed

lemma on_path_activity:
  assumes "on_path acts a I k" "distinct (map a_id acts)" "index_of d acts = Some j" "x \<in> set I" "in_assignmentId x = a"
  shows "in_activityId x = d \<longleftrightarrow> in_ordinal x = j"
  using on_path_row(1,2)[OF assms(1,4,5)] index_of_Some[OF assms(3)] assms(2) by (metis nth_eq_iff_index_eq length_map nth_map)

lemma route_ends:
  assumes "on_path acts a I k" "k < length acts" "distinct (map in_id I)"
  shows "\<exists>I'. route_instances acts a None (in_id (rows_of a I ! k)) t I = Inr (None, I') \<and> on_path acts a I' (length acts)"
proof -
  let ?f = "skip_pending a (\<lambda>_. True) t \<circ> finish_instance (in_id (rows_of a I ! k)) ''completed'' t"
  have "on_path acts a (map ?f I) (length acts)"
  proof (rule on_path_update[OF row_update_comp[OF row_updateI(3,2)] assms(1)])
    fix x assume x: "x \<in> set I" "in_assignmentId x = a" "stage_row k x"
    have "in_id x = in_id (rows_of a I ! k) \<longleftrightarrow> in_ordinal x = k" using on_path_same_row[OF assms(1,3,2) x(1)] x(2) by simp
    with on_path_row(1)[OF assms(1) x(1,2)] x(2,3)
    show "stage_row (length acts) (?f x)" by (auto simp: stage_row_def skip_pending_def finish_instance_def split: if_splits)
  qed
  then show ?thesis by (simp add: route_instances_def Let_def)
qed

lemma route_advances:
  assumes p: "on_path acts a I k" "k < length acts" "distinct (map in_id I)" and d: "distinct (map a_id acts)" "index_of d acts = Some j" "k < j"
  shows "\<exists>y I'. route_instances acts a (Some d) (in_id (rows_of a I ! k)) t I = Inr (Some y, I') \<and> on_path acts a I' j \<and>
    y \<in> set I' \<and> in_ordinal y = j \<and> in_assignmentId y = a"
proof -
  let ?g = "skip_pending a (\<lambda>n. int n < int j) t \<circ> finish_instance (in_id (rows_of a I ! k)) ''completed'' t"
  let ?I = "map ?g I"
  have g: "row_update ?g" by (rule row_update_comp) auto
  have j: "j < length acts" using index_of_Some[OF d(2)] by simp
  have row: "in_activityId x = d \<longleftrightarrow> in_ordinal x = j" if "x \<in> set I" "in_assignmentId x = a" for x
    by (rule on_path_activity[OF p(1) d(1,2) that])
  have same: "in_id x = in_id (rows_of a I ! k) \<longleftrightarrow> in_assignmentId x = a \<and> in_ordinal x = k" if "x \<in> set I" for x
    by (rule on_path_same_row[OF p(1,3,2) that])
  have hit: "activates a d (?g x) \<longleftrightarrow> in_assignmentId x = a \<and> in_ordinal x = j" if x: "x \<in> set I" for x
  proof (cases "in_assignmentId x = a")
    case True
    have "stage_row k x" by (rule on_path_row(5)[OF p(1) x True])
    with True row[OF x True] same[OF x] d(3) show ?thesis
      by (auto simp: activates_def skip_pending_def finish_instance_def stage_row_def split: if_splits)
  next
    case False
    then show ?thesis using g by (simp add: activates_def row_update_def del: o_apply)
  qed
  let ?y = "rows_of a I ! j"
  note y = on_path_nth[OF p(1) j]
  have "activates a d (?g ?y)" by (rule iffD2[OF hit[OF y(1)]]) (rule conjI[OF y(2,3)])
  from find_hit[of "activates a d" "?g ?y" ?I, OF this] y(1) obtain z where z: "find (activates a d) ?I = Some z" unfolding set_map by blast
  from findD[OF this] have z': "activates a d z" "z \<in> set ?I" by simp_all
  from z'(2) obtain x where x: "x \<in> set I" "z = ?g x" unfolding set_map by blast
  let ?f = "activate a d t \<circ> ?g"
  have "on_path acts a (map ?f I) j"
  proof (rule on_path_update[OF row_update_comp[OF row_updateI(4) g] p(1)])
    fix x assume x: "x \<in> set I" "in_assignmentId x = a" "stage_row k x"
    have "activates a d (?g x) \<longleftrightarrow> in_ordinal x = j" using hit[OF x(1)] x(2) by simp
    with same[OF x(1)] x(2,3) d(3) show "stage_row j (?f x)"
      by (auto simp: activate_def stage_row_def skip_pending_def finish_instance_def split: if_splits)
  qed
  moreover have "route_instances acts a (Some d) (in_id (rows_of a I ! k)) t I = Inr (Some (activate a d t z), map ?f I)"
    using z d(2) by (simp add: route_instances_def Let_def)
  moreover have "activate a d t z \<in> set (map ?f I)" using x by simp
  moreover have "in_ordinal z = j" "in_assignmentId z = a"
    using hit[OF x(1)] z'(1) x(2) g by (simp_all add: row_update_def del: o_apply)
  then have "in_ordinal (activate a d t z) = j" "in_assignmentId (activate a d t z) = a" by (simp_all add: activate_def)
  ultimately show ?thesis by blast
qed

text \<open>Routing writes only rows of its assignment, the current instance included.\<close>

lemma route_update:
  assumes "route_instances acts a d i t I = Inr (y, I')"
  obtains f where "row_update f" "I' = map f I" "\<And>x. in_assignmentId x \<noteq> a \<Longrightarrow> in_id x \<noteq> i \<Longrightarrow> f x = x"
proof (cases d)
  case None
  show ?thesis
    by (rule that[of "skip_pending a (\<lambda>_. True) t \<circ> finish_instance i ''completed'' t"])
      (use assms None in \<open>auto simp: route_instances_def Let_def skip_pending_def finish_instance_def intro!: row_update_comp\<close>)
next
  case (Some e)
  show ?thesis
    by (rule that[of "activate a e t \<circ> (skip_pending a (\<lambda>n. int n < (case index_of e acts of Some j \<Rightarrow> int j | None \<Rightarrow> -1)) t \<circ> finish_instance i ''completed'' t)"])
      (use assms Some in \<open>auto simp: route_instances_def Let_def skip_pending_def finish_instance_def activate_def activates_def
        intro!: row_update_comp split: option.splits\<close>)
qed

section \<open>Issue\<close>

lemma issue_instances_rows:
  assumes "issue_instances E D a t n xs ds = Inr rows" "length xs = length ds"
  shows "map in_activityId rows = map a_id xs \<and> map in_ordinal rows = [n..<n + length xs] \<and> map in_definition rows = xs \<and>
    (\<forall>x \<in> set rows. in_assignmentId x = pa_id a \<and> n \<le> in_ordinal x \<and> in_status x = (if in_ordinal x = 0 then ''available'' else ''pending''))"
  using assms
proof (induction E D a t n xs ds arbitrary: rows rule: issue_instances.induct)
  case (1 E D a t n x xs d ds)
  from 1(2) obtain h rest where r: "issue_instances E D a t (Suc n) xs ds = Inr rest" "hashCanonicalJSON (en_hash E) d = Inr h"
    "rows = \<lparr>in_id = dr_uuid D ''instance'' n, in_tenantId = pa_tenantId a, in_requestId = pa_requestId a, in_assignmentId = pa_id a, in_activityId = a_id x,
           in_ordinal = n, in_definition = x, in_definitionJson = d, in_definitionHash = h,
           in_status = (if n = 0 then ''available'' else ''pending''), in_availableAt = (if n = 0 then Some t else None),
           in_openedAt = None, in_completedAt = None\<rparr> # rest"
    by (auto simp: bindE_Inr)
  have "map in_activityId rest = map a_id xs \<and> map in_ordinal rest = [Suc n..<Suc n + length xs] \<and> map in_definition rest = xs \<and>
    (\<forall>x \<in> set rest. in_assignmentId x = pa_id a \<and> Suc n \<le> in_ordinal x \<and> in_status x = (if in_ordinal x = 0 then ''available'' else ''pending''))"
    using 1(1)[OF r(2) r(1)] 1(3) by simp
  moreover have "[n..<n + length (x # xs)] = n # [Suc n..<Suc n + length xs]" by (simp add: upt_conv_Cons del: upt_Suc)
  ultimately show ?case using r(3) by (auto simp del: upt_Suc)
qed auto

lemma issue_on_path:
  assumes "issue_instances E D a t 0 acts ds = Inr rows" "length acts = length ds" "\<forall>x \<in> set I. in_assignmentId x \<noteq> pa_id a"
  shows "on_path acts (pa_id a) (I @ rows) 0"
proof -
  note r = issue_instances_rows[OF assms(1,2)]
  have "rows_of (pa_id a) rows = rows" using r by (simp add: rows_of_def)
  then have "rows_of (pa_id a) (I @ rows) = rows" using rows_of_Nil[OF assms(3)] by simp
  with r show ?thesis by (auto simp: on_path_def stage_row_def)
qed

lemma on_path_append: "on_path acts a I k \<Longrightarrow> \<forall>x \<in> set J. in_assignmentId x \<noteq> a \<Longrightarrow> on_path acts a (I @ J) k"
proof -
  assume *: "on_path acts a I k" "\<forall>x \<in> set J. in_assignmentId x \<noteq> a"
  then show ?thesis by (auto simp: on_path_def rows_of_Nil)
qed

end
