(* ===== verification/Cases.thy ===== *)
theory Cases
  imports Positions
begin

text \<open>
  The life of requests as an abstract machine, and the part of the tables it is read off. A case is
  the plan of a request (the activities of its workflow, if it has one) and its stage: open at an
  activity, sealed, or withdrawn. The operations of the store change the core of the tables in six
  ways; each keeps the core well-formed and is a step of the machine or leaves it as it is.
\<close>

section \<open>The abstract machine\<close>

datatype stage = Open nat | Sealed | Withdrawn

type_synonym cases = "string \<Rightarrow> (activity list option \<times> stage) option"

text \<open>A single-activity request has no plan; it is sealed by its only answer.\<close>

inductive case_step :: "cases \<Rightarrow> cases \<Rightarrow> bool" where
  case_issued: "m i = None \<Longrightarrow> (\<forall>acts. plan = Some acts \<longrightarrow> well_routed acts \<and> acts \<noteq> []) \<Longrightarrow> case_step m (m(i \<mapsto> (plan, Open 0)))"
| case_advanced: "m i = Some (Some acts, Open k) \<Longrightarrow> k < length acts \<Longrightarrow>
    evaluateNextActivity acts (a_id (acts ! k)) resp = Inr (Some d) \<Longrightarrow> index_of d acts = Some j \<Longrightarrow> case_step m (m(i \<mapsto> (Some acts, Open j)))"
| case_finished: "m i = Some (Some acts, Open k) \<Longrightarrow> k < length acts \<Longrightarrow>
    evaluateNextActivity acts (a_id (acts ! k)) resp = Inr None \<Longrightarrow> case_step m (m(i \<mapsto> (Some acts, Sealed)))"
| case_answered: "m i = Some (None, Open k) \<Longrightarrow> case_step m (m(i \<mapsto> (None, Sealed)))"
| case_withdrawn: "m i = Some (plan, Open k) \<Longrightarrow> case_step m (m(i \<mapsto> (plan, Withdrawn)))"

inductive_cases case_step_E: "case_step m m'"

section \<open>The core of the tables\<close>

datatype life = Live | Done | Void

definition life_of :: "string \<Rightarrow> life" where
  "life_of status = (if status = ''completed'' then Done else if status = ''revoked'' then Void else Live)"

record core =
  cr_assignments :: "(string \<times> string \<times> life) list"
  cr_requests :: "(string \<times> string \<times> life) list"
  cr_revisions :: "revision_row list"
  cr_instances :: "activity_instance list"
  cr_sealed :: "string list"
  cr_notices :: "string option list"

definition core_of :: "engine_db \<Rightarrow> core" where
  "core_of db =
     \<lparr>cr_assignments = map (\<lambda>a. (pa_id a, pa_requestId a, life_of (pa_status a))) (db_assignments db),
      cr_requests = map (\<lambda>r. (rr_id r, rr_workflowRevisionId r, life_of (rr_status r))) (db_requests db),
      cr_revisions = ws_revisions (db_workspace db), cr_instances = db_instances db, cr_sealed = map mf_assignmentId (db_manifests db),
      cr_notices = map jr_requestId (filter (\<lambda>j. jr_jobType j = ''notification'') (db_jobs db))\<rparr>"

definition plan_of_revision :: "revision_row list \<Rightarrow> string \<Rightarrow> activity list option" where
  "plan_of_revision rs w = (case find (\<lambda>r. wr_id r = w) rs of None \<Rightarrow> None | Some r \<Rightarrow> map_option (\<lambda>p. wd_activities (pd_document p)) (wr_snapshot r))"

definition plan :: "core \<Rightarrow> string \<Rightarrow> activity list option" where
  "plan c q = (case map_of (cr_requests c) q of None \<Rightarrow> None | Some (w, _) \<Rightarrow> plan_of_revision (cr_revisions c) w)"

definition stage_of :: "activity_instance list \<Rightarrow> string \<Rightarrow> life \<Rightarrow> stage" where
  "stage_of I i l = (case l of Done \<Rightarrow> Sealed | Void \<Rightarrow> Withdrawn | Live \<Rightarrow> Open (case available_instance I i of Some x \<Rightarrow> in_ordinal x | None \<Rightarrow> 0))"

definition cases_of :: "core \<Rightarrow> cases" where
  "cases_of c i = map_option (\<lambda>(q, l). (plan c q, stage_of (cr_instances c) i l)) (map_of (cr_assignments c) i)"

section \<open>Well-formed cores\<close>

definition revisions_ok :: "revision_row list \<Rightarrow> bool" where
  "revisions_ok rs \<longleftrightarrow> distinct (map wr_id rs) \<and>
     (\<forall>r \<in> set rs. \<forall>p. wr_snapshot r = Some p \<longrightarrow> well_routed (wd_activities (pd_document p)) \<and> wd_activities (pd_document p) \<noteq> [] \<and>
        length (wd_activities (pd_document p)) = length (pd_definitions p))"

definition keys_ok :: "core \<Rightarrow> bool" where
  "keys_ok c \<longleftrightarrow> distinct (map fst (cr_assignments c)) \<and> distinct (map fst (cr_requests c)) \<and> distinct (map (fst \<circ> snd) (cr_assignments c)) \<and>
     (\<forall>(i, q, l) \<in> set (cr_assignments c). \<exists>w. (q, w, l) \<in> set (cr_requests c)) \<and>
     (\<forall>(q, w, l) \<in> set (cr_requests c). w \<in> wr_id ` set (cr_revisions c)) \<and>
     (\<forall>x \<in> set (cr_instances c). in_assignmentId x \<in> fst ` set (cr_assignments c)) \<and> distinct (map in_id (cr_instances c))"

definition positions_ok :: "core \<Rightarrow> bool" where
  "positions_ok c \<longleftrightarrow> (\<forall>(i, q, l) \<in> set (cr_assignments c). \<forall>acts. plan c q = Some acts \<longrightarrow>
     (\<exists>k. on_path acts i (cr_instances c) k \<and> (if l = Done then k = length acts else k < length acts)))"

definition sealed_ok :: "core \<Rightarrow> bool" where
  "sealed_ok c \<longleftrightarrow> distinct (cr_sealed c) \<and> set (cr_sealed c) = {i. \<exists>q. (i, q, Done) \<in> set (cr_assignments c)}"

text \<open>The last of the 32 notices of a request is free until it is completed.\<close>

definition notices_ok :: "core \<Rightarrow> bool" where
  "notices_ok c \<longleftrightarrow> (\<forall>q. Some q \<in> set (cr_notices c) \<longrightarrow> q \<in> fst ` set (cr_requests c)) \<and>
     (\<forall>(q, w, l) \<in> set (cr_requests c). count_list (cr_notices c) (Some q) \<le> (if l = Done then 32 else 31))"

definition core_ok :: "core \<Rightarrow> bool" where
  "core_ok c \<longleftrightarrow> revisions_ok (cr_revisions c) \<and> keys_ok c \<and> positions_ok c \<and> sealed_ok c \<and> notices_ok c"

lemma core_okI: "revisions_ok (cr_revisions c) \<Longrightarrow> keys_ok c \<Longrightarrow> positions_ok c \<Longrightarrow> sealed_ok c \<Longrightarrow> notices_ok c \<Longrightarrow> core_ok c"
  by (simp add: core_ok_def)

lemma core_okD: "core_ok c \<Longrightarrow> revisions_ok (cr_revisions c) \<and> keys_ok c \<and> positions_ok c \<and> sealed_ok c \<and> notices_ok c"
  by (simp add: core_ok_def)

lemma key_unique: "distinct (map fst xs) \<Longrightarrow> (i, v) \<in> set xs \<Longrightarrow> (i, v') \<in> set xs \<Longrightarrow> v' = v"
  by (metis eq_key_imp_eq_value)

lemma keys_assignment: "keys_ok c \<Longrightarrow> (i, q, l) \<in> set (cr_assignments c) \<Longrightarrow> (i, q', l') \<in> set (cr_assignments c) \<Longrightarrow> q' = q \<and> l' = l"
  using key_unique[of "cr_assignments c" i "(q, l)" "(q', l')"] by (simp add: keys_ok_def)

lemma keys_request: "keys_ok c \<Longrightarrow> (q, w, l) \<in> set (cr_requests c) \<Longrightarrow> (q, w', l') \<in> set (cr_requests c) \<Longrightarrow> w' = w \<and> l' = l"
  using key_unique[of "cr_requests c" q "(w, l)" "(w', l')"] by (simp add: keys_ok_def)

lemma keys_joined: "keys_ok c \<Longrightarrow> (i, q, l) \<in> set (cr_assignments c) \<Longrightarrow> \<exists>w. (q, w, l) \<in> set (cr_requests c)"
  unfolding keys_ok_def by blast

lemma keys_revision: "keys_ok c \<Longrightarrow> (q, w, l) \<in> set (cr_requests c) \<Longrightarrow> w \<in> wr_id ` set (cr_revisions c)"
  unfolding keys_ok_def by blast

lemma keys_one: "keys_ok c \<Longrightarrow> (i, q, l) \<in> set (cr_assignments c) \<Longrightarrow> (j, q, l') \<in> set (cr_assignments c) \<Longrightarrow> j = i"
proof -
  assume *: "keys_ok c" "(i, q, l) \<in> set (cr_assignments c)" "(j, q, l') \<in> set (cr_assignments c)"
  have "inj_on (fst \<circ> snd) (set (cr_assignments c))" using *(1) by (simp add: keys_ok_def distinct_map)
  from inj_onD[OF this _ *(3,2)] show ?thesis by simp
qed

lemma positions_okD: "positions_ok c \<Longrightarrow> (i, q, l) \<in> set (cr_assignments c) \<Longrightarrow> plan c q = Some acts \<Longrightarrow>
    \<exists>k. on_path acts i (cr_instances c) k \<and> (if l = Done then k = length acts else k < length acts)"
  unfolding positions_ok_def by blast

lemma notices_okI: "(\<And>q. Some q \<in> set (cr_notices c) \<Longrightarrow> q \<in> fst ` set (cr_requests c)) \<Longrightarrow>
    (\<And>q w l. (q, w, l) \<in> set (cr_requests c) \<Longrightarrow> count_list (cr_notices c) (Some q) \<le> (if l = Done then 32 else 31)) \<Longrightarrow> notices_ok c"
  unfolding notices_ok_def by (intro conjI allI impI ballI) (simp, metis (no_types, lifting) case_prodI2)

lemma notices_okD: "notices_ok c \<Longrightarrow> Some q \<in> set (cr_notices c) \<Longrightarrow> q \<in> fst ` set (cr_requests c)"
    "notices_ok c \<Longrightarrow> (q, w, l) \<in> set (cr_requests c) \<Longrightarrow> count_list (cr_notices c) (Some q) \<le> (if l = Done then 32 else 31)"
  unfolding notices_ok_def by blast+

lemma keyI: "(i, v) \<in> set xs \<Longrightarrow> i \<in> fst ` set xs"
  by force

section \<open>The plan of a request\<close>

lemma plan_of_revision_ok: "revisions_ok rs \<Longrightarrow> plan_of_revision rs w = Some acts \<Longrightarrow> well_routed acts \<and> acts \<noteq> []"
  unfolding plan_of_revision_def revisions_ok_def by (auto split: option.splits dest!: findD)

lemma plan_of_revision_mem:
  assumes "revisions_ok rs" "r \<in> set rs"
  shows "plan_of_revision rs (wr_id r) = map_option (\<lambda>p. wd_activities (pd_document p)) (wr_snapshot r)"
proof -
  obtain r' where r': "find (\<lambda>x. wr_id x = wr_id r) rs = Some r'" using find_hit[of "\<lambda>x. wr_id x = wr_id r" r rs] assms(2) by auto
  with findD[OF r'] assms have "r' = r" unfolding revisions_ok_def by (metis (mono_tags, lifting) distinct_map inj_onD)
  with r' show ?thesis by (simp add: plan_of_revision_def)
qed

lemma plan_of_revision_append: "w \<in> wr_id ` set rs \<Longrightarrow> plan_of_revision (rs @ new) w = plan_of_revision rs w"
proof -
  assume "w \<in> wr_id ` set rs"
  then obtain z where "find (\<lambda>r. wr_id r = w) rs = Some z" using find_hit[of "\<lambda>r. wr_id r = w" _ rs] by fastforce
  moreover have "find P (xs @ ys) = (case find P xs of Some z \<Rightarrow> Some z | None \<Rightarrow> find P ys)" for P :: "revision_row \<Rightarrow> bool" and xs ys
    by (induction xs) auto
  ultimately show ?thesis by (simp add: plan_of_revision_def)
qed

lemma plan_mem: "keys_ok c \<Longrightarrow> (q, w, l) \<in> set (cr_requests c) \<Longrightarrow> plan c q = plan_of_revision (cr_revisions c) w"
  by (simp add: plan_def keys_ok_def map_of_is_SomeI)

lemma plan_ok: "core_ok c \<Longrightarrow> plan c q = Some acts \<Longrightarrow> well_routed acts \<and> acts \<noteq> []"
  unfolding plan_def using plan_of_revision_ok by (auto dest!: core_okD split: option.splits prod.splits)

lemma cases_of_mem: "keys_ok c \<Longrightarrow> (i, q, l) \<in> set (cr_assignments c) \<Longrightarrow> cases_of c i = Some (plan c q, stage_of (cr_instances c) i l)"
  by (simp add: cases_of_def keys_ok_def map_of_is_SomeI)

lemma stage_of_path:
  assumes "on_path acts i I k" "k < length acts"
  shows "stage_of I i Live = Open k"
  using assms on_path_nth[OF assms] by (simp add: stage_of_def on_path_available)

section \<open>Changes of the core\<close>

definition set_life :: "string \<Rightarrow> life \<Rightarrow> (string \<times> string \<times> life) list \<Rightarrow> (string \<times> string \<times> life) list" where
  "set_life i l xs = map (\<lambda>(j, r, k). if j = i then (j, r, l) else (j, r, k)) xs"

lemma set_life_mem: "(j, r, k) \<in> set (set_life i l xs) \<longleftrightarrow> (if j = i then k = l \<and> (\<exists>k'. (j, r, k') \<in> set xs) else (j, r, k) \<in> set xs)"
  by (induction xs) (auto simp: set_life_def split: if_splits)

lemma set_life_fst [simp]: "map fst (set_life i l xs) = map fst xs" "map (fst \<circ> snd) (set_life i l xs) = map (fst \<circ> snd) xs"
  by (auto simp: set_life_def)

lemma set_life_keys [simp]: "fst ` set (set_life i l xs) = fst ` set xs"
  by (metis set_life_fst(1) list.set_map)

lemma map_of_set_life: "map_of (set_life i l xs) j = (if j = i then map_option (\<lambda>(r, _). (r, l)) (map_of xs j) else map_of xs j)"
  by (induction xs) (auto simp: set_life_def)

lemma plan_set_life [simp]: "plan (c\<lparr>cr_requests := set_life q l (cr_requests c)\<rparr>) = plan c"
  by (rule ext) (auto simp: plan_def map_of_set_life split: option.splits)

lemma plan_simps [simp]:
  "plan (c\<lparr>cr_assignments := A\<rparr>) q = plan c q" "plan (c\<lparr>cr_instances := I\<rparr>) q = plan c q" "plan (c\<lparr>cr_sealed := S\<rparr>) q = plan c q"
  "plan (c\<lparr>cr_notices := N\<rparr>) q = plan c q"
  by (simp_all add: plan_def cong: option.case_cong prod.case_cong)

lemma cases_of_simps [simp]:
  "cases_of (c\<lparr>cr_sealed := S\<rparr>) = cases_of c" "cases_of (c\<lparr>cr_notices := N\<rparr>) = cases_of c"
  by (auto simp: cases_of_def split: prod.splits)

text \<open>What a change of rows may do: write only the rows of one assignment, keeping their identity.\<close>

definition writes_only :: "string \<Rightarrow> (activity_instance \<Rightarrow> activity_instance) \<Rightarrow> activity_instance list \<Rightarrow> bool" where
  "writes_only i f I \<longleftrightarrow> row_update f \<and> (\<forall>x \<in> set I. in_assignmentId x \<noteq> i \<longrightarrow> f x = x)"

lemma writes_only_path: "writes_only i f I \<Longrightarrow> j \<noteq> i \<Longrightarrow> on_path acts j I k \<Longrightarrow> on_path acts j (map f I) k"
  by (rule on_path_frame) (auto simp: writes_only_def)

lemma writes_only_available: "writes_only i f I \<Longrightarrow> j \<noteq> i \<Longrightarrow> available_instance (map f I) j = available_instance I j"
proof -
  assume w: "writes_only i f I" "j \<noteq> i"
  have "filter (\<lambda>x. in_assignmentId x = j \<and> in_status x = ''available'') (map f I) = filter (\<lambda>x. in_assignmentId x = j \<and> in_status x = ''available'') I"
    using w by (induction I) (auto simp: writes_only_def row_update_def)
  then show ?thesis by (simp add: available_instance_def)
qed

lemma writes_only_ids: "writes_only i f I \<Longrightarrow> map in_id (map f I) = map in_id I \<and> in_assignmentId ` set (map f I) = in_assignmentId ` set I"
  by (auto simp: writes_only_def row_update_def image_iff)

lemma stage_writes_only: "writes_only i f I \<Longrightarrow> j \<noteq> i \<Longrightarrow> stage_of (map f I) j l = stage_of I j l"
  by (cases l) (simp_all add: stage_of_def writes_only_available)

subsection \<open>Publishing\<close>

lemma core_publish:
  assumes "core_ok c" "revisions_ok (cr_revisions c @ new)"
  shows "core_ok (c\<lparr>cr_revisions := cr_revisions c @ new\<rparr>) \<and> cases_of (c\<lparr>cr_revisions := cr_revisions c @ new\<rparr>) = cases_of c"
proof -
  let ?c = "c\<lparr>cr_revisions := cr_revisions c @ new\<rparr>"
  have k: "keys_ok c" using assms(1) by (simp add: core_ok_def)
  have p: "plan ?c q = plan c q" for q
  proof (cases "map_of (cr_requests c) q")
    case None
    then show ?thesis by (simp add: plan_def)
  next
    case (Some z)
    obtain w l where z: "z = (w, l)" by (cases z)
    from map_of_SomeD[OF Some] z k have "w \<in> wr_id ` set (cr_revisions c)" by (fastforce simp: keys_ok_def)
    with Some z show ?thesis by (simp add: plan_def plan_of_revision_append)
  qed
  have "core_ok ?c" using assms p unfolding core_ok_def keys_ok_def positions_ok_def sealed_ok_def notices_ok_def by fastforce
  moreover have "cases_of ?c = cases_of c" by (rule ext) (simp add: cases_of_def p)
  ultimately show ?thesis by simp
qed

subsection \<open>Opening\<close>

lemma open_available: "available_instance (map (open_instance x t) I) i = map_option (open_instance x t) (available_instance I i)"
proof -
  have f: "filter (\<lambda>x. in_assignmentId x = i \<and> in_status x = ''available'') (map (open_instance x t) I) =
    map (open_instance x t) (filter (\<lambda>x. in_assignmentId x = i \<and> in_status x = ''available'') I)"
    by (simp add: filter_map o_def open_instance_def if_distrib cong: if_cong)
  have stable: "filter (\<lambda>y. n = in_ordinal y) (sort_key in_ordinal J) = filter (\<lambda>y. n = in_ordinal y) J" for n and J :: "activity_instance list"
    using sort_key_stable[of in_ordinal n J] by (simp only: eq_commute[of n])
  have s: "sort_key in_ordinal (map (open_instance x t) J) = map (open_instance x t) (sort_key in_ordinal J)" for J
  proof (rule properties_for_sort_key)
    show "mset (map (open_instance x t) (sort_key in_ordinal J)) = mset (map (open_instance x t) J)" by (metis mset_map mset_sort)
    have o: "in_ordinal (open_instance x t y) = in_ordinal y" for y by (simp add: open_instance_def)
    show "sorted (map in_ordinal (map (open_instance x t) (sort_key in_ordinal J)))" by (simp add: o_def o)
    show "\<And>k. k \<in> set (map (open_instance x t) (sort_key in_ordinal J)) \<Longrightarrow>
      filter (\<lambda>y. in_ordinal k = in_ordinal y) (map (open_instance x t) (sort_key in_ordinal J)) = filter (\<lambda>y. in_ordinal k = in_ordinal y) (map (open_instance x t) J)"
      using stable by (simp add: filter_map o_def o)
  qed
  show ?thesis by (simp add: available_instance_def f s split: list.split)
qed

lemma core_open:
  assumes "core_ok c"
  shows "core_ok (c\<lparr>cr_instances := map (open_instance x t) (cr_instances c)\<rparr>) \<and> cases_of (c\<lparr>cr_instances := map (open_instance x t) (cr_instances c)\<rparr>) = cases_of c"
proof -
  let ?I = "map (open_instance x t) (cr_instances c)" and ?c = "c\<lparr>cr_instances := map (open_instance x t) (cr_instances c)\<rparr>"
  have u: "map in_id ?I = map in_id (cr_instances c)" by (rule row_update_ids) auto
  have a: "in_assignmentId (open_instance x t y) = in_assignmentId y" for y by (simp add: open_instance_def)
  have "keys_ok ?c" using assms u unfolding core_ok_def keys_ok_def by (simp add: a del: map_map)
  moreover have "positions_ok ?c" using assms on_path_open unfolding core_ok_def positions_ok_def by (fastforce simp: plan_simps)
  moreover have "stage_of ?I i l = stage_of (cr_instances c) i l" for i l
    by (cases "available_instance (cr_instances c) i"; cases l) (simp_all add: stage_of_def open_available open_instance_def)
  then have "cases_of ?c = cases_of c" by (simp add: cases_of_def fun_eq_iff)
  ultimately show ?thesis using assms by (simp add: core_ok_def sealed_ok_def notices_ok_def)
qed

subsection \<open>Issuing\<close>

definition issue_core :: "string \<Rightarrow> string \<Rightarrow> string \<Rightarrow> activity_instance list \<Rightarrow> string option list \<Rightarrow> core \<Rightarrow> core" where
  "issue_core i q w rows N c = c\<lparr>cr_assignments := cr_assignments c @ [(i, q, Live)], cr_requests := cr_requests c @ [(q, w, Live)],
     cr_instances := cr_instances c @ rows, cr_notices := cr_notices c @ N\<rparr>"

lemma fresh_key: "k \<notin> fst ` set xs \<Longrightarrow> [k \<mapsto> v] ++ map_of xs = (map_of xs)(k \<mapsto> v)"
proof -
  assume "k \<notin> fst ` set xs"
  then have "map_of xs k = None" by (simp add: map_of_eq_None_iff)
  then show ?thesis by (auto simp: fun_eq_iff map_add_def split: option.split)
qed

lemma core_issue:
  assumes ok: "core_ok c" and i: "i \<notin> fst ` set (cr_assignments c)" and q: "q \<notin> fst ` set (cr_requests c)" and w: "w \<in> wr_id ` set (cr_revisions c)"
    and rows: "\<forall>x \<in> set rows. in_assignmentId x = i" "distinct (map in_id (cr_instances c @ rows))"
    and path: "\<And>acts. plan_of_revision (cr_revisions c) w = Some acts \<Longrightarrow> on_path acts i (cr_instances c @ rows) 0"
    and single: "plan_of_revision (cr_revisions c) w = None \<Longrightarrow> rows = []"
    and N: "set N \<subseteq> {Some q}" "length N \<le> 31"
  shows "core_ok (issue_core i q w rows N c) \<and> case_step (cases_of c) (cases_of (issue_core i q w rows N c))"
proof -
  let ?c = "issue_core i q w rows N c"
  have k: "keys_ok c" and revs: "revisions_ok (cr_revisions c)" using ok by (simp_all add: core_ok_def)
  have req: "map_of (cr_requests ?c) = (map_of (cr_requests c))(q \<mapsto> (w, Live))" by (simp add: issue_core_def fresh_key[OF q])
  have ass: "map_of (cr_assignments ?c) = (map_of (cr_assignments c))(i \<mapsto> (q, Live))" by (simp add: issue_core_def fresh_key[OF i])
  have rev: "cr_revisions ?c = cr_revisions c" by (simp add: issue_core_def)
  have p: "plan ?c = (plan c)(q := plan_of_revision (cr_revisions c) w)" by (rule ext) (simp add: plan_def req rev cong: option.case_cong prod.case_cong)
  have old: "(j, r, l) \<in> set (cr_assignments c) \<Longrightarrow> j \<noteq> i \<and> r \<noteq> q" for j r l
    using i q keyI keys_joined[OF k] by metis
  have none: "\<forall>x \<in> set (cr_instances c). in_assignmentId x \<noteq> i" using k i by (auto simp: keys_ok_def)
  have keys: "keys_ok ?c" using k i q w rows old by (fastforce simp: keys_ok_def issue_core_def)
  have new0: "0 < length acts" if "plan_of_revision (cr_revisions c) w = Some acts" for acts using plan_of_revision_ok[OF revs that] by simp
  have positions: "positions_ok ?c"
    unfolding positions_ok_def
  proof (clarify)
    fix j r l acts assume *: "(j, r, l) \<in> set (cr_assignments ?c)" "plan ?c r = Some acts"
    show "\<exists>k. on_path acts j (cr_instances ?c) k \<and> (if l = Done then k = length acts else k < length acts)"
    proof (cases "(j, r, l) = (i, q, Live)")
      case True
      have "plan_of_revision (cr_revisions c) w = Some acts" using *(2) True by (simp add: p)
      with True path new0 show ?thesis by (intro exI[of _ 0]) (simp add: issue_core_def)
    next
      case False
      with *(1) have m: "(j, r, l) \<in> set (cr_assignments c)" by (auto simp: issue_core_def)
      from old[OF m] *(2) have "plan c r = Some acts" by (simp add: p)
      then obtain k where k: "on_path acts j (cr_instances c) k" "if l = Done then k = length acts else k < length acts"
        using ok m by (fastforce simp: core_ok_def positions_ok_def)
      have "\<forall>x \<in> set rows. in_assignmentId x \<noteq> j" using rows(1) old[OF m] by auto
      from on_path_append[OF k(1) this] have "on_path acts j (cr_instances ?c) k" by (simp add: issue_core_def)
      with k(2) show ?thesis by blast
    qed
  qed
  have sealed: "sealed_ok ?c" using ok by (auto simp: core_ok_def sealed_ok_def issue_core_def)
  have zero: "count_list (cr_notices c) (Some q) = 0" using ok q by (auto simp: core_ok_def notices_ok_def count_list_0_iff)
  have cN: "count_list N (Some r) = (if r = q then length N else 0)" for r using N(1) by (induction N) auto
  have notices: "notices_ok ?c" using ok N zero cN q by (fastforce simp: core_ok_def notices_ok_def issue_core_def)
  have st: "stage_of (cr_instances c @ rows) j l = stage_of (cr_instances c) j l" if "j \<noteq> i" for j l
  proof -
    have "filter (\<lambda>x. in_assignmentId x = j \<and> in_status x = ''available'') rows = []" using rows(1) that by (auto simp: filter_empty_conv)
    then show ?thesis by (cases l) (simp_all add: stage_of_def available_instance_def)
  qed
  have st0: "stage_of (cr_instances c @ rows) i Live = Open 0" if "rows = []"
    using none that by (auto simp: stage_of_def available_instance_def filter_empty_conv)
  have cases: "cases_of ?c = (cases_of c)(i \<mapsto> (plan_of_revision (cr_revisions c) w, stage_of (cr_instances c @ rows) i Live))"
  proof
    fix j
    show "cases_of ?c j = ((cases_of c)(i \<mapsto> (plan_of_revision (cr_revisions c) w, stage_of (cr_instances c @ rows) i Live))) j"
    proof (cases "j = i")
      case True
      then show ?thesis by (simp add: cases_of_def ass p) (simp add: issue_core_def)
    next
      case False
      show ?thesis
      proof (cases "map_of (cr_assignments c) j")
        case None
        with False show ?thesis by (simp add: cases_of_def ass)
      next
        case (Some z)
        obtain r l where z: "z = (r, l)" by (cases z)
        from map_of_SomeD[OF Some] z old have "r \<noteq> q" by blast
        with False Some z show ?thesis by (simp add: cases_of_def ass p st) (simp add: issue_core_def st)
      qed
    qed
  qed
  have stage0: "stage_of (cr_instances c @ rows) i Live = Open 0" if "plan_of_revision (cr_revisions c) w = Some acts" for acts
    by (rule stage_of_path[OF path[OF that] new0[OF that]])
  have "stage_of (cr_instances c @ rows) i Live = Open 0"
    using st0 single stage0 by (cases "plan_of_revision (cr_revisions c) w") auto
  moreover have "cases_of c i = None" using i by (simp add: cases_of_def map_of_eq_None_iff)
  ultimately have "case_step (cases_of c) (cases_of ?c)"
    unfolding cases using plan_of_revision_ok[OF revs] by (simp add: case_issued)
  moreover have "core_ok ?c" by (rule core_okI) (use keys positions sealed notices revs rev in simp_all)
  ultimately show ?thesis by simp
qed

subsection \<open>Withdrawing\<close>

definition end_core :: "string \<Rightarrow> string \<Rightarrow> life \<Rightarrow> core \<Rightarrow> core" where
  "end_core i q l c = c\<lparr>cr_assignments := set_life i l (cr_assignments c), cr_requests := set_life q l (cr_requests c)\<rparr>"

lemma end_core_simps [simp]:
  "cr_revisions (end_core i q l c) = cr_revisions c" "cr_instances (end_core i q l c) = cr_instances c" "cr_sealed (end_core i q l c) = cr_sealed c"
  "cr_notices (end_core i q l c) = cr_notices c" "plan (end_core i q l c) = plan c"
  by (auto simp: end_core_def plan_def map_of_set_life fun_eq_iff split: option.splits)

lemma end_core_assignments:
  assumes "keys_ok c" "(i, q, l0) \<in> set (cr_assignments c)"
  shows "(j, r, k) \<in> set (cr_assignments (end_core i q l c)) \<longleftrightarrow> (if j = i then r = q \<and> k = l else (j, r, k) \<in> set (cr_assignments c))"
proof -
  have e: "cr_assignments (end_core i q l c) = set_life i l (cr_assignments c)" by (simp add: end_core_def)
  show ?thesis unfolding e set_life_mem using keys_assignment[OF assms] assms(2) by metis
qed

lemma end_core_requests: "(r, w, k) \<in> set (cr_requests (end_core i q l c)) \<longleftrightarrow> (if r = q then k = l \<and> (\<exists>k'. (r, w, k') \<in> set (cr_requests c)) else (r, w, k) \<in> set (cr_requests c))"
  by (simp add: end_core_def set_life_mem)

lemma end_core_keys:
  assumes "keys_ok c" "(i, q, l0) \<in> set (cr_assignments c)"
  shows "keys_ok (end_core i q l c)"
proof -
  obtain w where w: "(q, w, l0) \<in> set (cr_requests c)" using keys_joined[OF assms] by blast
  have "\<forall>(j, r, k) \<in> set (cr_assignments (end_core i q l c)). \<exists>w. (r, w, k) \<in> set (cr_requests (end_core i q l c))"
  proof (clarify)
    fix j r k assume m: "(j, r, k) \<in> set (cr_assignments (end_core i q l c))"
    show "\<exists>w. (r, w, k) \<in> set (cr_requests (end_core i q l c))"
    proof (cases "j = i")
      case True
      with m end_core_assignments[OF assms] have "r = q" "k = l" by simp_all
      with w show ?thesis unfolding end_core_requests by auto
    next
      case False
      with m end_core_assignments[OF assms] have m': "(j, r, k) \<in> set (cr_assignments c)" by simp
      with False keys_one[OF assms(1) assms(2)] have "r \<noteq> q" by blast
      with keys_joined[OF assms(1) m'] show ?thesis unfolding end_core_requests by simp
    qed
  qed
  moreover have "\<forall>(r, w, k) \<in> set (cr_requests (end_core i q l c)). w \<in> wr_id ` set (cr_revisions c)"
    using keys_revision[OF assms(1)] unfolding Ball_def split_paired_All case_prod_conv end_core_requests by metis
  ultimately show ?thesis using assms(1) unfolding keys_ok_def by (simp add: end_core_def)
qed

lemma end_core_cases:
  assumes "keys_ok c" "(i, q, l0) \<in> set (cr_assignments c)"
  shows "cases_of (end_core i q l c) = (cases_of c)(i \<mapsto> (plan c q, stage_of (cr_instances c) i l))"
proof
  fix j
  have "map_of (cr_assignments c) i = Some (q, l0)" using assms by (simp add: keys_ok_def map_of_is_SomeI)
  then show "cases_of (end_core i q l c) j = ((cases_of c)(i \<mapsto> (plan c q, stage_of (cr_instances c) i l))) j"
    unfolding cases_of_def end_core_simps by (simp add: end_core_def map_of_set_life)
qed

lemma core_withdraw:
  assumes ok: "core_ok c" and m: "(i, q, Live) \<in> set (cr_assignments c)"
  shows "core_ok (end_core i q Void c) \<and> case_step (cases_of c) (cases_of (end_core i q Void c))"
proof -
  let ?c = "end_core i q Void c"
  have k: "keys_ok c" using ok by (simp add: core_ok_def)
  note a = end_core_assignments[OF k m, of _ _ _ Void]
  have "positions_ok ?c"
    unfolding positions_ok_def
  proof (clarify)
    fix j r l acts assume *: "(j, r, l) \<in> set (cr_assignments ?c)" "plan ?c r = Some acts"
    have "\<exists>l'. (j, r, l') \<in> set (cr_assignments c) \<and> (l' = Done \<longleftrightarrow> l = Done)"
    proof (cases "j = i")
      case True
      then show ?thesis using *(1) m by (intro exI[of _ Live]) (simp add: a)
    next
      case False
      then show ?thesis using *(1) by (intro exI[of _ l]) (simp add: a)
    qed
    then obtain l' where l': "(j, r, l') \<in> set (cr_assignments c)" "l' = Done \<longleftrightarrow> l = Done" by blast
    have "plan c r = Some acts" using *(2) by simp
    from positions_okD[OF _ l'(1) this] ok l'(2) show "\<exists>k. on_path acts j (cr_instances ?c) k \<and> (if l = Done then k = length acts else k < length acts)"
      by (simp add: core_ok_def)
  qed
  moreover have "sealed_ok ?c"
  proof -
    have "(i, r, Done) \<notin> set (cr_assignments c)" for r using keys_assignment[OF k m, of r Done] by auto
    then have "(j, r, Done) \<in> set (cr_assignments ?c) \<longleftrightarrow> (j, r, Done) \<in> set (cr_assignments c)" for j r by (auto simp: a)
    with ok show ?thesis by (simp add: core_ok_def sealed_ok_def)
  qed
  moreover have "notices_ok ?c"
  proof -
    obtain w0 where w0: "(q, w0, Live) \<in> set (cr_requests c)" using keys_joined[OF k m] by blast
    have n: "notices_ok c" using ok by (simp add: core_ok_def)
    show ?thesis
    proof (rule notices_okI)
      fix r assume "Some r \<in> set (cr_notices ?c)"
      with notices_okD(1)[OF n] show "r \<in> fst ` set (cr_requests ?c)" by (simp add: end_core_def)
    next
      fix r w l assume r: "(r, w, l) \<in> set (cr_requests ?c)"
      show "count_list (cr_notices ?c) (Some r) \<le> (if l = Done then 32 else 31)"
        using notices_okD(2)[OF n w0] notices_okD(2)[OF n, of r w l] r by (cases "r = q") (simp_all add: end_core_requests)
    qed
  qed
  ultimately have "core_ok ?c" using ok end_core_keys[OF k m] by (simp add: core_ok_def)
  moreover have "case_step (cases_of c) (cases_of ?c)"
    unfolding end_core_cases[OF k m] using cases_of_mem[OF k m] by (simp add: stage_of_def case_withdrawn)
  ultimately show ?thesis by simp
qed

subsection \<open>Notices\<close>

lemma core_notify:
  assumes ok: "core_ok c" and m: "(q, w, l) \<in> set (cr_requests c)" and N: "set N \<subseteq> {Some q}" "count_list (cr_notices c @ N) (Some q) \<le> (if l = Done then 32 else 31)"
  shows "core_ok (c\<lparr>cr_notices := cr_notices c @ N\<rparr>)"
proof -
  have k: "keys_ok c" using ok by (simp add: core_ok_def)
  have other: "count_list (cr_notices c @ N) (Some r) = count_list (cr_notices c) (Some r)" if "r \<noteq> q" for r
    using N(1) that by (induction N) auto
  have same: "l' = l" if "(q, w', l') \<in> set (cr_requests c)" for w' l' using keys_request[OF k m that] by simp
  have n: "notices_ok c" using ok by (simp add: core_ok_def)
  have "notices_ok (c\<lparr>cr_notices := cr_notices c @ N\<rparr>)"
  proof (rule notices_okI)
    fix r assume "Some r \<in> set (cr_notices (c\<lparr>cr_notices := cr_notices c @ N\<rparr>))"
    then have "Some r \<in> set (cr_notices c) \<or> r = q" using N(1) by auto
    with notices_okD(1)[OF n] keyI[OF m] show "r \<in> fst ` set (cr_requests (c\<lparr>cr_notices := cr_notices c @ N\<rparr>))" by auto
  next
    fix r w' l' assume r: "(r, w', l') \<in> set (cr_requests (c\<lparr>cr_notices := cr_notices c @ N\<rparr>))"
    show "count_list (cr_notices (c\<lparr>cr_notices := cr_notices c @ N\<rparr>)) (Some r) \<le> (if l' = Done then 32 else 31)"
    proof (cases "r = q")
      case True
      with r same[of w' l'] N(2) show ?thesis by simp
    next
      case False
      with r notices_okD(2)[OF n, of r w' l'] other[OF False] show ?thesis by simp
    qed
  qed
  with ok show ?thesis by (simp add: core_ok_def keys_ok_def positions_ok_def sealed_ok_def)
qed

subsection \<open>Advancing\<close>

lemma keys_rows:
  assumes "keys_ok c" "writes_only i f (cr_instances c)"
  shows "keys_ok (c\<lparr>cr_instances := map f (cr_instances c)\<rparr>)"
proof -
  note w = writes_only_ids[OF assms(2)]
  have "\<forall>x \<in> set (cr_instances c). in_assignmentId (f x) \<in> fst ` set (cr_assignments c)"
    using assms by (simp add: keys_ok_def writes_only_def row_update_def)
  with assms(1) w show ?thesis by (simp add: keys_ok_def del: map_map)
qed

lemma core_advance:
  assumes ok: "core_ok c" and m: "(i, q, Live) \<in> set (cr_assignments c)" and p: "plan c q = Some acts"
    and k: "on_path acts i (cr_instances c) k" "k < length acts" and d: "evaluateNextActivity acts (a_id (acts ! k)) resp = Inr (Some d)" "index_of d acts = Some j"
    and f: "writes_only i f (cr_instances c)" "on_path acts i (map f (cr_instances c)) j"
  shows "core_ok (c\<lparr>cr_instances := map f (cr_instances c)\<rparr>) \<and> case_step (cases_of c) (cases_of (c\<lparr>cr_instances := map f (cr_instances c)\<rparr>))"
proof -
  let ?c = "c\<lparr>cr_instances := map f (cr_instances c)\<rparr>"
  have ko: "keys_ok c" using ok by (simp add: core_ok_def)
  have j: "j < length acts" using index_of_Some[OF d(2)] by simp
  have "positions_ok ?c"
    unfolding positions_ok_def
  proof (clarify)
    fix i' r l acts' assume *: "(i', r, l) \<in> set (cr_assignments ?c)" "plan ?c r = Some acts'"
    show "\<exists>k. on_path acts' i' (cr_instances ?c) k \<and> (if l = Done then k = length acts' else k < length acts')"
    proof (cases "i' = i")
      case True
      with *(1) keys_assignment[OF ko m, of r l] have "r = q" "l = Live" by simp_all
      with True *(2) p f(2) j show ?thesis by (intro exI[of _ j]) simp
    next
      case False
      from *(1,2) have "(i', r, l) \<in> set (cr_assignments c)" "plan c r = Some acts'" by simp_all
      from positions_okD[OF _ this] ok obtain k' where "on_path acts' i' (cr_instances c) k'" "if l = Done then k' = length acts' else k' < length acts'"
        by (auto simp: core_ok_def)
      with writes_only_path[OF f(1) False] show ?thesis by (intro exI[of _ k']) simp
    qed
  qed
  then have "core_ok ?c" using ok keys_rows[OF ko f(1)] by (simp add: core_ok_def sealed_ok_def notices_ok_def)
  moreover have "cases_of ?c = (cases_of c)(i \<mapsto> (Some acts, Open j))"
  proof
    fix i'
    show "cases_of ?c i' = ((cases_of c)(i \<mapsto> (Some acts, Open j))) i'"
    proof (cases "i' = i")
      case True
      have "map_of (cr_assignments c) i = Some (q, Live)" using ko m by (simp add: keys_ok_def map_of_is_SomeI)
      with True p stage_of_path[OF f(2) j] show ?thesis by (simp add: cases_of_def)
    next
      case False
      then show ?thesis by (simp add: cases_of_def stage_writes_only[OF f(1) False])
    qed
  qed
  moreover have "cases_of c i = Some (Some acts, Open k)" using cases_of_mem[OF ko m] p stage_of_path[OF k] by simp
  ultimately show ?thesis using case_advanced[where m = "cases_of c" and i = i and acts = acts and k = k, OF _ k(2) d] by simp
qed

subsection \<open>Sealing\<close>

definition seal_core :: "string \<Rightarrow> string \<Rightarrow> (activity_instance \<Rightarrow> activity_instance) \<Rightarrow> string option list \<Rightarrow> core \<Rightarrow> core" where
  "seal_core i q f N c = (end_core i q Done c)\<lparr>cr_instances := map f (cr_instances c), cr_sealed := cr_sealed c @ [i], cr_notices := cr_notices c @ N\<rparr>"

lemma core_seal:
  assumes ok: "core_ok c" and m: "(i, q, Live) \<in> set (cr_assignments c)"
    and f: "writes_only i f (cr_instances c)" "\<And>acts. plan c q = Some acts \<Longrightarrow> on_path acts i (map f (cr_instances c)) (length acts)"
    and N: "set N \<subseteq> {Some q}" "count_list (cr_notices c @ N) (Some q) \<le> 32"
    and st: "plan c q = None \<or> (\<exists>acts k resp. plan c q = Some acts \<and> on_path acts i (cr_instances c) k \<and> k < length acts \<and> evaluateNextActivity acts (a_id (acts ! k)) resp = Inr None)"
  shows "core_ok (seal_core i q f N c) \<and> case_step (cases_of c) (cases_of (seal_core i q f N c))"
proof -
  let ?e = "end_core i q Done c" and ?c = "seal_core i q f N c"
  have ko: "keys_ok c" using ok by (simp add: core_ok_def)
  have e: "keys_ok ?e" by (rule end_core_keys[OF ko m])
  have s: "cr_assignments ?c = cr_assignments ?e" "cr_requests ?c = cr_requests ?e" "cr_revisions ?c = cr_revisions c" "cr_instances ?c = map f (cr_instances c)"
    "cr_sealed ?c = cr_sealed c @ [i]" "cr_notices ?c = cr_notices c @ N" "plan ?c = plan c"
    by (simp_all add: seal_core_def fun_eq_iff)
  note a = end_core_assignments[OF ko m, of _ _ _ Done]
  have keys: "keys_ok ?c" using keys_rows[OF e, of i f] f(1) by (simp add: keys_ok_def s)
  have positions: "positions_ok ?c"
    unfolding positions_ok_def
  proof (clarify)
    fix i' r l acts' assume *: "(i', r, l) \<in> set (cr_assignments ?c)" "plan ?c r = Some acts'"
    show "\<exists>k. on_path acts' i' (cr_instances ?c) k \<and> (if l = Done then k = length acts' else k < length acts')"
    proof (cases "i' = i")
      case True
      with *(1) have "r = q" "l = Done" by (simp_all add: s a)
      with True *(2) f(2) show ?thesis by (simp add: s)
    next
      case False
      from *(1,2) False have "(i', r, l) \<in> set (cr_assignments c)" "plan c r = Some acts'" by (simp_all add: s a)
      from positions_okD[OF _ this] ok obtain k' where "on_path acts' i' (cr_instances c) k'" "if l = Done then k' = length acts' else k' < length acts'"
        by (auto simp: core_ok_def)
      with writes_only_path[OF f(1) False] show ?thesis by (intro exI[of _ k']) (simp add: s)
    qed
  qed
  have sealed: "sealed_ok ?c"
  proof -
    have "(i, r, Done) \<notin> set (cr_assignments c)" for r using keys_assignment[OF ko m, of r Done] by auto
    with ok show ?thesis by (auto simp: core_ok_def sealed_ok_def s a split: if_splits)
  qed
  have notices: "notices_ok ?c"
  proof (rule notices_okI)
    have n: "notices_ok c" using ok by (simp add: core_ok_def)
    have other: "count_list (cr_notices c @ N) (Some r) = count_list (cr_notices c) (Some r)" if "r \<noteq> q" for r
      using N(1) that by (induction N) auto
    {
      fix r assume "Some r \<in> set (cr_notices ?c)"
      then have "Some r \<in> set (cr_notices c) \<or> r = q" using N(1) by (auto simp: s)
      moreover obtain w where "(q, w, Live) \<in> set (cr_requests c)" using keys_joined[OF ko m] by blast
      ultimately have "r \<in> fst ` set (cr_requests c)" using notices_okD(1)[OF n] keyI by metis
      then show "r \<in> fst ` set (cr_requests ?c)" by (simp add: s) (simp add: end_core_def)
    }
    fix r w l assume r: "(r, w, l) \<in> set (cr_requests ?c)"
    show "count_list (cr_notices ?c) (Some r) \<le> (if l = Done then 32 else 31)"
    proof (cases "r = q")
      case True
      with r N(2) show ?thesis by (simp add: s end_core_requests)
    next
      case False
      with r notices_okD(2)[OF n, of r w l] other[OF False] show ?thesis by (simp add: s end_core_requests)
    qed
  qed
  have "core_ok ?c" using keys positions sealed notices ok by (simp add: core_ok_def s)
  moreover have "cases_of ?c = (cases_of c)(i \<mapsto> (plan c q, Sealed))"
  proof
    fix i'
    have "cases_of ?c i' = map_option (\<lambda>(q, l). (plan c q, stage_of (map f (cr_instances c)) i' l)) (map_of (cr_assignments ?e) i')"
      by (simp add: cases_of_def s)
    moreover have "map_of (cr_assignments c) i = Some (q, Live)" using ko m by (simp add: keys_ok_def map_of_is_SomeI)
    ultimately show "cases_of ?c i' = ((cases_of c)(i \<mapsto> (plan c q, Sealed))) i'"
      by (cases "i' = i") (simp_all add: end_core_def map_of_set_life stage_of_def[of _ _ Done] stage_writes_only[OF f(1)] cases_of_def)
  qed
  moreover have "case_step (cases_of c) ((cases_of c)(i \<mapsto> (plan c q, Sealed)))"
    using st
  proof (elim disjE exE conjE)
    assume "plan c q = None"
    then show ?thesis using cases_of_mem[OF ko m] by (simp add: stage_of_def case_answered)
  next
    fix acts k resp assume *: "plan c q = Some acts" "on_path acts i (cr_instances c) k" "k < length acts" "evaluateNextActivity acts (a_id (acts ! k)) resp = Inr None"
    then have "cases_of c i = Some (Some acts, Open k)" using cases_of_mem[OF ko m] stage_of_path[OF *(2,3)] by simp
    from case_finished[where m = "cases_of c" and i = i and acts = acts and k = k, OF this *(3,4)] *(1) show ?thesis by simp
  qed
  ultimately show ?thesis by simp
qed

end
