(* ===== verification/Effects.thy ===== *)
theory Effects
  imports Positions
begin

text \<open>
  What each operation of a request does to the tables: elimination rules that give the new database
  as an update of the old one, so that the proofs about executions need not open the operations.
\<close>

section \<open>Events and notifications\<close>

lemma append_evidence_E:
  assumes "append_evidence E D l actor i db = Inr db'"
  obtains e L where "appendEvent (en_hash E) actor (dr_uuid D l 0) i (db_ledger db) = Inr (e, L)" "db' = db\<lparr>db_ledger := L\<rparr>"
  using assms unfolding append_evidence_def by (elim bindE_E) auto

lemma request_jobs_append: "request_jobs (db\<lparr>db_jobs := db_jobs db @ J\<rparr>) q = request_jobs db q @ filter (\<lambda>j. jr_requestId j = Some q \<and> jr_jobType j = ''notification'') J"
  by (simp add: request_jobs_def)

definition notice_limit :: "js \<Rightarrow> nat" where
  "notice_limit v = (if v = JStr ''request.completed'' then 32 else 31)"

lemma queueNotification_E:
  assumes "queueNotification E D l k n db = Inr db'"
  obtains J where "db' = db\<lparr>db_jobs := db_jobs db @ J\<rparr>" "\<forall>j \<in> set J. jr_requestId j = Some (nt_requestId n)"
    "length (request_jobs db' (nt_requestId n)) \<le> notice_limit (get (nt_payload n) ''eventType'')"
proof -
  from assms obtain t where t: "requireNotificationType (get (nt_payload n) ''eventType'') = Inr t"
    "length (request_jobs db (nt_requestId n)) < (if t = ''request.completed'' then NOTIFICATION_JOB_LIMIT else NOTIFICATION_JOB_LIMIT - 1)"
    and r: "db' = db \<or> (\<exists>j. jr_requestId j = Some (nt_requestId n) \<and> db' = db\<lparr>db_jobs := db_jobs db @ [j]\<rparr>)"
    unfolding queueNotification_def Let_def
    apply (elim bindE_E guardE_E)
    subgoal for t e h
      apply (cases "list_ex (\<lambda>j. jr_idempotencyKey j = Some (nt_idempotencyKey n)) (db_jobs db)")
       apply simp
      apply (simp only: if_False)
      apply (elim fresh_E)
      apply (simp only: sum.inject)
      apply (rule that)
        apply assumption
       apply assumption
      apply (rule disjI2, rule exI, rule conjI[rotated], erule sym)
      apply simp
      done
    done
  have lim: "length (request_jobs db (nt_requestId n)) < notice_limit (get (nt_payload n) ''eventType'')"
    using t(2) requireNotificationType_Inr[THEN iffD1, OF t(1)] by (simp add: notice_limit_def NOTIFICATION_JOB_LIMIT_def split: if_splits)
  from r show ?thesis
  proof (elim disjE exE conjE)
    assume "db' = db"
    then show ?thesis using that[of "[]"] lim by simp
  next
    fix j assume j: "jr_requestId j = Some (nt_requestId n)" "db' = db\<lparr>db_jobs := db_jobs db @ [j]\<rparr>"
    show ?thesis by (rule that[of "[j]"]) (use j lim in \<open>auto simp: request_jobs_append\<close>)
  qed
qed

lemma queue_reminders_E:
  assumes "queue_reminders E D members q tenant now due k hs db = Inr db'" "get (JObj members) ''eventType'' = JStr ''request.reminder''"
  shows "\<exists>J. db' = db\<lparr>db_jobs := db_jobs db @ J\<rparr> \<and> (\<forall>j \<in> set J. jr_requestId j = Some q) \<and>
    (length (request_jobs db q) \<le> 31 \<longrightarrow> length (request_jobs db' q) \<le> 31)"
  using assms(1)
proof (induction hs arbitrary: db k)
  case Nil
  have "db = db\<lparr>db_jobs := db_jobs db @ []\<rparr>" by simp
  with Nil show ?case by (intro exI[of _ "[]"]) simp
next
  case (Cons h hs)
  show ?case
  proof (cases "due - h * 3600000 \<le> now")
    case True
    then show ?thesis using Cons.IH Cons.prems by (simp add: Let_def)
  next
    case False
    let ?n = "\<lparr>nt_availableAt = due - h * 3600000, nt_idempotencyKey = q @ '':reminder:'' @ show_int h,
      nt_payload = JObj ((''dueAt'', JStr (toISOString due)) # members), nt_requestId = q, nt_tenantId = tenant\<rparr>"
    from Cons.prems(1) False obtain db1 where q: "queueNotification E D ''reminder'' k ?n db = Inr db1"
      "queue_reminders E D members q tenant now due (Suc k) hs db1 = Inr db'"
      by (auto simp: Let_def elim!: bindE_E)
    have "get (nt_payload ?n) ''eventType'' = JStr ''request.reminder''" using assms(2) by simp
    with q(1) obtain J where J: "db1 = db\<lparr>db_jobs := db_jobs db @ J\<rparr>" "\<forall>j \<in> set J. jr_requestId j = Some q" "length (request_jobs db1 q) \<le> 31"
      by (elim queueNotification_E) (simp add: notice_limit_def)
    from Cons.IH[OF q(2)] J(3) obtain J' where J': "db' = db1\<lparr>db_jobs := db_jobs db1 @ J'\<rparr>" "\<forall>j \<in> set J'. jr_requestId j = Some q"
      "length (request_jobs db' q) \<le> 31" by blast
    show ?thesis by (rule exI[of _ "J @ J'"]) (use J J' in auto)
  qed
qed

section \<open>Issue\<close>

lemma insert_request_E:
  assumes "insert_request E D actor retention r a db = Inr db'"
  obtains T where "rr_id r \<notin> rr_id ` set (db_requests db)" "pa_id a \<notin> pa_id ` set (db_assignments db)"
    "pa_handleDigest a \<notin> pa_handleDigest ` set (db_assignments db)" "lg_heads (db_ledger db) (pa_id a) = None"
    "db' = db\<lparr>db_requests := db_requests db @ [r], db_assignments := db_assignments db @ [a], db_ledger := open_chain (pa_id a) (db_ledger db), db_lifecycle := T\<rparr>"
proof -
  from assms obtain T where "rr_id r \<notin> rr_id ` set (db_requests db)" "pa_id a \<notin> pa_id ` set (db_assignments db) \<and>
      pa_handleDigest a \<notin> pa_handleDigest ` set (db_assignments db) \<and> lg_heads (db_ledger db) (pa_id a) = None"
    "Inr (db\<lparr>db_requests := db_requests db @ [r], db_assignments := db_assignments db @ [a], db_ledger := open_chain (pa_id a) (db_ledger db), db_lifecycle := T\<rparr>) = (Inr db' :: engine_db res)"
    unfolding insert_request_def by (elim bindE_E guardE_E fresh_E)
  then show ?thesis by (intro that[of T]) simp_all
qed

lemma issue_single_E:
  assumes "issue_single E D actor input db = Inr (x, db')"
  obtains requester profile admission T e i L r a w where
    "assertTenantCapacity (en_hash E) (ws_profiles (db_workspace db)) (db_usage db) (ii_tenantId input) Active_requests 1 = Inr profile"
    "r = single_request D actor input requester profile admission" "w = single_revision D input"
    "a = new_assignment E D (ii_tenantId input) (ii_intendedEmail input) ''issued'' (dr_clock D ''issuedAt'')"
    "rr_id r \<notin> rr_id ` set (db_requests db)" "pa_id a \<notin> pa_id ` set (db_assignments db)" "pa_handleDigest a \<notin> pa_handleDigest ` set (db_assignments db)"
    "wr_id w \<notin> wr_id ` set (ws_revisions (db_workspace db))" "lg_heads (db_ledger db) (pa_id a) = None"
    "appendEvent (en_hash E) actor (dr_uuid D ''event'' 0) i (open_chain (pa_id a) (db_ledger db)) = Inr (e, L)"
    "db' = db\<lparr>db_workspace := (db_workspace db)\<lparr>ws_revisions := ws_revisions (db_workspace db) @ [w]\<rparr>, db_requests := db_requests db @ [r],
       db_assignments := db_assignments db @ [a], db_ledger := L, db_lifecycle := T\<rparr>"
proof -
  let ?w = "single_revision D input" and ?a = "new_assignment E D (ii_tenantId input) (ii_intendedEmail input) ''issued'' (dr_clock D ''issuedAt'')"
  let ?db = "db\<lparr>db_workspace := (db_workspace db)\<lparr>ws_revisions := ws_revisions (db_workspace db) @ [?w]\<rparr>\<rparr>"
  from assms obtain requester profile admission tenant db1 where
    c: "assertTenantCapacity (en_hash E) (ws_profiles (db_workspace db)) (db_usage db) (ii_tenantId input) Active_requests 1 = Inr profile"
    and w: "wr_id ?w \<notin> wr_id ` set (ws_revisions (db_workspace db))"
    and r: "insert_request E D actor ''tenant_default'' (single_request D actor input requester profile admission) ?a ?db = Inr db1"
    and e: "append_evidence E D ''event'' actor (single_event D input requester profile admission tenant) db1 = Inr db'"
    unfolding issue_single_def Let_def by (elim bindE_E fresh_E) auto
  let ?r = "single_request D actor input requester profile admission"
  from r obtain T where t: "rr_id ?r \<notin> rr_id ` set (db_requests ?db)" "pa_id ?a \<notin> pa_id ` set (db_assignments ?db)"
    "pa_handleDigest ?a \<notin> pa_handleDigest ` set (db_assignments ?db)" "lg_heads (db_ledger ?db) (pa_id ?a) = None"
    "db1 = ?db\<lparr>db_requests := db_requests ?db @ [?r], db_assignments := db_assignments ?db @ [?a], db_ledger := open_chain (pa_id ?a) (db_ledger ?db), db_lifecycle := T\<rparr>"
    by (rule insert_request_E)
  from e obtain v L where l: "appendEvent (en_hash E) actor (dr_uuid D ''event'' 0) (single_event D input requester profile admission tenant) (db_ledger db1) = Inr (v, L)"
    "db' = db1\<lparr>db_ledger := L\<rparr>" by (rule append_evidence_E)
  show ?thesis
    by (rule that[OF c refl refl refl, of requester admission "single_event D input requester profile admission tenant" v L T]) (use t w l in simp_all)
qed

lemma insert_instances_E:
  assumes "insert_instances rows db = Inr db'"
  obtains "distinct (map in_id (db_instances db @ rows))" "db' = db\<lparr>db_instances := db_instances db @ rows\<rparr>"
  using assms unfolding insert_instances_def by (elim fresh_E) simp

lemma queue_issue_notices_E:
  assumes "queue_issue_notices E D input w doc profile db = Inr db'"
  shows "\<exists>J. db' = db\<lparr>db_jobs := db_jobs db @ J\<rparr> \<and> (\<forall>j \<in> set J. jr_requestId j = Some (dr_uuid D ''request'' 0)) \<and>
    (length (request_jobs db (dr_uuid D ''request'' 0)) \<le> 31 \<longrightarrow> length (request_jobs db' (dr_uuid D ''request'' 0)) \<le> 31)"
proof -
  let ?q = "dr_uuid D ''request'' 0" and ?m = "\<lambda>t. invitation t (dr_handle D) input (dr_uuid D ''request'' 0) profile (wr_title w)"
  have ty: "get (JObj (?m t)) ''eventType'' = JStr t" for t by (simp add: invitation_def)
  from assms(1) obtain db1 where d: "(if np_onIssue (wd_notifications doc)
             then queueNotification E D ''invitation'' 0
               \<lparr>nt_availableAt = pi_scheduledFor input, nt_idempotencyKey = ?q @ '':issued'', nt_payload = JObj (?m ''request.issued''),
                nt_requestId = ?q, nt_tenantId = pi_tenantId input\<rparr> db
             else Inr db) = Inr db1"
    "queue_reminders E D (?m ''request.reminder'') ?q (pi_tenantId input) (dr_clock D ''now'') (due_of input doc) 0
       (np_reminderHoursBeforeDue (wd_notifications doc)) db1 = Inr db'"
    unfolding queue_issue_notices_def Let_def by (elim bindE_E)
  have "\<exists>J. db1 = db\<lparr>db_jobs := db_jobs db @ J\<rparr> \<and> (\<forall>j \<in> set J. jr_requestId j = Some ?q) \<and>
    (length (request_jobs db ?q) \<le> 31 \<longrightarrow> length (request_jobs db1 ?q) \<le> 31)"
  proof (cases "np_onIssue (wd_notifications doc)")
    case True
    with d(1) show ?thesis by (simp only: if_True) (elim queueNotification_E; use ty in \<open>auto simp: notice_limit_def\<close>)
  next
    case False
    with d(1) show ?thesis by (intro exI[of _ "[]"]) simp
  qed
  then obtain J where J: "db1 = db\<lparr>db_jobs := db_jobs db @ J\<rparr>" "\<forall>j \<in> set J. jr_requestId j = Some ?q"
    "length (request_jobs db ?q) \<le> 31 \<longrightarrow> length (request_jobs db1 ?q) \<le> 31" by blast
  from queue_reminders_E[OF d(2) ty] obtain J' where J': "db' = db1\<lparr>db_jobs := db_jobs db1 @ J'\<rparr>" "\<forall>j \<in> set J'. jr_requestId j = Some ?q"
    "length (request_jobs db1 ?q) \<le> 31 \<longrightarrow> length (request_jobs db' ?q) \<le> 31" by blast
  show ?thesis by (rule exI[of _ "J @ J'"]) (use J J' in auto)
qed

lemma request_jobs_cong: "db_jobs db = db_jobs db' \<Longrightarrow> request_jobs db q = request_jobs db' q"
  by (simp add: request_jobs_def)

lemma issue_revision_E:
  assumes "issue_revision E D actor input w p requester profile admission tenant db = Inr db'"
  obtains r a rows S T i e L J where
    "r = published_request D actor input w (pd_document p) requester profile admission"
    "a = new_assignment E D (pi_tenantId input) (pi_intendedEmail input) (first_status D input) (dr_clock D ''now'')"
    "rr_id r \<notin> rr_id ` set (db_requests db)" "pa_id a \<notin> pa_id ` set (db_assignments db)" "pa_handleDigest a \<notin> pa_handleDigest ` set (db_assignments db)"
    "lg_heads (db_ledger db) (pa_id a) = None"
    "issue_instances E D a (pi_scheduledFor input) 0 (wd_activities (pd_document p)) (pd_definitions p) = Inr rows" "distinct (map in_id (db_instances db @ rows))"
    "appendEvent (en_hash E) actor (dr_uuid D ''event'' 0) i (open_chain (pa_id a) (db_ledger db)) = Inr (e, L)"
    "\<forall>j \<in> set J. jr_requestId j = Some (rr_id r)" "length (request_jobs db (rr_id r)) \<le> 31 \<longrightarrow> length (request_jobs db' (rr_id r)) \<le> 31"
    "db' = db\<lparr>db_workspace := (db_workspace db)\<lparr>ws_snapshots := S\<rparr>, db_requests := db_requests db @ [r], db_assignments := db_assignments db @ [a],
       db_instances := db_instances db @ rows, db_jobs := db_jobs db @ J, db_ledger := L, db_lifecycle := T\<rparr>"
proof -
  let ?r = "published_request D actor input w (pd_document p) requester profile admission"
  let ?a = "new_assignment E D (pi_tenantId input) (pi_intendedEmail input) (first_status D input) (dr_clock D ''now'')"
  let ?i = "published_event D input w (pd_document p) requester profile admission tenant"
  from assms obtain retention db1 rows db2 S db3 where
    r: "insert_request E D actor retention ?r ?a db = Inr db1"
    and rows: "issue_instances E D ?a (pi_scheduledFor input) 0 (wd_activities (pd_document p)) (pd_definitions p) = Inr rows"
    and ins: "insert_instances rows db1 = Inr db2"
    and e: "append_evidence E D ''event'' actor ?i (db2\<lparr>db_workspace := (db_workspace db)\<lparr>ws_snapshots := S\<rparr>\<rparr>) = Inr db3"
    and q: "queue_issue_notices E D input w (pd_document p) profile db3 = Inr db'"
    unfolding issue_revision_def Let_def by (elim bindE_E)
  from r obtain T where t: "rr_id ?r \<notin> rr_id ` set (db_requests db)" "pa_id ?a \<notin> pa_id ` set (db_assignments db)"
    "pa_handleDigest ?a \<notin> pa_handleDigest ` set (db_assignments db)" "lg_heads (db_ledger db) (pa_id ?a) = None"
    "db1 = db\<lparr>db_requests := db_requests db @ [?r], db_assignments := db_assignments db @ [?a], db_ledger := open_chain (pa_id ?a) (db_ledger db), db_lifecycle := T\<rparr>"
    by (rule insert_request_E)
  from ins have n: "distinct (map in_id (db_instances db1 @ rows))" "db2 = db1\<lparr>db_instances := db_instances db1 @ rows\<rparr>"
    by (rule insert_instances_E, blast)+
  from e obtain v L where l: "appendEvent (en_hash E) actor (dr_uuid D ''event'' 0) ?i (db_ledger db2) = Inr (v, L)"
    "db3 = db2\<lparr>db_workspace := (db_workspace db)\<lparr>ws_snapshots := S\<rparr>, db_ledger := L\<rparr>" by (elim append_evidence_E) simp
  have id: "rr_id ?r = dr_uuid D ''request'' 0" by (simp add: published_request_def)
  have jobs3: "request_jobs db3 q = request_jobs db q" for q by (rule request_jobs_cong) (simp add: l n t)
  have "\<exists>J. db' = db3\<lparr>db_jobs := db_jobs db3 @ J\<rparr> \<and> (\<forall>j \<in> set J. jr_requestId j = Some (rr_id ?r))"
    using queue_issue_notices_E[OF q] id by auto
  then obtain J where J: "db' = db3\<lparr>db_jobs := db_jobs db3 @ J\<rparr>" "\<forall>j \<in> set J. jr_requestId j = Some (rr_id ?r)" by blast
  have lim: "length (request_jobs db (rr_id ?r)) \<le> 31 \<longrightarrow> length (request_jobs db' (rr_id ?r)) \<le> 31"
    using queue_issue_notices_E[OF q] jobs3 id by auto
  show ?thesis
    by (rule that[where S = S and T = T and L = L and e = v and i = "?i", OF refl refl t(1-4) rows _ _ J(2) lim]) (use t n l J(1) in simp_all)
qed

lemma issuePublishedRequest_E:
  assumes "issuePublishedRequest E D actor input db = Inr (x, db')"
  obtains w p tenant requester profile admission where
    "assertTenantCapacity (en_hash E) (ws_profiles (db_workspace db)) (db_usage db) (pi_tenantId input) Active_requests 1 = Inr profile"
    "active_revision (db_workspace db) (pi_workflowRevisionId input) (pi_tenantId input) = Some (w, p, tenant)"
    "issue_revision E D actor input w p requester profile admission tenant db = Inr db'" "is_requestId x = dr_uuid D ''request'' 0"
  using assms unfolding issuePublishedRequest_def Let_def
  by (elim bindE_E) (auto split: option.splits elim!: bindE_E guardE_E)

section \<open>Actions of the owner\<close>

lemma revoke_request_E:
  assumes "revoke_request E D actor input now r a db = Inr db'"
  obtains i e L reason where "rr_status r \<noteq> ''revoked''" "appendEvent (en_hash E) actor (dr_uuid D ''action event'' 0) i (db_ledger db) = Inr (e, L)"
    "ei_assignmentId i = pa_id a"
    "db' = (suppressPendingRequestNotifications reason (ra_requestId input) now
       (set_assignment_status (pa_id a) ''revoked'' (set_request_status (ra_requestId input) ''revoked'' db)))\<lparr>db_ledger := L\<rparr>"
proof -
  let ?reason = "if ra_action input = ''reissue'' then ''request_reissued'' else ''request_revoked''"
  let ?db = "suppressPendingRequestNotifications ?reason (ra_requestId input) now
    (set_assignment_status (pa_id a) ''revoked'' (set_request_status (ra_requestId input) ''revoked'' db))"
  from assms obtain i where s: "rr_status r \<noteq> ''revoked''" "append_evidence E D ''action event'' actor i ?db = Inr db'" "ei_assignmentId i = pa_id a"
    unfolding revoke_request_def by (elim guardE_E) simp
  have led: "db_ledger ?db = db_ledger db"
    by (simp add: suppressPendingRequestNotifications_def set_assignment_status_def set_request_status_def)
  from s(2) obtain e L where l: "appendEvent (en_hash E) actor (dr_uuid D ''action event'' 0) i (db_ledger ?db) = Inr (e, L)" "db' = ?db\<lparr>db_ledger := L\<rparr>"
    by (rule append_evidence_E)
  show ?thesis by (rule that[OF s(1) _ s(3) l(2)]) (use l(1) led in simp)
qed

lemma reissue_request_E:
  assumes "reissue_request E D actor input now r a db = Inr (x, db')"
  obtains i x1 db1 where "issuePublishedRequest E D actor i db = Inr (x1, db1)"
    "db' = db1\<lparr>db_requests := map (\<lambda>q. if rr_id q = is_requestId x1 then q\<lparr>rr_reissuedFrom := Some (ra_requestId input)\<rparr> else q) (db_requests db1)\<rparr>"
  using assms unfolding reissue_request_def by (elim bindE_E) auto

text \<open>The chain of an action: revoked or not, issued again or not, reminded or not.\<close>

lemma perform_action_E:
  assumes "perform_action E D actor input now r a db = Inr (x, db')"
  obtains db1 db2 where
    "db1 = db \<or> revoke_request E D actor input now r a db = Inr db1"
    "db2 = db1 \<or> (\<exists>y. reissue_request E D actor input now r a db1 = Inr (y, db2))"
    "db' = db2 \<or> (ra_action input = ''remind'' \<and> db2 = db \<and> manual_reminder E D input now r a db2 = Inr db')"
proof -
  from assms obtain x1 db1 x2 db2 where
    1: "(if ra_action input = ''revoke'' \<or> ra_action input = ''reissue''
             then bindE (revoke_request E D actor input now r a db) (\<lambda>db1. Inr (Acted (ra_action input) (ra_requestId input) ''revoked'' False, db1))
             else Inr (Acted (ra_action input) (ra_requestId input) (rr_status r) False, db)) = Inr (x1, db1)" and
    2: "(if ra_action input = ''reissue''
             then bindE (reissue_request E D actor input now r a db1) (\<lambda>(i, db2). Inr (Reissued i, db2)) else Inr (x1, db1)) = Inr (x2, db2)" and
    3: "(if ra_action input = ''remind''
      then bindE (manual_reminder E D input now r a db2) (\<lambda>db3. Inr (Acted (ra_action input) (ra_requestId input) (rr_status r) True, db3)) else Inr (x2, db2)) = Inr (x, db')"
    unfolding perform_action_def Let_def by (elim bindE_E) (auto elim!: bindE_E)
  have "db1 = db \<or> revoke_request E D actor input now r a db = Inr db1" using 1 by (auto simp: bindE_Inr split: if_splits)
  moreover have "db2 = db1 \<or> (\<exists>y. reissue_request E D actor input now r a db1 = Inr (y, db2))" using 2 by (auto simp: bindE_Inr split: if_splits)
  moreover have "db' = db2 \<or> (ra_action input = ''remind'' \<and> db2 = db \<and> manual_reminder E D input now r a db2 = Inr db')"
    using 1 2 3 by (auto simp: bindE_Inr split: if_splits)
  ultimately show ?thesis by (rule that)
qed

lemma applyRequestAction_E:
  assumes "applyRequestAction E D actor input db = Inr (x, db')"
  obtains r a db1 now where "request_of db (ra_requestId input) (ra_tenantId input) = Some (r, a)" "rr_status r \<noteq> ''completed''" "rr_status r \<noteq> ''expired''"
    "ra_action input = ''remind'' \<Longrightarrow> rr_status r \<noteq> ''revoked''"
    "\<not> list_ex (\<lambda>q. qe_idempotencyKey q = ra_commandId input) (db_requestEvents db)"
    "perform_action E D actor input now r a db = Inr (x, db1)" "db' = db1\<lparr>db_requestEvents := db_requestEvents db1 @ [action_event D actor input now x]\<rparr>"
proof -
  from assms obtain r a db1 where *: "request_of db (ra_requestId input) (ra_tenantId input) = Some (r, a)" "rr_status r \<notin> {''completed'', ''expired''}"
    "\<not> (ra_action input = ''remind'' \<and> rr_status r = ''revoked'')" "\<not> list_ex (\<lambda>q. qe_idempotencyKey q = ra_commandId input) (db_requestEvents db)"
    "perform_action E D actor input (dr_clock D ''action'') r a db = Inr (x, db1)"
    "db' = db1\<lparr>db_requestEvents := db_requestEvents db1 @ [action_event D actor input (dr_clock D ''action'') x]\<rparr>"
    unfolding applyRequestAction_def Let_def
    by (elim guardE_E bindE_E) (clarsimp split: option.splits elim!: guardE_E bindE_E fresh_E)
  show ?thesis by (rule that[OF *(1) _ _ _ *(4,5,6)]) (use *(2,3) in auto)
qed

lemma requestAction_E:
  assumes "requestAction E D actor payload db = Inr (x, db')"
  obtains input where "validateRequestAction payload = Inr input" "applyRequestAction E D actor input db = Inr (x, db')"
    "requireTenantPermission (dr_clock D ''CURRENT_TIMESTAMP'') (db_workspace db) (ac_principalId actor) (ra_tenantId input) ''request.manage'' = Inr ()"
  using assms unfolding requestAction_def by (elim bindE_E) auto

end
