(* ===== verification/Submissions.thy ===== *)
theory Submissions
  imports Effects
begin

text \<open>
  What the participant's operations do to the tables, in the same form: opening an assignment,
  recording an answer, completing an activity, sealing the record.
\<close>

section \<open>Opening\<close>

lemma assignmentForHandle_E:
  assumes "assignmentForHandle db digest = Inr p"
  obtains "pn_assignment p \<in> set (db_assignments db)" "pn_request p \<in> set (db_requests db)" "rr_id (pn_request p) = pa_requestId (pn_assignment p)"
    "pn_revision p \<in> set (ws_revisions (db_workspace db))" "wr_id (pn_revision p) = rr_workflowRevisionId (pn_request p)"
    "pa_handleDigest (pn_assignment p) = digest"
  using assms unfolding assignmentForHandle_def by (auto split: option.splits dest!: findD)

lemma currentActivity_E:
  assumes "currentActivity db i now = Inr (c, db')"
  obtains x where "available_instance (db_instances db) i = Some x" "cu_instance c = open_instance (in_id x) now x"
    "db' = db\<lparr>db_instances := map (open_instance (in_id x) now) (db_instances db)\<rparr>"
  using assms unfolding currentActivity_def Let_def by (auto split: option.splits)

lemma ensure_session_E:
  assumes "ensure_session E D actor now assurance p db = Inr (s, db')"
  obtains S L where "db' = db\<lparr>db_sessions := S, db_ledger := L\<rparr>"
    "L = db_ledger db \<or> (\<exists>i e. ei_assignmentId i = pa_id (pn_assignment p) \<and> appendEvent (en_hash E) actor (dr_uuid D ''event'' 0) i (db_ledger db) = Inr (e, L))"
proof -
  have start: "\<exists>S L. db'' = d\<lparr>db_sessions := S, db_ledger := L\<rparr> \<and>
      (\<exists>i e. ei_assignmentId i = pa_id (pn_assignment p) \<and> appendEvent (en_hash E) actor (dr_uuid D ''event'' 0) i (db_ledger d) = Inr (e, L))"
    if "fresh ok (bindE (append_evidence E D ''event'' actor i (d\<lparr>db_sessions := S0\<rparr>)) (\<lambda>d'. Inr (y, d'))) = Inr (s', db'')"
      "ei_assignmentId i = pa_id (pn_assignment p)" for ok i d S0 y s' and db'' :: engine_db
    using that by (elim fresh_E bindE_E append_evidence_E) auto
  show ?thesis
  proof (cases "open_sessions db (pa_id (pn_assignment p)) (ac_principalId actor)")
    case Nil
    from assms obtain S L where "db' = db\<lparr>db_sessions := S, db_ledger := L\<rparr>"
      "\<exists>i e. ei_assignmentId i = pa_id (pn_assignment p) \<and> appendEvent (en_hash E) actor (dr_uuid D ''event'' 0) i (db_ledger db) = Inr (e, L)"
      unfolding ensure_session_def Let_def Nil list.case by (elim start[elim_format] exE conjE) auto
    then show ?thesis by (intro that) auto
  next
    case (Cons t ts)
    show ?thesis
    proof (cases "ss_gatewaySessionId t = ac_gatewaySessionId actor")
      case True
      then show ?thesis using assms Cons that[where S = "db_sessions db" and L = "db_ledger db"] by (simp add: ensure_session_def Let_def)
    next
      case False
      from assms False obtain S L where "db' = (close_session (ss_id t) now db)\<lparr>db_sessions := S, db_ledger := L\<rparr>"
        "\<exists>i e. ei_assignmentId i = pa_id (pn_assignment p) \<and> appendEvent (en_hash E) actor (dr_uuid D ''event'' 0) i (db_ledger (close_session (ss_id t) now db)) = Inr (e, L)"
        unfolding ensure_session_def Let_def Cons list.case by (simp only: if_True not_False_eq_True) (elim start[elim_format] exE conjE; auto)
      then show ?thesis by (intro that[where S = S and L = L]) (auto simp: close_session_def)
    qed
  qed
qed

lemma shown_record_E:
  assumes "shown_record E p now session db = Inr (v, db')"
  shows "db' = db \<or> (\<exists>c. currentActivity db (pa_id (pn_assignment p)) now = Inr (c, db'))"
  using assms unfolding shown_record_def by (cases "wr_snapshot (pn_revision p)") (auto simp: bindE_Inr)

lemma open_available_E:
  assumes "open_available E D actor p db = Inr (v, db')"
  obtains assurance s db1 where "assertAssignmentAvailable (pn_assignment p) (pn_request p) (dr_clock D ''now'') = Inr ()"
    "requireAuthenticationAssurance (en_runtime E) (rr_accessPolicy (pn_request p)) (actorSnapshot actor) (dr_clock D ''now'') = Inr assurance"
    "ensure_session E D actor (dr_clock D ''now'') assurance p (bind_participant actor (dr_clock D ''now'') p (open_scheduled p db)) = Inr (s, db1)"
    "db' = db1 \<or> (\<exists>c. currentActivity db1 (pa_id (pn_assignment p)) (dr_clock D ''now'') = Inr (c, db'))"
proof -
  from assms obtain u assurance z where *: "assertAssignmentAvailable (pn_assignment p) (pn_request p) (dr_clock D ''now'') = Inr u"
    "requireAuthenticationAssurance (en_runtime E) (rr_accessPolicy (pn_request p)) (actorSnapshot actor) (dr_clock D ''now'') = Inr assurance"
    "ensure_session E D actor (dr_clock D ''now'') assurance p (bind_participant actor (dr_clock D ''now'') p (open_scheduled p db)) = Inr z"
    "(case z of (session, db1) \<Rightarrow> shown_record E p (dr_clock D ''now'') session db1) = Inr (v, db')"
    unfolding open_available_def Let_def by (elim bindE_E)
  show ?thesis by (rule that[OF _ *(2), of "fst z" "snd z"]) (use * shown_record_E in \<open>auto split: prod.splits\<close>)
qed

lemma openAssignment_E:
  assumes "openAssignment E D actor payload db = Inr (v, db')"
  obtains digest p where "assignmentForHandle db digest = Inr p" "authorizeParticipant (pn_assignment p) actor = Inr ()"
    "db' = db \<or> (pa_status (pn_assignment p) \<noteq> ''completed'' \<and> open_available E D actor p db = Inr (v, db'))"
proof -
  from assms obtain digest p u where *: "assignmentForHandle db digest = Inr p" "authorizeParticipant (pn_assignment p) actor = Inr u"
    "(if pa_status (pn_assignment p) = ''completed''
      then bindE (assertLifecycleHistoryAvailable (db_lifecycle db) (pa_id (pn_assignment p)) (dr_clock D ''history'')) (\<lambda>_.
          Inr (JObj [(''completed'', JBool True), (''receiptAvailable'', JBool True)], db))
      else open_available E D actor p db) = Inr (v, db')"
    unfolding openAssignment_def Let_def by (elim bindE_E)
  show ?thesis by (rule that[OF *(1)]) (use * in \<open>auto simp: bindE_Inr split: if_splits\<close>)
qed

section \<open>Recording an answer\<close>

lemma checked_response_E:
  assumes "checked_response E D actor p x intent payload db = Inr ((response, assurance), db')"
  obtains y S where "validateActivityResponse (in_definition x) (get payload ''response'') = Inr y" "db' = db\<lparr>db_workspace := (db_workspace db)\<lparr>ws_snapshots := S\<rparr>\<rparr>"
    "requireAuthenticationAssurance (en_runtime E) (rr_accessPolicy (pn_request p)) (actorSnapshot actor) (dr_clock D ''completedAt'') = Inr assurance"
proof -
  from assms obtain y z where *: "validateActivityResponse (in_definition x) (get payload ''response'') = Inr y"
    "requireAuthenticationAssurance (en_runtime E) (rr_accessPolicy (pn_request p)) (actorSnapshot actor) (dr_clock D ''completedAt'') = Inr z"
    "(if intent = ''submit''
       then bindE (assertMediaCompletion (en_hash E) (dr_uuid D ''snapshot'' 0) (pa_id (pn_assignment p)) (pa_requestId (pn_assignment p)) x (submission_of y)
                    (dr_clock D ''completedAt'') (db_telemetry db) (ws_snapshots (db_workspace db))) (\<lambda>(submission, snapshots).
            Inr ((submission, z), db\<lparr>db_workspace := (db_workspace db)\<lparr>ws_snapshots := snapshots\<rparr>\<rparr>))
       else Inr ((submission_of y, z), db)) = Inr ((response, assurance), db')"
    unfolding checked_response_def Let_def by (elim bindE_E guardE_E)
  show ?thesis
  proof (cases "intent = ''submit''")
    case True
    with *(3) obtain S where "db' = db\<lparr>db_workspace := (db_workspace db)\<lparr>ws_snapshots := S\<rparr>\<rparr>" "z = assurance" by (auto simp: bindE_Inr)
    with *(1,2) show ?thesis by (intro that) auto
  next
    case False
    with *(3) have "db' = db\<lparr>db_workspace := (db_workspace db)\<lparr>ws_snapshots := ws_snapshots (db_workspace db)\<rparr>\<rparr>" "z = assurance" by simp_all
    with *(1,2) show ?thesis by (intro that[of y "ws_snapshots (db_workspace db)"]) simp_all
  qed
qed

lemma insert_revision_row_E:
  assumes "insert_revision_row E D actor p x intent commandId interactionId clientContext response assurance db = Inr (revision, db')"
  obtains v i e L where "rv_commandId v = commandId" "rv_activityInstanceId v = in_id x" "rv_assignmentId v = pa_id (pn_assignment p)"
    "\<not> list_ex (\<lambda>v. rv_commandId v = commandId) (db_revisions db)" "ei_assignmentId i = pa_id (pn_assignment p)"
    "appendEvent (en_hash E) actor (dr_uuid D ''event'' 0) i (db_ledger db) = Inr (e, L)" "db' = db\<lparr>db_revisions := db_revisions db @ [v], db_ledger := L\<rparr>"
proof -
  from assms obtain v i where *: "\<not> list_ex (\<lambda>v. rv_id v = dr_uuid D ''response revision'' 0 \<or> rv_commandId v = commandId) (db_revisions db)"
    "append_evidence E D ''event'' actor i (db\<lparr>db_revisions := db_revisions db @ [v]\<rparr>) = Inr db'"
    "rv_commandId v = commandId" "rv_activityInstanceId v = in_id x" "rv_assignmentId v = pa_id (pn_assignment p)" "ei_assignmentId i = pa_id (pn_assignment p)"
    unfolding insert_revision_row_def Let_def by (elim guardE_E bindE_E) simp
  from *(2) obtain e L where "appendEvent (en_hash E) actor (dr_uuid D ''event'' 0) i (db_ledger db) = Inr (e, L)"
    "db' = db\<lparr>db_revisions := db_revisions db @ [v], db_ledger := L\<rparr>" by (elim append_evidence_E) simp
  moreover have "\<not> list_ex (\<lambda>v. rv_commandId v = commandId) (db_revisions db)" using *(1) by (auto simp: list_ex_iff)
  ultimately show ?thesis using *(3-6) by (intro that)
qed

lemma insert_response_row_E:
  assumes "insert_response_row n db = Inr db'"
  obtains "\<not> list_ex (\<lambda>v. an_activityInstanceId v = an_activityInstanceId n) (db_responses db)" "db' = db\<lparr>db_responses := db_responses db @ [n]\<rparr>"
  using assms unfolding insert_response_row_def by (elim guardE_E) (auto simp: list_ex_iff)

lemma complete_activity_E:
  assumes "complete_activity E D actor p w x commandId interactionId clientContext response revision db = Inr (next1, db')"
  obtains n d I i e L where "an_assignmentId n = pa_id (pn_assignment p)" "an_activityInstanceId n = in_id x" "an_outcome n = sb_outcome response"
    "\<not> list_ex (\<lambda>v. an_activityInstanceId v = in_id x) (db_responses db)"
    "evaluateNextActivity (wd_activities (pd_document w)) (in_activityId x) (JObj [(''outcome'', JStr (sb_outcome response))]) = Inr d"
    "route_instances (wd_activities (pd_document w)) (pa_id (pn_assignment p)) d (in_id x) (dr_clock D ''completedAt'') (db_instances db) = Inr (next1, I)"
    "ei_assignmentId i = pa_id (pn_assignment p)" "appendEvent (en_hash E) actor (dr_uuid D ''completed event'' 0) i (db_ledger db) = Inr (e, L)"
    "db' = db\<lparr>db_responses := db_responses db @ [n], db_instances := I, db_ledger := L\<rparr>"
proof -
  let ?n = "response_row D E p x commandId interactionId clientContext response"
  from assms obtain db1 d z db2 where *: "insert_response_row ?n db = Inr db1"
    "evaluateNextActivity (wd_activities (pd_document w)) (in_activityId x) (JObj [(''outcome'', JStr (sb_outcome response))]) = Inr d"
    "route_instances (wd_activities (pd_document w)) (pa_id (pn_assignment p)) d (in_id x) (dr_clock D ''completedAt'') (db_instances db1) = Inr z"
    "append_evidence E D ''completed event'' actor (completed_event E D p x interactionId clientContext response revision d) (db1\<lparr>db_instances := snd z\<rparr>) = Inr db2"
    "Inr (fst z, db2) = (Inr (next1, db') :: (activity_instance option \<times> engine_db) res)"
    unfolding complete_activity_def Let_def by (elim bindE_E)
  have f: "an_assignmentId ?n = pa_id (pn_assignment p)" "an_activityInstanceId ?n = in_id x" "an_outcome ?n = sb_outcome response"
    "ei_assignmentId (completed_event E D p x interactionId clientContext response revision d) = pa_id (pn_assignment p)"
    by (simp_all add: response_row_def completed_event_def Let_def)
  from *(1) have n: "\<not> list_ex (\<lambda>v. an_activityInstanceId v = in_id x) (db_responses db)" "db1 = db\<lparr>db_responses := db_responses db @ [?n]\<rparr>"
    by (elim insert_response_row_E; simp add: f)+
  from *(4) obtain e L where l: "appendEvent (en_hash E) actor (dr_uuid D ''completed event'' 0)
      (completed_event E D p x interactionId clientContext response revision d) (db_ledger db) = Inr (e, L)"
    "db2 = db1\<lparr>db_instances := snd z, db_ledger := L\<rparr>" by (elim append_evidence_E) (simp add: n(2))
  have r: "route_instances (wd_activities (pd_document w)) (pa_id (pn_assignment p)) d (in_id x) (dr_clock D ''completedAt'') (db_instances db) = Inr (next1, snd z)"
    using *(3,5) n(2) by (cases z) simp
  show ?thesis by (rule that[OF f(1-3) n(1) *(2) r f(4) l(1)]) (use * n l in simp)
qed

section \<open>Sealing\<close>

lemma persistSeal_E:
  assumes "persistSeal E D a t events manifest i db = Inr (record1, db')"
  obtains keys m seals seal where "pa_id a \<notin> mf_assignmentId ` set (db_manifests db)" "mf_assignmentId m = pa_id a" "mf_manifest m = manifest" "mf_id m = i"
    "mf_id m \<notin> mf_id ` set (db_manifests db)"
    "\<exists>y. assertEvidenceRecord (en_verifier E) record1 (sp_primaryPublicJWK (en_provider E)) = Inr y"
    "record1 = JObj [(''events'', JArr events), (''manifest'', manifest), (''seal'', seal), (''seals'', JArr seals)]"
    "db' = db\<lparr>db_keys := keys, db_manifests := db_manifests db @ [m], db_seals := db_seals db @ insert_seals D i t seals\<rparr>"
proof -
  from assms obtain keys signed where k:
    "(case find (\<lambda>s. get s ''role'' = JStr ''vasi_integrity'') (map (\<lambda>s. with_member s ''createdAt'' (JStr (toISOString t))) signed) of
        None \<Rightarrow> throw (STORE_ERROR 500) (Because ''seal_key_mismatch'')
      | Some seal \<Rightarrow>
          fresh (i \<notin> mf_id ` set (db_manifests db) \<and> pa_id a \<notin> mf_assignmentId ` set (db_manifests db))
          (bindE (verified_record E (JObj [(''events'', JArr events), (''manifest'', manifest), (''seal'', seal),
               (''seals'', JArr (map (\<lambda>s. with_member s ''createdAt'' (JStr (toISOString t))) signed))])
              (sp_primaryPublicJWK (en_provider E))) (\<lambda>record1.
           Inr (record1, db\<lparr>db_keys := keys,
             db_manifests := db_manifests db @ [\<lparr>mf_id = i, mf_assignmentId = pa_id a, mf_requestId = pa_requestId a, mf_tenantId = pa_tenantId a,
               mf_manifest = manifest, mf_manifestHash = get seal ''manifestHash'', mf_createdAt = t\<rparr>],
             db_seals := db_seals db @ insert_seals D i t (map (\<lambda>s. with_member s ''createdAt'' (JStr (toISOString t))) signed)\<rparr>)))) = Inr (record1, db')"
    unfolding persistSeal_def Let_def by (elim bindE_E)
  let ?seals = "map (\<lambda>s. with_member s ''createdAt'' (JStr (toISOString t))) signed"
  from k obtain seal v where v: "i \<notin> mf_id ` set (db_manifests db) \<and> pa_id a \<notin> mf_assignmentId ` set (db_manifests db)"
    "verified_record E (JObj [(''events'', JArr events), (''manifest'', manifest), (''seal'', seal), (''seals'', JArr ?seals)])
              (sp_primaryPublicJWK (en_provider E)) = Inr v"
    "Inr (v, db\<lparr>db_keys := keys,
             db_manifests := db_manifests db @ [\<lparr>mf_id = i, mf_assignmentId = pa_id a, mf_requestId = pa_requestId a, mf_tenantId = pa_tenantId a,
               mf_manifest = manifest, mf_manifestHash = get seal ''manifestHash'', mf_createdAt = t\<rparr>],
             db_seals := db_seals db @ insert_seals D i t ?seals\<rparr>) = (Inr (record1, db') :: (js \<times> engine_db) res)"
    by (cases "find (\<lambda>s. get s ''role'' = JStr ''vasi_integrity'') ?seals") (auto elim!: fresh_E bindE_E)
  have "v = JObj [(''events'', JArr events), (''manifest'', manifest), (''seal'', seal), (''seals'', JArr ?seals)]"
    "\<exists>y. assertEvidenceRecord (en_verifier E) v (sp_primaryPublicJWK (en_provider E)) = Inr y"
    using v(2) by (auto simp: verified_record_def split: sum.splits)
  with v(1,3) show ?thesis by (intro that[where seals = ?seals and seal = seal and keys = keys and
      m = "\<lparr>mf_id = i, mf_assignmentId = pa_id a, mf_requestId = pa_requestId a, mf_tenantId = pa_tenantId a, mf_manifest = manifest,
        mf_manifestHash = get seal ''manifestHash'', mf_createdAt = t\<rparr>"]) simp_all
qed

lemma anchor_record_E:
  assumes "anchor_record E D actor a t db = Inr db'"
  obtains T where "db' = db\<lparr>db_lifecycle := T\<rparr>"
  using assms unfolding anchor_record_def by (elim bindE_E) auto

lemma completion_notice_E:
  assumes "completion_notice E D actor p db = Inr db'"
  obtains J where "db' = db\<lparr>db_jobs := db_jobs db @ J\<rparr>" "\<forall>j \<in> set J. jr_requestId j = Some (rr_id (pn_request p))"
    "length (request_jobs db (rr_id (pn_request p))) \<le> 31 \<Longrightarrow> length (request_jobs db' (rr_id (pn_request p))) \<le> 32"
proof (cases "truthy (get (rr_notificationPolicy (pn_request p)) ''onCompletion'')")
  case True
  with assms obtain n where "queueNotification E D ''completion'' 0 n db = Inr db'" "nt_requestId n = rr_id (pn_request p)"
    "get (nt_payload n) ''eventType'' = JStr ''request.completed''"
    unfolding completion_notice_def Let_def by simp
  then show ?thesis by (elim queueNotification_E) (rule that, auto simp: notice_limit_def)
next
  case False
  with assms have "db' = db" by (simp add: completion_notice_def Let_def)
  then show ?thesis using that[of "[]"] by simp
qed

section \<open>Finishing\<close>

lemma complete_tables_simps [simp]:
  "db_workspace (complete_tables i a t db) = db_workspace db" "db_instances (complete_tables i a t db) = db_instances db"
  "db_manifests (complete_tables i a t db) = db_manifests db" "db_jobs (complete_tables i a t db) = db_jobs db"
  "db_ledger (complete_tables i a t db) = db_ledger db" "db_responses (complete_tables i a t db) = db_responses db"
  "db_revisions (complete_tables i a t db) = db_revisions db" "db_requestEvents (complete_tables i a t db) = db_requestEvents db"
  "db_singleResponses (complete_tables i a t db) = db_singleResponses db"
  by (simp_all add: complete_tables_def close_session_def Let_def)

lemma finish_assignment_E:
  assumes "finish_assignment E D actor p w session db = Inr (receipt, db')"
  obtains t T keys S m J record1 where "pa_id (pn_assignment p) \<notin> mf_assignmentId ` set (db_manifests db)" "mf_assignmentId m = pa_id (pn_assignment p)"
    "\<exists>y. assertEvidenceRecord (en_verifier E) record1 (sp_primaryPublicJWK (en_provider E)) = Inr y"
    "get record1 ''manifest'' = mf_manifest m" "get record1 ''events'' = JArr (evidenceEvents (db_ledger db) (pa_id (pn_assignment p)))"
    "\<forall>j \<in> set J. jr_requestId j = Some (rr_id (pn_request p))"
    "length (request_jobs db (rr_id (pn_request p))) \<le> 31 \<Longrightarrow> length (request_jobs db' (rr_id (pn_request p))) \<le> 32"
    "db' = (complete_tables (ss_id session) (pn_assignment p) t db)\<lparr>db_lifecycle := T, db_keys := keys, db_manifests := db_manifests db @ [m], db_seals := S,
       db_jobs := map (suppress_job ''request_completed'' (pa_requestId (pn_assignment p)) t) (db_jobs db) @ J\<rparr>"
proof -
  let ?a = "pn_assignment p" and ?t = "dr_clock D ''completedAt''" and ?i = "dr_uuid D ''manifest'' 0"
  let ?db = "suppressPendingRequestNotifications ''request_completed'' (pa_requestId ?a) ?t (complete_tables (ss_id session) ?a ?t db)"
  from assms obtain db1 manifest z db3 where *: "anchor_record E D actor ?a ?t ?db = Inr db1"
    "persistSeal E D ?a ?t (evidenceEvents (db_ledger db1) (pa_id ?a)) manifest ?i db1 = Inr z"
    "completion_notice E D actor p (snd z) = Inr db3" "db' = db3"
    unfolding finish_assignment_def Let_def
    apply (elim bindE_E)
    subgoal for db1 delivery manifest z
      apply (cases z)
      apply (simp only: prod.case)
      apply (elim bindE_E)
      apply (rule that)
         apply assumption
        apply assumption
       apply simp_all
      done
    done
  from *(1) obtain T where T: "db1 = ?db\<lparr>db_lifecycle := T\<rparr>" by (rule anchor_record_E)
  have persist: "persistSeal E D ?a ?t (evidenceEvents (db_ledger db1) (pa_id ?a)) manifest ?i db1 = Inr (fst z, snd z)" using *(2) by simp
  obtain keys m seals seal where m: "pa_id ?a \<notin> mf_assignmentId ` set (db_manifests db1)" "mf_assignmentId m = pa_id ?a" "mf_manifest m = manifest"
    "\<exists>y. assertEvidenceRecord (en_verifier E) (fst z) (sp_primaryPublicJWK (en_provider E)) = Inr y"
    "fst z = JObj [(''events'', JArr (evidenceEvents (db_ledger db1) (pa_id ?a))), (''manifest'', manifest), (''seal'', seal), (''seals'', JArr seals)]"
    "snd z = db1\<lparr>db_keys := keys, db_manifests := db_manifests db1 @ [m], db_seals := db_seals db1 @ insert_seals D ?i ?t seals\<rparr>"
    using persist by (rule persistSeal_E)
  obtain J where J: "db3 = (snd z)\<lparr>db_jobs := db_jobs (snd z) @ J\<rparr>" "\<forall>j \<in> set J. jr_requestId j = Some (rr_id (pn_request p))"
    "length (request_jobs (snd z) (rr_id (pn_request p))) \<le> 31 \<Longrightarrow> length (request_jobs db3 (rr_id (pn_request p))) \<le> 32"
    using *(3) by (rule completion_notice_E) blast
  have jobs: "db_jobs (snd z) = map (suppress_job ''request_completed'' (pa_requestId ?a) ?t) (db_jobs db)"
    by (simp add: m(6) T suppressPendingRequestNotifications_def)
  have keep: "jr_requestId (suppress_job s q t j) = jr_requestId j \<and> jr_jobType (suppress_job s q t j) = jr_jobType j" for s q t j
    by (simp add: suppress_job_def)
  have "length (request_jobs (snd z) q) = length (request_jobs db q)" for q
    by (simp add: request_jobs_def jobs filter_map o_def keep)
  with J(3) have lim: "length (request_jobs db (rr_id (pn_request p))) \<le> 31 \<Longrightarrow> length (request_jobs db' (rr_id (pn_request p))) \<le> 32" using *(4) by simp
  have s: "get (fst z) ''manifest'' = mf_manifest m" "get (fst z) ''events'' = JArr (evidenceEvents (db_ledger db) (pa_id ?a))"
    by (simp_all add: m(3,5) T suppressPendingRequestNotifications_def)
  have "pa_id ?a \<notin> mf_assignmentId ` set (db_manifests db)" using m(1) by (simp add: T suppressPendingRequestNotifications_def)
  from that[where S = "db_seals (snd z)" and t = ?t and T = T and keys = keys, OF this m(2,4) s J(2) lim] show ?thesis
    by (simp add: *(4) J(1) m(6) T suppressPendingRequestNotifications_def)
qed

lemma open_interaction_E:
  assumes "open_interaction db i a who = Inr s"
  obtains "s \<in> set (db_sessions db)" "ss_assignmentId s = a" "ss_principalId s = who" "ss_completedAt s = None" "ss_id s = i"
  using assms unfolding open_interaction_def open_sessions_def by (auto split: option.splits dest!: findD)

lemma after_submission_E:
  assumes "after_submission E D actor p w session next1 db = Inr (k, db')"
  shows "(\<exists>y. next1 = Some y \<and> db' = db \<and> fst k = Advanced) \<or> (next1 = None \<and> (\<exists>receipt. finish_assignment E D actor p w session db = Inr (receipt, db')) \<and> fst k = Finished)"
  using assms unfolding after_submission_def by (cases next1) (auto simp: bindE_Inr)

lemma respondToWorkflowActivity_E:
  assumes "respondToWorkflowActivity E D actor p w commandId interactionId clientContext payload db = Inr (k, db')"
  obtains x v i e L S y db3 intent session where
    "available_instance (db_instances db) (pa_id (pn_assignment p)) = Some x"
    "open_interaction db interactionId (pa_id (pn_assignment p)) (ac_principalId actor) = Inr session"
    "validateActivityResponse (in_definition x) (get payload ''response'') = Inr y"
    "rv_commandId v = commandId" "rv_activityInstanceId v = in_id x" "\<not> list_ex (\<lambda>v. rv_commandId v = commandId) (db_revisions db)"
    "ei_assignmentId i = pa_id (pn_assignment p)" "appendEvent (en_hash E) actor (dr_uuid D ''event'' 0) i (db_ledger db) = Inr (e, L)"
    "db3 = db\<lparr>db_instances := map (open_instance (in_id x) (dr_clock D ''current'')) (db_instances db), db_workspace := (db_workspace db)\<lparr>ws_snapshots := S\<rparr>,
       db_revisions := db_revisions db @ [v], db_ledger := L\<rparr>" "intent_of payload = Inr intent"
    "(intent = ''save'' \<and> db' = db3 \<and> fst k = Saved) \<or>
     (intent = ''submit'' \<and> (\<exists>response revision next1 db4.
        complete_activity E D actor p w (open_instance (in_id x) (dr_clock D ''current'') x) commandId interactionId clientContext response revision db3 = Inr (next1, db4) \<and>
        after_submission E D actor p w session next1 db4 = Inr (k, db')))"
proof -
  from assms obtain session z intent ra rr where *: "open_interaction db interactionId (pa_id (pn_assignment p)) (ac_principalId actor) = Inr session"
    "currentActivity db (pa_id (pn_assignment p)) (dr_clock D ''current'') = Inr z" "intent_of payload = Inr intent"
    "checked_response E D actor p (cu_instance (fst z)) intent payload (snd z) = Inr ra"
    "insert_revision_row E D actor p (cu_instance (fst z)) intent commandId interactionId clientContext (fst (fst ra)) (snd (fst ra)) (snd ra) = Inr rr"
    "(if intent = ''save''
       then bindE (workflowParticipantProjection E p w (ss_id session, ss_startedAt session)
              ((fst z)\<lparr>cu_savedResponse := sb_value (fst (fst ra)), cu_savedLabel := JStr (display_text E (sb_display (fst (fst ra))))\<rparr>)) (\<lambda>view. Inr ((Saved, view), snd rr))
       else bindE (complete_activity E D actor p w (cu_instance (fst z)) commandId interactionId clientContext (fst (fst ra)) (fst rr) (snd rr)) (\<lambda>(nextActivity, db4).
            after_submission E D actor p w session nextActivity db4)) = Inr (k, db')"
    unfolding respondToWorkflowActivity_def Let_def
    apply (elim bindE_E)
    subgoal for session z
      apply (cases z)
      apply (simp only: prod.case)
      apply (elim bindE_E guardE_E)
      subgoal for c db1 intent ra
        apply (cases ra; cases "fst ra")
        apply (simp only: prod.case fst_conv snd_conv)
        apply (elim bindE_E)
        subgoal for sa db2 response assurance rr
          apply (cases rr)
          apply (simp only: prod.case fst_conv snd_conv)
          done
        done
      done
    done
  from *(2) obtain x where x: "available_instance (db_instances db) (pa_id (pn_assignment p)) = Some x"
    "cu_instance (fst z) = open_instance (in_id x) (dr_clock D ''current'') x"
    "snd z = db\<lparr>db_instances := map (open_instance (in_id x) (dr_clock D ''current'')) (db_instances db)\<rparr>"
    by (cases z) (auto elim: currentActivity_E)
  have row: "in_id (open_instance i t x) = in_id x" "in_definition (open_instance i t x) = in_definition x" for i t by (simp_all add: open_instance_def)
  obtain response assurance db2 where ra: "ra = ((response, assurance), db2)" by (metis prod.exhaust)
  from *(4) ra obtain y S where y: "validateActivityResponse (in_definition x) (get payload ''response'') = Inr y"
    "db2 = (snd z)\<lparr>db_workspace := (db_workspace (snd z))\<lparr>ws_snapshots := S\<rparr>\<rparr>" by (auto elim!: checked_response_E simp: x(2) row)
  obtain revision db3 where rr: "rr = (revision, db3)" by (cases rr)
  from *(5) ra rr obtain v i e L where v: "rv_commandId v = commandId" "rv_activityInstanceId v = in_id x"
    "\<not> list_ex (\<lambda>v. rv_commandId v = commandId) (db_revisions db2)" "ei_assignmentId i = pa_id (pn_assignment p)"
    "appendEvent (en_hash E) actor (dr_uuid D ''event'' 0) i (db_ledger db2) = Inr (e, L)" "db3 = db2\<lparr>db_revisions := db_revisions db2 @ [v], db_ledger := L\<rparr>"
    by (auto elim!: insert_revision_row_E simp: x(2) row)
  have "intent = ''save'' \<or> intent = ''submit''" using *(3) unfolding intent_of_def by (auto split: option.splits elim!: guardE_E)
  moreover have "db' = db3 \<and> fst k = Saved" if "intent = ''save''" using *(6) that rr by (auto simp: bindE_Inr)
  moreover have "\<exists>next1 db4. complete_activity E D actor p w (cu_instance (fst z)) commandId interactionId clientContext response revision db3 = Inr (next1, db4) \<and>
        after_submission E D actor p w session next1 db4 = Inr (k, db')" if "intent = ''submit''" using *(6) that ra rr by (auto simp: bindE_Inr)
  ultimately have "(intent = ''save'' \<and> db' = db3 \<and> fst k = Saved) \<or>
     (intent = ''submit'' \<and> (\<exists>response revision next1 db4.
        complete_activity E D actor p w (open_instance (in_id x) (dr_clock D ''current'') x) commandId interactionId clientContext response revision db3 = Inr (next1, db4) \<and>
        after_submission E D actor p w session next1 db4 = Inr (k, db')))" using x(2) by auto
  with that[OF x(1) *(1) y(1) v(1,2) _ v(4) _ _ *(3)] show ?thesis using v y(2) x(3) by simp
qed

lemma respond_single_E:
  assumes "respond_single E D actor p commandId interactionId clientContext payload db = Inr (view, db')"
  obtains n i e L T keys S m record1 where
    "\<not> list_ex (\<lambda>x. pr_assignmentId x = pa_id (pn_assignment p)) (db_singleResponses db)" "pr_assignmentId n = pa_id (pn_assignment p)"
    "ei_assignmentId i = pa_id (pn_assignment p)" "appendEvent (en_hash E) actor (dr_uuid D ''event'' 0) i (db_ledger db) = Inr (e, L)"
    "pa_id (pn_assignment p) \<notin> mf_assignmentId ` set (db_manifests db)" "mf_assignmentId m = pa_id (pn_assignment p)"
    "\<exists>y. assertEvidenceRecord (en_verifier E) record1 (sp_primaryPublicJWK (en_provider E)) = Inr y"
    "get record1 ''manifest'' = mf_manifest m" "get record1 ''events'' = JArr (evidenceEvents L (pa_id (pn_assignment p)))"
    "db' = (complete_tables interactionId (pn_assignment p) (dr_clock D ''completedAt'') db)\<lparr>db_singleResponses := db_singleResponses db @ [n],
       db_ledger := L, db_lifecycle := T, db_keys := keys, db_manifests := db_manifests db @ [m], db_seals := S\<rparr>"
proof -
  let ?a = "pn_assignment p" and ?t = "dr_clock D ''completedAt''" and ?i = "dr_uuid D ''manifest'' 0"
  from assms obtain response session assurance db1 db2 manifest z where
    o: "\<not> list_ex (\<lambda>x. pr_id x = dr_uuid D ''response'' 0 \<or> pr_assignmentId x = pa_id ?a \<or> pr_commandId x = commandId) (db_singleResponses db)"
    "append_evidence E D ''event'' actor (responded_event D p session assurance clientContext response)
       (db\<lparr>db_singleResponses := db_singleResponses db @ [single_response D p commandId interactionId clientContext response]\<rparr>) = Inr db1"
    "anchor_record E D actor ?a ?t (complete_tables interactionId ?a ?t db1) = Inr db2"
    "persistSeal E D ?a ?t (evidenceEvents (db_ledger db2) (pa_id ?a)) manifest ?i db2 = Inr z"
    "Inr (participantReceipt E (dr_clock D ''receipt'') None (fst z), snd z) = (Inr (view, db') :: (js \<times> engine_db) res)"
    unfolding respond_single_def Let_def by (elim bindE_E guardE_E)
  define n where "n = single_response D p commandId interactionId clientContext response"
  define i where "i = responded_event D p session assurance clientContext response"
  have *: "append_evidence E D ''event'' actor i (db\<lparr>db_singleResponses := db_singleResponses db @ [n]\<rparr>) = Inr db1"
    "append_evidence E D ''event'' actor i (db\<lparr>db_singleResponses := db_singleResponses db @ [n]\<rparr>) = Inr db1"
    "pr_assignmentId n = pa_id ?a" "ei_assignmentId i = pa_id ?a"
    "anchor_record E D actor ?a ?t (complete_tables interactionId ?a ?t db1) = Inr db2"
    "persistSeal E D ?a ?t (evidenceEvents (db_ledger db2) (pa_id ?a)) manifest ?i db2 = Inr z" "db' = snd z"
    using o by (simp_all add: n_def i_def single_response_def responded_event_def Let_def)
  from *(2) obtain e L where l: "appendEvent (en_hash E) actor (dr_uuid D ''event'' 0) i (db_ledger db) = Inr (e, L)"
    "db1 = db\<lparr>db_singleResponses := db_singleResponses db @ [n], db_ledger := L\<rparr>" by (elim append_evidence_E) simp
  from *(5) obtain T where T: "db2 = (complete_tables interactionId ?a ?t db1)\<lparr>db_lifecycle := T\<rparr>" by (rule anchor_record_E)
  have persist: "persistSeal E D ?a ?t (evidenceEvents (db_ledger db2) (pa_id ?a)) manifest ?i db2 = Inr (fst z, snd z)" using *(6) by simp
  obtain keys m seals seal where m: "pa_id ?a \<notin> mf_assignmentId ` set (db_manifests db2)" "mf_assignmentId m = pa_id ?a" "mf_manifest m = manifest"
    "\<exists>y. assertEvidenceRecord (en_verifier E) (fst z) (sp_primaryPublicJWK (en_provider E)) = Inr y"
    "fst z = JObj [(''events'', JArr (evidenceEvents (db_ledger db2) (pa_id ?a))), (''manifest'', manifest), (''seal'', seal), (''seals'', JArr seals)]"
    "snd z = db2\<lparr>db_keys := keys, db_manifests := db_manifests db2 @ [m], db_seals := db_seals db2 @ insert_seals D ?i ?t seals\<rparr>"
    using persist by (rule persistSeal_E)
  have s: "get (fst z) ''manifest'' = mf_manifest m" "get (fst z) ''events'' = JArr (evidenceEvents L (pa_id ?a))"
    by (simp_all add: m(3,5) T l(2))
  have n: "\<not> list_ex (\<lambda>x. pr_assignmentId x = pa_id ?a) (db_singleResponses db)" using o(1) by (auto simp: list_ex_iff)
  have "pa_id ?a \<notin> mf_assignmentId ` set (db_manifests db)" using m(1) by (simp add: T l(2))
  from that[where S = "db_seals (snd z)" and T = T and keys = keys, OF n *(3,4) l(1) this m(2,4) s] show ?thesis
    by (simp add: *(7) m(6) T l(2) complete_tables_def close_session_def Let_def)
qed

lemma respond_E:
  assumes "respond E D actor payload db = Inr (view, db')"
  obtains digest p commandId interactionId clientContext where "digestHandle E (get payload ''handle'') = Inr digest"
    "boundedToken (get payload ''commandId'') ''commandId'' 128 = Inr commandId" "assignmentForHandle db digest = Inr p" "authorizeParticipant (pn_assignment p) actor = Inr ()"
    "assertAssignmentAvailable (pn_assignment p) (pn_request p) (dr_clock D ''now'') = Inr ()" "pa_status (pn_assignment p) \<noteq> ''completed''"
    "(\<exists>w k. wr_snapshot (pn_revision p) = Some w \<and> respondToWorkflowActivity E D actor p w commandId interactionId clientContext payload db = Inr (k, db')) \<or>
     (wr_snapshot (pn_revision p) = None \<and> respond_single E D actor p commandId interactionId clientContext payload db = Inr (view, db'))"
proof -
  from assms obtain digest p commandId interactionId clientContext where *: "digestHandle E (get payload ''handle'') = Inr digest"
    "boundedToken (get payload ''commandId'') ''commandId'' 128 = Inr commandId" "assignmentForHandle db digest = Inr p" "authorizeParticipant (pn_assignment p) actor = Inr ()"
    "assertAssignmentAvailable (pn_assignment p) (pn_request p) (dr_clock D ''now'') = Inr ()" "pa_status (pn_assignment p) \<noteq> ''completed''"
    "(case wr_snapshot (pn_revision p) of
        Some w \<Rightarrow> bindE (respondToWorkflowActivity E D actor p w commandId interactionId clientContext payload db) (\<lambda>((k, view), db'). Inr (assignment_reply k view, db'))
      | None \<Rightarrow> respond_single E D actor p commandId interactionId clientContext payload db) = Inr (view, db')"
    unfolding respond_def Let_def by (elim bindE_E guardE_E) simp
  show ?thesis by (rule that[OF *(1-6)]) (use *(7) in \<open>auto simp: bindE_Inr split: option.splits\<close>)
qed

end
