(* ===== verification/Execution.thy ===== *)
theory Execution
  imports Cases Submissions
begin

text \<open>
  The store over time: issuing, opening, answering, reminding, revoking and reissuing requests, the
  company's control plane, and what else writes to the database, in any order. Every run refines
  the abstract machine of \<open>Cases\<close> and keeps the database well-formed.
\<close>

section \<open>The invariant\<close>

text \<open>A command identifier is accepted once, an activity is answered once, a single request is answered once.\<close>

definition once_ok :: "engine_db \<Rightarrow> bool" where
  "once_ok db \<longleftrightarrow> distinct (map rv_commandId (db_revisions db)) \<and> distinct (map an_activityInstanceId (db_responses db)) \<and>
     distinct (map pr_assignmentId (db_singleResponses db)) \<and> distinct (map qe_idempotencyKey (db_requestEvents db))"

definition execution_ok :: "engine_env \<Rightarrow> engine_db \<Rightarrow> bool" where
  "execution_ok E db \<longleftrightarrow> workspace_ok (en_runtime E) (en_hash E) (db_workspace db) \<and> core_ok (core_of db) \<and> once_ok db \<and>
     (\<forall>k. chain_ok (en_hash E) k (db_ledger db))"

definition cases_in :: "engine_db \<Rightarrow> cases" where
  "cases_in db = cases_of (core_of db)"

definition sound_step :: "engine_env \<Rightarrow> engine_db \<Rightarrow> engine_db \<Rightarrow> bool" where
  "sound_step E db db' \<longleftrightarrow> execution_ok E db' \<and> case_step\<^sup>*\<^sup>* (cases_in db) (cases_in db')"

lemma sound_stepI:
  "workspace_ok (en_runtime E) (en_hash E) (db_workspace db') \<Longrightarrow> core_ok (core_of db') \<and> case_step\<^sup>*\<^sup>* (cases_of (core_of db)) (cases_of (core_of db')) \<Longrightarrow>
     once_ok db' \<Longrightarrow> \<forall>k. chain_ok (en_hash E) k (db_ledger db') \<Longrightarrow> sound_step E db db'"
  by (simp add: sound_step_def execution_ok_def cases_in_def)

lemma sound_step_trans: "sound_step E db db1 \<Longrightarrow> (execution_ok E db1 \<Longrightarrow> sound_step E db1 db') \<Longrightarrow> sound_step E db db'"
  by (auto simp: sound_step_def intro: rtranclp_trans)

lemma sound_step_refl: "execution_ok E db \<Longrightarrow> sound_step E db db"
  by (simp add: sound_step_def)

text \<open>A change that leaves the core and the identifiers as they are.\<close>

lemma sound_step_quiet:
  assumes "execution_ok E db" "workspace_ok (en_runtime E) (en_hash E) (db_workspace db')" "core_of db' = core_of db" "once_ok db'"
    "\<forall>k. chain_ok (en_hash E) k (db_ledger db')"
  shows "sound_step E db db'"
  by (rule sound_stepI) (use assms in \<open>simp_all add: execution_ok_def\<close>)

lemma execution_okD:
  assumes "execution_ok E db"
  shows "workspace_ok (en_runtime E) (en_hash E) (db_workspace db)" "core_ok (core_of db)" "once_ok db" "\<forall>k. chain_ok (en_hash E) k (db_ledger db)"
  using assms by (simp_all add: execution_ok_def)

lemma workspace_revisions_ok: "workspace_ok R H W \<Longrightarrow> revisions_ok (ws_revisions W)"
proof -
  assume w: "workspace_ok R H W"
  have "well_routed (wd_activities (pd_document p)) \<and> wd_activities (pd_document p) \<noteq> [] \<and> length (wd_activities (pd_document p)) = length (pd_definitions p)"
    if "r \<in> set (ws_revisions W)" "wr_snapshot r = Some p" for r p
    using w that draft_well_routed by (fastforce simp: workspace_ok_def revision_ok_def valid_document_def dest: list_all2_lengthD)
  with w show ?thesis by (auto simp: revisions_ok_def workspace_ok_def numbered_def)
qed

lemma core_of_revisions: "cr_revisions (core_of db) = ws_revisions (db_workspace db)"
  by (simp add: core_of_def)

lemma core_of_keys: "fst ` set (cr_assignments (core_of db)) = pa_id ` set (db_assignments db)" "fst ` set (cr_requests (core_of db)) = rr_id ` set (db_requests db)"
  by (simp_all add: core_of_def image_image)

lemma count_notices: "length (request_jobs db q) = count_list (cr_notices (core_of db)) (Some q)"
proof -
  have "length (filter (\<lambda>j. jr_requestId j = Some q \<and> jr_jobType j = ''notification'') J) =
    count_list (map jr_requestId (filter (\<lambda>j. jr_jobType j = ''notification'') J)) (Some q)" for J :: "job_row list"
    by (induction J) auto
  then show ?thesis by (simp add: request_jobs_def core_of_def)
qed

section \<open>Issuing\<close>

lemma life_of_issued [simp]: "life_of ''issued'' = Live" "life_of ''scheduled'' = Live" "life_of ''in_progress'' = Live" "life_of ''revoked'' = Void" "life_of ''completed'' = Done"
  by (simp_all add: life_of_def)

lemma life_of_first [simp]: "life_of (first_status D input) = Live"
  by (simp add: first_status_def)

lemma notices_of: "map jr_requestId (filter (\<lambda>j. jr_jobType j = ''notification'') (J @ J')) =
    map jr_requestId (filter (\<lambda>j. jr_jobType j = ''notification'') J) @ map jr_requestId (filter (\<lambda>j. jr_jobType j = ''notification'') J')"
  by simp

lemma single_sound:
  assumes "issue_single E D actor input db = Inr (x, db')" "execution_ok E db"
  shows "sound_step E db db'"
proof -
  from assms(1) obtain requester profile admission T e i L r a w where
    r: "r = single_request D actor input requester profile admission" and w: "w = single_revision D input"
    and a: "a = new_assignment E D (ii_tenantId input) (ii_intendedEmail input) ''issued'' (dr_clock D ''issuedAt'')"
    and f: "rr_id r \<notin> rr_id ` set (db_requests db)" "pa_id a \<notin> pa_id ` set (db_assignments db)" "wr_id w \<notin> wr_id ` set (ws_revisions (db_workspace db))"
      "lg_heads (db_ledger db) (pa_id a) = None"
    and l: "appendEvent (en_hash E) actor (dr_uuid D ''event'' 0) i (open_chain (pa_id a) (db_ledger db)) = Inr (e, L)"
    and db': "db' = db\<lparr>db_workspace := (db_workspace db)\<lparr>ws_revisions := ws_revisions (db_workspace db) @ [w]\<rparr>, db_requests := db_requests db @ [r],
       db_assignments := db_assignments db @ [a], db_ledger := L, db_lifecycle := T\<rparr>" by (rule issue_single_E)
  note ok = execution_okD[OF assms(2)]
  have fields: "rr_id r = dr_uuid D ''request'' 0" "rr_workflowRevisionId r = wr_id w" "rr_status r = ''issued''" "pa_requestId a = dr_uuid D ''request'' 0"
    "pa_status a = ''issued''" "wr_snapshot w = None" "wr_definitionId w = None"
    by (simp_all add: r a w single_request_def new_assignment_def single_revision_def)
  have ws: "workspace_ok (en_runtime E) (en_hash E) (db_workspace db')"
    using ok(1) f(3) fields(6,7) by (auto simp: db' workspace_ok_def numbered_def revision_ok_def)
  let ?c = "(core_of db)\<lparr>cr_revisions := cr_revisions (core_of db) @ [w]\<rparr>"
  have "revisions_ok (cr_revisions (core_of db) @ [w])" using workspace_revisions_ok[OF ws] by (simp add: db' core_of_def)
  from core_publish[OF ok(2) this] have c: "core_ok ?c" "cases_of ?c = cases_of (core_of db)" by simp_all
  have w0: "plan_of_revision (cr_revisions ?c) (wr_id w) = None"
    using plan_of_revision_mem[of "cr_revisions ?c" w] c(1) fields(6) by (simp add: core_ok_def)
  have "core_ok (issue_core (pa_id a) (rr_id r) (wr_id w) [] [] ?c) \<and> case_step (cases_of ?c) (cases_of (issue_core (pa_id a) (rr_id r) (wr_id w) [] [] ?c))"
    by (rule core_issue[OF c(1)]) (use f c(1) w0 in \<open>auto simp: core_of_def image_image core_ok_def keys_ok_def\<close>)
  moreover have "core_of db' = issue_core (pa_id a) (rr_id r) (wr_id w) [] [] ?c" by (simp add: db' core_of_def issue_core_def fields)
  ultimately show ?thesis
    by (intro sound_stepI ws) (use c(2) ok(3) appendEvent_chain[OF l open_chain_ok[OF ok(4) f(4)]] in \<open>auto simp: db' once_ok_def\<close>)
qed

lemma revision_sound:
  assumes i: "issue_revision E D actor input w p requester profile admission tenant db = Inr db'" and ok0: "execution_ok E db"
    and act: "active_revision (db_workspace db) (pi_workflowRevisionId input) (pi_tenantId input) = Some (w, p, tenant)"
  shows "sound_step E db db'"
proof -
  from i obtain r a rows S T i e L J where
    r: "r = published_request D actor input w (pd_document p) requester profile admission"
    and a: "a = new_assignment E D (pi_tenantId input) (pi_intendedEmail input) (first_status D input) (dr_clock D ''now'')"
    and f: "rr_id r \<notin> rr_id ` set (db_requests db)" "pa_id a \<notin> pa_id ` set (db_assignments db)" "lg_heads (db_ledger db) (pa_id a) = None"
    and rows: "issue_instances E D a (pi_scheduledFor input) 0 (wd_activities (pd_document p)) (pd_definitions p) = Inr rows" "distinct (map in_id (db_instances db @ rows))"
    and l: "appendEvent (en_hash E) actor (dr_uuid D ''event'' 0) i (open_chain (pa_id a) (db_ledger db)) = Inr (e, L)"
    and J: "\<forall>j \<in> set J. jr_requestId j = Some (rr_id r)" "length (request_jobs db (rr_id r)) \<le> 31 \<longrightarrow> length (request_jobs db' (rr_id r)) \<le> 31"
    and db': "db' = db\<lparr>db_workspace := (db_workspace db)\<lparr>ws_snapshots := S\<rparr>, db_requests := db_requests db @ [r], db_assignments := db_assignments db @ [a],
       db_instances := db_instances db @ rows, db_jobs := db_jobs db @ J, db_ledger := L, db_lifecycle := T\<rparr>" by (rule issue_revision_E)
  note ok = execution_okD[OF ok0]
  let ?c = "core_of db" and ?N = "map jr_requestId (filter (\<lambda>j. jr_jobType j = ''notification'') J)"
  have revs: "revisions_ok (cr_revisions ?c)" and keys: "keys_ok ?c" using ok(2) by (simp_all add: core_ok_def)
  from act have w: "w \<in> set (cr_revisions ?c)" "wr_snapshot w = Some p"
    unfolding active_revision_def by (auto simp: core_of_def split: option.splits dest!: findD)
  have pl: "plan_of_revision (cr_revisions ?c) (wr_id w) = Some (wd_activities (pd_document p))" using plan_of_revision_mem[OF revs w(1)] w(2) by simp
  have len: "length (wd_activities (pd_document p)) = length (pd_definitions p)" using revs w by (auto simp: revisions_ok_def)
  have fields: "rr_id r = dr_uuid D ''request'' 0" "rr_workflowRevisionId r = wr_id w" "rr_status r = first_status D input" "pa_requestId a = dr_uuid D ''request'' 0"
    "pa_status a = first_status D input" by (simp_all add: r a published_request_def new_assignment_def)
  have new: "\<forall>x \<in> set (db_instances db). in_assignmentId x \<noteq> pa_id a"
  proof
    fix x assume "x \<in> set (db_instances db)"
    then have "in_assignmentId x \<in> fst ` set (cr_assignments ?c)" using keys by (simp add: keys_ok_def) (simp add: core_of_def)
    with f(2) show "in_assignmentId x \<noteq> pa_id a" unfolding core_of_keys by metis
  qed
  have path: "on_path (wd_activities (pd_document p)) (pa_id a) (db_instances db @ rows) 0" by (rule issue_on_path[OF rows(1) len new])
  have "Some (rr_id r) \<notin> set (cr_notices ?c)"
  proof
    assume "Some (rr_id r) \<in> set (cr_notices ?c)"
    with ok(2) have "rr_id r \<in> fst ` set (cr_requests ?c)" by (simp add: core_ok_def notices_ok_def)
    with f(1) show False unfolding core_of_keys by blast
  qed
  then have zero: "length (request_jobs db (rr_id r)) = 0" unfolding count_notices by (simp add: count_list_0_iff)
  have "length (request_jobs db' (rr_id r)) = length ?N"
  proof -
    have "count_list ?N (Some (rr_id r)) = length ?N" using J(1) by (induction J) auto
    with zero show ?thesis unfolding count_notices by (simp add: db' core_of_def)
  qed
  with J(2) zero have N: "length ?N \<le> 31" by simp
  have "core_ok (issue_core (pa_id a) (rr_id r) (wr_id w) rows ?N ?c) \<and> case_step (cases_of ?c) (cases_of (issue_core (pa_id a) (rr_id r) (wr_id w) rows ?N ?c))"
  proof (rule core_issue[OF ok(2)])
    show "pa_id a \<notin> fst ` set (cr_assignments ?c)" "rr_id r \<notin> fst ` set (cr_requests ?c)" using f(1,2) by (auto simp: core_of_def)
    show "wr_id w \<in> wr_id ` set (cr_revisions ?c)" using w(1) by simp
    show "\<forall>x \<in> set rows. in_assignmentId x = pa_id a" using issue_instances_rows[OF rows(1) len] by blast
    show "distinct (map in_id (cr_instances ?c @ rows))" using rows(2) by (simp add: core_of_def)
    show "on_path acts (pa_id a) (cr_instances ?c @ rows) 0" if "plan_of_revision (cr_revisions ?c) (wr_id w) = Some acts" for acts
      using that pl path by (simp add: core_of_def)
    show "set ?N \<subseteq> {Some (rr_id r)}" using J(1) by auto
  qed (use pl N in simp_all)
  moreover have "core_of db' = issue_core (pa_id a) (rr_id r) (wr_id w) rows ?N ?c" by (simp add: db' core_of_def issue_core_def fields)
  moreover have "workspace_ok (en_runtime E) (en_hash E) (db_workspace db')" using ok(1) by (simp add: db' workspace_ok_def)
  ultimately show ?thesis
    by (intro sound_stepI) (use ok(3) appendEvent_chain[OF l open_chain_ok[OF ok(4) f(3)]] in \<open>auto simp: db' once_ok_def\<close>)
qed

lemma published_sound: "issuePublishedRequest E D actor input db = Inr (x, db') \<Longrightarrow> execution_ok E db \<Longrightarrow> sound_step E db db'"
  by (elim issuePublishedRequest_E) (rule revision_sound)

lemma issue_sound: "issueRequest E D actor payload db = Inr (x, db') \<Longrightarrow> execution_ok E db \<Longrightarrow> sound_step E db db'"
  unfolding issueRequest_def by (elim bindE_E) (auto split: if_splits elim!: bindE_E intro: published_sound single_sound)

section \<open>Actions of the owner\<close>

lemma set_life_assignments:
  "map (\<lambda>a. (pa_id a, pa_requestId a, life_of (pa_status a))) (map (\<lambda>a. if pa_id a = i then a\<lparr>pa_status := s\<rparr> else a) A) =
   set_life i (life_of s) (map (\<lambda>a. (pa_id a, pa_requestId a, life_of (pa_status a))) A)"
  by (simp add: set_life_def)

lemma set_life_requests:
  "map (\<lambda>r. (rr_id r, rr_workflowRevisionId r, life_of (rr_status r))) (map (\<lambda>r. if rr_id r = q then r\<lparr>rr_status := s\<rparr> else r) A) =
   set_life q (life_of s) (map (\<lambda>r. (rr_id r, rr_workflowRevisionId r, life_of (rr_status r))) A)"
  by (simp add: set_life_def)

lemma suppress_keeps [simp]: "jr_requestId (suppress_job s q t j) = jr_requestId j" "jr_jobType (suppress_job s q t j) = jr_jobType j"
  by (simp_all add: suppress_job_def)

lemma notices_suppressed: "map jr_requestId (filter (\<lambda>j. jr_jobType j = ''notification'') (map (suppress_job s q t) J)) =
    map jr_requestId (filter (\<lambda>j. jr_jobType j = ''notification'') J)"
  by (simp add: filter_map o_def)

lemma request_of_E:
  assumes "request_of db q t = Some (r, a)"
  obtains "r \<in> set (db_requests db)" "rr_id r = q" "a \<in> set (db_assignments db)" "pa_requestId a = q"
  using assms unfolding request_of_def by (auto split: option.splits dest!: findD)

text \<open>The row of a request and of its assignment agree on whether it is over.\<close>

lemma core_assignment:
  assumes "execution_ok E db" "a \<in> set (db_assignments db)" "r \<in> set (db_requests db)" "rr_id r = pa_requestId a"
  shows "(pa_id a, rr_id r, life_of (rr_status r)) \<in> set (cr_assignments (core_of db))" "life_of (pa_status a) = life_of (rr_status r)"
    "(rr_id r, rr_workflowRevisionId r, life_of (rr_status r)) \<in> set (cr_requests (core_of db))"
proof -
  have k: "keys_ok (core_of db)" using execution_okD(2)[OF assms(1)] by (simp add: core_ok_def)
  have a: "(pa_id a, pa_requestId a, life_of (pa_status a)) \<in> set (cr_assignments (core_of db))" using assms(2) by (auto simp: core_of_def)
  show r: "(rr_id r, rr_workflowRevisionId r, life_of (rr_status r)) \<in> set (cr_requests (core_of db))" using assms(3) by (auto simp: core_of_def)
  from keys_joined[OF k a] keys_request[OF k r] assms(4) show l: "life_of (pa_status a) = life_of (rr_status r)" by metis
  show "(pa_id a, rr_id r, life_of (rr_status r)) \<in> set (cr_assignments (core_of db))" using a l assms(4) by simp
qed

lemma revoke_sound:
  assumes "revoke_request E D actor input now r a db = Inr db'" "execution_ok E db" "request_of db (ra_requestId input) t = Some (r, a)" "rr_status r \<noteq> ''completed''"
  shows "sound_step E db db'"
proof -
  from assms(1) obtain i e L reason where v: "rr_status r \<noteq> ''revoked''" "appendEvent (en_hash E) actor (dr_uuid D ''action event'' 0) i (db_ledger db) = Inr (e, L)"
    "db' = (suppressPendingRequestNotifications reason (ra_requestId input) now
       (set_assignment_status (pa_id a) ''revoked'' (set_request_status (ra_requestId input) ''revoked'' db)))\<lparr>db_ledger := L\<rparr>" by (rule revoke_request_E)
  from assms(3) have q: "r \<in> set (db_requests db)" "rr_id r = ra_requestId input" "a \<in> set (db_assignments db)" "pa_requestId a = ra_requestId input"
    by (auto elim: request_of_E)
  note ok = execution_okD[OF assms(2)]
  have live: "life_of (rr_status r) = Live" using v(1) assms(4) by (simp add: life_of_def)
  have m: "(pa_id a, rr_id r, Live) \<in> set (cr_assignments (core_of db))" using core_assignment(1)[OF assms(2) q(3,1)] q(2,4) live by simp
  have "core_of db' = end_core (pa_id a) (rr_id r) Void (core_of db)"
    unfolding v(3) suppressPendingRequestNotifications_def set_assignment_status_def set_request_status_def core_of_def end_core_def
    by (simp add: set_life_assignments set_life_requests notices_suppressed q(2) del: map_map filter_map)
  with core_withdraw[OF ok(2) m] have "core_ok (core_of db') \<and> case_step\<^sup>*\<^sup>* (cases_of (core_of db)) (cases_of (core_of db'))" by auto
  then show ?thesis
    by (intro sound_stepI) (use ok appendEvent_chain[OF v(2) ok(4)] in
      \<open>auto simp: v(3) suppressPendingRequestNotifications_def set_assignment_status_def set_request_status_def once_ok_def\<close>)
qed

lemma reissue_sound:
  assumes "reissue_request E D actor input now r a db = Inr (x, db')" "execution_ok E db"
  shows "sound_step E db db'"
proof -
  from assms(1) obtain i x1 db1 where v: "issuePublishedRequest E D actor i db = Inr (x1, db1)"
    "db' = db1\<lparr>db_requests := map (\<lambda>q. if rr_id q = is_requestId x1 then q\<lparr>rr_reissuedFrom := Some (ra_requestId input)\<rparr> else q) (db_requests db1)\<rparr>"
    by (rule reissue_request_E)
  have "sound_step E db1 db'" if ok: "execution_ok E db1"
  proof (rule sound_step_quiet[OF ok])
    have "(\<lambda>r. (rr_id r, rr_workflowRevisionId r, life_of (rr_status r))) \<circ> (\<lambda>q. if rr_id q = is_requestId x1 then q\<lparr>rr_reissuedFrom := Some (ra_requestId input)\<rparr> else q) =
      (\<lambda>r. (rr_id r, rr_workflowRevisionId r, life_of (rr_status r)))" by (simp add: fun_eq_iff)
    then show "core_of db' = core_of db1" by (simp add: v(2) core_of_def)
  qed (use execution_okD[OF ok] in \<open>simp_all add: v(2) once_ok_def\<close>)
  with sound_step_trans[OF published_sound[OF v(1) assms(2)]] show ?thesis .
qed

lemma remind_sound:
  assumes "manual_reminder E D input now r a db = Inr db'" "execution_ok E db" "request_of db (ra_requestId input) t = Some (r, a)"
  shows "sound_step E db db'"
proof -
  from assms(1) obtain n where n: "queueNotification E D ''manual'' 0 n db = Inr db'" "nt_requestId n = ra_requestId input"
    "get (nt_payload n) ''eventType'' = JStr ''request.reminder''"
    unfolding manual_reminder_def by simp
  from n(1) obtain J where J: "db' = db\<lparr>db_jobs := db_jobs db @ J\<rparr>" "\<forall>j \<in> set J. jr_requestId j = Some (nt_requestId n)"
    "length (request_jobs db' (nt_requestId n)) \<le> notice_limit (get (nt_payload n) ''eventType'')" by (rule queueNotification_E)
  note ok = execution_okD[OF assms(2)]
  from assms(3) have q: "r \<in> set (db_requests db)" "rr_id r = ra_requestId input" by (auto elim: request_of_E)
  let ?N = "map jr_requestId (filter (\<lambda>j. jr_jobType j = ''notification'') J)"
  have c: "core_of db' = (core_of db)\<lparr>cr_notices := cr_notices (core_of db) @ ?N\<rparr>" by (simp add: J(1) core_of_def)
  have "core_ok ((core_of db)\<lparr>cr_notices := cr_notices (core_of db) @ ?N\<rparr>)"
  proof (rule core_notify[OF ok(2)])
    show "(rr_id r, rr_workflowRevisionId r, life_of (rr_status r)) \<in> set (cr_requests (core_of db))" using q(1) by (auto simp: core_of_def)
    show "set ?N \<subseteq> {Some (rr_id r)}" using J(2) n(2) q(2) by auto
    have "count_list (cr_notices (core_of db')) (Some (rr_id r)) \<le> 31" using J(3) n(2,3) q(2) by (simp add: count_notices notice_limit_def)
    then show "count_list (cr_notices (core_of db) @ ?N) (Some (rr_id r)) \<le> (if life_of (rr_status r) = Done then 32 else 31)" by (simp add: c)
  qed
  with c show ?thesis by (intro sound_stepI) (use ok in \<open>simp_all add: J(1) once_ok_def\<close>)
qed

lemma perform_action_events:
  assumes "perform_action E D actor input now r a db = Inr (x, db')"
  shows "db_requestEvents db' = db_requestEvents db"
proof -
  from assms obtain d1 d2 where d: "d1 = db \<or> revoke_request E D actor input now r a db = Inr d1"
    "d2 = d1 \<or> (\<exists>y. reissue_request E D actor input now r a d1 = Inr (y, d2))"
    "db' = d2 \<or> (ra_action input = ''remind'' \<and> d2 = db \<and> manual_reminder E D input now r a d2 = Inr db')" by (rule perform_action_E)
  have "db_requestEvents d1 = db_requestEvents db"
    using d(1) by (elim disjE revoke_request_E) (simp_all add: suppressPendingRequestNotifications_def set_assignment_status_def set_request_status_def)
  moreover have "db_requestEvents d2 = db_requestEvents d1"
    using d(2) by (elim disjE exE reissue_request_E issuePublishedRequest_E issue_revision_E) simp_all
  moreover have "db_requestEvents db' = db_requestEvents d2"
    using d(3) unfolding manual_reminder_def by (elim disjE conjE queueNotification_E) simp_all
  ultimately show ?thesis by simp
qed

lemma action_sound:
  assumes "requestAction E D actor payload db = Inr (x, db')" "execution_ok E db"
  shows "sound_step E db db'"
proof -
  from assms(1) obtain input where "applyRequestAction E D actor input db = Inr (x, db')" by (rule requestAction_E)
  then obtain r a db1 now where p: "request_of db (ra_requestId input) (ra_tenantId input) = Some (r, a)" "rr_status r \<noteq> ''completed''"
    "\<not> list_ex (\<lambda>q. qe_idempotencyKey q = ra_commandId input) (db_requestEvents db)"
    "perform_action E D actor input now r a db = Inr (x, db1)" "db' = db1\<lparr>db_requestEvents := db_requestEvents db1 @ [action_event D actor input now x]\<rparr>"
    by (rule applyRequestAction_E)
  from p(4) obtain d1 d2 where d: "d1 = db \<or> revoke_request E D actor input now r a db = Inr d1"
    "d2 = d1 \<or> (\<exists>y. reissue_request E D actor input now r a d1 = Inr (y, d2))"
    "db1 = d2 \<or> (ra_action input = ''remind'' \<and> d2 = db \<and> manual_reminder E D input now r a d2 = Inr db1)" by (rule perform_action_E)
  have "sound_step E db d1" using d(1) revoke_sound[OF _ assms(2) p(1,2)] sound_step_refl[OF assms(2)] by blast
  then have "sound_step E db d2" by (rule sound_step_trans) (use d(2) reissue_sound sound_step_refl in blast)
  then have s1: "sound_step E db db1" using d(3) remind_sound[OF _ assms(2) p(1)] by blast
  have events: "db_requestEvents db1 = db_requestEvents db" by (rule perform_action_events[OF p(4)])
  have "sound_step E db1 db'" if ok: "execution_ok E db1"
  proof (rule sound_step_quiet[OF ok])
    show "core_of db' = core_of db1" by (simp add: p(5) core_of_def)
    show "once_ok db'" using execution_okD(3)[OF ok] p(3) events by (auto simp: once_ok_def p(5) action_event_def list_ex_iff)
  qed (use execution_okD[OF ok] in \<open>simp_all add: p(5)\<close>)
  with sound_step_trans[OF s1] show ?thesis .
qed

section \<open>Opening\<close>

lemma set_life_same: "distinct (map fst xs) \<Longrightarrow> (i, q, l) \<in> set xs \<Longrightarrow> set_life i l xs = xs"
  unfolding set_life_def by (rule map_idI) (auto dest: eq_key_imp_eq_value)

lemma participation_rows:
  assumes "assignmentForHandle db digest = Inr p" "execution_ok E db"
  shows "pn_assignment p \<in> set (db_assignments db)" "pn_request p \<in> set (db_requests db)" "rr_id (pn_request p) = pa_requestId (pn_assignment p)"
    "plan (core_of db) (rr_id (pn_request p)) = map_option (\<lambda>w. wd_activities (pd_document w)) (wr_snapshot (pn_revision p))"
proof -
  from assms(1) have r: "pn_assignment p \<in> set (db_assignments db)" "pn_request p \<in> set (db_requests db)" "rr_id (pn_request p) = pa_requestId (pn_assignment p)"
    "pn_revision p \<in> set (ws_revisions (db_workspace db))" "wr_id (pn_revision p) = rr_workflowRevisionId (pn_request p)"
    by (auto elim: assignmentForHandle_E)
  then show "pn_assignment p \<in> set (db_assignments db)" "pn_request p \<in> set (db_requests db)" "rr_id (pn_request p) = pa_requestId (pn_assignment p)" by simp_all
  have k: "keys_ok (core_of db)" and v: "revisions_ok (cr_revisions (core_of db))" using execution_okD(2)[OF assms(2)] by (simp_all add: core_ok_def)
  from plan_mem[OF k core_assignment(3)[OF assms(2) r(1,2,3)]] plan_of_revision_mem[OF v, of "pn_revision p"] r(4,5)
  show "plan (core_of db) (rr_id (pn_request p)) = map_option (\<lambda>w. wd_activities (pd_document w)) (wr_snapshot (pn_revision p))"
    by (simp add: core_of_revisions)
qed

lemma available_live:
  assumes "assignmentForHandle db digest = Inr p" "execution_ok E db" "assertAssignmentAvailable (pn_assignment p) (pn_request p) now = Inr u"
    "pa_status (pn_assignment p) \<noteq> ''completed''"
  shows "(pa_id (pn_assignment p), rr_id (pn_request p), Live) \<in> set (cr_assignments (core_of db))"
    "(rr_id (pn_request p), rr_workflowRevisionId (pn_request p), Live) \<in> set (cr_requests (core_of db))"
proof -
  note r = participation_rows[OF assms(1,2)]
  note c = core_assignment[OF assms(2) r(1,2,3)]
  have "pa_status (pn_assignment p) \<noteq> ''revoked''" using assms(3) unfolding assertAssignmentAvailable_def by (elim guardE_E) simp
  then have "life_of (pa_status (pn_assignment p)) = Live" using assms(4) by (simp add: life_of_def)
  with c show "(pa_id (pn_assignment p), rr_id (pn_request p), Live) \<in> set (cr_assignments (core_of db))"
    "(rr_id (pn_request p), rr_workflowRevisionId (pn_request p), Live) \<in> set (cr_requests (core_of db))" by simp_all
qed

lemma set_life_cong:
  assumes "\<And>x. x \<in> set A \<Longrightarrow> key (f x) = (if fst (key x) = i then (i, fst (snd (key x)), l) else key x)"
  shows "map key (map f A) = set_life i l (map key A)"
proof -
  have "key (f x) = (case key x of (j, r, k) \<Rightarrow> if j = i then (j, r, l) else (j, r, k))" if "x \<in> set A" for x
    using assms[OF that] by (cases "key x") simp
  then show ?thesis by (simp add: set_life_def)
qed

lemma core_bind:
  assumes "keys_ok (core_of db)" "(pa_id (pn_assignment p), q, Live) \<in> set (cr_assignments (core_of db))" "(rr_id (pn_request p), w, Live) \<in> set (cr_requests (core_of db))"
  shows "core_of (bind_participant actor now p (open_scheduled p db)) = core_of db"
proof -
  let ?i = "pa_id (pn_assignment p)" and ?q = "rr_id (pn_request p)"
  let ?a = "\<lambda>a. (pa_id a, pa_requestId a, life_of (pa_status a))" and ?r = "\<lambda>r. (rr_id r, rr_workflowRevisionId r, life_of (rr_status r))"
  have a: "set_life ?i Live (cr_assignments (core_of db)) = cr_assignments (core_of db)" by (rule set_life_same[OF _ assms(2)]) (use assms(1) in \<open>simp add: keys_ok_def\<close>)
  have r: "set_life ?q Live (cr_requests (core_of db)) = cr_requests (core_of db)" by (rule set_life_same[OF _ assms(3)]) (use assms(1) in \<open>simp add: keys_ok_def\<close>)
  have 1: "core_of (open_scheduled p db) = core_of db"
    using a r by (auto simp: open_scheduled_def set_assignment_status_def set_request_status_def core_of_def set_life_assignments set_life_requests simp del: map_map)
  let ?db = "open_scheduled p db"
  have b: "map ?a (map (\<lambda>a. if pa_id a = ?i then bind_assignment actor now a else a) (db_assignments ?db)) = set_life ?i Live (map ?a (db_assignments ?db))"
    by (rule set_life_cong) (simp add: bind_assignment_def)
  have c: "map ?r (map (\<lambda>r. if rr_id r = ?q \<and> rr_status r \<in> {''issued'', ''scheduled''} then r\<lparr>rr_status := ''in_progress''\<rparr> else r) (db_requests ?db)) = map ?r (db_requests ?db)"
    by (auto simp: life_of_def)
  have 2: "cr_assignments (core_of ?db) = map ?a (db_assignments ?db)" "cr_requests (core_of ?db) = map ?r (db_requests ?db)" by (simp_all add: core_of_def)
  have "core_of (bind_participant actor now p ?db) = core_of ?db"
  proof (cases "unbound (pn_assignment p)")
    case True
    have "core_of (bind_participant actor now p ?db) =
      (core_of ?db)\<lparr>cr_assignments := map ?a (map (\<lambda>a. if pa_id a = ?i then bind_assignment actor now a else a) (db_assignments ?db)),
        cr_requests := map ?r (map (\<lambda>r. if rr_id r = ?q \<and> rr_status r \<in> {''issued'', ''scheduled''} then r\<lparr>rr_status := ''in_progress''\<rparr> else r) (db_requests ?db))\<rparr>"
      using True by (simp add: bind_participant_def core_of_def del: map_map)
    also have "\<dots> = core_of ?db" unfolding b c 2[symmetric] 1 a by simp
    finally show ?thesis .
  next
    case False
    then show ?thesis by (simp add: bind_participant_def)
  qed
  with 1 show ?thesis by simp
qed

lemma bind_participant_simps [simp]:
  "db_workspace (bind_participant actor now p (open_scheduled q db)) = db_workspace db" "db_ledger (bind_participant actor now p (open_scheduled q db)) = db_ledger db"
  "db_revisions (bind_participant actor now p (open_scheduled q db)) = db_revisions db" "db_responses (bind_participant actor now p (open_scheduled q db)) = db_responses db"
  "db_singleResponses (bind_participant actor now p (open_scheduled q db)) = db_singleResponses db" "db_requestEvents (bind_participant actor now p (open_scheduled q db)) = db_requestEvents db"
  by (simp_all add: bind_participant_def open_scheduled_def set_assignment_status_def set_request_status_def)

lemma shown_sound:
  assumes "execution_ok E db"
  shows "sound_step E db (db\<lparr>db_instances := map (open_instance x t) (db_instances db)\<rparr>)"
proof -
  note ok = execution_okD[OF assms]
  have "core_of (db\<lparr>db_instances := map (open_instance x t) (db_instances db)\<rparr>) = (core_of db)\<lparr>cr_instances := map (open_instance x t) (cr_instances (core_of db))\<rparr>"
    by (simp add: core_of_def)
  with core_open[OF ok(2), of x t] show ?thesis by (intro sound_stepI) (use ok in \<open>simp_all add: once_ok_def\<close>)
qed

lemma open_sound:
  assumes "openAssignment E D actor payload db = Inr (v, db')" "execution_ok E db"
  shows "sound_step E db db'"
proof -
  from assms(1) obtain digest p where p: "assignmentForHandle db digest = Inr p"
    "db' = db \<or> (pa_status (pn_assignment p) \<noteq> ''completed'' \<and> open_available E D actor p db = Inr (v, db'))" by (rule openAssignment_E)
  from p(2) show ?thesis
  proof (elim disjE conjE)
    assume "db' = db"
    with sound_step_refl[OF assms(2)] show ?thesis by simp
  next
    assume o: "pa_status (pn_assignment p) \<noteq> ''completed''" "open_available E D actor p db = Inr (v, db')"
    from o(2) obtain assurance s db1 where a: "assertAssignmentAvailable (pn_assignment p) (pn_request p) (dr_clock D ''now'') = Inr ()"
      "ensure_session E D actor (dr_clock D ''now'') assurance p (bind_participant actor (dr_clock D ''now'') p (open_scheduled p db)) = Inr (s, db1)"
      "db' = db1 \<or> (\<exists>c. currentActivity db1 (pa_id (pn_assignment p)) (dr_clock D ''now'') = Inr (c, db'))" by (rule open_available_E)
    let ?b = "bind_participant actor (dr_clock D ''now'') p (open_scheduled p db)"
    note ok = execution_okD[OF assms(2)]
    note live = available_live[OF p(1) assms(2) a(1) o(1)]
    have k: "keys_ok (core_of db)" using ok(2) by (simp add: core_ok_def)
    from a(2) obtain S L where s: "db1 = ?b\<lparr>db_sessions := S, db_ledger := L\<rparr>"
      "L = db_ledger ?b \<or> (\<exists>i e. ei_assignmentId i = pa_id (pn_assignment p) \<and> appendEvent (en_hash E) actor (dr_uuid D ''event'' 0) i (db_ledger ?b) = Inr (e, L))"
      by (rule ensure_session_E)
    have chain: "\<forall>k. chain_ok (en_hash E) k L" using s(2) ok(4) appendEvent_chain[OF _ ok(4)] by auto
    have c: "core_of db1 = core_of db" using core_bind[OF k live] by (simp add: s(1)) (simp add: core_of_def)
    have "sound_step E db db1" by (rule sound_step_quiet[OF assms(2) _ c]) (use ok chain in \<open>simp_all add: s(1) once_ok_def\<close>)
    then show ?thesis
      by (rule sound_step_trans) (use a(3) shown_sound sound_step_refl in \<open>auto elim!: currentActivity_E\<close>)
  qed
qed

section \<open>Answering\<close>

lemma complete_tables_core:
  "map (\<lambda>a. (pa_id a, pa_requestId a, life_of (pa_status a))) (db_assignments (complete_tables s a t db)) =
     set_life (pa_id a) Done (map (\<lambda>a. (pa_id a, pa_requestId a, life_of (pa_status a))) (db_assignments db))"
  "map (\<lambda>r. (rr_id r, rr_workflowRevisionId r, life_of (rr_status r))) (db_requests (complete_tables s a t db)) =
     set_life (pa_requestId a) Done (map (\<lambda>r. (rr_id r, rr_workflowRevisionId r, life_of (rr_status r))) (db_requests db))"
  by (simp_all add: complete_tables_def Let_def close_session_def) (rule set_life_cong[unfolded map_map], simp)+

lemma single_answer_sound:
  assumes "respond_single E D actor p commandId interactionId clientContext payload db = Inr (view, db')" "execution_ok E db"
    and m: "(pa_id (pn_assignment p), q, Live) \<in> set (cr_assignments (core_of db))" "q = pa_requestId (pn_assignment p)" and none: "plan (core_of db) q = None"
  shows "sound_step E db db'"
proof -
  note ok = execution_okD[OF assms(2)]
  let ?a = "pn_assignment p"
  from assms(1) obtain n i e L T keys S mf where
    o: "\<not> list_ex (\<lambda>x. pr_assignmentId x = pa_id ?a) (db_singleResponses db)" "pr_assignmentId n = pa_id ?a"
    and l: "appendEvent (en_hash E) actor (dr_uuid D ''event'' 0) i (db_ledger db) = Inr (e, L)" and mf: "mf_assignmentId mf = pa_id ?a"
    and db': "db' = (complete_tables interactionId ?a (dr_clock D ''completedAt'') db)\<lparr>db_singleResponses := db_singleResponses db @ [n],
       db_ledger := L, db_lifecycle := T, db_keys := keys, db_manifests := db_manifests db @ [mf], db_seals := S\<rparr>" by (rule respond_single_E)
  have keys: "keys_ok (core_of db)" and nn: "notices_ok (core_of db)" using ok(2) by (simp_all add: core_ok_def)
  obtain w where w: "(q, w, Live) \<in> set (cr_requests (core_of db))" using keys_joined[OF keys m(1)] by blast
  have "core_ok (seal_core (pa_id ?a) q id [] (core_of db)) \<and> case_step (cases_of (core_of db)) (cases_of (seal_core (pa_id ?a) q id [] (core_of db)))"
    by (rule core_seal[OF ok(2) m(1)]) (use none notices_okD(2)[OF nn w] in \<open>simp_all add: writes_only_def row_update_def\<close>)
  moreover have "core_of db' = seal_core (pa_id ?a) q id [] (core_of db)"
  proof -
    have "core_of db' = \<lparr>cr_assignments = set_life (pa_id ?a) Done (cr_assignments (core_of db)), cr_requests = set_life q Done (cr_requests (core_of db)),
      cr_revisions = cr_revisions (core_of db), cr_instances = cr_instances (core_of db), cr_sealed = cr_sealed (core_of db) @ [pa_id ?a],
      cr_notices = cr_notices (core_of db)\<rparr>"
      by (simp add: db' core_of_def mf complete_tables_core m(2))
    then show ?thesis by (simp add: seal_core_def end_core_def)
  qed
  ultimately show ?thesis
    by (intro sound_stepI) (use ok appendEvent_chain[OF l ok(4)] o in \<open>auto simp: db' once_ok_def list_ex_iff\<close>)
qed

lemma recorded_sound:
  assumes "execution_ok E db" "\<not> list_ex (\<lambda>w. rv_commandId w = rv_commandId v) (db_revisions db)"
    "appendEvent (en_hash E) actor eid i (db_ledger db) = Inr (e, L)"
  shows "sound_step E db (db\<lparr>db_instances := map (open_instance x t) (db_instances db), db_workspace := (db_workspace db)\<lparr>ws_snapshots := S\<rparr>,
    db_revisions := db_revisions db @ [v], db_ledger := L\<rparr>)"
proof (rule sound_step_trans[OF shown_sound[OF assms(1), of x t]])
  let ?d = "db\<lparr>db_instances := map (open_instance x t) (db_instances db)\<rparr>"
  assume d: "execution_ok E ?d"
  show "sound_step E ?d (db\<lparr>db_instances := map (open_instance x t) (db_instances db), db_workspace := (db_workspace db)\<lparr>ws_snapshots := S\<rparr>,
    db_revisions := db_revisions db @ [v], db_ledger := L\<rparr>)"
  proof (rule sound_step_quiet[OF d])
    note ok = execution_okD[OF assms(1)]
    show "\<forall>k. chain_ok (en_hash E) k (db_ledger (db\<lparr>db_instances := map (open_instance x t) (db_instances db), db_workspace := (db_workspace db)\<lparr>ws_snapshots := S\<rparr>,
      db_revisions := db_revisions db @ [v], db_ledger := L\<rparr>))" using appendEvent_chain[OF assms(3) ok(4)] by simp
  qed (use execution_okD[OF assms(1)] assms(2) in \<open>auto simp: core_of_def once_ok_def workspace_ok_def list_ex_iff\<close>)
qed

text \<open>Where the submission finds the participant, and where it leads.\<close>

lemma at_position:
  assumes ok: "execution_ok E db" and m: "(i, q, Live) \<in> set (cr_assignments (core_of db))" and p: "plan (core_of db) q = Some acts"
  obtains k where "on_path acts i (db_instances db) k" "k < length acts" "available_instance (db_instances db) i = Some (rows_of i (db_instances db) ! k)"
    "in_activityId (rows_of i (db_instances db) ! k) = a_id (acts ! k)" "in_definition (rows_of i (db_instances db) ! k) = acts ! k"
    "well_routed acts" "distinct (map in_id (db_instances db))" "cases_in db i = Some (Some acts, Open k)"
proof -
  have c: "positions_ok (core_of db)" "keys_ok (core_of db)" using execution_okD(2)[OF ok] by (simp_all add: core_ok_def)
  from positions_okD[OF c(1) m p] obtain k where k: "on_path acts i (db_instances db) k" "k < length acts" by (auto simp: core_of_def)
  have a: "available_instance (db_instances db) i = Some (rows_of i (db_instances db) ! k)" using on_path_available[OF k(1)] k(2) by simp
  note r = on_path_nth[OF k]
  from on_path_row(2,3)[OF k(1) r(1,2)] r(3) have "in_activityId (rows_of i (db_instances db) ! k) = a_id (acts ! k)" "in_definition (rows_of i (db_instances db) ! k) = acts ! k"
    by simp_all
  moreover have "distinct (map in_id (db_instances db))" using c(2) by (simp add: keys_ok_def) (simp add: core_of_def)
  moreover have "cases_in db i = Some (Some acts, Open k)" using cases_of_mem[OF c(2) m] p stage_of_path[OF k] by (simp add: cases_in_def) (simp add: core_of_def)
  ultimately show ?thesis using that[OF k a] plan_ok[OF execution_okD(2)[OF ok] p] by blast
qed

lemma routed:
  assumes ok: "execution_ok E db" and m: "(i, q, Live) \<in> set (cr_assignments (core_of db))" and p: "plan (core_of db) q = Some acts"
    and x: "available_instance (db_instances db) i = Some x" and d: "evaluateNextActivity acts (in_activityId x) resp = Inr d"
  obtains f y k where "route_instances acts i d (in_id x) t (db_instances db) = Inr (y, map f (db_instances db))" "writes_only i f (db_instances db)"
    "on_path acts i (db_instances db) k" "k < length acts" "in_activityId x = a_id (acts ! k)"
    "case d of None \<Rightarrow> y = None \<and> on_path acts i (map f (db_instances db)) (length acts)
       | Some e \<Rightarrow> \<exists>j z. index_of e acts = Some j \<and> k < j \<and> y = Some z \<and> on_path acts i (map f (db_instances db)) j"
proof -
  let ?I = "db_instances db"
  from ok m p obtain k where k: "on_path acts i ?I k" "k < length acts" "available_instance ?I i = Some (rows_of i ?I ! k)"
    "in_activityId (rows_of i ?I ! k) = a_id (acts ! k)" and w: "well_routed acts" and ids: "distinct (map in_id ?I)" by (rule at_position)
  have xr: "x = rows_of i ?I ! k" using x k(3) by simp
  have dis: "distinct (map a_id acts)" using w by (simp add: well_routed_def)
  have fw: "forward k acts d" using next_forward[OF w k(2)] d k(4) xr by simp
  have "\<exists>y I'. route_instances acts i d (in_id x) t ?I = Inr (y, I') \<and> (case d of None \<Rightarrow> y = None \<and> on_path acts i I' (length acts)
       | Some e \<Rightarrow> \<exists>j z. index_of e acts = Some j \<and> k < j \<and> y = Some z \<and> on_path acts i I' j)"
  proof (cases d)
    case None
    with route_ends[OF k(1,2) ids, of t] xr show ?thesis by auto
  next
    case (Some e)
    with fw obtain j where j: "index_of e acts = Some j" "k < j" by (auto simp: forward_def)
    from route_advances[OF k(1,2) ids dis j, of t] Some j xr show ?thesis by fastforce
  qed
  then obtain y I' where r: "route_instances acts i d (in_id x) t ?I = Inr (y, I')" "case d of None \<Rightarrow> y = None \<and> on_path acts i I' (length acts)
       | Some e \<Rightarrow> \<exists>j z. index_of e acts = Some j \<and> k < j \<and> y = Some z \<and> on_path acts i I' j" by blast
  from r(1) obtain f where f: "row_update f" "I' = map f ?I" "\<forall>z. in_assignmentId z \<noteq> i \<longrightarrow> in_id z \<noteq> in_id x \<longrightarrow> f z = z" by (rule route_update) blast
  have "writes_only i f ?I"
    unfolding writes_only_def
  proof (intro conjI f(1) ballI impI)
    fix z assume z: "z \<in> set ?I" "in_assignmentId z \<noteq> i"
    with on_path_same_row[OF k(1) ids k(2) z(1)] xr have "in_id z \<noteq> in_id x" by simp
    with f(3) z(2) show "f z = z" by blast
  qed
  from that[OF r(1)[unfolded f(2)] this k(1,2) _ r(2)[unfolded f(2)]] k(4) xr show ?thesis by simp
qed

text \<open>An answer that completes an activity: the participant moves forward, or the record is sealed.\<close>

lemma completed_sound:
  assumes ok0: "execution_ok E db" and m: "(pa_id (pn_assignment p), q, Live) \<in> set (cr_assignments (core_of db))" and q: "q = pa_requestId (pn_assignment p)"
    and rq: "rr_id (pn_request p) = q" and pl: "plan (core_of db) q = Some (wd_activities (pd_document w))"
    and x: "available_instance (db_instances db) (pa_id (pn_assignment p)) = Some x"
    and c: "complete_activity E D actor p w x commandId interactionId clientContext response revision db = Inr (next1, db4)"
    and a: "after_submission E D actor p w session next1 db4 = Inr (v, db')"
  shows "sound_step E db db'"
proof -
  let ?i = "pa_id (pn_assignment p)" and ?acts = "wd_activities (pd_document w)" and ?c = "core_of db"
  note ok = execution_okD[OF ok0]
  from c obtain n d I i e L where n: "an_activityInstanceId n = in_id x" "\<not> list_ex (\<lambda>v. an_activityInstanceId v = in_id x) (db_responses db)"
    and d: "evaluateNextActivity ?acts (in_activityId x) (JObj [(''outcome'', JStr (sb_outcome response))]) = Inr d"
    and r: "route_instances ?acts ?i d (in_id x) (dr_clock D ''completedAt'') (db_instances db) = Inr (next1, I)"
    and l: "appendEvent (en_hash E) actor (dr_uuid D ''completed event'' 0) i (db_ledger db) = Inr (e, L)"
    and db4: "db4 = db\<lparr>db_responses := db_responses db @ [n], db_instances := I, db_ledger := L\<rparr>" by (rule complete_activity_E)
  obtain f y k where f: "route_instances ?acts ?i d (in_id x) (dr_clock D ''completedAt'') (db_instances db) = Inr (y, map f (db_instances db))"
    "writes_only ?i f (db_instances db)" "on_path ?acts ?i (db_instances db) k" "k < length ?acts" "in_activityId x = a_id (?acts ! k)"
    "case d of None \<Rightarrow> y = None \<and> on_path ?acts ?i (map f (db_instances db)) (length ?acts)
       | Some e \<Rightarrow> \<exists>j z. index_of e ?acts = Some j \<and> k < j \<and> y = Some z \<and> on_path ?acts ?i (map f (db_instances db)) j"
    by (rule routed[OF ok0 m pl x d])
  have I: "I = map f (db_instances db)" "y = next1" using r f(1) by simp_all
  have ci: "cr_instances ?c = db_instances db" by (simp add: core_of_def)
  have chain: "\<forall>k. chain_ok (en_hash E) k L" by (rule appendEvent_chain[OF l ok(4)])
  have once: "once_ok db4" using ok(3) n by (auto simp: once_ok_def db4 list_ex_iff)
  show ?thesis
  proof (cases d)
    case (Some z)
    with f(6) I obtain j z' where j: "index_of z ?acts = Some j" "next1 = Some z'" "on_path ?acts ?i (map f (db_instances db)) j" by auto
    from after_submission_E[OF a] j(2) have db': "db' = db4" by auto
    have "core_ok (?c\<lparr>cr_instances := map f (cr_instances ?c)\<rparr>) \<and> case_step (cases_of ?c) (cases_of (?c\<lparr>cr_instances := map f (cr_instances ?c)\<rparr>))"
      by (rule core_advance[OF ok(2) m pl _ f(4) _ j(1)]) (use f j d Some in \<open>simp_all add: ci\<close>)
    moreover have "core_of db' = ?c\<lparr>cr_instances := map f (cr_instances ?c)\<rparr>" by (simp add: db' db4 core_of_def I)
    ultimately show ?thesis by (intro sound_stepI) (use ok chain once in \<open>auto simp: db' db4\<close>)
  next
    case None
    with f(6) I have n: "next1 = None" "on_path ?acts ?i (map f (db_instances db)) (length ?acts)" by simp_all
    from after_submission_E[OF a] n(1) obtain receipt where fin: "finish_assignment E D actor p w session db4 = Inr (receipt, db')" by auto
    then obtain t T keys S mf J where mf: "mf_assignmentId mf = ?i" and J: "\<forall>j \<in> set J. jr_requestId j = Some (rr_id (pn_request p))"
      "length (request_jobs db4 (rr_id (pn_request p))) \<le> 31 \<longrightarrow> length (request_jobs db' (rr_id (pn_request p))) \<le> 32"
      and db': "db' = (complete_tables (ss_id session) (pn_assignment p) t db4)\<lparr>db_lifecycle := T, db_keys := keys, db_manifests := db_manifests db4 @ [mf], db_seals := S,
       db_jobs := map (suppress_job ''request_completed'' (pa_requestId (pn_assignment p)) t) (db_jobs db4) @ J\<rparr>" by (rule finish_assignment_E) blast
    let ?N = "map jr_requestId (filter (\<lambda>j. jr_jobType j = ''notification'') J)"
    have core: "core_of db' = seal_core ?i q f ?N ?c"
      by (simp add: db' db4 core_of_def seal_core_def end_core_def mf complete_tables_core q I notices_suppressed del: filter_map map_map)
    have "notices_ok ?c" "keys_ok ?c" using ok(2) by (simp_all add: core_ok_def)
    then have "count_list (cr_notices ?c) (Some q) \<le> 31" using keys_joined[OF _ m] notices_okD(2) by fastforce
    then have "length (request_jobs db4 q) \<le> 31" unfolding count_notices by (simp add: db4 core_of_def)
    with J(2) rq have "count_list (cr_notices (core_of db')) (Some q) \<le> 32" by (simp add: count_notices)
    then have cnt: "count_list (cr_notices ?c @ ?N) (Some q) \<le> 32" unfolding core by (simp add: seal_core_def)
    have "core_ok (seal_core ?i q f ?N ?c) \<and> case_step (cases_of ?c) (cases_of (seal_core ?i q f ?N ?c))"
    proof (rule core_seal[OF ok(2) m])
      show "set ?N \<subseteq> {Some q}" using J(1) rq by auto
      show "plan ?c q = None \<or> (\<exists>acts k resp. plan ?c q = Some acts \<and> on_path acts ?i (cr_instances ?c) k \<and> k < length acts \<and>
          evaluateNextActivity acts (a_id (acts ! k)) resp = Inr None)"
        using pl f(3,4,5) d None unfolding ci by auto
    qed (use pl n(2) f(2) cnt in \<open>simp_all add: ci\<close>)
    with core show ?thesis by (intro sound_stepI) (use ok chain once in \<open>auto simp: db' db4 once_ok_def\<close>)
  qed
qed

lemma respond_sound:
  assumes "respond E D actor payload db = Inr (view, db')" "execution_ok E db"
  shows "sound_step E db db'"
proof -
  from assms(1) obtain digest p commandId interactionId clientContext where p: "assignmentForHandle db digest = Inr p"
    "assertAssignmentAvailable (pn_assignment p) (pn_request p) (dr_clock D ''now'') = Inr ()" "pa_status (pn_assignment p) \<noteq> ''completed''"
    and r: "(\<exists>w k. wr_snapshot (pn_revision p) = Some w \<and> respondToWorkflowActivity E D actor p w commandId interactionId clientContext payload db = Inr (k, db')) \<or>
     (wr_snapshot (pn_revision p) = None \<and> respond_single E D actor p commandId interactionId clientContext payload db = Inr (view, db'))" by (rule respond_E)
  note rows = participation_rows[OF p(1) assms(2)]
  note live = available_live[OF p(1) assms(2) p(2,3)]
  from r show ?thesis
  proof (elim disjE exE conjE)
    assume "wr_snapshot (pn_revision p) = None" "respond_single E D actor p commandId interactionId clientContext payload db = Inr (view, db')"
    then show ?thesis using single_answer_sound[OF _ assms(2) live(1) rows(3)] rows(4) by simp
  next
    fix w k assume w: "wr_snapshot (pn_revision p) = Some w" "respondToWorkflowActivity E D actor p w commandId interactionId clientContext payload db = Inr (k, db')"
    from w(2) obtain x v i e L S db3 intent session where
      x: "available_instance (db_instances db) (pa_id (pn_assignment p)) = Some x"
      and v: "rv_commandId v = commandId" "\<not> list_ex (\<lambda>v. rv_commandId v = commandId) (db_revisions db)"
        "appendEvent (en_hash E) actor (dr_uuid D ''event'' 0) i (db_ledger db) = Inr (e, L)"
      and db3: "db3 = db\<lparr>db_instances := map (open_instance (in_id x) (dr_clock D ''current'')) (db_instances db), db_workspace := (db_workspace db)\<lparr>ws_snapshots := S\<rparr>,
       db_revisions := db_revisions db @ [v], db_ledger := L\<rparr>"
      and k: "(intent = ''save'' \<and> db' = db3 \<and> fst k = Saved) \<or>
     (intent = ''submit'' \<and> (\<exists>response revision next1 db4.
        complete_activity E D actor p w (open_instance (in_id x) (dr_clock D ''current'') x) commandId interactionId clientContext response revision db3 = Inr (next1, db4) \<and>
        after_submission E D actor p w session next1 db4 = Inr (k, db')))" by (rule respondToWorkflowActivity_E)
    have s3: "sound_step E db db3" unfolding db3 by (rule recorded_sound[OF assms(2) _ v(3)]) (use v(1,2) in simp)
    from k show ?thesis
    proof (elim disjE exE conjE)
      assume "db' = db3"
      with s3 show ?thesis by simp
    next
      fix response revision next1 db4
      assume c: "complete_activity E D actor p w (open_instance (in_id x) (dr_clock D ''current'') x) commandId interactionId clientContext response revision db3 = Inr (next1, db4)"
        "after_submission E D actor p w session next1 db4 = Inr (k, db')"
      have core3: "core_of db3 = (core_of db)\<lparr>cr_instances := map (open_instance (in_id x) (dr_clock D ''current'')) (cr_instances (core_of db))\<rparr>"
        by (simp add: db3 core_of_def)
      have "sound_step E db3 db'" if ok3: "execution_ok E db3"
      proof (rule completed_sound[OF ok3 _ rows(3) refl _ _ c])
        show "(pa_id (pn_assignment p), rr_id (pn_request p), Live) \<in> set (cr_assignments (core_of db3))" using live(1) by (simp add: core3)
        show "plan (core_of db3) (rr_id (pn_request p)) = Some (wd_activities (pd_document w))" using rows(4) w(1) by (simp add: core3)
        show "available_instance (db_instances db3) (pa_id (pn_assignment p)) = Some (open_instance (in_id x) (dr_clock D ''current'') x)"
          using x by (simp add: db3 open_available)
      qed
      with sound_step_trans[OF s3] show ?thesis .
    qed
  qed
qed

end
