(* ===== verification/Runs.thy ===== *)
theory Runs
  imports Execution
begin

text \<open>
  Runs of the whole store: the operations of \<open>Requests\<close> and \<open>Participation\<close>, the control plane of
  \<open>Workspace\<close>, and what the telemetry, lifecycle and worker components write, in any order. The
  properties of this theory hold in every state such a run reaches.
\<close>

section \<open>The steps\<close>

text \<open>
  The other components append to the event ledger, write their own tables, and change the delivery
  state of a queued job, never its request or type.
\<close>

definition job_key :: "job_row \<Rightarrow> string option \<times> string" where
  "job_key j = (jr_requestId j, jr_jobType j)"

inductive execution_step :: "engine_env \<Rightarrow> (string \<Rightarrow> string option) \<Rightarrow> engine_db \<Rightarrow> engine_db \<Rightarrow> bool" for E settings where
  exec_workspace: "workspace_step (en_runtime E) (en_hash E) settings (db_workspace db) W \<Longrightarrow> execution_step E settings db (db\<lparr>db_workspace := W\<rparr>)"
| exec_tenant: "createTenant D actor payload (db_workspace db) = Inr (t, W) \<Longrightarrow> execution_step E settings db (db\<lparr>db_workspace := W\<rparr>)"
| exec_issue: "issueRequest E D actor payload db = Inr (x, db') \<Longrightarrow> execution_step E settings db db'"
| exec_action: "requestAction E D actor payload db = Inr (y, db') \<Longrightarrow> execution_step E settings db db'"
| exec_open: "openAssignment E D actor payload db = Inr (v, db') \<Longrightarrow> execution_step E settings db db'"
| exec_respond: "respond E D actor payload db = Inr (v, db') \<Longrightarrow> execution_step E settings db db'"
| exec_other: "ledger_run (en_hash E) (db_ledger db) L \<Longrightarrow> map job_key J = map job_key (db_jobs db) \<Longrightarrow>
    execution_step E settings db (db\<lparr>db_ledger := L, db_jobs := J, db_telemetry := T, db_lifecycle := F, db_attempts := A\<rparr>)"

inductive_cases execution_step_E: "execution_step E settings db db'"

lemma createWorkflow_revisions: "createWorkflow R H requests D actor payload W = Inr (x, W') \<Longrightarrow> ws_revisions W' = ws_revisions W"
  by (erule createWorkflow_E) simp

lemma updateDraft_revisions: "updateDraft R H D actor payload W = Inr (x, W') \<Longrightarrow> ws_revisions W' = ws_revisions W"
  unfolding updateDraft_def by (elim bindE_E) (clarsimp simp: Let_def split: option.splits elim!: bindE_E)

lemma publishWorkflow_revisions: "publishWorkflow R H settings D actor payload W = Inr (y, W') \<Longrightarrow> \<exists>new. ws_revisions W' = ws_revisions W @ new"
  by (elim publishWorkflow_E publish_draft_E insert_revision_E) simp

lemma workspace_step_revisions: "workspace_step R H settings W W' \<Longrightarrow> \<exists>new. ws_revisions W' = ws_revisions W @ new"
proof (induction rule: workspace_step.induct)
  case (step_create requests D actor payload W x W')
  from createWorkflow_revisions[OF this] show ?case by simp
next
  case (step_update D actor payload W x W')
  from updateDraft_revisions[OF this] show ?case by simp
next
  case (step_publish D actor payload W y W')
  from publishWorkflow_revisions[OF this] show ?case .
next
  case (step_member requests D actor payload W z W')
  from setMember_Inr(5)[OF this] show ?case by simp
next
  case (step_list now actor W u W')
  from listTenants_frame[OF this] show ?case by simp
qed

lemma createTenant_frame: "createTenant D actor payload W = Inr (t, W') \<Longrightarrow> ws_drafts W' = ws_drafts W \<and> ws_revisions W' = ws_revisions W"
  unfolding createTenant_def by (elim bindE_E guardE_E) (clarsimp simp: Let_def elim!: bindE_E guardE_E)

lemma workspace_sound:
  assumes "execution_ok E db" "workspace_ok (en_runtime E) (en_hash E) W" "ws_revisions W = ws_revisions (db_workspace db) @ new"
  shows "sound_step E db (db\<lparr>db_workspace := W\<rparr>)"
proof -
  note ok = execution_okD[OF assms(1)]
  have c: "core_of (db\<lparr>db_workspace := W\<rparr>) = (core_of db)\<lparr>cr_revisions := cr_revisions (core_of db) @ new\<rparr>" using assms(3) by (simp add: core_of_def)
  have "revisions_ok (cr_revisions (core_of db) @ new)" using workspace_revisions_ok[OF assms(2)] assms(3) by (simp add: core_of_revisions)
  from core_publish[OF ok(2) this] show ?thesis by (intro sound_stepI) (use ok assms(2) c in \<open>simp_all add: once_ok_def\<close>)
qed

lemma notice_keys: "map job_key J = map job_key J' \<Longrightarrow>
    map jr_requestId (filter (\<lambda>j. jr_jobType j = ''notification'') J) = map jr_requestId (filter (\<lambda>j. jr_jobType j = ''notification'') J')"
proof -
  assume "map job_key J = map job_key J'"
  then have "map fst (filter (\<lambda>k. snd k = ''notification'') (map job_key J)) = map fst (filter (\<lambda>k. snd k = ''notification'') (map job_key J'))" by simp
  then show ?thesis by (simp add: filter_map o_def job_key_def)
qed

lemma step_sound: "execution_step E settings db db' \<Longrightarrow> execution_ok E db \<Longrightarrow> sound_step E db db'"
proof (induction rule: execution_step.induct)
  case (exec_workspace db W)
  note ok = execution_okD[OF exec_workspace(2)]
  from workspace_step_revisions[OF exec_workspace(1)] obtain new where "ws_revisions W = ws_revisions (db_workspace db) @ new" by blast
  from workspace_sound[OF exec_workspace(2) workspace_step_ok[OF exec_workspace(1) ok(1)] this] show ?case .
next
  case (exec_tenant D actor payload db t W)
  note ok = execution_okD[OF exec_tenant(2)]
  note f = createTenant_frame[OF exec_tenant(1)]
  from f workspace_ok_cong[of W "db_workspace db"] ok(1) have "workspace_ok (en_runtime E) (en_hash E) W" by simp
  from workspace_sound[OF exec_tenant(2) this, of "[]"] f show ?case by simp
next
  case (exec_issue D actor payload db x db')
  then show ?case by (rule issue_sound)
next
  case (exec_action D actor payload db y db')
  then show ?case by (rule action_sound)
next
  case (exec_open D actor payload db v db')
  then show ?case by (rule open_sound)
next
  case (exec_respond D actor payload db v db')
  then show ?case by (rule respond_sound)
next
  case (exec_other db L J T F A)
  note ok = execution_okD[OF exec_other(3)]
  show ?case
    by (rule sound_step_quiet[OF exec_other(3)])
      (use ok ledger_run_chain[OF exec_other(1) ok(4)] notice_keys[OF exec_other(2)] in \<open>simp_all add: once_ok_def core_of_def\<close>)
qed

lemma run_sound: "(execution_step E settings)\<^sup>*\<^sup>* db0 db \<Longrightarrow> execution_ok E db0 \<Longrightarrow> sound_step E db0 db"
proof (induction rule: rtranclp_induct)
  case base
  then show ?case by (rule sound_step_refl)
next
  case (step db db')
  from sound_step_trans[OF step(3)[OF step(4)] step_sound[OF step(2)]] show ?case .
qed

lemma run_ok: "(execution_step E settings)\<^sup>*\<^sup>* db0 db \<Longrightarrow> execution_ok E db0 \<Longrightarrow> execution_ok E db"
  using run_sound by (simp add: sound_step_def)

section \<open>The abstract machine over time\<close>

definition closed :: "stage \<Rightarrow> bool" where
  "closed s \<longleftrightarrow> s = Sealed \<or> s = Withdrawn"

lemma case_step_closed: "case_step m m' \<Longrightarrow> m i = Some (p, s) \<Longrightarrow> closed s \<Longrightarrow> m' i = Some (p, s)"
  by (elim case_step_E) (auto simp: closed_def)

lemma cases_closed: "case_step\<^sup>*\<^sup>* m m' \<Longrightarrow> m i = Some (p, s) \<Longrightarrow> closed s \<Longrightarrow> m' i = Some (p, s)"
  by (induction rule: rtranclp_induct) (auto intro: case_step_closed)

text \<open>How many answers a case can still take.\<close>

fun answers_left :: "(activity list option \<times> stage) option \<Rightarrow> nat" where
  "answers_left (Some (Some acts, Open k)) = length acts - k"
| "answers_left (Some (None, Open k)) = 1"
| "answers_left (Some (p, Sealed)) = 0"
| "answers_left (Some (p, Withdrawn)) = 0"
| "answers_left None = 0"

definition plans_ok :: "cases \<Rightarrow> bool" where
  "plans_ok m \<longleftrightarrow> (\<forall>i acts s. m i = Some (Some acts, s) \<longrightarrow> well_routed acts \<and> acts \<noteq> [] \<and> (\<forall>k. s = Open k \<longrightarrow> k < length acts))"

lemma forward_answer:
  assumes "well_routed acts" "k < length acts" "evaluateNextActivity acts (a_id (acts ! k)) resp = Inr (Some d)" "index_of d acts = Some j"
  shows "k < j \<and> j < length acts"
  using next_forward[OF assms(1-3)] assms(4) index_of_Some[OF assms(4)] by (auto simp: forward_def)

lemma plans_okD: "plans_ok m \<Longrightarrow> m i = Some (Some acts, s) \<Longrightarrow> well_routed acts"
  unfolding plans_ok_def by blast

lemma open_left: "plans_ok m \<Longrightarrow> m i = Some (p, Open k) \<Longrightarrow> 0 < answers_left (m i)"
  by (cases p) (simp_all add: plans_ok_def)

lemma case_step_plans: "case_step m m' \<Longrightarrow> plans_ok m \<Longrightarrow> plans_ok m'"
proof (elim case_step_E)
  fix i acts k resp d j
  assume m: "plans_ok m" "m' = m(i \<mapsto> (Some acts, Open j))" "m i = Some (Some acts, Open k)" "k < length acts"
    "evaluateNextActivity acts (a_id (acts ! k)) resp = Inr (Some d)" "index_of d acts = Some j"
  from forward_answer[OF plans_okD[OF m(1,3)] m(4-6)] m(1-3) show "plans_ok m'" by (auto simp: plans_ok_def)
qed (auto simp: plans_ok_def)

text \<open>A step leaves a case as it is, or brings it nearer to its end.\<close>

lemma case_step_answers:
  assumes "case_step m m'" "plans_ok m" "m i = Some c"
  shows "m' i = Some c \<or> (answers_left (m' i) < answers_left (m i) \<and> fst (the (m' i)) = fst c)"
  using assms(1)
proof (rule case_step_E)
  fix j acts k resp d n
  assume m: "m' = m(j \<mapsto> (Some acts, Open n))" "m j = Some (Some acts, Open k)" "k < length acts"
    "evaluateNextActivity acts (a_id (acts ! k)) resp = Inr (Some d)" "index_of d acts = Some n"
  from forward_answer[OF plans_okD[OF assms(2) m(2)] m(3-5)] m(1,2) assms(3) show ?thesis by auto
next
  fix j acts k resp assume "m' = m(j \<mapsto> (Some acts, Sealed))" "m j = Some (Some acts, Open k)"
  then show ?thesis using open_left[OF assms(2), of i "Some acts" k] assms(3) by (cases "i = j") auto
next
  fix j k assume "m' = m(j \<mapsto> (None, Sealed))" "m j = Some (None, Open k)"
  then show ?thesis using open_left[OF assms(2), of i None k] assms(3) by (cases "i = j") auto
next
  fix j p k assume "m' = m(j \<mapsto> (p, Withdrawn))" "m j = Some (p, Open k)"
  then show ?thesis using open_left[OF assms(2), of i p k] assms(3) by (cases "i = j") auto
next
  fix j p assume "m j = None" "m' = m(j \<mapsto> (p, Open 0))"
  then show ?thesis using assms(3) by (cases "i = j") auto
qed

lemma cases_answers:
  assumes "case_step\<^sup>*\<^sup>* m m'" "plans_ok m" "m i = Some c"
  shows "plans_ok m' \<and> (m' i = Some c \<or> (\<exists>c'. m' i = Some c' \<and> answers_left (m' i) < answers_left (m i)))"
  using assms
proof (induction rule: rtranclp_induct)
  case (step m' m'')
  then have ok: "plans_ok m'" and c: "m' i = Some c \<or> (\<exists>c'. m' i = Some c' \<and> answers_left (m' i) < answers_left (m i))" by blast+
  obtain c' where c': "m' i = Some c'" using c by blast
  have "m'' i \<noteq> None" using step(2) c' by (auto elim!: case_step_E)
  with case_step_answers[OF step(2) ok c'] case_step_plans[OF step(2) ok] c c' step(5) show ?case by auto
qed simp

lemma execution_plans: "execution_ok E db \<Longrightarrow> plans_ok (cases_in db)"
proof -
  assume ok: "execution_ok E db"
  have "well_routed acts \<and> acts \<noteq> [] \<and> (\<forall>k. s = Open k \<longrightarrow> k < length acts)" if c: "cases_in db i = Some (Some acts, s)" for i acts s
  proof -
    from c obtain q l where q: "map_of (cr_assignments (core_of db)) i = Some (q, l)" "plan (core_of db) q = Some acts" "s = stage_of (cr_instances (core_of db)) i l"
      by (auto simp: cases_in_def cases_of_def)
    from map_of_SomeD[OF q(1)] have m: "(i, q, l) \<in> set (cr_assignments (core_of db))" by simp
    have "positions_ok (core_of db)" using execution_okD(2)[OF ok] by (simp add: core_ok_def)
    from positions_okD[OF this m q(2)] have "k < length acts" if "s = Open k" for k
      using that q(3) by (cases l) (auto simp: stage_of_def[of _ _ Done] stage_of_def[of _ _ Void] dest: stage_of_path)
    with plan_ok[OF execution_okD(2)[OF ok] q(2)] show ?thesis by blast
  qed
  then show ?thesis unfolding plans_ok_def by blast
qed

end
