(* ===== verification/History.thy ===== *)
theory History
  imports Runs "HOL-Library.Sublist"
begin

text \<open>
  What a run only adds to: published revisions, the participants' answers, the owner's actions, the
  evidence chain and the sealed manifests. From this and the refinement, a command that was accepted
  once is refused for ever.
\<close>

section \<open>Append-only tables\<close>

definition handle_key :: "assignment_row \<Rightarrow> string \<times> string" where
  "handle_key a = (pa_id a, pa_handleDigest a)"

definition grows :: "engine_db \<Rightarrow> engine_db \<Rightarrow> bool" where
  "grows db db' \<longleftrightarrow> prefix (ws_revisions (db_workspace db)) (ws_revisions (db_workspace db')) \<and>
     prefix (map handle_key (db_assignments db)) (map handle_key (db_assignments db')) \<and>
     prefix (db_singleResponses db) (db_singleResponses db') \<and> prefix (db_revisions db) (db_revisions db') \<and> prefix (db_responses db) (db_responses db') \<and>
     prefix (db_requestEvents db) (db_requestEvents db') \<and> prefix (lg_links (db_ledger db)) (lg_links (db_ledger db')) \<and>
     prefix (db_manifests db) (db_manifests db')"

lemma grows_refl [simp]: "grows db db"
  by (simp add: grows_def)

lemma grows_trans: "grows db db1 \<Longrightarrow> grows db1 db' \<Longrightarrow> grows db db'"
  unfolding grows_def by (meson prefix_order.trans)

lemma appendEvent_links: "appendEvent H actor i x L = Inr (e, L') \<Longrightarrow> prefix (lg_links L) (lg_links L')"
  unfolding appendEvent_def by (auto split: option.splits dest!: append_link_links)

lemma open_chain_links [simp]: "lg_links (open_chain k L) = lg_links L"
  by (simp add: open_chain_def)

lemma ledger_run_links: "ledger_run H L L' \<Longrightarrow> prefix (lg_links L) (lg_links L')"
proof (induction rule: ledger_run.induct)
  case (run_append L L1 actor eventId i r L2)
  from prefix_order.trans[OF this(3) appendEvent_links[OF this(2)]] show ?case .
next
  case (run_worker L L1 i eventId r L2)
  have "prefix (lg_links L1) (lg_links L2)" using run_worker(3) unfolding appendWorkerEvent_def by (auto simp: bindE_Inr split: option.splits dest!: append_link_links)
  with run_worker(4) show ?case by (rule prefix_order.trans)
qed simp_all

lemma handle_key_simps [simp]:
  "handle_key (a\<lparr>pa_status := s\<rparr>) = handle_key a" "handle_key (bind_assignment actor now a) = handle_key a"
  "handle_key (a\<lparr>pa_status := s, pa_completedAt := t\<rparr>) = handle_key a"
  by (simp_all add: handle_key_def bind_assignment_def)

lemma handle_key_if [simp]: "(\<And>a. handle_key (f a) = handle_key a) \<Longrightarrow> map (handle_key \<circ> (\<lambda>a. if P a then f a else a)) A = map handle_key A"
  by simp

lemma single_grows: "issue_single E D actor input db = Inr (x, db') \<Longrightarrow> grows db db'"
  by (erule issue_single_E, drule appendEvent_links) (simp add: grows_def)

lemma published_grows: "issuePublishedRequest E D actor input db = Inr (x, db') \<Longrightarrow> grows db db'"
  by (elim issuePublishedRequest_E issue_revision_E, drule appendEvent_links) (simp add: grows_def)

lemma issue_grows: "issueRequest E D actor payload db = Inr (x, db') \<Longrightarrow> grows db db'"
  unfolding issueRequest_def by (elim bindE_E) (auto split: if_splits elim!: bindE_E intro: published_grows single_grows)

lemma revoke_grows:
  assumes "revoke_request E D actor input now r a db = Inr db'"
  shows "grows db db'"
proof -
  from assms obtain i e L reason where l: "appendEvent (en_hash E) actor (dr_uuid D ''action event'' 0) i (db_ledger db) = Inr (e, L)"
    "db' = (suppressPendingRequestNotifications reason (ra_requestId input) now
       (set_assignment_status (pa_id a) ''revoked'' (set_request_status (ra_requestId input) ''revoked'' db)))\<lparr>db_ledger := L\<rparr>" by (rule revoke_request_E)
  from appendEvent_links[OF l(1)] show ?thesis
    by (simp add: grows_def l(2) suppressPendingRequestNotifications_def set_assignment_status_def set_request_status_def)
qed

lemma reissue_grows: "reissue_request E D actor input now r a db = Inr (x, db') \<Longrightarrow> grows db db'"
  by (elim reissue_request_E) (drule published_grows, simp add: grows_def)

lemma remind_grows: "manual_reminder E D input now r a db = Inr db' \<Longrightarrow> grows db db'"
  unfolding manual_reminder_def by (elim queueNotification_E) (simp add: grows_def)

lemma perform_grows:
  assumes "perform_action E D actor input now r a db = Inr (x, db')"
  shows "grows db db'"
proof -
  from assms obtain d1 d2 where d: "d1 = db \<or> revoke_request E D actor input now r a db = Inr d1"
    "d2 = d1 \<or> (\<exists>y. reissue_request E D actor input now r a d1 = Inr (y, d2))"
    "db' = d2 \<or> (ra_action input = ''remind'' \<and> d2 = db \<and> manual_reminder E D input now r a d2 = Inr db')" by (rule perform_action_E)
  have "grows db d1" using d(1) revoke_grows by (elim disjE) simp_all
  moreover have "grows d1 d2" using d(2) reissue_grows by (elim disjE exE) simp_all
  moreover have "grows d2 db'" using d(3) remind_grows by (elim disjE conjE) simp_all
  ultimately show ?thesis by (blast intro: grows_trans)
qed

lemma action_grows: "requestAction E D actor payload db = Inr (x, db') \<Longrightarrow> grows db db'"
  by (elim requestAction_E applyRequestAction_E) (drule perform_grows, auto simp: grows_def)

lemma bind_grows: "grows db (bind_participant actor now p (open_scheduled p db))"
  by (simp add: grows_def bind_participant_def open_scheduled_def set_assignment_status_def set_request_status_def)

lemma session_grows: "ensure_session E D actor now assurance p db = Inr (s, db') \<Longrightarrow> grows db db'"
  by (elim ensure_session_E) (auto simp: grows_def dest: appendEvent_links)

lemma current_grows: "currentActivity db i now = Inr (c, db') \<Longrightarrow> grows db db'"
  by (elim currentActivity_E) (simp add: grows_def)

lemma open_grows: "openAssignment E D actor payload db = Inr (v, db') \<Longrightarrow> grows db db'"
  by (elim openAssignment_E disjE conjE open_available_E exE) (auto intro: grows_trans[OF grows_trans[OF bind_grows session_grows]] current_grows grows_trans[OF bind_grows session_grows])

lemma complete_grows: "map handle_key (db_assignments (complete_tables s a t db)) = map handle_key (db_assignments db)"
  by (simp add: complete_tables_def close_session_def Let_def)

lemma single_answer_grows: "respond_single E D actor p c i k payload db = Inr (v, db') \<Longrightarrow> grows db db'"
  by (elim respond_single_E, drule appendEvent_links) (simp add: grows_def complete_grows del: map_map)

lemma completed_grows:
  assumes "complete_activity E D actor p w x c i k response revision db = Inr (next1, db1)" "after_submission E D actor p w session next1 db1 = Inr (z, db')"
  shows "grows db db'"
proof -
  have "grows db db1" using assms(1) by (elim complete_activity_E) (drule appendEvent_links, simp add: grows_def)
  moreover from after_submission_E[OF assms(2)] have "grows db1 db'"
  proof (elim disjE exE conjE)
    fix receipt assume "finish_assignment E D actor p w session db1 = Inr (receipt, db')"
    then show ?thesis by (elim finish_assignment_E) (simp add: grows_def complete_grows del: map_map)
  qed simp
  ultimately show ?thesis by (rule grows_trans)
qed

lemma respond_grows:
  assumes "respond E D actor payload db = Inr (v, db')"
  shows "grows db db'"
proof -
  from assms show ?thesis
  proof (rule respond_E, elim disjE exE conjE)
    fix p c i k w z assume "respondToWorkflowActivity E D actor p w c i k payload db = Inr (z, db')"
    then show ?thesis
    proof (rule respondToWorkflowActivity_E)
      fix x v j e L S y db3 intent session
      assume l: "appendEvent (en_hash E) actor (dr_uuid D ''event'' 0) j (db_ledger db) = Inr (e, L)"
        and db3: "db3 = db\<lparr>db_instances := map (open_instance (in_id x) (dr_clock D ''current'')) (db_instances db), db_workspace := (db_workspace db)\<lparr>ws_snapshots := S\<rparr>,
          db_revisions := db_revisions db @ [v], db_ledger := L\<rparr>"
        and d: "(intent = ''save'' \<and> db' = db3 \<and> fst z = Saved) \<or> (intent = ''submit'' \<and> (\<exists>response revision next1 db4.
          complete_activity E D actor p w (open_instance (in_id x) (dr_clock D ''current'') x) c i k response revision db3 = Inr (next1, db4) \<and>
          after_submission E D actor p w session next1 db4 = Inr (z, db')))"
      have "grows db db3" using appendEvent_links[OF l] by (simp add: grows_def db3)
      with d completed_grows show ?thesis by (blast intro: grows_trans)
    qed
  qed (rule single_answer_grows)
qed

lemma step_grows: "execution_step E settings db db' \<Longrightarrow> grows db db'"
proof (induction rule: execution_step.induct)
  case (exec_workspace db W)
  from workspace_step_revisions[OF this] show ?case by (auto simp: grows_def)
next
  case (exec_tenant D actor payload db t W)
  from createTenant_frame[OF this] show ?case by (simp add: grows_def)
next
  case (exec_other db L J T F A)
  then show ?case by (simp add: grows_def ledger_run_links)
qed (auto intro: issue_grows action_grows open_grows respond_grows)

lemma run_grows: "(execution_step E settings)\<^sup>*\<^sup>* db0 db \<Longrightarrow> grows db0 db"
  by (induction rule: rtranclp_induct) (auto intro: grows_trans step_grows)

end
