(* ===== verification/Scenario.thy ===== *)
theory Scenario
  imports Runs
begin

text \<open>
  A small store to evaluate the properties of runs on: one published workflow of two free-form
  activities, one request for it, and its participant at the first activity with an open session.
\<close>

definition demo_engine :: engine_env where
  "demo_engine = \<lparr>en_verifier = demo_env\<lparr>ve_runtime := demo_runtime\<rparr>,
     en_provider = \<lparr>sp_privateJWK = JNull, sp_keyId = ''k1'', sp_certificate = None, sp_keyRecords = [], sp_primaryPublicJWK = JNull\<rparr>,
     en_cipher = demo_cipher, en_outboxSecret = demo_secret, en_contextPolicy = \<lparr>cp_maxSnapshotsPerActivity = 16\<rparr>, en_interactionPolicy = JNull,
     en_digest = id, en_timestamp = toISOString, en_scoreText = (\<lambda>_ _ _ _. [])\<rparr>"

lemma demo_engine_simps [simp]: "en_hash demo_engine = id" "en_runtime demo_engine = demo_runtime"
  by (simp_all add: demo_engine_def demo_env_def demo_primitives_def)

definition demo_snapshot :: published_workflow where
  "demo_snapshot = \<lparr>pd_document = demo_document, pd_definitions = map activity_js (wd_activities demo_document)\<rparr>"

definition demo_revision :: revision_row where
  "demo_revision = \<lparr>wr_id = ''w1'', wr_tenantId = ''t1'', wr_revision = 1, wr_title = ''Training'', wr_purpose = ''Yearly'', wr_activityType = ''workflow'',
     wr_responseMode = ''workflow'', wr_content = JNull, wr_contentHash = [], wr_definitionId = Some ''d1'', wr_snapshot = Some demo_snapshot,
     wr_snapshotHash = (case hashCanonicalJSON id (published_js demo_snapshot) of Inr h \<Rightarrow> Some h | Inl _ \<Rightarrow> None)\<rparr>"

definition demo_request :: request_row where
  "demo_request = \<lparr>rr_id = ''rq1'', rr_tenantId = ''t1'', rr_workflowRevisionId = ''w1'', rr_createdByPrincipalId = ''p1'', rr_purpose = ''Yearly'',
     rr_status = ''in_progress'', rr_issuedAt = 0, rr_scheduledFor = None, rr_dueAt = None, rr_expiresAt = 2000, rr_completedAt = None,
     rr_accessPolicy = JObj [], rr_notificationPolicy = JObj [], rr_profile = None, rr_requester = JNull, rr_admission = None, rr_reissuedFrom = None\<rparr>"

definition demo_assignment :: assignment_row where
  "demo_assignment = \<lparr>pa_id = ''as1'', pa_tenantId = ''t1'', pa_requestId = ''rq1'', pa_handleDigest = replicate 43 (CHR ''h''),
     pa_intendedEmail = ''p@example.org'', pa_principalId = Some ''p1'', pa_participantEmail = Some ''p@example.org'', pa_status = ''in_progress'',
     pa_issuedAt = 0, pa_firstOpenedAt = Some 0, pa_completedAt = None\<rparr>"

definition demo_instance :: "nat \<Rightarrow> activity \<Rightarrow> activity_instance" where
  "demo_instance n a = \<lparr>in_id = ''i'' @ replicate n (CHR ''1''), in_tenantId = ''t1'', in_requestId = ''rq1'', in_assignmentId = ''as1'', in_activityId = a_id a,
     in_ordinal = n, in_definition = a, in_definitionJson = activity_js a, in_definitionHash = [],
     in_status = (if n = 0 then ''available'' else ''pending''), in_availableAt = None, in_openedAt = None, in_completedAt = None\<rparr>"

definition demo_session :: session_row where
  "demo_session = \<lparr>ss_id = ''s1'', ss_assignmentId = ''as1'', ss_principalId = ''p1'', ss_gatewaySessionId = ''s1'', ss_authentication = JNull,
     ss_requestContext = JUndef, ss_startedAt = 0, ss_completedAt = None\<rparr>"

definition demo_store :: engine_db where
  "demo_store = \<lparr>db_workspace = demo_workspace\<lparr>ws_revisions := [demo_revision]\<rparr>, db_requests = [demo_request], db_assignments = [demo_assignment],
     db_instances = map (\<lambda>(n, a). demo_instance n a) (List.enumerate 0 (wd_activities demo_document)), db_sessions = [demo_session],
     db_singleResponses = [], db_revisions = [], db_responses = [], db_jobs = [], db_attempts = [], db_requestEvents = [],
     db_lifecycle = \<lparr>lt_policies = (\<lambda>_ _. None), lt_states = (\<lambda>_. None), lt_ledger = empty_ledger\<rparr>,
     db_telemetry = \<lparr>tt_batches = [], tt_events = [], tt_summaries = [], tt_contexts = [], tt_mediaBatches = [], tt_mediaEvents = [], tt_mediaSummaries = []\<rparr>,
     db_ledger = demo_ledger, db_manifests = [], db_seals = [], db_keys = \<lparr>rg_keys = [], rg_activated = []\<rparr>\<rparr>"

lemma demo_document_published:
  "valid_document demo_runtime id demo_document" "\<exists>h. hashCanonicalJSON id (published_js demo_snapshot) = Inr h"
proof -
  obtain h where h: "validateWorkflowDraft demo_runtime id demo_draft = Inr (demo_document, h)" using demo_document_eq by blast
  then show "valid_document demo_runtime id demo_document" unfolding valid_document_def by blast
  have pj: "published_js demo_snapshot = workflow_js demo_document"
    by (simp add: demo_snapshot_def published_js_def workflow_js_def replace_member_def)
  show "\<exists>h. hashCanonicalJSON id (published_js demo_snapshot) = Inr h" using h unfolding pj validateWorkflowDraft_def
    by (auto simp: Let_def guardE_Inr elim!: bindE_E split: option.splits)
qed

lemma demo_store_workspace: "workspace_ok demo_runtime id (db_workspace demo_store)"
proof -
  have "list_all2 json_of xs (map activity_js xs)" for xs by (induction xs) (simp_all add: activity_defines)
  with demo_document_published have "revision_ok demo_runtime id demo_revision"
    by (auto simp: revision_ok_def demo_revision_def demo_snapshot_def)
  with demo_document_published(1) show ?thesis
    by (simp add: workspace_ok_def demo_store_def demo_workspace_def numbered_def)
qed

lemma demo_rows:
  "map in_activityId (map (\<lambda>(n, a). demo_instance n a) (List.enumerate k xs)) = map a_id xs"
  "map in_ordinal (map (\<lambda>(n, a). demo_instance n a) (List.enumerate k xs)) = [k..<k + length xs]"
  "map in_definition (map (\<lambda>(n, a). demo_instance n a) (List.enumerate k xs)) = xs"
  "map in_id (map (\<lambda>(n, a). demo_instance n a) (List.enumerate k xs)) = map (\<lambda>n. ''i'' @ replicate n (CHR ''1'')) [k..<k + length xs]"
  by (induction xs arbitrary: k) (simp_all add: demo_instance_def upt_conv_Cons del: upt_Suc)

lemma demo_store_path: "on_path (wd_activities demo_document) ''as1'' (db_instances demo_store) 0"
proof -
  let ?I = "map (\<lambda>(n, a). demo_instance n a) (List.enumerate 0 (wd_activities demo_document))"
  have I: "db_instances demo_store = ?I" by (simp add: demo_store_def)
  have "rows_of ''as1'' ?I = ?I" unfolding rows_of_def by (rule filter_True) (auto simp: demo_instance_def)
  moreover have "\<forall>x \<in> set ?I. stage_row 0 x" by (auto simp: demo_instance_def stage_row_def)
  ultimately show ?thesis unfolding on_path_def I by (simp only: demo_rows) simp
qed

lemma demo_store_ids: "distinct (map in_id (db_instances demo_store))"
proof -
  have "db_instances demo_store = map (\<lambda>(n, a). demo_instance n a) (List.enumerate 0 (wd_activities demo_document))" by (simp add: demo_store_def)
  then show ?thesis by (simp only: demo_rows) (simp add: distinct_map inj_on_def)
qed

lemma demo_store_plan: "plan (core_of demo_store) ''rq1'' = Some (wd_activities demo_document)"
  by (simp add: plan_def core_of_def demo_store_def demo_request_def plan_of_revision_def demo_workspace_def demo_revision_def demo_snapshot_def)

lemma demo_store_ok: "execution_ok demo_engine demo_store"
proof -
  have revs: "revisions_ok (cr_revisions (core_of demo_store))" using workspace_revisions_ok[OF demo_store_workspace] by (simp add: core_of_revisions)
  then have ne: "wd_activities demo_document \<noteq> []"
    by (auto simp: revisions_ok_def core_of_def demo_store_def demo_workspace_def demo_revision_def demo_snapshot_def)
  have c: "cr_assignments (core_of demo_store) = [(''as1'', ''rq1'', Live)]" "cr_requests (core_of demo_store) = [(''rq1'', ''w1'', Live)]"
    "cr_sealed (core_of demo_store) = []" "cr_notices (core_of demo_store) = []" "cr_instances (core_of demo_store) = db_instances demo_store"
    by (simp_all add: core_of_def demo_store_def demo_assignment_def demo_request_def life_of_def)
  have "wr_id ` set (cr_revisions (core_of demo_store)) = {''w1''}" by (simp add: core_of_def demo_store_def demo_workspace_def demo_revision_def)
  moreover have "\<forall>x \<in> set (db_instances demo_store). in_assignmentId x = ''as1''" by (auto simp: demo_store_def demo_instance_def)
  ultimately have "keys_ok (core_of demo_store)" using demo_store_ids by (simp add: keys_ok_def c)
  moreover have "positions_ok (core_of demo_store)" using demo_store_path ne by (auto simp: positions_ok_def c demo_store_plan)
  moreover have "\<forall>k. chain_ok id k demo_ledger" unfolding demo_ledger_def by (rule open_chain_ok) (simp_all add: empty_ledger_def[THEN arg_cong[of _ _ lg_heads]])
  ultimately show ?thesis using demo_store_workspace revs
    by (simp add: execution_ok_def core_ok_def sealed_ok_def notices_ok_def c once_ok_def) (simp add: demo_store_def)
qed

section \<open>An owner revokes the request\<close>

definition demo_revoke :: js where
  "demo_revoke = JObj [(''action'', JStr ''revoke''), (''commandId'', JStr ''c1''), (''requestId'', JStr ''rq1''), (''tenantId'', JStr ''t1'')]"

lemma demo_may: "requireTenantPermission 1000 demo_workspace ''p1'' ''t1'' ''request.manage'' = Inr ()"
proof -
  have "hasTenantPermission [''owner''] ''request.manage''" by code_simp
  then show ?thesis by (simp add: requireTenantPermission_def demo_workspace_def current_member_def)
qed

lemma demo_revoked: "\<exists>db'. requestAction demo_engine demo_draws demo_actor demo_revoke demo_store = Inr (Acted ''revoke'' ''rq1'' ''revoked'' False, db') \<and>
  db_assignments db' = [demo_assignment\<lparr>pa_status := ''revoked''\<rparr>]"
proof -
  have v: "validateRequestAction demo_revoke = Inr \<lparr>ra_action = ''revoke'', ra_commandId = ''c1'', ra_requestId = ''rq1'', ra_tenantId = ''t1''\<rparr>" by code_simp
  let ?i = "\<lparr>ei_assignmentId = ''as1'', ei_eventType = ''request.revoked'', ei_payload = JObj [(''commandId'', JStr ''c1''), (''previousStatus'', JStr ''in_progress'')],
     ei_receivedAt = 1000, ei_requestId = ''rq1'', ei_tenantId = ''t1''\<rparr>"
  have "(case appendEvent id demo_actor ''action event'' ?i demo_ledger of Inr _ \<Rightarrow> True | Inl _ \<Rightarrow> False)" by code_simp
  then obtain e L where e: "appendEvent id demo_actor ''action event'' ?i demo_ledger = Inr (e, L)" by (auto split: sum.splits)
  have c: "dr_clock demo_draws k = 1000" "dr_uuid demo_draws k n = k" for k n by (simp_all add: demo_draws_def)
  have a: "requireActor demo_actor = Inr ()" "ac_principalId demo_actor = ''p1''" by (simp_all add: requireActor_def demo_actor_def)
  have w: "requireTenantPermission 1000 (db_workspace demo_store) ''p1'' ''t1'' ''request.manage'' = Inr ()"
    using demo_may by (simp add: requireTenantPermission_def demo_store_def)
  have r: "request_of demo_store ''rq1'' ''t1'' = Some (demo_request, demo_assignment)"
    by (simp add: request_of_def demo_store_def demo_request_def demo_assignment_def)
  have s: "rr_status demo_request = ''in_progress''" "pa_id demo_assignment = ''as1''" "db_requestEvents demo_store = []" "db_ledger demo_store = demo_ledger"
    "db_assignments demo_store = [demo_assignment]" by (simp_all add: demo_request_def demo_assignment_def demo_store_def)
  show ?thesis
    by (simp add: requestAction_def v a c w applyRequestAction_def Let_def r s perform_action_def revoke_request_def append_evidence_def
      suppressPendingRequestNotifications_def set_assignment_status_def set_request_status_def e fresh_def)
qed

section \<open>The participant saves an answer\<close>

definition demo_assurance :: evaluation where
  "demo_assurance = \<lparr>ev_ageSeconds = None, ev_evaluatedAt = ''1970-01-01T00:00:01.000Z'', ev_observation = \<lparr>ob_authenticatedAt = Some ''1970-01-01T00:15:00.000Z'',
     ob_method = ''password'', ob_provenance = None, ob_provider = Some ''local''\<rparr>, ev_policy = \<lparr>au_acceptedMethods = [''any_verified''], au_maximumAgeSeconds = None\<rparr>,
     ev_reason = None, ev_satisfied = True\<rparr>"

definition demo_answer :: js where
  "demo_answer = JObj [(''handle'', JStr (replicate 43 (CHR ''h''))), (''commandId'', JStr ''c2''), (''interactionId'', JStr ''s1''),
     (''intent'', JStr ''save''), (''response'', JStr ''Because.'')]"

lemma demo_answer_checked:
  "requireParticipant demo_actor = Inr ''p@example.org''" "digestHandle demo_engine (get demo_answer ''handle'') = Inr (replicate 43 (CHR ''h''))"
  "boundedToken (get demo_answer ''commandId'') ''commandId'' 128 = Inr ''c2''" "boundedToken (get demo_answer ''interactionId'') ''interactionId'' 128 = Inr ''s1''"
  "sanitizeClientContext (get demo_answer ''clientContext'') = Inr JUndef" "authorizeParticipant demo_assignment demo_actor = Inr ()"
  "assertAssignmentAvailable demo_assignment demo_request 1000 = Inr ()" "intent_of demo_answer = Inr ''save''"
  "get demo_answer ''activityId'' = JUndef" by code_simp+

lemma demo_answer_valid:
  "requireAuthenticationAssurance demo_runtime (rr_accessPolicy demo_request) (actorSnapshot demo_actor) 1000 = Inr demo_assurance"
  "validateActivityResponse (demo_form ''one'') (get demo_answer ''response'') = Inr \<lparr>r_display = Text ''Because.'', r_outcome = ''submitted'', r_result = None, r_value = V_text ''Because.''\<rparr>"
  unfolding demo_assurance_def demo_form_def by code_simp+

lemma demo_answered: "\<exists>v db'. respond demo_engine demo_draws demo_actor demo_answer demo_store = Inr (v, db')"
proof -
  let ?x = "demo_instance 0 (demo_form ''one'')" and ?p = "\<lparr>pn_assignment = demo_assignment, pn_request = demo_request, pn_revision = demo_revision, pn_tenantName = ''Acme''\<rparr>"
  note acts = demo_activities
  have x: "available_instance (db_instances demo_store) ''as1'' = Some ?x"
    using on_path_available[OF demo_store_path] acts by (simp add: rows_of_def demo_store_def demo_instance_def)
  have c: "dr_clock demo_draws k = 1000" "dr_uuid demo_draws k n = k" for k n by (simp_all add: demo_draws_def)
  have p: "assignmentForHandle demo_store (replicate 43 (CHR ''h'')) = Inr ?p"
    by (simp add: assignmentForHandle_def demo_store_def demo_assignment_def demo_request_def demo_revision_def demo_workspace_def)
  have s: "open_interaction demo_store ''s1'' ''as1'' ''p1'' = Inr demo_session"
    by (simp add: open_interaction_def open_sessions_def demo_store_def demo_session_def)
  let ?o = "open_instance (in_id ?x) 1000 ?x"
  let ?r = "submission_of \<lparr>r_display = Text ''Because.'', r_outcome = ''submitted'', r_result = None, r_value = V_text ''Because.''\<rparr>"
  let ?i = "\<lparr>ei_assignmentId = ''as1'', ei_eventType = ''activity.response.saved'',
         ei_payload = JObj [(''authenticationAssurance'', evaluation_js demo_assurance), (''activity'', activity_ref ?o), (''clientContext'', JUndef),
           (''interactionId'', JStr ''s1''), (''response'', submission_js demo_engine ?r), (''responseRevision'', JInt 1), (''responseRevisionId'', JStr ''response revision'')],
         ei_receivedAt = 1000, ei_requestId = ''rq1'', ei_tenantId = ''t1''\<rparr>"
  have "(case appendEvent id demo_actor ''event'' ?i demo_ledger of Inr _ \<Rightarrow> True | Inl _ \<Rightarrow> False)" unfolding demo_assurance_def demo_form_def by code_simp
  then obtain e L where e: "appendEvent id demo_actor ''event'' ?i demo_ledger = Inr (e, L)" by (auto split: sum.splits)
  have "(case request_access_js (rr_accessPolicy demo_request) of Inr _ \<Rightarrow> True | Inl _ \<Rightarrow> False)" by code_simp
  then obtain ac where ac: "request_access_js (rr_accessPolicy demo_request) = Inr ac" by (auto split: sum.splits)
  have f: "ac_principalId demo_actor = ''p1''" "pa_id demo_assignment = ''as1''" "pa_status demo_assignment = ''in_progress''" "pa_requestId demo_assignment = ''rq1''"
    "pa_tenantId demo_assignment = ''t1''" "wr_snapshot demo_revision = Some demo_snapshot" "db_revisions demo_store = []" "db_ledger demo_store = demo_ledger"
    "in_definition ?o = (demo_form ''one'')" "activity_type (a_content (demo_form ''one'')) = ''free_form''"
    by (simp_all add: demo_actor_def demo_assignment_def demo_revision_def demo_store_def demo_instance_def open_instance_def demo_form_def demo_answer_def)
  obtain cu db1 where cu: "currentActivity demo_store ''as1'' 1000 = Inr (cu, db1)" "cu_instance cu = ?o"
    "db1 = demo_store\<lparr>db_instances := map (open_instance (in_id ?x) 1000) (db_instances demo_store)\<rparr>"
    by (simp add: currentActivity_def x Let_def)
  have k: "checked_response demo_engine demo_draws demo_actor ?p ?o ''save'' demo_answer db1 = Inr ((?r, demo_assurance), db1)"
    by (simp add: checked_response_def Let_def f c demo_answer_valid)
  have n: "next_response_revision db1 (in_id ?o) = 1" by (simp add: next_response_revision_def cu(3) f)
  obtain db3 where r: "insert_revision_row demo_engine demo_draws demo_actor ?p ?o ''save'' ''c2'' ''s1'' JUndef ?r demo_assurance db1 = Inr (1, db3)"
    using e by (simp add: insert_revision_row_def Let_def n f c append_evidence_def) (simp add: cu(3) f)
  have w: "\<exists>view. workflowParticipantProjection demo_engine ?p demo_snapshot z cu' = Inr view" for z cu'
    by (simp add: workflowParticipantProjection_def Let_def ac)
  then obtain view where v: "workflowParticipantProjection demo_engine ?p demo_snapshot (ss_id demo_session, ss_startedAt demo_session)
      (cu\<lparr>cu_savedResponse := sb_value ?r, cu_savedLabel := JStr (display_text demo_engine (sb_display ?r))\<rparr>) = Inr view" by blast
  have "respondToWorkflowActivity demo_engine demo_draws demo_actor ?p demo_snapshot ''c2'' ''s1'' JUndef demo_answer demo_store = Inr ((Saved, view), db3)"
    by (simp add: respondToWorkflowActivity_def Let_def f c s cu(1,2) demo_answer_checked k r v)
  then show ?thesis
    by (simp add: respond_def demo_answer_checked p f c demo_answer_valid Let_def)
qed

end
