(* ===== verification/Guarantees.thy ===== *)
theory Guarantees
  imports History Scenario
begin

text \<open>What holds in every state the store reaches, over the operations as they are written.\<close>

section \<open>Helpers\<close>

lemma row_in_core:
  assumes "execution_ok E db" "a \<in> set (db_assignments db)"
  obtains r where "r \<in> set (db_requests db)" "rr_id r = pa_requestId a" "life_of (rr_status r) = life_of (pa_status a)"
    "(pa_id a, pa_requestId a, life_of (pa_status a)) \<in> set (cr_assignments (core_of db))"
proof -
  have m: "(pa_id a, pa_requestId a, life_of (pa_status a)) \<in> set (cr_assignments (core_of db))" using assms(2) by (auto simp: core_of_def)
  have "keys_ok (core_of db)" using execution_okD(2)[OF assms(1)] by (simp add: core_ok_def)
  from keys_joined[OF this m] obtain w where "(pa_requestId a, w, life_of (pa_status a)) \<in> set (cr_requests (core_of db))" by blast
  then obtain r where "r \<in> set (db_requests db)" "rr_id r = pa_requestId a" "life_of (rr_status r) = life_of (pa_status a)" by (auto simp: core_of_def)
  with that m show ?thesis by blast
qed

lemma case_of_row:
  assumes "execution_ok E db" "a \<in> set (db_assignments db)"
  shows "cases_in db (pa_id a) = Some (plan (core_of db) (pa_requestId a), stage_of (db_instances db) (pa_id a) (life_of (pa_status a)))"
proof -
  have m: "(pa_id a, pa_requestId a, life_of (pa_status a)) \<in> set (cr_assignments (core_of db))" using assms(2) by (auto simp: core_of_def)
  have "keys_ok (core_of db)" using execution_okD(2)[OF assms(1)] by (simp add: core_ok_def)
  from cases_of_mem[OF this m] show ?thesis by (simp add: cases_in_def) (simp add: core_of_def)
qed

lemma plan_of_row:
  assumes "execution_ok E db" "r \<in> set (db_requests db)" "w \<in> set (ws_revisions (db_workspace db))" "wr_id w = rr_workflowRevisionId r"
  shows "plan (core_of db) (rr_id r) = map_option (\<lambda>p. wd_activities (pd_document p)) (wr_snapshot w)"
proof -
  have k: "keys_ok (core_of db)" and v: "revisions_ok (cr_revisions (core_of db))" using execution_okD(2)[OF assms(1)] by (simp_all add: core_ok_def)
  have "(rr_id r, rr_workflowRevisionId r, life_of (rr_status r)) \<in> set (cr_requests (core_of db))" using assms(2) by (auto simp: core_of_def)
  from plan_mem[OF k this] plan_of_revision_mem[OF v, of w] assms(3,4) show ?thesis by (simp add: core_of_revisions)
qed

text \<open>An answer is accepted only while the case of its assignment is open.\<close>

lemma answered_open:
  assumes "execution_ok E db" "respond E D actor payload db = Inr z"
  obtains digest p k where "digestHandle E (get payload ''handle'') = Inr digest" "assignmentForHandle db digest = Inr p"
    "cases_in db (pa_id (pn_assignment p)) = Some (plan (core_of db) (pa_requestId (pn_assignment p)), Open k)"
proof -
  obtain v db' where z: "z = (v, db')" by (cases z)
  from assms(2)[unfolded z] obtain digest p where p: "digestHandle E (get payload ''handle'') = Inr digest" "assignmentForHandle db digest = Inr p"
    "assertAssignmentAvailable (pn_assignment p) (pn_request p) (dr_clock D ''now'') = Inr ()" "pa_status (pn_assignment p) \<noteq> ''completed''"
    by (rule respond_E)
  note rows = participation_rows[OF p(2) assms(1)]
  from available_live(1)[OF p(2) assms(1) p(3,4)] case_of_row[OF assms(1) rows(1)] have "life_of (pa_status (pn_assignment p)) = Live"
    using p(3,4) unfolding assertAssignmentAvailable_def by (auto simp: life_of_def elim!: guardE_E)
  with that[OF p(1,2)] case_of_row[OF assms(1) rows(1)] show ?thesis by (simp add: stage_of_def)
qed

lemma find_handle:
  assumes "prefix (map handle_key A) (map handle_key B)" "find (\<lambda>a. pa_handleDigest a = d) A = Some a" "find (\<lambda>a. pa_handleDigest a = d) B = Some b"
  shows "pa_id b = pa_id a"
proof -
  have f: "map_option handle_key (find (\<lambda>a. pa_handleDigest a = d) C) = find (\<lambda>k. snd k = d) (map handle_key C)" for C
    by (induction C) (auto simp: handle_key_def)
  have ap: "find P (xs @ ys) = (case find P xs of Some z \<Rightarrow> Some z | None \<Rightarrow> find P ys)" for P :: "string \<times> string \<Rightarrow> bool" and xs ys
    by (induction xs) auto
  obtain new where n: "map handle_key B = map handle_key A @ new" using assms(1) by (auto elim: prefixE)
  have "find (\<lambda>k. snd k = d) (map handle_key A) = Some (handle_key a)" using f[of A] assms(2) by simp
  then have "map_option handle_key (Some b) = Some (handle_key a)" using f[of B] assms(3) by (simp add: n ap)
  then show ?thesis by (simp add: handle_key_def)
qed

lemma handle_assignment: "assignmentForHandle db d = Inr p \<Longrightarrow> find (\<lambda>a. pa_handleDigest a = d) (db_assignments db) = Some (pn_assignment p)"
  unfolding assignmentForHandle_def by (auto split: option.splits)

lemma cases_plan: "case_step\<^sup>*\<^sup>* m m' \<Longrightarrow> m i = Some (p, s) \<Longrightarrow> \<exists>s'. m' i = Some (p, s')"
  by (induction rule: rtranclp_induct) (auto elim!: case_step_E)

lemma workflow_command_recorded:
  assumes "respondToWorkflowActivity E D actor p w c i k payload db = Inr (z, db')"
  shows "c \<in> rv_commandId ` set (db_revisions db')"
  using assms
proof (rule respondToWorkflowActivity_E)
  fix x v j e L S y db3 intent session
  assume v: "rv_commandId v = c" and db3: "db3 = db\<lparr>db_instances := map (open_instance (in_id x) (dr_clock D ''current'')) (db_instances db),
      db_workspace := (db_workspace db)\<lparr>ws_snapshots := S\<rparr>, db_revisions := db_revisions db @ [v], db_ledger := L\<rparr>"
    and d: "(intent = ''save'' \<and> db' = db3 \<and> fst z = Saved) \<or> (intent = ''submit'' \<and> (\<exists>response revision next1 db4.
      complete_activity E D actor p w (open_instance (in_id x) (dr_clock D ''current'') x) c i k response revision db3 = Inr (next1, db4) \<and>
      after_submission E D actor p w session next1 db4 = Inr (z, db')))"
  have "grows db3 db'" using d completed_grows grows_refl by blast
  then have "prefix (db_revisions db3) (db_revisions db')" by (simp add: grows_def)
  then have "v \<in> set (db_revisions db')" using set_mono_prefix[of "db_revisions db3"] by (auto simp: db3)
  with v show ?thesis by blast
qed

lemma count_distinct: "distinct xs \<Longrightarrow> count_list xs x = (if x \<in> set xs then 1 else 0)"
  by (induction xs) auto

section \<open>Properties\<close>

text \<open>
  C1. The store refines the life of a request: whatever the order in which companies publish, issue,
  remind, revoke and reissue, participants open and answer, and the other components write, a
  well-formed database stays well-formed (its workflows routed forward, one assignment per request
  with the same fate, every open assignment at exactly one activity, its chains intact), and what
  happened is a path of the machine that issues a case, advances it along its own workflow, and
  seals or withdraws it.
\<close>

theorem store_refines_cases:
  assumes "(execution_step E settings)\<^sup>*\<^sup>* db0 db" "execution_ok E db0"
  shows "execution_ok E db \<and> case_step\<^sup>*\<^sup>* (cases_in db0) (cases_in db)"
  using run_sound[OF assms] by (simp add: sound_step_def)

text \<open>
  C2. A participant is never stuck. In every state the store reaches, an assignment that is neither
  completed nor revoked has a current activity, and whatever the participant answers, the workflow
  names what follows and the routing performs it: the record is complete, or a strictly later
  activity becomes the available one. Neither \<open>activity_unavailable\<close> nor \<open>activity_state_conflict\<close>
  can be thrown there.
\<close>

theorem participant_never_stuck:
  assumes "(execution_step E settings)\<^sup>*\<^sup>* db0 db" "execution_ok E db0" "a \<in> set (db_assignments db)" "pa_status a \<noteq> ''completed''" "pa_status a \<noteq> ''revoked''"
    "r \<in> set (db_requests db)" "rr_id r = pa_requestId a" "w \<in> set (ws_revisions (db_workspace db))" "wr_id w = rr_workflowRevisionId r" "wr_snapshot w = Some p"
  shows "\<exists>c db1. currentActivity db (pa_id a) now = Inr (c, db1) \<and>
    (\<forall>resp t. \<exists>d y I. evaluateNextActivity (wd_activities (pd_document p)) (in_activityId (cu_instance c)) resp = Inr d \<and>
       route_instances (wd_activities (pd_document p)) (pa_id a) d (in_id (cu_instance c)) t (db_instances db1) = Inr (y, I) \<and>
       (case d of None \<Rightarrow> y = None \<and> available_instance I (pa_id a) = None
        | Some e \<Rightarrow> \<exists>z. y = Some z \<and> available_instance I (pa_id a) = Some z \<and> in_activityId z = e \<and> in_ordinal (cu_instance c) < in_ordinal z))"
proof -
  let ?acts = "wd_activities (pd_document p)" and ?i = "pa_id a"
  have ok: "execution_ok E db" by (rule run_ok[OF assms(1,2)])
  have pl: "plan (core_of db) (pa_requestId a) = Some ?acts" using plan_of_row[OF ok assms(6,8,9)] assms(7,10) by simp
  have live: "(?i, pa_requestId a, Live) \<in> set (cr_assignments (core_of db))" using row_in_core[OF ok assms(3)] assms(4,5) by (simp add: life_of_def)
  obtain k where k: "on_path ?acts ?i (db_instances db) k" "k < length ?acts" "available_instance (db_instances db) ?i = Some (rows_of ?i (db_instances db) ! k)"
    and acts: "well_routed ?acts" "distinct (map in_id (db_instances db))"
    by (rule at_position[OF ok live pl])
  let ?x = "rows_of ?i (db_instances db) ! k"
  let ?f = "open_instance (in_id ?x) now" and ?I = "map (open_instance (in_id ?x) now) (db_instances db)"
  obtain c db1 where c: "currentActivity db ?i now = Inr (c, db1)" "cu_instance c = ?f ?x" "db_instances db1 = ?I"
    using k(3) by (simp add: currentActivity_def Let_def)
  have path: "on_path ?acts ?i ?I k" by (rule on_path_open[OF k(1)])
  have ids: "distinct (map in_id ?I)" using acts(2) row_update_ids[OF row_updateI(1)] by metis
  have x: "cu_instance c = rows_of ?i ?I ! k" using c(2) k(2) on_path_length[OF k(1)] by (simp add: rows_of_map[OF row_updateI(1)])
  have o: "in_ordinal (cu_instance c) = k" "in_activityId (cu_instance c) = a_id (?acts ! k)"
    using on_path_nth[OF path k(2)] on_path_row(2)[OF path on_path_nth(1,2)[OF path k(2)]] x by simp_all
  have answers: "\<exists>d y I. evaluateNextActivity ?acts (in_activityId (cu_instance c)) resp = Inr d \<and>
       route_instances ?acts ?i d (in_id (cu_instance c)) t ?I = Inr (y, I) \<and>
       (case d of None \<Rightarrow> y = None \<and> available_instance I ?i = None
        | Some e \<Rightarrow> \<exists>z. y = Some z \<and> available_instance I ?i = Some z \<and> in_activityId z = e \<and> in_ordinal (cu_instance c) < in_ordinal z)" for resp t
  proof -
    have dis: "distinct (map a_id ?acts)" using acts(1) by (simp add: well_routed_def)
    obtain d where d: "evaluateNextActivity ?acts (a_id (?acts ! k)) resp = Inr d" using next_defined[OF dis k(2)] by blast
    show ?thesis
    proof (cases d)
      case None
      from route_ends[OF path k(2) ids, of t] obtain I where "route_instances ?acts ?i None (in_id (cu_instance c)) t ?I = Inr (None, I)" "on_path ?acts ?i I (length ?acts)"
        unfolding x by blast
      with None d o(2) on_path_available show ?thesis by fastforce
    next
      case (Some e)
      with next_forward[OF acts(1) k(2) d] obtain j where j: "index_of e ?acts = Some j" "k < j" by (auto simp: forward_def)
      from route_advances[OF path k(2) ids dis j, of t] obtain y I where y: "route_instances ?acts ?i (Some e) (in_id (cu_instance c)) t ?I = Inr (Some y, I)"
        "on_path ?acts ?i I j" "y \<in> set I" "in_ordinal y = j" "in_assignmentId y = ?i" unfolding x by blast
      have "in_activityId y = e" "rows_of ?i I ! j = y" using on_path_row(2,4)[OF y(2,3,5)] index_of_Some[OF j(1)] y(4) by simp_all
      moreover have "available_instance I ?i = Some (rows_of ?i I ! j)" using on_path_available[OF y(2)] index_of_Some[OF j(1)] by simp
      ultimately show ?thesis using y(1,4) d Some o j(2) by auto
    qed
  qed
  show ?thesis by (rule exI[of _ c], rule exI[of _ db1], rule conjI[OF c(1)], intro allI) (unfold c(3), rule answers)
qed

text \<open>
  C3. Participation ends. Along any run, whatever else happens in between, a case changes at most as
  often as it has answers left: a freshly issued request at most as many times as its workflow has
  activities (withdrawing included), a single-activity request once.
\<close>

theorem participation_ends:
  assumes "\<forall>n < N. execution_step E settings (f n) (f (Suc n))" "execution_ok E (f 0)" "cases_in (f 0) i = Some c"
  shows "card {n. n < N \<and> cases_in (f (Suc n)) i \<noteq> cases_in (f n) i} \<le> answers_left (cases_in (f 0) i)"
proof -
  have "execution_ok E (f m) \<and> (\<exists>c. cases_in (f m) i = Some c) \<and>
     card {n. n < m \<and> cases_in (f (Suc n)) i \<noteq> cases_in (f n) i} + answers_left (cases_in (f m) i) \<le> answers_left (cases_in (f 0) i)"
    if "m \<le> N" for m
    using that
  proof (induction m)
    case 0
    with assms(2,3) show ?case by simp
  next
    case (Suc m)
    let ?C = "\<lambda>m. {n. n < m \<and> cases_in (f (Suc n)) i \<noteq> cases_in (f n) i}"
    from Suc obtain c' where ih: "execution_ok E (f m)" "cases_in (f m) i = Some c'" "card (?C m) + answers_left (cases_in (f m) i) \<le> answers_left (cases_in (f 0) i)"
      by auto
    have "execution_step E settings (f m) (f (Suc m))" using assms(1) Suc(2) by simp
    from step_sound[OF this ih(1)] have s: "execution_ok E (f (Suc m))" "case_step\<^sup>*\<^sup>* (cases_in (f m)) (cases_in (f (Suc m)))" by (simp_all add: sound_step_def)
    note a = cases_answers[OF s(2) execution_plans[OF ih(1)] ih(2)]
    have "?C (Suc m) = (if cases_in (f (Suc m)) i \<noteq> cases_in (f m) i then insert m (?C m) else ?C m)" by (auto simp: less_Suc_eq)
    then have "card (?C (Suc m)) = card (?C m) + (if cases_in (f (Suc m)) i \<noteq> cases_in (f m) i then 1 else 0)" by simp
    with a ih s(1) show ?case by auto
  qed
  then show ?thesis using order.refl[of N] by fastforce
qed


text \<open>
  C5. Every completed assignment has exactly one sealed manifest and no other assignment has one;
  the request of an assignment is completed, or revoked, exactly when the assignment is.
\<close>

theorem sealed_exactly_once:
  assumes "(execution_step E settings)\<^sup>*\<^sup>* db0 db" "execution_ok E db0" "a \<in> set (db_assignments db)"
  shows "length (filter (\<lambda>m. mf_assignmentId m = pa_id a) (db_manifests db)) = (if pa_status a = ''completed'' then 1 else 0) \<and>
    (\<exists>r \<in> set (db_requests db). rr_id r = pa_requestId a \<and> (rr_status r = ''completed'' \<longleftrightarrow> pa_status a = ''completed'') \<and>
       (rr_status r = ''revoked'' \<longleftrightarrow> pa_status a = ''revoked''))"
proof
  have ok: "execution_ok E db" by (rule run_ok[OF assms(1,2)])
  obtain r where r: "r \<in> set (db_requests db)" "rr_id r = pa_requestId a" "life_of (rr_status r) = life_of (pa_status a)"
    and m: "(pa_id a, pa_requestId a, life_of (pa_status a)) \<in> set (cr_assignments (core_of db))" by (rule row_in_core[OF ok assms(3)])
  have k: "keys_ok (core_of db)" and s: "sealed_ok (core_of db)" using execution_okD(2)[OF ok] by (simp_all add: core_ok_def)
  have "pa_id a \<in> set (cr_sealed (core_of db)) \<longleftrightarrow> pa_status a = ''completed''"
    using s m keys_assignment[OF k m] by (auto simp: sealed_ok_def life_of_def split: if_splits)
  moreover have "length (filter (\<lambda>m. mf_assignmentId m = pa_id a) M) = count_list (map mf_assignmentId M) (pa_id a)" for M :: "manifest_row list"
    by (induction M) auto
  moreover have "distinct (map mf_assignmentId (db_manifests db))" using s by (simp add: sealed_ok_def core_of_def)
  ultimately show "length (filter (\<lambda>m. mf_assignmentId m = pa_id a) (db_manifests db)) = (if pa_status a = ''completed'' then 1 else 0)"
    by (simp add: core_of_def count_distinct)
  show "\<exists>r \<in> set (db_requests db). rr_id r = pa_requestId a \<and> (rr_status r = ''completed'' \<longleftrightarrow> pa_status a = ''completed'') \<and>
       (rr_status r = ''revoked'' \<longleftrightarrow> pa_status a = ''revoked'')"
    using r by (intro bexI[of _ r]) (auto simp: life_of_def split: if_splits)
qed

text \<open>
  C6. A request never has more than 32 notices, and the last place is kept for its completion: while
  it is not completed it has at most 31.
\<close>

theorem notices_bounded:
  assumes "(execution_step E settings)\<^sup>*\<^sup>* db0 db" "execution_ok E db0" "r \<in> set (db_requests db)"
  shows "length (request_jobs db (rr_id r)) \<le> NOTIFICATION_JOB_LIMIT \<and>
    (rr_status r \<noteq> ''completed'' \<longrightarrow> length (request_jobs db (rr_id r)) < NOTIFICATION_JOB_LIMIT)"
proof -
  have "notices_ok (core_of db)" using execution_okD(2)[OF run_ok[OF assms(1,2)]] by (simp add: core_ok_def)
  moreover have "(rr_id r, rr_workflowRevisionId r, life_of (rr_status r)) \<in> set (cr_requests (core_of db))" using assms(3) by (auto simp: core_of_def)
  ultimately have "count_list (cr_notices (core_of db)) (Some (rr_id r)) \<le> (if life_of (rr_status r) = Done then 32 else 31)" by (rule notices_okD(2))
  then show ?thesis by (auto simp: count_notices life_of_def NOTIFICATION_JOB_LIMIT_def split: if_splits)
qed

text \<open>
  C7. An answer is accepted once. After \<open>respond\<close> has accepted a command, the same command is refused
  in every later state, whoever repeats it, with any clock and identifiers.
\<close>

theorem answer_accepted_once:
  assumes "execution_ok E db" "respond E D actor payload db = Inr (v, db1)" "(execution_step E settings)\<^sup>*\<^sup>* db1 db2"
  shows "\<not> succeeds (respond E D' actor' payload db2)"
proof
  assume "succeeds (respond E D' actor' payload db2)"
  then obtain v' db3 where again: "respond E D' actor' payload db2 = Inr (v', db3)" by (auto simp: succeeds_def)
  have s1: "sound_step E db db1" by (rule respond_sound[OF assms(2,1)])
  then have ok1: "execution_ok E db1" by (simp add: sound_step_def)
  from sound_step_trans[OF s1 run_sound[OF assms(3)]] have s2: "sound_step E db db2" .
  then have ok2: "execution_ok E db2" by (simp add: sound_step_def)
  have grow: "grows db db2" by (rule grows_trans[OF respond_grows[OF assms(2)] run_grows[OF assms(3)]])
  from assms(2) obtain d p c i k where p: "digestHandle E (get payload ''handle'') = Inr d" "boundedToken (get payload ''commandId'') ''commandId'' 128 = Inr c"
    "assignmentForHandle db d = Inr p"
    "(\<exists>w z. wr_snapshot (pn_revision p) = Some w \<and> respondToWorkflowActivity E D actor p w c i k payload db = Inr (z, db1)) \<or>
     (wr_snapshot (pn_revision p) = None \<and> respond_single E D actor p c i k payload db = Inr (v, db1))" by (rule respond_E)
  from again obtain d' p' c' i' k' where p': "digestHandle E (get payload ''handle'') = Inr d'" "boundedToken (get payload ''commandId'') ''commandId'' 128 = Inr c'"
    "assignmentForHandle db2 d' = Inr p'"
    "(\<exists>w z. wr_snapshot (pn_revision p') = Some w \<and> respondToWorkflowActivity E D' actor' p' w c' i' k' payload db2 = Inr (z, db3)) \<or>
     (wr_snapshot (pn_revision p') = None \<and> respond_single E D' actor' p' c' i' k' payload db2 = Inr (v', db3))" by (rule respond_E)
  have same: "d' = d" "c' = c" using p(1,2) p'(1,2) by simp_all
  have id: "pa_id (pn_assignment p') = pa_id (pn_assignment p)"
    by (rule find_handle[OF _ handle_assignment[OF p(3)] handle_assignment[OF p'(3)[unfolded same]]]) (use grow in \<open>simp add: grows_def\<close>)
  note rows = participation_rows[OF p(3) assms(1)] and rows' = participation_rows[OF p'(3) ok2]
  from s2 have "case_step\<^sup>*\<^sup>* (cases_in db) (cases_in db2)" by (simp add: sound_step_def)
  from cases_plan[OF this case_of_row[OF assms(1) rows(1)]] case_of_row[OF ok2 rows'(1)] id
  have plans: "plan (core_of db2) (pa_requestId (pn_assignment p')) = plan (core_of db) (pa_requestId (pn_assignment p))" by auto
  show False
  proof (cases "wr_snapshot (pn_revision p)")
    case None
    with p(4) have r: "respond_single E D actor p c i k payload db = Inr (v, db1)" by simp
    have "wr_snapshot (pn_revision p') = None" using plans rows(3,4) rows'(3,4) None by simp
    with p'(4) have r': "respond_single E D' actor' p' c' i' k' payload db2 = Inr (v', db3)" by simp
    have "pa_id (pn_assignment p) \<in> pr_assignmentId ` set (db_singleResponses db1)" using r by (elim respond_single_E) simp
    moreover have "prefix (db_singleResponses db1) (db_singleResponses db2)" using run_grows[OF assms(3)] by (simp add: grows_def)
    ultimately have "pa_id (pn_assignment p) \<in> pr_assignmentId ` set (db_singleResponses db2)" using set_mono_prefix by blast
    with r' id show False by (elim respond_single_E) (auto simp: list_ex_iff)
  next
    case (Some w)
    with p(4) obtain z where r: "respondToWorkflowActivity E D actor p w c i k payload db = Inr (z, db1)" by auto
    have "wr_snapshot (pn_revision p') \<noteq> None" using plans rows(3,4) rows'(3,4) Some by (cases "wr_snapshot (pn_revision p')") auto
    with p'(4) obtain w' z' where r': "respondToWorkflowActivity E D' actor' p' w' c' i' k' payload db2 = Inr (z', db3)" by auto
    have "c \<in> rv_commandId ` set (db_revisions db1)" by (rule workflow_command_recorded[OF r])
    moreover have "prefix (db_revisions db1) (db_revisions db2)" using run_grows[OF assms(3)] by (simp add: grows_def)
    ultimately have "c \<in> rv_commandId ` set (db_revisions db2)" using set_mono_prefix by blast
    with r' same show False by (elim respondToWorkflowActivity_E) (auto simp: list_ex_iff)
  qed
qed

text \<open>C8. An owner's action is performed once: after a command was accepted it is refused in every later state.\<close>

theorem action_accepted_once:
  assumes "requestAction E D actor payload db = Inr (x, db1)" "(execution_step E settings)\<^sup>*\<^sup>* db1 db2"
  shows "\<not> succeeds (requestAction E D' actor' payload db2)"
proof
  assume "succeeds (requestAction E D' actor' payload db2)"
  then obtain y db3 where again: "requestAction E D' actor' payload db2 = Inr (y, db3)" by (auto simp: succeeds_def)
  from assms(1) obtain input now where i: "validateRequestAction payload = Inr input" "action_event D actor input now x \<in> set (db_requestEvents db1)"
    by (elim requestAction_E applyRequestAction_E) auto
  from again obtain input' where i': "validateRequestAction payload = Inr input'" "\<not> list_ex (\<lambda>q. qe_idempotencyKey q = ra_commandId input') (db_requestEvents db2)"
    by (elim requestAction_E applyRequestAction_E) auto
  have "prefix (db_requestEvents db1) (db_requestEvents db2)" using run_grows[OF assms(2)] by (simp add: grows_def)
  with i(2) have "action_event D actor input now x \<in> set (db_requestEvents db2)" using set_mono_prefix by blast
  with i i' show False by (auto simp: list_ex_iff action_event_def)
qed


section \<open>Witnesses\<close>

lemma demo_revoke_run:
  obtains db where "requestAction demo_engine demo_draws demo_actor demo_revoke demo_store = Inr (Acted ''revoke'' ''rq1'' ''revoked'' False, db)"
    "db_assignments db = [demo_assignment\<lparr>pa_status := ''revoked''\<rparr>]" "execution_step demo_engine settings demo_store db"
    "(execution_step demo_engine settings)\<^sup>*\<^sup>* demo_store db"
  using demo_revoked exec_action r_into_rtranclp by metis

lemma demo_rows_of_store:
  "demo_assignment \<in> set (db_assignments demo_store)" "demo_request \<in> set (db_requests demo_store)" "demo_revision \<in> set (ws_revisions (db_workspace demo_store))"
  "pa_status demo_assignment \<noteq> ''completed''" "pa_status demo_assignment \<noteq> ''revoked''" "rr_id demo_request = pa_requestId demo_assignment"
  "wr_id demo_revision = rr_workflowRevisionId demo_request" "wr_snapshot demo_revision = Some demo_snapshot" "pa_id demo_assignment = ''as1''"
  by (simp_all add: demo_store_def demo_assignment_def demo_request_def demo_revision_def)

theorem store_refines_cases_witness:
  "\<exists>x db. requestAction demo_engine demo_draws demo_actor demo_revoke demo_store = Inr (x, db) \<and> execution_ok demo_engine db \<and>
     case_step\<^sup>*\<^sup>* (cases_in demo_store) (cases_in db)"
proof -
  obtain db where db: "requestAction demo_engine demo_draws demo_actor demo_revoke demo_store = Inr (Acted ''revoke'' ''rq1'' ''revoked'' False, db)"
    "(execution_step demo_engine (\<lambda>_. None))\<^sup>*\<^sup>* demo_store db" by (rule demo_revoke_run)
  from store_refines_cases[OF db(2) demo_store_ok] db(1) show ?thesis by blast
qed

theorem participant_never_stuck_witness:
  "\<exists>c db1. currentActivity demo_store ''as1'' 1000 = Inr (c, db1) \<and>
    (\<forall>resp t. \<exists>d z. route_instances (wd_activities demo_document) ''as1'' d (in_id (cu_instance c)) t (db_instances db1) = Inr z)"
proof -
  have "pd_document demo_snapshot = demo_document" by (simp add: demo_snapshot_def)
  with participant_never_stuck[OF rtranclp.rtrancl_refl demo_store_ok demo_rows_of_store(1,4,5,2,6,3,7,8), of 1000] show ?thesis
    unfolding demo_rows_of_store(9) by metis
qed

theorem participation_ends_witness:
  "\<exists>f. execution_step demo_engine (\<lambda>_. None) (f 0) (f (Suc 0)) \<and> cases_in (f 0) ''as1'' \<noteq> None \<and>
     card {n. n < Suc 0 \<and> cases_in (f (Suc n)) ''as1'' \<noteq> cases_in (f n) ''as1''} \<le> answers_left (cases_in (f 0) ''as1'')"
proof -
  obtain db where db: "execution_step demo_engine (\<lambda>_. None) demo_store db" by (rule demo_revoke_run)
  obtain f where f: "f 0 = demo_store" "f (Suc 0) = db" by (rule that[of "\<lambda>n. if n = 0 then demo_store else db"]) simp_all
  have s: "\<forall>n < Suc 0. execution_step demo_engine (\<lambda>_. None) (f n) (f (Suc n))" using db f by simp
  have ok: "execution_ok demo_engine (f 0)" using demo_store_ok f(1) by simp
  obtain c where c: "cases_in (f 0) ''as1'' = Some c" using case_of_row[OF demo_store_ok demo_rows_of_store(1)] demo_rows_of_store(9) f(1) by auto
  from participation_ends[OF s ok c] db c f show ?thesis by (intro exI[of _ f]) auto
qed


theorem sealed_exactly_once_witness:
  "\<exists>r \<in> set (db_requests demo_store). rr_id r = ''rq1'' \<and> rr_status r \<noteq> ''completed''"
  using sealed_exactly_once[OF rtranclp.rtrancl_refl demo_store_ok demo_rows_of_store(1)] demo_rows_of_store(4) by (auto simp: demo_assignment_def)

theorem notices_bounded_witness: "length (request_jobs demo_store ''rq1'') < 32"
  using notices_bounded[OF rtranclp.rtrancl_refl demo_store_ok demo_rows_of_store(2)] by (simp add: demo_request_def NOTIFICATION_JOB_LIMIT_def)

theorem answer_accepted_once_witness:
  "\<exists>v db1. respond demo_engine demo_draws demo_actor demo_answer demo_store = Inr (v, db1) \<and>
     \<not> succeeds (respond demo_engine demo_draws demo_actor demo_answer db1)"
proof -
  obtain v db1 where r: "respond demo_engine demo_draws demo_actor demo_answer demo_store = Inr (v, db1)" using demo_answered by blast
  from answer_accepted_once[OF demo_store_ok r rtranclp.rtrancl_refl] r show ?thesis by blast
qed

theorem action_accepted_once_witness:
  "\<exists>x db1. requestAction demo_engine demo_draws demo_actor demo_revoke demo_store = Inr (x, db1) \<and>
     \<not> succeeds (requestAction demo_engine demo_draws demo_actor demo_revoke db1)"
proof -
  obtain x db1 where r: "requestAction demo_engine demo_draws demo_actor demo_revoke demo_store = Inr (x, db1)" using demo_revoked by blast
  from action_accepted_once[OF r rtranclp.rtrancl_refl] r show ?thesis by blast
qed


end
