(* ===== verification/Spec2Isabelle.thy ===== *)
theory Spec2Isabelle
  imports Media Lifecycle Activities Documents Workflow Interaction Admission
    HashChain Boundary EventChain Context Notifications
    Records Certificates EvidenceChecks EvidenceTelemetry Signing Verifier
    Profiles Envelope Inspection Scanning Guarantees
begin

text \<open>
  VASI issues requests to a participant, guides the participant through a workflow of activities,
  records what happens as hash-chained evidence, seals the result and hands out records that a
  third party can verify without the engine. This development models the program's own logic, the
  JavaScript under \<^verbatim>\<open>src/packages\<close> and \<^verbatim>\<open>src/services\<close>, and proves that it is correct.

  \<^bold>\<open>How the program is put together.\<close> The public gateway (Next.js) signs an actor assertion for the
  signed-in person and calls the private ingress; the ingress signs the request for the engine; the
  engine (\<^verbatim>\<open>src/services/engine/server.mjs\<close>) authenticates both, dispatches to a store, and the
  store runs one database transaction: it validates its input with the pure functions of
  \<^verbatim>\<open>src/packages/engine-domain\<close>, changes its tables and appends to a hash chain
  (\<^verbatim>\<open>evidence-events.mjs\<close>). When an assignment ends, a manifest of the record is built and sealed
  (\<^verbatim>\<open>signing-provider.mjs\<close>, \<^verbatim>\<open>src/packages/engine-crypto\<close>). \<^verbatim>\<open>src/packages/evidence-verifier\<close> checks an
  exported record again, from the record alone. The worker delivers notifications and enforces
  retention, and appends to the same chains.

  \<^bold>\<open>Values, errors and state.\<close> A JavaScript value is a \<open>js\<close> (\<open>Prelude\<close>); reading a member of a
  value is \<open>get\<close>, which gives \<open>JUndef\<close> where the source reads \<open>undefined\<close> and the inherited
  function where a name of \<open>Object.prototype\<close> is read. A function that may throw returns
  \<open>error + value\<close>, and each \<open>throw\<close> of the source is a branch with the code of its error class
  and the reason of its message. Stored rows are records, tables are lists or maps, and an
  operation that writes returns the new tables; a thrown error rolls the transaction back, so the
  error branch carries no tables. Numbers are the doubles of JavaScript: whole numbers exactly,
  products and quotients rounded to the nearest double (\<open>Doubles\<close>). Texts are texts below U+0100,
  on which NFC normalisation is the identity and lower-casing is that of Latin-1. Times are whole
  milliseconds; \<open>Dates\<close> and \<open>Calendar\<close> model \<open>toISOString\<close> and prove it inverse to parsing. What
  comes from outside the sources is an argument: SHA-256 and HMAC, Ed25519, X.509 parsing, the URL
  and free-form date parsers, random identifiers and the clock. A theorem states what it needs of
  them as a hypothesis (a sound signature scheme) or gives the collision explicitly in its
  conclusion; witnesses instantiate them with concrete functions.

  \<^bold>\<open>Theories, in the order of their imports.\<close>

  \<^item> \<open>Prelude\<close>, \<open>Dates\<close>, \<open>Calendar\<close>, \<open>Doubles\<close>: values, results, texts, dates, double arithmetic;
    the lemma collections \<open>res_simps\<close> and \<open>res_elims\<close> carry the proofs about throwing functions.
  \<^item> \<open>Crypto\<close> (\<^verbatim>\<open>src/packages/engine-crypto/index.mjs\<close>): \<open>canonicalValue\<close>, \<open>canonicalJSON\<close>, hashes,
    service request signatures, Ed25519 seals. Canonical JSON is injective on what it accepts and
    independent of member order, a hash pins its value, a seal verifies on its manifest only.
    \<open>Certificates\<close> adds the X.509 seals of the same file.
  \<^item> \<open>Normalizer\<close>: the locale of a validator whose output is stored and validated again later;
    interpreted on the retention policy, the assurance policy, the admission, the participant
    context, the delivery evidence and the requester snapshot.
  \<^item> \<open>Telemetry\<close>: what the two telemetry replays share, with the locale \<open>credited_clock\<close>,
    interpreted in \<open>Media\<close> (\<^verbatim>\<open>media.mjs\<close>) and \<open>Interaction\<close> (\<^verbatim>\<open>interaction.mjs\<close>). The interval merge
    counts each millisecond once, completion is justified by recorded events, times are ordered.
  \<^item> \<open>Activities\<close>, \<open>Documents\<close>, \<open>Workflow\<close> (\<^verbatim>\<open>activities.mjs\<close>, \<^verbatim>\<open>workflow.mjs\<close>): the activity types,
    responses and scoring, the stored documents, roles, assurance and routing. A validated workflow
    moves forward and ends; every accepted response has an outcome the routing can test; the
    participant's view does not depend on the answer key.
  \<^item> \<open>Lifecycle\<close> (\<^verbatim>\<open>lifecycle.mjs\<close>), \<open>Admission\<close> (\<^verbatim>\<open>productization.mjs\<close>, \<^verbatim>\<open>tenant-admission.mjs\<close>),
    \<open>Context\<close> (\<^verbatim>\<open>context.mjs\<close>), \<open>Notifications\<close> (\<^verbatim>\<open>notifications.mjs\<close>): the remaining domain modules.
    Retention deadlines never run backwards; the production guard passes exactly on eight approved
    gates; stored contexts and delivery evidence are accepted when they are read back.
  \<^item> \<open>Profiles\<close> (\<^verbatim>\<open>productization.mjs\<close>, \<^verbatim>\<open>tenant-policy.mjs\<close>): tenant and installation profiles, the
    configuration of integrations, and the quotas. A passed capacity check leaves the tenant within
    its limits, and an integration only sends to the destinations the installation lists.
  \<^item> \<open>HashChain\<close>: the append of a row to a chain and its locale \<open>hash_chain\<close> (equal heads mean equal
    chains, or a collision is exhibited). \<open>EventChain\<close> (\<^verbatim>\<open>evidence-events.mjs\<close>, \<^verbatim>\<open>worker.mjs\<close>,
    \<^verbatim>\<open>lifecycle-store.mjs\<close>, \<^verbatim>\<open>product-store.mjs\<close>) has the four chains that use it and an inductive
    run of the evidence ledger; every run keeps every chain sound.
  \<^item> \<open>Boundary\<close> (\<^verbatim>\<open>engine-contracts\<close>, \<^verbatim>\<open>engine-client\<close>, \<^verbatim>\<open>private-ingress\<close>, \<^verbatim>\<open>server.mjs\<close>): the path of
    a request to a handler. No result without both authentications, no assertion accepted twice.
  \<^item> \<open>Records\<close> (\<^verbatim>\<open>requester.mjs\<close>, \<^verbatim>\<open>evidence.mjs\<close>, \<^verbatim>\<open>authentication-assurance.mjs\<close>), \<open>Signing\<close>
    (\<^verbatim>\<open>signing-provider.mjs\<close>): the parts and the seals of a record.
  \<^item> \<open>EvidenceChecks\<close>, \<open>EvidenceTelemetry\<close>, \<open>Verifier\<close> (\<^verbatim>\<open>evidence-verifier/index.mjs\<close>): the offline
    verifier with each of its member checks. What the engine appends and seals verifies; a verified
    record has a sound chain and a seal over its manifest, was issued under a complete admission,
    and its material events meet the assurance policy. The verifier's walk over a record is
    another interpretation of \<open>hash_chain\<close>.

  \<^item> \<open>Envelope\<close> (\<^verbatim>\<open>engine-crypto\<close>): the encryption of what waits in the outbox, and its round trip.
  \<^item> \<open>Workspace\<close> (\<^verbatim>\<open>workflow-store.mjs\<close>, with the artifact and media bindings of \<^verbatim>\<open>artifact-store.mjs\<close>
    and \<^verbatim>\<open>media-store.mjs\<close>): a company's control plane. \<open>workspace_step\<close> is any of its operations;
    every published revision stays a validated document pinned by its hash, members cannot remove
    the last owner, and an edit based on an old version is refused.
  \<^item> \<open>Inspection\<close> (\<^verbatim>\<open>document-inspection.mjs\<close>): the inspection of an uploaded document chunk by chunk,
    and its equivalence with the inspection of the whole document. \<open>Scanning\<close>
    (\<^verbatim>\<open>integration-gateway-scan-client.mjs\<close>): the signed malware scan command and its answer.
  \<^item> \<open>RecordLifecycle\<close> (\<^verbatim>\<open>lifecycle-store.mjs\<close>), \<open>EvidenceTables\<close> (the loads of the media,
    interaction and context stores), \<open>Requests\<close>, \<open>Participation\<close> (\<^verbatim>\<open>evidence-store.mjs\<close>): the store's
    state \<open>engine_db\<close>, one record with a field per table, and its operations \<open>createTenant\<close>,
    \<open>issueRequest\<close>, \<open>requestAction\<close>, \<open>openAssignment\<close> and \<open>respond\<close>, each from its input to the new
    tables, with every guard, unique key, evidence event, queued notice and seal on the way. Random
    identifiers and clock readings are the argument \<open>draws\<close>, labelled by where they are drawn.
  \<^item> \<open>Positions\<close>, \<open>Effects\<close>, \<open>Submissions\<close>: what these operations do, as elimination rules; the rows
    of an assignment against the position of its participant in the workflow (\<open>on_path\<close>).
  \<^item> \<open>Cases\<close>: the specification. A case is the plan of a request and its stage, and \<open>case_step\<close>
    issues it, advances it along its own workflow, seals or withdraws it. \<open>core_ok\<close> is the part of
    the database invariant it rests on: keys, the agreement of requests and assignments, positions,
    sealed manifests and the number of notices.
  \<^item> \<open>Execution\<close>, \<open>Runs\<close>: each operation keeps \<open>execution_ok\<close> and is a path of \<open>case_step\<close>;
    \<open>execution_step\<close> is any operation, or a write of the telemetry, lifecycle and worker components
    that keeps to the event ledger and their own tables. \<open>History\<close>: what a run only adds to.
  \<^item> \<open>Guarantees\<close>: the properties of runs. The store refines the abstract life of requests, a
    participant is never stuck and participation ends, closed records are final and sealed exactly
    once, commands are accepted once, notices are bounded and history is append-only. \<open>Scenario\<close> is
    the concrete store on which they are evaluated.

  \<^bold>\<open>Recursion and bounds.\<close> Loops are recursion on the list they walk, so every definition is
  total; the one loop that is not structural, the search for PEM blocks, has a measure. No fuel is
  used. The walk of a participant through a workflow is bounded by the number of its activities,
  which is what its termination theorem states.

  \<^bold>\<open>Not modelled.\<close> Sockets, HTTP clients and servers beyond what decides a request, SQL text
  (its effect on the modelled tables is), process start-up, the TypeScript gateway and its React
  interface, deployment files and operational scripts, PDF rendering, and the packages that only
  describe a release (pilot evidence, readiness dossier, backup custody).
\<close>

end
